(* ===== verification/Prelude.thy ===== *)
theory Prelude
  imports Complex_Main
begin

text \<open>
  What every component shares: the fact collections of the development, the part of Go's
  \<open>strings\<close> and \<open>strconv\<close> packages that the program calls, 64-bit integers with Go's wrap-around,
  and generic lemmas on lists used as tables.

  A Go string is a sequence of bytes, here a \<^typ>\<open>string\<close>. A Go \<open>int\<close> or \<open>int64\<close> (both are 64 bits
  wide on the platforms the program is built for) is an \<^typ>\<open>int\<close>; the results of Go's own additions,
  subtractions and multiplications pass through \<open>wrap64\<close>.
\<close>

named_theorems frame "an operation leaves this part of the state alone"
named_theorems err_simps "the value of an operation on one of its error branches"
named_theorems inv_intros "an operation keeps an invariant"


section \<open>64-bit integers\<close>

definition wrap64 :: "int \<Rightarrow> int" where
  "wrap64 x = (x + 2 ^ 63) mod 2 ^ 64 - 2 ^ 63"

definition int64 :: "int \<Rightarrow> bool" where
  "int64 x \<longleftrightarrow> - (2 ^ 63) \<le> x \<and> x < 2 ^ 63"

lemma int64_wrap64 [simp]: "int64 (wrap64 x)"
proof -
  have "0 \<le> (x + 2 ^ 63) mod 2 ^ 64" and "(x + 2 ^ 63) mod 2 ^ 64 < (2 ^ 64 :: int)"
    by simp_all
  then show ?thesis
    unfolding int64_def wrap64_def by simp
qed

lemma wrap64_id [simp]: "int64 x \<Longrightarrow> wrap64 x = x"
  by (simp add: int64_def wrap64_def)

lemma wrap64_cong: "\<exists>k. wrap64 x = x + k * 2 ^ 64"
proof -
  have "(x + 2 ^ 63) mod 2 ^ 64 = (x + 2 ^ 63) - 2 ^ 64 * ((x + 2 ^ 63) div 2 ^ 64)"
    by (rule minus_mult_div_eq_mod [symmetric])
  then have "wrap64 x = x + (- ((x + 2 ^ 63) div 2 ^ 64)) * 2 ^ 64"
    by (simp add: wrap64_def algebra_simps)
  then show ?thesis by blast
qed

lemma wrap64_wrap64_add: "wrap64 (wrap64 x + y) = wrap64 (x + y)"
proof -
  obtain k where "wrap64 x = x + k * 2 ^ 64" using wrap64_cong by blast
  then have "wrap64 x + y + 2 ^ 63 = (x + y + 2 ^ 63) + k * 2 ^ 64" by simp
  then have "(wrap64 x + y + 2 ^ 63) mod 2 ^ 64 = (x + y + 2 ^ 63) mod 2 ^ 64"
    by (metis mod_mult_self1)
  then show ?thesis by (simp add: wrap64_def)
qed

lemma int64_minus: "int64 x \<Longrightarrow> x \<noteq> - (2 ^ 63) \<Longrightarrow> int64 (- x)"
  by (simp add: int64_def)

lemma wrap64_minus [simp]: "int64 x \<Longrightarrow> x \<noteq> - (2 ^ 63) \<Longrightarrow> wrap64 (- x) = - x"
  by (simp add: int64_minus)

text \<open>Go's division truncates towards zero.\<close>

definition go_div :: "int \<Rightarrow> int \<Rightarrow> int" where
  "go_div a b = sgn a * sgn b * (\<bar>a\<bar> div \<bar>b\<bar>)"

lemma go_div_nonneg: "0 \<le> a \<Longrightarrow> 0 < b \<Longrightarrow> go_div a b = a div b"
  by (cases "a = 0") (simp_all add: go_div_def)


section \<open>Strings\<close>

definition HasPrefix :: "string \<Rightarrow> string \<Rightarrow> bool" where
  "HasPrefix s p = (take (length p) s = p)"

definition HasSuffix :: "string \<Rightarrow> string \<Rightarrow> bool" where
  "HasSuffix s p = (length p \<le> length s \<and> drop (length s - length p) s = p)"

definition TrimPrefix :: "string \<Rightarrow> string \<Rightarrow> string" where
  "TrimPrefix s p = (if HasPrefix s p then drop (length p) s else s)"

definition TrimSuffix :: "string \<Rightarrow> string \<Rightarrow> string" where
  "TrimSuffix s p = (if HasSuffix s p then take (length s - length p) s else s)"

text \<open>\<open>strings.Contains\<close>: some suffix of the string starts with the pattern.\<close>

fun Contains :: "string \<Rightarrow> string \<Rightarrow> bool" where
  "Contains [] p = (p = [])"
| "Contains (c # s) p = (HasPrefix (c # s) p \<or> Contains s p)"

text \<open>\<open>strings.Replace(s, old, new, 1)\<close> with a non-empty \<open>old\<close>: the first occurrence.\<close>

fun Replace1 :: "string \<Rightarrow> string \<Rightarrow> string \<Rightarrow> string" where
  "Replace1 [] p r = []"
| "Replace1 (c # s) p r =
     (if HasPrefix (c # s) p then r @ drop (length p) (c # s) else c # Replace1 s p r)"

text \<open>\<open>strings.Split\<close> with a one-byte separator. Splitting the empty string gives one empty part.\<close>

fun Split :: "char \<Rightarrow> string \<Rightarrow> string list" where
  "Split c [] = [[]]"
| "Split c (x # xs) =
     (if x = c then [] # Split c xs
      else (case Split c xs of [] \<Rightarrow> [[x]] | y # ys \<Rightarrow> (x # y) # ys))"

fun Join :: "char \<Rightarrow> string list \<Rightarrow> string" where
  "Join c [] = []"
| "Join c [x] = x"
| "Join c (x # y # ys) = x @ c # Join c (y # ys)"

definition is_space :: "char \<Rightarrow> bool" where
  "is_space c = (c \<in> {CHR '' '', CHR 0x09, CHR 0x0A, CHR 0x0B, CHR 0x0C, CHR 0x0D})"

definition TrimSpace :: "string \<Rightarrow> string" where
  "TrimSpace s = rev (dropWhile is_space (rev (dropWhile is_space s)))"

definition lower_char :: "char \<Rightarrow> char" where
  "lower_char c = (let n = of_char c :: nat in if 65 \<le> n \<and> n \<le> 90 then char_of (n + 32) else c)"

definition ToLower :: "string \<Rightarrow> string" where
  "ToLower s = map lower_char s"

lemma Split_nonempty [simp]: "Split c s \<noteq> []"
  by (induction s) (auto split: list.splits)

lemma length_Split_pos: "0 < length (Split c s)"
  by simp

lemma Split_no_sep: "c \<notin> set s \<Longrightarrow> Split c s = [s]"
  by (induction s) auto

lemma Split_parts_no_sep: "x \<in> set (Split c s) \<Longrightarrow> c \<notin> set x"
proof (induction s arbitrary: x)
  case Nil
  then show ?case by simp
next
  case (Cons a s)
  obtain y ys where split: "Split c s = y # ys"
    using Split_nonempty list.exhaust by blast
  then have "c \<notin> set y" and "\<And>z. z \<in> set ys \<Longrightarrow> c \<notin> set z"
    using Cons.IH by simp_all
  with Cons.prems split show ?case
    by (auto split: if_splits)
qed

lemma Split_append_sep: "c \<notin> set x \<Longrightarrow> Split c (x @ c # s) = x # Split c s"
  by (induction x) auto

lemma Split_Join:
  "xs \<noteq> [] \<Longrightarrow> (\<And>x. x \<in> set xs \<Longrightarrow> c \<notin> set x) \<Longrightarrow> Split c (Join c xs) = xs"
proof (induction c xs rule: Join.induct)
  case (3 c x y ys)
  then show ?case by (simp add: Split_append_sep)
qed (simp_all add: Split_no_sep)

lemma Join_Split: "Join c (Split c s) = s"
proof (induction s)
  case (Cons a s)
  obtain y ys where split: "Split c s = y # ys"
    using Split_nonempty list.exhaust by blast
  with Cons.IH have "Join c (y # ys) = s" by simp
  with split show ?case by (cases ys) auto
qed simp

lemma HasPrefix_append [simp]: "HasPrefix (p @ s) p"
  by (simp add: HasPrefix_def)

lemma HasPrefix_refl [simp]: "HasPrefix s s"
  by (simp add: HasPrefix_def)

lemma HasPrefix_iff: "HasPrefix s p \<longleftrightarrow> (\<exists>r. s = p @ r)"
  by (metis HasPrefix_append HasPrefix_def append_take_drop_id)

lemma HasSuffix_append [simp]: "HasSuffix (s @ p) p"
  by (simp add: HasSuffix_def)

lemma HasSuffix_iff: "HasSuffix s p \<longleftrightarrow> (\<exists>r. s = r @ p)"
  by (metis HasSuffix_append HasSuffix_def append_take_drop_id)

lemma TrimPrefix_append [simp]: "TrimPrefix (p @ s) p = s"
  by (simp add: TrimPrefix_def)

lemma TrimSuffix_append [simp]: "TrimSuffix (s @ p) p = s"
  by (simp add: TrimSuffix_def)


section \<open>Decimal numerals\<close>

text \<open>\<open>strconv.Itoa\<close>, \<open>strconv.FormatInt(_, 10)\<close> and \<open>fmt.Sprintf("%d")\<close>.\<close>

definition digit_char :: "nat \<Rightarrow> char" where
  "digit_char d = char_of (48 + d)"

fun nat_digits :: "nat \<Rightarrow> string" where
  "nat_digits n = (if n < 10 then [digit_char n] else nat_digits (n div 10) @ [digit_char (n mod 10)])"

declare nat_digits.simps [simp del]

definition Itoa :: "int \<Rightarrow> string" where
  "Itoa i = (if i < 0 then CHR ''-'' # nat_digits (nat (- i)) else nat_digits (nat i))"

text \<open>
  \<open>strconv.ParseInt(s, 10, 64)\<close> and \<open>strconv.Atoi(s)\<close>: an optional sign, then at least one decimal
  digit and nothing else; a value outside 64 bits is an error. On an error the Go functions also
  return a number, which the program uses where it drops the error: 0 for a malformed string, the
  nearest bound for one out of range.
\<close>

definition digit_val :: "char \<Rightarrow> nat option" where
  "digit_val c = (let n = of_char c :: nat in if 48 \<le> n \<and> n \<le> 57 then Some (n - 48) else None)"

fun parse_digits :: "nat \<Rightarrow> string \<Rightarrow> nat option" where
  "parse_digits acc [] = Some acc"
| "parse_digits acc (c # cs) =
     (case digit_val c of None \<Rightarrow> None | Some d \<Rightarrow> parse_digits (10 * acc + d) cs)"

datatype parse_result = ParsedInt int | SyntaxError | RangeError int

definition signed_parse :: "bool \<Rightarrow> string \<Rightarrow> parse_result" where
  "signed_parse neg ds =
     (if ds = [] then SyntaxError
      else case parse_digits 0 ds of
        None \<Rightarrow> SyntaxError
      | Some n \<Rightarrow>
          (if neg then (if int n > 2 ^ 63 then RangeError (- (2 ^ 63)) else ParsedInt (- int n))
           else if int n \<ge> 2 ^ 63 then RangeError (2 ^ 63 - 1) else ParsedInt (int n)))"

definition ParseInt :: "string \<Rightarrow> parse_result" where
  "ParseInt s =
     (case s of
        [] \<Rightarrow> SyntaxError
      | c # cs \<Rightarrow>
          (if c = CHR ''-'' then signed_parse True cs
           else if c = CHR ''+'' then signed_parse False cs
           else signed_parse False s))"

fun parse_value :: "parse_result \<Rightarrow> int" where
  "parse_value (ParsedInt i) = i"
| "parse_value SyntaxError = 0"
| "parse_value (RangeError i) = i"

fun parse_ok :: "parse_result \<Rightarrow> int option" where
  "parse_ok (ParsedInt i) = Some i"
| "parse_ok SyntaxError = None"
| "parse_ok (RangeError i) = None"

lemma of_char_digit_char: "d < 10 \<Longrightarrow> (of_char (digit_char d) :: nat) = 48 + d"
  by (simp add: digit_char_def)

lemma digit_val_digit_char [simp]: "d < 10 \<Longrightarrow> digit_val (digit_char d) = Some d"
  by (simp add: digit_val_def of_char_digit_char)

lemma digit_char_not_sign:
  assumes "d < 10"
  shows "digit_char d \<noteq> CHR ''-''" and "digit_char d \<noteq> CHR ''+''"
proof -
  have "(of_char (CHR ''-'') :: nat) = 45" and "(of_char (CHR ''+'') :: nat) = 43"
    by simp_all
  with of_char_digit_char [OF assms]
  show "digit_char d \<noteq> CHR ''-''" and "digit_char d \<noteq> CHR ''+''" by auto
qed

lemma parse_digits_append:
  "parse_digits acc (xs @ ys) =
     (case parse_digits acc xs of None \<Rightarrow> None | Some a \<Rightarrow> parse_digits a ys)"
  by (induction acc xs rule: parse_digits.induct) (auto split: option.splits)

lemma parse_digits_nat_digits: "parse_digits 0 (nat_digits n) = Some n"
proof (induction n rule: nat_digits.induct)
  case (1 n)
  show ?case
  proof (cases "n < 10")
    case True
    then show ?thesis by (simp add: nat_digits.simps [of n])
  next
    case False
    with "1.IH" show ?thesis
      by (simp add: nat_digits.simps [of n] parse_digits_append)
  qed
qed

lemma nat_digits_head: "\<exists>d ds. nat_digits n = digit_char d # ds \<and> d < 10"
proof (induction n rule: nat_digits.induct)
  case (1 n)
  show ?case
  proof (cases "n < 10")
    case True
    then show ?thesis by (auto simp: nat_digits.simps [of n])
  next
    case False
    with "1.IH" obtain d ds where "nat_digits (n div 10) = digit_char d # ds" and "d < 10"
      by blast
    with False show ?thesis by (auto simp: nat_digits.simps [of n])
  qed
qed

lemma nat_digits_nonempty [simp]: "nat_digits n \<noteq> []"
  using nat_digits_head [of n] by auto

lemma ParseInt_Itoa [simp]:
  assumes "int64 i"
  shows "ParseInt (Itoa i) = ParsedInt i"
proof (cases "i < 0")
  case True
  with assms have "\<not> int (nat (- i)) > 2 ^ 63" by (simp add: int64_def)
  with True show ?thesis
    by (simp add: Itoa_def ParseInt_def signed_parse_def parse_digits_nat_digits)
next
  case False
  obtain d ds where d: "nat_digits (nat i) = digit_char d # ds" "d < 10"
    using nat_digits_head by blast
  have "ParseInt (nat_digits (nat i)) = signed_parse False (nat_digits (nat i))"
    using d digit_char_not_sign [OF d(2)] by (simp add: ParseInt_def)
  with False assms show ?thesis
    by (simp add: Itoa_def signed_parse_def parse_digits_nat_digits int64_def)
qed

lemma Itoa_inj: "int64 i \<Longrightarrow> int64 j \<Longrightarrow> Itoa i = Itoa j \<Longrightarrow> i = j"
  by (metis ParseInt_Itoa parse_result.inject(1))


section \<open>Lists used as tables\<close>

text \<open>
  A table is a list of rows in primary-key order. \<open>UPDATE ... WHERE\<close> maps the rows the condition
  selects, \<open>DELETE ... WHERE\<close> drops them, and the query that gorm's \<open>First\<close> sends (\<open>ORDER BY\<close> the
  primary key, \<open>LIMIT 1\<close>) is \<^const>\<open>find\<close>.
\<close>

definition update_where :: "('r \<Rightarrow> bool) \<Rightarrow> ('r \<Rightarrow> 'r) \<Rightarrow> 'r list \<Rightarrow> 'r list" where
  "update_where P f = map (\<lambda>r. if P r then f r else r)"

definition delete_where :: "('r \<Rightarrow> bool) \<Rightarrow> 'r list \<Rightarrow> 'r list" where
  "delete_where P = filter (\<lambda>r. \<not> P r)"

lemma update_where_Nil [simp]: "update_where P f [] = []"
  by (simp add: update_where_def)

lemma update_where_Cons [simp]:
  "update_where P f (r # rs) = (if P r then f r else r) # update_where P f rs"
  by (simp add: update_where_def)

lemma delete_where_Nil [simp]: "delete_where P [] = []"
  by (simp add: delete_where_def)

lemma delete_where_Cons [simp]:
  "delete_where P (r # rs) = (if P r then delete_where P rs else r # delete_where P rs)"
  by (simp add: delete_where_def)

lemma length_update_where [simp]: "length (update_where P f rs) = length rs"
  by (simp add: update_where_def)

lemma map_update_where:
  "(\<And>r. P r \<Longrightarrow> g (f r) = g r) \<Longrightarrow> map g (update_where P f rs) = map g rs"
  by (induction rs) auto

lemma set_update_where: "set (update_where P f rs) = (\<lambda>r. if P r then f r else r) ` set rs"
  by (simp add: update_where_def)

lemma update_where_False: "(\<And>r. r \<in> set rs \<Longrightarrow> \<not> P r) \<Longrightarrow> update_where P f rs = rs"
  by (induction rs) auto

lemma update_where_id: "(\<And>r. r \<in> set rs \<Longrightarrow> P r \<Longrightarrow> f r = r) \<Longrightarrow> update_where P f rs = rs"
  by (induction rs) auto

lemma update_where_update_where:
  "(\<And>r. P r \<Longrightarrow> P (f r)) \<Longrightarrow>
   update_where P g (update_where P f rs) = update_where P (\<lambda>r. g (f r)) rs"
  by (induction rs) auto

lemma update_where_commute:
  assumes "\<And>r. P r \<Longrightarrow> Q (f r) = Q r" and "\<And>r. Q r \<Longrightarrow> P (g r) = P r"
    and "\<And>r. P r \<Longrightarrow> Q r \<Longrightarrow> f (g r) = g (f r)"
  shows "update_where P f (update_where Q g rs) = update_where Q g (update_where P f rs)"
  using assms by (induction rs) auto

lemma find_update_where_other:
  "(\<And>r. P r \<Longrightarrow> \<not> Q r) \<Longrightarrow> (\<And>r. P r \<Longrightarrow> \<not> Q (f r)) \<Longrightarrow>
   find Q (update_where P f rs) = find Q rs"
  by (induction rs) auto

lemma find_update_where_same:
  "(\<And>r. P r \<Longrightarrow> P (f r)) \<Longrightarrow> find P (update_where P f rs) = map_option f (find P rs)"
  by (induction rs) auto

lemma find_SomeD: "find P xs = Some x \<Longrightarrow> x \<in> set xs \<and> P x"
  by (induction xs) (auto split: if_splits)

lemma find_None: "find P xs = None \<longleftrightarrow> (\<forall>x \<in> set xs. \<not> P x)"
  by (induction xs) auto

end
