(* ===== verification/Float64.thy ===== *)
theory Float64
  imports Prelude
begin

text \<open>
  Go's \<open>float64\<close>: a finite value is a rational number, and every arithmetic operation rounds its
  exact result to the nearest value with a 53-bit significand, ties to the even one (IEEE 754
  binary64; results below the normal range round on the grid of multiples of \<open>2 ^ - 1074\<close>).
  Infinities and NaN are not values of the model: the ratios of the program are finite, and its
  products of token counts with ratios stay below \<open>2 ^ 1024\<close> for every ratio below \<open>10 ^ 280\<close>.

  The lemmas: rounding is exact on integers up to \<open>2 ^ 53\<close>, monotone, and keeps signs; hence the
  conversions to \<open>int64\<close> that the billing code makes are monotone in the token counts.
\<close>

section \<open>Powers of two and the binary exponent of a rational\<close>

definition pow2 :: "int \<Rightarrow> rat" where
  "pow2 e = (if 0 \<le> e then 2 ^ nat e else 1 / 2 ^ nat (- e))"

lemma pow2_powi: "pow2 e = 2 powi e"
  by (simp add: pow2_def power_int_def inverse_eq_divide power_one_over)

lemma pow2_pos [simp]: "0 < pow2 e"
  by (simp add: pow2_def)

lemma pow2_nonzero [simp]: "pow2 e \<noteq> 0"
  using pow2_pos [of e] by linarith

lemma pow2_add: "pow2 (a + b) = pow2 a * pow2 b"
  by (simp add: pow2_powi power_int_add)

lemma pow2_Suc: "pow2 (e + 1) = 2 * pow2 e"
  by (simp add: pow2_add) (simp add: pow2_def)

lemma pow2_mono: "a \<le> b \<Longrightarrow> pow2 a \<le> pow2 b"
  by (simp add: pow2_powi power_int_increasing)

lemma pow2_nat [simp]: "pow2 (int n) = 2 ^ n"
  by (simp add: pow2_def)

lemma pow2_strict: "pow2 a < pow2 b \<Longrightarrow> a < b"
  using pow2_mono [of b a] by (rule_tac ccontr) auto

fun nlog2 :: "nat \<Rightarrow> nat" where
  "nlog2 n = (if n < 2 then 0 else Suc (nlog2 (n div 2)))"

declare nlog2.simps [simp del]

lemma nlog2_bounds: "0 < n \<Longrightarrow> 2 ^ nlog2 n \<le> n \<and> n < 2 ^ Suc (nlog2 n)"
proof (induction n rule: nlog2.induct)
  case (1 n)
  show ?case
  proof (cases "n < 2")
    case True
    with "1.prems" show ?thesis by (simp add: nlog2.simps [of n])
  next
    case False
    with "1.IH" have "2 ^ nlog2 (n div 2) \<le> n div 2" and "n div 2 < 2 ^ Suc (nlog2 (n div 2))"
      by simp_all
    with False show ?thesis by (simp add: nlog2.simps [of n]) linarith
  qed
qed

text \<open>The exponent \<open>e\<close> with \<open>2 ^ e \<le> q < 2 ^ (e + 1)\<close>, for a positive \<open>q\<close>.\<close>

definition flog2 :: "rat \<Rightarrow> int" where
  "flog2 q =
     (let (n, d) = quotient_of q; k = int (nlog2 (nat n)) - int (nlog2 (nat d))
      in if pow2 k \<le> q then k else k - 1)"

lemma flog2_bounds:
  assumes "0 < q"
  shows "pow2 (flog2 q) \<le> q" and "q < pow2 (flog2 q + 1)"
proof -
  obtain n d where nd: "quotient_of q = (n, d)" by (cases "quotient_of q")
  then have d: "0 < d" and q: "q = of_int n / of_int d"
    by (simp_all add: quotient_of_denom_pos quotient_of_div)
  from assms q d have n: "0 < n" by (simp add: zero_less_divide_iff)
  let ?a = "nlog2 (nat n)" and ?b = "nlog2 (nat d)"
  have an: "2 ^ ?a \<le> nat n" "nat n < 2 ^ Suc ?a" using nlog2_bounds [of "nat n"] n by auto
  have bd: "2 ^ ?b \<le> nat d" "nat d < 2 ^ Suc ?b" using nlog2_bounds [of "nat d"] d by auto
  have n1: "(2 :: rat) ^ ?a \<le> of_int n" "of_int n < (2 :: rat) ^ Suc ?a"
    using an n by (metis int_nat_eq le_nat_iff less_le of_int_le_iff of_int_numeral of_int_power
        of_nat_numeral of_nat_power, metis an(2) n nat_less_iff less_le of_int_less_iff
        of_int_numeral of_int_power of_nat_numeral of_nat_power)
  have d1: "(2 :: rat) ^ ?b \<le> of_int d" "of_int d < (2 :: rat) ^ Suc ?b"
    using bd d by (metis int_nat_eq le_nat_iff less_le of_int_le_iff of_int_numeral of_int_power
        of_nat_numeral of_nat_power, metis bd(2) d nat_less_iff less_le of_int_less_iff
        of_int_numeral of_int_power of_nat_numeral of_nat_power)
  let ?k = "int ?a - int ?b"
  have split: "pow2 ?k = 2 ^ ?a / 2 ^ ?b"
    by (simp add: pow2_powi power_int_diff)
  have d0: "(0 :: rat) < of_int d" using d by simp
  have upper: "q < pow2 (?k + 1)"
  proof -
    have "q < 2 ^ Suc ?a / of_int d" unfolding q using n1(2) d0 by (simp add: divide_strict_right_mono)
    also have "\<dots> \<le> 2 ^ Suc ?a / 2 ^ ?b" using d1(1) by (simp add: frac_le)
    finally show ?thesis by (simp add: pow2_Suc split)
  qed
  have lower: "pow2 (?k - 1) \<le> q"
  proof -
    have "pow2 ?k = 2 * pow2 (?k - 1)" using pow2_Suc [of "?k - 1"] by simp
    then have "pow2 (?k - 1) = 2 ^ ?a / 2 ^ Suc ?b" by (simp add: split)
    also have "\<dots> \<le> 2 ^ ?a / of_int d" using d1(2) d0 by (simp add: frac_le)
    also have "\<dots> \<le> q" unfolding q using n1(1) d0 by (simp add: divide_right_mono)
    finally show ?thesis .
  qed
  have f: "flog2 q = (if pow2 ?k \<le> q then ?k else ?k - 1)"
    by (simp add: flog2_def nd)
  show "pow2 (flog2 q) \<le> q" using f lower by simp
  show "q < pow2 (flog2 q + 1)" using f upper by simp
qed

lemma flog2_mono:
  assumes "0 < x" and "x \<le> y"
  shows "flog2 x \<le> flog2 y"
proof -
  have "pow2 (flog2 x) \<le> x" "y < pow2 (flog2 y + 1)"
    using flog2_bounds assms by auto
  with assms have "pow2 (flog2 x) < pow2 (flog2 y + 1)" by simp
  then have "flog2 x < flog2 y + 1" by (rule pow2_strict)
  then show ?thesis by simp
qed


section \<open>Rounding\<close>

definition round_even :: "rat \<Rightarrow> int" where
  "round_even x =
     (let f = \<lfloor>x\<rfloor>; r = x - of_int f
      in if r < 1 / 2 then f else if 1 / 2 < r then f + 1 else if even f then f else f + 1)"

lemma round_even_of_int [simp]: "round_even (of_int n) = n"
  by (simp add: round_even_def)

lemma round_even_bounds: "\<lfloor>x\<rfloor> \<le> round_even x \<and> round_even x \<le> \<lfloor>x\<rfloor> + 1"
  by (simp add: round_even_def Let_def)

lemma round_even_mono:
  assumes "x \<le> y"
  shows "round_even x \<le> round_even y"
proof (cases "\<lfloor>x\<rfloor> = \<lfloor>y\<rfloor>")
  case True
  then have "x - of_int \<lfloor>x\<rfloor> \<le> y - of_int \<lfloor>y\<rfloor>" using assms by simp
  with True show ?thesis by (auto simp: round_even_def Let_def)
next
  case False
  then have "\<lfloor>x\<rfloor> + 1 \<le> \<lfloor>y\<rfloor>" using floor_mono [OF assms] by simp
  with round_even_bounds [of x] round_even_bounds [of y] show ?thesis by linarith
qed

lemma round_even_le: "x \<le> of_int n \<Longrightarrow> round_even x \<le> n"
  using round_even_mono [of x "of_int n"] by simp

lemma round_even_ge: "of_int n \<le> x \<Longrightarrow> n \<le> round_even x"
  using round_even_mono [of "of_int n" x] by simp

text \<open>The exponent of the unit in the last place of a positive value.\<close>

definition ulp_exp :: "rat \<Rightarrow> int" where
  "ulp_exp q = max (flog2 q - 52) (- 1074)"

definition rnd_pos :: "rat \<Rightarrow> rat" where
  "rnd_pos q = (let s = ulp_exp q in of_int (round_even (q / pow2 s)) * pow2 s)"

definition rnd :: "rat \<Rightarrow> rat" where
  "rnd q = (if q = 0 then 0 else if 0 < q then rnd_pos q else - rnd_pos (- q))"

lemma rnd_0 [simp]: "rnd 0 = 0"
  by (simp add: rnd_def)

lemma rnd_pos_nonneg:
  assumes "0 < q"
  shows "0 \<le> rnd_pos q"
proof -
  have "of_int 0 \<le> q / pow2 (ulp_exp q)"
    using assms pow2_pos [of "ulp_exp q"] by (simp add: zero_le_divide_iff less_imp_le)
  then have "0 \<le> round_even (q / pow2 (ulp_exp q))" by (rule round_even_ge)
  then have "0 \<le> (of_int (round_even (q / pow2 (ulp_exp q))) :: rat)" by simp
  then show ?thesis by (simp add: rnd_pos_def Let_def less_imp_le)
qed

lemma rnd_pos_le_pow2:
  assumes "0 < q" and "q \<le> pow2 e" and "ulp_exp q \<le> e"
  shows "rnd_pos q \<le> pow2 e"
proof -
  let ?s = "ulp_exp q"
  obtain n where n: "e - ?s = int n" using assms(3) nonneg_int_cases [of "e - ?s"] by auto
  then have "e = int n + ?s" by simp
  then have e: "pow2 e = 2 ^ n * pow2 ?s" by (simp only: pow2_add pow2_nat)
  then have "q / pow2 ?s \<le> of_int (2 ^ n)" using assms(2) by (simp add: pos_divide_le_eq)
  then have "round_even (q / pow2 ?s) \<le> 2 ^ n" by (rule round_even_le)
  then have "of_int (round_even (q / pow2 ?s)) \<le> (of_int (2 ^ n) :: rat)"
    by (simp only: of_int_le_iff)
  then have "of_int (round_even (q / pow2 ?s)) * pow2 ?s \<le> 2 ^ n * pow2 ?s"
    by (simp add: mult_right_mono)
  then show ?thesis by (simp add: rnd_pos_def Let_def e)
qed

lemma rnd_pos_ge_pow2:
  assumes "0 < q" and "pow2 e \<le> q" and "ulp_exp q \<le> e"
  shows "pow2 e \<le> rnd_pos q"
proof -
  let ?s = "ulp_exp q"
  obtain n where n: "e - ?s = int n" using assms(3) nonneg_int_cases [of "e - ?s"] by auto
  then have "e = int n + ?s" by simp
  then have e: "pow2 e = 2 ^ n * pow2 ?s" by (simp only: pow2_add pow2_nat)
  then have "of_int (2 ^ n) \<le> q / pow2 ?s" using assms(2) by (simp add: pos_le_divide_eq)
  then have "2 ^ n \<le> round_even (q / pow2 ?s)" by (rule round_even_ge)
  then have "(of_int (2 ^ n) :: rat) \<le> of_int (round_even (q / pow2 ?s))"
    by (simp only: of_int_le_iff)
  then have "2 ^ n * pow2 ?s \<le> of_int (round_even (q / pow2 ?s)) * pow2 ?s"
    by (simp add: mult_right_mono)
  then show ?thesis by (simp add: rnd_pos_def Let_def e)
qed

lemma rnd_pos_mono:
  assumes "0 < x" and "x \<le> y"
  shows "rnd_pos x \<le> rnd_pos y"
proof (cases "ulp_exp x = ulp_exp y")
  case True
  have "x / pow2 (ulp_exp y) \<le> y / pow2 (ulp_exp y)"
    using assms(2) less_imp_le [OF pow2_pos] by (rule divide_right_mono)
  then have "round_even (x / pow2 (ulp_exp y)) \<le> round_even (y / pow2 (ulp_exp y))"
    by (rule round_even_mono)
  then have "(of_int (round_even (x / pow2 (ulp_exp y))) :: rat)
      \<le> of_int (round_even (y / pow2 (ulp_exp y)))" by simp
  with True show ?thesis
    by (simp add: rnd_pos_def Let_def mult_right_mono less_imp_le)
next
  case False
  have fl: "flog2 x \<le> flog2 y" using assms by (rule flog2_mono)
  with False have e: "flog2 x + 1 \<le> flog2 y" and uy: "ulp_exp y = flog2 y - 52"
    and ux: "ulp_exp x \<le> flog2 y"
    unfolding ulp_exp_def by linarith+
  have y0: "0 < y" using assms by simp
  have "x \<le> pow2 (flog2 y)"
    using flog2_bounds(2) [OF assms(1)] pow2_mono [OF e] by simp
  then have "rnd_pos x \<le> pow2 (flog2 y)" using assms(1) ux by (intro rnd_pos_le_pow2)
  also have "\<dots> \<le> rnd_pos y"
    using y0 flog2_bounds(1) [OF y0] uy by (intro rnd_pos_ge_pow2) simp_all
  finally show ?thesis .
qed

lemma rnd_nonneg: "0 \<le> x \<Longrightarrow> 0 \<le> rnd x"
  by (simp add: rnd_def rnd_pos_nonneg)

lemma rnd_nonpos: "x \<le> 0 \<Longrightarrow> rnd x \<le> 0"
  using rnd_pos_nonneg [of "- x"] by (simp add: rnd_def)

theorem rnd_mono:
  assumes "x \<le> y"
  shows "rnd x \<le> rnd y"
proof -
  consider "0 < x" | "x \<le> 0" "0 \<le> y" | "y < 0" by linarith
  then show ?thesis
  proof cases
    case 1
    then show ?thesis using assms rnd_pos_mono [of x y] by (simp add: rnd_def)
  next
    case 2
    then show ?thesis using rnd_nonpos [of x] rnd_nonneg [of y] by simp
  next
    case 3
    then show ?thesis using assms rnd_pos_mono [of "- y" "- x"] by (simp add: rnd_def)
  qed
qed

lemma rnd_uminus: "rnd (- x) = - rnd x"
  by (simp add: rnd_def)

lemma rnd_pos_exact:
  assumes "0 < n" and "n \<le> 2 ^ 53"
  shows "rnd_pos (of_int n) = of_int n"
proof (cases "n = 2 ^ 53")
  case True
  let ?q = "of_int n :: rat"
  have q0: "0 < ?q" using assms by simp
  have u: "ulp_exp ?q \<le> 53"
  proof -
    have "pow2 (flog2 ?q) \<le> ?q" by (rule flog2_bounds(1)) (rule q0)
    also have "?q < pow2 54" using True by (simp add: pow2_def)
    finally have "flog2 ?q < 54" by (rule pow2_strict)
    then show ?thesis by (simp add: ulp_exp_def)
  qed
  have qe: "?q = pow2 53" using True by (simp add: pow2_def)
  show ?thesis
    using rnd_pos_le_pow2 [OF q0, of 53] rnd_pos_ge_pow2 [OF q0, of 53] u qe by simp
next
  case False
  let ?q = "of_int n :: rat"
  have q0: "0 < ?q" using assms by simp
  have "pow2 (flog2 ?q) \<le> ?q" by (rule flog2_bounds(1)) (rule q0)
  also have "?q < of_int (2 ^ 53)" using False assms by (simp only: of_int_less_iff)
  also have "(of_int (2 ^ 53) :: rat) = pow2 53" by (simp add: pow2_def)
  finally have "flog2 ?q < 53" by (rule pow2_strict)
  then have s: "ulp_exp ?q \<le> 0" by (simp add: ulp_exp_def)
  then have "0 \<le> - ulp_exp ?q" by linarith
  then obtain k where "- ulp_exp ?q = int k" by (rule nonneg_int_cases)
  then have k: "ulp_exp ?q = - int k" by linarith
  have "?q / pow2 (ulp_exp ?q) = of_int (n * 2 ^ k)"
    by (simp add: k pow2_powi power_int_minus divide_inverse)
  then have "round_even (?q / pow2 (ulp_exp ?q)) = n * 2 ^ k" by (simp only: round_even_of_int)
  then have "rnd_pos ?q = of_int (n * 2 ^ k) * pow2 (ulp_exp ?q)" by (simp add: rnd_pos_def Let_def)
  then show ?thesis by (simp add: k pow2_powi power_int_minus)
qed

lemma rnd_exact:
  assumes "\<bar>n\<bar> \<le> 2 ^ 53"
  shows "rnd (of_int n) = of_int n"
proof -
  consider "n = 0" | "0 < n" | "n < 0" by linarith
  then show ?thesis
  proof cases
    case 2
    then show ?thesis using rnd_pos_exact [of n] assms by (simp add: rnd_def)
  next
    case 3
    then have "rnd_pos (of_int (- n)) = of_int (- n)"
      using assms by (intro rnd_pos_exact) auto
    with 3 show ?thesis by (simp add: rnd_def)
  qed simp
qed


section \<open>The type of floats\<close>

datatype f64 = F64 (rat_of: rat)

instantiation f64 :: "{zero, one, plus, minus, times, inverse, linorder}"
begin

definition zero_f64 :: f64 where "0 = F64 0"
definition one_f64 :: f64 where "1 = F64 1"
definition plus_f64 :: "f64 \<Rightarrow> f64 \<Rightarrow> f64" where "x + y = F64 (rnd (rat_of x + rat_of y))"
definition minus_f64 :: "f64 \<Rightarrow> f64 \<Rightarrow> f64" where "x - y = F64 (rnd (rat_of x - rat_of y))"
definition times_f64 :: "f64 \<Rightarrow> f64 \<Rightarrow> f64" where "x * y = F64 (rnd (rat_of x * rat_of y))"
definition inverse_f64 :: "f64 \<Rightarrow> f64" where "inverse x = F64 (rnd (1 / rat_of x))"
definition divide_f64 :: "f64 \<Rightarrow> f64 \<Rightarrow> f64" where "x div y = F64 (rnd (rat_of x / rat_of y))"
definition less_eq_f64 :: "f64 \<Rightarrow> f64 \<Rightarrow> bool" where "x \<le> y \<longleftrightarrow> rat_of x \<le> rat_of y"
definition less_f64 :: "f64 \<Rightarrow> f64 \<Rightarrow> bool" where "x < y \<longleftrightarrow> rat_of x < rat_of y"

instance
  by standard (auto simp: less_eq_f64_def less_f64_def f64.expand)

end

lemmas f64_defs = zero_f64_def one_f64_def plus_f64_def minus_f64_def times_f64_def
  divide_f64_def less_eq_f64_def less_f64_def

text \<open>\<open>float64(i)\<close> for an integer, and a decimal constant of the source.\<close>

definition f64_of_int :: "int \<Rightarrow> f64" where
  "f64_of_int i = F64 (rnd (of_int i))"

definition f64_const :: "rat \<Rightarrow> f64" where
  "f64_const q = F64 (rnd q)"

definition ceil64 :: "f64 \<Rightarrow> f64" where
  "ceil64 x = F64 (of_int \<lceil>rat_of x\<rceil>)"

text \<open>
  \<open>int64(x)\<close> drops the fraction. Out of the range of \<open>int64\<close> the language leaves the result to the
  implementation; on amd64, the platform of the project's image, it is \<open>- (2 ^ 63)\<close>.
\<close>

definition trunc_rat :: "rat \<Rightarrow> int" where
  "trunc_rat q = (if 0 \<le> q then \<lfloor>q\<rfloor> else \<lceil>q\<rceil>)"

definition int64_of_f64 :: "f64 \<Rightarrow> int" where
  "int64_of_f64 x =
     (let t = trunc_rat (rat_of x) in if int64 t then t else - (2 ^ 63))"

lemma trunc_rat_mono: "x \<le> y \<Longrightarrow> trunc_rat x \<le> trunc_rat y"
proof -
  assume le: "x \<le> y"
  consider "0 \<le> x" | "x < 0" "0 \<le> y" | "y < 0" by linarith
  then show ?thesis
  proof cases
    case 2
    then have "\<lceil>x\<rceil> \<le> 0" and "0 \<le> \<lfloor>y\<rfloor>" by simp_all
    then have "\<lceil>x\<rceil> \<le> \<lfloor>y\<rfloor>" by (rule order_trans)
    with 2 show ?thesis by (simp add: trunc_rat_def)
  qed (use le in \<open>simp_all add: trunc_rat_def floor_mono ceiling_mono\<close>)
qed

lemma int64_of_f64_int64 [simp]: "int64 (int64_of_f64 x)"
  by (auto simp: int64_of_f64_def Let_def int64_def)

lemma int64_of_f64_nonneg:
  assumes "0 \<le> x" and "rat_of x < 2 ^ 63"
  shows "0 \<le> int64_of_f64 x"
proof -
  have "0 \<le> rat_of x" using assms(1) by (simp add: f64_defs)
  moreover from this have "0 \<le> \<lfloor>rat_of x\<rfloor>" by simp
  moreover have "\<lfloor>rat_of x\<rfloor> < 2 ^ 63" using assms(2) by (simp add: floor_less_iff)
  ultimately show ?thesis by (simp add: int64_of_f64_def trunc_rat_def int64_def)
qed

lemma int64_of_f64_mono:
  assumes "0 \<le> x" and "x \<le> y" and "rat_of y < 2 ^ 63"
  shows "int64_of_f64 x \<le> int64_of_f64 y"
proof -
  have xy: "0 \<le> rat_of x" "rat_of x \<le> rat_of y" using assms by (simp_all add: f64_defs)
  have "int64 (trunc_rat (rat_of z))" if "0 \<le> rat_of z" "rat_of z < 2 ^ 63" for z
  proof -
    have "0 \<le> \<lfloor>rat_of z\<rfloor>" and "\<lfloor>rat_of z\<rfloor> < 2 ^ 63" using that by (simp_all add: floor_less_iff)
    then show ?thesis using that by (simp add: trunc_rat_def int64_def)
  qed
  with xy assms(3) trunc_rat_mono [OF xy(2)] show ?thesis by (simp add: int64_of_f64_def)
qed

lemma f64_mult_nonneg: "0 \<le> x \<Longrightarrow> 0 \<le> y \<Longrightarrow> 0 \<le> x * (y :: f64)"
  by (simp add: f64_defs rnd_nonneg)

lemma f64_add_nonneg: "0 \<le> x \<Longrightarrow> 0 \<le> y \<Longrightarrow> 0 \<le> x + (y :: f64)"
  by (simp add: f64_defs rnd_nonneg)

lemma f64_mult_mono: "x \<le> y \<Longrightarrow> 0 \<le> z \<Longrightarrow> x * z \<le> y * (z :: f64)"
  by (simp add: f64_defs rnd_mono mult_right_mono)

lemma f64_add_mono: "x \<le> y \<Longrightarrow> z \<le> w \<Longrightarrow> x + z \<le> y + (w :: f64)"
  by (simp add: f64_defs rnd_mono)

lemma f64_of_int_mono: "i \<le> j \<Longrightarrow> f64_of_int i \<le> f64_of_int j"
  by (simp add: f64_of_int_def less_eq_f64_def rnd_mono)

lemma f64_of_int_nonneg: "0 \<le> i \<Longrightarrow> 0 \<le> f64_of_int i"
  by (simp add: f64_of_int_def f64_defs rnd_nonneg)

lemma ceil64_mono: "x \<le> y \<Longrightarrow> ceil64 x \<le> ceil64 y"
  by (simp add: ceil64_def less_eq_f64_def ceiling_mono)

lemma ceil64_nonneg: "0 \<le> x \<Longrightarrow> 0 \<le> ceil64 x"
  by (simp add: ceil64_def f64_defs)

lemma int64_of_f64_of_int:
  assumes "\<bar>i\<bar> \<le> 2 ^ 53"
  shows "int64_of_f64 (f64_of_int i) = i"
proof -
  have "int64 i" using assms by (simp add: int64_def abs_le_iff)
  then show ?thesis using rnd_exact [OF assms]
    by (simp add: int64_of_f64_def f64_of_int_def trunc_rat_def)
qed

end
