(* ===== verification/Config.thy ===== *)
theory Config
  imports Float64
begin

text \<open>
  \<^verbatim>\<open>common/config/config.go\<close> and \<^verbatim>\<open>common/env/helper.go\<close>: the configuration record, one field per
  package variable, its initial value, and the readers of environment variables. The process
  environment is the parameter \<open>getenv\<close> (\<open>os.Getenv\<close>: the empty string when a variable is unset).
  Durations are in nanoseconds, as \<open>time.Duration\<close> is.
\<close>

section \<open>Decimal floating-point literals\<close>

text \<open>
  \<open>strconv.ParseFloat(s, 64)\<close> on decimal notation: an optional sign, digits with an optional
  fraction, an optional exponent; the value is rounded to the nearest float. The spellings of
  infinity and NaN and hexadecimal mantissas are rejected, as the model has no such values.
\<close>

fun span_digits :: "string \<Rightarrow> string \<times> string" where
  "span_digits [] = ([], [])"
| "span_digits (c # cs) =
     (if digit_val c = None then ([], c # cs)
      else (let (ds, r) = span_digits cs in (c # ds, r)))"

definition digits_value :: "string \<Rightarrow> nat" where
  "digits_value ds = (case parse_digits 0 ds of None \<Rightarrow> 0 | Some n \<Rightarrow> n)"

definition parse_exponent :: "string \<Rightarrow> int option" where
  "parse_exponent s =
     (case s of
        [] \<Rightarrow> Some 0
      | c # cs \<Rightarrow>
          (if c = CHR ''e'' \<or> c = CHR ''E''
           then (case ParseInt cs of ParsedInt i \<Rightarrow> Some i | _ \<Rightarrow> None)
           else None))"

definition pow10 :: "int \<Rightarrow> rat" where
  "pow10 e = (if 0 \<le> e then 10 ^ nat e else 1 / 10 ^ nat (- e))"

definition parse_unsigned_float :: "string \<Rightarrow> rat option" where
  "parse_unsigned_float s =
     (let (ip, r1) = span_digits s;
          (fp, r2) = (case r1 of c # cs \<Rightarrow> (if c = CHR ''.'' then span_digits cs else ([], r1)) | [] \<Rightarrow> ([], []))
      in if ip = [] \<and> fp = [] then None
         else map_option
                (\<lambda>e. (of_nat (digits_value ip) + of_nat (digits_value fp) / 10 ^ length fp) * pow10 e)
                (parse_exponent r2))"

definition ParseFloat :: "string \<Rightarrow> f64 option" where
  "ParseFloat s =
     (case s of
        [] \<Rightarrow> None
      | c # cs \<Rightarrow>
          (if c = CHR ''-'' then map_option (\<lambda>q. f64_const (- q)) (parse_unsigned_float cs)
           else if c = CHR ''+'' then map_option f64_const (parse_unsigned_float cs)
           else map_option f64_const (parse_unsigned_float s)))"


section \<open>Environment variables\<close>

type_synonym environ = "string \<Rightarrow> string"

definition env_Bool :: "environ \<Rightarrow> string \<Rightarrow> bool \<Rightarrow> bool" where
  "env_Bool getenv name defaultValue =
     (if name = [] \<or> getenv name = [] then defaultValue else getenv name = ''true'')"

definition env_Int :: "environ \<Rightarrow> string \<Rightarrow> int \<Rightarrow> int" where
  "env_Int getenv name defaultValue =
     (if name = [] \<or> getenv name = [] then defaultValue
      else (case parse_ok (ParseInt (getenv name)) of None \<Rightarrow> defaultValue | Some num \<Rightarrow> num))"

definition env_Float64 :: "environ \<Rightarrow> string \<Rightarrow> f64 \<Rightarrow> f64" where
  "env_Float64 getenv name defaultValue =
     (if name = [] \<or> getenv name = [] then defaultValue
      else (case ParseFloat (getenv name) of None \<Rightarrow> defaultValue | Some num \<Rightarrow> num))"

definition env_String :: "environ \<Rightarrow> string \<Rightarrow> string \<Rightarrow> string" where
  "env_String getenv name defaultValue =
     (if name = [] \<or> getenv name = [] then defaultValue else getenv name)"


section \<open>The configuration\<close>

record config =
  SystemName :: string
  ServerAddress :: string
  Footer :: string
  Logo :: string
  TopUpLink :: string
  ChatLink :: string
  QuotaPerUnit :: f64
  DisplayInCurrencyEnabled :: bool
  DisplayTokenStatEnabled :: bool
  ItemsPerPage :: int
  MaxRecentItems :: int
  PasswordLoginEnabled :: bool
  PasswordRegisterEnabled :: bool
  EmailVerificationEnabled :: bool
  GitHubOAuthEnabled :: bool
  OidcEnabled :: bool
  RegisterEnabled :: bool
  EmailDomainRestrictionEnabled :: bool
  EmailDomainWhitelist :: "string list"
  DebugEnabled :: bool
  DebugSQLEnabled :: bool
  MemoryCacheEnabled :: bool
  LogConsumeEnabled :: bool
  SMTPServer :: string
  SMTPPort :: int
  SMTPAccount :: string
  SMTPFrom :: string
  SMTPToken :: string
  GitHubClientId :: string
  GitHubClientSecret :: string
  LarkClientId :: string
  LarkClientSecret :: string
  OidcClientId :: string
  OidcClientSecret :: string
  OidcWellKnown :: string
  OidcAuthorizationEndpoint :: string
  OidcTokenEndpoint :: string
  OidcUserinfoEndpoint :: string
  MessagePusherAddress :: string
  MessagePusherToken :: string
  QuotaForNewUser :: int
  QuotaForInviter :: int
  QuotaForInvitee :: int
  ChannelDisableThreshold :: f64
  AutomaticDisableChannelEnabled :: bool
  AutomaticEnableChannelEnabled :: bool
  QuotaRemindThreshold :: int
  PreConsumedQuota :: int
  ApproximateTokenEnabled :: bool
  RetryTimes :: int
  RootUserEmail :: string
  IsMasterNode :: bool
  RequestInterval :: int
  SyncFrequency :: int
  BatchUpdateEnabled :: bool
  BatchUpdateInterval :: int
  RelayTimeout :: int
  GeminiSafetySetting :: string
  Theme :: string
  GlobalApiRateLimitNum :: int
  GlobalApiRateLimitDuration :: int
  GlobalWebRateLimitNum :: int
  GlobalWebRateLimitDuration :: int
  UploadRateLimitNum :: int
  UploadRateLimitDuration :: int
  DownloadRateLimitNum :: int
  DownloadRateLimitDuration :: int
  CriticalRateLimitNum :: int
  CriticalRateLimitDuration :: int
  RateLimitKeyExpirationDuration :: int
  EnableMetric :: bool
  MetricQueueSize :: int
  MetricSuccessRateThreshold :: f64
  MetricSuccessChanSize :: int
  MetricFailChanSize :: int
  InitialRootToken :: string
  InitialRootAccessToken :: string
  GeminiVersion :: string
  OnlyOneLogFile :: bool
  RelayProxy :: string
  UserContentRequestProxy :: string
  UserContentRequestTimeout :: int
  EnforceIncludeUsage :: bool
  TestPrompt :: string

definition second :: int where "second = 10 ^ 9"
definition minute :: int where "minute = 60 * second"

definition ValidThemes :: "string \<Rightarrow> bool" where
  "ValidThemes t = (t \<in> {''default'', ''berry'', ''air''})"

text \<open>\<open>strconv.Atoi\<close> with its error dropped, as the initialiser of \<open>requestInterval\<close> calls it.\<close>

definition init_config :: "environ \<Rightarrow> config" where
  "init_config getenv = \<lparr>
     SystemName = ''Blues Code'',
     ServerAddress = ''http://localhost:3000'',
     Footer = [], Logo = [], TopUpLink = [], ChatLink = [],
     QuotaPerUnit = f64_const (500 * 1000),
     DisplayInCurrencyEnabled = True,
     DisplayTokenStatEnabled = True,
     ItemsPerPage = 10,
     MaxRecentItems = 100,
     PasswordLoginEnabled = True,
     PasswordRegisterEnabled = True,
     EmailVerificationEnabled = False,
     GitHubOAuthEnabled = False,
     OidcEnabled = False,
     RegisterEnabled = True,
     EmailDomainRestrictionEnabled = False,
     EmailDomainWhitelist = [''gmail.com'', ''163.com'', ''126.com'', ''qq.com'', ''outlook.com'',
       ''hotmail.com'', ''icloud.com'', ''yahoo.com'', ''foxmail.com''],
     DebugEnabled = (ToLower (getenv ''DEBUG'') = ''true''),
     DebugSQLEnabled = (ToLower (getenv ''DEBUG_SQL'') = ''true''),
     MemoryCacheEnabled = (ToLower (getenv ''MEMORY_CACHE_ENABLED'') = ''true''),
     LogConsumeEnabled = True,
     SMTPServer = [], SMTPPort = 587, SMTPAccount = [], SMTPFrom = [], SMTPToken = [],
     GitHubClientId = [], GitHubClientSecret = [],
     LarkClientId = [], LarkClientSecret = [],
     OidcClientId = [], OidcClientSecret = [], OidcWellKnown = [],
     OidcAuthorizationEndpoint = [], OidcTokenEndpoint = [], OidcUserinfoEndpoint = [],
     MessagePusherAddress = [], MessagePusherToken = [],
     QuotaForNewUser = 0, QuotaForInviter = 0, QuotaForInvitee = 0,
     ChannelDisableThreshold = f64_const 5,
     AutomaticDisableChannelEnabled = False,
     AutomaticEnableChannelEnabled = False,
     QuotaRemindThreshold = 1000,
     PreConsumedQuota = 500,
     ApproximateTokenEnabled = False,
     RetryTimes = 0,
     RootUserEmail = [],
     IsMasterNode = (getenv ''NODE_TYPE'' \<noteq> ''slave''),
     RequestInterval = wrap64 (parse_value (ParseInt (getenv ''POLLING_INTERVAL'')) * second),
     SyncFrequency = env_Int getenv ''SYNC_FREQUENCY'' (10 * 60),
     BatchUpdateEnabled = False,
     BatchUpdateInterval = env_Int getenv ''BATCH_UPDATE_INTERVAL'' 5,
     RelayTimeout = env_Int getenv ''RELAY_TIMEOUT'' 0,
     GeminiSafetySetting = env_String getenv ''GEMINI_SAFETY_SETTING'' ''BLOCK_NONE'',
     Theme = env_String getenv ''THEME'' ''default'',
     GlobalApiRateLimitNum = env_Int getenv ''GLOBAL_API_RATE_LIMIT'' 480,
     GlobalApiRateLimitDuration = 3 * 60,
     GlobalWebRateLimitNum = env_Int getenv ''GLOBAL_WEB_RATE_LIMIT'' 240,
     GlobalWebRateLimitDuration = 3 * 60,
     UploadRateLimitNum = 10,
     UploadRateLimitDuration = 60,
     DownloadRateLimitNum = 10,
     DownloadRateLimitDuration = 60,
     CriticalRateLimitNum = 20,
     CriticalRateLimitDuration = 20 * 60,
     RateLimitKeyExpirationDuration = 20 * minute,
     EnableMetric = env_Bool getenv ''ENABLE_METRIC'' False,
     MetricQueueSize = env_Int getenv ''METRIC_QUEUE_SIZE'' 10,
     MetricSuccessRateThreshold = env_Float64 getenv ''METRIC_SUCCESS_RATE_THRESHOLD'' (f64_const (8 / 10)),
     MetricSuccessChanSize = env_Int getenv ''METRIC_SUCCESS_CHAN_SIZE'' 1024,
     MetricFailChanSize = env_Int getenv ''METRIC_FAIL_CHAN_SIZE'' 128,
     InitialRootToken = getenv ''INITIAL_ROOT_TOKEN'',
     InitialRootAccessToken = getenv ''INITIAL_ROOT_ACCESS_TOKEN'',
     GeminiVersion = env_String getenv ''GEMINI_VERSION'' ''v1'',
     OnlyOneLogFile = env_Bool getenv ''ONLY_ONE_LOG_FILE'' False,
     RelayProxy = env_String getenv ''RELAY_PROXY'' [],
     UserContentRequestProxy = env_String getenv ''USER_CONTENT_REQUEST_PROXY'' [],
     UserContentRequestTimeout = env_Int getenv ''USER_CONTENT_REQUEST_TIMEOUT'' 30,
     EnforceIncludeUsage = env_Bool getenv ''ENFORCE_INCLUDE_USAGE'' False,
     TestPrompt = env_String getenv ''TEST_PROMPT''
       ''Output only your specific model name with no additional text.''
   \<rparr>"

lemma config_durations:
  "RateLimitKeyExpirationDuration (init_config g) = 1200 * second"
  "GlobalApiRateLimitDuration (init_config g) = 180"
  "GlobalWebRateLimitDuration (init_config g) = 180"
  "UploadRateLimitDuration (init_config g) = 60"
  "DownloadRateLimitDuration (init_config g) = 60"
  "CriticalRateLimitDuration (init_config g) = 1200"
  by (simp_all add: init_config_def minute_def)

end
