(* ===== verification/RateLimit.thy ===== *)
theory RateLimit
  imports Config
begin

text \<open>
  \<^verbatim>\<open>common/rate-limit.go\<close> and \<^verbatim>\<open>middleware/rate-limit.go\<close>: the in-memory limiter and the one that
  keeps its queues in Redis lists. Both are instances of one contract, the locale
  \<open>sliding_window\<close>, in which the bound on the requests admitted in any window is proved once.

  Times are the readings of the wall clock, in seconds for the in-memory limiter (\<open>Unix()\<close>) and in
  milliseconds for the Redis one (its time format keeps milliseconds); one reading per request.
\<close>

section \<open>The in-memory limiter\<close>

record limiter =
  store :: "(string \<rightharpoonup> int list) option"
  expirationDuration :: int

definition limiter_zero :: limiter where
  "limiter_zero = \<lparr>store = None, expirationDuration = 0\<rparr>"

definition limiter_Init :: "int \<Rightarrow> limiter \<Rightarrow> limiter" where
  "limiter_Init d l =
     (case store l of None \<Rightarrow> l\<lparr>store := Some Map.empty, expirationDuration := d\<rparr> | Some _ \<Rightarrow> l)"

text \<open>One round of the loop in \<open>clearExpiredItems\<close>.\<close>

definition clearExpiredItems :: "int \<Rightarrow> limiter \<Rightarrow> limiter" where
  "clearExpiredItems now l =
     l\<lparr>store := map_option
        (\<lambda>m key. case m key of
           None \<Rightarrow> None
         | Some queue \<Rightarrow>
             (if queue = [] \<or> go_div (expirationDuration l) second < now - last queue
              then None else Some queue)) (store l)\<rparr>"

definition queue_of :: "limiter \<Rightarrow> string \<Rightarrow> int list option" where
  "queue_of l key = (case store l of None \<Rightarrow> None | Some m \<Rightarrow> m key)"

definition put_queue :: "string \<Rightarrow> int list \<Rightarrow> limiter \<Rightarrow> limiter" where
  "put_queue key queue l = l\<lparr>store := map_option (\<lambda>m. m(key \<mapsto> queue)) (store l)\<rparr>"

text \<open>
  \<open>None\<close> is a panic: a negative capacity for \<open>make\<close>, a write to the nil map of a limiter that was
  never initialised, or \<open>(*queue)[0]\<close> of an empty queue.
\<close>

definition Request :: "string \<Rightarrow> int \<Rightarrow> int \<Rightarrow> int \<Rightarrow> limiter \<Rightarrow> (bool \<times> limiter) option" where
  "Request key maxRequestNum duration now l =
     (case queue_of l key of
        Some queue \<Rightarrow>
          (if int (length queue) < maxRequestNum
           then Some (True, put_queue key (queue @ [now]) l)
           else (case queue of
               [] \<Rightarrow> None
             | oldest # rest \<Rightarrow>
                 (if duration \<le> now - oldest
                  then Some (True, put_queue key (rest @ [now]) l)
                  else Some (False, l))))
      | None \<Rightarrow>
          (if maxRequestNum < 0 \<or> store l = None then None
           else Some (True, put_queue key [now] l)))"

lemma queue_of_put: "store l \<noteq> None \<Longrightarrow>
    queue_of (put_queue key q l) key' = (if key' = key then Some q else queue_of l key')"
  by (auto simp: queue_of_def put_queue_def)

lemma put_queue_frame [simp]:
  "expirationDuration (put_queue key q l) = expirationDuration l"
  "store (put_queue key q l) = None \<longleftrightarrow> store l = None"
  by (simp_all add: put_queue_def)

lemma queue_of_None [simp]: "store l = None \<Longrightarrow> queue_of l key = None"
  by (simp add: queue_of_def)

lemma queue_of_clear:
  "queue_of (clearExpiredItems now l) key =
     (case queue_of l key of None \<Rightarrow> None
      | Some queue \<Rightarrow>
          (if queue = [] \<or> go_div (expirationDuration l) second < now - last queue
           then None else Some queue))"
  by (auto simp: queue_of_def clearExpiredItems_def split: option.splits)


section \<open>The Redis limiter\<close>

text \<open>
  A Redis list with the moment its key expires (\<open>None\<close>: never). The commands are \<open>LLEN\<close>, \<open>LPUSH\<close>,
  \<open>LINDEX key -1\<close>, \<open>LTRIM\<close> and \<open>EXPIRE\<close>; the record \<open>redis_reply\<close> says which of them the server
  answers, since the code looks at the error of \<open>LLEN\<close>, sees a failed \<open>LINDEX\<close> as an unparsable
  time, and ignores the others.
\<close>

type_synonym redis_lists = "string \<rightharpoonup> int list \<times> int option"

record redis_reply =
  llen_ok :: bool
  lpush_ok :: bool
  lindex_ok :: bool
  ltrim_ok :: bool
  expire_ok :: bool

definition replies_ok :: redis_reply where
  "replies_ok = \<lparr>llen_ok = True, lpush_ok = True, lindex_ok = True, ltrim_ok = True, expire_ok = True\<rparr>"

definition rlist :: "int \<Rightarrow> redis_lists \<Rightarrow> string \<Rightarrow> int list" where
  "rlist now rd key =
     (case rd key of
        None \<Rightarrow> []
      | Some (xs, None) \<Rightarrow> xs
      | Some (xs, Some deadline) \<Rightarrow> if now < deadline then xs else [])"

definition rdeadline :: "int \<Rightarrow> redis_lists \<Rightarrow> string \<Rightarrow> int option" where
  "rdeadline now rd key = (if rlist now rd key = [] then None else Option.bind (rd key) snd)"

definition LPush :: "int \<Rightarrow> string \<Rightarrow> int \<Rightarrow> redis_lists \<Rightarrow> redis_lists" where
  "LPush now key x rd = rd(key \<mapsto> (x # rlist now rd key, rdeadline now rd key))"

definition LTrim :: "int \<Rightarrow> string \<Rightarrow> int \<Rightarrow> redis_lists \<Rightarrow> redis_lists" where
  "LTrim now key n rd = rd(key \<mapsto> (take (nat n) (rlist now rd key), rdeadline now rd key))"

definition Expire :: "int \<Rightarrow> string \<Rightarrow> int \<Rightarrow> redis_lists \<Rightarrow> redis_lists" where
  "Expire now key ttl rd =
     (if rlist now rd key = [] then rd else rd(key \<mapsto> (rlist now rd key, Some (now + ttl))))"

datatype gate = Pass | Abort int

definition redis_limiter_key :: "string \<Rightarrow> string \<Rightarrow> string" where
  "redis_limiter_key mark ip = ''rateLimit:'' @ mark @ ip"

definition redisRateLimiter ::
    "config \<Rightarrow> redis_reply \<Rightarrow> int \<Rightarrow> int \<Rightarrow> string \<Rightarrow> string \<Rightarrow> int \<Rightarrow> redis_lists \<Rightarrow> gate \<times> redis_lists" where
  "redisRateLimiter cfg r maxRequestNum duration mark ip now rd =
     (let key = redis_limiter_key mark ip;
          ttl = go_div (RateLimitKeyExpirationDuration cfg) (10 ^ 6);
          expire = (\<lambda>rd. if expire_ok r then Expire now key ttl rd else rd);
          push = (\<lambda>rd. if lpush_ok r then LPush now key now rd else rd);
          trim = (\<lambda>rd. if ltrim_ok r then LTrim now key maxRequestNum rd else rd)
      in if \<not> llen_ok r then (Abort 500, rd)
         else if int (length (rlist now rd key)) < maxRequestNum then (Pass, expire (push rd))
         else if \<not> lindex_ok r \<or> rlist now rd key = [] then (Abort 500, rd)
         else if go_div (now - last (rlist now rd key)) 1000 < duration
              then (Abort 429, expire rd)
              else (Pass, expire (trim (push rd))))"

definition memoryRateLimiter ::
    "int \<Rightarrow> int \<Rightarrow> string \<Rightarrow> string \<Rightarrow> int \<Rightarrow> limiter \<Rightarrow> (gate \<times> limiter) option" where
  "memoryRateLimiter maxRequestNum duration mark ip now l =
     map_option (\<lambda>(ok, l'). (if ok then Pass else Abort 429, l'))
       (Request (mark @ ip) maxRequestNum duration now l)"

text \<open>
  \<open>rateLimitFactory\<close> picks the handler once, when the routes are set up; the in-memory limiter is
  initialised there. The five limiters differ in their bounds and in the mark that starts their keys.
\<close>

datatype rate_handler = NoLimit | RedisLimit int int string | MemoryLimit int int string

definition rateLimitFactory ::
    "config \<Rightarrow> bool \<Rightarrow> int \<Rightarrow> int \<Rightarrow> string \<Rightarrow> limiter \<Rightarrow> rate_handler \<times> limiter" where
  "rateLimitFactory cfg redisEnabled maxRequestNum duration mark l =
     (if maxRequestNum = 0 \<or> DebugEnabled cfg then (NoLimit, l)
      else if redisEnabled then (RedisLimit maxRequestNum duration mark, l)
      else (MemoryLimit maxRequestNum duration mark, limiter_Init (RateLimitKeyExpirationDuration cfg) l))"

datatype limit_kind = GlobalWebRateLimit | GlobalAPIRateLimit | CriticalRateLimit
  | DownloadRateLimit | UploadRateLimit

fun limit_args :: "config \<Rightarrow> limit_kind \<Rightarrow> int \<times> int \<times> string" where
  "limit_args cfg GlobalWebRateLimit =
     (GlobalWebRateLimitNum cfg, GlobalWebRateLimitDuration cfg, ''GW'')"
| "limit_args cfg GlobalAPIRateLimit =
     (GlobalApiRateLimitNum cfg, GlobalApiRateLimitDuration cfg, ''GA'')"
| "limit_args cfg CriticalRateLimit =
     (CriticalRateLimitNum cfg, CriticalRateLimitDuration cfg, ''CT'')"
| "limit_args cfg DownloadRateLimit =
     (DownloadRateLimitNum cfg, DownloadRateLimitDuration cfg, ''DW'')"
| "limit_args cfg UploadRateLimit =
     (UploadRateLimitNum cfg, UploadRateLimitDuration cfg, ''UP'')"

definition limit_key :: "limit_kind \<Rightarrow> string \<Rightarrow> string" where
  "limit_key k ip = (case limit_args (init_config (\<lambda>_. [])) k of (_, _, mark) \<Rightarrow> mark @ ip)"


section \<open>The contract of a limiter\<close>

text \<open>
  \<open>spaced n d ts\<close>: of the times \<open>ts\<close>, any two that are \<open>n\<close> places apart are at least \<open>d\<close> apart;
  \<open>in_window w d ts\<close> are the times in the window of length \<open>d\<close> that starts at \<open>w\<close>.
\<close>

definition spaced :: "nat \<Rightarrow> int \<Rightarrow> int list \<Rightarrow> bool" where
  "spaced n d ts \<longleftrightarrow> (\<forall>i. i + n < length ts \<longrightarrow> ts ! i + d \<le> ts ! (i + n))"

definition in_window :: "int \<Rightarrow> int \<Rightarrow> int list \<Rightarrow> int list" where
  "in_window w d ts = filter (\<lambda>t. w \<le> t \<and> t < w + d) ts"

lemma spaced_window:
  assumes "sorted ts" and "spaced n d ts"
  shows "length (in_window w d ts) \<le> n"
proof -
  let ?S = "{i. i < length ts \<and> w \<le> ts ! i \<and> ts ! i < w + d}"
  have "card ?S \<le> n"
  proof (cases "?S = {}")
    case False
    define m where "m = Min ?S"
    have fin: "finite ?S" by simp
    have m: "m \<in> ?S" unfolding m_def using fin False by (rule Min_in)
    have "?S \<subseteq> {m ..< m + n}"
    proof
      fix i assume i: "i \<in> ?S"
      have "m \<le> i" unfolding m_def using fin i by (rule Min_le)
      moreover have "i < m + n"
      proof (rule ccontr)
        assume "\<not> i < m + n"
        then have le: "m + n \<le> i" by simp
        then have "ts ! m + d \<le> ts ! (m + n)" using i assms(2) by (simp add: spaced_def)
        also have "ts ! (m + n) \<le> ts ! i" using assms(1) le i by (simp add: sorted_nth_mono)
        finally show False using m i by simp
      qed
      ultimately show "i \<in> {m ..< m + n}" by simp
    qed
    then have "card ?S \<le> card {m ..< m + n}" by (rule card_mono [rotated]) simp
    then show ?thesis by simp
  qed (metis card.empty le0)
  then show ?thesis by (simp add: in_window_def length_filter_conv_card)
qed

lemma spaced_snoc:
  assumes "spaced n d ts" and "n \<le> length ts \<Longrightarrow> ts ! (length ts - n) + d \<le> t" and "0 < n"
  shows "spaced n d (ts @ [t])"
  unfolding spaced_def
proof (intro allI impI)
  fix i assume i: "i + n < length (ts @ [t])"
  show "(ts @ [t]) ! i + d \<le> (ts @ [t]) ! (i + n)"
  proof (cases "i + n < length ts")
    case True
    then show ?thesis using assms(1) by (simp add: spaced_def nth_append)
  next
    case False
    with i have "i + n = length ts" by simp
    with assms(2,3) show ?thesis by (simp add: nth_append) (metis diff_add_inverse2 le_add2)
  qed
qed

lemma sorted_le_last: "sorted ts \<Longrightarrow> t \<in> set ts \<Longrightarrow> t \<le> last ts"
  by (induction ts) auto

text \<open>The times of the events of interest that a run admits.\<close>

fun admitted :: "('e \<Rightarrow> 's \<Rightarrow> bool \<times> 's) \<Rightarrow> ('e \<Rightarrow> int) \<Rightarrow> ('e \<Rightarrow> bool) \<Rightarrow> 'e list \<Rightarrow> 's \<Rightarrow> int list" where
  "admitted step time mine [] s = []"
| "admitted step time mine (e # es) s =
     (let (ok, s') = step e s
      in (if mine e \<and> ok then [time e] else []) @ admitted step time mine es s')"

text \<open>
  A queue of at most \<open>limit\<close> times. An event of interest is admitted when the queue has room or
  its oldest entry is at least \<open>span\<close> old; other events, and the passing of time, may only drop a
  whole queue, and only once its newest entry is \<open>keep\<close> old.
\<close>

locale sliding_window =
  fixes view :: "int \<Rightarrow> 's \<Rightarrow> int list"
    and inv :: "'s \<Rightarrow> bool"
    and step :: "'e \<Rightarrow> 's \<Rightarrow> bool \<times> 's"
    and time :: "'e \<Rightarrow> int"
    and mine :: "'e \<Rightarrow> bool"
    and limit :: nat
    and span :: int
    and keep :: int
  assumes limit_pos: "0 < limit"
    and span_keep: "span \<le> keep"
    and inv_step: "inv s \<Longrightarrow> \<forall>x \<in> set (view (time e) s). x \<le> time e \<Longrightarrow> inv (snd (step e s))"
    and age: "inv s \<Longrightarrow> t \<le> t' \<Longrightarrow>
      view t' s = view t s \<or> (view t' s = [] \<and> last (view t s) + keep \<le> t')"
    and other: "inv s \<Longrightarrow> \<not> mine e \<Longrightarrow>
      view (time e) (snd (step e s)) = view (time e) s \<or>
      (view (time e) (snd (step e s)) = [] \<and> last (view (time e) s) + keep \<le> time e)"
    and room: "inv s \<Longrightarrow> mine e \<Longrightarrow> length (view (time e) s) < limit \<Longrightarrow>
      fst (step e s) \<and> view (time e) (snd (step e s)) = view (time e) s @ [time e]"
    and rotate: "inv s \<Longrightarrow> mine e \<Longrightarrow> limit \<le> length (view (time e) s) \<Longrightarrow>
      hd (view (time e) s) + span \<le> time e \<Longrightarrow>
      fst (step e s) \<and> view (time e) (snd (step e s)) = tl (view (time e) s) @ [time e]"
    and refuse: "inv s \<Longrightarrow> mine e \<Longrightarrow> limit \<le> length (view (time e) s) \<Longrightarrow>
      time e < hd (view (time e) s) + span \<Longrightarrow>
      \<not> fst (step e s) \<and> view (time e) (snd (step e s)) = view (time e) s"
begin

text \<open>
  What ties the queue \<open>q\<close> at time \<open>t\<close> to the history \<open>A\<close> of admitted times: the queue is the end
  of the history, and while it is not full everything before it has left every window that is
  still open.
\<close>

definition linked :: "int list \<Rightarrow> int list \<Rightarrow> int \<Rightarrow> bool" where
  "linked A q t \<longleftrightarrow>
     (\<exists>P. A = P @ q \<and> (length q < limit \<longrightarrow> (\<forall>x \<in> set P. x + span \<le> t))) \<and>
     length q \<le> limit \<and> sorted A \<and> (\<forall>x \<in> set A. x \<le> t) \<and> spaced limit span A"

lemma linkedI:
  assumes "A = P @ q" and "length q < limit \<longrightarrow> (\<forall>x \<in> set P. x + span \<le> t)"
    and "length q \<le> limit" and "sorted A" and "\<forall>x \<in> set A. x \<le> t" and "spaced limit span A"
  shows "linked A q t"
  unfolding linked_def using assms by blast

lemma linkedE:
  assumes "linked A q t"
  obtains P where "A = P @ q" and "length q < limit \<longrightarrow> (\<forall>x \<in> set P. x + span \<le> t)"
    and "length q \<le> limit" and "sorted A" and "\<forall>x \<in> set A. x \<le> t" and "spaced limit span A"
  using assms unfolding linked_def by blast

lemma linked_Nil: "linked [] [] t"
  by (rule linkedI [of _ "[]"]) (simp_all add: spaced_def)

lemma linked_later: "linked A q t \<Longrightarrow> t \<le> t' \<Longrightarrow> linked A q t'"
  by (erule linkedE, rule linkedI) force+

lemma linked_drop:
  assumes "linked A q t" and "last q + keep \<le> t" and "q \<noteq> []"
  shows "linked A [] t"
proof -
  from assms(1) obtain P where P: "A = P @ q" and srt: "sorted A" and
    le: "\<forall>x \<in> set A. x \<le> t" and sp: "spaced limit span A"
    by (rule linkedE)
  have "last A = last q" using P assms(3) by simp
  then have "\<forall>x \<in> set A. x + span \<le> t"
    using sorted_le_last [OF srt] assms(2) span_keep by fastforce
  then show ?thesis using srt le sp by (intro linkedI [of A A]) simp_all
qed

lemma linked_room:
  assumes "linked A q t" and "length q < limit"
  shows "linked (A @ [t]) (q @ [t]) t"
proof -
  from assms(1) obtain P where P: "A = P @ q" and
    old: "length q < limit \<longrightarrow> (\<forall>x \<in> set P. x + span \<le> t)" and "length q \<le> limit" and
    srt: "sorted A" and le: "\<forall>x \<in> set A. x \<le> t" and sp: "spaced limit span A"
    by (rule linkedE)
  have "spaced limit span (A @ [t])"
  proof (rule spaced_snoc [OF sp])
    assume "limit \<le> length A"
    then have "length A - limit < length P" using P assms(2) limit_pos by simp
    then have "A ! (length A - limit) \<in> set P" using P by (simp add: nth_append)
    with old assms(2) show "A ! (length A - limit) + span \<le> t" by blast
  qed (rule limit_pos)
  then show ?thesis
    using P old srt le assms(2) by (intro linkedI [of _ P]) (auto simp: sorted_append)
qed

lemma linked_rotate:
  assumes "linked A q t" and "limit \<le> length q" and "hd q + span \<le> t"
  shows "linked (A @ [t]) (tl q @ [t]) t"
proof -
  from assms(1) obtain P where P: "A = P @ q" and short: "length q \<le> limit" and
    srt: "sorted A" and le: "\<forall>x \<in> set A. x \<le> t" and sp: "spaced limit span A"
    by (rule linkedE)
  have len: "length q = limit" using short assms(2) by simp
  then obtain x xs where q: "q = x # xs" using limit_pos by (cases q) auto
  have "spaced limit span (A @ [t])"
  proof (rule spaced_snoc [OF sp])
    have "A ! (length A - limit) = x" using P q len by (simp add: nth_append)
    then show "A ! (length A - limit) + span \<le> t" using assms(3) q by simp
  qed (rule limit_pos)
  moreover have "A @ [t] = (P @ [x]) @ (tl q @ [t])" using P q by simp
  moreover have "length (tl q @ [t]) = limit" using len q by simp
  ultimately show ?thesis
    using srt le by (intro linkedI [of _ "P @ [x]"]) (auto simp: sorted_append)
qed

lemma linked_bound: "linked A q t \<Longrightarrow> \<forall>x \<in> set q. x \<le> t"
  by (auto elim: linkedE)

lemma linked_age:
  assumes "inv s" and "linked A (view t s) t" and "t \<le> t'"
  shows "linked A (view t' s) t'"
  using age [OF assms(1,3)] linked_later [OF assms(2,3)] linked_drop by metis

lemma linked_step:
  assumes "inv s" and q: "linked A (view (time e) s) (time e)"
  shows "linked (A @ (if mine e \<and> fst (step e s) then [time e] else []))
           (view (time e) (snd (step e s))) (time e)"
proof (cases "mine e")
  case False
  with other [OF assms(1) False] q show ?thesis using linked_drop by (metis append_Nil2)
next
  case True
  let ?t = "time e" and ?q = "view (time e) s"
  consider "length ?q < limit" | "limit \<le> length ?q" "hd ?q + span \<le> ?t"
    | "limit \<le> length ?q" "?t < hd ?q + span" by linarith
  then show ?thesis
  proof cases
    case 1
    with room [OF assms(1) True] linked_room [OF q] True show ?thesis by simp
  next
    case 2
    with rotate [OF assms(1) True] linked_rotate [OF q] True show ?thesis by simp
  next
    case 3
    with refuse [OF assms(1) True] q True show ?thesis by simp
  qed
qed

lemma linked_run:
  assumes "inv s" and "linked A (view t s) t" and "sorted (t # map time es)"
  shows "sorted (A @ admitted step time mine es s) \<and>
         spaced limit span (A @ admitted step time mine es s)"
  using assms
proof (induction es arbitrary: s A t)
  case Nil
  then show ?case by (simp add: linked_def)
next
  case (Cons e es)
  obtain ok s' where st: "step e s = (ok, s')" by (cases "step e s")
  have q: "linked A (view (time e) s) (time e)"
    using linked_age [of s A t] Cons.prems by simp
  have "linked (A @ (if mine e \<and> ok then [time e] else [])) (view (time e) s') (time e)"
    using linked_step [OF Cons.prems(1) q] st by simp
  moreover have "inv s'" using inv_step [OF Cons.prems(1) linked_bound [OF q]] st by simp
  moreover have "sorted (time e # map time es)" using Cons.prems(3) by simp
  ultimately show ?case using Cons.IH by (fastforce simp: st)
qed

text \<open>Any window of length \<open>span\<close> holds at most \<open>limit\<close> admitted requests.\<close>

lemma window_bound:
  assumes "inv s" and "\<And>t. view t s = []" and "sorted (map time es)"
  shows "length (in_window w span (admitted step time mine es s)) \<le> limit"
proof (cases es)
  case Nil
  then show ?thesis by (simp add: in_window_def)
next
  case (Cons e es')
  have "linked [] (view (time e) s) (time e)" using assms(2) linked_Nil by simp
  moreover have "sorted (time e # map time es)" using assms(3) Cons by simp
  ultimately have "sorted ([] @ admitted step time mine es s) \<and>
      spaced limit span ([] @ admitted step time mine es s)"
    using assms(1) by (intro linked_run)
  then show ?thesis using spaced_window by simp
qed

end


section \<open>Both limiters keep the contract\<close>

definition limit_ok :: "config \<Rightarrow> limit_kind \<Rightarrow> bool" where
  "limit_ok cfg k =
     (case limit_args cfg k of (n, d, mark) \<Rightarrow>
        0 < n \<and> 0 < d \<and> d \<le> go_div (RateLimitKeyExpirationDuration cfg) second \<and>
        1000 * d \<le> go_div (RateLimitKeyExpirationDuration cfg) (10 ^ 6) \<and> \<not> DebugEnabled cfg)"

definition mark_of :: "config \<Rightarrow> limit_kind \<Rightarrow> string" where
  "mark_of cfg k = snd (snd (limit_args cfg k))"

lemma marks_distinct: "mark_of cfg k @ ip = mark_of cfg k' @ ip' \<longleftrightarrow> k = k' \<and> ip = ip'"
  by (cases k; cases k') (simp_all add: mark_of_def)

subsection \<open>In memory\<close>

datatype mem_event = MemRequest limit_kind string int | MemClear int

fun mem_time :: "mem_event \<Rightarrow> int" where
  "mem_time (MemRequest k ip now) = now"
| "mem_time (MemClear now) = now"

fun mem_mine :: "limit_kind \<Rightarrow> string \<Rightarrow> mem_event \<Rightarrow> bool" where
  "mem_mine k ip (MemRequest k' ip' now) = (k' = k \<and> ip' = ip)"
| "mem_mine k ip (MemClear now) = False"

text \<open>A handler that panics answers 500 and leaves the limiter as it was.\<close>

fun mem_step :: "config \<Rightarrow> mem_event \<Rightarrow> limiter \<Rightarrow> bool \<times> limiter" where
  "mem_step cfg (MemRequest k ip now) l =
     (case limit_args cfg k of (n, d, mark) \<Rightarrow>
        (case memoryRateLimiter n d mark ip now l of
           None \<Rightarrow> (False, l)
         | Some (g, l') \<Rightarrow> (g = Pass, l')))"
| "mem_step cfg (MemClear now) l = (False, clearExpiredItems now l)"

definition mem_view :: "config \<Rightarrow> limit_kind \<Rightarrow> string \<Rightarrow> int \<Rightarrow> limiter \<Rightarrow> int list" where
  "mem_view cfg k ip t l =
     (case queue_of l (mark_of cfg k @ ip) of None \<Rightarrow> [] | Some q \<Rightarrow> q)"

definition mem_inv :: "config \<Rightarrow> limiter \<Rightarrow> bool" where
  "mem_inv cfg l \<longleftrightarrow>
     store l \<noteq> None \<and> expirationDuration l = RateLimitKeyExpirationDuration cfg"

lemma Request_frame:
  "Request key n d now l = Some (ok, l') \<Longrightarrow>
     expirationDuration l' = expirationDuration l \<and> (store l' = None \<longleftrightarrow> store l = None)"
  by (auto simp: Request_def split: option.splits if_splits list.splits)

lemma Request_other_key:
  "Request key n d now l = Some (ok, l') \<Longrightarrow> key' \<noteq> key \<Longrightarrow> queue_of l' key' = queue_of l key'"
  by (cases "store l")
    (auto simp: Request_def queue_of_put split: option.splits if_splits list.splits)

lemma mem_step_inv: "mem_inv cfg l \<Longrightarrow> mem_inv cfg (snd (mem_step cfg e l))"
  by (cases e)
    (auto simp: mem_inv_def memoryRateLimiter_def clearExpiredItems_def
      dest!: Request_frame split: prod.splits option.splits)

lemma mem_clear_view:
  assumes "mem_inv cfg l"
  shows "mem_view cfg k ip t (clearExpiredItems now l) = mem_view cfg k ip t l \<or>
    (mem_view cfg k ip t (clearExpiredItems now l) = [] \<and>
     last (mem_view cfg k ip t l) + go_div (RateLimitKeyExpirationDuration cfg) second \<le> now)"
  using assms
  by (cases "queue_of l (mark_of cfg k @ ip)") (auto simp: mem_view_def mem_inv_def queue_of_clear)

lemma mem_request_room:
  assumes "mem_inv cfg l" and "limit_args cfg k = (n, d, mark)" and "0 < n"
    and "length (mem_view cfg k ip t l) < nat n"
  shows "Request (mark @ ip) n d now l =
    Some (True, put_queue (mark @ ip) (mem_view cfg k ip t l @ [now]) l)"
  using assms
  by (cases "queue_of l (mark @ ip)") (auto simp: Request_def mem_view_def mem_inv_def mark_of_def)

lemma mem_request_full:
  assumes "mem_inv cfg l" and "limit_args cfg k = (n, d, mark)" and "0 < n"
    and "nat n \<le> length (mem_view cfg k ip t l)"
  shows "Request (mark @ ip) n d now l =
    (if hd (mem_view cfg k ip t l) + d \<le> now
     then Some (True, put_queue (mark @ ip) (tl (mem_view cfg k ip t l) @ [now]) l)
     else Some (False, l))"
  using assms
  by (cases "queue_of l (mark @ ip)")
    (auto simp: Request_def mem_view_def mem_inv_def mark_of_def split: list.splits)

lemma mem_view_put:
  "mem_inv cfg l \<Longrightarrow> limit_args cfg k = (n, d, mark) \<Longrightarrow>
   mem_view cfg k ip t (put_queue (mark @ ip) q l) = q"
  by (simp add: mem_view_def mem_inv_def queue_of_put mark_of_def)

lemma mem_sliding_window:
  assumes ok: "limit_ok cfg k" and args: "limit_args cfg k = (n, d, mark)"
  shows "sliding_window (mem_view cfg k ip) (mem_inv cfg) (mem_step cfg) mem_time (mem_mine k ip)
           (nat n) d (go_div (RateLimitKeyExpirationDuration cfg) second)"
proof unfold_locales
  have n: "0 < n" and d: "d \<le> go_div (RateLimitKeyExpirationDuration cfg) second"
    using ok args by (simp_all add: limit_ok_def)
  show "0 < nat n" using n by simp
  show "d \<le> go_div (RateLimitKeyExpirationDuration cfg) second" by (rule d)
  fix s e t t'
  assume inv: "mem_inv cfg s"
  show "mem_inv cfg (snd (mem_step cfg e s))" using inv by (rule mem_step_inv)
  show "mem_view cfg k ip t' s = mem_view cfg k ip t s \<or>
    (mem_view cfg k ip t' s = [] \<and>
     last (mem_view cfg k ip t s) + go_div (RateLimitKeyExpirationDuration cfg) second \<le> t')"
    by (simp add: mem_view_def)
  note req = mem_request_room [OF inv args n] mem_request_full [OF inv args n]
    mem_view_put [OF inv args]
  {
    assume "\<not> mem_mine k ip e"
    then show "mem_view cfg k ip (mem_time e) (snd (mem_step cfg e s)) =
        mem_view cfg k ip (mem_time e) s \<or>
      (mem_view cfg k ip (mem_time e) (snd (mem_step cfg e s)) = [] \<and>
       last (mem_view cfg k ip (mem_time e) s) +
         go_div (RateLimitKeyExpirationDuration cfg) second \<le> mem_time e)"
    proof (cases e)
      case (MemRequest k' ip' now)
      with \<open>\<not> mem_mine k ip e\<close> have "mark_of cfg k @ ip \<noteq> mark_of cfg k' @ ip'"
        by (auto simp: marks_distinct)
      then show ?thesis
        by (auto simp: MemRequest mem_view_def memoryRateLimiter_def mark_of_def
          dest!: Request_other_key [where key' = "snd (snd (limit_args cfg k)) @ ip"]
          split: prod.splits option.splits)
    next
      case (MemClear now)
      then show ?thesis using mem_clear_view [OF inv] by simp
    qed
  next
    assume mine: "mem_mine k ip e"
    then obtain now where e: "e = MemRequest k ip now" by (cases e) auto
    {
      assume "length (mem_view cfg k ip (mem_time e) s) < nat n"
      from req(1) [OF this]
      show "fst (mem_step cfg e s) \<and> mem_view cfg k ip (mem_time e) (snd (mem_step cfg e s)) =
        mem_view cfg k ip (mem_time e) s @ [mem_time e]"
        by (simp add: e args memoryRateLimiter_def req(3))
    next
      assume "nat n \<le> length (mem_view cfg k ip (mem_time e) s)"
        and "hd (mem_view cfg k ip (mem_time e) s) + d \<le> mem_time e"
      with req(2)
      show "fst (mem_step cfg e s) \<and> mem_view cfg k ip (mem_time e) (snd (mem_step cfg e s)) =
        tl (mem_view cfg k ip (mem_time e) s) @ [mem_time e]"
        by (simp add: e args memoryRateLimiter_def req(3))
    next
      assume "nat n \<le> length (mem_view cfg k ip (mem_time e) s)"
        and "mem_time e < hd (mem_view cfg k ip (mem_time e) s) + d"
      with req(2)
      show "\<not> fst (mem_step cfg e s) \<and> mem_view cfg k ip (mem_time e) (snd (mem_step cfg e s)) =
        mem_view cfg k ip (mem_time e) s"
        by (simp add: e args memoryRateLimiter_def req(3))
    }
  }
qed

text \<open>The limiters of the default configuration satisfy the contract's side conditions.\<close>

lemma env_Int_default [simp]: "env_Int (\<lambda>_. []) v d = d"
  by (simp add: env_Int_def)

lemma default_limits_ok: "limit_ok (init_config (\<lambda>_. [])) k"
  by (cases k) (simp_all add: limit_ok_def init_config_def minute_def second_def go_div_def
      ToLower_def)

lemma limit_args_eta:
  "limit_args cfg k = (fst (limit_args cfg k), fst (snd (limit_args cfg k)), mark_of cfg k)"
  by (simp add: mark_of_def split: prod.splits)

definition default_limit :: "limit_kind \<Rightarrow> nat" where
  "default_limit k = nat (fst (limit_args (init_config (\<lambda>_. [])) k))"

definition default_span :: "limit_kind \<Rightarrow> int" where
  "default_span k = fst (snd (limit_args (init_config (\<lambda>_. [])) k))"

interpretation mem: sliding_window
    "mem_view (init_config (\<lambda>_. [])) k ip" "mem_inv (init_config (\<lambda>_. []))"
    "mem_step (init_config (\<lambda>_. []))" mem_time "mem_mine k ip"
    "default_limit k" "default_span k"
    "go_div (RateLimitKeyExpirationDuration (init_config (\<lambda>_. []))) second"
  for k ip
  unfolding default_limit_def default_span_def
  by (rule mem_sliding_window [OF default_limits_ok limit_args_eta])


subsection \<open>In Redis\<close>

datatype redis_event = RedisRequest limit_kind string int

fun redis_time :: "redis_event \<Rightarrow> int" where
  "redis_time (RedisRequest k ip now) = now"

fun redis_mine :: "limit_kind \<Rightarrow> string \<Rightarrow> redis_event \<Rightarrow> bool" where
  "redis_mine k ip (RedisRequest k' ip' now) = (k' = k \<and> ip' = ip)"

fun redis_step :: "config \<Rightarrow> redis_event \<Rightarrow> redis_lists \<Rightarrow> bool \<times> redis_lists" where
  "redis_step cfg (RedisRequest k ip now) rd =
     (case limit_args cfg k of (n, d, mark) \<Rightarrow>
        (case redisRateLimiter cfg replies_ok n d mark ip now rd of (g, rd') \<Rightarrow> (g = Pass, rd')))"

definition redis_key :: "config \<Rightarrow> limit_kind \<Rightarrow> string \<Rightarrow> string" where
  "redis_key cfg k ip = redis_limiter_key (mark_of cfg k) ip"

definition redis_view :: "config \<Rightarrow> limit_kind \<Rightarrow> string \<Rightarrow> int \<Rightarrow> redis_lists \<Rightarrow> int list" where
  "redis_view cfg k ip t rd = rev (rlist t rd (redis_key cfg k ip))"

definition ttl_ms :: "config \<Rightarrow> int" where
  "ttl_ms cfg = go_div (RateLimitKeyExpirationDuration cfg) (10 ^ 6)"

text \<open>
  A stored list has a deadline at least one whole time to live after its newest entry, and the list
  of one limiter is never longer than that limiter's bound.
\<close>

definition redis_inv :: "config \<Rightarrow> limit_kind \<Rightarrow> string \<Rightarrow> redis_lists \<Rightarrow> bool" where
  "redis_inv cfg k ip rd \<longleftrightarrow>
     (case rd (redis_key cfg k ip) of
        None \<Rightarrow> True
      | Some (xs, deadline) \<Rightarrow>
          xs \<noteq> [] \<and> length xs \<le> nat (fst (limit_args cfg k)) \<and>
          (\<exists>dl. deadline = Some dl \<and> hd xs + ttl_ms cfg \<le> dl))"

lemma redis_keys_distinct: "redis_key cfg k ip = redis_key cfg k' ip' \<longleftrightarrow> k = k' \<and> ip = ip'"
  by (simp add: redis_key_def redis_limiter_key_def marks_distinct)

text \<open>The three outcomes of a request when every command is answered.\<close>

lemma rlist_set [simp]: "now < dl \<Longrightarrow> rlist now (rd(k \<mapsto> (xs, Some dl))) k = xs"
  by (simp add: rlist_def)

lemma rlist_LPush: "rlist now (LPush now k x rd) k = x # rlist now rd k"
  by (auto simp: LPush_def rlist_def rdeadline_def split: option.splits if_splits)

lemma rlist_LTrim: "rlist now (LTrim now k n rd) k = take (nat n) (rlist now rd k)"
  by (auto simp: LTrim_def rlist_def rdeadline_def split: option.splits if_splits)

lemma Expire_LPush:
  "Expire now k ttl (LPush now k x rd) = rd(k \<mapsto> (x # rlist now rd k, Some (now + ttl)))"
  unfolding Expire_def rlist_LPush by (simp add: LPush_def)

lemma Expire_LTrim_LPush:
  "0 < n \<Longrightarrow> Expire now k ttl (LTrim now k n (LPush now k x rd)) =
     rd(k \<mapsto> (take (nat n) (x # rlist now rd k), Some (now + ttl)))"
  unfolding Expire_def rlist_LTrim rlist_LPush by (simp add: LTrim_def LPush_def)

lemma redis_request:
  assumes args: "limit_args cfg k = (n, d, mark)" and n: "0 < n"
    and len: "length (rlist now rd (redis_key cfg k ip)) \<le> nat n"
  shows "redisRateLimiter cfg replies_ok n d mark ip now rd =
    (let key = redis_key cfg k ip; xs = rlist now rd key in
     if length xs < nat n then (Pass, rd(key \<mapsto> (now # xs, Some (now + ttl_ms cfg))))
     else if go_div (now - last xs) 1000 < d then (Abort 429, rd(key \<mapsto> (xs, Some (now + ttl_ms cfg))))
     else (Pass, rd(key \<mapsto> (now # butlast xs, Some (now + ttl_ms cfg)))))"
proof -
  have key: "redis_limiter_key mark ip = redis_key cfg k ip"
    using args by (simp add: redis_key_def mark_of_def)
  have iff: "int (length xs) < n \<longleftrightarrow> length xs < nat n" for xs :: "int list"
    by linarith
  have nonempty: "rlist now rd (redis_key cfg k ip) \<noteq> []"
    if "\<not> length (rlist now rd (redis_key cfg k ip)) < nat n"
    using that n by auto
  have trim: "take (nat n) (now # xs) = now # butlast xs" if "length xs = nat n" for xs
    using that n by (simp add: take_Cons' butlast_conv_take)
  show ?thesis
    using n nonempty len trim [of "rlist now rd (redis_key cfg k ip)"]
    by (simp add: redisRateLimiter_def replies_ok_def key Let_def ttl_ms_def iff
        Expire_LPush Expire_LTrim_LPush Expire_def [of _ _ _ rd])
qed

lemma redis_frame:
  assumes "redis_step cfg (RedisRequest k ip now) rd = (ok, rd')"
    and "redis_key cfg k' ip' \<noteq> redis_key cfg k ip"
  shows "rd' (redis_key cfg k' ip') = rd (redis_key cfg k' ip')"
proof -
  obtain n d mark where args: "limit_args cfg k = (n, d, mark)" by (cases "limit_args cfg k")
  have "redis_key cfg k' ip' \<noteq> redis_limiter_key mark ip"
    using assms(2) args by (simp add: redis_key_def mark_of_def)
  then show ?thesis
    using assms(1) args
    by (auto simp: redisRateLimiter_def Let_def LPush_def LTrim_def Expire_def replies_ok_def
        split: if_splits)
qed

lemma go_div_less: "0 < d \<Longrightarrow> go_div x 1000 < d \<longleftrightarrow> x < 1000 * d"
  by (cases "0 \<le> x") (auto simp: go_div_def sgn_if)

lemma redis_inv_short:
  assumes "redis_inv cfg k ip rd" and "limit_args cfg k = (n, d, mark)"
  shows "length (rlist t rd (redis_key cfg k ip)) \<le> nat n"
  using assms by (auto simp: redis_inv_def rlist_def split: option.splits)

lemma redis_inv_age:
  assumes "redis_inv cfg k ip rd" and "t \<le> t'"
  shows "redis_view cfg k ip t' rd = redis_view cfg k ip t rd \<or>
    (redis_view cfg k ip t' rd = [] \<and> last (redis_view cfg k ip t rd) + ttl_ms cfg \<le> t')"
  using assms
  by (auto simp: redis_inv_def redis_view_def rlist_def last_rev split: option.splits)

lemma redis_step_inv:
  assumes "limit_ok cfg k" and inv: "redis_inv cfg k ip rd"
    and le: "\<forall>x \<in> set (redis_view cfg k ip (redis_time e) rd). x \<le> redis_time e"
  shows "redis_inv cfg k ip (snd (redis_step cfg e rd))"
proof (cases e)
  case (RedisRequest k' ip' now)
  show ?thesis
  proof (cases "redis_mine k ip e")
    case False
    then have "redis_key cfg k ip \<noteq> redis_key cfg k' ip'"
      using RedisRequest by (auto simp: redis_keys_distinct)
    then have "snd (redis_step cfg e rd) (redis_key cfg k ip) = rd (redis_key cfg k ip)"
      using redis_frame RedisRequest by (metis prod.collapse)
    then show ?thesis using inv by (simp add: redis_inv_def)
  next
    case True
    obtain n d mark where args: "limit_args cfg k = (n, d, mark)" by (cases "limit_args cfg k")
    then have n: "0 < n" using assms(1) by (simp add: limit_ok_def)
    let ?xs = "rlist now rd (redis_key cfg k ip)"
    have short: "length ?xs \<le> nat n" using redis_inv_short [OF inv args] .
    have hd: "?xs \<noteq> [] \<Longrightarrow> hd ?xs \<le> now" using le RedisRequest by (simp add: redis_view_def)
    have full: "length ?xs = nat n \<Longrightarrow> ?xs \<noteq> []" using n by auto
    show ?thesis
      using True RedisRequest args n short hd full redis_request [OF args n short]
      by (auto simp: redis_inv_def Let_def)
  qed
qed

lemma redis_sliding_window:
  assumes ok: "limit_ok cfg k" and args: "limit_args cfg k = (n, d, mark)"
  shows "sliding_window (redis_view cfg k ip) (redis_inv cfg k ip) (redis_step cfg) redis_time
           (redis_mine k ip) (nat n) (1000 * d) (ttl_ms cfg)"
proof unfold_locales
  have n: "0 < n" and d: "0 < d" and dk: "1000 * d \<le> ttl_ms cfg"
    using ok args by (simp_all add: limit_ok_def ttl_ms_def)
  then have ttl: "0 < ttl_ms cfg" by linarith
  show "0 < nat n" using n by simp
  show "1000 * d \<le> ttl_ms cfg" by (rule dk)
  let ?k = "redis_key cfg k ip"
  fix s :: redis_lists and e t t'
  assume inv: "redis_inv cfg k ip s"
  show "\<forall>x \<in> set (redis_view cfg k ip (redis_time e) s). x \<le> redis_time e \<Longrightarrow>
      redis_inv cfg k ip (snd (redis_step cfg e s))"
    using ok inv by (rule redis_step_inv)
  show "t \<le> t' \<Longrightarrow> redis_view cfg k ip t' s = redis_view cfg k ip t s \<or>
    (redis_view cfg k ip t' s = [] \<and> last (redis_view cfg k ip t s) + ttl_ms cfg \<le> t')"
    using inv by (rule redis_inv_age)
  obtain k' ip' now where e: "e = RedisRequest k' ip' now" by (cases e)
  {
    assume "\<not> redis_mine k ip e"
    then have "redis_key cfg k ip \<noteq> redis_key cfg k' ip'" by (auto simp: e redis_keys_distinct)
    then have "snd (redis_step cfg e s) ?k = s ?k"
      using redis_frame e by (metis prod.collapse)
    then have "redis_view cfg k ip (redis_time e) (snd (redis_step cfg e s)) =
        redis_view cfg k ip (redis_time e) s"
      by (simp add: redis_view_def rlist_def)
    then show "redis_view cfg k ip (redis_time e) (snd (redis_step cfg e s)) =
        redis_view cfg k ip (redis_time e) s \<or>
      (redis_view cfg k ip (redis_time e) (snd (redis_step cfg e s)) = [] \<and>
       last (redis_view cfg k ip (redis_time e) s) + ttl_ms cfg \<le> redis_time e)"
      by simp
  next
    let ?xs = "rlist now s ?k"
    assume "redis_mine k ip e"
    then have mine: "k' = k" "ip' = ip" by (simp_all add: e)
    have short: "length ?xs \<le> nat n" using redis_inv_short [OF inv args] .
    note req = redis_request [OF args n short]
    have oldest: "hd (rev ?xs) = last ?xs" by (simp add: hd_rev)
    have less: "go_div (now - last ?xs) 1000 < d \<longleftrightarrow> now < last ?xs + 1000 * d"
      using go_div_less [OF d] by (simp add: algebra_simps)
    have tl: "tl (rev xs) = rev (butlast xs)" for xs :: "int list"
      by (induction xs rule: rev_induct) simp_all
    {
      assume "length (redis_view cfg k ip (redis_time e) s) < nat n"
      then show "fst (redis_step cfg e s) \<and>
          redis_view cfg k ip (redis_time e) (snd (redis_step cfg e s)) =
          redis_view cfg k ip (redis_time e) s @ [redis_time e]"
        using ttl by (simp add: e mine args req redis_view_def Let_def)
    next
      assume "nat n \<le> length (redis_view cfg k ip (redis_time e) s)"
        and "hd (redis_view cfg k ip (redis_time e) s) + 1000 * d \<le> redis_time e"
      then show "fst (redis_step cfg e s) \<and>
          redis_view cfg k ip (redis_time e) (snd (redis_step cfg e s)) =
          tl (redis_view cfg k ip (redis_time e) s) @ [redis_time e]"
        using ttl short oldest less by (simp add: e mine args req redis_view_def Let_def tl)
    next
      assume "nat n \<le> length (redis_view cfg k ip (redis_time e) s)"
        and "redis_time e < hd (redis_view cfg k ip (redis_time e) s) + 1000 * d"
      then show "\<not> fst (redis_step cfg e s) \<and>
          redis_view cfg k ip (redis_time e) (snd (redis_step cfg e s)) =
          redis_view cfg k ip (redis_time e) s"
        using ttl short oldest less by (simp add: e mine args req redis_view_def Let_def)
    }
  }
qed

interpretation redis: sliding_window
    "redis_view (init_config (\<lambda>_. [])) k ip" "redis_inv (init_config (\<lambda>_. [])) k ip"
    "redis_step (init_config (\<lambda>_. []))" redis_time "redis_mine k ip"
    "default_limit k" "1000 * default_span k" "ttl_ms (init_config (\<lambda>_. []))"
  for k ip
  unfolding default_limit_def default_span_def
  by (rule redis_sliding_window [OF default_limits_ok limit_args_eta])


section \<open>Properties\<close>

definition fresh_limiter :: "config \<Rightarrow> limiter" where
  "fresh_limiter cfg = limiter_Init (RateLimitKeyExpirationDuration cfg) limiter_zero"

lemma fresh_limiter_empty: "mem_inv cfg (fresh_limiter cfg)" "mem_view cfg k ip t (fresh_limiter cfg) = []"
  by (simp_all add: fresh_limiter_def limiter_Init_def limiter_zero_def mem_inv_def mem_view_def
      queue_of_def)

lemma redis_empty: "redis_inv cfg k ip Map.empty" "redis_view cfg k ip t Map.empty = []"
  by (simp_all add: redis_inv_def redis_view_def rlist_def)

text \<open>C22: In memory, for every limiter whose bound and span are positive and not longer than the
  expiration of its keys, and for every sequence of requests (of all limiters and clients) and of
  clean-up rounds in order of time, a client's admitted requests never number more than the bound in
  any window of the span.\<close>

theorem memory_window_bound:
  assumes "limit_ok cfg k" and "limit_args cfg k = (n, d, mark)" and "sorted (map mem_time es)"
  shows "length (in_window w d
    (admitted (mem_step cfg) mem_time (mem_mine k ip) es (fresh_limiter cfg))) \<le> nat n"
  by (rule sliding_window.window_bound [OF mem_sliding_window [OF assms(1,2)] _ _ assms(3)])
    (rule fresh_limiter_empty)+

definition burst :: "mem_event list" where
  "burst = map (\<lambda>i. MemRequest CriticalRateLimit ''1.2.3.4'' (int i)) [0 ..< 25] @
     [MemClear 30, MemRequest CriticalRateLimit ''1.2.3.4'' 1200]"

theorem memory_window_bound_witness:
  "length (in_window 0 1200
    (admitted (mem_step (init_config (\<lambda>_. []))) mem_time (mem_mine CriticalRateLimit ''1.2.3.4'')
       burst (fresh_limiter (init_config (\<lambda>_. []))))) \<le> nat 20"
  by (rule memory_window_bound [OF default_limits_ok])
    (simp_all add: burst_def init_config_def minute_def second_def upt_rec)

text \<open>With Redis, while the server answers every command, a client's admitted requests never
  number more than the bound in any window of the span (here in milliseconds), whatever requests of
  other limiters and clients come between, and although every request renews the expiration of the
  list.\<close>

theorem redis_window_bound:
  assumes "limit_ok cfg k" and "limit_args cfg k = (n, d, mark)" and "sorted (map redis_time es)"
  shows "length (in_window w (1000 * d)
    (admitted (redis_step cfg) redis_time (redis_mine k ip) es Map.empty)) \<le> nat n"
  by (rule sliding_window.window_bound [OF redis_sliding_window [OF assms(1,2)] _ _ assms(3)])
    (rule redis_empty)+

theorem redis_window_bound_witness:
  "length (in_window 0 (1000 * 60)
    (admitted (redis_step (init_config (\<lambda>_. []))) redis_time (redis_mine UploadRateLimit ''::1'')
       [RedisRequest UploadRateLimit ''::1'' 5, RedisRequest DownloadRateLimit ''::1'' 6,
        RedisRequest UploadRateLimit ''::1'' 70000] Map.empty)) \<le> nat 10"
  by (rule redis_window_bound [OF default_limits_ok])
    (simp_all add: init_config_def minute_def second_def)

text \<open>In the shipped configuration the in-memory limiter of the critical routes (login,
  registration, password reset) admits at most 20 requests of a client in any 1200 seconds, and it
  does not refuse without cause: a request is admitted whenever fewer than 20 are recorded.\<close>

theorem critical_limit_shipped:
  assumes "sorted (map mem_time es)"
  shows "length (in_window w 1200 (admitted (mem_step (init_config (\<lambda>_. []))) mem_time
      (mem_mine CriticalRateLimit ip) es (fresh_limiter (init_config (\<lambda>_. []))))) \<le> 20 \<and>
    (mem_inv (init_config (\<lambda>_. [])) l \<longrightarrow>
     length (mem_view (init_config (\<lambda>_. [])) CriticalRateLimit ip now l) < 20 \<longrightarrow>
     fst (mem_step (init_config (\<lambda>_. [])) (MemRequest CriticalRateLimit ip now) l))"
proof -
  have shipped: "default_limit CriticalRateLimit = 20" "default_span CriticalRateLimit = 1200"
    by (simp_all add: default_limit_def default_span_def init_config_def minute_def second_def)
  have "length (in_window w (default_span CriticalRateLimit)
      (admitted (mem_step (init_config (\<lambda>_. []))) mem_time (mem_mine CriticalRateLimit ip) es
        (fresh_limiter (init_config (\<lambda>_. []))))) \<le> default_limit CriticalRateLimit"
    using fresh_limiter_empty assms by (rule mem.window_bound)
  moreover have "fst (mem_step (init_config (\<lambda>_. [])) (MemRequest CriticalRateLimit ip now) l)"
    if "mem_inv (init_config (\<lambda>_. [])) l"
      and "length (mem_view (init_config (\<lambda>_. [])) CriticalRateLimit ip now l) < 20"
    using mem.room [of l CriticalRateLimit ip "MemRequest CriticalRateLimit ip now"] that shipped
    by simp
  ultimately show ?thesis using shipped by simp
qed

theorem critical_limit_shipped_witness:
  "sorted (map mem_time burst) \<and>
   length (in_window 3 1200 (admitted (mem_step (init_config (\<lambda>_. []))) mem_time
      (mem_mine CriticalRateLimit ''1.2.3.4'') burst (fresh_limiter (init_config (\<lambda>_. []))))) \<le> 20 \<and>
   fst (mem_step (init_config (\<lambda>_. [])) (MemRequest CriticalRateLimit ''1.2.3.4'' 7)
     (fresh_limiter (init_config (\<lambda>_. []))))"
proof -
  have "sorted (map mem_time burst)" by (simp add: burst_def upt_rec)
  then show ?thesis
    using critical_limit_shipped [of burst 3 "''1.2.3.4''" "fresh_limiter (init_config (\<lambda>_. []))" 7]
      fresh_limiter_empty
    by simp
qed

end
