(* ===== verification/Store.thy ===== *)
theory Store
  imports Config
begin

text \<open>
  The state behind package \<^verbatim>\<open>model\<close>: the database tables (\<^verbatim>\<open>model/user.go\<close>, \<^verbatim>\<open>token.go\<close>,
  \<^verbatim>\<open>redemption.go\<close>, \<^verbatim>\<open>channel.go\<close>, \<^verbatim>\<open>ability.go\<close>, \<^verbatim>\<open>log.go\<close>, \<^verbatim>\<open>option.go\<close>), the Redis cache
  (\<^verbatim>\<open>common/redis.go\<close>), the blacklist (\<^verbatim>\<open>common/blacklist/main.go\<close>) and the stores of the batch
  updater (\<^verbatim>\<open>model/utils.go\<close>).

  A row is a record with the columns of the Go struct, a table the list of its rows in the order of
  the primary key. Every statement the program sends may fail: \<open>db_faults\<close> is a script of the
  outcomes still to come (\<open>Some e\<close>: the statement fails with error \<open>e\<close> and changes nothing), and when
  it is used up every statement succeeds. \<open>kv_faults\<close> is the same for Redis commands.
\<close>

section \<open>Rows\<close>

record user =
  u_id :: int
  u_username :: string
  u_password :: string
  u_display_name :: string
  u_role :: int
  u_status :: int
  u_email :: string
  u_github_id :: string
  u_lark_id :: string
  u_oidc_id :: string
  u_access_token :: string
  u_quota :: int
  u_used_quota :: int
  u_request_count :: int
  u_group :: string
  u_aff_code :: string
  u_inviter_id :: int

record token =
  t_id :: int
  t_user_id :: int
  t_key :: string
  t_status :: int
  t_name :: string
  t_created_time :: int
  t_accessed_time :: int
  t_expired_time :: int
  t_remain_quota :: int
  t_unlimited_quota :: bool
  t_used_quota :: int
  t_models :: "string option"
  t_subnet :: "string option"

record redemption =
  r_id :: int
  r_user_id :: int
  r_key :: string
  r_status :: int
  r_name :: string
  r_quota :: int
  r_created_time :: int
  r_redeemed_time :: int

record channel =
  c_id :: int
  c_type :: int
  c_key :: string
  c_status :: int
  c_name :: string
  c_weight :: "int option"
  c_created_time :: int
  c_test_time :: int
  c_response_time :: int
  c_base_url :: "string option"
  c_other :: "string option"
  c_balance :: f64
  c_balance_updated_time :: int
  c_models :: string
  c_group :: string
  c_used_quota :: int
  c_model_mapping :: "string option"
  c_priority :: "int option"
  c_config :: string
  c_system_prompt :: "string option"

record ability =
  a_group :: string
  a_model :: string
  a_channel_id :: int
  a_enabled :: bool
  a_priority :: "int option"

record log =
  l_id :: int
  l_user_id :: int
  l_created_at :: int
  l_type :: int
  l_content :: string
  l_username :: string
  l_token_name :: string
  l_model_name :: string
  l_quota :: int
  l_prompt_tokens :: int
  l_completion_tokens :: int
  l_channel_id :: int
  l_request_id :: string
  l_elapsed_time :: int
  l_is_stream :: bool
  l_system_prompt_reset :: bool

abbreviation (input) RoleGuestUser :: int where "RoleGuestUser \<equiv> 0"
abbreviation (input) RoleCommonUser :: int where "RoleCommonUser \<equiv> 1"
abbreviation (input) RoleAdminUser :: int where "RoleAdminUser \<equiv> 10"
abbreviation (input) RoleRootUser :: int where "RoleRootUser \<equiv> 100"

abbreviation (input) UserStatusEnabled :: int where "UserStatusEnabled \<equiv> 1"
abbreviation (input) UserStatusDisabled :: int where "UserStatusDisabled \<equiv> 2"
abbreviation (input) UserStatusDeleted :: int where "UserStatusDeleted \<equiv> 3"

abbreviation (input) TokenStatusEnabled :: int where "TokenStatusEnabled \<equiv> 1"
abbreviation (input) TokenStatusDisabled :: int where "TokenStatusDisabled \<equiv> 2"
abbreviation (input) TokenStatusExpired :: int where "TokenStatusExpired \<equiv> 3"
abbreviation (input) TokenStatusExhausted :: int where "TokenStatusExhausted \<equiv> 4"

abbreviation (input) RedemptionCodeStatusEnabled :: int where "RedemptionCodeStatusEnabled \<equiv> 1"
abbreviation (input) RedemptionCodeStatusDisabled :: int where "RedemptionCodeStatusDisabled \<equiv> 2"
abbreviation (input) RedemptionCodeStatusUsed :: int where "RedemptionCodeStatusUsed \<equiv> 3"

abbreviation (input) ChannelStatusEnabled :: int where "ChannelStatusEnabled \<equiv> 1"
abbreviation (input) ChannelStatusManuallyDisabled :: int where "ChannelStatusManuallyDisabled \<equiv> 2"
abbreviation (input) ChannelStatusAutoDisabled :: int where "ChannelStatusAutoDisabled \<equiv> 3"

abbreviation (input) LogTypeUnknown :: int where "LogTypeUnknown \<equiv> 0"
abbreviation (input) LogTypeTopup :: int where "LogTypeTopup \<equiv> 1"
abbreviation (input) LogTypeConsume :: int where "LogTypeConsume \<equiv> 2"
abbreviation (input) LogTypeManage :: int where "LogTypeManage \<equiv> 3"
abbreviation (input) LogTypeSystem :: int where "LogTypeSystem \<equiv> 4"
abbreviation (input) LogTypeTest :: int where "LogTypeTest \<equiv> 5"


section \<open>The state\<close>

datatype batch_type =
    BatchUpdateTypeUserQuota
  | BatchUpdateTypeTokenQuota
  | BatchUpdateTypeUsedQuota
  | BatchUpdateTypeChannelUsedQuota
  | BatchUpdateTypeRequestCount

text \<open>
  A cached value: a plain string, or the JSON text of a token, kept as the token it denotes (every
  field of the Go struct has a JSON name, so \<open>Unmarshal\<close> undoes \<open>Marshal\<close>).
\<close>

datatype kv_value = KStr string | KToken token

text \<open>A goroutine that an operation starts and does not wait for.\<close>

datatype job = QuotaReminder int bool int

record st =
  users :: "user list"
  tokens :: "token list"
  redemptions :: "redemption list"
  channels :: "channel list"
  abilities :: "ability list"
  logs :: "log list"
  options :: "(string \<times> string) list"
  next_id :: int
  db_faults :: "string option list"
  redis_enabled :: bool
  kv :: "string \<rightharpoonup> kv_value \<times> int option"
  kv_faults :: "string option list"
  blacklist :: "int list"
  batch_stores :: "batch_type \<Rightarrow> (int \<times> int) list"
  jobs :: "job list"

definition empty_st :: st where
  "empty_st = \<lparr>users = [], tokens = [], redemptions = [], channels = [], abilities = [], logs = [],
     options = [], next_id = 1, db_faults = [], redis_enabled = False, kv = Map.empty,
     kv_faults = [], blacklist = [], batch_stores = (\<lambda>_. []), jobs = []\<rparr>"

definition ErrRecordNotFound :: string where
  "ErrRecordNotFound = ''record not found''"


section \<open>Statements\<close>

text \<open>A statement without a result: its error, if any, and the state after it.\<close>

definition db_exec :: "(st \<Rightarrow> st) \<Rightarrow> st \<Rightarrow> string option \<times> st" where
  "db_exec f s =
     (case db_faults s of
        [] \<Rightarrow> (None, f s)
      | None # r \<Rightarrow> (None, f (s\<lparr>db_faults := r\<rparr>))
      | Some e # r \<Rightarrow> (Some e, s\<lparr>db_faults := r\<rparr>))"

text \<open>A query: \<open>Find\<close> gives what there is, \<open>First\<close> an error when there is nothing.\<close>

definition db_find :: "(st \<Rightarrow> 'a) \<Rightarrow> st \<Rightarrow> (string + 'a) \<times> st" where
  "db_find q s =
     (case db_faults s of
        [] \<Rightarrow> (Inr (q s), s)
      | None # r \<Rightarrow> (Inr (q s), s\<lparr>db_faults := r\<rparr>)
      | Some e # r \<Rightarrow> (Inl e, s\<lparr>db_faults := r\<rparr>))"

definition db_first :: "(st \<Rightarrow> 'a option) \<Rightarrow> st \<Rightarrow> (string + 'a) \<times> st" where
  "db_first q s =
     (case db_find q s of
        (Inl e, s') \<Rightarrow> (Inl e, s')
      | (Inr None, s') \<Rightarrow> (Inl ErrRecordNotFound, s')
      | (Inr (Some x), s') \<Rightarrow> (Inr x, s'))"

text \<open>A statement that a constraint of the schema may refuse.\<close>

definition db_try :: "(st \<Rightarrow> string + st) \<Rightarrow> st \<Rightarrow> string option \<times> st" where
  "db_try f s =
     (case db_find f s of
        (Inl e, s') \<Rightarrow> (Some e, s')
      | (Inr (Inl e), s') \<Rightarrow> (Some e, s')
      | (Inr (Inr s2), s') \<Rightarrow> (None, s2\<lparr>db_faults := db_faults s'\<rparr>))"

definition ErrDuplicatedKey :: string where
  "ErrDuplicatedKey = ''duplicated key not allowed''"

text \<open>
  \<open>DB.Transaction(f)\<close>: begin, the body, then commit or, after an error of the body or of the commit,
  roll back. What the body did outside the database (nothing, in this program) would stay.
\<close>

definition rollback :: "st \<Rightarrow> st \<Rightarrow> st" where
  "rollback s s' =
     s'\<lparr>users := users s, tokens := tokens s, redemptions := redemptions s, channels := channels s,
        abilities := abilities s, logs := logs s, options := options s, next_id := next_id s\<rparr>"

definition db_transaction :: "(st \<Rightarrow> (string + 'a) \<times> st) \<Rightarrow> st \<Rightarrow> (string + 'a) \<times> st" where
  "db_transaction body s =
     (case db_exec id s of
        (Some e, s1) \<Rightarrow> (Inl e, s1)
      | (None, s1) \<Rightarrow>
          (case body s1 of
             (Inl e, s2) \<Rightarrow> (Inl e, rollback s s2)
           | (Inr x, s2) \<Rightarrow>
               (case db_exec id s2 of
                  (Some e, s3) \<Rightarrow> (Inl e, rollback s s3)
                | (None, s3) \<Rightarrow> (Inr x, s3))))"

lemma db_exec_ok [simp]: "db_faults s = [] \<Longrightarrow> db_exec f s = (None, f s)"
  by (simp add: db_exec_def)

lemma db_find_ok [simp]: "db_faults s = [] \<Longrightarrow> db_find q s = (Inr (q s), s)"
  by (simp add: db_find_def)

lemma db_first_ok: "db_faults s = [] \<Longrightarrow>
    db_first q s = (case q s of None \<Rightarrow> Inl ErrRecordNotFound | Some x \<Rightarrow> Inr x, s)"
  by (simp add: db_first_def split: option.split)

lemma db_first_Some [simp]:
  "db_faults s = [] \<Longrightarrow> q s = Some x \<Longrightarrow> db_first q s = (Inr x, s)"
  by (simp add: db_first_ok)

lemma db_first_None [simp]:
  "db_faults s = [] \<Longrightarrow> q s = None \<Longrightarrow> db_first q s = (Inl ErrRecordNotFound, s)"
  by (simp add: db_first_ok)

lemma db_faults_same [simp]: "db_faults s = [] \<Longrightarrow> s\<lparr>db_faults := []\<rparr> = s"
  by (cases s) simp

text \<open>Whatever fails, a query only shortens the script, and a statement does all or nothing.\<close>

lemma db_find_state: "snd (db_find q s) = s\<lparr>db_faults := tl (db_faults s)\<rparr>"
  by (cases "db_faults s") (auto simp: db_find_def split: option.split)

lemma db_first_state: "snd (db_first q s) = s\<lparr>db_faults := tl (db_faults s)\<rparr>"
  using db_find_state [of q s]
  by (auto simp: db_first_def split: prod.split sum.split option.split)

lemma db_first_Inr:
  "db_first q s = (Inr x, s') \<Longrightarrow> q s = Some x \<and> s' = s\<lparr>db_faults := tl (db_faults s)\<rparr>"
  by (cases "db_faults s")
    (auto simp: db_first_def db_find_def split: option.splits)

lemma db_first_Inl:
  "db_first q s = (Inl e, s') \<Longrightarrow> s' = s\<lparr>db_faults := tl (db_faults s)\<rparr>"
  by (metis db_first_state snd_conv)

lemma db_find_Inr:
  "db_find q s = (Inr x, s') \<Longrightarrow> q s = x \<and> s' = s\<lparr>db_faults := tl (db_faults s)\<rparr>"
  by (cases "db_faults s") (auto simp: db_find_def split: option.splits)

lemma db_find_Inl:
  "db_find q s = (Inl x, s') \<Longrightarrow> s' = s\<lparr>db_faults := tl (db_faults s)\<rparr>"
  by (metis db_find_state snd_conv)

lemma db_exec_cases:
  assumes "db_exec f s = (r, s')"
  shows "(r = None \<and> s' = f (s\<lparr>db_faults := tl (db_faults s)\<rparr>)) \<or>
    (\<exists>e. r = Some e \<and> s' = s\<lparr>db_faults := tl (db_faults s)\<rparr>)"
  using assms by (cases "db_faults s") (auto simp: db_exec_def split: option.splits)


text \<open>
  \<open>ORDER BY id DESC LIMIT num OFFSET start\<close>: a negative limit means no limit, a negative offset none.
\<close>

definition page :: "int \<Rightarrow> int \<Rightarrow> 'r list \<Rightarrow> 'r list" where
  "page start num rows =
     (let rest = drop (nat start) (rev rows) in if num < 0 then rest else take (nat num) rest)"

lemma set_page: "set (page start num rows) \<subseteq> set rows"
  by (auto simp: page_def Let_def dest!: in_set_takeD in_set_dropD)

text \<open>Consecutive pages, one after the other, are the whole table, newest row first.\<close>

lemma take_pages: "concat (map (\<lambda>p. take n (drop (p * n) xs)) [0 ..< k]) = take (k * n) xs"
proof (induction k)
  case (Suc k)
  have "take (k * n) xs @ take n (drop (k * n) xs) = take (k * n + n) xs"
    by (simp add: take_add)
  with Suc show ?case by (simp add: add.commute)
qed simp

lemma pages_complete:
  assumes "0 < n" and "int (length rows) \<le> int k * n"
  shows "concat (map (\<lambda>p. page (int p * n) n rows) [0 ..< k]) = rev rows"
proof -
  have n: "nat (int p * n) = p * nat n" for p using assms(1) by (simp add: nat_mult_distrib)
  have "concat (map (\<lambda>p. page (int p * n) n rows) [0 ..< k]) = take (k * nat n) (rev rows)"
    using assms(1) by (simp add: page_def Let_def n flip: take_pages)
  moreover have "length (rev rows) \<le> k * nat n" using nat_mono [OF assms(2)] n [of k] by simp
  ultimately show ?thesis by simp
qed

text \<open>\<open>Updates\<close> with a struct writes its non-zero fields; without a condition it is refused.\<close>

definition nz :: "int \<Rightarrow> int \<Rightarrow> int" where
  "nz new old = (if new = 0 then old else new)"

definition nz_str :: "string \<Rightarrow> string \<Rightarrow> string" where
  "nz_str new old = (if new = '''' then old else new)"

definition nz_opt :: "'a option \<Rightarrow> 'a option \<Rightarrow> 'a option" where
  "nz_opt new old = (case new of None \<Rightarrow> old | Some x \<Rightarrow> Some x)"

definition ErrMissingWhereClause :: string where
  "ErrMissingWhereClause = ''WHERE conditions required''"

text \<open>The JSON body of a handler's answer: its data, or its message (with some data).\<close>

datatype 'a reply = Success 'a | Failure string

text \<open>The page number of a query: malformed or negative counts as 0.\<close>

definition query_page :: "string \<Rightarrow> int" where
  "query_page q = max 0 (parse_value (ParseInt q))"

section \<open>Redis\<close>

definition kv_live :: "int \<Rightarrow> string \<Rightarrow> st \<Rightarrow> (kv_value \<times> int option) option" where
  "kv_live now key s =
     (case kv s key of
        None \<Rightarrow> None
      | Some (v, None) \<Rightarrow> Some (v, None)
      | Some (v, Some deadline) \<Rightarrow> if now < deadline then Some (v, Some deadline) else None)"

definition kv_tick :: "st \<Rightarrow> string option \<times> st" where
  "kv_tick s = (case kv_faults s of [] \<Rightarrow> (None, s) | e # r \<Rightarrow> (e, s\<lparr>kv_faults := r\<rparr>))"

definition RedisGet :: "int \<Rightarrow> string \<Rightarrow> st \<Rightarrow> (string + kv_value) \<times> st" where
  "RedisGet now key s =
     (case kv_tick s of
        (Some e, s') \<Rightarrow> (Inl e, s')
      | (None, s') \<Rightarrow>
          (case kv_live now key s' of
             None \<Rightarrow> (Inl ''redis: nil'', s')
           | Some (v, _) \<Rightarrow> (Inr v, s')))"

text \<open>A time to live of zero or less leaves the key without an expiration.\<close>

definition RedisSet :: "int \<Rightarrow> string \<Rightarrow> kv_value \<Rightarrow> int \<Rightarrow> st \<Rightarrow> string option \<times> st" where
  "RedisSet now key v ttl s =
     (case kv_tick s of
        (Some e, s') \<Rightarrow> (Some e, s')
      | (None, s') \<Rightarrow>
          (None, s'\<lparr>kv := (kv s')(key \<mapsto> (v, if 0 < ttl then Some (now + ttl) else None))\<rparr>))"

definition RedisDel :: "string \<Rightarrow> st \<Rightarrow> string option \<times> st" where
  "RedisDel key s =
     (case kv_tick s of
        (Some e, s') \<Rightarrow> (Some e, s')
      | (None, s') \<Rightarrow> (None, s'\<lparr>kv := (kv s')(key := None)\<rparr>))"

text \<open>\<open>DECRBY\<close>: a missing key counts as 0, the expiration of an existing one is kept, and a value
  that is not a 64-bit integer, or leaves that range, is an error.\<close>

definition RedisDecrease :: "int \<Rightarrow> string \<Rightarrow> int \<Rightarrow> st \<Rightarrow> string option \<times> st" where
  "RedisDecrease now key n s =
     (case kv_tick s of
        (Some e, s') \<Rightarrow> (Some e, s')
      | (None, s') \<Rightarrow>
          (let put = (\<lambda>i d. if int64 i then (None, s'\<lparr>kv := (kv s')(key \<mapsto> (KStr (Itoa i), d))\<rparr>)
                            else (Some ''ERR increment or decrement would overflow'', s'))
           in (case kv_live now key s' of
                 None \<Rightarrow> put (- n) None
               | Some (KStr v, d) \<Rightarrow>
                   (case ParseInt v of
                      ParsedInt i \<Rightarrow> put (i - n) d
                    | _ \<Rightarrow> (Some ''ERR value is not an integer or out of range'', s'))
               | Some (KToken t, d) \<Rightarrow> (Some ''ERR value is not an integer or out of range'', s'))))"


section \<open>The blacklist\<close>

definition BanUser :: "int \<Rightarrow> st \<Rightarrow> st" where
  "BanUser uid s = s\<lparr>blacklist := List.insert uid (blacklist s)\<rparr>"

definition UnbanUser :: "int \<Rightarrow> st \<Rightarrow> st" where
  "UnbanUser uid s = s\<lparr>blacklist := removeAll uid (blacklist s)\<rparr>"

definition IsUserBanned :: "int \<Rightarrow> st \<Rightarrow> bool" where
  "IsUserBanned uid s = (uid \<in> set (blacklist s))"

lemma IsUserBanned_BanUser [simp]: "IsUserBanned i (BanUser j s) \<longleftrightarrow> i = j \<or> IsUserBanned i s"
  by (auto simp: IsUserBanned_def BanUser_def)

lemma IsUserBanned_UnbanUser [simp]: "IsUserBanned i (UnbanUser j s) \<longleftrightarrow> i \<noteq> j \<and> IsUserBanned i s"
  by (auto simp: IsUserBanned_def UnbanUser_def)


section \<open>Formatting\<close>

text \<open>\<open>fmt.Sprintf("%.<n>f")\<close>: the decimal nearest to the float, ties to the even last digit.\<close>

definition pad_digits :: "nat \<Rightarrow> nat \<Rightarrow> string" where
  "pad_digits n m = (let ds = nat_digits m in replicate (n - length ds) (CHR ''0'') @ ds)"

definition fmt_fixed :: "nat \<Rightarrow> rat \<Rightarrow> string" where
  "fmt_fixed n q =
     (let x = \<bar>q\<bar> * 10 ^ n;
          f = nat \<lfloor>x\<rfloor>;
          r = x - of_nat f;
          m = (if r > 1 / 2 \<or> (r = 1 / 2 \<and> odd f) then f + 1 else f)
      in (if q < 0 then ''-'' else '''') @ nat_digits (m div 10 ^ n) @ ''.'' @ pad_digits n (m mod 10 ^ n))"

definition LogQuota :: "config \<Rightarrow> int \<Rightarrow> string" where
  "LogQuota cfg quota =
     (if DisplayInCurrencyEnabled cfg
      then [CHR 0xEF, CHR 0xBC, CHR 0x84] @
        (case f64_of_int quota / QuotaPerUnit cfg of F64 q \<Rightarrow> fmt_fixed 6 q) @ '' credits''
      else Itoa quota @ '' credits'')"

end
