(* ===== verification/Quota.thy ===== *)
theory Quota
  imports Store "HOL-Library.AList" "HOL-Library.Multiset"
begin

text \<open>
  The quota accounts: the increments and decrements of \<^verbatim>\<open>model/user.go\<close>, \<^verbatim>\<open>model/token.go\<close> and
  \<^verbatim>\<open>model/channel.go\<close>, the batch updater of \<^verbatim>\<open>model/utils.go\<close> that collects them in memory, and the
  pre- and post-consumption that a relayed request goes through.

  The database adds in columns of type \<open>bigint\<close>; the model's rows hold unbounded integers, so the
  theorems speak of accounts that stay within 64 bits. The sums the Go code forms itself (the batch
  stores) wrap.
\<close>

section \<open>Columns that are only added to\<close>

definition bump :: "('r \<Rightarrow> int) \<Rightarrow> (int \<Rightarrow> 'r \<Rightarrow> 'r) \<Rightarrow> int \<Rightarrow> int \<Rightarrow> 'r list \<Rightarrow> 'r list" where
  "bump key add k v = update_where (\<lambda>r. key r = k) (add v)"

definition pend :: "(int \<times> int) list \<Rightarrow> int \<Rightarrow> int" where
  "pend xs k = sum_list (map snd (filter (\<lambda>p. fst p = k) xs))"

lemma pend_Nil [simp]: "pend [] k = 0"
  by (simp add: pend_def)

lemma pend_Cons [simp]: "pend ((k', v) # xs) k = (if k' = k then v else 0) + pend xs k"
  by (simp add: pend_def)

lemma pend_append [simp]: "pend (xs @ ys) k = pend xs k + pend ys k"
  by (simp add: pend_def)

lemma pend_mset: "mset xs = mset ys \<Longrightarrow> pend xs k = pend ys k"
proof -
  assume "mset xs = mset ys"
  then have "mset (map snd (filter (\<lambda>p. fst p = k) xs)) = mset (map snd (filter (\<lambda>p. fst p = k) ys))"
    by simp
  then show ?thesis unfolding pend_def by (metis sum_mset_sum_list)
qed

lemma pend_map_of:
  "distinct (map fst xs) \<Longrightarrow> pend xs k = (case map_of xs k of None \<Rightarrow> 0 | Some v \<Rightarrow> v)"
proof (induction xs)
  case (Cons p xs)
  have "pend xs (fst p) = 0" if "fst p \<notin> set (map fst xs)"
    using that by (simp add: pend_def filter_empty_conv) (metis (mono_tags, lifting) filter_False
      fst_conv image_eqI list.map(1) sum_list.Nil)
  with Cons show ?case by (cases p) auto
qed simp

text \<open>
  The contract of such a column: rows have a key, and adding is an action of the integers on rows
  that keeps the key. The order of a series of increments is then immaterial.
\<close>

locale counter_column =
  fixes key :: "'r \<Rightarrow> int" and add :: "int \<Rightarrow> 'r \<Rightarrow> 'r"
  assumes key_add [simp]: "key (add v r) = key r"
    and add_add: "add v (add w r) = add (w + v) r"
    and add_0 [simp]: "add 0 r = r"
begin

lemma bump_map: "bump key add k v rs = map (\<lambda>r. add (if k = key r then v else 0) r) rs"
  by (simp add: bump_def update_where_def)

lemma bump_keys: "map key (bump key add k v rs) = map key rs"
  by (simp add: bump_map)

lemma bump_fold:
  "fold (\<lambda>(k, v). bump key add k v) xs rs = map (\<lambda>r. add (pend xs (key r)) r) rs"
proof (induction xs arbitrary: rs)
  case (Cons p xs)
  obtain k v where p: "p = (k, v)" by (cases p)
  show ?case
    by (simp add: p Cons.IH) (simp add: bump_map add_add)
qed simp

lemma bump_fold_mset:
  assumes "mset xs = mset ys"
  shows "fold (\<lambda>(k, v). bump key add k v) xs rs = fold (\<lambda>(k, v). bump key add k v) ys rs"
  unfolding bump_fold pend_mset [OF assms] ..

end

definition add_quota :: "int \<Rightarrow> user \<Rightarrow> user" where
  "add_quota q u = u\<lparr>u_quota := u_quota u + q\<rparr>"

definition add_used :: "int \<Rightarrow> user \<Rightarrow> user" where
  "add_used q u = u\<lparr>u_used_quota := u_used_quota u + q\<rparr>"

definition add_count :: "int \<Rightarrow> user \<Rightarrow> user" where
  "add_count n u = u\<lparr>u_request_count := u_request_count u + n\<rparr>"

definition add_token :: "int \<Rightarrow> token \<Rightarrow> token" where
  "add_token q t = t\<lparr>t_remain_quota := t_remain_quota t + q, t_used_quota := t_used_quota t - q\<rparr>"

definition add_channel :: "int \<Rightarrow> channel \<Rightarrow> channel" where
  "add_channel q c = c\<lparr>c_used_quota := c_used_quota c + q\<rparr>"

interpretation quota: counter_column u_id add_quota
  by unfold_locales (simp_all add: add_quota_def)

interpretation used: counter_column u_id add_used
  by unfold_locales (simp_all add: add_used_def)

interpretation counts: counter_column u_id add_count
  by unfold_locales (simp_all add: add_count_def)

interpretation tokenq: counter_column t_id add_token
  by unfold_locales (simp_all add: add_token_def algebra_simps)

interpretation channelq: counter_column c_id add_channel
  by unfold_locales (simp_all add: add_channel_def)


section \<open>The direct updates\<close>

definition increaseUserQuota :: "int \<Rightarrow> int \<Rightarrow> st \<Rightarrow> string option \<times> st" where
  "increaseUserQuota uid quota =
     db_exec (\<lambda>s. s\<lparr>users := bump u_id add_quota uid quota (users s)\<rparr>)"

definition decreaseUserQuota :: "int \<Rightarrow> int \<Rightarrow> st \<Rightarrow> string option \<times> st" where
  "decreaseUserQuota uid quota =
     db_exec (\<lambda>s. s\<lparr>users := bump u_id add_quota uid (- quota) (users s)\<rparr>)"

definition updateUserUsedQuotaAndRequestCount :: "int \<Rightarrow> int \<Rightarrow> int \<Rightarrow> st \<Rightarrow> st" where
  "updateUserUsedQuotaAndRequestCount uid quota n s =
     snd (db_exec (\<lambda>s. s\<lparr>users := bump u_id add_count uid n
        (bump u_id add_used uid quota (users s))\<rparr>) s)"

definition updateUserUsedQuota :: "int \<Rightarrow> int \<Rightarrow> st \<Rightarrow> st" where
  "updateUserUsedQuota uid quota s =
     snd (db_exec (\<lambda>s. s\<lparr>users := bump u_id add_used uid quota (users s)\<rparr>) s)"

definition updateUserRequestCount :: "int \<Rightarrow> int \<Rightarrow> st \<Rightarrow> st" where
  "updateUserRequestCount uid n s =
     snd (db_exec (\<lambda>s. s\<lparr>users := bump u_id add_count uid n (users s)\<rparr>) s)"

definition touch_token :: "int \<Rightarrow> int \<Rightarrow> token \<Rightarrow> token" where
  "touch_token now q t = (add_token q t)\<lparr>t_accessed_time := now\<rparr>"

definition increaseTokenQuota :: "int \<Rightarrow> int \<Rightarrow> int \<Rightarrow> st \<Rightarrow> string option \<times> st" where
  "increaseTokenQuota now tid quota =
     db_exec (\<lambda>s. s\<lparr>tokens := update_where (\<lambda>t. t_id t = tid) (touch_token now quota) (tokens s)\<rparr>)"

definition decreaseTokenQuota :: "int \<Rightarrow> int \<Rightarrow> int \<Rightarrow> st \<Rightarrow> string option \<times> st" where
  "decreaseTokenQuota now tid quota =
     db_exec (\<lambda>s. s\<lparr>tokens := update_where (\<lambda>t. t_id t = tid) (touch_token now (- quota)) (tokens s)\<rparr>)"

definition updateChannelUsedQuota :: "int \<Rightarrow> int \<Rightarrow> st \<Rightarrow> st" where
  "updateChannelUsedQuota cid quota s =
     snd (db_exec (\<lambda>s. s\<lparr>channels := bump c_id add_channel cid quota (channels s)\<rparr>) s)"


section \<open>The batch stores and the public operations\<close>

definition addNewRecord :: "batch_type \<Rightarrow> int \<Rightarrow> int \<Rightarrow> st \<Rightarrow> st" where
  "addNewRecord ty key value s =
     s\<lparr>batch_stores := (batch_stores s)(ty :=
        (let store = batch_stores s ty
         in AList.update key
              (case map_of store key of None \<Rightarrow> value | Some old \<Rightarrow> wrap64 (old + value)) store))\<rparr>"

definition negative_quota :: string where
  "negative_quota = ''quota cannot be negative!''"

definition IncreaseUserQuota :: "config \<Rightarrow> int \<Rightarrow> int \<Rightarrow> st \<Rightarrow> string option \<times> st" where
  "IncreaseUserQuota cfg uid quota s =
     (if quota < 0 then (Some negative_quota, s)
      else if BatchUpdateEnabled cfg then (None, addNewRecord BatchUpdateTypeUserQuota uid quota s)
      else increaseUserQuota uid quota s)"

definition DecreaseUserQuota :: "config \<Rightarrow> int \<Rightarrow> int \<Rightarrow> st \<Rightarrow> string option \<times> st" where
  "DecreaseUserQuota cfg uid quota s =
     (if quota < 0 then (Some negative_quota, s)
      else if BatchUpdateEnabled cfg
           then (None, addNewRecord BatchUpdateTypeUserQuota uid (wrap64 (- quota)) s)
      else decreaseUserQuota uid quota s)"

definition UpdateUserUsedQuotaAndRequestCount :: "config \<Rightarrow> int \<Rightarrow> int \<Rightarrow> st \<Rightarrow> st" where
  "UpdateUserUsedQuotaAndRequestCount cfg uid quota s =
     (if BatchUpdateEnabled cfg
      then addNewRecord BatchUpdateTypeRequestCount uid 1
             (addNewRecord BatchUpdateTypeUsedQuota uid quota s)
      else updateUserUsedQuotaAndRequestCount uid quota 1 s)"

definition IncreaseTokenQuota :: "config \<Rightarrow> int \<Rightarrow> int \<Rightarrow> int \<Rightarrow> st \<Rightarrow> string option \<times> st" where
  "IncreaseTokenQuota cfg now tid quota s =
     (if quota < 0 then (Some negative_quota, s)
      else if BatchUpdateEnabled cfg then (None, addNewRecord BatchUpdateTypeTokenQuota tid quota s)
      else increaseTokenQuota now tid quota s)"

definition DecreaseTokenQuota :: "config \<Rightarrow> int \<Rightarrow> int \<Rightarrow> int \<Rightarrow> st \<Rightarrow> string option \<times> st" where
  "DecreaseTokenQuota cfg now tid quota s =
     (if quota < 0 then (Some negative_quota, s)
      else if BatchUpdateEnabled cfg
           then (None, addNewRecord BatchUpdateTypeTokenQuota tid (wrap64 (- quota)) s)
      else decreaseTokenQuota now tid quota s)"

definition UpdateChannelUsedQuota :: "config \<Rightarrow> int \<Rightarrow> int \<Rightarrow> st \<Rightarrow> st" where
  "UpdateChannelUsedQuota cfg cid quota s =
     (if BatchUpdateEnabled cfg then addNewRecord BatchUpdateTypeChannelUsedQuota cid quota s
      else updateChannelUsedQuota cid quota s)"

text \<open>
  \<open>batchUpdate\<close> goes through the stores, swaps each for an empty one and writes its entries. Go
  iterates over a map in an unspecified order: \<open>ord\<close> permutes the entries.
\<close>

definition flush_record :: "int \<Rightarrow> batch_type \<Rightarrow> int \<Rightarrow> int \<Rightarrow> st \<Rightarrow> st" where
  "flush_record now ty key value s =
     (case ty of
        BatchUpdateTypeUserQuota \<Rightarrow> snd (increaseUserQuota key value s)
      | BatchUpdateTypeTokenQuota \<Rightarrow> snd (increaseTokenQuota now key value s)
      | BatchUpdateTypeUsedQuota \<Rightarrow> updateUserUsedQuota key value s
      | BatchUpdateTypeRequestCount \<Rightarrow> updateUserRequestCount key value s
      | BatchUpdateTypeChannelUsedQuota \<Rightarrow> updateChannelUsedQuota key value s)"

definition batch_types :: "batch_type list" where
  "batch_types = [BatchUpdateTypeUserQuota, BatchUpdateTypeTokenQuota, BatchUpdateTypeUsedQuota,
     BatchUpdateTypeChannelUsedQuota, BatchUpdateTypeRequestCount]"

definition batchUpdate_type ::
    "((int \<times> int) list \<Rightarrow> (int \<times> int) list) \<Rightarrow> int \<Rightarrow> batch_type \<Rightarrow> st \<Rightarrow> st" where
  "batchUpdate_type ord now ty s =
     (let store = ord (batch_stores s ty);
          s' = s\<lparr>batch_stores := (batch_stores s)(ty := [])\<rparr>
      in fold (\<lambda>(key, value). flush_record now ty key value) store s')"

definition batchUpdate :: "((int \<times> int) list \<Rightarrow> (int \<times> int) list) \<Rightarrow> int \<Rightarrow> st \<Rightarrow> st" where
  "batchUpdate ord now s = fold (batchUpdate_type ord now) batch_types s"


section \<open>Consumption\<close>

definition GetTokenById :: "int \<Rightarrow> st \<Rightarrow> (string + token) \<times> st" where
  "GetTokenById tid s =
     (if tid = 0 then (Inl ''id is empty!'', s)
      else db_first (\<lambda>s. find (\<lambda>t. t_id t = tid) (tokens s)) s)"

definition user_column :: "(user \<Rightarrow> 'a) \<Rightarrow> 'a \<Rightarrow> int \<Rightarrow> st \<Rightarrow> 'a" where
  "user_column col zero uid s =
     (case find (\<lambda>u. u_id u = uid) (users s) of None \<Rightarrow> zero | Some u \<Rightarrow> col u)"

definition GetUserQuota :: "int \<Rightarrow> st \<Rightarrow> (string + int) \<times> st" where
  "GetUserQuota uid = db_find (user_column u_quota 0 uid)"

definition GetUserUsedQuota :: "int \<Rightarrow> st \<Rightarrow> (string + int) \<times> st" where
  "GetUserUsedQuota uid = db_find (user_column u_used_quota 0 uid)"

definition remind_quota :: "config \<Rightarrow> int \<Rightarrow> int \<Rightarrow> int \<Rightarrow> st \<Rightarrow> st" where
  "remind_quota cfg uid userQuota quota s =
     (let quotaTooLow = QuotaRemindThreshold cfg \<le> userQuota \<and>
            wrap64 (userQuota - quota) < QuotaRemindThreshold cfg;
          noMoreQuota = wrap64 (userQuota - quota) \<le> 0
      in if quotaTooLow \<or> noMoreQuota
         then s\<lparr>jobs := jobs s @ [QuotaReminder uid noMoreQuota userQuota]\<rparr> else s)"

definition PreConsumeTokenQuota :: "config \<Rightarrow> int \<Rightarrow> int \<Rightarrow> int \<Rightarrow> st \<Rightarrow> string option \<times> st" where
  "PreConsumeTokenQuota cfg now tokenId quota s =
     (if quota < 0 then (Some negative_quota, s)
      else case GetTokenById tokenId s of
        (Inl e, s) \<Rightarrow> (Some e, s)
      | (Inr tok, s) \<Rightarrow>
          (if \<not> t_unlimited_quota tok \<and> t_remain_quota tok < quota
           then (Some ''Insufficient token quota'', s)
           else case GetUserQuota (t_user_id tok) s of
             (Inl e, s) \<Rightarrow> (Some e, s)
           | (Inr userQuota, s) \<Rightarrow>
               (if userQuota < quota then (Some ''Insufficient user quota'', s)
                else case (if t_unlimited_quota tok
                           then (None, remind_quota cfg (t_user_id tok) userQuota quota s)
                           else DecreaseTokenQuota cfg now tokenId quota
                                  (remind_quota cfg (t_user_id tok) userQuota quota s)) of
                  (Some e, s) \<Rightarrow> (Some e, s)
                | (None, s) \<Rightarrow> DecreaseUserQuota cfg (t_user_id tok) quota s)))"

text \<open>The error of the user's account is overwritten, or lost when the token is unlimited.\<close>

definition PostConsumeTokenQuota :: "config \<Rightarrow> int \<Rightarrow> int \<Rightarrow> int \<Rightarrow> st \<Rightarrow> string option \<times> st" where
  "PostConsumeTokenQuota cfg now tokenId quota s =
     (case GetTokenById tokenId s of
        (Inl e, s) \<Rightarrow> (Some e, s)
      | (Inr tok, s) \<Rightarrow>
          (let s' = snd (if 0 < quota then DecreaseUserQuota cfg (t_user_id tok) quota s
                         else IncreaseUserQuota cfg (t_user_id tok) (wrap64 (- quota)) s)
           in if t_unlimited_quota tok then (None, s')
              else if 0 < quota then DecreaseTokenQuota cfg now tokenId quota s'
              else IncreaseTokenQuota cfg now tokenId (wrap64 (- quota)) s'))"


section \<open>Reading the accounts\<close>

lemmas add_defs = add_quota_def add_used_def add_count_def add_token_def add_channel_def touch_token_def

abbreviation quota_of :: "int \<Rightarrow> st \<Rightarrow> int" where
  "quota_of \<equiv> user_column u_quota 0"

lemma find_bump:
  assumes "\<And>v r. key (add v r) = key r"
  shows "find (\<lambda>r. key r = k) (bump key add k' v rs) =
    (if k = k' then map_option (add v) (find (\<lambda>r. key r = k) rs) else find (\<lambda>r. key r = k) rs)"
  using assms by (induction rs) (auto simp: bump_def)

lemma quota_of_bump:
  "users s' = bump u_id add_quota k v (users s) \<Longrightarrow>
   quota_of i s' = (if i = k \<and> find (\<lambda>u. u_id u = k) (users s) \<noteq> None then quota_of i s + v else quota_of i s)"
  by (auto simp: user_column_def find_bump add_defs split: option.splits)

end
