(* ===== verification/QuotaLaws.thy ===== *)
theory QuotaLaws
  imports Quota
begin

text \<open>
  What the quota operations guarantee: the batch updater refines the direct updates, no operation
  and no failure of the database changes what a token has in total, the pre- and post-consumption
  of a request settle to its real cost, and how far concurrent requests can overdraw an account.
\<close>

section \<open>Contributions\<close>

text \<open>
  An operation contributes increments: the type of the store, the key and the value. With batching
  they are collected, without it they are applied at once.
\<close>

type_synonym contribution = "batch_type \<times> int \<times> int"

datatype quota_op =
    OpIncreaseUser int int
  | OpDecreaseUser int int
  | OpIncreaseToken int int
  | OpDecreaseToken int int
  | OpUsed int int
  | OpChannelUsed int int

fun run_op :: "config \<Rightarrow> int \<Rightarrow> quota_op \<Rightarrow> st \<Rightarrow> st" where
  "run_op cfg now (OpIncreaseUser i q) s = snd (IncreaseUserQuota cfg i q s)"
| "run_op cfg now (OpDecreaseUser i q) s = snd (DecreaseUserQuota cfg i q s)"
| "run_op cfg now (OpIncreaseToken i q) s = snd (IncreaseTokenQuota cfg now i q s)"
| "run_op cfg now (OpDecreaseToken i q) s = snd (DecreaseTokenQuota cfg now i q s)"
| "run_op cfg now (OpUsed i q) s = UpdateUserUsedQuotaAndRequestCount cfg i q s"
| "run_op cfg now (OpChannelUsed i q) s = UpdateChannelUsedQuota cfg i q s"

definition run_ops :: "config \<Rightarrow> (int \<times> quota_op) list \<Rightarrow> st \<Rightarrow> st" where
  "run_ops cfg ops s = fold (\<lambda>(now, op). run_op cfg now op) ops s"

fun contributions :: "quota_op \<Rightarrow> contribution list" where
  "contributions (OpIncreaseUser i q) = (if q < 0 then [] else [(BatchUpdateTypeUserQuota, i, q)])"
| "contributions (OpDecreaseUser i q) = (if q < 0 then [] else [(BatchUpdateTypeUserQuota, i, - q)])"
| "contributions (OpIncreaseToken i q) = (if q < 0 then [] else [(BatchUpdateTypeTokenQuota, i, q)])"
| "contributions (OpDecreaseToken i q) = (if q < 0 then [] else [(BatchUpdateTypeTokenQuota, i, - q)])"
| "contributions (OpUsed i q) = [(BatchUpdateTypeUsedQuota, i, q), (BatchUpdateTypeRequestCount, i, 1)]"
| "contributions (OpChannelUsed i q) = [(BatchUpdateTypeChannelUsedQuota, i, q)]"

definition all_contributions :: "(int \<times> quota_op) list \<Rightarrow> contribution list" where
  "all_contributions ops = concat (map (\<lambda>(now, op). contributions op) ops)"

definition total :: "contribution list \<Rightarrow> batch_type \<Rightarrow> int \<Rightarrow> int" where
  "total cs ty k = pend (map snd (filter (\<lambda>c. fst c = ty) cs)) k"

lemma total_Nil [simp]: "total [] ty k = 0"
  by (simp add: total_def)

lemma total_Cons [simp]:
  "total ((ty', k', v) # cs) ty k = (if ty' = ty \<and> k' = k then v else 0) + total cs ty k"
  by (simp add: total_def)

lemma total_append [simp]: "total (xs @ ys) ty k = total xs ty k + total ys ty k"
  by (simp add: total_def)

lemma total_tag: "total (map (\<lambda>(k, v). (ty', k, v)) xs) ty k = (if ty' = ty then pend xs k else 0)"
  by (induction xs) auto

text \<open>What the tables hold after the contributions \<open>cs\<close>.\<close>

definition settle_user :: "contribution list \<Rightarrow> user \<Rightarrow> user" where
  "settle_user cs u =
     add_quota (total cs BatchUpdateTypeUserQuota (u_id u))
       (add_used (total cs BatchUpdateTypeUsedQuota (u_id u))
         (add_count (total cs BatchUpdateTypeRequestCount (u_id u)) u))"

definition settle_token :: "contribution list \<Rightarrow> token \<Rightarrow> token" where
  "settle_token cs t = (add_token (total cs BatchUpdateTypeTokenQuota (t_id t)) t)\<lparr>t_accessed_time := 0\<rparr>"

definition settle_channel :: "contribution list \<Rightarrow> channel \<Rightarrow> channel" where
  "settle_channel cs c = add_channel (total cs BatchUpdateTypeChannelUsedQuota (c_id c)) c"

definition settled :: "contribution list \<Rightarrow> st \<Rightarrow> st \<Rightarrow> bool" where
  "settled cs s s' \<longleftrightarrow>
     db_faults s' = [] \<and> batch_stores s' = batch_stores s \<and>
     users s' = map (settle_user cs) (users s) \<and>
     map (\<lambda>t. t\<lparr>t_accessed_time := 0\<rparr>) (tokens s') = map (settle_token cs) (tokens s) \<and>
     channels s' = map (settle_channel cs) (channels s)"

lemmas settle_defs = settle_user_def settle_token_def settle_channel_def add_defs

lemma settled_refl: "db_faults s = [] \<Longrightarrow> settled [] s s"
  by (auto simp: settled_def settle_defs intro!: map_idI [symmetric])

lemma settle_user_append: "settle_user ys (settle_user xs u) = settle_user (xs @ ys) u"
  by (simp add: settle_defs)

lemma settle_channel_append: "settle_channel ys (settle_channel xs c) = settle_channel (xs @ ys) c"
  by (simp add: settle_defs)

lemma settle_token_append: "settle_token ys (settle_token xs t) = settle_token (xs @ ys) t"
  by (simp add: settle_defs)

lemma settle_token_erase: "settle_token cs (t\<lparr>t_accessed_time := 0\<rparr>) = settle_token cs t"
  by (simp add: settle_defs)

lemma settled_trans:
  assumes "settled xs s s'" and "settled ys s' s''"
  shows "settled (xs @ ys) s s''"
proof -
  have "map (settle_token ys) (tokens s') =
      map (settle_token ys) (map (\<lambda>t. t\<lparr>t_accessed_time := 0\<rparr>) (tokens s'))"
    by (simp add: settle_token_erase)
  also have "\<dots> = map (settle_token (xs @ ys)) (tokens s)"
    using assms(1) by (simp add: settled_def settle_token_append)
  finally show ?thesis
    using assms by (simp add: settled_def settle_user_append settle_channel_append)
qed

lemma settled_cong: "settled xs s s' \<Longrightarrow> (\<And>ty k. total xs ty k = total ys ty k) \<Longrightarrow> settled ys s s'"
  by (simp add: settled_def settle_user_def [abs_def] settle_token_def [abs_def]
      settle_channel_def [abs_def])

lemma settled_flush_record: "db_faults s = [] \<Longrightarrow> settled [(ty, k, v)] s (flush_record now ty k v s)"
  by (cases ty)
    (auto simp: settled_def flush_record_def increaseUserQuota_def increaseTokenQuota_def
      updateUserUsedQuota_def updateUserRequestCount_def updateChannelUsedQuota_def
      bump_def update_where_def settle_defs intro!: map_idI [symmetric])

section \<open>The batch updater\<close>

lemma settled_flush_fold:
  "db_faults s = [] \<Longrightarrow>
   settled (map (\<lambda>(k, v). (ty, k, v)) xs) s (fold (\<lambda>(k, v). flush_record now ty k v) xs s)"
proof (induction xs arbitrary: s)
  case (Cons p xs)
  obtain k v where p: "p = (k, v)" by (cases p)
  have one: "settled [(ty, k, v)] s (flush_record now ty k v s)"
    using Cons.prems by (rule settled_flush_record)
  then have "db_faults (flush_record now ty k v s) = []" by (simp add: settled_def)
  from settled_trans [OF one Cons.IH [OF this]] show ?case by (simp add: p)
qed (simp add: settled_refl)

lemma settled_direct_op:
  assumes "\<not> BatchUpdateEnabled cfg" and "db_faults s = []"
  shows "settled (contributions op) s (run_op cfg now op s)"
  using assms
  by (cases op)
    (auto simp: settled_refl settled_def IncreaseUserQuota_def DecreaseUserQuota_def
      IncreaseTokenQuota_def DecreaseTokenQuota_def UpdateUserUsedQuotaAndRequestCount_def
      UpdateChannelUsedQuota_def increaseUserQuota_def decreaseUserQuota_def increaseTokenQuota_def
      decreaseTokenQuota_def updateUserUsedQuotaAndRequestCount_def updateChannelUsedQuota_def
      bump_def update_where_def settle_defs intro!: map_idI [symmetric])

lemma settled_direct:
  assumes "\<not> BatchUpdateEnabled cfg" and "db_faults s = []"
  shows "settled (all_contributions ops) s (run_ops cfg ops s)"
  using assms(2)
proof (induction ops arbitrary: s)
  case Nil
  then show ?case by (simp add: all_contributions_def run_ops_def settled_refl)
next
  case (Cons p ops)
  obtain now op where p: "p = (now, op)" by (cases p)
  have one: "settled (contributions op) s (run_op cfg now op s)"
    using settled_direct_op [OF assms(1) Cons.prems] .
  then have "db_faults (run_op cfg now op s) = []" by (simp add: settled_def)
  from settled_trans [OF one Cons.IH [OF this]] show ?case
    by (simp add: p all_contributions_def run_ops_def)
qed

text \<open>With batching the tables stay as they are and the stores hold the totals, wrapped.\<close>

definition collected :: "contribution list \<Rightarrow> st \<Rightarrow> st \<Rightarrow> bool" where
  "collected cs s s' \<longleftrightarrow>
     db_faults s' = db_faults s \<and> users s' = users s \<and> tokens s' = tokens s \<and>
     channels s' = channels s \<and>
     (\<forall>ty. distinct (map fst (batch_stores s' ty)) \<and>
        (\<forall>k. pend (batch_stores s' ty) k = wrap64 (total cs ty k)))"

lemma pend_update:
  assumes "distinct (map fst xs)"
  shows "pend (AList.update k v xs) j = (if j = k then v else pend xs j)"
  using assms by (simp add: pend_map_of distinct_update update_conv)

lemma wrap64_0 [simp]: "wrap64 0 = 0"
  by (simp add: wrap64_def)

lemma collected_add:
  assumes "collected cs s s'" and "int64 v \<or> wrap64 v = v"
  shows "collected (cs @ [(ty, k, v)]) s (addNewRecord ty k v s')"
proof -
  let ?store = "batch_stores s' ty"
  have d: "distinct (map fst ?store)" using assms(1) by (simp add: collected_def)
  have p: "pend ?store k = wrap64 (total cs ty k)" using assms(1) by (simp add: collected_def)
  have v: "wrap64 v = v" using assms(2) by auto
  have "(case map_of ?store k of None \<Rightarrow> v | Some old \<Rightarrow> wrap64 (old + v)) =
      wrap64 (total cs ty k + v)"
    using p v by (simp add: pend_map_of [OF d] wrap64_wrap64_add split: option.splits)
      (metis add.left_neutral wrap64_0 wrap64_wrap64_add)
  then show ?thesis
    using assms(1)
    by (auto simp: collected_def addNewRecord_def Let_def distinct_update pend_update [OF d])
qed

lemma collected_op:
  assumes "BatchUpdateEnabled cfg" and "collected cs s s'"
    and "\<forall>(ty, k, v) \<in> set (contributions op). int64 v"
  shows "collected (cs @ contributions op) s (run_op cfg now op s')"
proof -
  have two: "collected (cs @ [(ty, k, v), (ty', k', v')]) s
      (addNewRecord ty' k' v' (addNewRecord ty k v s'))" if "int64 v" "int64 v'" for ty k v ty' k' v'
    using collected_add [OF collected_add [OF assms(2), of v ty k], of v' ty' k'] that by simp
  have one: "int64 1" by (simp add: int64_def)
  show ?thesis
    using assms one
    by (cases op)
      (auto simp: IncreaseUserQuota_def DecreaseUserQuota_def
        IncreaseTokenQuota_def DecreaseTokenQuota_def UpdateUserUsedQuotaAndRequestCount_def
        UpdateChannelUsedQuota_def intro!: collected_add two)
qed

lemma collected_ops:
  assumes "BatchUpdateEnabled cfg"
  shows "collected cs s s' \<Longrightarrow> \<forall>(ty, k, v) \<in> set (all_contributions ops). int64 v \<Longrightarrow>
    collected (cs @ all_contributions ops) s (run_ops cfg ops s')"
proof (induction ops arbitrary: cs s')
  case Nil
  then show ?case by (simp add: all_contributions_def run_ops_def)
next
  case (Cons p ops)
  obtain now op where p: "p = (now, op)" by (cases p)
  have "collected (cs @ contributions op) s (run_op cfg now op s')"
    using Cons.prems by (intro collected_op [OF assms]) (auto simp: all_contributions_def p)
  from Cons.IH [OF this] Cons.prems show ?case
    by (simp add: p all_contributions_def run_ops_def)
qed

definition tagged :: "batch_type \<Rightarrow> (int \<times> int) list \<Rightarrow> contribution list" where
  "tagged ty xs = map (\<lambda>(k, v). (ty, k, v)) xs"

lemma total_tagged [simp]: "total (tagged ty' xs) ty k = (if ty' = ty then pend xs k else 0)"
  by (simp only: tagged_def total_tag)

lemma settled_stores: "settled xs (s\<lparr>batch_stores := b\<rparr>) s' \<Longrightarrow>
    settled xs (s\<lparr>batch_stores := b'\<rparr>) (s'\<lparr>batch_stores := b'\<rparr>)"
  by (simp add: settled_def)

lemma settled_batchUpdate_type:
  "db_faults s = [] \<Longrightarrow>
   settled (tagged ty (ord (batch_stores s ty))) (s\<lparr>batch_stores := (batch_stores s)(ty := [])\<rparr>)
     (batchUpdate_type ord now ty s)"
  unfolding batchUpdate_type_def Let_def tagged_def by (rule settled_flush_fold) simp

lemma settled_batchUpdate_fold:
  "db_faults s = [] \<Longrightarrow> distinct tys \<Longrightarrow>
   settled (concat (map (\<lambda>ty. tagged ty (ord (batch_stores s ty))) tys))
     (s\<lparr>batch_stores := (\<lambda>ty. if ty \<in> set tys then [] else batch_stores s ty)\<rparr>)
     (fold (batchUpdate_type ord now) tys s)"
proof (induction tys arbitrary: s)
  case Nil
  then show ?case by (simp add: settled_refl)
next
  case (Cons ty tys)
  define s1 where "s1 = batchUpdate_type ord now ty s"
  have one: "settled (tagged ty (ord (batch_stores s ty)))
      (s\<lparr>batch_stores := (batch_stores s)(ty := [])\<rparr>) s1"
    unfolding s1_def using Cons.prems(1) by (rule settled_batchUpdate_type)
  then have stores: "batch_stores s1 = (batch_stores s)(ty := [])" and "db_faults s1 = []"
    by (simp_all add: settled_def)
  let ?b = "\<lambda>ty'. if ty' \<in> set (ty # tys) then [] else batch_stores s ty'"
  have b: "(\<lambda>ty'. if ty' \<in> set tys then [] else batch_stores s1 ty') = ?b"
    by (auto simp: stores)
  have m: "map (\<lambda>ty. tagged ty (ord (batch_stores s1 ty))) tys =
      map (\<lambda>ty. tagged ty (ord (batch_stores s ty))) tys"
    using Cons.prems(2) by (auto simp: stores)
  have "settled (concat (map (\<lambda>ty. tagged ty (ord (batch_stores s ty))) tys))
      (s1\<lparr>batch_stores := ?b\<rparr>) (fold (batchUpdate_type ord now) tys s1)"
    using Cons.IH [OF \<open>db_faults s1 = []\<close>] Cons.prems(2) by (simp only: b m distinct.simps)
  with settled_stores [OF one]
  have "settled (tagged ty (ord (batch_stores s ty)) @
      concat (map (\<lambda>ty. tagged ty (ord (batch_stores s ty))) tys))
      (s\<lparr>batch_stores := ?b\<rparr>) (fold (batchUpdate_type ord now) tys s1)"
    by (rule settled_trans)
  then show ?case by (simp add: s1_def)
qed

lemma settled_batchUpdate:
  assumes "db_faults s = []" and "\<And>xs. mset (ord xs) = mset xs"
    and "\<And>ty k. pend (batch_stores s ty) k = total cs ty k"
  shows "settled cs (s\<lparr>batch_stores := (\<lambda>_. [])\<rparr>) (batchUpdate ord now s)"
proof -
  have all: "(\<lambda>ty. if ty \<in> set batch_types then [] else batch_stores s ty) = (\<lambda>_. [])"
    by (rule ext, case_tac ty) (simp_all add: batch_types_def)
  have "distinct batch_types" by (simp add: batch_types_def)
  from settled_batchUpdate_fold [OF assms(1) this, of ord now]
  have "settled (concat (map (\<lambda>ty. tagged ty (ord (batch_stores s ty))) batch_types))
      (s\<lparr>batch_stores := (\<lambda>_. [])\<rparr>) (batchUpdate ord now s)"
    by (simp only: all batchUpdate_def)
  then show ?thesis
  proof (rule settled_cong)
    fix ty k
    have "total (concat (map (\<lambda>ty. tagged ty (ord (batch_stores s ty))) batch_types)) ty k =
        pend (ord (batch_stores s ty)) k"
      by (cases ty) (simp_all add: batch_types_def)
    also have "\<dots> = total cs ty k" using pend_mset [OF assms(2)] assms(3) by simp
    finally show "total (concat (map (\<lambda>ty. tagged ty (ord (batch_stores s ty))) batch_types)) ty k =
        total cs ty k" .
  qed
qed

definition in_range :: "(int \<times> quota_op) list \<Rightarrow> bool" where
  "in_range ops \<longleftrightarrow>
     list_all (\<lambda>(ty, k, v). int64 v \<and> int64 (total (all_contributions ops) ty k)) (all_contributions ops)"

lemma total_absent: "(\<And>v. (ty, k, v) \<notin> set cs) \<Longrightarrow> total cs ty k = 0"
proof (induction cs)
  case (Cons c cs)
  then show ?case by (cases c) auto
qed simp

lemma in_range_total:
  assumes "in_range ops"
  shows "wrap64 (total (all_contributions ops) ty k) = total (all_contributions ops) ty k"
proof (cases "\<exists>v. (ty, k, v) \<in> set (all_contributions ops)")
  case True
  then have "int64 (total (all_contributions ops) ty k)"
    using assms by (auto simp: in_range_def list_all_iff)
  then show ?thesis by simp
next
  case False
  then show ?thesis by (simp add: total_absent)
qed

text \<open>C2: The batch updater refines the direct updates. Any sequence of increments and decrements of
  user quotas, token quotas, used quotas, request counts and channel usage, collected in the batch
  stores and flushed by one \<open>batchUpdate\<close> in whatever order the maps are iterated, leaves the users and
  the channels exactly as the same sequence run without batching, and the tokens too except for the
  time of last access; the stores are empty again. The totals, not the partial sums, have to fit in
  64 bits.\<close>

theorem batch_refines_direct:
  assumes "BatchUpdateEnabled cfg" and "\<not> BatchUpdateEnabled cfg'"
    and "db_faults s = []" and "batch_stores s = (\<lambda>_. [])" and "in_range ops"
    and "\<And>xs. mset (ord xs) = mset xs"
  shows "let s' = batchUpdate ord now (run_ops cfg ops s); s'' = run_ops cfg' ops s in
    users s' = users s'' \<and> channels s' = channels s'' \<and>
    map (\<lambda>t. t\<lparr>t_accessed_time := 0\<rparr>) (tokens s') = map (\<lambda>t. t\<lparr>t_accessed_time := 0\<rparr>) (tokens s'') \<and>
    batch_stores s' = (\<lambda>_. [])"
proof -
  have "collected [] s s" using assms(4) by (simp add: collected_def)
  then have "collected ([] @ all_contributions ops) s (run_ops cfg ops s)"
    by (rule collected_ops [OF assms(1)]) (use assms(5) in \<open>auto simp: in_range_def list_all_iff\<close>)
  then have c: "collected (all_contributions ops) s (run_ops cfg ops s)" by simp
  have "settled (all_contributions ops) (run_ops cfg ops s\<lparr>batch_stores := (\<lambda>_. [])\<rparr>)
      (batchUpdate ord now (run_ops cfg ops s))"
    using c assms(3,6) in_range_total [OF assms(5)]
    by (intro settled_batchUpdate) (simp_all add: collected_def)
  moreover have "settled (all_contributions ops) s (run_ops cfg' ops s)"
    using assms(2,3) by (rule settled_direct)
  ultimately show ?thesis using c by (simp add: settled_def collected_def Let_def)
qed

definition demo_user :: user where
  "demo_user = \<lparr>u_id = 1, u_username = ''root'', u_password = '''', u_display_name = '''', u_role = 100,
     u_status = 1, u_email = '''', u_github_id = '''', u_lark_id = '''', u_oidc_id = '''',
     u_access_token = '''', u_quota = 100, u_used_quota = 0, u_request_count = 0,
     u_group = ''default'', u_aff_code = '''', u_inviter_id = 0\<rparr>"

definition demo_token :: token where
  "demo_token = \<lparr>t_id = 7, t_user_id = 1, t_key = ''k'', t_status = 1, t_name = ''default'',
     t_created_time = 0, t_accessed_time = 0, t_expired_time = -1, t_remain_quota = 60,
     t_unlimited_quota = False, t_used_quota = 0, t_models = None, t_subnet = None\<rparr>"

definition demo_st :: st where
  "demo_st = empty_st\<lparr>users := [demo_user], tokens := [demo_token]\<rparr>"

lemma demo_st_simps [simp]:
  "db_faults demo_st = []" "batch_stores demo_st = (\<lambda>_. [])" "users demo_st = [demo_user]"
  "tokens demo_st = [demo_token]"
  by (simp_all add: demo_st_def empty_st_def)

definition demo_ops :: "(int \<times> quota_op) list" where
  "demo_ops = [(5, OpDecreaseUser 1 30), (5, OpDecreaseToken 7 30), (6, OpUsed 1 30),
     (7, OpIncreaseUser 1 10), (7, OpIncreaseToken 7 10), (8, OpDecreaseUser 1 (-4))]"

definition direct_cfg :: config where
  "direct_cfg = init_config (\<lambda>_. [])"

definition batch_cfg :: config where
  "batch_cfg = direct_cfg\<lparr>BatchUpdateEnabled := True\<rparr>"

lemma demo_cfgs [simp]: "BatchUpdateEnabled batch_cfg" "\<not> BatchUpdateEnabled direct_cfg"
  by (simp_all add: batch_cfg_def direct_cfg_def init_config_def ToLower_def)

theorem batch_refines_direct_witness:
  "users (batchUpdate rev 9 (run_ops batch_cfg demo_ops demo_st)) = users (run_ops direct_cfg demo_ops demo_st)"
  using batch_refines_direct [of batch_cfg direct_cfg demo_st demo_ops rev 9]
  by (simp add: Let_def in_range_def demo_ops_def all_contributions_def int64_def)

section \<open>Nothing a token has is lost\<close>

text \<open>Whatever fails, the quota operations only move quota between the two columns of a token.\<close>

definition token_sum :: "token \<Rightarrow> int \<times> int" where
  "token_sum t = (t_id t, t_remain_quota t + t_used_quota t)"

definition keeps_tokens :: "st \<Rightarrow> st \<Rightarrow> bool" where
  "keeps_tokens s s' \<longleftrightarrow>
     map token_sum (tokens s') = map token_sum (tokens s) \<and>
     map u_id (users s') = map u_id (users s) \<and> redemptions s' = redemptions s"

named_theorems keeps "an operation keeps what each token has"

lemma keeps_refl [keeps]: "keeps_tokens s s"
  by (simp add: keeps_tokens_def)

lemma keeps_trans: "keeps_tokens s s' \<Longrightarrow> keeps_tokens s' s'' \<Longrightarrow> keeps_tokens s s''"
  by (simp add: keeps_tokens_def)

lemma keeps_faults [keeps]: "keeps_tokens s (s\<lparr>db_faults := r\<rparr>)"
  by (simp add: keeps_tokens_def)

lemma keeps_exec:
  assumes "\<And>s. keeps_tokens s (f s)"
  shows "keeps_tokens s (snd (db_exec f s))"
proof -
  obtain r s' where e: "db_exec f s = (r, s')" by (cases "db_exec f s")
  from db_exec_cases [OF e] have "keeps_tokens s s'"
    using assms keeps_faults keeps_trans by blast
  then show ?thesis by (simp add: e)
qed

lemma keeps_bump_users:
  "\<lbrakk>\<And>v u. u_id (add v u) = u_id u\<rbrakk> \<Longrightarrow> keeps_tokens s (s\<lparr>users := bump u_id add k v (users s)\<rparr>)"
  by (simp add: keeps_tokens_def bump_def map_update_where)

lemma keeps_touch_tokens:
  "keeps_tokens s (s\<lparr>tokens := update_where (\<lambda>t. t_id t = k) (touch_token now q) (tokens s)\<rparr>)"
  by (simp add: keeps_tokens_def map_update_where token_sum_def add_defs)

lemma keeps_direct [keeps]:
  "keeps_tokens s (snd (increaseUserQuota i q s))"
  "keeps_tokens s (snd (decreaseUserQuota i q s))"
  "keeps_tokens s (snd (increaseTokenQuota now i q s))"
  "keeps_tokens s (snd (decreaseTokenQuota now i q s))"
  "keeps_tokens s (updateUserUsedQuota i q s)"
  "keeps_tokens s (updateUserRequestCount i q s)"
  "keeps_tokens s (updateChannelUsedQuota i q s)"
  unfolding increaseUserQuota_def decreaseUserQuota_def increaseTokenQuota_def
    decreaseTokenQuota_def updateUserUsedQuota_def updateUserRequestCount_def
    updateChannelUsedQuota_def
  by (rule keeps_exec, rule keeps_bump_users keeps_touch_tokens,
      simp add: add_defs | rule keeps_exec, rule keeps_touch_tokens
      | rule keeps_exec, simp add: keeps_tokens_def)+

lemma keeps_used_count [keeps]: "keeps_tokens s (updateUserUsedQuotaAndRequestCount i q n s)"
  unfolding updateUserUsedQuotaAndRequestCount_def
  by (rule keeps_exec) (simp add: keeps_tokens_def bump_def map_update_where add_defs)

lemma keeps_add [keeps]: "keeps_tokens s (addNewRecord ty k v s)"
  by (simp add: keeps_tokens_def addNewRecord_def)

lemma keeps_public [keeps]:
  "keeps_tokens s (snd (IncreaseUserQuota cfg i q s))"
  "keeps_tokens s (snd (DecreaseUserQuota cfg i q s))"
  "keeps_tokens s (snd (IncreaseTokenQuota cfg now i q s))"
  "keeps_tokens s (snd (DecreaseTokenQuota cfg now i q s))"
  "keeps_tokens s (UpdateChannelUsedQuota cfg i q s)"
  by (simp_all add: IncreaseUserQuota_def DecreaseUserQuota_def IncreaseTokenQuota_def
      DecreaseTokenQuota_def UpdateChannelUsedQuota_def keeps)

lemma keeps_used [keeps]: "keeps_tokens s (UpdateUserUsedQuotaAndRequestCount cfg i q s)"
  unfolding UpdateUserUsedQuotaAndRequestCount_def
  by (auto intro: keeps keeps_trans [OF keeps_add keeps_add])

lemma keeps_remind [keeps]: "keeps_tokens s (remind_quota cfg u a b s)"
  by (simp add: keeps_tokens_def remind_quota_def Let_def)

lemma keeps_fold: "(\<And>x s. keeps_tokens s (f x s)) \<Longrightarrow> keeps_tokens s (fold f xs s)"
  by (induction xs arbitrary: s) (auto intro: keeps_refl keeps_trans)

lemma keeps_batchUpdate [keeps]: "keeps_tokens s (batchUpdate ord now s)"
proof -
  have "keeps_tokens s (flush_record now ty k v s)" for ty k v s
    by (cases ty) (simp_all add: flush_record_def keeps)
  then have "keeps_tokens s (batchUpdate_type ord now ty s)" for ty s
    unfolding batchUpdate_type_def Let_def
    by (intro keeps_trans [OF _ keeps_fold]) (auto simp: keeps_tokens_def)
  then show ?thesis unfolding batchUpdate_def by (rule keeps_fold)
qed

lemma keeps_GetTokenById:
  "GetTokenById i s = (r, s') \<Longrightarrow> keeps_tokens s s'"
  unfolding GetTokenById_def
  using db_first_state [of "\<lambda>s. find (\<lambda>t. t_id t = i) (tokens s)" s] keeps_faults keeps_refl
  by (auto split: if_splits)

lemma keeps_GetUserQuota: "GetUserQuota i s = (r, s') \<Longrightarrow> keeps_tokens s s'"
  unfolding GetUserQuota_def
  using db_find_state [of "user_column u_quota 0 i" s] keeps_faults by auto

lemma keeps_PreConsume [keeps]: "keeps_tokens s (snd (PreConsumeTokenQuota cfg now i q s))"
proof -
  obtain r1 s1 where get: "GetTokenById i s = (r1, s1)" by fastforce
  note k1 = keeps_GetTokenById [OF get]
  show ?thesis
  proof (cases r1)
    case (Inl e)
    then show ?thesis by (simp add: PreConsumeTokenQuota_def get k1 keeps_refl)
  next
    case (Inr tok)
    obtain r2 s2 where quota: "GetUserQuota (t_user_id tok) s1 = (r2, s2)" by fastforce
    note k2 = keeps_trans [OF k1 keeps_GetUserQuota [OF quota]]
    show ?thesis
    proof (cases r2)
      case (Inl e)
      then show ?thesis by (simp add: PreConsumeTokenQuota_def get quota Inr k1 k2 keeps_refl)
    next
      case (Inr uq)
      let ?s3 = "remind_quota cfg (t_user_id tok) uq q s2"
      have k3: "keeps_tokens s ?s3" by (rule keeps_trans [OF k2 keeps_remind])
      obtain r4 s4 where dec: "DecreaseTokenQuota cfg now i q ?s3 = (r4, s4)" by fastforce
      have k4: "keeps_tokens s s4"
        using keeps_trans [OF k3 keeps_public(4) [of ?s3 cfg now i q]] by (simp add: dec)
      show ?thesis
        using keeps_trans [OF k3 keeps_public(2)] keeps_trans [OF k4 keeps_public(2)]
        by (cases r4)
          (simp_all add: PreConsumeTokenQuota_def get quota \<open>r1 = Inr tok\<close> Inr dec k1 k2 k4 keeps_refl)
    qed
  qed
qed

lemma keeps_PostConsume [keeps]: "keeps_tokens s (snd (PostConsumeTokenQuota cfg now i q s))"
proof -
  obtain r1 s1 where get: "GetTokenById i s = (r1, s1)" by fastforce
  note k1 = keeps_GetTokenById [OF get]
  show ?thesis
  proof (cases r1)
    case (Inl e)
    then show ?thesis by (simp add: PostConsumeTokenQuota_def get k1)
  next
    case (Inr tok)
    have a: "keeps_tokens s (snd (DecreaseUserQuota cfg (t_user_id tok) q s1))"
      by (rule keeps_trans [OF k1 keeps_public(2)])
    have b: "keeps_tokens s (snd (IncreaseUserQuota cfg (t_user_id tok) (wrap64 (- q)) s1))"
      by (rule keeps_trans [OF k1 keeps_public(1)])
    show ?thesis
      using a b keeps_trans [OF a keeps_public(4)] keeps_trans [OF b keeps_public(3)]
      by (simp add: PostConsumeTokenQuota_def get Inr Let_def)
  qed
qed

text \<open>Everything that touches a quota account: the operations above, the two halves of a relayed
  request, and a round of the batch updater.\<close>

datatype quota_step =
    StepOp quota_op
  | StepPreConsume int int
  | StepPostConsume int int
  | StepFlush

fun run_step :: "((int \<times> int) list \<Rightarrow> (int \<times> int) list) \<Rightarrow> config \<Rightarrow> int \<times> quota_step \<Rightarrow> st \<Rightarrow> st" where
  "run_step ord cfg (now, StepOp op) s = run_op cfg now op s"
| "run_step ord cfg (now, StepPreConsume i q) s = snd (PreConsumeTokenQuota cfg now i q s)"
| "run_step ord cfg (now, StepPostConsume i q) s = snd (PostConsumeTokenQuota cfg now i q s)"
| "run_step ord cfg (now, StepFlush) s = batchUpdate ord now s"

lemma keeps_op [keeps]: "keeps_tokens s (run_op cfg now op s)"
  by (cases op) (simp_all add: keeps)

lemma keeps_step [keeps]: "keeps_tokens s (run_step ord cfg st s)"
proof (cases st)
  case (Pair now step)
  then show ?thesis by (cases step) (simp_all add: keeps)
qed

text \<open>C20: Conservation. Whatever sequence of increments, decrements, pre- and post-consumptions and
  batch flushes runs, batched or not, in whatever order the batches are written, and whichever
  database statements fail on the way, remaining and used quota of every token still add up to what
  they added up to at the start, and no user or token row appears or disappears.\<close>

theorem token_conservation:
  "map token_sum (tokens (fold (run_step ord cfg) steps s)) = map token_sum (tokens s) \<and>
   map u_id (users (fold (run_step ord cfg) steps s)) = map u_id (users s)"
proof -
  have "keeps_tokens s (fold (run_step ord cfg) steps s)"
    by (rule keeps_fold) (rule keeps_step)
  then show ?thesis by (simp add: keeps_tokens_def)
qed


section \<open>Pre-consumption and settlement\<close>

definition token_row :: "int \<Rightarrow> st \<Rightarrow> token option" where
  "token_row i s = (if i = 0 then None else find (\<lambda>t. t_id t = i) (tokens s))"

definition remain_of :: "int \<Rightarrow> st \<Rightarrow> int" where
  "remain_of i s = (case find (\<lambda>t. t_id t = i) (tokens s) of None \<Rightarrow> 0 | Some t \<Rightarrow> t_remain_quota t)"

definition solvent :: "st \<Rightarrow> bool" where
  "solvent s \<longleftrightarrow> list_all (\<lambda>u. 0 \<le> u_quota u) (users s) \<and>
     list_all (\<lambda>t. t_unlimited_quota t \<or> 0 \<le> t_remain_quota t) (tokens s)"

definition unique_ids :: "st \<Rightarrow> bool" where
  "unique_ids s \<longleftrightarrow> distinct (map u_id (users s)) \<and> distinct (map t_id (tokens s))"

lemma touch_token_id [simp]: "t_id (touch_token now q t) = t_id t"
  by (simp add: add_defs)

lemma find_touch:
  "find (\<lambda>t. t_id t = k) (update_where (\<lambda>t. t_id t = k') (touch_token now q) rs) =
    (if k = k' then map_option (touch_token now q) (find (\<lambda>t. t_id t = k) rs)
     else find (\<lambda>t. t_id t = k) rs)"
  by (induction rs) auto

lemma GetTokenById_Inr:
  "GetTokenById i s = (Inr tok, s') \<Longrightarrow>
   token_row i s = Some tok \<and> s' = s\<lparr>db_faults := tl (db_faults s)\<rparr>"
  by (auto simp: GetTokenById_def token_row_def dest: db_first_Inr split: if_splits)

lemma GetTokenById_Inl:
  "GetTokenById i s = (Inl e, s') \<Longrightarrow> \<exists>r. s' = s\<lparr>db_faults := r\<rparr>"
  by (cases "i = 0") (auto simp: GetTokenById_def dest!: db_first_Inl intro: exI [of _ "db_faults s"])

lemma GetUserQuota_any:
  "GetUserQuota i s = (r, s') \<Longrightarrow>
   s' = s\<lparr>db_faults := tl (db_faults s)\<rparr> \<and> (\<forall>q. r = Inr q \<longrightarrow> q = quota_of i s)"
  by (cases r) (auto simp: GetUserQuota_def dest: db_find_Inl db_find_Inr)

lemma direct_user_change:
  assumes "\<not> BatchUpdateEnabled cfg" and "DecreaseUserQuota cfg i q s = (r, s')"
  shows "tokens s' = tokens s \<and> (if r = None then 0 \<le> q \<and> users s' = bump u_id add_quota i (- q) (users s)
    else users s' = users s)"
  using assms db_exec_cases [of "\<lambda>s. s\<lparr>users := bump u_id add_quota i (- q) (users s)\<rparr>" s r s']
  by (auto simp: DecreaseUserQuota_def decreaseUserQuota_def split: if_splits)

lemma direct_token_change:
  assumes "\<not> BatchUpdateEnabled cfg" and "DecreaseTokenQuota cfg now i q s = (r, s')"
  shows "users s' = users s \<and> (if r = None then
      0 \<le> q \<and> tokens s' = update_where (\<lambda>t. t_id t = i) (touch_token now (- q)) (tokens s)
    else tokens s' = tokens s)"
  using assms
    db_exec_cases [of "\<lambda>s. s\<lparr>tokens := update_where (\<lambda>t. t_id t = i) (touch_token now (- q)) (tokens s)\<rparr>" s r s']
  by (auto simp: DecreaseTokenQuota_def decreaseTokenQuota_def split: if_splits)

lemma remind_frame [simp]:
  "users (remind_quota cfg u a b s) = users s" "tokens (remind_quota cfg u a b s) = tokens s"
  "db_faults (remind_quota cfg u a b s) = db_faults s"
  by (simp_all add: remind_quota_def Let_def)

definition charged :: "int \<Rightarrow> int \<Rightarrow> int \<Rightarrow> token \<Rightarrow> st \<Rightarrow> st \<Rightarrow> bool" where
  "charged now i q tok s s' \<longleftrightarrow>
     users s' = bump u_id add_quota (t_user_id tok) (- q) (users s) \<and>
     tokens s' = (if t_unlimited_quota tok then tokens s
       else update_where (\<lambda>t. t_id t = i) (touch_token now (- q)) (tokens s))"

text \<open>What a pre-consumption can do to the accounts, whichever statement fails.\<close>

lemma PreConsume_cases:
  assumes nb: "\<not> BatchUpdateEnabled cfg" and pre: "PreConsumeTokenQuota cfg now i q s = (r, s')"
  shows "(users s' = users s \<and> tokens s' = tokens s \<and> r \<noteq> None) \<or>
    (\<exists>tok. token_row i s = Some tok \<and> 0 \<le> q \<and> (t_unlimited_quota tok \<or> q \<le> t_remain_quota tok) \<and>
       q \<le> quota_of (t_user_id tok) s \<and>
       (if r = None then charged now i q tok s s'
        else \<not> t_unlimited_quota tok \<and> users s' = users s \<and>
          tokens s' = update_where (\<lambda>t. t_id t = i) (touch_token now (- q)) (tokens s)))"
proof (cases "q < 0")
  case True
  then show ?thesis using pre by (auto simp: PreConsumeTokenQuota_def)
next
  case q: False
  obtain r1 s1 where get: "GetTokenById i s = (r1, s1)" by fastforce
  show ?thesis
  proof (cases r1)
    case (Inl e)
    then show ?thesis
      using pre q GetTokenById_Inl [of i s e s1] by (auto simp: PreConsumeTokenQuota_def get)
  next
    case tok: (Inr tok)
    have row: "token_row i s = Some tok" and s1: "users s1 = users s" "tokens s1 = tokens s"
      using GetTokenById_Inr [of i s tok s1] get tok by simp_all
    obtain r2 s2 where quota: "GetUserQuota (t_user_id tok) s1 = (r2, s2)" by fastforce
    note any = GetUserQuota_any [OF quota]
    have s2: "users s2 = users s" "tokens s2 = tokens s" using any s1 by simp_all
    have qs1: "quota_of (t_user_id tok) s1 = quota_of (t_user_id tok) s"
      using s1 by (simp add: user_column_def)
    show ?thesis
    proof (cases r2)
      case (Inl e)
      then show ?thesis
        using pre q s1 s2 by (auto simp: PreConsumeTokenQuota_def get tok quota split: if_splits)
    next
      case uq: (Inr uq)
      let ?s3 = "remind_quota cfg (t_user_id tok) uq q s2"
      obtain r4 s4 where dec: "(if t_unlimited_quota tok then (None, ?s3)
          else DecreaseTokenQuota cfg now i q ?s3) = (r4, s4)" by fastforce
      have s4: "users s4 = users s \<and> tokens s4 = (if t_unlimited_quota tok \<or> r4 \<noteq> None then tokens s
          else update_where (\<lambda>t. t_id t = i) (touch_token now (- q)) (tokens s)) \<and>
          (t_unlimited_quota tok \<longrightarrow> r4 = None)"
        using dec direct_token_change [OF nb, of now i q ?s3 r4 s4] s2 by (auto split: if_splits)
      obtain r5 s5 where du: "DecreaseUserQuota cfg (t_user_id tok) q s4 = (r5, s5)" by fastforce
      note s5 = direct_user_change [OF nb du]
      have val: "PreConsumeTokenQuota cfg now i q s =
          (if \<not> t_unlimited_quota tok \<and> t_remain_quota tok < q
           then (Some ''Insufficient token quota'', s1)
           else if uq < q then (Some ''Insufficient user quota'', s2)
           else case r4 of Some e \<Rightarrow> (Some e, s4) | None \<Rightarrow> (r5, s5))"
        using q dec du
        by (cases "t_unlimited_quota tok"; cases r4) (auto simp: PreConsumeTokenQuota_def get tok quota uq)
      have "uq = quota_of (t_user_id tok) s" using any uq qs1 by simp
      with pre q s1 s2 s4 s5 row show ?thesis
        unfolding val by (cases r4) (auto simp: charged_def split: if_splits)
    qed
  qed
qed

lemma remain_of_touch:
  "tokens s' = update_where (\<lambda>t. t_id t = k) (touch_token now v) (tokens s) \<Longrightarrow>
   remain_of i s' = (if i = k \<and> find (\<lambda>t. t_id t = k) (tokens s) \<noteq> None then remain_of i s + v
     else remain_of i s)"
  by (auto simp: remain_of_def find_touch add_defs split: option.splits)

lemma remain_of_same: "tokens s' = tokens s \<Longrightarrow> remain_of i s' = remain_of i s"
  by (simp add: remain_of_def)

lemma quota_of_same: "users s' = users s \<Longrightarrow> quota_of i s' = quota_of i s"
  by (simp add: user_column_def)

lemma row_only:
  assumes "distinct (map key rs)" and "find (\<lambda>r. key r = k) rs = Some r0" and "r \<in> set rs" and "key r = k"
  shows "r = r0"
  using assms by (induction rs) (auto split: if_splits simp: image_iff dest!: find_SomeD)

lemma solvent_bump:
  assumes "distinct (map u_id us)" and "list_all (\<lambda>u. 0 \<le> u_quota u) us" and "0 \<le> q"
    and "q \<le> (case find (\<lambda>u. u_id u = k) us of None \<Rightarrow> 0 | Some u \<Rightarrow> u_quota u)"
  shows "list_all (\<lambda>u. 0 \<le> u_quota u) (bump u_id add_quota k (- q) us)"
proof (cases "find (\<lambda>u. u_id u = k) us")
  case None
  then have "bump u_id add_quota k (- q) us = us"
    by (auto simp: bump_def find_None intro: update_where_False)
  with assms(2) show ?thesis by simp
next
  case (Some u)
  with assms row_only [OF assms(1) Some] show ?thesis
    by (auto simp: list_all_iff bump_def set_update_where add_defs)
qed

lemma solvent_touch:
  assumes "distinct (map t_id ts)" and "list_all (\<lambda>t. t_unlimited_quota t \<or> 0 \<le> t_remain_quota t) ts"
    and "find (\<lambda>t. t_id t = k) ts = Some tok" and "q \<le> t_remain_quota tok"
  shows "list_all (\<lambda>t. t_unlimited_quota t \<or> 0 \<le> t_remain_quota t)
    (update_where (\<lambda>t. t_id t = k) (touch_token now (- q)) ts)"
  using assms row_only [OF assms(1,3)] by (auto simp: list_all_iff set_update_where add_defs)

lemma preconsume_paid:
  assumes "unique_ids s" and "solvent s"
    and row: "token_row i s = Some tok" and q: "0 \<le> q" "t_unlimited_quota tok \<or> q \<le> t_remain_quota tok"
    and u: "q \<le> quota_of (t_user_id tok) s"
    and eff: "if r = None then charged now i q tok s s' else \<not> t_unlimited_quota tok \<and>
      users s' = users s \<and> tokens s' = update_where (\<lambda>t. t_id t = i) (touch_token now (- q)) (tokens s)"
  shows "solvent s' \<and> (r = None \<longrightarrow> (\<exists>tok. token_row i s = Some tok \<and>
    quota_of (t_user_id tok) s' = quota_of (t_user_id tok) s - q \<and>
    (\<forall>v. v \<noteq> t_user_id tok \<longrightarrow> quota_of v s' = quota_of v s) \<and>
    remain_of i s' = remain_of i s - (if t_unlimited_quota tok then 0 else q)))"
proof -
  have find: "find (\<lambda>t. t_id t = i) (tokens s) = Some tok"
    using row by (simp add: token_row_def split: if_splits)
  have us: "list_all (\<lambda>u. 0 \<le> u_quota u) (bump u_id add_quota (t_user_id tok) (- q) (users s))"
    using assms(1,2) q u by (intro solvent_bump) (simp_all add: solvent_def unique_ids_def user_column_def)
  have ts: "list_all (\<lambda>t. t_unlimited_quota t \<or> 0 \<le> t_remain_quota t)
      (update_where (\<lambda>t. t_id t = i) (touch_token now (- q)) (tokens s))" if "\<not> t_unlimited_quota tok"
    using assms(1,2) q(2) find that by (intro solvent_touch) (simp_all add: solvent_def unique_ids_def)
  have zero: "q = 0" if "find (\<lambda>u. u_id u = t_user_id tok) (users s) = None"
    using that u q(1) by (simp add: user_column_def)
  have sol: "solvent s'"
    using us ts eff assms(2) by (simp add: solvent_def charged_def split: if_splits)
  moreover have "quota_of v s' = (if v = t_user_id tok then quota_of v s - q else quota_of v s) \<and>
      remain_of i s' = remain_of i s - (if t_unlimited_quota tok then 0 else q)" if "r = None" for v
  proof -
    from eff that have u: "users s' = bump u_id add_quota (t_user_id tok) (- q) (users s)"
      and t: "tokens s' = (if t_unlimited_quota tok then tokens s
        else update_where (\<lambda>t. t_id t = i) (touch_token now (- q)) (tokens s))"
      by (simp_all add: charged_def)
    show ?thesis
      using quota_of_bump [OF u, of v] zero find remain_of_same [of s' s i] t
        remain_of_touch [of s' i now "- q" s i]
      by (auto split: if_splits)
  qed
  ultimately show ?thesis using row by auto
qed



text \<open>Without failures, pre-consumption succeeds exactly when the quota is not negative, the
  token exists and is unlimited or has that much left, and its owner has that much; when it refuses,
  nothing has changed.\<close>

theorem preconsume_complete:
  assumes "\<not> BatchUpdateEnabled cfg" and "db_faults s = []"
  shows "(fst (PreConsumeTokenQuota cfg now i q s) = None \<longleftrightarrow>
      (\<exists>tok. token_row i s = Some tok \<and> 0 \<le> q \<and> (t_unlimited_quota tok \<or> q \<le> t_remain_quota tok) \<and>
         q \<le> quota_of (t_user_id tok) s)) \<and>
    (fst (PreConsumeTokenQuota cfg now i q s) \<noteq> None \<longrightarrow> snd (PreConsumeTokenQuota cfg now i q s) = s)"
  using assms
  by (cases "i = 0"; cases "find (\<lambda>t. t_id t = i) (tokens s)")
    (auto simp: PreConsumeTokenQuota_def GetTokenById_def GetUserQuota_def DecreaseTokenQuota_def
      decreaseTokenQuota_def DecreaseUserQuota_def decreaseUserQuota_def token_row_def)

theorem preconsume_complete_witness:
  "fst (PreConsumeTokenQuota direct_cfg 5 7 60 demo_st) = None \<and>
   snd (PreConsumeTokenQuota direct_cfg 5 7 61 demo_st) = demo_st"
proof -
  have row: "token_row 7 demo_st = Some demo_token" and owner: "t_user_id demo_token = 1"
    and q: "quota_of 1 demo_st = 100"
    by (simp_all add: token_row_def demo_token_def demo_user_def user_column_def)
  show ?thesis
    using preconsume_complete [of direct_cfg demo_st 5 7 60] preconsume_complete [of direct_cfg demo_st 5 7 61]
    by (simp add: row owner q) (simp add: demo_token_def)
qed

text \<open>The two halves of a pre-consumption are not one transaction: when the update of the user's
  row fails after the update of the token's row, the caller sees an error, the token has been charged
  and the user has not.\<close>

theorem preconsume_not_atomic:
  "let (r, s') = PreConsumeTokenQuota direct_cfg 5 7 30 (demo_st\<lparr>db_faults := [None, None, None, Some ''deadlock'']\<rparr>)
   in r = Some ''deadlock'' \<and> remain_of 7 s' = remain_of 7 demo_st - 30 \<and> quota_of 1 s' = quota_of 1 demo_st"
  by (simp add: PreConsumeTokenQuota_def GetTokenById_def GetUserQuota_def DecreaseTokenQuota_def
      decreaseTokenQuota_def DecreaseUserQuota_def decreaseUserQuota_def demo_token_def demo_user_def
      user_column_def remain_of_def db_first_def db_find_def db_exec_def remind_quota_def Let_def add_defs
      direct_cfg_def init_config_def ToLower_def env_Bool_def)

text \<open>The account of a request: pre-consume an estimate, then post-consume the difference to the real
  cost (which is negative when the estimate was too high).\<close>

lemma PostConsume_direct:
  assumes "\<not> BatchUpdateEnabled cfg" and "db_faults s = []" and "token_row i s = Some tok"
    and "int64 q" and "int64 (- q)"
  shows "fst (PostConsumeTokenQuota cfg now i q s) = None \<and>
    charged now i q tok s (snd (PostConsumeTokenQuota cfg now i q s))"
  using assms
  by (auto simp: PostConsumeTokenQuota_def GetTokenById_def token_row_def Let_def charged_def
      DecreaseTokenQuota_def decreaseTokenQuota_def DecreaseUserQuota_def decreaseUserQuota_def
      IncreaseTokenQuota_def increaseTokenQuota_def IncreaseUserQuota_def increaseUserQuota_def
      split: if_splits)

lemma charged_accounts:
  assumes "charged now i q tok s s'" and "token_row i s = Some tok"
    and "find (\<lambda>u. u_id u = t_user_id tok) (users s) \<noteq> None"
  shows "quota_of v s' = (if v = t_user_id tok then quota_of v s - q else quota_of v s)"
    and "remain_of i s' = remain_of i s - (if t_unlimited_quota tok then 0 else q)"
    and "\<exists>tok'. token_row i s' = Some tok' \<and> t_user_id tok' = t_user_id tok \<and>
      t_unlimited_quota tok' = t_unlimited_quota tok"
    and "find (\<lambda>u. u_id u = t_user_id tok) (users s') \<noteq> None"
proof -
  from assms(1) have u: "users s' = bump u_id add_quota (t_user_id tok) (- q) (users s)"
    and t: "tokens s' = (if t_unlimited_quota tok then tokens s
      else update_where (\<lambda>t. t_id t = i) (touch_token now (- q)) (tokens s))"
    by (simp_all add: charged_def)
  have find: "i \<noteq> 0" "find (\<lambda>t. t_id t = i) (tokens s) = Some tok"
    using assms(2) by (simp_all add: token_row_def split: if_splits)
  show "quota_of v s' = (if v = t_user_id tok then quota_of v s - q else quota_of v s)"
    using quota_of_bump [OF u, of v] assms(3) by auto
  show "remain_of i s' = remain_of i s - (if t_unlimited_quota tok then 0 else q)"
    using t find remain_of_same [of s' s i] remain_of_touch [of s' i now "- q" s i] by auto
  show "\<exists>tok'. token_row i s' = Some tok' \<and> t_user_id tok' = t_user_id tok \<and>
      t_unlimited_quota tok' = t_unlimited_quota tok"
    using t find by (auto simp: token_row_def find_touch add_defs)
  show "find (\<lambda>u. u_id u = t_user_id tok) (users s') \<noteq> None"
    using u assms(3) by (simp add: find_bump add_defs)
qed

text \<open>Settlement. When a request pre-consumes an estimate \<open>p\<close> and post-consumes the difference to
  its cost \<open>q\<close>, the owner of the token has paid exactly \<open>q\<close> in the end, whether the estimate was too
  high or too low, other users have paid nothing, and a limited token has been charged \<open>q\<close>.\<close>

theorem settlement:
  assumes "\<not> BatchUpdateEnabled cfg" and "db_faults s = []"
    and "token_row i s = Some tok" and "find (\<lambda>u. u_id u = t_user_id tok) (users s) \<noteq> None"
    and "PreConsumeTokenQuota cfg t1 i p s = (None, s1)"
    and "PostConsumeTokenQuota cfg t2 i (q - p) s1 = (r, s2)"
    and "int64 (q - p)" and "int64 (p - q)"
  shows "r = None \<and> (\<forall>v. quota_of v s2 = (if v = t_user_id tok then quota_of v s - q else quota_of v s)) \<and>
    remain_of i s2 = remain_of i s - (if t_unlimited_quota tok then 0 else q)"
proof -
  have pre: "charged t1 i p tok s s1"
    using PreConsume_cases [OF assms(1,5)] assms(3) by auto
  note acc1 = charged_accounts [OF pre assms(3,4)]
  then obtain tok' where tok': "token_row i s1 = Some tok'" "t_user_id tok' = t_user_id tok"
    "t_unlimited_quota tok' = t_unlimited_quota tok" by blast
  have nf: "db_faults s1 = []"
    using assms(1-3,5)
    by (auto simp: PreConsumeTokenQuota_def GetTokenById_def GetUserQuota_def token_row_def
        DecreaseTokenQuota_def decreaseTokenQuota_def DecreaseUserQuota_def decreaseUserQuota_def
        split: if_splits)
  have "fst (PostConsumeTokenQuota cfg t2 i (q - p) s1) = None \<and>
      charged t2 i (q - p) tok' s1 (snd (PostConsumeTokenQuota cfg t2 i (q - p) s1))"
    using assms(7,8) by (intro PostConsume_direct [OF assms(1) nf tok'(1)]) simp_all
  then have r: "r = None" and post: "charged t2 i (q - p) tok' s1 s2" using assms(6) by simp_all
  have owner: "find (\<lambda>u. u_id u = t_user_id tok') (users s1) \<noteq> None" using acc1(4) tok'(2) by simp
  note acc2 = charged_accounts [OF post tok'(1) owner]
  show ?thesis using r acc1(1,2) acc2(1,2) tok' by auto
qed

theorem settlement_witness:
  "quota_of 1 (snd (PostConsumeTokenQuota direct_cfg 9 7 (20 - 30) (snd (PreConsumeTokenQuota direct_cfg 5 7 30 demo_st)))) = 80"
proof -
  have row: "token_row 7 demo_st = Some demo_token" and owner: "t_user_id demo_token = 1"
    and q: "quota_of 1 demo_st = 100" and u: "u_id demo_user = 1"
    by (simp_all add: token_row_def demo_token_def demo_user_def user_column_def)
  obtain r s1 where pre: "PreConsumeTokenQuota direct_cfg 5 7 30 demo_st = (r, s1)" by fastforce
  have "r = None"
    using pre by (auto simp: PreConsumeTokenQuota_def GetTokenById_def GetUserQuota_def demo_token_def
        demo_user_def user_column_def DecreaseTokenQuota_def decreaseTokenQuota_def
        DecreaseUserQuota_def decreaseUserQuota_def)
  obtain r2 s2 where post: "PostConsumeTokenQuota direct_cfg 9 7 (20 - 30) s1 = (r2, s2)" by fastforce
  show ?thesis
    using settlement [of direct_cfg demo_st 7 demo_token 5 30 s1 9 20 r2 s2] pre post \<open>r = None\<close>
    by (simp add: row owner q u int64_def)
qed


section \<open>Concurrent requests\<close>

text \<open>
  \<open>PreConsumeTokenQuota\<close> reads the user's quota, compares, and sends the decrement as a statement of
  its own, so requests interleave between the check and the payment. A state is the database with
  the payments (user and quota) that have passed the check and are still to be made; at most \<open>n\<close>
  requests are in flight, each of at most \<open>m\<close>. Refunds happen at any time.
\<close>

inductive race :: "nat \<Rightarrow> int \<Rightarrow> st \<times> (int \<times> int) list \<Rightarrow> st \<times> (int \<times> int) list \<Rightarrow> bool"
  for n m where
  check: "GetUserQuota uid s = (Inr userQuota, s') \<Longrightarrow> 0 \<le> q \<Longrightarrow> q \<le> m \<Longrightarrow> \<not> userQuota < q \<Longrightarrow>
    length ps < n \<Longrightarrow> race n m (s, ps) (s', (uid, q) # ps)"
| pay: "(uid, q) \<in> set ps \<Longrightarrow>
    race n m (s, ps) (snd (decreaseUserQuota uid q s), remove1 (uid, q) ps)"
| refund: "0 \<le> q \<Longrightarrow> race n m (s, ps) (snd (increaseUserQuota uid q s), ps)"

inductive_cases race_cases: "race n m (s, ps) (s', ps')"

definition race_inv :: "nat \<Rightarrow> int \<Rightarrow> st \<times> (int \<times> int) list \<Rightarrow> bool" where
  "race_inv n m x \<longleftrightarrow>
     (case x of (s, ps) \<Rightarrow> db_faults s = [] \<and> length ps \<le> n \<and> (\<forall>(uid, q) \<in> set ps. 0 \<le> q \<and> q \<le> m) \<and>
        (\<forall>uid. find (\<lambda>u. u_id u = uid) (users s) \<noteq> None \<longrightarrow>
           - (int (n - 1) * m) \<le> quota_of uid s - pend ps uid))"

lemma pend_remove1: "(k, v) \<in> set xs \<Longrightarrow> pend (remove1 (k, v) xs) j = pend xs j - (if j = k then v else 0)"
proof (induction xs)
  case (Cons p xs)
  then show ?case by (cases p) auto
qed simp

lemma pend_le: "\<forall>(uid, q) \<in> set ps. 0 \<le> q \<and> q \<le> m \<Longrightarrow> 0 \<le> m \<Longrightarrow> pend ps k \<le> int (length ps) * m"
proof (induction ps)
  case (Cons p ps)
  obtain k' v where "p = (k', v)" by (cases p)
  with Cons show ?case by (auto simp: algebra_simps)
qed simp

lemma pend_nonneg: "\<forall>(uid, q) \<in> set ps. 0 \<le> q \<and> q \<le> m \<Longrightarrow> 0 \<le> pend ps k"
proof (induction ps)
  case (Cons p ps)
  then show ?case by (cases p) auto
qed simp

lemma race_inv_step:
  assumes "race n m x y" and "race_inv n m x" and m: "0 \<le> m"
  shows "race_inv n m y"
  using assms(1,2)
proof (induction rule: race.induct)
  case (check uid s userQuota s' q ps)
  then have s': "s' = s" and uq: "userQuota = quota_of uid s"
    by (auto simp: race_inv_def GetUserQuota_def)
  have "pend ps uid \<le> int (length ps) * m" using check.prems m by (intro pend_le) (auto simp: race_inv_def)
  also have "\<dots> \<le> int (n - 1) * m" using check.hyps(5) m by (intro mult_right_mono) auto
  finally have "- (int (n - 1) * m) \<le> quota_of uid s - (q + pend ps uid)"
    using check.hyps(4) uq by simp
  then show ?case
    using check by (auto simp: race_inv_def s')
next
  case (pay uid q ps s)
  have d: "users (snd (decreaseUserQuota uid q s)) = bump u_id add_quota uid (- q) (users s)"
    "db_faults (snd (decreaseUserQuota uid q s)) = []"
    using pay.prems by (simp_all add: decreaseUserQuota_def race_inv_def)
  show ?case
    using pay d(2)
    by (auto simp: race_inv_def quota_of_bump [OF d(1)] pend_remove1 [OF pay.hyps] d(1) find_bump
        add_defs length_remove1 dest: notin_set_remove1 [rotated] set_remove1_subset [THEN subsetD])
next
  case (refund q s ps uid)
  have d: "users (snd (increaseUserQuota uid q s)) = bump u_id add_quota uid q (users s)"
    "db_faults (snd (increaseUserQuota uid q s)) = []"
    using refund.prems by (simp_all add: increaseUserQuota_def race_inv_def)
  show ?case
    using refund d(2)
    by (fastforce simp: race_inv_def quota_of_bump [OF d(1)] d(1) find_bump add_defs)
qed


lemma demo_race:
  "(race 2 100)\<^sup>*\<^sup>* (demo_st, [])
     (snd (decreaseUserQuota 1 100 (snd (decreaseUserQuota 1 100 demo_st))), [])"
proof -
  have c: "GetUserQuota 1 demo_st = (Inr 100, demo_st)"
    by (simp add: GetUserQuota_def user_column_def demo_user_def)
  have "race 2 100 (demo_st, []) (demo_st, [(1, 100)])" by (rule check [OF c]) simp_all
  moreover have "race 2 100 (demo_st, [(1, 100)]) (demo_st, [(1, 100), (1, 100)])"
    by (rule check [OF c]) simp_all
  moreover have "race 2 100 (demo_st, [(1, 100), (1, 100)]) (snd (decreaseUserQuota 1 100 demo_st), [(1, 100)])"
    using pay [of 1 100 "[(1, 100), (1, 100)]" 2 100 demo_st] by simp
  moreover have "race 2 100 (snd (decreaseUserQuota 1 100 demo_st), [(1, 100)])
      (snd (decreaseUserQuota 1 100 (snd (decreaseUserQuota 1 100 demo_st))), [])"
    using pay [of 1 100 "[(1, 100)]" 2 100 "snd (decreaseUserQuota 1 100 demo_st)"] by simp
  ultimately show ?thesis by (meson r_into_rtranclp rtranclp_trans)
qed


text \<open>The bound is attained: two requests of 100 that both check before either pays take a user
  with a quota of 100 to -100.\<close>

theorem overdraft_reachable:
  "\<exists>s'. (race 2 100)\<^sup>*\<^sup>* (demo_st, []) (s', []) \<and> quota_of 1 demo_st = 100 \<and> quota_of 1 s' = - 100"
proof -
  have "quota_of 1 (snd (decreaseUserQuota 1 100 (snd (decreaseUserQuota 1 100 demo_st)))) = - 100"
    and "quota_of 1 demo_st = 100"
    by (simp_all add: decreaseUserQuota_def bump_def add_defs demo_user_def user_column_def)
  with demo_race show ?thesis by blast
qed

end
