(* ===== verification/Logs.thy ===== *)
theory Logs
  imports Store "HOL-Library.List_Lexorder" "HOL-Library.Product_Lexorder" "HOL-Library.Char_ord"
begin

text \<open>
  \<^verbatim>\<open>model/log.go\<close> and \<^verbatim>\<open>controller/log.go\<close>: recording, listing, searching, summing and deleting the
  log of requests. The log may live in a database of its own; its statements fail like the others.
  How the database compares a column with \<open>LIKE\<close> (\<open>like value pattern\<close>), the number in \<open>type\<close> with a
  string, and a day with a time stamp depends on the server and is a parameter.
\<close>

section \<open>Recording\<close>

definition zero_log :: log where
  "zero_log = \<lparr>l_id = 0, l_user_id = 0, l_created_at = 0, l_type = 0, l_content = '''', l_username = '''',
     l_token_name = '''', l_model_name = '''', l_quota = 0, l_prompt_tokens = 0, l_completion_tokens = 0,
     l_channel_id = 0, l_request_id = '''', l_elapsed_time = 0, l_is_stream = False,
     l_system_prompt_reset = False\<rparr>"

text \<open>A failed query leaves the empty name.\<close>

definition GetUsernameById :: "int \<Rightarrow> st \<Rightarrow> string \<times> st" where
  "GetUsernameById uid s =
     (case db_find (\<lambda>s. case find (\<lambda>u. u_id u = uid) (users s) of None \<Rightarrow> '''' | Some u \<Rightarrow> u_username u) s of
        (Inl e, s') \<Rightarrow> ('''', s')
      | (Inr name, s') \<Rightarrow> (name, s'))"

text \<open>\<open>Create\<close> gives the row the next identifier.\<close>

definition recordLogHelper :: "string \<Rightarrow> log \<Rightarrow> st \<Rightarrow> st" where
  "recordLogHelper requestId l s =
     snd (db_exec (\<lambda>s. s\<lparr>logs := logs s @ [l\<lparr>l_request_id := requestId, l_id := next_id s\<rparr>],
        next_id := next_id s + 1\<rparr>) s)"

definition RecordLog :: "config \<Rightarrow> string \<Rightarrow> int \<Rightarrow> int \<Rightarrow> int \<Rightarrow> string \<Rightarrow> st \<Rightarrow> st" where
  "RecordLog cfg requestId now userId logType content s =
     (if logType = LogTypeConsume \<and> \<not> LogConsumeEnabled cfg then s
      else case GetUsernameById userId s of (name, s') \<Rightarrow>
        recordLogHelper requestId (zero_log\<lparr>l_user_id := userId, l_username := name, l_created_at := now,
          l_type := logType, l_content := content\<rparr>) s')"

definition RecordTopupLog :: "string \<Rightarrow> int \<Rightarrow> int \<Rightarrow> string \<Rightarrow> int \<Rightarrow> st \<Rightarrow> st" where
  "RecordTopupLog requestId now userId content quota s =
     (case GetUsernameById userId s of (name, s') \<Rightarrow>
        recordLogHelper requestId (zero_log\<lparr>l_user_id := userId, l_username := name, l_created_at := now,
          l_type := LogTypeTopup, l_content := content, l_quota := quota\<rparr>) s')"

definition RecordConsumeLog :: "config \<Rightarrow> string \<Rightarrow> int \<Rightarrow> log \<Rightarrow> st \<Rightarrow> st" where
  "RecordConsumeLog cfg requestId now l s =
     (if \<not> LogConsumeEnabled cfg then s
      else case GetUsernameById (l_user_id l) s of (name, s') \<Rightarrow>
        recordLogHelper requestId (l\<lparr>l_username := name, l_created_at := now, l_type := LogTypeConsume\<rparr>) s')"

definition RecordTestLog :: "string \<Rightarrow> int \<Rightarrow> log \<Rightarrow> st \<Rightarrow> st" where
  "RecordTestLog requestId now l s =
     recordLogHelper requestId (l\<lparr>l_created_at := now, l_type := LogTypeTest\<rparr>) s"


section \<open>Queries\<close>

text \<open>A condition that is only added for a value that is set.\<close>

definition unless_zero :: "int \<Rightarrow> bool \<Rightarrow> bool" where
  "unless_zero v p = (v = 0 \<or> p)"

definition unless_empty :: "string \<Rightarrow> bool \<Rightarrow> bool" where
  "unless_empty v p = (v = '''' \<or> p)"

definition GetAllLogs :: "int \<Rightarrow> int \<Rightarrow> int \<Rightarrow> string \<Rightarrow> string \<Rightarrow> string \<Rightarrow> int \<Rightarrow> int \<Rightarrow> int \<Rightarrow> st \<Rightarrow>
    (string + log list) \<times> st" where
  "GetAllLogs logType startTimestamp endTimestamp modelName username tokenName startIdx num chan =
     db_find (\<lambda>s. page startIdx num (filter (\<lambda>l.
        unless_zero logType (l_type l = logType) \<and>
        unless_empty modelName (l_model_name l = modelName) \<and>
        unless_empty username (l_username l = username) \<and>
        unless_empty tokenName (l_token_name l = tokenName) \<and>
        unless_zero startTimestamp (startTimestamp \<le> l_created_at l) \<and>
        unless_zero endTimestamp (l_created_at l \<le> endTimestamp) \<and>
        unless_zero chan (l_channel_id l = chan)) (logs s)))"

text \<open>A user's own logs come without their identifiers.\<close>

definition GetUserLogs :: "int \<Rightarrow> int \<Rightarrow> int \<Rightarrow> int \<Rightarrow> string \<Rightarrow> string \<Rightarrow> int \<Rightarrow> int \<Rightarrow> st \<Rightarrow>
    (string + log list) \<times> st" where
  "GetUserLogs userId logType startTimestamp endTimestamp modelName tokenName startIdx num =
     db_find (\<lambda>s. map (\<lambda>l. l\<lparr>l_id := 0\<rparr>) (page startIdx num (filter (\<lambda>l.
        l_user_id l = userId \<and>
        unless_zero logType (l_type l = logType) \<and>
        unless_empty modelName (l_model_name l = modelName) \<and>
        unless_empty tokenName (l_token_name l = tokenName) \<and>
        unless_zero startTimestamp (startTimestamp \<le> l_created_at l) \<and>
        unless_zero endTimestamp (l_created_at l \<le> endTimestamp)) (logs s))))"

definition SearchAllLogs :: "(string \<Rightarrow> string \<Rightarrow> bool) \<Rightarrow> (int \<Rightarrow> string \<Rightarrow> bool) \<Rightarrow> config \<Rightarrow> string \<Rightarrow> st \<Rightarrow>
    (string + log list) \<times> st" where
  "SearchAllLogs like num_eq cfg keyword =
     db_find (\<lambda>s. page 0 (MaxRecentItems cfg) (filter (\<lambda>l.
        num_eq (l_type l) keyword \<or> like (l_content l) (keyword @ ''%'')) (logs s)))"

definition SearchUserLogs :: "(int \<Rightarrow> string \<Rightarrow> bool) \<Rightarrow> config \<Rightarrow> int \<Rightarrow> string \<Rightarrow> st \<Rightarrow>
    (string + log list) \<times> st" where
  "SearchUserLogs num_eq cfg userId keyword =
     db_find (\<lambda>s. map (\<lambda>l. l\<lparr>l_id := 0\<rparr>) (page 0 (MaxRecentItems cfg) (filter (\<lambda>l.
        l_user_id l = userId \<and> num_eq (l_type l) keyword) (logs s))))"

text \<open>The sums ignore a failure of the query: the result stays 0.\<close>

definition consumed :: "int \<Rightarrow> int \<Rightarrow> string \<Rightarrow> string \<Rightarrow> string \<Rightarrow> int \<Rightarrow> log \<Rightarrow> bool" where
  "consumed startTimestamp endTimestamp modelName username tokenName chan l \<longleftrightarrow>
     l_type l = LogTypeConsume \<and>
     unless_empty username (l_username l = username) \<and>
     unless_empty tokenName (l_token_name l = tokenName) \<and>
     unless_zero startTimestamp (startTimestamp \<le> l_created_at l) \<and>
     unless_zero endTimestamp (l_created_at l \<le> endTimestamp) \<and>
     unless_empty modelName (l_model_name l = modelName) \<and>
     unless_zero chan (l_channel_id l = chan)"

definition SumUsedQuota :: "int \<Rightarrow> int \<Rightarrow> int \<Rightarrow> string \<Rightarrow> string \<Rightarrow> string \<Rightarrow> int \<Rightarrow> st \<Rightarrow> int \<times> st" where
  "SumUsedQuota logType startTimestamp endTimestamp modelName username tokenName chan s =
     (case db_find (\<lambda>s. sum_list (map l_quota
         (filter (consumed startTimestamp endTimestamp modelName username tokenName chan) (logs s)))) s of
        (Inl e, s') \<Rightarrow> (0, s')
      | (Inr q, s') \<Rightarrow> (q, s'))"

definition SumUsedToken :: "int \<Rightarrow> int \<Rightarrow> int \<Rightarrow> string \<Rightarrow> string \<Rightarrow> string \<Rightarrow> st \<Rightarrow> int \<times> st" where
  "SumUsedToken logType startTimestamp endTimestamp modelName username tokenName s =
     (case db_find (\<lambda>s. let ls = filter (consumed startTimestamp endTimestamp modelName username tokenName 0) (logs s)
         in sum_list (map l_prompt_tokens ls) + sum_list (map l_completion_tokens ls)) s of
        (Inl e, s') \<Rightarrow> (0, s')
      | (Inr q, s') \<Rightarrow> (q, s'))"

definition DeleteOldLog :: "int \<Rightarrow> st \<Rightarrow> (string + int) \<times> st" where
  "DeleteOldLog targetTimestamp s =
     (case db_exec (\<lambda>s. s\<lparr>logs := delete_where (\<lambda>l. l_created_at l < targetTimestamp) (logs s)\<rparr>) s of
        (Some e, s') \<Rightarrow> (Inl e, s')
      | (None, s') \<Rightarrow> (Inr (int (length (logs s)) - int (length (logs s'))), s'))"

record LogStatistic =
  s_day :: string
  s_model_name :: string
  s_request_count :: int
  s_quota :: int
  s_prompt_tokens :: int
  s_completion_tokens :: int

definition day_statistic :: "(int \<Rightarrow> string) \<Rightarrow> log list \<Rightarrow> string \<times> string \<Rightarrow> LogStatistic" where
  "day_statistic day_of ls k =
     (let g = filter (\<lambda>l. (day_of (l_created_at l), l_model_name l) = k) ls
      in \<lparr>s_day = fst k, s_model_name = snd k, s_request_count = int (length g),
          s_quota = sum_list (map l_quota g), s_prompt_tokens = sum_list (map l_prompt_tokens g),
          s_completion_tokens = sum_list (map l_completion_tokens g)\<rparr>)"

definition SearchLogsByDayAndModel :: "(int \<Rightarrow> string) \<Rightarrow> int \<Rightarrow> int \<Rightarrow> int \<Rightarrow> st \<Rightarrow>
    (string + LogStatistic list) \<times> st" where
  "SearchLogsByDayAndModel day_of userId start finish =
     db_find (\<lambda>s.
       let ls = filter (\<lambda>l. l_type l = 2 \<and> l_user_id l = userId \<and>
             start \<le> l_created_at l \<and> l_created_at l \<le> finish) (logs s)
       in map (day_statistic day_of ls)
            (sort (remdups (map (\<lambda>l. (day_of (l_created_at l), l_model_name l)) ls))))"


section \<open>Handlers\<close>

text \<open>The query parameters arrive as strings; a missing one is the empty string.\<close>

definition answer :: "(string + 'a) \<times> st \<Rightarrow> 'a reply \<times> st" where
  "answer r = (case r of (Inl e, s) \<Rightarrow> (Failure e, s) | (Inr x, s) \<Rightarrow> (Success x, s))"

abbreviation query_int :: "string \<Rightarrow> int" where
  "query_int q \<equiv> parse_value (ParseInt q)"

definition handle_GetAllLogs :: "config \<Rightarrow> (string \<Rightarrow> string) \<Rightarrow> st \<Rightarrow> log list reply \<times> st" where
  "handle_GetAllLogs cfg query s =
     answer (GetAllLogs (query_int (query ''type'')) (query_int (query ''start_timestamp''))
       (query_int (query ''end_timestamp'')) (query ''model_name'') (query ''username'') (query ''token_name'')
       (wrap64 (query_page (query ''p'') * ItemsPerPage cfg)) (ItemsPerPage cfg)
       (query_int (query ''channel'')) s)"

definition handle_GetUserLogs :: "config \<Rightarrow> int \<Rightarrow> (string \<Rightarrow> string) \<Rightarrow> st \<Rightarrow> log list reply \<times> st" where
  "handle_GetUserLogs cfg userId query s =
     answer (GetUserLogs userId (query_int (query ''type'')) (query_int (query ''start_timestamp''))
       (query_int (query ''end_timestamp'')) (query ''model_name'') (query ''token_name'')
       (wrap64 (query_page (query ''p'') * ItemsPerPage cfg)) (ItemsPerPage cfg) s)"

definition handle_SearchAllLogs :: "(string \<Rightarrow> string \<Rightarrow> bool) \<Rightarrow> (int \<Rightarrow> string \<Rightarrow> bool) \<Rightarrow> config \<Rightarrow>
    (string \<Rightarrow> string) \<Rightarrow> st \<Rightarrow> log list reply \<times> st" where
  "handle_SearchAllLogs like num_eq cfg query s = answer (SearchAllLogs like num_eq cfg (query ''keyword'') s)"

definition handle_SearchUserLogs :: "(int \<Rightarrow> string \<Rightarrow> bool) \<Rightarrow> config \<Rightarrow> int \<Rightarrow> (string \<Rightarrow> string) \<Rightarrow> st \<Rightarrow>
    log list reply \<times> st" where
  "handle_SearchUserLogs num_eq cfg userId query s = answer (SearchUserLogs num_eq cfg userId (query ''keyword'') s)"

definition GetLogsStat :: "(string \<Rightarrow> string) \<Rightarrow> st \<Rightarrow> int reply \<times> st" where
  "GetLogsStat query s =
     (case SumUsedQuota (query_int (query ''type'')) (query_int (query ''start_timestamp''))
         (query_int (query ''end_timestamp'')) (query ''model_name'') (query ''username'') (query ''token_name'')
         (query_int (query ''channel'')) s of (q, s') \<Rightarrow> (Success q, s'))"

definition GetLogsSelfStat :: "string \<Rightarrow> (string \<Rightarrow> string) \<Rightarrow> st \<Rightarrow> int reply \<times> st" where
  "GetLogsSelfStat username query s =
     (case SumUsedQuota (query_int (query ''type'')) (query_int (query ''start_timestamp''))
         (query_int (query ''end_timestamp'')) (query ''model_name'') username (query ''token_name'')
         (query_int (query ''channel'')) s of (q, s') \<Rightarrow> (Success q, s'))"

definition DeleteHistoryLogs :: "(string \<Rightarrow> string) \<Rightarrow> st \<Rightarrow> int reply \<times> st" where
  "DeleteHistoryLogs query s =
     (if query_int (query ''target_timestamp'') = 0 then (Failure ''target timestamp is required'', s)
      else answer (DeleteOldLog (query_int (query ''target_timestamp'')) s))"


section \<open>Properties\<close>

lemma sum_list_partition:
  assumes "distinct ks" and "\<forall>x \<in> set xs. key x \<in> set ks"
  shows "(\<Sum>k \<leftarrow> ks. sum_list (map f (filter (\<lambda>x. key x = k) xs))) = sum_list (map (f :: 'x \<Rightarrow> int) xs)"
  using assms(2)
proof (induction xs)
  case Nil
  then show ?case by (induction ks) auto
next
  case (Cons x xs)
  have "(\<Sum>k \<leftarrow> ks. sum_list (map f (filter (\<lambda>y. key y = k) (x # xs)))) =
      (\<Sum>k \<leftarrow> ks. (if k = key x then f x else 0) + sum_list (map f (filter (\<lambda>y. key y = k) xs)))"
    by (rule arg_cong [of _ _ sum_list]) (auto intro: map_cong)
  also have "\<dots> = (\<Sum>k \<leftarrow> ks. if k = key x then f x else 0) + sum_list (map f xs)"
    using Cons by (simp add: sum_list_addf)
  also have "(\<Sum>k \<leftarrow> ks. if k = key x then f x else 0) = f x"
    using assms(1) Cons.prems by (simp add: sum_list_distinct_conv_sum_set)
  finally show ?case by simp
qed

text \<open>The statistics by day and model account for every unit: their quotas add up to the sum of
  the quotas of all consumption logs of the user in the interval, their request counts to the number
  of these logs, and no (day, model) pair is listed twice.\<close>

theorem day_statistics_partition:
  assumes "db_faults s = []"
  shows "\<exists>stats. SearchLogsByDayAndModel day_of userId start finish s = (Inr stats, s) \<and>
    distinct (map (\<lambda>x. (s_day x, s_model_name x)) stats) \<and>
    (let ls = filter (\<lambda>l. l_type l = LogTypeConsume \<and> l_user_id l = userId \<and>
            start \<le> l_created_at l \<and> l_created_at l \<le> finish) (logs s)
     in sum_list (map s_quota stats) = sum_list (map l_quota ls) \<and>
        sum_list (map s_request_count stats) = int (length ls))"
proof -
  define ls where "ls = filter (\<lambda>l. l_type l = LogTypeConsume \<and> l_user_id l = userId \<and>
      start \<le> l_created_at l \<and> l_created_at l \<le> finish) (logs s)"
  let ?key = "\<lambda>l. (day_of (l_created_at l), l_model_name l)"
  define ks where "ks = sort (remdups (map ?key ls))"
  have ks: "distinct ks" "\<forall>l \<in> set ls. ?key l \<in> set ks" by (simp_all add: ks_def)
  have q: "sum_list (map s_quota (map (day_statistic day_of ls) ks)) = sum_list (map l_quota ls)"
    using sum_list_partition [OF ks, of l_quota] by (simp add: comp_def day_statistic_def Let_def)
  have one: "sum_list (map (\<lambda>_. 1) xs) = int (length xs)" for xs :: "log list"
    by (induction xs) simp_all
  have n: "sum_list (map s_request_count (map (day_statistic day_of ls) ks)) = int (length ls)"
    using sum_list_partition [OF ks, of "\<lambda>_. 1"] unfolding one by (simp add: comp_def day_statistic_def Let_def)
  have d: "map (\<lambda>x. (s_day x, s_model_name x)) (map (day_statistic day_of ls) ks) = ks"
    by (simp add: comp_def day_statistic_def Let_def)
  show ?thesis
    using assms q n d ks(1)
    by (intro exI [of _ "map (day_statistic day_of ls) ks"])
      (simp add: SearchLogsByDayAndModel_def ls_def ks_def Let_def)
qed

text \<open>Users see only their own logs: whatever filters and page a user asks for, and whatever the
  state of the database, every log listed or found for them is theirs and its identifier is hidden.\<close>

theorem user_logs_isolated:
  assumes "handle_GetUserLogs cfg userId query s = (Success ls, s') \<or>
    handle_SearchUserLogs num_eq cfg userId query s = (Success ls, s')"
  shows "list_all (\<lambda>l. l_user_id l = userId \<and> l_id l = 0) ls"
proof -
  have own: "list_all (\<lambda>l. l_user_id l = userId \<and> l_id l = 0) (map (\<lambda>l. l\<lparr>l_id := 0\<rparr>) (page a b (filter P (logs s))))"
    if "\<And>l. P l \<Longrightarrow> l_user_id l = userId" for a b P
    using that set_page [of a b "filter P (logs s)"] by (auto simp: list_all_iff)
  show ?thesis
    using assms
    by (auto simp: handle_GetUserLogs_def GetUserLogs_def handle_SearchUserLogs_def SearchUserLogs_def
        answer_def split: prod.splits sum.splits dest!: db_find_Inr intro!: own)
qed

definition two_logs :: st where
  "two_logs = empty_st\<lparr>logs := [zero_log\<lparr>l_id := 1, l_user_id := 1, l_type := 2, l_quota := 5\<rparr>,
     zero_log\<lparr>l_id := 2, l_user_id := 2, l_type := 2, l_quota := 7\<rparr>]\<rparr>"

theorem day_statistics_partition_witness:
  "\<exists>stats. SearchLogsByDayAndModel (\<lambda>_. ''d'') 1 0 9 two_logs = (Inr stats, two_logs) \<and>
     sum_list (map s_quota stats) = 5"
  using day_statistics_partition [of two_logs "\<lambda>_. ''d''" 1 0 9]
  by (auto simp: two_logs_def empty_st_def zero_log_def Let_def)

theorem user_logs_isolated_witness:
  "\<exists>ls. fst (handle_GetUserLogs (init_config (\<lambda>_. [])) 1 (\<lambda>_. '''') two_logs) = Success ls \<and>
     list_all (\<lambda>l. l_user_id l = 1 \<and> l_id l = 0) ls"
proof -
  have "db_faults two_logs = []" by (simp add: two_logs_def empty_st_def)
  then obtain ls where "handle_GetUserLogs (init_config (\<lambda>_. [])) 1 (\<lambda>_. '''') two_logs = (Success ls, two_logs)"
    by (simp add: handle_GetUserLogs_def GetUserLogs_def answer_def)
  with user_logs_isolated [OF disjI1 [OF this]] show ?thesis by simp
qed

end
