(* ===== verification/Channels.thy ===== *)
theory Channels
  imports Logs Quota
begin

text \<open>
  Upstream channels: \<^verbatim>\<open>model/channel.go\<close>, \<^verbatim>\<open>model/ability.go\<close>, the channel part of
  \<^verbatim>\<open>model/cache.go\<close>, \<^verbatim>\<open>controller/channel.go\<close> and \<^verbatim>\<open>common/utils/array.go\<close>. A channel serves the
  models and groups that its two comma-separated columns name; the table of abilities lists these
  triples, with the channel's priority and whether it is enabled, and is kept in step with the
  channels by every operation.

  Random choices are made by an index taken modulo the number of candidates; \<open>srt\<close> is \<open>sort.Slice\<close>
  by descending priority, which need not be stable.
\<close>

section \<open>Channels and their abilities\<close>

definition GetPriority :: "channel \<Rightarrow> int" where
  "GetPriority c = (case c_priority c of None \<Rightarrow> 0 | Some p \<Rightarrow> p)"

definition GetBaseURL :: "channel \<Rightarrow> string" where
  "GetBaseURL c = (case c_base_url c of None \<Rightarrow> '''' | Some u \<Rightarrow> u)"

text \<open>\<open>unmarshal\<close> reads a JSON object of strings; no mapping is \<open>nil\<close>.\<close>

definition GetModelMapping :: "(string \<Rightarrow> (string \<times> string) list option) \<Rightarrow> channel \<Rightarrow>
    (string \<times> string) list option" where
  "GetModelMapping unmarshal c =
     (case c_model_mapping c of
        None \<Rightarrow> None
      | Some m \<Rightarrow> (if m = '''' \<or> m = ''{}'' then None else unmarshal m))"

definition DeDuplication :: "string list \<Rightarrow> string list" where
  "DeDuplication xs = remdups xs"

definition abilities_of :: "channel \<Rightarrow> ability list" where
  "abilities_of c =
     concat (map (\<lambda>m. map (\<lambda>g.
         \<lparr>a_group = g, a_model = m, a_channel_id = c_id c,
          a_enabled = (c_status c = ChannelStatusEnabled), a_priority = c_priority c\<rparr>)
         (Split (CHR '','') (c_group c)))
       (DeDuplication (Split (CHR '','') (c_models c))))"

definition ability_key :: "ability \<Rightarrow> string \<times> string \<times> int" where
  "ability_key a = (a_group a, a_model a, a_channel_id a)"

text \<open>The primary key of an ability is its group, model and channel.\<close>

definition AddAbilities :: "channel \<Rightarrow> st \<Rightarrow> string option \<times> st" where
  "AddAbilities c =
     db_try (\<lambda>s.
       if distinct (map ability_key (abilities s @ abilities_of c))
       then Inr (s\<lparr>abilities := abilities s @ abilities_of c\<rparr>) else Inl ErrDuplicatedKey)"

definition DeleteAbilities :: "channel \<Rightarrow> st \<Rightarrow> string option \<times> st" where
  "DeleteAbilities c =
     db_exec (\<lambda>s. s\<lparr>abilities := delete_where (\<lambda>a. a_channel_id a = c_id c) (abilities s)\<rparr>)"

definition UpdateAbilities :: "channel \<Rightarrow> st \<Rightarrow> string option \<times> st" where
  "UpdateAbilities c s =
     (case DeleteAbilities c s of
        (Some e, s) \<Rightarrow> (Some e, s)
      | (None, s) \<Rightarrow> AddAbilities c s)"

definition UpdateAbilityStatus :: "int \<Rightarrow> bool \<Rightarrow> st \<Rightarrow> string option \<times> st" where
  "UpdateAbilityStatus cid status =
     db_exec (\<lambda>s. s\<lparr>abilities := update_where (\<lambda>a. a_channel_id a = cid)
       (\<lambda>a. a\<lparr>a_enabled := status\<rparr>) (abilities s)\<rparr>)"

text \<open>What \<open>Create\<close> stores: the schema's defaults in place of zero values.\<close>

definition stored_channel :: "int \<Rightarrow> channel \<Rightarrow> channel" where
  "stored_channel cid c =
     c\<lparr>c_id := (if c_id c = 0 then cid else c_id c),
       c_status := (if c_status c = 0 then 1 else c_status c),
       c_weight := (case c_weight c of None \<Rightarrow> Some 0 | w \<Rightarrow> w),
       c_base_url := (case c_base_url c of None \<Rightarrow> Some '''' | u \<Rightarrow> u),
       c_group := (if c_group c = '''' then ''default'' else c_group c),
       c_model_mapping := (case c_model_mapping c of None \<Rightarrow> Some '''' | m \<Rightarrow> m),
       c_priority := (case c_priority c of None \<Rightarrow> Some 0 | p \<Rightarrow> p)\<rparr>"

definition insert_channel :: "channel \<Rightarrow> st \<Rightarrow> st" where
  "insert_channel c s =
     (let row = stored_channel (next_id s) c
      in s\<lparr>channels := channels s @ [row], next_id := max (next_id s) (c_id row + 1)\<rparr>)"

definition create_channels :: "channel list \<Rightarrow> st \<Rightarrow> string option \<times> st" where
  "create_channels cs =
     db_try (\<lambda>s. let s' = fold insert_channel cs s
       in if distinct (map c_id (channels s')) then Inr s' else Inl ErrDuplicatedKey)"

definition Insert_channel :: "channel \<Rightarrow> st \<Rightarrow> string option \<times> st" where
  "Insert_channel c s =
     (case create_channels [c] s of
        (Some e, s') \<Rightarrow> (Some e, s')
      | (None, s') \<Rightarrow> AddAbilities (stored_channel (next_id s) c) s')"

text \<open>One statement inserts all channels, then their abilities are added one channel at a time.\<close>

fun add_all_abilities :: "channel list \<Rightarrow> st \<Rightarrow> string option \<times> st" where
  "add_all_abilities [] s = (None, s)"
| "add_all_abilities (c # cs) s =
     (case AddAbilities c s of
        (Some e, s) \<Rightarrow> (Some e, s)
      | (None, s) \<Rightarrow> add_all_abilities cs s)"

definition BatchInsertChannels :: "channel list \<Rightarrow> st \<Rightarrow> string option \<times> st" where
  "BatchInsertChannels cs s =
     (if cs = [] then (Some ''empty slice found'', s)
      else case create_channels cs s of
        (Some e, s') \<Rightarrow> (Some e, s')
      | (None, s') \<Rightarrow> add_all_abilities (drop (length (channels s)) (channels s')) s')"

text \<open>\<open>Updates\<close> with a struct writes its non-zero fields only, and needs a primary key.\<close>

definition update_channel :: "channel \<Rightarrow> channel \<Rightarrow> channel" where
  "update_channel new c =
     c\<lparr>c_type := nz (c_type new) (c_type c), c_key := nz_str (c_key new) (c_key c),
       c_status := nz (c_status new) (c_status c), c_name := nz_str (c_name new) (c_name c),
       c_weight := nz_opt (c_weight new) (c_weight c),
       c_created_time := nz (c_created_time new) (c_created_time c),
       c_test_time := nz (c_test_time new) (c_test_time c),
       c_response_time := nz (c_response_time new) (c_response_time c),
       c_base_url := nz_opt (c_base_url new) (c_base_url c),
       c_other := nz_opt (c_other new) (c_other c),
       c_balance := (if c_balance new = 0 then c_balance c else c_balance new),
       c_balance_updated_time := nz (c_balance_updated_time new) (c_balance_updated_time c),
       c_models := nz_str (c_models new) (c_models c), c_group := nz_str (c_group new) (c_group c),
       c_used_quota := nz (c_used_quota new) (c_used_quota c),
       c_model_mapping := nz_opt (c_model_mapping new) (c_model_mapping c),
       c_priority := nz_opt (c_priority new) (c_priority c),
       c_config := nz_str (c_config new) (c_config c),
       c_system_prompt := nz_opt (c_system_prompt new) (c_system_prompt c)\<rparr>"

text \<open>The channel is read back to complete it; a failure of that query goes unnoticed.\<close>

definition Update_channel :: "channel \<Rightarrow> st \<Rightarrow> (string option \<times> channel) \<times> st" where
  "Update_channel new s =
     (if c_id new = 0 then ((Some ErrMissingWhereClause, new), s)
      else case db_exec (\<lambda>s. s\<lparr>channels :=
          update_where (\<lambda>c. c_id c = c_id new) (update_channel new) (channels s)\<rparr>) s of
        (Some e, s) \<Rightarrow> ((Some e, new), s)
      | (None, s) \<Rightarrow>
          (case db_first (\<lambda>s. find (\<lambda>c. c_id c = c_id new) (channels s)) s of
             (r, s) \<Rightarrow>
               (let full = (case r of Inl _ \<Rightarrow> new | Inr c \<Rightarrow> c)
                in case UpdateAbilities full s of (e, s) \<Rightarrow> ((e, full), s))))"

definition UpdateResponseTime :: "int \<Rightarrow> int \<Rightarrow> int \<Rightarrow> st \<Rightarrow> st" where
  "UpdateResponseTime now cid responseTime s =
     snd (db_exec (\<lambda>s. s\<lparr>channels := update_where (\<lambda>c. c_id c = cid)
       (\<lambda>c. c\<lparr>c_test_time := now, c_response_time := responseTime\<rparr>) (channels s)\<rparr>) s)"

definition UpdateBalance :: "int \<Rightarrow> int \<Rightarrow> f64 \<Rightarrow> st \<Rightarrow> st" where
  "UpdateBalance now cid balance s =
     snd (db_exec (\<lambda>s. s\<lparr>channels := update_where (\<lambda>c. c_id c = cid)
       (\<lambda>c. c\<lparr>c_balance_updated_time := now, c_balance := balance\<rparr>) (channels s)\<rparr>) s)"

definition Delete_channel :: "channel \<Rightarrow> st \<Rightarrow> string option \<times> st" where
  "Delete_channel c s =
     (if c_id c = 0 then (Some ErrMissingWhereClause, s)
      else case db_exec (\<lambda>s. s\<lparr>channels := delete_where (\<lambda>x. c_id x = c_id c) (channels s)\<rparr>) s of
        (Some e, s) \<Rightarrow> (Some e, s)
      | (None, s) \<Rightarrow> DeleteAbilities c s)"

definition UpdateChannelStatusById :: "int \<Rightarrow> int \<Rightarrow> st \<Rightarrow> st" where
  "UpdateChannelStatusById cid status s =
     (case UpdateAbilityStatus cid (status = ChannelStatusEnabled) s of
        (_, s) \<Rightarrow> snd (db_exec (\<lambda>s. s\<lparr>channels :=
          update_where (\<lambda>c. c_id c = cid) (\<lambda>c. c\<lparr>c_status := status\<rparr>) (channels s)\<rparr>) s))"

definition delete_channels :: "(channel \<Rightarrow> bool) \<Rightarrow> st \<Rightarrow> (string + int) \<times> st" where
  "delete_channels P s =
     (case db_exec (\<lambda>s. s\<lparr>channels := delete_where P (channels s)\<rparr>) s of
        (Some e, s') \<Rightarrow> (Inl e, s')
      | (None, s') \<Rightarrow> (Inr (int (length (channels s)) - int (length (channels s'))), s'))"

definition DeleteChannelByStatus :: "int \<Rightarrow> st \<Rightarrow> (string + int) \<times> st" where
  "DeleteChannelByStatus status = delete_channels (\<lambda>c. c_status c = status)"

definition DeleteDisabledChannel :: "st \<Rightarrow> (string + int) \<times> st" where
  "DeleteDisabledChannel =
     delete_channels (\<lambda>c. c_status c = ChannelStatusAutoDisabled \<or> c_status c = ChannelStatusManuallyDisabled)"

text \<open>The lists for the administrators, and a single channel read for them, omit the key.\<close>

definition GetAllChannels :: "int \<Rightarrow> int \<Rightarrow> string \<Rightarrow> st \<Rightarrow> (string + channel list) \<times> st" where
  "GetAllChannels startIdx num scope =
     db_find (\<lambda>s.
       if scope = ''all'' then rev (channels s)
       else if scope = ''disabled'' then
         rev (filter (\<lambda>c. c_status c = ChannelStatusAutoDisabled \<or> c_status c = ChannelStatusManuallyDisabled) (channels s))
       else map (\<lambda>c. c\<lparr>c_key := ''''\<rparr>) (page startIdx num (channels s)))"

definition String2Int :: "string \<Rightarrow> int" where
  "String2Int s = (case ParseInt s of ParsedInt i \<Rightarrow> i | _ \<Rightarrow> 0)"

definition SearchChannels :: "(string \<Rightarrow> string \<Rightarrow> bool) \<Rightarrow> string \<Rightarrow> st \<Rightarrow> (string + channel list) \<times> st" where
  "SearchChannels like keyword =
     db_find (\<lambda>s. map (\<lambda>c. c\<lparr>c_key := ''''\<rparr>)
       (filter (\<lambda>c. c_id c = String2Int keyword \<or> like (c_name c) (keyword @ ''%'')) (channels s)))"

definition GetChannelById :: "int \<Rightarrow> bool \<Rightarrow> st \<Rightarrow> (string + channel) \<times> st" where
  "GetChannelById cid selectAll =
     db_first (\<lambda>s. map_option (\<lambda>c. if selectAll then c else c\<lparr>c_key := ''''\<rparr>)
       (find (\<lambda>c. c_id c = cid) (channels s)))"


section \<open>Choosing a channel\<close>

definition max_priority :: "ability list \<Rightarrow> int option" where
  "max_priority as =
     (case List.map_filter a_priority as of [] \<Rightarrow> None | p # ps \<Rightarrow> Some (fold max ps p))"

definition serving :: "string \<Rightarrow> string \<Rightarrow> st \<Rightarrow> ability list" where
  "serving grp mdl s = filter (\<lambda>a. a_group a = grp \<and> a_model a = mdl \<and> a_enabled a) (abilities s)"

definition candidates :: "string \<Rightarrow> string \<Rightarrow> bool \<Rightarrow> st \<Rightarrow> ability list" where
  "candidates grp mdl ignoreFirstPriority s =
     (let as = serving grp mdl s
      in if ignoreFirstPriority then as
         else filter (\<lambda>a. a_priority a \<noteq> None \<and> a_priority a = max_priority as) as)"

definition pick :: "nat \<Rightarrow> 'a list \<Rightarrow> 'a option" where
  "pick r xs = (if xs = [] then None else Some (xs ! (r mod length xs)))"

text \<open>An error comes with whether the caller gets a channel all the same: it does when only its row is
  missing.\<close>

definition GetRandomSatisfiedChannel :: "nat \<Rightarrow> string \<Rightarrow> string \<Rightarrow> bool \<Rightarrow> st \<Rightarrow> (string \<times> bool + channel) \<times> st" where
  "GetRandomSatisfiedChannel r grp mdl ignoreFirstPriority s =
     (case db_first (\<lambda>s. pick r (candidates grp mdl ignoreFirstPriority s)) s of
        (Inl e, s) \<Rightarrow> (Inl (e, False), s)
      | (Inr a, s) \<Rightarrow>
          (case db_first (\<lambda>s. find (\<lambda>c. c_id c = a_channel_id a) (channels s)) s of
             (Inl e, s) \<Rightarrow> (Inl (e, True), s)
           | (Inr c, s) \<Rightarrow> (Inr c, s)))"

text \<open>
  The cache: for each group that some ability names, the channels of each model (none is the empty
  list). \<open>None\<close> is a panic: a channel of a group without abilities writes to a nil map.
\<close>

type_synonym channel_cache = "string \<rightharpoonup> (string \<Rightarrow> channel list)"

definition cache_add :: "channel \<Rightarrow> string \<times> string \<Rightarrow> channel_cache option \<Rightarrow> channel_cache option" where
  "cache_add c gm cache =
     (case gm of (g, m) \<Rightarrow>
       Option.bind cache (\<lambda>cache. case cache g of
         None \<Rightarrow> None
       | Some by_model \<Rightarrow> Some (cache(g \<mapsto> by_model(m := by_model m @ [c])))))"

definition channel_slots :: "channel \<Rightarrow> (string \<times> string) list" where
  "channel_slots c =
     concat (map (\<lambda>g. map (\<lambda>m. (g, m)) (Split (CHR '','') (c_models c))) (Split (CHR '','') (c_group c)))"

definition build_cache :: "channel list \<Rightarrow> string list \<Rightarrow> channel_cache option" where
  "build_cache cs groups =
     fold (\<lambda>c. fold (cache_add c) (channel_slots c)) cs
       (Some (\<lambda>g. if g \<in> set groups then Some (\<lambda>_. []) else None))"

definition InitChannelCache :: "(channel list \<Rightarrow> channel list) \<Rightarrow> st \<Rightarrow> (channel_cache \<times> st) option" where
  "InitChannelCache srt s =
     (let (r1, s) = db_find (\<lambda>s. filter (\<lambda>c. c_status c = ChannelStatusEnabled) (channels s)) s;
          (r2, s) = db_find abilities s;
          cs = (case r1 of Inl _ \<Rightarrow> [] | Inr cs \<Rightarrow> cs);
          groups = (case r2 of Inl _ \<Rightarrow> [] | Inr as \<Rightarrow> map a_group as)
      in map_option (\<lambda>cache. (\<lambda>g. map_option (\<lambda>by_model m. srt (by_model m)) (cache g), s))
           (build_cache cs groups))"

definition cached_channels :: "channel_cache \<Rightarrow> string \<Rightarrow> string \<Rightarrow> channel list" where
  "cached_channels cache grp mdl = (case cache grp of None \<Rightarrow> [] | Some by_model \<Rightarrow> by_model mdl)"

definition first_tier :: "channel list \<Rightarrow> nat" where
  "first_tier cs =
     (if GetPriority (hd cs) > 0
      then length (takeWhile (\<lambda>c. GetPriority c = GetPriority (hd cs)) cs) else length cs)"

definition CacheGetRandomSatisfiedChannel :: "config \<Rightarrow> nat \<Rightarrow> channel_cache \<Rightarrow> string \<Rightarrow> string \<Rightarrow> bool \<Rightarrow>
    st \<Rightarrow> (string \<times> bool + channel) \<times> st" where
  "CacheGetRandomSatisfiedChannel cfg r cache grp mdl ignoreFirstPriority s =
     (if \<not> MemoryCacheEnabled cfg then GetRandomSatisfiedChannel r grp mdl ignoreFirstPriority s
      else (let cs = cached_channels cache grp mdl; endIdx = first_tier cs
            in if cs = [] then (Inl (''channel not found'', False), s)
               else if ignoreFirstPriority \<and> endIdx < length cs
                    then (Inr (cs ! (endIdx + r mod (length cs - endIdx))), s)
               else (Inr (cs ! (r mod endIdx)), s)))"


section \<open>The models of a group\<close>

definition GetGroupModels :: "string \<Rightarrow> st \<Rightarrow> (string + string list) \<times> st" where
  "GetGroupModels grp =
     db_find (\<lambda>s. sort (remdups (map a_model (filter (\<lambda>a. a_group a = grp \<and> a_enabled a) (abilities s)))))"

definition group_models_key :: "string \<Rightarrow> string" where
  "group_models_key grp = ''group_models:'' @ grp"

definition CacheGetGroupModels :: "config \<Rightarrow> int \<Rightarrow> string \<Rightarrow> st \<Rightarrow> (string + string list) \<times> st" where
  "CacheGetGroupModels cfg now grp s =
     (if \<not> redis_enabled s then GetGroupModels grp s
      else case RedisGet now (group_models_key grp) s of
        (Inr v, s) \<Rightarrow> (Inr (case v of KStr str \<Rightarrow> Split (CHR '','') str | KToken _ \<Rightarrow> [[]]), s)
      | (Inl e, s) \<Rightarrow>
          (case GetGroupModels grp s of
             (Inl e, s) \<Rightarrow> (Inl e, s)
           | (Inr ms, s) \<Rightarrow>
               (Inr ms, snd (RedisSet now (group_models_key grp) (KStr (Join (CHR '','') ms))
                  (SyncFrequency cfg) s))))"


section \<open>Handlers\<close>

definition handle_GetAllChannels :: "config \<Rightarrow> string \<Rightarrow> st \<Rightarrow> channel list reply \<times> st" where
  "handle_GetAllChannels cfg p s =
     answer (GetAllChannels (wrap64 (query_page p * ItemsPerPage cfg)) (ItemsPerPage cfg) ''limited'' s)"

definition handle_SearchChannels :: "(string \<Rightarrow> string \<Rightarrow> bool) \<Rightarrow> string \<Rightarrow> st \<Rightarrow> channel list reply \<times> st" where
  "handle_SearchChannels like keyword s = answer (SearchChannels like keyword s)"

definition GetChannel :: "string \<Rightarrow> st \<Rightarrow> channel reply \<times> st" where
  "GetChannel param s =
     (case parse_ok (ParseInt param) of
        None \<Rightarrow> (Failure (''strconv.Atoi: parsing '' @ param), s)
      | Some cid \<Rightarrow> answer (GetChannelById cid False s))"

definition unit_reply :: "string option \<times> st \<Rightarrow> unit reply \<times> st" where
  "unit_reply r = (case r of (None, s) \<Rightarrow> (Success (), s) | (Some e, s) \<Rightarrow> (Failure e, s))"

text \<open>Each line of the key field makes a channel of its own.\<close>

definition AddChannel :: "int \<Rightarrow> string + channel \<Rightarrow> st \<Rightarrow> unit reply \<times> st" where
  "AddChannel now body s =
     (case body of
        Inl e \<Rightarrow> (Failure e, s)
      | Inr c \<Rightarrow>
          unit_reply (BatchInsertChannels
            (map (\<lambda>key. c\<lparr>c_created_time := now, c_key := key\<rparr>)
               (filter (\<lambda>key. key \<noteq> '''') (Split (CHR 0x0A) (c_key c)))) s))"

definition zero_channel :: channel where
  "zero_channel = \<lparr>c_id = 0, c_type = 0, c_key = '''', c_status = 0, c_name = '''', c_weight = None,
     c_created_time = 0, c_test_time = 0, c_response_time = 0, c_base_url = None, c_other = None,
     c_balance = 0, c_balance_updated_time = 0, c_models = '''', c_group = '''', c_used_quota = 0,
     c_model_mapping = None, c_priority = None, c_config = '''', c_system_prompt = None\<rparr>"

definition DeleteChannel :: "string \<Rightarrow> st \<Rightarrow> unit reply \<times> st" where
  "DeleteChannel param s = unit_reply (Delete_channel (zero_channel\<lparr>c_id := parse_value (ParseInt param)\<rparr>) s)"

definition handle_DeleteDisabledChannel :: "st \<Rightarrow> int reply \<times> st" where
  "handle_DeleteDisabledChannel s = answer (DeleteDisabledChannel s)"

definition UpdateChannel :: "string + channel \<Rightarrow> st \<Rightarrow> channel reply \<times> st" where
  "UpdateChannel body s =
     (case body of
        Inl e \<Rightarrow> (Failure e, s)
      | Inr c \<Rightarrow>
          (case Update_channel c s of
             ((Some e, _), s) \<Rightarrow> (Failure e, s)
           | ((None, full), s) \<Rightarrow> (Success full, s)))"

end
