(* ===== verification/ChannelLaws.thy ===== *)
theory ChannelLaws
  imports Channels
begin

text \<open>
  The abilities stay in step with the channels under every operation, and a channel that is chosen
  for a request, from the database or from the cache, is enabled, serves the group and the model,
  and has the right priority.
\<close>

section \<open>The invariant\<close>

text \<open>
  Every channel has exactly the abilities its columns name; abilities left behind by deleted channels
  are disabled; identifiers are unique and below the next one. The channels in \<open>pending\<close> have been
  inserted and still wait for their abilities.
\<close>

definition groups_ok :: "channel \<Rightarrow> bool" where
  "groups_ok c \<longleftrightarrow> distinct (Split (CHR '','') (c_group c))"

definition own_abilities :: "int \<Rightarrow> st \<Rightarrow> ability set" where
  "own_abilities cid s = {a \<in> set (abilities s). a_channel_id a = cid}"

definition in_step :: "int set \<Rightarrow> st \<Rightarrow> bool" where
  "in_step pending s \<longleftrightarrow>
     distinct (map c_id (channels s)) \<and> distinct (map ability_key (abilities s)) \<and>
     (\<forall>c \<in> set (channels s). c_id c < next_id s \<and> c_id c \<noteq> 0 \<and> groups_ok c \<and> c_priority c \<noteq> None \<and>
        own_abilities (c_id c) s = (if c_id c \<in> pending then {} else set (abilities_of c))) \<and>
     (\<forall>a \<in> set (abilities s). a_channel_id a < next_id s \<and>
        (a_channel_id a \<notin> c_id ` set (channels s) \<longrightarrow> \<not> a_enabled a)) \<and> 0 < next_id s"

abbreviation consistent :: "st \<Rightarrow> bool" where
  "consistent s \<equiv> in_step {} s \<and> db_faults s = []"

lemma abilities_of_iff:
  "a \<in> set (abilities_of c) \<longleftrightarrow>
     a_group a \<in> set (Split (CHR '','') (c_group c)) \<and> a_model a \<in> set (Split (CHR '','') (c_models c)) \<and>
     a_channel_id a = c_id c \<and> a_enabled a = (c_status c = ChannelStatusEnabled) \<and> a_priority a = c_priority c"
  by (cases a) (auto simp: abilities_of_def DeDuplication_def image_iff)

lemma abilities_of_id: "a \<in> set (abilities_of c) \<Longrightarrow> a_channel_id a = c_id c"
  by (simp add: abilities_of_iff)

lemma abilities_of_distinct:
  assumes "groups_ok c"
  shows "distinct (map ability_key (abilities_of c))"
proof -
  have "distinct (map ability_key (concat (map (\<lambda>m. map (\<lambda>g. \<lparr>a_group = g, a_model = m, a_channel_id = i,
      a_enabled = e, a_priority = p\<rparr>) gs) ms)))" if "distinct gs" "distinct ms" for gs ms i e p
    using that(2)
  proof (induction ms)
    case (Cons m ms)
    with that(1) show ?case by (auto simp: ability_key_def distinct_map inj_on_def)
  qed simp
  then show ?thesis using assms by (simp add: abilities_of_def groups_ok_def DeDuplication_def)
qed

lemma in_step_AddAbilities:
  assumes "in_step (insert (c_id c) pending) s" and "db_faults s = []" and "c \<in> set (channels s)"
    and "c_id c \<notin> pending"
  shows "\<exists>s'. AddAbilities c s = (None, s') \<and> in_step pending s' \<and> db_faults s' = [] \<and>
    channels s' = channels s"
proof -
  let ?s = "s\<lparr>abilities := abilities s @ abilities_of c\<rparr>"
  have none: "own_abilities (c_id c) s = {}" and g: "groups_ok c"
    using assms(1,3) by (auto simp: in_step_def)
  then have disj: "set (map ability_key (abilities s)) \<inter> set (map ability_key (abilities_of c)) = {}"
    by (auto simp: own_abilities_def ability_key_def dest: abilities_of_id)
  have d: "distinct (map ability_key (abilities s @ abilities_of c))"
    using assms(1) abilities_of_distinct [OF g] disj by (simp add: in_step_def)
  then have "AddAbilities c s = (None, ?s)"
    using assms(2) by (simp add: AddAbilities_def db_try_def)
  moreover have "in_step pending ?s"
  proof -
    have same: "c' = c" if "c' \<in> set (channels s)" "c_id c' = c_id c" for c'
      using that assms(1,3) by (auto simp: in_step_def distinct_map inj_on_def)
    have "own_abilities i ?s = own_abilities i s \<union> (if i = c_id c then set (abilities_of c) else {})" for i
      by (auto simp: own_abilities_def dest: abilities_of_id)
    then show ?thesis
      using assms(1,3,4) d none same by (auto simp: in_step_def dest: abilities_of_id)
  qed
  ultimately show ?thesis using assms(2) by simp
qed

lemma in_step_DeleteAbilities:
  assumes "in_step pending s"
  shows "in_step (insert i pending) (s\<lparr>abilities := delete_where (\<lambda>a. a_channel_id a = i) (abilities s)\<rparr>)"
proof -
  have "own_abilities j (s\<lparr>abilities := delete_where (\<lambda>a. a_channel_id a = i) (abilities s)\<rparr>) =
      (if j = i then {} else own_abilities j s)" for j
    by (auto simp: own_abilities_def delete_where_def)
  then show ?thesis
    using assms by (auto simp: in_step_def delete_where_def distinct_map_filter)
qed

lemma in_step_insert:
  assumes "in_step pending s" and "c_id c = 0" and "groups_ok (stored_channel 0 c)"
  shows "in_step (insert (next_id s) pending) (insert_channel c s)"
    and "channels (insert_channel c s) = channels s @ [stored_channel (next_id s) c]"
    and "next_id (insert_channel c s) = next_id s + 1"
proof -
  let ?row = "stored_channel (next_id s) c"
  have row: "c_id ?row = next_id s" "c_group ?row = c_group (stored_channel 0 c)" "c_priority ?row \<noteq> None"
    using assms(2) by (auto simp: stored_channel_def split: option.splits)
  show ch: "channels (insert_channel c s) = channels s @ [?row]"
    and nx: "next_id (insert_channel c s) = next_id s + 1"
    using row(1) by (simp_all add: insert_channel_def Let_def)
  have ab: "abilities (insert_channel c s) = abilities s" by (simp add: insert_channel_def Let_def)
  have "own_abilities i (insert_channel c s) = own_abilities i s" for i by (simp add: own_abilities_def ab)
  moreover have "own_abilities (next_id s) s = {}"
    using assms(1) by (force simp: in_step_def own_abilities_def)
  ultimately show "in_step (insert (next_id s) pending) (insert_channel c s)"
    using assms(1,3) row by (auto simp: in_step_def ch nx ab groups_ok_def dest: less_imp_neq)
qed

text \<open>Inserting a batch, then adding the abilities of each new channel.\<close>

lemma in_step_fold_insert:
  assumes "\<forall>c \<in> set cs. c_id c = 0 \<and> groups_ok (stored_channel 0 c)"
  shows "in_step pending s \<Longrightarrow>
    in_step (pending \<union> {next_id s ..< next_id s + int (length cs)}) (fold insert_channel cs s) \<and>
    (\<exists>new. channels (fold insert_channel cs s) = channels s @ new \<and>
       map c_id new = map (\<lambda>k. next_id s + int k) [0 ..< length cs]) \<and>
    db_faults (fold insert_channel cs s) = db_faults s"
  using assms
proof (induction cs arbitrary: s pending)
  case (Cons c cs)
  have c: "c_id c = 0" "groups_ok (stored_channel 0 c)" using Cons.prems by simp_all
  note ins = in_step_insert [OF Cons.prems(1) c]
  have tl: "\<forall>c \<in> set cs. c_id c = 0 \<and> groups_ok (stored_channel 0 c)" using Cons.prems(2) by simp
  from Cons.IH [OF ins(1) tl] obtain new where
    step: "in_step (insert (next_id s) pending \<union> {next_id s + 1 ..< next_id s + 1 + int (length cs)})
        (fold insert_channel (c # cs) s)"
    and new: "channels (fold insert_channel (c # cs) s) = channels s @ stored_channel (next_id s) c # new"
      "map c_id new = map (\<lambda>k. next_id s + 1 + int k) [0 ..< length cs]"
    and f: "db_faults (fold insert_channel (c # cs) s) = db_faults s"
    by (auto simp: ins(2,3)) (simp add: insert_channel_def Let_def)
  have eq: "insert (next_id s) pending \<union> {next_id s + 1 ..< next_id s + 1 + int (length cs)} =
      pending \<union> {next_id s ..< next_id s + int (length (c # cs))}" by auto
  have m: "map c_id (stored_channel (next_id s) c # new) =
      map (\<lambda>k. next_id s + int k) [0 ..< length (c # cs)]"
    using new(2) c(1) by (simp add: stored_channel_def upt_conv_Cons map_Suc_upt [symmetric] algebra_simps del: upt_Suc)
  from step have "in_step (pending \<union> {next_id s ..< next_id s + int (length (c # cs))})
      (fold insert_channel (c # cs) s)" by (simp only: eq)
  with new(1) m f show ?case by blast
qed simp

lemma in_step_add_all:
  "in_step (set (map c_id cs)) s \<Longrightarrow> db_faults s = [] \<Longrightarrow> distinct (map c_id cs) \<Longrightarrow>
   set cs \<subseteq> set (channels s) \<Longrightarrow>
   \<exists>s'. add_all_abilities cs s = (None, s') \<and> in_step {} s' \<and> db_faults s' = []"
proof (induction cs arbitrary: s)
  case (Cons c cs)
  have "in_step (insert (c_id c) (set (map c_id cs))) s" "c \<in> set (channels s)" "c_id c \<notin> set (map c_id cs)"
    using Cons.prems by simp_all
  from in_step_AddAbilities [OF this(1) Cons.prems(2) this(2,3)] obtain s1 where
    "AddAbilities c s = (None, s1)" "in_step (set (map c_id cs)) s1" "db_faults s1 = []"
    "channels s1 = channels s" by blast
  with Cons.IH [of s1] Cons.prems show ?case by simp
qed simp

lemma consistent_BatchInsert:
  assumes "consistent s" and "\<forall>c \<in> set cs. c_id c = 0 \<and> groups_ok (stored_channel 0 c)"
  shows "consistent (snd (BatchInsertChannels cs s)) \<and> (cs \<noteq> [] \<longrightarrow> fst (BatchInsertChannels cs s) = None)"
proof (cases "cs = []")
  case True
  then show ?thesis using assms by (simp add: BatchInsertChannels_def)
next
  case False
  let ?s = "fold insert_channel cs s"
  from in_step_fold_insert [OF assms(2), of "{}" s] assms(1) obtain new where
    st: "in_step ({next_id s ..< next_id s + int (length cs)}) ?s"
    and new: "channels ?s = channels s @ new" "map c_id new = map (\<lambda>k. next_id s + int k) [0 ..< length cs]"
    and f: "db_faults ?s = []" by auto
  have "distinct (map c_id (channels ?s))" using st by (simp add: in_step_def)
  then have create: "create_channels cs s = (None, ?s)"
    using assms(1) f by (simp add: create_channels_def db_try_def Let_def)
  have "\<exists>k < length cs. x = next_id s + int k" if "next_id s \<le> x" "x < next_id s + int (length cs)" for x
    using that by (intro exI [of _ "nat (x - next_id s)"]) auto
  then have "{next_id s ..< next_id s + int (length cs)} = set (map c_id new)"
    unfolding new(2) by (fastforce simp: image_iff)
  moreover have "distinct (map c_id new)"
    using \<open>distinct (map c_id (channels ?s))\<close> by (simp add: new(1))
  ultimately have "\<exists>s'. add_all_abilities new ?s = (None, s') \<and> in_step {} s' \<and> db_faults s' = []"
    using st f new(1) by (intro in_step_add_all) simp_all
  then show ?thesis using False create new(1) by (auto simp: BatchInsertChannels_def)
qed

lemma update_where_ids: "(\<And>c. c_id (f c) = c_id c) \<Longrightarrow> map c_id (update_where P f cs) = map c_id cs"
  by (simp add: map_update_where)

lemma in_step_update_row:
  assumes "in_step {} s" and f: "\<And>c. c_id (f c) = c_id c"
    and ok: "\<And>c. c \<in> set (channels s) \<Longrightarrow> groups_ok (f c) \<and> c_priority (f c) \<noteq> None"
  shows "in_step {i} (s\<lparr>channels := update_where (\<lambda>c. c_id c = i) f (channels s),
    abilities := delete_where (\<lambda>a. a_channel_id a = i) (abilities s)\<rparr>)"
proof -
  let ?s = "s\<lparr>abilities := delete_where (\<lambda>a. a_channel_id a = i) (abilities s)\<rparr>"
  let ?cs = "update_where (\<lambda>c. c_id c = i) f (channels s)"
  have st: "in_step {i} ?s" using in_step_DeleteAbilities [OF assms(1), of i] by simp
  have own: "own_abilities j (?s\<lparr>channels := ?cs\<rparr>) = own_abilities j ?s" for j by (simp add: own_abilities_def)
  have ids: "map c_id ?cs = map c_id (channels s)" using f by (simp add: update_where_ids)
  then have idset: "c_id ` set ?cs = c_id ` set (channels s)" by (metis list.set_map)
  have row: "c_id c < next_id s \<and> c_id c \<noteq> 0 \<and> groups_ok c \<and> c_priority c \<noteq> None \<and>
      own_abilities (c_id c) ?s = (if c_id c \<in> {i} then {} else set (abilities_of c))" if "c \<in> set ?cs" for c
  proof -
    have "\<exists>c0 \<in> set (channels s). c = (if c_id c0 = i then f c0 else c0)"
      using that by (simp only: set_update_where image_iff)
    then obtain c0 where c0: "c0 \<in> set (channels s)" "c = (if c_id c0 = i then f c0 else c0)" by blast
    from st c0(1) have "c_id c0 < next_id s \<and> c_id c0 \<noteq> 0 \<and> groups_ok c0 \<and> c_priority c0 \<noteq> None \<and>
        own_abilities (c_id c0) ?s = (if c_id c0 \<in> {i} then {} else set (abilities_of c0))"
      by (simp add: in_step_def)
    with c0 f ok [OF c0(1)] show ?thesis by (cases "c_id c0 = i") simp_all
  qed
  have "in_step {i} (?s\<lparr>channels := ?cs\<rparr>)"
    using st row unfolding in_step_def own by (simp add: ids idset)
  then show ?thesis by (cases s) simp
qed

text \<open>What \<open>Update\<close> does when nothing fails: the row is merged, and its abilities are rebuilt.\<close>

lemma consistent_Update:
  assumes "consistent s" and "c_group new = '''' \<or> groups_ok new"
    and "\<exists>c \<in> set (channels s). c_id c = c_id new"
  shows "consistent (snd (Update_channel new s)) \<and> fst (fst (Update_channel new s)) = None"
proof -
  let ?i = "c_id new"
  let ?f = "update_channel new"
  let ?cs = "update_where (\<lambda>c. c_id c = ?i) ?f (channels s)"
  let ?s2 = "s\<lparr>channels := ?cs, abilities := delete_where (\<lambda>a. a_channel_id a = ?i) (abilities s)\<rparr>"
  have id: "c_id (?f c) = c_id c" for c by (simp add: update_channel_def)
  have ok: "groups_ok (?f c) \<and> c_priority (?f c) \<noteq> None" if "c \<in> set (channels s)" for c
    using assms(1,2) that
    by (auto simp: in_step_def groups_ok_def update_channel_def nz_str_def nz_opt_def split: option.splits)
  have "?i \<noteq> 0" using assms(1,3) by (auto simp: in_step_def)
  from assms(3) have "find (\<lambda>c. c_id c = ?i) (channels s) \<noteq> None" by (auto simp: find_None)
  then obtain full where full: "find (\<lambda>c. c_id c = ?i) ?cs = Some full"
    by (auto simp: find_update_where_same [of "\<lambda>c. c_id c = ?i" ?f] id)
  then have mem: "full \<in> set ?cs" and fid: "c_id full = ?i" using find_SomeD by fast+
  have "in_step {?i} ?s2" using in_step_update_row [OF conjunct1 [OF assms(1)] id ok] .
  then have "\<exists>s'. AddAbilities full ?s2 = (None, s') \<and> in_step {} s' \<and> db_faults s' = [] \<and>
      channels s' = channels ?s2"
    using mem fid assms(1) by (intro in_step_AddAbilities) simp_all
  then obtain s' where s': "AddAbilities full ?s2 = (None, s')" "in_step {} s'" "db_faults s' = []" by blast
  have "Update_channel new s = ((None, full), s')"
    using \<open>?i \<noteq> 0\<close> assms(1) full fid s'(1)
    by (simp add: Update_channel_def UpdateAbilities_def DeleteAbilities_def Let_def)
  with s' show ?thesis by simp
qed

lemma consistent_Delete:
  assumes "consistent s"
  shows "consistent (snd (Delete_channel c s))"
proof (cases "c_id c = 0")
  case True
  then show ?thesis using assms by (simp add: Delete_channel_def)
next
  case False
  let ?s = "s\<lparr>abilities := delete_where (\<lambda>a. a_channel_id a = c_id c) (abilities s)\<rparr>"
  have "in_step {c_id c} ?s" using in_step_DeleteAbilities [of "{}" s "c_id c"] assms by simp
  moreover have "own_abilities j (?s\<lparr>channels := cs\<rparr>) = own_abilities j ?s" for j cs by (simp add: own_abilities_def)
  ultimately have "in_step {} (?s\<lparr>channels := delete_where (\<lambda>x. c_id x = c_id c) (channels s)\<rparr>)"
    by (auto simp: in_step_def delete_where_def distinct_map_filter)
  then have "in_step {} (s\<lparr>channels := delete_where (\<lambda>x. c_id x = c_id c) (channels s),
      abilities := delete_where (\<lambda>a. a_channel_id a = c_id c) (abilities s)\<rparr>)" by (cases s) simp
  then show ?thesis using False assms by (simp add: Delete_channel_def DeleteAbilities_def)
qed

lemma in_step_status:
  assumes "in_step {} s" and "i \<in> c_id ` set (channels s) \<or> st \<noteq> ChannelStatusEnabled"
  shows "in_step {} (s\<lparr>abilities := update_where (\<lambda>a. a_channel_id a = i)
      (\<lambda>a. a\<lparr>a_enabled := (st = ChannelStatusEnabled)\<rparr>) (abilities s),
    channels := update_where (\<lambda>c. c_id c = i) (\<lambda>c. c\<lparr>c_status := st\<rparr>) (channels s)\<rparr>)"
proof -
  define g where "g = (\<lambda>a::ability. if a_channel_id a = i then a\<lparr>a_enabled := (st = ChannelStatusEnabled)\<rparr> else a)"
  define f where "f = (\<lambda>c::channel. if c_id c = i then c\<lparr>c_status := st\<rparr> else c)"
  have f [simp]: "c_id (f c) = c_id c" "groups_ok (f c) = groups_ok c" "c_priority (f c) = c_priority c" for c
    by (simp_all add: f_def groups_ok_def)
  have g [simp]: "a_channel_id (g a) = a_channel_id a" "ability_key (g a) = ability_key a" for a
    by (simp_all add: g_def ability_key_def)
  have "map g (abilities_of c) = abilities_of (f c)" for c
    by (simp add: abilities_of_def map_concat comp_def f_def g_def)
  then have img: "g ` set (abilities_of c) = set (abilities_of (f c))" for c
    by (metis list.set_map)
  let ?s = "s\<lparr>abilities := map g (abilities s), channels := map f (channels s)\<rparr>"
  have own: "own_abilities j ?s = g ` own_abilities j s" for j
    by (auto simp: own_abilities_def image_iff)
  have idset: "c_id ` f ` S = c_id ` S" for S by (simp add: image_image)
  have ab: "a_channel_id a \<notin> c_id ` set (channels s) \<Longrightarrow> a \<in> set (abilities s) \<Longrightarrow> \<not> a_enabled (g a)" for a
    using assms by (auto simp: in_step_def g_def)
  have "in_step {} ?s"
    using assms(1) ab img unfolding in_step_def own
    by (simp add: idset comp_def)
  then show ?thesis by (simp add: update_where_def f_def g_def)
qed

lemma consistent_Status:
  assumes "consistent s" and "i \<in> c_id ` set (channels s) \<or> st \<noteq> ChannelStatusEnabled"
  shows "consistent (UpdateChannelStatusById i st s)"
proof -
  have "in_step {} (s\<lparr>channels := update_where (\<lambda>c. c_id c = i) (\<lambda>c. c\<lparr>c_status := st\<rparr>) (channels s),
      abilities := update_where (\<lambda>a. a_channel_id a = i)
        (\<lambda>a. a\<lparr>a_enabled := (st = ChannelStatusEnabled)\<rparr>) (abilities s)\<rparr>)"
    using in_step_status [OF conjunct1 [OF assms(1)] assms(2)] by (cases s) simp
  moreover have "UpdateChannelStatusById i st s =
      s\<lparr>abilities := update_where (\<lambda>a. a_channel_id a = i) (\<lambda>a. a\<lparr>a_enabled := (st = ChannelStatusEnabled)\<rparr>) (abilities s),
        channels := update_where (\<lambda>c. c_id c = i) (\<lambda>c. c\<lparr>c_status := st\<rparr>) (channels s)\<rparr>"
    using assms(1) by (simp add: UpdateChannelStatusById_def UpdateAbilityStatus_def)
  ultimately show ?thesis
    using in_step_status [OF conjunct1 [OF assms(1)] assms(2)] assms(1) by simp
qed

lemma consistent_delete_disabled:
  assumes "consistent s" and "\<And>c. c \<in> set (channels s) \<Longrightarrow> P c \<Longrightarrow> c_status c \<noteq> ChannelStatusEnabled"
  shows "consistent (snd (delete_channels P s))"
proof -
  let ?s = "s\<lparr>channels := delete_where P (channels s)\<rparr>"
  have own: "own_abilities i ?s = own_abilities i s" for i by (simp add: own_abilities_def)
  have dis: "\<not> a_enabled a" if a: "a \<in> set (abilities s)"
    and gone: "a_channel_id a \<notin> c_id ` set (delete_where P (channels s))" for a
  proof (cases "a_channel_id a \<in> c_id ` set (channels s)")
    case True
    then obtain c where c: "c \<in> set (channels s)" "c_id c = a_channel_id a" by auto
    have "P c"
    proof (rule ccontr)
      assume "\<not> P c"
      then have "c \<in> set (delete_where P (channels s))" using c(1) by (simp add: delete_where_def)
      then show False using gone c(2) by (metis imageI)
    qed
    moreover have "a \<in> own_abilities (c_id c) s" using a c(2) by (simp add: own_abilities_def)
    then have "a \<in> set (abilities_of c)" using assms(1) c(1) by (simp add: in_step_def)
    ultimately show ?thesis using assms(2) [OF c(1)] by (simp add: abilities_of_iff)
  next
    case False
    with assms(1) a show ?thesis by (simp add: in_step_def)
  qed
  have sub: "set (delete_where P (channels s)) \<subseteq> set (channels s)" by (auto simp: delete_where_def)
  have "in_step {} ?s"
    using assms(1) dis sub unfolding in_step_def own
    by (auto simp: delete_where_def distinct_map_filter)
  then show ?thesis using assms(1) by (simp add: delete_channels_def)
qed

text \<open>The operations on channels, as the handlers and the monitor call them.\<close>

datatype channel_op =
    ChannelAdd int channel
  | ChannelUpdate channel
  | ChannelDelete string
  | ChannelStatus int int
  | ChannelDeleteDisabled

fun run_channel_op :: "channel_op \<Rightarrow> st \<Rightarrow> st" where
  "run_channel_op (ChannelAdd now c) s = snd (AddChannel now (Inr c) s)"
| "run_channel_op (ChannelUpdate c) s = snd (UpdateChannel (Inr c) s)"
| "run_channel_op (ChannelDelete param) s = snd (DeleteChannel param s)"
| "run_channel_op (ChannelStatus i st) s = UpdateChannelStatusById i st s"
| "run_channel_op ChannelDeleteDisabled s = snd (handle_DeleteDisabledChannel s)"

text \<open>New channels come without an identifier, no list of groups repeats a group, and what is updated
  or enabled exists.\<close>

fun channel_op_ok :: "channel_op \<Rightarrow> st \<Rightarrow> bool" where
  "channel_op_ok (ChannelAdd now c) s = (c_id c = 0 \<and> groups_ok (stored_channel 0 c))"
| "channel_op_ok (ChannelUpdate c) s =
     ((c_group c = '''' \<or> groups_ok c) \<and> list_ex (\<lambda>x. c_id x = c_id c) (channels s))"
| "channel_op_ok (ChannelStatus i st) s =
     (st = ChannelStatusEnabled \<longrightarrow> list_ex (\<lambda>x. c_id x = i) (channels s))"
| "channel_op_ok _ s = True"

fun channel_ops_ok :: "channel_op list \<Rightarrow> st \<Rightarrow> bool" where
  "channel_ops_ok [] s = True"
| "channel_ops_ok (op # ops) s = (channel_op_ok op s \<and> channel_ops_ok ops (run_channel_op op s))"

lemma snd_unit_reply [simp]: "snd (unit_reply r) = snd r"
  by (auto simp: unit_reply_def split: prod.split option.split)

lemma snd_answer [simp]: "snd (answer r) = snd r"
  by (auto simp: answer_def split: prod.split sum.split)

lemma consistent_op: "consistent s \<Longrightarrow> channel_op_ok op s \<Longrightarrow> consistent (run_channel_op op s)"
proof (cases op)
  case (ChannelAdd now c)
  have grp: "groups_ok (stored_channel 0 (c\<lparr>c_created_time := now, c_key := key\<rparr>)) = groups_ok (stored_channel 0 c)" for key
    by (simp add: groups_ok_def stored_channel_def cong: if_cong)
  assume "consistent s" and "channel_op_ok op s"
  then have "consistent (snd (BatchInsertChannels (map (\<lambda>key. c\<lparr>c_created_time := now, c_key := key\<rparr>)
      (filter (\<lambda>key. key \<noteq> '''') (Split (CHR 0x0A) (c_key c)))) s))"
    using consistent_BatchInsert [of s "map (\<lambda>key. c\<lparr>c_created_time := now, c_key := key\<rparr>)
      (filter (\<lambda>key. key \<noteq> '''') (Split (CHR 0x0A) (c_key c)))"]
    by (auto simp: ChannelAdd grp)
  then show ?thesis by (simp add: ChannelAdd AddChannel_def)
next
  case (ChannelUpdate c)
  assume "consistent s" and "channel_op_ok op s"
  then have "consistent (snd (Update_channel c s))"
    using consistent_Update [of s c] by (auto simp: ChannelUpdate list_ex_iff)
  moreover have "snd (UpdateChannel (Inr c) s) = snd (Update_channel c s)"
    by (auto simp: UpdateChannel_def split: prod.split option.split)
  ultimately show ?thesis by (simp add: ChannelUpdate)
next
  case (ChannelDelete param)
  assume "consistent s"
  then show ?thesis using consistent_Delete by (simp add: ChannelDelete DeleteChannel_def)
next
  case (ChannelStatus i st)
  assume "consistent s" and "channel_op_ok op s"
  then show ?thesis using consistent_Status [of s i st] by (auto simp: ChannelStatus list_ex_iff)
next
  case ChannelDeleteDisabled
  assume "consistent s"
  then have "consistent (snd (delete_channels (\<lambda>c. c_status c = 3 \<or> c_status c = 2) s))"
    by (rule consistent_delete_disabled) auto
  then show ?thesis
    by (simp add: ChannelDeleteDisabled handle_DeleteDisabledChannel_def DeleteDisabledChannel_def)
qed

lemma consistent_ops: "consistent s \<Longrightarrow> channel_ops_ok ops s \<Longrightarrow> consistent (fold run_channel_op ops s)"
proof (induction ops arbitrary: s)
  case (Cons op ops)
  then have "consistent (run_channel_op op s)" by (intro consistent_op) simp_all
  with Cons show ?case by simp
qed simp

lemma consistent_start: "consistent (empty_st\<lparr>users := us, tokens := ts\<rparr>)"
  by (simp add: in_step_def empty_st_def)


definition demo_channel :: channel where
  "demo_channel = zero_channel\<lparr>c_type := 1, c_key := ''k1'' @ [CHR 0x0A] @ ''k2'', c_name := ''up'',
     c_models := ''gpt-4,gpt-4'', c_group := ''default,vip''\<rparr>"

definition demo_channel_ops :: "channel_op list" where
  "demo_channel_ops = [ChannelAdd 5 demo_channel, ChannelStatus 1 3, ChannelDeleteDisabled]"


section \<open>Choosing from the database\<close>

definition serves :: "channel \<Rightarrow> string \<Rightarrow> string \<Rightarrow> bool" where
  "serves c grp mdl \<longleftrightarrow> c_status c = ChannelStatusEnabled \<and>
     grp \<in> set (Split (CHR '','') (c_group c)) \<and> mdl \<in> set (Split (CHR '','') (c_models c))"

definition servers :: "string \<Rightarrow> string \<Rightarrow> st \<Rightarrow> channel set" where
  "servers grp mdl s = {c \<in> set (channels s). serves c grp mdl}"

lemma serving_iff:
  assumes "in_step {} s"
  shows "a \<in> set (serving grp mdl s) \<longleftrightarrow>
    (\<exists>c \<in> servers grp mdl s. a = \<lparr>a_group = grp, a_model = mdl, a_channel_id = c_id c, a_enabled = True,
       a_priority = c_priority c\<rparr>)"
proof
  assume a: "a \<in> set (serving grp mdl s)"
  then have "a_channel_id a \<in> c_id ` set (channels s)" using assms by (auto simp: serving_def in_step_def)
  then obtain c where c: "c \<in> set (channels s)" "c_id c = a_channel_id a" by auto
  then have "a \<in> own_abilities (c_id c) s" using a by (simp add: own_abilities_def serving_def)
  then have "a \<in> set (abilities_of c)" using assms c(1) by (simp add: in_step_def)
  with a c show "\<exists>c \<in> servers grp mdl s. a = \<lparr>a_group = grp, a_model = mdl, a_channel_id = c_id c,
      a_enabled = True, a_priority = c_priority c\<rparr>"
    by (intro bexI [of _ c]) (auto simp: abilities_of_iff serving_def servers_def serves_def)
next
  assume "\<exists>c \<in> servers grp mdl s. a = \<lparr>a_group = grp, a_model = mdl, a_channel_id = c_id c, a_enabled = True,
      a_priority = c_priority c\<rparr>"
  then obtain c where c: "c \<in> set (channels s)" "serves c grp mdl" and
    a: "a = \<lparr>a_group = grp, a_model = mdl, a_channel_id = c_id c, a_enabled = True, a_priority = c_priority c\<rparr>"
    by (auto simp: servers_def)
  have "a \<in> set (abilities_of c)" using c by (simp add: a abilities_of_iff serves_def)
  then have "a \<in> own_abilities (c_id c) s" using assms c(1) by (simp add: in_step_def)
  then show "a \<in> set (serving grp mdl s)" by (simp add: serving_def own_abilities_def a)
qed

lemma max_priority_Some:
  assumes "as \<noteq> []" and "\<forall>a \<in> set as. a_priority a \<noteq> None"
  shows "\<exists>a \<in> set as. max_priority as = a_priority a \<and> (\<forall>b \<in> set as. the (a_priority b) \<le> the (a_priority a))"
proof -
  define ps where "ps = List.map_filter a_priority as"
  have set_ps: "set ps = (\<lambda>a. the (a_priority a)) ` set as"
    using assms(2) by (force simp: ps_def map_filter_def)
  then have "ps \<noteq> []" using assms(1) by auto
  then obtain p qs where ps: "ps = p # qs" by (cases ps) auto
  have m: "max_priority as = Some (Max (set ps))"
    by (simp add: max_priority_def ps_def [symmetric] ps del: list.set flip: Max.set_eq_fold)
  have "Max (set ps) \<in> set ps" by (rule Max_in) (simp_all add: ps)
  then obtain a where "a \<in> set as" "the (a_priority a) = Max (set ps)" using set_ps by auto
  moreover have "the (a_priority b) \<le> Max (set ps)" if "b \<in> set as" for b
    using that by (intro Max_ge) (simp_all add: set_ps)
  ultimately show ?thesis using m assms(2) by (intro bexI [of _ a]) auto
qed

lemma pick_Some: "pick r xs = Some x \<Longrightarrow> x \<in> set xs"
  by (auto simp: pick_def split: if_splits)

lemma pick_None [simp]: "pick r xs = None \<longleftrightarrow> xs = []"
  by (simp add: pick_def)

lemma find_distinct:
  "distinct (map key xs) \<Longrightarrow> x \<in> set xs \<Longrightarrow> find (\<lambda>y. key y = key x) xs = Some x"
  by (induction xs) (auto simp: image_iff)

lemma in_step_find: "in_step pending s \<Longrightarrow> c \<in> set (channels s) \<Longrightarrow>
    find (\<lambda>x. c_id x = c_id c) (channels s) = Some c"
  by (rule find_distinct) (simp_all add: in_step_def)

text \<open>C31: A channel chosen from the database serves the request. Whatever the random choice, it exists,
  is enabled, names the group and the model, and without retries no enabled channel that serves them
  has a higher priority; and there is a choice whenever some enabled channel serves them.\<close>

theorem db_choice_correct:
  assumes "consistent s"
  shows "case GetRandomSatisfiedChannel r grp mdl ignoreFirst s of
      (Inl e, _) \<Rightarrow> \<forall>c \<in> set (channels s). \<not> serves c grp mdl
    | (Inr c, _) \<Rightarrow> c \<in> set (channels s) \<and> serves c grp mdl \<and>
        (ignoreFirst \<or> (\<forall>d \<in> set (channels s). serves d grp mdl \<longrightarrow> GetPriority d \<le> GetPriority c))"
proof -
  have st: "in_step {} s" and nf: "db_faults s = []" using assms by simp_all
  note iff = serving_iff [OF st, of _ grp mdl]
  have prio: "c_priority c \<noteq> None" if "c \<in> servers grp mdl s" for c
    using st that by (auto simp: in_step_def servers_def)
  have some: "\<forall>a \<in> set (serving grp mdl s). a_priority a \<noteq> None" using iff prio by auto
  have empty: "candidates grp mdl ignoreFirst s = [] \<longleftrightarrow> servers grp mdl s = {}"
  proof -
    have "serving grp mdl s = [] \<longleftrightarrow> servers grp mdl s = {}" using iff by (metis empty_iff equals0I set_empty)
    moreover have "candidates grp mdl ignoreFirst s \<noteq> []" if ne: "serving grp mdl s \<noteq> []"
    proof -
      from max_priority_Some [OF ne some] obtain a where "a \<in> set (serving grp mdl s)"
        "max_priority (serving grp mdl s) = a_priority a" by blast
      then have "a \<in> set (candidates grp mdl ignoreFirst s)" using some by (simp add: candidates_def Let_def)
      then show ?thesis by auto
    qed
    moreover have "candidates grp mdl ignoreFirst s = []" if "serving grp mdl s = []"
      using that by (simp add: candidates_def Let_def)
    ultimately show ?thesis by blast
  qed
  have cand: "\<exists>c \<in> servers grp mdl s. a_channel_id a = c_id c \<and>
      (ignoreFirst \<or> (\<forall>d \<in> servers grp mdl s. GetPriority d \<le> GetPriority c))"
    if a: "a \<in> set (candidates grp mdl ignoreFirst s)" for a
  proof -
    have "a \<in> set (serving grp mdl s)" using a by (auto simp: candidates_def Let_def split: if_splits)
    then obtain c where c: "c \<in> servers grp mdl s" and ac: "a_channel_id a = c_id c" "a_priority a = c_priority c"
      unfolding iff by force
    have "GetPriority d \<le> GetPriority c" if "\<not> ignoreFirst" "d \<in> servers grp mdl s" for d
    proof -
      have "serving grp mdl s \<noteq> []" using \<open>a \<in> set (serving grp mdl s)\<close> by auto
      from max_priority_Some [OF this some] obtain m where "m \<in> set (serving grp mdl s)" and m: "max_priority (serving grp mdl s) = a_priority m"
        "\<forall>b \<in> set (serving grp mdl s). the (a_priority b) \<le> the (a_priority m)" by blast
      have "a_priority a = a_priority m" using a that(1) m(1) by (simp add: candidates_def Let_def)
      moreover have "\<lparr>a_group = grp, a_model = mdl, a_channel_id = c_id d, a_enabled = True, a_priority = c_priority d\<rparr>
          \<in> set (serving grp mdl s)" using iff that(2) by blast
      ultimately have "the (c_priority d) \<le> the (c_priority c)" using m(2) ac(2) by fastforce
      then show ?thesis using prio [OF c] prio [OF that(2)] by (auto simp: GetPriority_def)
    qed
    with c ac show ?thesis by blast
  qed
  show ?thesis
  proof (cases "pick r (candidates grp mdl ignoreFirst s)")
    case None
    then have "servers grp mdl s = {}" using empty by simp
    then show ?thesis using nf None by (auto simp: GetRandomSatisfiedChannel_def servers_def)
  next
    case (Some a)
    from cand [OF pick_Some [OF Some]] obtain c where c: "c \<in> servers grp mdl s" "a_channel_id a = c_id c"
      "ignoreFirst \<or> (\<forall>d \<in> servers grp mdl s. GetPriority d \<le> GetPriority c)" by blast
    then have "find (\<lambda>x. c_id x = a_channel_id a) (channels s) = Some c"
      using in_step_find [OF st, of c] by (simp add: servers_def)
    then show ?thesis using nf Some c by (auto simp: GetRandomSatisfiedChannel_def servers_def)
  qed
qed

definition two_tiers :: st where
  "two_tiers = fold run_channel_op
     [ChannelAdd 5 (zero_channel\<lparr>c_key := ''a'', c_models := ''m'', c_group := ''g''\<rparr>),
      ChannelAdd 6 (zero_channel\<lparr>c_key := ''b'', c_models := ''m'', c_group := ''g'', c_priority := Some (- 5)\<rparr>)] empty_st"

lemma two_tiers_consistent: "consistent two_tiers"
  unfolding two_tiers_def
  by (rule consistent_ops)
    (use consistent_start [of "[]" "[]"] in \<open>simp_all add: empty_st_def groups_ok_def stored_channel_def zero_channel_def\<close>)

theorem db_choice_correct_witness:
  "case GetRandomSatisfiedChannel 3 ''g'' ''m'' False two_tiers of
      (Inl e, _) \<Rightarrow> \<forall>c \<in> set (channels two_tiers). \<not> serves c ''g'' ''m''
    | (Inr c, _) \<Rightarrow> serves c ''g'' ''m''"
  using db_choice_correct [OF two_tiers_consistent, where r = 3 and grp = "''g''" and mdl = "''m''"
    and ignoreFirst = False]
  by (auto split: prod.splits sum.splits)


section \<open>Choosing from the cache\<close>

lemma fold_cache_add:
  assumes "\<forall>(g, m) \<in> set gms. cache g \<noteq> None"
  shows "fold (cache_add c) gms (Some cache) =
    Some (\<lambda>g. map_option (\<lambda>bm m. bm m @ replicate (count_list gms (g, m)) c) (cache g))"
  using assms
proof (induction gms arbitrary: cache)
  case Nil
  then show ?case by (auto simp: option.map_id fun_eq_iff option.map_ident)
next
  case (Cons gm gms)
  obtain g m where gm: "gm = (g, m)" by (cases gm)
  then obtain bm where bm: "cache g = Some bm" using Cons.prems by auto
  let ?cache = "cache(g \<mapsto> bm(m := bm m @ [c]))"
  have step: "cache_add c gm (Some cache) = Some ?cache" by (simp add: cache_add_def gm bm)
  have "\<forall>(g, m) \<in> set gms. ?cache g \<noteq> None" using Cons.prems by auto
  note IH = Cons.IH [OF this]
  have "fold (cache_add c) (gm # gms) (Some cache) = fold (cache_add c) gms (Some ?cache)" by (simp add: step)
  also note IH
  also have "Some (\<lambda>g. map_option (\<lambda>bm m. bm m @ replicate (count_list gms (g, m)) c) (?cache g)) =
      Some (\<lambda>g. map_option (\<lambda>bm m. bm m @ replicate (count_list (gm # gms) (g, m)) c) (cache g))"
    by (auto simp: gm bm fun_eq_iff)
  finally show ?case .
qed

lemma build_cache_eq:
  assumes "\<forall>c \<in> set cs. set (Split (CHR '','') (c_group c)) \<subseteq> set groups"
  shows "build_cache cs groups =
    Some (\<lambda>g. if g \<in> set groups
      then Some (\<lambda>m. concat (map (\<lambda>c. replicate (count_list (channel_slots c) (g, m)) c) cs)) else None)"
proof -
  have "fold (\<lambda>c. fold (cache_add c) (channel_slots c)) cs
      (Some (\<lambda>g. if g \<in> set groups then Some (bm0 g) else None)) =
    Some (\<lambda>g. if g \<in> set groups
      then Some (\<lambda>m. bm0 g m @ concat (map (\<lambda>c. replicate (count_list (channel_slots c) (g, m)) c) cs)) else None)"
    for bm0
    using assms
  proof (induction cs arbitrary: bm0)
    case Nil
    then show ?case by (simp cong: if_cong)
  next
    case (Cons c cs)
    have "\<forall>(g, m) \<in> set (channel_slots c). (if g \<in> set groups then Some (bm0 g) else None) \<noteq> None"
      using Cons.prems by (auto simp: channel_slots_def)
    from fold_cache_add [OF this, of c]
    have "fold (cache_add c) (channel_slots c) (Some (\<lambda>g. if g \<in> set groups then Some (bm0 g) else None)) =
        Some (\<lambda>g. if g \<in> set groups then Some (\<lambda>m. bm0 g m @ replicate (count_list (channel_slots c) (g, m)) c) else None)"
      by (simp add: fun_eq_iff)
    with Cons show ?case by (simp cong: if_cong)
  qed
  from this [of "\<lambda>_ _. []"] show ?thesis by (simp add: build_cache_def cong: if_cong)
qed

lemma set_concat_replicate:
  "c \<in> set (concat (map (\<lambda>c. replicate (count_list (f c) x) c) cs)) \<longleftrightarrow> c \<in> set cs \<and> x \<in> set (f c)"
  by (induction cs) (auto simp: count_list_0_iff)

definition sorts_by_priority :: "(channel list \<Rightarrow> channel list) \<Rightarrow> bool" where
  "sorts_by_priority srt \<longleftrightarrow>
     (\<forall>cs. mset (srt cs) = mset cs \<and> sorted_wrt (\<lambda>a b. GetPriority b \<le> GetPriority a) (srt cs))"

lemma sorts_set: "sorts_by_priority srt \<Longrightarrow> set (srt xs) = set xs"
  unfolding sorts_by_priority_def by (rule mset_eq_setD) blast

lemma InitChannelCache_eq:
  assumes "consistent s" and "sorts_by_priority srt"
  shows "\<exists>cache. InitChannelCache srt s = Some (cache, s) \<and>
    (\<forall>grp mdl. set (cached_channels cache grp mdl) = servers grp mdl s \<and>
       sorted_wrt (\<lambda>a b. GetPriority b \<le> GetPriority a) (cached_channels cache grp mdl))"
proof -
  have st: "in_step {} s" using assms(1) by simp
  define cs where "cs = filter (\<lambda>c. c_status c = ChannelStatusEnabled) (channels s)"
  define groups where "groups = map a_group (abilities s)"
  have grp: "g \<in> set groups" if "c \<in> set cs" "g \<in> set (Split (CHR '','') (c_group c))" for c g
  proof -
    obtain m where m: "m \<in> set (Split (CHR '','') (c_models c))"
      using Split_nonempty by (meson ex_in_conv set_empty)
    let ?a = "\<lparr>a_group = g, a_model = m, a_channel_id = c_id c,
        a_enabled = (c_status c = ChannelStatusEnabled), a_priority = c_priority c\<rparr>"
    have "?a \<in> set (abilities_of c)" using that(2) m by (simp add: abilities_of_iff)
    then have "?a \<in> own_abilities (c_id c) s" using st that(1) by (simp add: in_step_def cs_def)
    then show ?thesis by (force simp: own_abilities_def groups_def)
  qed
  let ?bm = "\<lambda>g m. concat (map (\<lambda>c. replicate (count_list (channel_slots c) (g, m)) c) cs)"
  let ?cache = "\<lambda>g. if g \<in> set groups then Some (\<lambda>m. srt (?bm g m)) else None"
  have "build_cache cs groups = Some (\<lambda>g. if g \<in> set groups then Some (?bm g) else None)"
    using grp by (intro build_cache_eq) auto
  then have init: "InitChannelCache srt s = Some (?cache, s)"
    using assms(1) by (simp add: InitChannelCache_def cs_def groups_def fun_eq_iff)
  have slot: "(g, m) \<in> set (channel_slots c) \<longleftrightarrow>
      g \<in> set (Split (CHR '','') (c_group c)) \<and> m \<in> set (Split (CHR '','') (c_models c))" for g m c
    by (auto simp: channel_slots_def)
  have "set (cached_channels ?cache g m) = servers g m s \<and>
      sorted_wrt (\<lambda>a b. GetPriority b \<le> GetPriority a) (cached_channels ?cache g m)" for g m
  proof (cases "g \<in> set groups")
    case True
    have "set (srt (?bm g m)) = set (?bm g m)" by (rule sorts_set [OF assms(2)])
    also have "\<dots> = {c \<in> set cs. (g, m) \<in> set (channel_slots c)}"
      by (rule set_eqI) (simp only: set_concat_replicate mem_Collect_eq)
    also have "\<dots> = servers g m s"
      unfolding slot by (auto simp: servers_def serves_def cs_def)
    finally show ?thesis using True assms(2) by (simp add: cached_channels_def sorts_by_priority_def)
  next
    case False
    with grp have "servers g m s = {}" by (auto simp: servers_def serves_def cs_def)
    with False show ?thesis by (simp add: cached_channels_def)
  qed
  with init show ?thesis by blast
qed

lemma first_tier_split:
  assumes "sorted_wrt (\<lambda>a b. GetPriority b \<le> GetPriority a) cs" and "cs \<noteq> []"
  shows "0 < first_tier cs" and "first_tier cs \<le> length cs"
    and "\<forall>d \<in> set cs. GetPriority d \<le> GetPriority (hd cs)"
    and "0 < GetPriority (hd cs) \<Longrightarrow> i < first_tier cs \<Longrightarrow> GetPriority (cs ! i) = GetPriority (hd cs)"
    and "0 < GetPriority (hd cs) \<Longrightarrow> first_tier cs \<le> i \<Longrightarrow> i < length cs \<Longrightarrow>
      GetPriority (cs ! i) < GetPriority (hd cs)"
    and "\<not> 0 < GetPriority (hd cs) \<Longrightarrow> first_tier cs = length cs"
proof -
  let ?P = "\<lambda>c. GetPriority c = GetPriority (hd cs)"
  obtain x xs where cs: "cs = x # xs" using assms(2) by (cases cs) auto
  show "0 < first_tier cs" by (simp add: first_tier_def cs)
  show len: "first_tier cs \<le> length cs" by (simp add: first_tier_def length_takeWhile_le)
  show top: "\<forall>d \<in> set cs. GetPriority d \<le> GetPriority (hd cs)" using assms(1) by (auto simp: cs)
  show "GetPriority (cs ! i) = GetPriority (hd cs)" if "0 < GetPriority (hd cs)" "i < first_tier cs"
  proof -
    have "i < length (takeWhile ?P cs)" using that by (simp add: first_tier_def)
    then have "takeWhile ?P cs ! i = cs ! i" "takeWhile ?P cs ! i \<in> set (takeWhile ?P cs)"
      by (rule takeWhile_nth, rule nth_mem)
    then show ?thesis by (metis (mono_tags, lifting) set_takeWhileD)
  qed
  show "GetPriority (cs ! i) < GetPriority (hd cs)"
    if pos: "0 < GetPriority (hd cs)" and i: "first_tier cs \<le> i" "i < length cs"
  proof -
    let ?k = "first_tier cs"
    have k: "?k = length (takeWhile ?P cs)" using pos by (simp add: first_tier_def)
    have "?k < length cs" using i by simp
    then have "\<not> ?P (cs ! ?k)" using nth_length_takeWhile [of ?P cs] k by simp
    moreover have "GetPriority (cs ! i) \<le> GetPriority (cs ! ?k)"
      using assms(1) i by (cases "i = ?k") (auto simp: sorted_wrt_iff_nth_less)
    moreover have "GetPriority (cs ! ?k) \<le> GetPriority (hd cs)" using top \<open>?k < length cs\<close> by simp
    ultimately show ?thesis by simp
  qed
  show "first_tier cs = length cs" if "\<not> 0 < GetPriority (hd cs)" using that by (simp add: first_tier_def)
qed

text \<open>C32: The cache built from channels and abilities in step never panics, and a channel chosen from
  it is enabled and serves the group and the model; an error means that no enabled channel does. When
  the highest priority is positive, the first attempt takes a channel of that priority, and a retry
  takes one of a lower priority if there is any.\<close>

theorem cache_choice_correct:
  assumes "consistent s" and "sorts_by_priority srt" and "MemoryCacheEnabled cfg"
  shows "\<exists>cache. InitChannelCache srt s = Some (cache, s) \<and>
    (\<forall>r grp mdl retry s1. case fst (CacheGetRandomSatisfiedChannel cfg r cache grp mdl retry s1) of
        Inl e \<Rightarrow> servers grp mdl s = {}
      | Inr c \<Rightarrow> c \<in> servers grp mdl s \<and>
          (\<forall>top \<in> servers grp mdl s. (\<forall>d \<in> servers grp mdl s. GetPriority d \<le> GetPriority top) \<longrightarrow>
             0 < GetPriority top \<longrightarrow>
             (if retry \<and> (\<exists>d \<in> servers grp mdl s. GetPriority d < GetPriority top)
              then GetPriority c < GetPriority top else GetPriority c = GetPriority top)))"
proof -
  from InitChannelCache_eq [OF assms(1,2)] obtain cache where init: "InitChannelCache srt s = Some (cache, s)"
    and sets: "\<And>grp mdl. set (cached_channels cache grp mdl) = servers grp mdl s"
    and srt: "\<And>grp mdl. sorted_wrt (\<lambda>a b. GetPriority b \<le> GetPriority a) (cached_channels cache grp mdl)"
    by blast
  have "case fst (CacheGetRandomSatisfiedChannel cfg r cache grp mdl retry s1) of
        Inl e \<Rightarrow> servers grp mdl s = {}
      | Inr c \<Rightarrow> c \<in> servers grp mdl s \<and>
          (\<forall>top \<in> servers grp mdl s. (\<forall>d \<in> servers grp mdl s. GetPriority d \<le> GetPriority top) \<longrightarrow>
             0 < GetPriority top \<longrightarrow>
             (if retry \<and> (\<exists>d \<in> servers grp mdl s. GetPriority d < GetPriority top)
              then GetPriority c < GetPriority top else GetPriority c = GetPriority top))"
    for r grp mdl retry s1
  proof (cases "cached_channels cache grp mdl = []")
    case True
    then show ?thesis using assms(3) sets [of grp mdl] by (simp add: CacheGetRandomSatisfiedChannel_def Let_def)
  next
    case False
    define cs where "cs = cached_channels cache grp mdl"
    define i where "i = (if retry \<and> first_tier cs < length cs
      then first_tier cs + r mod (length cs - first_tier cs) else r mod first_tier cs)"
    note tier = first_tier_split [OF srt [of grp mdl] False, folded cs_def]
    have choice: "fst (CacheGetRandomSatisfiedChannel cfg r cache grp mdl retry s1) = Inr (cs ! i)"
      using False assms(3) by (simp add: CacheGetRandomSatisfiedChannel_def Let_def cs_def i_def)
    have i: "i < length cs" "retry \<and> first_tier cs < length cs \<Longrightarrow> first_tier cs \<le> i"
      "\<not> (retry \<and> first_tier cs < length cs) \<Longrightarrow> i < first_tier cs"
      using tier(1,2) by (auto simp: i_def less_diff_conv2 intro: less_le_trans [OF mod_less_divisor])
        (metis add.commute less_diff_conv mod_less_divisor zero_less_diff)
    have srv: "servers grp mdl s = set cs" using sets by (simp add: cs_def)
    have "if retry \<and> (\<exists>d \<in> set cs. GetPriority d < GetPriority top)
        then GetPriority (cs ! i) < GetPriority top else GetPriority (cs ! i) = GetPriority top"
      if top: "top \<in> set cs" "\<forall>d \<in> set cs. GetPriority d \<le> GetPriority top" "0 < GetPriority top" for top
    proof -
      have "hd cs \<in> set cs" using False by (simp add: cs_def)
      then have hd: "GetPriority (hd cs) = GetPriority top" using top(1,2) tier(3) by (simp add: order_antisym)
      then have pos: "0 < GetPriority (hd cs)" using top(3) by simp
      have "(\<exists>d \<in> set cs. GetPriority d < GetPriority top) \<longleftrightarrow> first_tier cs < length cs"
      proof
        assume "\<exists>d \<in> set cs. GetPriority d < GetPriority top"
        then obtain j where "j < length cs" "GetPriority (cs ! j) < GetPriority top" by (metis in_set_conv_nth)
        then show "first_tier cs < length cs" using tier(4) [OF pos, of j] hd by (cases "j < first_tier cs") auto
      next
        assume "first_tier cs < length cs"
        then show "\<exists>d \<in> set cs. GetPriority d < GetPriority top"
          using tier(5) [OF pos, of "first_tier cs"] hd nth_mem by force
      qed
      then show ?thesis using i tier(4,5) [OF pos, of i] hd by auto
    qed
    then show ?thesis using i(1) by (simp add: choice srv)
  qed
  with init show ?thesis by blast
qed

definition tier_channel :: "int \<Rightarrow> string \<Rightarrow> int \<Rightarrow> int \<Rightarrow> channel" where
  "tier_channel i key now prio = zero_channel\<lparr>c_id := i, c_key := key, c_status := 1, c_weight := Some 0,
     c_created_time := now, c_base_url := Some '''', c_models := ''m'', c_group := ''g'',
     c_model_mapping := Some '''', c_priority := Some prio\<rparr>"

lemma two_tiers_rows:
  "channels two_tiers = [tier_channel 1 ''a'' 5 0, tier_channel 2 ''b'' 6 (- 5)]"
  "abilities two_tiers =
     [\<lparr>a_group = ''g'', a_model = ''m'', a_channel_id = 1, a_enabled = True, a_priority = Some 0\<rparr>,
      \<lparr>a_group = ''g'', a_model = ''m'', a_channel_id = 2, a_enabled = True, a_priority = Some (- 5)\<rparr>]"
  "db_faults two_tiers = []"
  by (simp_all add: two_tiers_def AddChannel_def BatchInsertChannels_def create_channels_def db_try_def
      insert_channel_def stored_channel_def zero_channel_def empty_st_def AddAbilities_def abilities_of_def
      DeDuplication_def ability_key_def tier_channel_def Let_def)

text \<open>The two ways of choosing differ when no priority is positive: with priorities 0 and -5 the
  database never yields the second channel, while the cache treats both alike.\<close>

theorem nonpositive_priorities_differ:
  "(\<exists>c. c_id c = 1 \<and> (\<forall>r. fst (GetRandomSatisfiedChannel r ''g'' ''m'' False two_tiers) = Inr c)) \<and>
   (\<exists>cache r c. InitChannelCache (sort_key (\<lambda>c. - GetPriority c)) two_tiers = Some (cache, two_tiers) \<and>
      fst (CacheGetRandomSatisfiedChannel ((init_config (\<lambda>_. []))\<lparr>MemoryCacheEnabled := True\<rparr>) r cache ''g'' ''m''
        False two_tiers) = Inr c \<and> c_id c = 2)"
proof
  have "fst (GetRandomSatisfiedChannel r ''g'' ''m'' False two_tiers) = Inr (tier_channel 1 ''a'' 5 0)" for r
    by (simp add: GetRandomSatisfiedChannel_def candidates_def serving_def two_tiers_rows pick_def
        max_priority_def map_filter_def tier_channel_def Let_def)
  then show "\<exists>c. c_id c = 1 \<and> (\<forall>r. fst (GetRandomSatisfiedChannel r ''g'' ''m'' False two_tiers) = Inr c)"
    by (intro exI [of _ "tier_channel 1 ''a'' 5 0"]) (simp add: tier_channel_def)
  have "\<exists>cache. InitChannelCache (sort_key (\<lambda>c. - GetPriority c)) two_tiers = Some (cache, two_tiers) \<and>
      cached_channels cache ''g'' ''m'' = [tier_channel 1 ''a'' 5 0, tier_channel 2 ''b'' 6 (- 5)]"
    by (simp add: InitChannelCache_def two_tiers_rows build_cache_def channel_slots_def cache_add_def
        cached_channels_def tier_channel_def GetPriority_def)
  then obtain cache where c: "InitChannelCache (sort_key (\<lambda>c. - GetPriority c)) two_tiers = Some (cache, two_tiers)"
    "cached_channels cache ''g'' ''m'' = [tier_channel 1 ''a'' 5 0, tier_channel 2 ''b'' 6 (- 5)]" by blast
  then show "\<exists>cache r c. InitChannelCache (sort_key (\<lambda>c. - GetPriority c)) two_tiers = Some (cache, two_tiers) \<and>
      fst (CacheGetRandomSatisfiedChannel ((init_config (\<lambda>_. []))\<lparr>MemoryCacheEnabled := True\<rparr>) r cache ''g'' ''m''
        False two_tiers) = Inr c \<and> c_id c = 2"
    by (intro exI [of _ cache] exI [of _ 1] exI [of _ "tier_channel 2 ''b'' 6 (- 5)"])
      (simp add: CacheGetRandomSatisfiedChannel_def first_tier_def tier_channel_def GetPriority_def)
qed

lemma sort_key_sorts: "sorts_by_priority (sort_key (\<lambda>c. - GetPriority c))"
  unfolding sorts_by_priority_def
proof (intro allI conjI)
  fix cs
  have "sorted (map (\<lambda>c. - GetPriority c) (sort_key (\<lambda>c. - GetPriority c) cs))" by simp
  then show "sorted_wrt (\<lambda>a b. GetPriority b \<le> GetPriority a) (sort_key (\<lambda>c. - GetPriority c) cs)"
    by (simp add: sorted_map)
qed simp

theorem cache_choice_correct_witness:
  "\<exists>cache. InitChannelCache (sort_key (\<lambda>c. - GetPriority c)) two_tiers = Some (cache, two_tiers)"
  using cache_choice_correct [OF two_tiers_consistent sort_key_sorts,
      of "(init_config (\<lambda>_. []))\<lparr>MemoryCacheEnabled := True\<rparr>"]
  by auto

end
