(* ===== verification/Network.thy ===== *)
theory Network
  imports Store
begin

text \<open>
  \<^verbatim>\<open>common/network/ip.go\<close>: lists of subnets in CIDR notation. IPv4 addresses and prefixes are parsed
  as \<open>net.ParseIP\<close> and \<open>net.ParseCIDR\<close> do (four decimal fields without leading zeros); the notation
  with colons is left to two parameters of the functions below: \<open>cidr6\<close> parses such a subnet into the
  set of addresses it contains, and \<open>ip6\<close> gives the IPv4 address that such an address maps.
\<close>

definition all_digits :: "string \<Rightarrow> bool" where
  "all_digits s \<longleftrightarrow> s \<noteq> [] \<and> list_all (\<lambda>c. digit_val c \<noteq> None) s"

definition octet :: "string \<Rightarrow> nat option" where
  "octet s =
     (if all_digits s \<and> (hd s = CHR ''0'' \<longrightarrow> length s = 1)
      then (case parse_digits 0 s of Some n \<Rightarrow> if n \<le> 255 then Some n else None | None \<Rightarrow> None)
      else None)"

definition ParseIPv4 :: "string \<Rightarrow> nat option" where
  "ParseIPv4 s =
     (case map octet (Split (CHR ''.'') s) of
        [Some a, Some b, Some c, Some d] \<Rightarrow> Some (((a * 256 + b) * 256 + c) * 256 + d)
      | _ \<Rightarrow> None)"

fun colon_first :: "string \<Rightarrow> bool" where
  "colon_first [] = False"
| "colon_first (c # cs) = (if c = CHR '':'' then True else if c = CHR ''.'' then False else colon_first cs)"

definition ParseIP :: "(string \<Rightarrow> nat option) \<Rightarrow> string \<Rightarrow> nat option" where
  "ParseIP ip6 s = (if colon_first s then ip6 s else ParseIPv4 s)"

text \<open>A subnet is the set of the address strings it contains; only whole prefixes of 32 bits at most parse.\<close>

definition ParseCIDR :: "(string \<Rightarrow> (string \<Rightarrow> bool) option) \<Rightarrow> (string \<Rightarrow> nat option) \<Rightarrow> string \<Rightarrow>
    (string \<Rightarrow> bool) option" where
  "ParseCIDR cidr6 ip6 s =
     (if CHR ''/'' \<notin> set s then None
      else if colon_first s then cidr6 s
      else (let addr = takeWhile (\<lambda>c. c \<noteq> CHR ''/'') s; mask = drop (length addr + 1) s
            in case (ParseIPv4 addr, if all_digits mask then parse_digits 0 mask else None) of
                 (Some a, Some n) \<Rightarrow>
                   (if n \<le> 32
                    then Some (\<lambda>ip. case ParseIP ip6 ip of None \<Rightarrow> False
                           | Some x \<Rightarrow> x div 2 ^ (32 - n) = a div 2 ^ (32 - n))
                    else None)
               | _ \<Rightarrow> None))"

definition splitSubnets :: "string \<Rightarrow> string list" where
  "splitSubnets subnets = map TrimSpace (Split (CHR '','') subnets)"

definition isValidSubnet where
  "isValidSubnet cidr6 ip6 subnet =
     (case ParseCIDR cidr6 ip6 subnet of
        None \<Rightarrow> Some (''failed to parse subnet: invalid CIDR address: '' @ subnet)
      | Some _ \<Rightarrow> None)"

definition isIpInSubnet where
  "isIpInSubnet cidr6 ip6 ip subnet =
     (case ParseCIDR cidr6 ip6 subnet of None \<Rightarrow> False | Some contains \<Rightarrow> contains ip)"

fun first_error :: "('a \<Rightarrow> string option) \<Rightarrow> 'a list \<Rightarrow> string option" where
  "first_error f [] = None"
| "first_error f (x # xs) = (case f x of Some e \<Rightarrow> Some e | None \<Rightarrow> first_error f xs)"

definition IsValidSubnets where
  "IsValidSubnets cidr6 ip6 subnets = first_error (isValidSubnet cidr6 ip6) (splitSubnets subnets)"

definition IsIpInSubnets where
  "IsIpInSubnets cidr6 ip6 ip subnets = list_ex (isIpInSubnet cidr6 ip6 ip) (splitSubnets subnets)"

lemma first_error_None: "first_error f xs = None \<longleftrightarrow> (\<forall>x \<in> set xs. f x = None)"
  by (induction xs) (auto split: option.splits)

text \<open>The repository's own test.\<close>

lemma test_isIpInSubnet:
  "isIpInSubnet c6 i6 ''192.168.0.5'' ''192.168.0.0/24''"
  "\<not> isIpInSubnet c6 i6 ''125.216.250.89'' ''192.168.0.0/24''"
  by (simp_all add: isIpInSubnet_def ParseCIDR_def ParseIP_def ParseIPv4_def octet_def all_digits_def
      digit_val_def Let_def)

end
