(* ===== verification/Tokens.thy ===== *)
theory Tokens
  imports Logs Quota Network
begin

text \<open>
  \<^verbatim>\<open>model/token.go\<close> (rows and validation), the token part of \<^verbatim>\<open>model/cache.go\<close>,
  \<^verbatim>\<open>controller/token.go\<close> and \<^verbatim>\<open>controller/billing.go\<close>. \<open>like\<close> is the database's \<open>LIKE\<close>, \<open>cidr6\<close> and
  \<open>ip6\<close> the parameters of theory \<open>Network\<close>; random keys are arguments.
\<close>

section \<open>The model's operations\<close>

text \<open>A stable sort, so that rows with equal keys stay in the order of their identifiers.\<close>

definition order_by :: "('r \<Rightarrow> int) \<Rightarrow> 'r list \<Rightarrow> 'r list" where
  "order_by key rows = sort_key key rows"

definition limit_offset :: "int \<Rightarrow> int \<Rightarrow> 'r list \<Rightarrow> 'r list" where
  "limit_offset start num rows = page start num (rev rows)"

definition GetAllUserTokens :: "int \<Rightarrow> int \<Rightarrow> int \<Rightarrow> string \<Rightarrow> st \<Rightarrow> (string + token list) \<times> st" where
  "GetAllUserTokens userId startIdx num order =
     db_find (\<lambda>s. let ts = filter (\<lambda>t. t_user_id t = userId) (tokens s)
       in if order = ''remain_quota'' then
            limit_offset startIdx num (order_by (\<lambda>t. if t_unlimited_quota t then 0 else 1)
              (order_by (\<lambda>t. - t_remain_quota t) ts))
          else if order = ''used_quota'' then
            limit_offset startIdx num (order_by (\<lambda>t. - t_used_quota t) ts)
          else page startIdx num ts)"

definition SearchUserTokens :: "(string \<Rightarrow> string \<Rightarrow> bool) \<Rightarrow> int \<Rightarrow> string \<Rightarrow> st \<Rightarrow> (string + token list) \<times> st" where
  "SearchUserTokens like userId keyword =
     db_find (\<lambda>s. filter (\<lambda>t. t_user_id t = userId \<and> like (t_name t) (keyword @ ''%'')) (tokens s))"

definition token_cache_key :: "string \<Rightarrow> string" where
  "token_cache_key key = ''token:'' @ key"

definition CacheGetTokenByKey :: "config \<Rightarrow> int \<Rightarrow> string \<Rightarrow> st \<Rightarrow> (string + token) \<times> st" where
  "CacheGetTokenByKey cfg now key s =
     (let by_key = db_first (\<lambda>s. find (\<lambda>t. t_key t = key) (tokens s))
      in if \<not> redis_enabled s then by_key s
         else case RedisGet now (token_cache_key key) s of
           (Inr (KToken t), s) \<Rightarrow> (Inr t, s)
         | (Inr (KStr v), s) \<Rightarrow> (Inl ''json: cannot unmarshal'', s)
         | (Inl e, s) \<Rightarrow>
             (case by_key s of
                (Inl e, s) \<Rightarrow> (Inl e, s)
              | (Inr t, s) \<Rightarrow>
                  (Inr t, snd (RedisSet now (token_cache_key key) (KToken t) (SyncFrequency cfg) s))))"

definition SelectUpdate_token :: "token \<Rightarrow> st \<Rightarrow> string option \<times> st" where
  "SelectUpdate_token tok =
     db_exec (\<lambda>s. s\<lparr>tokens := update_where (\<lambda>t. t_id t = t_id tok)
       (\<lambda>t. t\<lparr>t_accessed_time := t_accessed_time tok, t_status := t_status tok\<rparr>) (tokens s)\<rparr>)"

text \<open>Without Redis the row is known to be fresh, and a status found to be outdated is written back.\<close>

definition mark_status :: "token \<Rightarrow> int \<Rightarrow> st \<Rightarrow> st" where
  "mark_status tok status s =
     (if redis_enabled s then s else snd (SelectUpdate_token (tok\<lparr>t_status := status\<rparr>) s))"

definition ValidateUserToken :: "config \<Rightarrow> int \<Rightarrow> string \<Rightarrow> st \<Rightarrow> (string + token) \<times> st" where
  "ValidateUserToken cfg now key s =
     (if key = '''' then (Inl ''Token not provided'', s)
      else case CacheGetTokenByKey cfg now key s of
        (Inl e, s) \<Rightarrow>
          (Inl (if e = ErrRecordNotFound then ''Invalid token'' else ''Token validation failed''), s)
      | (Inr tok, s) \<Rightarrow>
          (if t_status tok = TokenStatusExhausted
           then (Inl (''Token '' @ t_name tok @ '' (#'' @ Itoa (t_id tok) @ '') quota exhausted''), s)
           else if t_status tok = TokenStatusExpired then (Inl ''Token has expired'', s)
           else if t_status tok \<noteq> TokenStatusEnabled then (Inl ''Token status unavailable'', s)
           else if t_expired_time tok \<noteq> -1 \<and> t_expired_time tok < now
                then (Inl ''Token has expired'', mark_status tok TokenStatusExpired s)
           else if \<not> t_unlimited_quota tok \<and> t_remain_quota tok \<le> 0
                then (Inl ''Token quota exhausted'', mark_status tok TokenStatusExhausted s)
           else (Inr tok, s)))"

definition GetTokenByIds :: "int \<Rightarrow> int \<Rightarrow> st \<Rightarrow> (string + token) \<times> st" where
  "GetTokenByIds tid userId s =
     (if tid = 0 \<or> userId = 0 then (Inl ''id or userId is empty!'', s)
      else db_first (\<lambda>s. find (\<lambda>t. t_id t = tid \<and> t_user_id t = userId) (tokens s)) s)"

text \<open>The schema's defaults replace a zero status, a zero expiration and a missing subnet.\<close>

definition stored_token :: "int \<Rightarrow> token \<Rightarrow> token" where
  "stored_token tid t =
     t\<lparr>t_id := tid, t_status := (if t_status t = 0 then 1 else t_status t),
       t_expired_time := (if t_expired_time t = 0 then -1 else t_expired_time t),
       t_subnet := (case t_subnet t of None \<Rightarrow> Some '''' | Some x \<Rightarrow> Some x)\<rparr>"

definition Insert_token :: "token \<Rightarrow> st \<Rightarrow> string option \<times> st" where
  "Insert_token tok =
     db_try (\<lambda>s.
       if t_key tok \<in> t_key ` set (tokens s) then Inl ErrDuplicatedKey
       else Inr (s\<lparr>tokens := tokens s @ [stored_token (next_id s) tok], next_id := next_id s + 1\<rparr>))"

definition Update_token :: "token \<Rightarrow> st \<Rightarrow> string option \<times> st" where
  "Update_token tok =
     db_exec (\<lambda>s. s\<lparr>tokens := update_where (\<lambda>t. t_id t = t_id tok)
       (\<lambda>t. t\<lparr>t_name := t_name tok, t_status := t_status tok, t_expired_time := t_expired_time tok,
          t_remain_quota := t_remain_quota tok, t_unlimited_quota := t_unlimited_quota tok,
          t_models := t_models tok, t_subnet := t_subnet tok\<rparr>) (tokens s)\<rparr>)"

definition Delete_token :: "token \<Rightarrow> st \<Rightarrow> string option \<times> st" where
  "Delete_token tok = db_exec (\<lambda>s. s\<lparr>tokens := delete_where (\<lambda>t. t_id t = t_id tok) (tokens s)\<rparr>)"

definition GetModels :: "token option \<Rightarrow> string" where
  "GetModels tok =
     (case tok of None \<Rightarrow> '''' | Some t \<Rightarrow> (case t_models t of None \<Rightarrow> '''' | Some m \<Rightarrow> m))"

definition DeleteTokenById :: "int \<Rightarrow> int \<Rightarrow> st \<Rightarrow> string option \<times> st" where
  "DeleteTokenById tid userId s =
     (if tid = 0 \<or> userId = 0 then (Some ''id or userId is empty!'', s)
      else case db_first (\<lambda>s. find (\<lambda>t. t_id t = tid \<and> t_user_id t = userId) (tokens s)) s of
        (Inl e, s) \<Rightarrow> (Some e, s)
      | (Inr tok, s) \<Rightarrow> Delete_token tok s)"


section \<open>Handlers\<close>

definition zero_token :: token where
  "zero_token = \<lparr>t_id = 0, t_user_id = 0, t_key = '''', t_status = 0, t_name = '''', t_created_time = 0,
     t_accessed_time = 0, t_expired_time = 0, t_remain_quota = 0, t_unlimited_quota = False,
     t_used_quota = 0, t_models = None, t_subnet = None\<rparr>"

definition GetAllTokens :: "config \<Rightarrow> int \<Rightarrow> string \<Rightarrow> string \<Rightarrow> st \<Rightarrow> token list reply \<times> st" where
  "GetAllTokens cfg userId p order s =
     answer (GetAllUserTokens userId (wrap64 (query_page p * ItemsPerPage cfg)) (ItemsPerPage cfg) order s)"

definition SearchTokens :: "(string \<Rightarrow> string \<Rightarrow> bool) \<Rightarrow> int \<Rightarrow> string \<Rightarrow> st \<Rightarrow> token list reply \<times> st" where
  "SearchTokens like userId keyword s = answer (SearchUserTokens like userId keyword s)"

definition GetToken :: "int \<Rightarrow> string \<Rightarrow> st \<Rightarrow> token reply \<times> st" where
  "GetToken userId param s =
     (case parse_ok (ParseInt param) of
        None \<Rightarrow> (Failure (''strconv.Atoi: parsing '' @ param), s)
      | Some tid \<Rightarrow> answer (GetTokenByIds tid userId s))"

record credit_summary =
  total_granted :: int
  total_used :: int
  total_available :: int
  expires_at :: int

definition GetTokenStatus :: "int \<Rightarrow> int \<Rightarrow> st \<Rightarrow> credit_summary reply \<times> st" where
  "GetTokenStatus tokenId userId s =
     (case GetTokenByIds tokenId userId s of
        (Inl e, s) \<Rightarrow> (Failure e, s)
      | (Inr t, s) \<Rightarrow>
          (let expiredAt = (if t_expired_time t = -1 then 0 else t_expired_time t)
           in (Success \<lparr>total_granted = t_remain_quota t, total_used = 0,
                 total_available = t_remain_quota t, expires_at = wrap64 (expiredAt * 1000)\<rparr>, s)))"

definition validateToken where
  "validateToken cidr6 ip6 t =
     (if 30 < length (t_name t) then Some ''Token name too long''
      else case t_subnet t of
        None \<Rightarrow> None
      | Some subnet \<Rightarrow>
          (if subnet = '''' then None
           else map_option (\<lambda>e. ''Invalid network segment: '' @ e) (IsValidSubnets cidr6 ip6 subnet)))"

definition clean_token :: "int \<Rightarrow> int \<Rightarrow> string \<Rightarrow> token \<Rightarrow> token" where
  "clean_token userId now key t =
     zero_token\<lparr>t_user_id := userId, t_name := t_name t, t_key := key, t_created_time := now,
       t_accessed_time := now, t_expired_time := t_expired_time t, t_remain_quota := t_remain_quota t,
       t_unlimited_quota := t_unlimited_quota t, t_models := t_models t, t_subnet := t_subnet t\<rparr>"

definition AddToken where
  "AddToken cidr6 ip6 userId now key (body :: string + token) (s :: st) =
     (case body of
        Inl e \<Rightarrow> (Failure e, s)
      | Inr t \<Rightarrow>
          (case validateToken cidr6 ip6 t of
             Some e \<Rightarrow> (Failure (''Parameter error: '' @ e), s)
           | None \<Rightarrow>
               (case Insert_token (clean_token userId now key t) s of
                  (Some e, s') \<Rightarrow> (Failure e, s')
                | (None, s') \<Rightarrow> (Success (stored_token (next_id s) (clean_token userId now key t)), s'))))"

definition DeleteToken :: "int \<Rightarrow> string \<Rightarrow> st \<Rightarrow> unit reply \<times> st" where
  "DeleteToken userId param s =
     (case DeleteTokenById (parse_value (ParseInt param)) userId s of
        (None, s) \<Rightarrow> (Success (), s)
      | (Some e, s) \<Rightarrow> (Failure e, s))"

definition UpdateToken where
  "UpdateToken cidr6 ip6 userId now statusOnly (body :: string + token) (s :: st) =
     (case body of
        Inl e \<Rightarrow> (Failure e, s)
      | Inr t \<Rightarrow>
          (case validateToken cidr6 ip6 t of
             Some e \<Rightarrow> (Failure (''Parameter error: '' @ e), s)
           | None \<Rightarrow>
               (case GetTokenByIds (t_id t) userId s of
                  (Inl e, s) \<Rightarrow> (Failure e, s)
                | (Inr clean, s) \<Rightarrow>
                    (if t_status t = TokenStatusEnabled \<and> t_status clean = TokenStatusExpired \<and>
                        t_expired_time clean \<le> now \<and> t_expired_time clean \<noteq> -1
                     then (Failure ''Token expired, cannot enable, please modify token expiration time first or set to never expire'', s)
                     else if t_status t = TokenStatusEnabled \<and> t_status clean = TokenStatusExhausted \<and>
                        t_remain_quota clean \<le> 0 \<and> \<not> t_unlimited_quota clean
                     then (Failure ''Token quota exhausted, cannot enable, please modify token remaining quota first or set to unlimited quota'', s)
                     else
                       (let clean = (if statusOnly \<noteq> '''' then clean\<lparr>t_status := t_status t\<rparr>
                              else clean\<lparr>t_name := t_name t, t_expired_time := t_expired_time t,
                                t_remain_quota := t_remain_quota t, t_unlimited_quota := t_unlimited_quota t,
                                t_models := t_models t, t_subnet := t_subnet t\<rparr>)
                        in case Update_token clean s of
                          (Some e, s) \<Rightarrow> (Failure e, s)
                        | (None, s) \<Rightarrow> (Success clean, s))))))"


section \<open>Billing in the format of the OpenAI dashboard\<close>

record subscription =
  SoftLimitUSD :: f64
  HardLimitUSD :: f64
  SystemHardLimitUSD :: f64
  AccessUntil :: int

definition in_currency :: "config \<Rightarrow> f64 \<Rightarrow> f64" where
  "in_currency cfg amount = (if DisplayInCurrencyEnabled cfg then amount / QuotaPerUnit cfg else amount)"

text \<open>For a user the used quota is read only when reading the remaining quota failed.\<close>

definition GetSubscription :: "config \<Rightarrow> int \<Rightarrow> int \<Rightarrow> st \<Rightarrow> subscription reply \<times> st" where
  "GetSubscription cfg tokenId userId s =
     (let (err, tok, remain, used, s) =
        (if DisplayTokenStatEnabled cfg then
           (case GetTokenById tokenId s of
              (Inl e, s) \<Rightarrow> (Some e, None, 0, 0, s)
            | (Inr t, s) \<Rightarrow> (None, Some t, t_remain_quota t, t_used_quota t, s))
         else
           (case GetUserQuota userId s of
              (Inr q, s) \<Rightarrow> (None, None, q, 0, s)
            | (Inl e, s) \<Rightarrow>
                (case GetUserUsedQuota userId s of
                   (Inl e, s) \<Rightarrow> (Some e, None, 0, 0, s)
                 | (Inr u, s) \<Rightarrow> (None, None, 0, u, s))))
      in case err of
           Some e \<Rightarrow> (Failure e, s)
         | None \<Rightarrow>
             (let expired = max 0 (case tok of None \<Rightarrow> 0 | Some t \<Rightarrow> t_expired_time t);
                  amount = (case tok of
                      Some t \<Rightarrow> if t_unlimited_quota t then f64_of_int 100000000
                        else in_currency cfg (f64_of_int (wrap64 (remain + used)))
                    | None \<Rightarrow> in_currency cfg (f64_of_int (wrap64 (remain + used))))
              in (Success \<lparr>SoftLimitUSD = amount, HardLimitUSD = amount, SystemHardLimitUSD = amount,
                    AccessUntil = expired\<rparr>, s)))"

text \<open>\<open>None\<close> is a panic: the identifier 0 gives no token, and its used quota is read before the error.\<close>

definition GetUsage :: "config \<Rightarrow> int \<Rightarrow> int \<Rightarrow> st \<Rightarrow> (f64 reply \<times> st) option" where
  "GetUsage cfg tokenId userId s =
     (let finish = (\<lambda>r. case r of
            (Inl e, s) \<Rightarrow> (Failure e, s)
          | (Inr q, s) \<Rightarrow> (Success (in_currency cfg (f64_of_int q) * f64_of_int 100), s))
      in if DisplayTokenStatEnabled cfg then
           (if tokenId = 0 then None
            else case GetTokenById tokenId s of
              (Inl e, s) \<Rightarrow> Some (Failure e, s)
            | (Inr t, s) \<Rightarrow> Some (finish (Inr (t_used_quota t), s)))
         else Some (finish (GetUserUsedQuota userId s)))"

section \<open>Properties\<close>

lemma RedisGet_tables:
  "RedisGet now key s = (r, s') \<Longrightarrow> tokens s' = tokens s \<and> users s' = users s \<and>
   redis_enabled s' = redis_enabled s \<and> kv s' = kv s"
  by (auto simp: RedisGet_def kv_tick_def split: list.splits prod.splits option.splits)

lemma RedisSet_tables:
  "tokens (snd (RedisSet now key v ttl s)) = tokens s"
  "users (snd (RedisSet now key v ttl s)) = users s"
  "redis_enabled (snd (RedisSet now key v ttl s)) = redis_enabled s"
  by (auto simp: RedisSet_def kv_tick_def split: list.splits option.splits)

lemma RedisGet_Inr: "RedisGet now key s = (Inr v, s') \<Longrightarrow> \<exists>d. kv_live now key s = Some (v, d)"
  by (auto simp: RedisGet_def kv_tick_def kv_live_def split: list.splits prod.splits option.splits)

definition cached_token :: "int \<Rightarrow> string \<Rightarrow> token \<Rightarrow> st \<Rightarrow> bool" where
  "cached_token now key tok s \<longleftrightarrow> redis_enabled s \<and> (\<exists>d. kv_live now (token_cache_key key) s = Some (KToken tok, d))"

lemma CacheGetTokenByKey_Inr:
  assumes "CacheGetTokenByKey cfg now key s = (Inr tok, s')"
  shows "find (\<lambda>t. t_key t = key) (tokens s) = Some tok \<or> cached_token now key tok s"
    and "tokens s' = tokens s" and "redis_enabled s' = redis_enabled s"
proof -
  have "(find (\<lambda>t. t_key t = key) (tokens s) = Some tok \<or> cached_token now key tok s) \<and>
      tokens s' = tokens s \<and> redis_enabled s' = redis_enabled s"
  proof (cases "redis_enabled s")
    case False
    with assms show ?thesis by (auto simp: CacheGetTokenByKey_def Let_def dest!: db_first_Inr)
  next
    case True
    obtain r s1 where get: "RedisGet now (token_cache_key key) s = (r, s1)" by fastforce
    note same = RedisGet_tables [OF get]
    show ?thesis
    proof (cases r)
      case (Inr v)
      with assms True same RedisGet_Inr [of now "token_cache_key key" s v s1] get show ?thesis
        by (cases v) (auto simp: CacheGetTokenByKey_def Let_def cached_token_def)
    next
      case (Inl e)
      with assms True same show ?thesis
        by (auto simp: CacheGetTokenByKey_def Let_def get RedisSet_tables
            split: prod.splits sum.splits dest!: db_first_Inr)
    qed
  qed
  then show "find (\<lambda>t. t_key t = key) (tokens s) = Some tok \<or> cached_token now key tok s"
    and "tokens s' = tokens s" and "redis_enabled s' = redis_enabled s" by simp_all
qed

text \<open>C33: A key is only accepted for a token that is stored under it (or, with Redis, cached under it
  and not yet expired from the cache), that is enabled, has not passed its expiration time, and is
  unlimited or has quota left. Accepting it changes no row.\<close>

theorem validate_sound:
  assumes "ValidateUserToken cfg now key s = (Inr tok, s')"
  shows "(find (\<lambda>t. t_key t = key) (tokens s) = Some tok \<or> cached_token now key tok s) \<and>
    t_status tok = TokenStatusEnabled \<and> (t_expired_time tok = -1 \<or> now \<le> t_expired_time tok) \<and>
    (t_unlimited_quota tok \<or> 0 < t_remain_quota tok) \<and> tokens s' = tokens s"
  using assms CacheGetTokenByKey_Inr [of cfg now key s tok s']
  by (auto simp: ValidateUserToken_def split: if_splits prod.splits sum.splits)

definition shop :: st where
  "shop = empty_st\<lparr>tokens := [zero_token\<lparr>t_id := 7, t_user_id := 1, t_key := ''k'', t_status := 1,
     t_expired_time := 100, t_remain_quota := 60\<rparr>]\<rparr>"

theorem validate_sound_witness:
  "\<exists>tok s'. ValidateUserToken (init_config (\<lambda>_. [])) 50 ''k'' shop = (Inr tok, s') \<and> 50 \<le> t_expired_time tok"
proof -
  have v: "ValidateUserToken (init_config (\<lambda>_. [])) 50 ''k'' shop = (Inr (hd (tokens shop)), shop)"
    by (simp add: ValidateUserToken_def CacheGetTokenByKey_def shop_def empty_st_def zero_token_def Let_def)
  have "t_expired_time (hd (tokens shop)) = 100" by (simp add: shop_def)
  with validate_sound [OF v] v show ?thesis by auto
qed

text \<open>The rows of other users.\<close>

definition others :: "int \<Rightarrow> st \<Rightarrow> token list" where
  "others uid s = filter (\<lambda>t. t_user_id t \<noteq> uid) (tokens s)"

lemma others_update:
  assumes "distinct (map t_id ts)" and "tok \<in> set ts" and "t_user_id tok = uid" and "\<And>t. t_user_id (f t) = t_user_id t"
  shows "filter (\<lambda>t. t_user_id t \<noteq> uid) (update_where (\<lambda>t. t_id t = t_id tok) f ts) =
    filter (\<lambda>t. t_user_id t \<noteq> uid) ts"
proof -
  have own: "\<And>t. t \<in> set ts \<Longrightarrow> t_id t = t_id tok \<Longrightarrow> t_user_id t = uid"
    using assms(1,2,3) by (metis distinct_map inj_onD)
  then show ?thesis using assms(4) by (induction ts) auto
qed

lemma others_delete:
  assumes "distinct (map t_id ts)" and "tok \<in> set ts" and "t_user_id tok = uid"
  shows "filter (\<lambda>t. t_user_id t \<noteq> uid) (delete_where (\<lambda>t. t_id t = t_id tok) ts) =
    filter (\<lambda>t. t_user_id t \<noteq> uid) ts"
proof -
  have own: "\<And>t. t \<in> set ts \<Longrightarrow> t_id t = t_id tok \<Longrightarrow> t_user_id t = uid"
    using assms by (metis distinct_map inj_onD)
  then show ?thesis by (induction ts) auto
qed

lemma GetTokenByIds_any:
  "GetTokenByIds tid uid s = (r, s') \<Longrightarrow> tokens s' = tokens s \<and>
   (\<forall>t. r = Inr t \<longrightarrow> t \<in> set (tokens s) \<and> t_id t = tid \<and> t_user_id t = uid)"
  by (cases r)
    (auto simp: GetTokenByIds_def split: if_splits dest!: db_first_Inl db_first_Inr find_SomeD)

lemma db_exec_tokens:
  assumes "db_exec (\<lambda>s. s\<lparr>tokens := f (tokens s)\<rparr>) s = (r, s')"
  shows "tokens s' = f (tokens s) \<or> tokens s' = tokens s"
  using db_exec_cases [OF assms] by auto

lemma others_UpdateToken:
  assumes "distinct (map t_id (tokens s))" and "UpdateToken c6 i6 uid now so body s = (r, s')"
  shows "others uid s' = others uid s"
proof -
  have upd: "others uid (snd (Update_token (clean\<lparr>t_status := x\<rparr>) s1)) = others uid s \<and>
      others uid (snd (Update_token (clean\<lparr>t_name := n, t_expired_time := e, t_remain_quota := q,
        t_unlimited_quota := ul, t_models := m, t_subnet := sn\<rparr>) s1)) = others uid s"
    if "tokens s1 = tokens s" "clean \<in> set (tokens s)" "t_user_id clean = uid" for clean s1 x n e q ul m sn
  proof -
    have "others uid (snd (Update_token c s1)) = others uid s" if "t_id c = t_id clean" for c
      using db_exec_tokens [of "update_where (\<lambda>t. t_id t = t_id c)
          (\<lambda>t. t\<lparr>t_name := t_name c, t_status := t_status c, t_expired_time := t_expired_time c,
            t_remain_quota := t_remain_quota c, t_unlimited_quota := t_unlimited_quota c,
            t_models := t_models c, t_subnet := t_subnet c\<rparr>)" s1]
        others_update [OF assms(1) \<open>clean \<in> _\<close> \<open>t_user_id clean = uid\<close>] that \<open>tokens s1 = tokens s\<close>
      by (cases "Update_token c s1") (fastforce simp: others_def Update_token_def)
    then show ?thesis by simp
  qed
  show ?thesis
  proof (cases body)
    case (Inr t)
    obtain r1 s1 where g: "GetTokenByIds (t_id t) uid s = (r1, s1)" by fastforce
    note any = GetTokenByIds_any [OF g]
    have s1: "others uid s1 = others uid s" using any by (simp add: others_def)
    show ?thesis
    proof (cases r1)
      case (Inr clean)
      then have clean: "clean \<in> set (tokens s)" "t_user_id clean = uid" using any by simp_all
      show ?thesis
        using assms(2) upd [OF conjunct1 [OF any] clean] s1
        by (auto simp: UpdateToken_def \<open>body = Inr t\<close> g Inr Let_def
            split: option.splits if_splits prod.splits) (metis snd_conv)+
    qed (use assms(2) s1 in \<open>auto simp: UpdateToken_def \<open>body = Inr t\<close> g split: option.splits\<close>)
  qed (use assms(2) in \<open>simp add: UpdateToken_def\<close>)
qed

lemma others_DeleteToken:
  assumes "distinct (map t_id (tokens s))" and "DeleteToken uid param s = (r, s')"
  shows "others uid s' = others uid s"
proof -
  obtain r1 s1 where g: "GetTokenByIds (parse_value (ParseInt param)) uid s = (r1, s1)" by fastforce
  note any = GetTokenByIds_any [OF g]
  have del: "others uid (snd (Delete_token tok s1)) = others uid s" if "r1 = Inr tok" for tok
    using any that db_exec_tokens [of "delete_where (\<lambda>t. t_id t = t_id tok)" s1]
      others_delete [OF assms(1), of tok uid]
    by (cases "Delete_token tok s1") (fastforce simp: others_def Delete_token_def)
  have split: "DeleteTokenById (parse_value (ParseInt param)) uid s =
      (case r1 of Inl e \<Rightarrow> (Some e, s1) | Inr tok \<Rightarrow> Delete_token tok s1)"
    using g by (auto simp: DeleteTokenById_def GetTokenByIds_def split: if_splits sum.splits)
  show ?thesis
    using assms(2) del any
    by (cases r1; cases "Delete_token (projr r1) s1")
      (auto simp: DeleteToken_def split others_def split: option.splits)
qed

lemma others_AddToken:
  assumes "AddToken c6 i6 uid now key body s = (r, s')"
  shows "others uid s' = others uid s"
  using assms
  by (auto simp: AddToken_def Insert_token_def db_try_def others_def stored_token_def clean_token_def
      split: sum.splits option.splits prod.splits if_splits dest!: db_find_Inr db_find_Inl)

text \<open>C34: Users only ever touch their own tokens: whatever a user sends to add, change or delete a
  token, and whichever statement fails, the tokens of all other users stay as they are.\<close>

theorem token_handlers_isolated:
  assumes "distinct (map t_id (tokens s))"
    and "s' = snd (AddToken c6 i6 uid now key body s) \<or> s' = snd (UpdateToken c6 i6 uid now so body s) \<or>
      s' = snd (DeleteToken uid param s)"
  shows "filter (\<lambda>t. t_user_id t \<noteq> uid) (tokens s') = filter (\<lambda>t. t_user_id t \<noteq> uid) (tokens s)"
proof -
  have "others uid s' = others uid s"
    using assms(2) others_UpdateToken [OF assms(1)] others_DeleteToken [OF assms(1)] others_AddToken
    by (metis prod.collapse)
  then show ?thesis by (simp add: others_def)
qed

theorem token_handlers_isolated_witness:
  "filter (\<lambda>t. t_user_id t \<noteq> 2) (tokens (snd (DeleteToken 2 ''7'' shop))) = tokens shop"
proof -
  have d: "distinct (map t_id (tokens shop))" and e: "filter (\<lambda>t. t_user_id t \<noteq> 2) (tokens shop) = tokens shop"
    by (simp_all add: shop_def)
  show ?thesis
    using token_handlers_isolated [OF d disjI2 [OF disjI2 [OF refl]], of 2 "''7''"] by (simp only: e)
qed

text \<open>An expiry that is noticed sticks. Without Redis and without failures, validating a key whose
  token has passed its expiration time refuses it and records the status; from then on the key is
  refused at any time, and the owner cannot simply switch the token on again.\<close>

theorem expiry_sticks:
  assumes "\<not> redis_enabled s" and "db_faults s = []" and "distinct (map t_id (tokens s))"
    and "find (\<lambda>t. t_key t = key) (tokens s) = Some tok" and "key \<noteq> ''''" and "t_id tok \<noteq> 0"
    and "t_status tok = TokenStatusEnabled" and "t_expired_time tok \<noteq> -1" and "t_expired_time tok < now"
    and "now \<le> later" and "uid \<noteq> 0" and "t_id t = t_id tok" and "t_status t = TokenStatusEnabled"
  shows "let s1 = snd (ValidateUserToken cfg now key s) in
    fst (ValidateUserToken cfg now key s) = Inl ''Token has expired'' \<and>
    fst (ValidateUserToken cfg anytime key s1) = Inl ''Token has expired'' \<and>
    (\<exists>e. fst (UpdateToken c6 i6 uid later ''true'' (Inr t) s1) = Failure e)"
proof -
  define s1 where "s1 = snd (ValidateUserToken cfg now key s)"
  define f where "f = (\<lambda>t::token. t\<lparr>t_accessed_time := t_accessed_time tok, t_status := TokenStatusExpired\<rparr>)"
  have val: "ValidateUserToken cfg now key s = (Inl ''Token has expired'', s1)"
    and s1: "s1 = s\<lparr>tokens := update_where (\<lambda>t. t_id t = t_id tok) f (tokens s)\<rparr>"
    using assms(1,2,4,5,7,8,9)
    by (simp_all add: s1_def ValidateUserToken_def CacheGetTokenByKey_def Let_def mark_status_def
        SelectUpdate_token_def f_def)
  have tok: "tok \<in> set (tokens s)" "t_key tok = key" using find_SomeD [OF assms(4)] by simp_all
  have only: "\<And>t. t \<in> set (tokens s) \<Longrightarrow> t_id t = t_id tok \<Longrightarrow> t = tok"
    using assms(3) tok(1) by (metis distinct_map inj_onD)
  have "find (\<lambda>t. t_key t = key) (update_where (\<lambda>t. t_id t = t_id tok) f ts) =
      map_option f (find (\<lambda>t. t_key t = key) ts)" if "set ts \<subseteq> set (tokens s)" "find (\<lambda>t. t_key t = key) ts = Some tok" for ts
    using that only tok(2) by (induction ts) (auto simp: f_def split: if_splits)
  then have key1: "find (\<lambda>t. t_key t = key) (tokens s1) = Some (f tok)" using assms(4) by (simp add: s1)
  have again: "fst (ValidateUserToken cfg anytime key s1) = Inl ''Token has expired''"
    using key1 assms(1,2,5) by (simp add: ValidateUserToken_def CacheGetTokenByKey_def Let_def s1 f_def)
  have row: "r = f tok" if "find (\<lambda>x. t_id x = t_id tok \<and> t_user_id x = uid) (tokens s1) = Some r" for r
    using find_SomeD [OF that] only by (auto simp: s1 set_update_where)
  have "\<exists>e. fst (UpdateToken c6 i6 uid later ''true'' (Inr t) s1) = Failure e"
  proof (cases "find (\<lambda>x. t_id x = t_id tok \<and> t_user_id x = uid) (tokens s1)")
    case None
    then show ?thesis
      using assms(2,6,11,12) by (auto simp: UpdateToken_def GetTokenByIds_def s1 split: option.splits)
  next
    case (Some r)
    with row assms(8,9,10) have "t_status r = TokenStatusExpired" "t_expired_time r \<le> later" "t_expired_time r \<noteq> -1"
      by (auto simp: f_def)
    with Some assms(2,6,11,12,13) show ?thesis
      by (auto simp: UpdateToken_def GetTokenByIds_def s1 split: option.splits)
  qed
  moreover have "fst (ValidateUserToken cfg now key s) = Inl ''Token has expired''" by (simp add: val)
  ultimately show ?thesis using again unfolding s1_def Let_def by blast
qed

theorem expiry_sticks_witness:
  "fst (ValidateUserToken (init_config (\<lambda>_. [])) 0 ''k''
     (snd (ValidateUserToken (init_config (\<lambda>_. [])) 101 ''k'' shop))) = Inl ''Token has expired''"
proof -
  have "\<not> redis_enabled shop" "db_faults shop = []" "distinct (map t_id (tokens shop))"
    and "find (\<lambda>t. t_key t = ''k'') (tokens shop) = Some (hd (tokens shop))"
    and "t_id (hd (tokens shop)) = 7" "t_status (hd (tokens shop)) = 1" "t_expired_time (hd (tokens shop)) = 100"
    by (simp_all add: shop_def empty_st_def)
  then show ?thesis
    using expiry_sticks [of shop "''k''" "hd (tokens shop)" 101 101 1 "zero_token\<lparr>t_id := 7, t_status := 1\<rparr>"
        "init_config (\<lambda>_. [])" 0]
    by (simp add: Let_def zero_token_def)
qed

end
