(* ===== verification/Users.thy ===== *)
theory Users
  imports Tokens
begin

text \<open>
  Accounts: the rest of \<^verbatim>\<open>model/user.go\<close>, the user part of \<^verbatim>\<open>model/cache.go\<close> and
  \<^verbatim>\<open>common/verification.go\<close>. Password hashing, the validation of a request's fields and the
  translation of messages are done by other packages: they are functions of the record \<open>ext\<close>, together
  with the time, the request's identifier and the random strings an operation draws.
\<close>

section \<open>What an operation receives from outside\<close>

record ext =
  x_now :: int
  x_request_id :: string
  x_uuid :: string
  x_aff_code :: string
  x_key :: string
  x_hash :: "string \<Rightarrow> string + string"
  x_check :: "string \<Rightarrow> string \<Rightarrow> bool"
  x_invalid :: "user \<Rightarrow> string option"
  x_tr :: "string \<Rightarrow> string"


section \<open>Queries\<close>

definition zero_user :: user where
  "zero_user = \<lparr>u_id = 0, u_username = '''', u_password = '''', u_display_name = '''', u_role = 0,
     u_status = 0, u_email = '''', u_github_id = '''', u_lark_id = '''', u_oidc_id = '''',
     u_access_token = '''', u_quota = 0, u_used_quota = 0, u_request_count = 0, u_group = '''',
     u_aff_code = '''', u_inviter_id = 0\<rparr>"

definition GetMaxUserId :: "st \<Rightarrow> int \<times> st" where
  "GetMaxUserId s =
     (case db_first (\<lambda>s. if users s = [] then None else Some (last (users s))) s of
        (Inl e, s) \<Rightarrow> (0, s)
      | (Inr u, s) \<Rightarrow> (u_id u, s))"

text \<open>\<open>Omit("password")\<close>: the column is not selected and stays empty.\<close>

definition omit_password :: "user \<Rightarrow> user" where
  "omit_password u = u\<lparr>u_password := ''''\<rparr>"

definition GetAllUsers :: "int \<Rightarrow> int \<Rightarrow> string \<Rightarrow> st \<Rightarrow> (string + user list) \<times> st" where
  "GetAllUsers startIdx num order =
     db_find (\<lambda>s. let us = filter (\<lambda>u. u_status u \<noteq> UserStatusDeleted) (users s)
       in map omit_password
         (if order = ''quota'' then limit_offset startIdx num (order_by (\<lambda>u. - u_quota u) us)
          else if order = ''used_quota'' then limit_offset startIdx num (order_by (\<lambda>u. - u_used_quota u) us)
          else if order = ''request_count'' then limit_offset startIdx num (order_by (\<lambda>u. - u_request_count u) us)
          else page startIdx num us))"

definition SearchUsers :: "(string \<Rightarrow> string \<Rightarrow> bool) \<Rightarrow> (int \<Rightarrow> string \<Rightarrow> bool) \<Rightarrow> bool \<Rightarrow> string \<Rightarrow> st \<Rightarrow>
    (string + user list) \<times> st" where
  "SearchUsers like num_eq postgres keyword =
     db_find (\<lambda>s. map omit_password (filter (\<lambda>u.
       (\<not> postgres \<and> num_eq (u_id u) keyword) \<or> like (u_username u) (keyword @ ''%'') \<or>
       like (u_email u) (keyword @ ''%'') \<or> like (u_display_name u) (keyword @ ''%'')) (users s)))"

text \<open>The caller gets the struct even with an error: with just the identifier it asked for.\<close>

definition GetUserById :: "int \<Rightarrow> bool \<Rightarrow> st \<Rightarrow> (string + user) \<times> st" where
  "GetUserById uid selectAll s =
     (if uid = 0 then (Inl ''id is empty!'', s)
      else db_first (\<lambda>s. map_option (\<lambda>u. if selectAll then u else u\<lparr>u_password := '''', u_access_token := ''''\<rparr>)
        (find (\<lambda>u. u_id u = uid) (users s))) s)"

definition GetUserIdByAffCode :: "string \<Rightarrow> st \<Rightarrow> (string + int) \<times> st" where
  "GetUserIdByAffCode affCode s =
     (if affCode = '''' then (Inl ''affCode is empty!'', s)
      else db_first (\<lambda>s. map_option u_id (find (\<lambda>u. u_aff_code u = affCode) (users s))) s)"


section \<open>Changes\<close>

text \<open>The unique indexes of the table.\<close>

definition unique_users :: "user list \<Rightarrow> bool" where
  "unique_users us \<longleftrightarrow> distinct (map u_username us) \<and> distinct (map u_access_token us) \<and>
     distinct (map u_aff_code us)"

definition stored_user :: "int \<Rightarrow> user \<Rightarrow> user" where
  "stored_user uid u =
     u\<lparr>u_id := uid, u_role := (if u_role u = 0 then 1 else u_role u),
       u_status := (if u_status u = 0 then 1 else u_status u),
       u_group := (if u_group u = '''' then ''default'' else u_group u)\<rparr>"

definition create_user :: "user \<Rightarrow> st \<Rightarrow> string option \<times> st" where
  "create_user u =
     db_try (\<lambda>s. let us = users s @ [stored_user (next_id s) u]
       in if unique_users us then Inr (s\<lparr>users := us, next_id := next_id s + 1\<rparr>) else Inl ErrDuplicatedKey)"

text \<open>The bonuses of a registration; errors of the accounts' updates are dropped.\<close>

definition bonus :: "config \<Rightarrow> ext \<Rightarrow> int \<Rightarrow> int \<Rightarrow> string \<Rightarrow> st \<Rightarrow> st" where
  "bonus cfg x uid quota label s =
     (if 0 < quota
      then RecordLog cfg (x_request_id x) (x_now x) uid LogTypeSystem (label @ LogQuota cfg quota)
             (snd (IncreaseUserQuota cfg uid quota s))
      else s)"

definition default_token :: "ext \<Rightarrow> int \<Rightarrow> token" where
  "default_token x uid =
     zero_token\<lparr>t_user_id := uid, t_name := ''default'', t_key := x_key x, t_created_time := x_now x,
       t_accessed_time := x_now x, t_expired_time := -1, t_remain_quota := -1, t_unlimited_quota := True\<rparr>"

definition insert_hash :: "ext \<Rightarrow> user \<Rightarrow> string + string" where
  "insert_hash x u = (if u_password u = '''' then Inr '''' else x_hash x (u_password u))"

definition new_row :: "config \<Rightarrow> ext \<Rightarrow> string \<Rightarrow> user \<Rightarrow> user" where
  "new_row cfg x hashed u =
     u\<lparr>u_id := 0, u_password := hashed, u_quota := QuotaForNewUser cfg, u_access_token := x_uuid x,
       u_aff_code := x_aff_code x\<rparr>"

definition Insert_user :: "config \<Rightarrow> ext \<Rightarrow> int \<Rightarrow> user \<Rightarrow> st \<Rightarrow> (string + int) \<times> st" where
  "Insert_user cfg x inviterId u s =
     (case insert_hash x u of
        Inl e \<Rightarrow> (Inl e, s)
      | Inr hashed \<Rightarrow>
          (let uid = next_id s
           in case create_user (new_row cfg x hashed u) s of
             (Some e, s) \<Rightarrow> (Inl e, s)
           | (None, s) \<Rightarrow>
               (let s = (if 0 < QuotaForNewUser cfg
                     then RecordLog cfg (x_request_id x) (x_now x) uid LogTypeSystem
                       (''New user registration bonus '' @ LogQuota cfg (QuotaForNewUser cfg)) s
                     else s);
                    s = (if inviterId = 0 then s
                      else bonus cfg x inviterId (QuotaForInviter cfg) ''User invitation bonus ''
                        (bonus cfg x uid (QuotaForInvitee cfg) ''Invitation code bonus '' s))
                in (Inr uid, snd (Insert_token (default_token x uid) s)))))"

definition update_user :: "user \<Rightarrow> user \<Rightarrow> user" where
  "update_user new u =
     u\<lparr>u_username := nz_str (u_username new) (u_username u),
       u_password := nz_str (u_password new) (u_password u),
       u_display_name := nz_str (u_display_name new) (u_display_name u),
       u_role := nz (u_role new) (u_role u), u_status := nz (u_status new) (u_status u),
       u_email := nz_str (u_email new) (u_email u), u_github_id := nz_str (u_github_id new) (u_github_id u),
       u_lark_id := nz_str (u_lark_id new) (u_lark_id u), u_oidc_id := nz_str (u_oidc_id new) (u_oidc_id u),
       u_access_token := nz_str (u_access_token new) (u_access_token u),
       u_quota := nz (u_quota new) (u_quota u), u_used_quota := nz (u_used_quota new) (u_used_quota u),
       u_request_count := nz (u_request_count new) (u_request_count u),
       u_group := nz_str (u_group new) (u_group u), u_aff_code := nz_str (u_aff_code new) (u_aff_code u),
       u_inviter_id := nz (u_inviter_id new) (u_inviter_id u)\<rparr>"

text \<open>Nothing to write is no statement at all; otherwise the identifier must be set.\<close>

definition Updates_user :: "user \<Rightarrow> st \<Rightarrow> string option \<times> st" where
  "Updates_user new s =
     (if new\<lparr>u_id := 0\<rparr> = zero_user then (None, s)
      else if u_id new = 0 then (Some ErrMissingWhereClause, s)
      else db_try (\<lambda>s. let us = update_where (\<lambda>u. u_id u = u_id new) (update_user new) (users s)
        in if unique_users us then Inr (s\<lparr>users := us\<rparr>) else Inl ErrDuplicatedKey) s)"

definition set_ban :: "user \<Rightarrow> st \<Rightarrow> st" where
  "set_ban u s =
     (if u_status u = UserStatusDisabled then BanUser (u_id u) s
      else if u_status u = UserStatusEnabled then UnbanUser (u_id u) s
      else s)"

definition Update_user :: "ext \<Rightarrow> bool \<Rightarrow> user \<Rightarrow> st \<Rightarrow> string option \<times> st" where
  "Update_user x updatePassword u s =
     (case (if updatePassword then x_hash x (u_password u) else Inr (u_password u)) of
        Inl e \<Rightarrow> (Some e, s)
      | Inr p \<Rightarrow> Updates_user (u\<lparr>u_password := p\<rparr>) (set_ban u s))"

definition deleted_user :: "ext \<Rightarrow> user \<Rightarrow> user" where
  "deleted_user x u = u\<lparr>u_username := ''deleted_'' @ x_uuid x, u_status := UserStatusDeleted\<rparr>"

definition Delete_user :: "ext \<Rightarrow> user \<Rightarrow> st \<Rightarrow> string option \<times> st" where
  "Delete_user x u s =
     (if u_id u = 0 then (Some ''id is empty!'', s)
      else Updates_user (deleted_user x u) (BanUser (u_id u) s))"

definition DeleteUserById :: "ext \<Rightarrow> int \<Rightarrow> st \<Rightarrow> string option \<times> st" where
  "DeleteUserById x uid s =
     (if uid = 0 then (Some ''id is empty!'', s) else Delete_user x (zero_user\<lparr>u_id := uid\<rparr>) s)"

definition ResetUserPasswordByEmail :: "ext \<Rightarrow> string \<Rightarrow> string \<Rightarrow> st \<Rightarrow> string option \<times> st" where
  "ResetUserPasswordByEmail x email password s =
     (if email = '''' \<or> password = '''' then (Some ''Email address or password is empty!'', s)
      else case x_hash x password of
        Inl e \<Rightarrow> (Some e, s)
      | Inr hashed \<Rightarrow> db_exec (\<lambda>s. s\<lparr>users := update_where (\<lambda>u. u_email u = email)
          (\<lambda>u. u\<lparr>u_password := hashed\<rparr>) (users s)\<rparr>) s)"


section \<open>Logging in\<close>

text \<open>The name is looked up as a user name first, then as an email address.\<close>

definition ValidateAndFill :: "ext \<Rightarrow> string \<Rightarrow> string \<Rightarrow> st \<Rightarrow> (string + user) \<times> st" where
  "ValidateAndFill x username password s =
     (let refused = ''Incorrect username or password, or user has been banned'';
          check = (\<lambda>(u, s). if x_check x password (u_password u) \<and> u_status u = UserStatusEnabled
             then (Inr u, s) else (Inl refused, s))
      in if username = '''' \<or> password = '''' then (Inl ''Username or password is empty'', s)
         else case db_first (\<lambda>s. find (\<lambda>u. u_username u = username) (users s)) s of
           (Inr u, s) \<Rightarrow> check (u, s)
         | (Inl e, s) \<Rightarrow>
             (case db_first (\<lambda>s. find (\<lambda>u. u_email u = username) (users s)) s of
                (Inl e, s) \<Rightarrow> (Inl refused, s)
              | (Inr u, s) \<Rightarrow> check (u, s)))"

text \<open>\<open>FillUserBy...\<close> leave the struct as it is when the query fails; the error is dropped. When the
  struct's identifier is set, gorm adds it to the condition.\<close>

definition fill_user :: "(user \<Rightarrow> bool) \<Rightarrow> user \<Rightarrow> st \<Rightarrow> user \<times> st" where
  "fill_user P u s =
     (case db_first (\<lambda>s. find (\<lambda>r. P r \<and> (u_id u = 0 \<or> u_id r = u_id u)) (users s)) s of
        (Inl e, s) \<Rightarrow> (u, s)
      | (Inr r, s) \<Rightarrow> (r, s))"

definition FillUserById :: "user \<Rightarrow> st \<Rightarrow> (string + user) \<times> st" where
  "FillUserById u s =
     (if u_id u = 0 then (Inl ''id is empty!'', s)
      else case fill_user (\<lambda>r. u_id r = u_id u) u s of (r, s) \<Rightarrow> (Inr r, s))"

definition FillUserByEmail :: "user \<Rightarrow> st \<Rightarrow> (string + user) \<times> st" where
  "FillUserByEmail u s =
     (if u_email u = '''' then (Inl ''email is empty!'', s)
      else case fill_user (\<lambda>r. u_email r = u_email u) u s of (r, s) \<Rightarrow> (Inr r, s))"

definition FillUserByGitHubId :: "user \<Rightarrow> st \<Rightarrow> (string + user) \<times> st" where
  "FillUserByGitHubId u s =
     (if u_github_id u = '''' then (Inl ''GitHub id is empty!'', s)
      else case fill_user (\<lambda>r. u_github_id r = u_github_id u) u s of (r, s) \<Rightarrow> (Inr r, s))"

definition FillUserByLarkId :: "user \<Rightarrow> st \<Rightarrow> (string + user) \<times> st" where
  "FillUserByLarkId u s =
     (if u_lark_id u = '''' then (Inl ''lark id is empty!'', s)
      else case fill_user (\<lambda>r. u_lark_id r = u_lark_id u) u s of (r, s) \<Rightarrow> (Inr r, s))"

definition FillUserByOidcId :: "user \<Rightarrow> st \<Rightarrow> (string + user) \<times> st" where
  "FillUserByOidcId u s =
     (if u_oidc_id u = '''' then (Inl ''oidc id is empty!'', s)
      else case fill_user (\<lambda>r. u_oidc_id r = u_oidc_id u) u s of (r, s) \<Rightarrow> (Inr r, s))"

definition FillUserByUsername :: "user \<Rightarrow> st \<Rightarrow> (string + user) \<times> st" where
  "FillUserByUsername u s =
     (if u_username u = '''' then (Inl ''username is empty!'', s)
      else case fill_user (\<lambda>r. u_username r = u_username u) u s of (r, s) \<Rightarrow> (Inr r, s))"

text \<open>\<open>Find\<close> into one struct counts the rows it scans: at most one, so \<open>RowsAffected == 1\<close> is "some".\<close>

definition taken :: "(user \<Rightarrow> bool) \<Rightarrow> st \<Rightarrow> bool \<times> st" where
  "taken P s = (case db_find (\<lambda>s. \<exists>u \<in> set (users s). P u) s of (Inl e, s) \<Rightarrow> (False, s) | (Inr b, s) \<Rightarrow> (b, s))"

definition IsEmailAlreadyTaken :: "string \<Rightarrow> st \<Rightarrow> bool \<times> st" where
  "IsEmailAlreadyTaken email = taken (\<lambda>u. u_email u = email)"

definition IsGitHubIdAlreadyTaken :: "string \<Rightarrow> st \<Rightarrow> bool \<times> st" where
  "IsGitHubIdAlreadyTaken githubId = taken (\<lambda>u. u_github_id u = githubId)"

definition IsLarkIdAlreadyTaken :: "string \<Rightarrow> st \<Rightarrow> bool \<times> st" where
  "IsLarkIdAlreadyTaken larkId = taken (\<lambda>u. u_lark_id u = larkId)"

definition IsOidcIdAlreadyTaken :: "string \<Rightarrow> st \<Rightarrow> bool \<times> st" where
  "IsOidcIdAlreadyTaken oidcId = taken (\<lambda>u. u_oidc_id u = oidcId)"

definition IsUsernameAlreadyTaken :: "string \<Rightarrow> st \<Rightarrow> bool \<times> st" where
  "IsUsernameAlreadyTaken username = taken (\<lambda>u. u_username u = username)"


section \<open>Roles, status and single columns\<close>

definition IsAdmin :: "int \<Rightarrow> st \<Rightarrow> bool \<times> st" where
  "IsAdmin userId s =
     (if userId = 0 then (False, s)
      else case db_find (user_column u_role 0 userId) s of
        (Inl e, s) \<Rightarrow> (False, s)
      | (Inr role, s) \<Rightarrow> (RoleAdminUser \<le> role, s))"

definition IsUserEnabled :: "int \<Rightarrow> st \<Rightarrow> (string + bool) \<times> st" where
  "IsUserEnabled userId s =
     (if userId = 0 then (Inl ''user id is empty'', s)
      else case db_find (user_column u_status 0 userId) s of
        (Inl e, s) \<Rightarrow> (Inl e, s)
      | (Inr status, s) \<Rightarrow> (Inr (status = UserStatusEnabled), s))"

definition ValidateAccessToken :: "string \<Rightarrow> st \<Rightarrow> user option \<times> st" where
  "ValidateAccessToken tok s =
     (if tok = '''' then (None, s)
      else case db_first (\<lambda>s. find (\<lambda>u. u_access_token u = Replace1 tok ''Bearer '' '''') (users s)) s of
        (Inl e, s) \<Rightarrow> (None, s)
      | (Inr u, s) \<Rightarrow> (Some u, s))"

definition GetUserEmail :: "int \<Rightarrow> st \<Rightarrow> (string + string) \<times> st" where
  "GetUserEmail uid = db_find (user_column u_email '''' uid)"

definition GetUserGroup :: "int \<Rightarrow> st \<Rightarrow> (string + string) \<times> st" where
  "GetUserGroup uid = db_find (user_column u_group '''' uid)"

text \<open>Without a limit, a scan of several rows into one variable keeps the last.\<close>

definition GetRootUserEmail :: "st \<Rightarrow> string \<times> st" where
  "GetRootUserEmail s =
     (case db_find (\<lambda>s. let roots = filter (\<lambda>u. u_role u = RoleRootUser) (users s)
         in if roots = [] then '''' else u_email (last roots)) s of
        (Inl e, s) \<Rightarrow> ('''', s)
      | (Inr email, s) \<Rightarrow> (email, s))"


section \<open>The cache of user data\<close>

definition user_key :: "string \<Rightarrow> int \<Rightarrow> string" where
  "user_key label uid = label @ Itoa uid"

text \<open>\<open>RedisGet\<close> as a string; a key of another kind never collides with these.\<close>

definition RedisGet_str :: "int \<Rightarrow> string \<Rightarrow> st \<Rightarrow> (string + string) \<times> st" where
  "RedisGet_str now key s =
     (case RedisGet now key s of
        (Inr (KStr v), s) \<Rightarrow> (Inr v, s)
      | (Inr (KToken t), s) \<Rightarrow> (Inl ''redis: nil'', s)
      | (Inl e, s) \<Rightarrow> (Inl e, s))"

definition CacheGetUserGroup :: "config \<Rightarrow> int \<Rightarrow> int \<Rightarrow> st \<Rightarrow> (string \<times> string option) \<times> st" where
  "CacheGetUserGroup cfg now uid s =
     (let from_db = (\<lambda>s. case GetUserGroup uid s of
          (Inl e, s) \<Rightarrow> (('''', Some e), s) | (Inr g, s) \<Rightarrow> ((g, None), s))
      in if \<not> redis_enabled s then from_db s
         else case RedisGet_str now (user_key ''user_group:'' uid) s of
           (Inr g, s) \<Rightarrow> ((g, None), s)
         | (Inl e, s) \<Rightarrow>
             (case from_db s of
                ((g, Some e), s) \<Rightarrow> (('''', Some e), s)
              | ((g, None), s) \<Rightarrow>
                  (case RedisSet now (user_key ''user_group:'' uid) (KStr g) (SyncFrequency cfg) s of
                     (e, s) \<Rightarrow> ((g, e), s))))"

text \<open>Here, too, a failure to store the value is returned together with the value.\<close>

definition fetchAndUpdateUserQuota :: "config \<Rightarrow> int \<Rightarrow> int \<Rightarrow> st \<Rightarrow> (int \<times> string option) \<times> st" where
  "fetchAndUpdateUserQuota cfg now uid s =
     (case GetUserQuota uid s of
        (Inl e, s) \<Rightarrow> ((0, Some e), s)
      | (Inr q, s) \<Rightarrow>
          (case RedisSet now (user_key ''user_quota:'' uid) (KStr (Itoa q)) (SyncFrequency cfg) s of
             (e, s) \<Rightarrow> ((q, e), s)))"

definition CacheGetUserQuota :: "config \<Rightarrow> int \<Rightarrow> int \<Rightarrow> st \<Rightarrow> (int \<times> string option) \<times> st" where
  "CacheGetUserQuota cfg now uid s =
     (if \<not> redis_enabled s
      then (case GetUserQuota uid s of (Inl e, s) \<Rightarrow> ((0, Some e), s) | (Inr q, s) \<Rightarrow> ((q, None), s))
      else case RedisGet_str now (user_key ''user_quota:'' uid) s of
        (Inl e, s) \<Rightarrow> fetchAndUpdateUserQuota cfg now uid s
      | (Inr v, s) \<Rightarrow>
          (case parse_ok (ParseInt v) of
             None \<Rightarrow> ((0, None), s)
           | Some q \<Rightarrow>
               (if q \<le> PreConsumedQuota cfg then fetchAndUpdateUserQuota cfg now uid s
                else ((q, None), s))))"

definition CacheUpdateUserQuota :: "config \<Rightarrow> int \<Rightarrow> int \<Rightarrow> st \<Rightarrow> string option \<times> st" where
  "CacheUpdateUserQuota cfg now uid s =
     (if \<not> redis_enabled s then (None, s)
      else case CacheGetUserQuota cfg now uid s of
        ((q, Some e), s) \<Rightarrow> (Some e, s)
      | ((q, None), s) \<Rightarrow> RedisSet now (user_key ''user_quota:'' uid) (KStr (Itoa q)) (SyncFrequency cfg) s)"

definition CacheDecreaseUserQuota :: "int \<Rightarrow> int \<Rightarrow> int \<Rightarrow> st \<Rightarrow> string option \<times> st" where
  "CacheDecreaseUserQuota now uid quota s =
     (if \<not> redis_enabled s then (None, s) else RedisDecrease now (user_key ''user_quota:'' uid) quota s)"

definition CacheIsUserEnabled :: "config \<Rightarrow> int \<Rightarrow> int \<Rightarrow> st \<Rightarrow> (string + bool) \<times> st" where
  "CacheIsUserEnabled cfg now uid s =
     (if \<not> redis_enabled s then IsUserEnabled uid s
      else case RedisGet_str now (user_key ''user_enabled:'' uid) s of
        (Inr v, s) \<Rightarrow> (Inr (v = ''1''), s)
      | (Inl e, s) \<Rightarrow>
          (case IsUserEnabled uid s of
             (Inl e, s) \<Rightarrow> (Inl e, s)
           | (Inr b, s) \<Rightarrow>
               (case RedisSet now (user_key ''user_enabled:'' uid) (KStr (if b then ''1'' else ''0''))
                   (SyncFrequency cfg) s of
                  (Some e, s) \<Rightarrow> (Inl e, s)
                | (None, s) \<Rightarrow> (Inr b, s))))"

end
