(* ===== verification/Verification.thy ===== *)
theory Verification
  imports Users
begin

text \<open>
  \<^verbatim>\<open>common/verification.go\<close> and its users in \<^verbatim>\<open>controller/misc.go\<close>: codes that prove that someone
  reads an email address, kept in memory for ten minutes. Times are in nanoseconds. Sending a mail is
  the parameter \<open>mail\<close> (its error, if any), checking the form of an address \<open>email_ok\<close>.
\<close>

section \<open>The map of codes\<close>

type_synonym codes = "(string \<times> string \<times> int) list"

definition EmailVerificationPurpose :: string where "EmailVerificationPurpose = ''v''"
definition PasswordResetPurpose :: string where "PasswordResetPurpose = ''r''"
definition verificationMapMaxSize :: nat where "verificationMapMaxSize = 10"
definition VerificationValidMinutes :: int where "VerificationValidMinutes = 10"

definition GenerateVerificationCode :: "string \<Rightarrow> nat \<Rightarrow> string" where
  "GenerateVerificationCode uuid n = (if n = 0 then uuid else take n uuid)"

definition expired_code :: "int \<Rightarrow> int \<Rightarrow> bool" where
  "expired_code now t \<longleftrightarrow> VerificationValidMinutes * 60 \<le> go_div (now - t) (10 ^ 9)"

definition removeExpiredPairs :: "int \<Rightarrow> codes \<Rightarrow> codes" where
  "removeExpiredPairs now m = filter (\<lambda>(k, c, t). \<not> expired_code now t) m"

definition RegisterVerificationCodeWithKey :: "int \<Rightarrow> string \<Rightarrow> string \<Rightarrow> string \<Rightarrow> codes \<Rightarrow> codes" where
  "RegisterVerificationCodeWithKey now key code purpose m =
     (let m = AList.update (purpose @ key) (code, now) m
      in if verificationMapMaxSize < length m then removeExpiredPairs now m else m)"

definition VerifyCodeWithKey :: "int \<Rightarrow> string \<Rightarrow> string \<Rightarrow> string \<Rightarrow> codes \<Rightarrow> bool" where
  "VerifyCodeWithKey now key code purpose m =
     (case map_of m (purpose @ key) of
        None \<Rightarrow> False
      | Some (c, t) \<Rightarrow> \<not> expired_code now t \<and> code = c)"

definition DeleteKey :: "string \<Rightarrow> string \<Rightarrow> codes \<Rightarrow> codes" where
  "DeleteKey key purpose m = AList.delete (purpose @ key) m"


section \<open>Handlers\<close>

definition domain_allowed :: "config \<Rightarrow> string \<Rightarrow> bool" where
  "domain_allowed cfg email \<longleftrightarrow> \<not> EmailDomainRestrictionEnabled cfg \<or>
     (\<exists>domain \<in> set (EmailDomainWhitelist cfg). HasSuffix email (''@'' @ domain))"

definition SendEmailVerification ::
    "(string \<Rightarrow> bool) \<Rightarrow> (string \<Rightarrow> string \<Rightarrow> string option) \<Rightarrow> config \<Rightarrow> ext \<Rightarrow> int \<Rightarrow> string \<Rightarrow> codes \<Rightarrow> st \<Rightarrow>
     unit reply \<times> codes \<times> st" where
  "SendEmailVerification email_ok mail cfg x now email m s =
     (if \<not> email_ok email then (Failure (x_tr x ''invalid_parameter''), m, s)
      else if \<not> domain_allowed cfg email
        then (Failure ''Administrator has enabled email domain whitelist, your email domain is not in the whitelist'', m, s)
      else case IsEmailAlreadyTaken email s of
        (True, s) \<Rightarrow> (Failure ''Email address is already taken'', m, s)
      | (False, s) \<Rightarrow>
          (let code = GenerateVerificationCode (x_uuid x) 6;
               m = RegisterVerificationCodeWithKey now email code EmailVerificationPurpose m
           in case mail email code of
                Some e \<Rightarrow> (Failure e, m, s)
              | None \<Rightarrow> (Success (), m, s)))"

definition SendPasswordResetEmail ::
    "(string \<Rightarrow> bool) \<Rightarrow> (string \<Rightarrow> string \<Rightarrow> string option) \<Rightarrow> ext \<Rightarrow> int \<Rightarrow> string \<Rightarrow> codes \<Rightarrow> st \<Rightarrow>
     unit reply \<times> codes \<times> st" where
  "SendPasswordResetEmail email_ok mail x now email m s =
     (if \<not> email_ok email then (Failure (x_tr x ''invalid_parameter''), m, s)
      else case IsEmailAlreadyTaken email s of
        (False, s) \<Rightarrow> (Failure ''This email address is not registered'', m, s)
      | (True, s) \<Rightarrow>
          (let code = GenerateVerificationCode (x_uuid x) 0;
               m = RegisterVerificationCodeWithKey now email code PasswordResetPurpose m
           in case mail email code of
                Some e \<Rightarrow> (Failure (x_tr x ''send_email_failed'' @ e), m, s)
              | None \<Rightarrow> (Success (), m, s)))"

text \<open>The body's error is dropped: what was decoded of it (\<open>email\<close>, \<open>code\<close>) is used.\<close>

definition ResetPassword :: "ext \<Rightarrow> int \<Rightarrow> string \<Rightarrow> string \<Rightarrow> codes \<Rightarrow> st \<Rightarrow> string reply \<times> codes \<times> st" where
  "ResetPassword x now email code m s =
     (if email = '''' \<or> code = '''' then (Failure (x_tr x ''invalid_parameter''), m, s)
      else if \<not> VerifyCodeWithKey now email code PasswordResetPurpose m
        then (Failure ''Reset link is invalid or expired'', m, s)
      else let password = GenerateVerificationCode (x_uuid x) 12
           in case ResetUserPasswordByEmail x email password s of
                (Some e, s) \<Rightarrow> (Failure e, m, s)
              | (None, s) \<Rightarrow> (Success password, DeleteKey email PasswordResetPurpose m, s))"


section \<open>Properties\<close>

text \<open>The operations on the map, in the order of their times, and what a key stands for after them.\<close>

datatype code_op = Register string string string | Forget string string

fun run_codes :: "(int \<times> code_op) list \<Rightarrow> codes \<Rightarrow> codes" where
  "run_codes [] m = m"
| "run_codes ((t, Register key code purpose) # r) m =
     run_codes r (RegisterVerificationCodeWithKey t key code purpose m)"
| "run_codes ((t, Forget key purpose) # r) m = run_codes r (DeleteKey key purpose m)"

fun last_code :: "string \<Rightarrow> string \<Rightarrow> (int \<times> code_op) list \<Rightarrow> (string \<times> int) option \<Rightarrow> (string \<times> int) option" where
  "last_code key purpose [] v = v"
| "last_code key purpose ((t, Register k c p) # r) v =
     last_code key purpose r (if k = key \<and> p = purpose then Some (c, t) else v)"
| "last_code key purpose ((t, Forget k p) # r) v =
     last_code key purpose r (if k = key \<and> p = purpose then None else v)"

definition fits :: "int \<Rightarrow> (string \<times> int) option \<Rightarrow> (string \<times> int) option \<Rightarrow> bool" where
  "fits now stored v \<longleftrightarrow> stored = v \<or> (stored = None \<and> (\<exists>c t. v = Some (c, t) \<and> expired_code now t))"

lemma go_div_mono: "a \<le> b \<Longrightarrow> go_div a (10 ^ 9) \<le> go_div b (10 ^ 9)"
proof -
  assume "a \<le> b"
  consider "0 \<le> a" | "a < 0" "b < 0" | "a < 0" "0 \<le> b" using \<open>a \<le> b\<close> by linarith
  then show ?thesis
  proof cases
    case 1
    with \<open>a \<le> b\<close> show ?thesis by (simp add: go_div_nonneg zdiv_mono1)
  next
    case 2
    with \<open>a \<le> b\<close> have "- b div 10 ^ 9 \<le> - a div (10 ^ 9 :: int)" by (intro zdiv_mono1) auto
    with 2 show ?thesis by (simp add: go_div_def)
  next
    case 3
    have "0 \<le> - a div (10 ^ 9 :: int)" "0 \<le> b div (10 ^ 9 :: int)"
      using 3 by (simp_all add: pos_imp_zdiv_nonneg_iff)
    then have "- (- a div (10 ^ 9 :: int)) \<le> b div 10 ^ 9" by linarith
    with 3 show ?thesis by (cases "b = 0") (simp_all add: go_div_def pos_imp_zdiv_nonneg_iff)
  qed
qed

lemma expired_code_mono: "expired_code now t \<Longrightarrow> now \<le> later \<Longrightarrow> expired_code later t"
  unfolding expired_code_def using go_div_mono [of "now - t" "later - t"] by simp

lemma fits_mono: "fits now a v \<Longrightarrow> now \<le> later \<Longrightarrow> fits later a v"
  unfolding fits_def using expired_code_mono by blast

lemma map_of_removeExpiredPairs:
  "distinct (map fst m) \<Longrightarrow> map_of (removeExpiredPairs now m) k =
    (case map_of m k of None \<Rightarrow> None | Some (c, t) \<Rightarrow> if expired_code now t then None else Some (c, t))"
proof (induction m)
  case (Cons p m)
  obtain k' c t where p: "p = (k', c, t)" by (cases p)
  have "map_of m k' = None" using Cons.prems p by (simp add: map_of_eq_None_iff)
  with Cons show ?case by (auto simp: removeExpiredPairs_def p)
qed (simp add: removeExpiredPairs_def)

lemma distinct_Register:
  "distinct (map fst m) \<Longrightarrow> distinct (map fst (RegisterVerificationCodeWithKey now key code purpose m))"
  by (simp add: RegisterVerificationCodeWithKey_def removeExpiredPairs_def Let_def distinct_update distinct_map_filter)

lemma fits_removed:
  assumes "distinct (map fst m)" and "fits now (map_of m k) v"
  shows "fits now (map_of (removeExpiredPairs now m) k) v"
  using assms by (auto simp: map_of_removeExpiredPairs fits_def split: option.split)

lemma fits_Register:
  assumes "distinct (map fst m)" and "fits now (map_of m (purpose @ key)) v" and "length purpose = length p"
  shows "fits now (map_of (RegisterVerificationCodeWithKey now k c p m) (purpose @ key))
    (if k = key \<and> p = purpose then Some (c, now) else v)"
proof -
  let ?m = "AList.update (p @ k) (c, now) m"
  have same: "p @ k = purpose @ key \<longleftrightarrow> k = key \<and> p = purpose" using assms(3) by auto
  have "fits now (map_of ?m (purpose @ key)) (if k = key \<and> p = purpose then Some (c, now) else v)"
    using assms(2) same by (auto simp: update_conv fits_def)
  then show ?thesis
    using fits_removed [of ?m now "purpose @ key"] assms(1)
    by (auto simp: RegisterVerificationCodeWithKey_def Let_def distinct_update)
qed

lemma fits_Delete:
  assumes "fits now (map_of m (purpose @ key)) v" and "length purpose = length p"
  shows "fits now (map_of (DeleteKey k p m) (purpose @ key)) (if k = key \<and> p = purpose then None else v)"
proof -
  have same: "p @ k = purpose @ key \<longleftrightarrow> k = key \<and> p = purpose" using assms(2) by auto
  show ?thesis using assms(1) same by (auto simp: DeleteKey_def delete_conv' fits_def)
qed

definition one_letter :: "(int \<times> code_op) list \<Rightarrow> bool" where
  "one_letter tr \<longleftrightarrow> (\<forall>(t, op) \<in> set tr. case op of Register k c p \<Rightarrow> length p = 1 | Forget k p \<Rightarrow> length p = 1)"

lemma fits_run:
  assumes "one_letter tr" and "sorted (t0 # map fst tr)" and "last (t0 # map fst tr) \<le> now"
    and "distinct (map fst m)" and "fits t0 (map_of m (purpose @ key)) v" and "length purpose = 1"
  shows "fits now (map_of (run_codes tr m) (purpose @ key)) (last_code key purpose tr v)"
  using assms
proof (induction tr arbitrary: m v t0)
  case Nil
  then show ?case using fits_mono by auto
next
  case (Cons e tr)
  obtain t op where e: "e = (t, op)" by (cases e)
  have "t0 \<le> t" and srt: "sorted (t # map fst tr)" and lst: "last (t # map fst tr) \<le> now"
    using Cons.prems(2,3) e by (auto split: if_splits)
  have one: "one_letter tr" using Cons.prems(1) unfolding one_letter_def by (meson list.set_intros(2))
  have fit: "fits t (map_of m (purpose @ key)) v" using fits_mono [OF Cons.prems(5) \<open>t0 \<le> t\<close>] .
  show ?case
  proof (cases op)
    case (Register k c p)
    have len: "length purpose = length p"
      using Cons.prems(1,6) e Register by (simp add: one_letter_def)
    show ?thesis
      using Cons.IH [OF one srt lst distinct_Register [OF Cons.prems(4)]
          fits_Register [OF Cons.prems(4) fit len] Cons.prems(6)]
      by (simp add: e Register)
  next
    case (Forget k p)
    have len: "length purpose = length p" using Cons.prems(1,6) e Forget by (simp add: one_letter_def)
    have "distinct (map fst (DeleteKey k p m))" using Cons.prems(4) by (simp add: DeleteKey_def distinct_delete)
    then show ?thesis
      using Cons.IH [OF one srt lst _ fits_Delete [OF fit len] Cons.prems(6)] by (simp add: e Forget)
  qed
qed

text \<open>C29: A code is accepted for an address and a purpose exactly when it is the one registered last
  for this address and this purpose, it has not been used up since, and it is less than ten minutes
  old. In particular a code sent to verify an address never resets a password, and the clean-up of
  a map that has grown large never drops a code that is still valid.\<close>

theorem verification_codes:
  assumes "one_letter tr" and "sorted (map fst tr)" and "\<forall>t \<in> set (map fst tr). t \<le> now" and "length purpose = 1"
  shows "VerifyCodeWithKey now key code purpose (run_codes tr []) \<longleftrightarrow>
    (\<exists>t. last_code key purpose tr None = Some (code, t) \<and> go_div (now - t) (10 ^ 9) < 600)"
proof -
  have "fits now (map_of (run_codes tr []) (purpose @ key)) (last_code key purpose tr None)"
  proof (cases tr)
    case Nil
    then show ?thesis by (simp add: fits_def)
  next
    case (Cons e tr')
    have "sorted (fst e # map fst tr)" and "last (fst e # map fst tr) \<le> now"
      using assms(2,3) Cons last_in_set [of "map fst tr"] by auto
    then show ?thesis using fits_run [OF assms(1), of "fst e" now "[]" purpose key None] assms(4)
      by (simp add: fits_def)
  qed
  then consider (same) "map_of (run_codes tr []) (purpose @ key) = last_code key purpose tr None"
    | (gone) c t where "map_of (run_codes tr []) (purpose @ key) = None"
        "last_code key purpose tr None = Some (c, t)" "expired_code now t"
    unfolding fits_def by blast
  then show ?thesis
  proof cases
    case same
    then show ?thesis
      by (cases "last_code key purpose tr None")
        (auto simp: VerifyCodeWithKey_def expired_code_def VerificationValidMinutes_def)
  next
    case gone
    then show ?thesis by (simp add: VerifyCodeWithKey_def expired_code_def VerificationValidMinutes_def)
  qed
qed

theorem verification_codes_witness:
  "VerifyCodeWithKey (599 * 10 ^ 9) ''a'' ''123'' ''v'' (run_codes [(0, Register ''a'' ''123'' ''v'')] []) \<and>
   \<not> VerifyCodeWithKey (599 * 10 ^ 9) ''a'' ''123'' ''r'' (run_codes [(0, Register ''a'' ''123'' ''v'')] [])"
proof -
  let ?tr = "[(0, Register ''a'' ''123'' ''v'')]"
  have h: "one_letter ?tr" "sorted (map fst ?tr)" "\<forall>t \<in> set (map fst ?tr). t \<le> (599 * 10 ^ 9 :: int)"
    by (simp_all add: one_letter_def)
  show ?thesis
    using verification_codes [OF h, of "''v''" "''a''" "''123''"] verification_codes [OF h, of "''r''" "''a''" "''123''"]
    by (simp add: go_div_def)
qed

end
