(* ===== verification/Sessions.thy ===== *)
theory Sessions
  imports Verification
begin

text \<open>
  Signing in an editor: the sessions of \<^verbatim>\<open>model/vscode_auth_session.go\<close>, the handlers of
  \<^verbatim>\<open>controller/vscode_auth.go\<close> and \<^verbatim>\<open>controller/coder_auth.go\<close>, and the login of
  \<^verbatim>\<open>controller/user.go\<close> that completes a session. The editor creates a session, its user logs in with
  the session's identifier, and the editor polls until the session is completed and it gets a token.

  The store maps identifiers to sessions. Deletions that the code leaves to a goroutine are kept in
  \<open>reapers\<close> until the scheduler runs them. Times are in seconds.
\<close>

section \<open>The store\<close>

record vsession =
  v_id :: string
  v_status :: string
  v_api_token :: string
  v_token_name :: string
  v_user_id :: int
  v_username :: string
  v_display_name :: string
  v_client_name :: string
  v_version :: string
  v_created_time :: int
  v_expires_at :: int
  v_provider :: string
  v_provider_url :: string
  v_external_token :: string
  v_external_user :: string

record vstore =
  sessions :: "string \<rightharpoonup> vsession"
  reapers :: "string list"

definition zero_vsession :: vsession where
  "zero_vsession = \<lparr>v_id = '''', v_status = '''', v_api_token = '''', v_token_name = '''', v_user_id = 0,
     v_username = '''', v_display_name = '''', v_client_name = '''', v_version = '''', v_created_time = 0,
     v_expires_at = 0, v_provider = '''', v_provider_url = '''', v_external_token = '''', v_external_user = ''''\<rparr>"

definition StoreVSCodeAuthSession :: "vsession \<Rightarrow> vstore \<Rightarrow> string option \<times> vstore" where
  "StoreVSCodeAuthSession session v =
     (if v_id session = '''' then (Some ''invalid session or session ID'', v)
      else (None, v\<lparr>sessions := (sessions v)(v_id session \<mapsto> session)\<rparr>))"

definition GetVSCodeAuthSession :: "int \<Rightarrow> string \<Rightarrow> vstore \<Rightarrow> (string + vsession) \<times> vstore" where
  "GetVSCodeAuthSession now sid v =
     (if sid = '''' then (Inl ''session ID is empty'', v)
      else case sessions v sid of
        None \<Rightarrow> (Inl ''session not found'', v)
      | Some session \<Rightarrow>
          (if v_expires_at session < now
           then (Inl ''session expired'', v\<lparr>reapers := reapers v @ [sid]\<rparr>)
           else (Inr session, v)))"

definition DeleteVSCodeAuthSession :: "string \<Rightarrow> vstore \<Rightarrow> string option \<times> vstore" where
  "DeleteVSCodeAuthSession sid v =
     (if sid = '''' then (Some ''session ID is empty'', v)
      else (None, v\<lparr>sessions := (sessions v)(sid := None)\<rparr>))"

text \<open>Sixteen random bytes in hexadecimal; \<open>None\<close>: the source of randomness failed.\<close>

definition GenerateVSCodeSessionID :: "string option \<Rightarrow> int \<Rightarrow> string" where
  "GenerateVSCodeSessionID bytes nanos =
     (case bytes of None \<Rightarrow> ''vscode_auth_'' @ Itoa nanos | Some hex \<Rightarrow> ''vscode_auth_'' @ hex)"

definition CleanupExpiredVSCodeSessions :: "int \<Rightarrow> vstore \<Rightarrow> vstore" where
  "CleanupExpiredVSCodeSessions now v =
     v\<lparr>sessions := (\<lambda>sid. case sessions v sid of
         None \<Rightarrow> None
       | Some session \<Rightarrow> if v_expires_at session < now then None else Some session)\<rparr>"

text \<open>A value of the map of updates; one of the wrong type is ignored.\<close>

datatype update_value = UStr string | UInt int

definition apply_update :: "string \<times> update_value \<Rightarrow> vsession \<Rightarrow> vsession" where
  "apply_update upd session =
     (case upd of
        (key, UStr v) \<Rightarrow>
          (if key = ''status'' then session\<lparr>v_status := v\<rparr>
           else if key = ''api_token'' then session\<lparr>v_api_token := v\<rparr>
           else if key = ''token_name'' then session\<lparr>v_token_name := v\<rparr>
           else if key = ''username'' then session\<lparr>v_username := v\<rparr>
           else if key = ''display_name'' then session\<lparr>v_display_name := v\<rparr>
           else if key = ''provider'' then session\<lparr>v_provider := v\<rparr>
           else if key = ''provider_url'' then session\<lparr>v_provider_url := v\<rparr>
           else if key = ''external_token'' then session\<lparr>v_external_token := v\<rparr>
           else if key = ''external_user'' then session\<lparr>v_external_user := v\<rparr>
           else session)
      | (key, UInt v) \<Rightarrow> (if key = ''user_id'' then session\<lparr>v_user_id := v\<rparr> else session))"

definition UpdateVSCodeAuthSession ::
    "int \<Rightarrow> string \<Rightarrow> (string \<times> update_value) list \<Rightarrow> vstore \<Rightarrow> string option \<times> vstore" where
  "UpdateVSCodeAuthSession now sid updates v =
     (if sid = '''' then (Some ''session ID is empty'', v)
      else case sessions v sid of
        None \<Rightarrow> (Some ''session not found'', v)
      | Some session \<Rightarrow>
          (if v_expires_at session < now
           then (Some ''session expired'', v\<lparr>sessions := (sessions v)(sid := None)\<rparr>)
           else (None, v\<lparr>sessions := (sessions v)(sid \<mapsto> fold apply_update updates session)\<rparr>)))"

definition or_default :: "string \<Rightarrow> string \<Rightarrow> string" where
  "or_default v d = (if v = '''' then d else v)"

definition CreateExternalProviderSession ::
    "string \<Rightarrow> int \<Rightarrow> string \<Rightarrow> string \<Rightarrow> string \<Rightarrow> string \<Rightarrow> vstore \<Rightarrow> (string + vsession) \<times> vstore" where
  "CreateExternalProviderSession sid now clientName version provider providerURL v =
     (if provider = '''' then (Inl ''provider is required'', v)
      else let session = zero_vsession\<lparr>v_id := sid, v_status := ''pending'',
               v_client_name := or_default clientName ''VSCode Extension'',
               v_version := or_default version ''1.0.0'', v_provider := provider, v_provider_url := providerURL,
               v_created_time := now, v_expires_at := now + 600\<rparr>
           in case StoreVSCodeAuthSession session v of
                (Some e, v) \<Rightarrow> (Inl (''failed to store session: '' @ e), v)
              | (None, v) \<Rightarrow> (Inr session, v))"

text \<open>A token named \<open>default\<close> is renamed; otherwise the user's first token is taken. None is created.\<close>

definition GetOrCreateUserDefaultToken :: "int \<Rightarrow> string \<Rightarrow> st \<Rightarrow> (string + token) \<times> st" where
  "GetOrCreateUserDefaultToken userId tokenName s =
     (if userId = 0 then (Inl ''user ID is empty'', s)
      else case db_find (\<lambda>s. filter (\<lambda>t. t_user_id t = userId \<and> t_name t = ''default'') (tokens s)) s of
        (Inl e, s) \<Rightarrow> (Inl (''failed to query user tokens: '' @ e), s)
      | (Inr (t # _), s) \<Rightarrow>
          (if t_name t = tokenName then (Inr t, s)
           else (Inr (t\<lparr>t_name := tokenName\<rparr>), snd (Update_token (t\<lparr>t_name := tokenName\<rparr>) s)))
      | (Inr [], s) \<Rightarrow>
          (case db_first (\<lambda>s. find (\<lambda>t. t_user_id t = userId) (tokens s)) s of
             (Inr t, s) \<Rightarrow> (Inr t, s)
           | (Inl e, s) \<Rightarrow> (Inl ''no API tokens found for user - this should not happen'', s)))"


section \<open>Creating a session\<close>

record init_request =
  q_client_name :: string
  q_version :: string
  q_provider :: string
  q_coder_url :: string

record init_reply =
  p_session_id :: string
  p_auth_url :: string
  p_callback_url :: string

text \<open>\<open>host\<close>: scheme and host of the request, used when no server address is configured.\<close>

definition base_url :: "config \<Rightarrow> string \<Rightarrow> string" where
  "base_url cfg host = or_default (ServerAddress cfg) host"

definition TrimRight :: "char \<Rightarrow> string \<Rightarrow> string" where
  "TrimRight c s = rev (dropWhile (\<lambda>x. x = c) (rev s))"

definition InitCoderAuth ::
    "config \<Rightarrow> string \<Rightarrow> string \<Rightarrow> int \<Rightarrow> string + init_request \<Rightarrow> vstore \<Rightarrow> init_reply reply \<times> vstore" where
  "InitCoderAuth cfg host sid now body v =
     (case body of
        Inl e \<Rightarrow> (Failure ''Invalid request parameters'', v)
      | Inr q \<Rightarrow>
          (if q_coder_url q = '''' then (Failure ''Coder URL is required'', v)
           else let provider = or_default (q_provider q) ''github''
                in if provider \<noteq> ''github'' \<and> provider \<noteq> ''oidc''
                   then (Failure (''Provider must be either '' @ CHR 0x27 # ''github'' @ CHR 0x27 # '' or '' @
                       CHR 0x27 # ''oidc'' @ [CHR 0x27]), v)
                   else case CreateExternalProviderSession sid now (or_default (q_client_name q) ''VSCode Extension'')
                          (or_default (q_version q) ''1.0.0'') ''coder'' (q_coder_url q) v of
                     (Inl e, v) \<Rightarrow> (Failure ''Failed to create authentication session'', v)
                   | (Inr session, v) \<Rightarrow>
                       (Success \<lparr>p_session_id = sid,
                          p_auth_url = TrimRight CHR ''/'' (q_coder_url q) @ ''/coder/oauth2/'' @ provider @ ''?source=vscode'',
                          p_callback_url = base_url cfg host @ ''/api/vscode/auth/coder/callback?session_id='' @ sid\<rparr>, v)))"

text \<open>For the provider \<open>coder\<close> the body, which has been read, is bound a second time: \<open>rebound\<close>.\<close>

definition InitVSCodeAuth ::
    "config \<Rightarrow> string \<Rightarrow> string \<Rightarrow> int \<Rightarrow> string + init_request \<Rightarrow> string + init_request \<Rightarrow> vstore \<Rightarrow>
     init_reply reply \<times> vstore" where
  "InitVSCodeAuth cfg host sid now body rebound v =
     (case body of
        Inl e \<Rightarrow> (Failure ''Invalid request parameters'', v)
      | Inr q \<Rightarrow>
          (let provider = or_default (q_provider q) ''local''
           in if provider = ''coder'' then
                (if q_coder_url q = '''' then (Failure ''Coder URL is required for Coder provider'', v)
                 else InitCoderAuth cfg host sid now rebound v)
              else if provider \<noteq> ''local'' then (Failure (''Unsupported provider: '' @ provider), v)
              else case StoreVSCodeAuthSession (zero_vsession\<lparr>v_id := sid, v_status := ''pending'',
                     v_client_name := or_default (q_client_name q) ''VSCode Extension'',
                     v_version := or_default (q_version q) ''1.0.0'', v_provider := ''local'',
                     v_created_time := now, v_expires_at := now + 600\<rparr>) v of
                (Some e, v) \<Rightarrow> (Failure ''Failed to create authentication session'', v)
              | (None, v) \<Rightarrow>
                  (Success \<lparr>p_session_id = sid,
                     p_auth_url = base_url cfg host @ ''/login?source=vscode&session_id='' @ sid,
                     p_callback_url = ''''\<rparr>, v)))"


section \<open>Polling\<close>

record grant =
  g_api_token :: string
  g_token_name :: string
  g_user_id :: int
  g_username :: string
  g_display_name :: string

datatype status_reply = StatusPending | StatusCompleted grant | StatusError string

definition grant_of :: "vsession \<Rightarrow> grant" where
  "grant_of session = \<lparr>g_api_token = v_api_token session, g_token_name = v_token_name session,
     g_user_id = v_user_id session, g_username = v_username session,
     g_display_name = v_display_name session\<rparr>"

text \<open>The deletion of a session that has been handed out is left to a goroutine.\<close>

definition GetVSCodeAuthStatus :: "int \<Rightarrow> string \<Rightarrow> vstore \<Rightarrow> status_reply \<times> vstore" where
  "GetVSCodeAuthStatus now sid v =
     (if sid = '''' then (StatusError ''missing_session_id'', v)
      else case GetVSCodeAuthSession now sid v of
        (Inl e, v) \<Rightarrow> (StatusError ''session_not_found'', v)
      | (Inr session, v) \<Rightarrow>
          (if v_expires_at session < now
           then (StatusError ''session_expired'', snd (DeleteVSCodeAuthSession sid v))
           else if v_status session = ''pending'' then (StatusPending, v)
           else if v_status session = ''completed''
                then (StatusCompleted (grant_of session), v\<lparr>reapers := reapers v @ [sid]\<rparr>)
           else (StatusError ''Unknown session status'', v)))"

text \<open>The scheduler runs one of the goroutines.\<close>

definition reap :: "nat \<Rightarrow> vstore \<Rightarrow> vstore" where
  "reap i v =
     (if i < length (reapers v)
      then (snd (DeleteVSCodeAuthSession (reapers v ! i) v))\<lparr>reapers := take i (reapers v) @ drop (Suc i) (reapers v)\<rparr>
      else v)"


section \<open>Logging in\<close>

record cookie =
  k_id :: int
  k_username :: string
  k_role :: int
  k_status :: int

datatype 'a response = Json "'a reply" | Redirect string

definition completeVSCodeAuth :: "int \<Rightarrow> user \<Rightarrow> string \<Rightarrow> vstore \<Rightarrow> st \<Rightarrow> string option \<times> vstore \<times> st" where
  "completeVSCodeAuth now u sid v s =
     (case GetVSCodeAuthSession now sid v of
        (Inl e, v) \<Rightarrow> (Some (''failed to get VSCode auth session: '' @ e), v, s)
      | (Inr session, v) \<Rightarrow>
          (case GetOrCreateUserDefaultToken (u_id u) ''VSCode Integration'' s of
             (Inl e, s) \<Rightarrow> (Some (''failed to get user default token: '' @ e), v, s)
           | (Inr t, s) \<Rightarrow>
               (case StoreVSCodeAuthSession (session\<lparr>v_status := ''completed'', v_api_token := t_key t,
                    v_token_name := t_name t, v_user_id := u_id u, v_username := u_username u,
                    v_display_name := u_display_name u\<rparr>) v of
                  (e, v) \<Rightarrow> (e, v, s))))"

text \<open>\<open>saved\<close>: whether the cookie could be written. The answer shows no secret of the account.\<close>

definition clean_user :: "user \<Rightarrow> user" where
  "clean_user u = zero_user\<lparr>u_id := u_id u, u_username := u_username u, u_display_name := u_display_name u,
     u_role := u_role u, u_status := u_status u\<rparr>"

definition SetupLogin ::
    "bool \<Rightarrow> int \<Rightarrow> string \<Rightarrow> string \<Rightarrow> user \<Rightarrow> cookie option \<Rightarrow> vstore \<Rightarrow> st \<Rightarrow>
     user response \<times> cookie option \<times> vstore \<times> st" where
  "SetupLogin saved now source sid u ck v s =
     (if \<not> saved then (Json (Failure ''Unable to save session information, please try again''), ck, v, s)
      else let ck = Some \<lparr>k_id = u_id u, k_username = u_username u, k_role = u_role u, k_status = u_status u\<rparr>
           in if source = ''vscode'' \<and> sid \<noteq> '''' then
                (case completeVSCodeAuth now u sid v s of
                   (Some e, v, s) \<Rightarrow> (Json (Failure ''Failed to complete VSCode authentication''), ck, v, s)
                 | (None, v, s) \<Rightarrow> (Redirect ''/vscode/auth/success'', ck, v, s))
              else (Json (Success (clean_user u)), ck, v, s))"

definition valid_source :: "string \<Rightarrow> bool" where
  "valid_source source \<longleftrightarrow> source = '''' \<or> source \<in> {''vscode'', ''web'', ''mobile'', ''api''}"

text \<open>The body: user name and password.\<close>

definition Login ::
    "config \<Rightarrow> ext \<Rightarrow> bool \<Rightarrow> string \<Rightarrow> string \<Rightarrow> string + string \<times> string \<Rightarrow> cookie option \<Rightarrow> vstore \<Rightarrow> st \<Rightarrow>
     user response \<times> cookie option \<times> vstore \<times> st" where
  "Login cfg x saved source sid body ck v s =
     (if \<not> PasswordLoginEnabled cfg
      then (Json (Failure ''Administrator has disabled password login''), ck, v, s)
      else if \<not> valid_source source then (Json (Failure (x_tr x ''invalid_parameter'')), ck, v, s)
      else case body of
        Inl e \<Rightarrow> (Json (Failure (x_tr x ''invalid_parameter'')), ck, v, s)
      | Inr (username, password) \<Rightarrow>
          (if username = '''' \<or> password = ''''
           then (Json (Failure (x_tr x ''invalid_parameter'')), ck, v, s)
           else case ValidateAndFill x username password s of
             (Inl e, s) \<Rightarrow> (Json (Failure e), ck, v, s)
           | (Inr u, s) \<Rightarrow> SetupLogin saved (x_now x) source sid u ck v s))"

definition Logout :: "string option \<Rightarrow> cookie option \<Rightarrow> unit reply \<times> cookie option" where
  "Logout save_error ck = (case save_error of Some e \<Rightarrow> (Failure e, ck) | None \<Rightarrow> (Success (), None))"


section \<open>Sessions of an external provider\<close>

record coder_info =
  i_id :: string
  i_username :: string
  i_email :: string
  i_name :: string

definition findOrCreateCoderUser :: "config \<Rightarrow> ext \<Rightarrow> coder_info \<Rightarrow> st \<Rightarrow> (string + user) \<times> st" where
  "findOrCreateCoderUser cfg x i s =
     (let rename = (\<lambda>u. if u_display_name u \<noteq> i_name i \<and> i_name i \<noteq> '''' then u\<lparr>u_display_name := i_name i\<rparr> else u)
      in case db_first (\<lambda>s. find (\<lambda>u. u_email u = i_email i) (users s)) s of
           (Inr u, s) \<Rightarrow>
             (if u_display_name u \<noteq> i_name i \<and> i_name i \<noteq> '''' then (Inr (rename u), snd (Update_user x True (rename u) s))
              else (Inr u, s))
         | (Inl e, s) \<Rightarrow>
             (case db_first (\<lambda>s. find (\<lambda>u. u_username u = i_username i) (users s)) s of
                (Inr u, s) \<Rightarrow>
                  (let u = rename (if u_email u \<noteq> i_email i \<and> i_email i \<noteq> '''' then u\<lparr>u_email := i_email i\<rparr> else u)
                   in (Inr u, snd (Update_user x True u s)))
              | (Inl e, s) \<Rightarrow>
                  (case x_hash x (''oauth2_user_'' @ i_id i) of
                     Inl e \<Rightarrow> (Inl (''failed to hash password: '' @ e), s)
                   | Inr hashed \<Rightarrow>
                       (let u = zero_user\<lparr>u_username := i_username i, u_email := i_email i,
                             u_display_name := or_default (i_name i) (i_username i), u_role := RoleCommonUser,
                             u_status := UserStatusEnabled, u_quota := 500000, u_password := hashed\<rparr>
                        in case Insert_user cfg x 0 u s of
                             (Inl e, s) \<Rightarrow> (Inl (''failed to create user: '' @ e), s)
                           | (Inr uid, s) \<Rightarrow> (Inr (u\<lparr>u_id := uid\<rparr>), s)))))"

definition mock_coder_user :: coder_info where
  "mock_coder_user = \<lparr>i_id = ''coder_user_123'', i_username = ''coder_user'',
     i_email = ''user@coder.example.com'', i_name = ''Coder User''\<rparr>"

definition external_user_json :: "coder_info \<Rightarrow> string" where
  "external_user_json i =
     (let q = [CHR 0x22] in ''{'' @ q @ ''id'' @ q @ '':'' @ q @ i_id i @ q @ '','' @ q @ ''username'' @ q @ '':'' @ q @
        i_username i @ q @ '','' @ q @ ''email'' @ q @ '':'' @ q @ i_email i @ q @ '','' @ q @ ''name'' @ q @ '':'' @ q @
        i_name i @ q @ ''}'')"

definition CoderAuthCallback ::
    "config \<Rightarrow> ext \<Rightarrow> string \<Rightarrow> vstore \<Rightarrow> st \<Rightarrow> unit response \<times> vstore \<times> st" where
  "CoderAuthCallback cfg x sid v s =
     (if sid = '''' then (Json (Failure ''Session ID is required''), v, s)
      else case GetVSCodeAuthSession (x_now x) sid v of
        (Inl e, v) \<Rightarrow> (Json (Failure ''Invalid or expired session''), v, s)
      | (Inr session, v) \<Rightarrow>
          (if v_provider session \<noteq> ''coder'' then (Json (Failure ''Invalid provider for this callback''), v, s)
           else case findOrCreateCoderUser cfg x mock_coder_user s of
             (Inl e, s) \<Rightarrow> (Json (Failure ''Failed to authenticate user''), v, s)
           | (Inr u, s) \<Rightarrow>
               (case GetOrCreateUserDefaultToken (u_id u) ''Coder Integration'' s of
                  (Inl e, s) \<Rightarrow> (Json (Failure ''Failed to create API token''), v, s)
                | (Inr t, s) \<Rightarrow>
                    (case UpdateVSCodeAuthSession (x_now x) sid
                        [(''status'', UStr ''completed''), (''api_token'', UStr (t_key t)),
                         (''token_name'', UStr (t_name t)), (''user_id'', UInt (u_id u)),
                         (''username'', UStr (u_username u)), (''display_name'', UStr (u_display_name u)),
                         (''external_user'', UStr (external_user_json mock_coder_user))] v of
                       (Some e, v) \<Rightarrow> (Json (Failure ''Failed to complete authentication''), v, s)
                     | (None, v) \<Rightarrow>
                         (Redirect (''/vscode/auth/success?session_id='' @ sid @ ''&provider=coder''), v, s)))))"

section \<open>An outside world for the examples\<close>

definition outside :: ext where
  "outside = \<lparr>x_now = 0, x_request_id = '''', x_uuid = ''u'', x_aff_code = ''a'', x_key = ''key'',
     x_hash = Inr, x_check = (=), x_invalid = (\<lambda>_. None), x_tr = (\<lambda>m. m)\<rparr>"

end
