(* ===== verification/Redeeming.thy ===== *)
theory Redeeming
  imports Logs Quota
begin

text \<open>
  \<^verbatim>\<open>model/redemption.go\<close> and \<^verbatim>\<open>controller/redemption.go\<close>: codes that add quota to the account of the
  user who redeems them, at most once, in one database transaction.
\<close>

section \<open>The model's operations\<close>

definition GetAllRedemptions :: "int \<Rightarrow> int \<Rightarrow> st \<Rightarrow> (string + redemption list) \<times> st" where
  "GetAllRedemptions startIdx num = db_find (\<lambda>s. page startIdx num (redemptions s))"

definition SearchRedemptions :: "(string \<Rightarrow> string \<Rightarrow> bool) \<Rightarrow> (int \<Rightarrow> string \<Rightarrow> bool) \<Rightarrow> string \<Rightarrow> st \<Rightarrow>
    (string + redemption list) \<times> st" where
  "SearchRedemptions like num_eq keyword =
     db_find (\<lambda>s. filter (\<lambda>r. num_eq (r_id r) keyword \<or> like (r_name r) (keyword @ ''%'')) (redemptions s))"

definition GetRedemptionById :: "int \<Rightarrow> st \<Rightarrow> (string + redemption) \<times> st" where
  "GetRedemptionById rid s =
     (if rid = 0 then (Inl ''id is empty!'', s)
      else db_first (\<lambda>s. find (\<lambda>r. r_id r = rid) (redemptions s)) s)"

definition redeem_body :: "int \<Rightarrow> string \<Rightarrow> int \<Rightarrow> st \<Rightarrow> (string + redemption) \<times> st" where
  "redeem_body now key userId s =
     (case db_first (\<lambda>s. find (\<lambda>r. r_key r = key) (redemptions s)) s of
        (Inl e, s) \<Rightarrow> (Inl ''Invalid redemption code'', s)
      | (Inr r, s) \<Rightarrow>
          (if r_status r \<noteq> RedemptionCodeStatusEnabled then (Inl ''This redemption code has been used'', s)
           else case db_exec (\<lambda>s. s\<lparr>users := bump u_id add_quota userId (r_quota r) (users s)\<rparr>) s of
             (Some e, s) \<Rightarrow> (Inl e, s)
           | (None, s) \<Rightarrow>
               (let r' = r\<lparr>r_redeemed_time := now, r_status := RedemptionCodeStatusUsed\<rparr>
                in case db_exec (\<lambda>s. s\<lparr>redemptions :=
                     update_where (\<lambda>x. r_id x = r_id r') (\<lambda>_. r') (redemptions s)\<rparr>) s of
                  (Some e, s) \<Rightarrow> (Inl e, s)
                | (None, s) \<Rightarrow> (Inr r', s))))"

definition Redeem :: "config \<Rightarrow> string \<Rightarrow> int \<Rightarrow> string \<Rightarrow> int \<Rightarrow> st \<Rightarrow> (string + int) \<times> st" where
  "Redeem cfg requestId now key userId s =
     (if key = '''' then (Inl ''Redemption code not provided'', s)
      else if userId = 0 then (Inl ''Invalid user id'', s)
      else case db_transaction (redeem_body now key userId) s of
        (Inl e, s) \<Rightarrow> (Inl (''Redemption failed, '' @ e), s)
      | (Inr r, s) \<Rightarrow> (Inr (r_quota r), RecordLog cfg requestId now userId LogTypeTopup
          (''Top up via redemption code '' @ LogQuota cfg (r_quota r)) s))"

text \<open>
  \<open>Create\<close> lets the schema fill in a zero status (1) and a zero quota (100), refuses a key that
  exists, and gives the row the next identifier.
\<close>

definition Insert_redemption :: "redemption \<Rightarrow> st \<Rightarrow> string option \<times> st" where
  "Insert_redemption r =
     db_try (\<lambda>s.
       if r_key r \<in> r_key ` set (redemptions s) then Inl ErrDuplicatedKey
       else Inr (s\<lparr>redemptions := redemptions s @ [r\<lparr>r_id := next_id s,
           r_status := (if r_status r = 0 then 1 else r_status r),
           r_quota := (if r_quota r = 0 then 100 else r_quota r)\<rparr>],
         next_id := next_id s + 1\<rparr>))"

definition SelectUpdate_redemption :: "redemption \<Rightarrow> st \<Rightarrow> string option \<times> st" where
  "SelectUpdate_redemption r =
     db_exec (\<lambda>s. s\<lparr>redemptions := update_where (\<lambda>x. r_id x = r_id r)
       (\<lambda>x. x\<lparr>r_redeemed_time := r_redeemed_time r, r_status := r_status r\<rparr>) (redemptions s)\<rparr>)"

definition Update_redemption :: "redemption \<Rightarrow> st \<Rightarrow> string option \<times> st" where
  "Update_redemption r =
     db_exec (\<lambda>s. s\<lparr>redemptions := update_where (\<lambda>x. r_id x = r_id r)
       (\<lambda>x. x\<lparr>r_name := r_name r, r_status := r_status r, r_quota := r_quota r,
          r_redeemed_time := r_redeemed_time r\<rparr>) (redemptions s)\<rparr>)"

definition Delete_redemption :: "redemption \<Rightarrow> st \<Rightarrow> string option \<times> st" where
  "Delete_redemption r =
     db_exec (\<lambda>s. s\<lparr>redemptions := delete_where (\<lambda>x. r_id x = r_id r) (redemptions s)\<rparr>)"

definition DeleteRedemptionById :: "int \<Rightarrow> st \<Rightarrow> string option \<times> st" where
  "DeleteRedemptionById rid s =
     (if rid = 0 then (Some ''id is empty!'', s)
      else case db_first (\<lambda>s. find (\<lambda>r. r_id r = rid) (redemptions s)) s of
        (Inl e, s) \<Rightarrow> (Some e, s)
      | (Inr r, s) \<Rightarrow> Delete_redemption r s)"


section \<open>Handlers\<close>

text \<open>
  The body of a request, as \<open>ShouldBindJSON\<close> leaves it: an error or the struct, with its field
  \<open>Count\<close> that no column stores. \<open>uuid i\<close> is the \<open>i\<close>-th identifier drawn.
\<close>

type_synonym redemption_body = "string + redemption \<times> int"

definition zero_redemption :: redemption where
  "zero_redemption = \<lparr>r_id = 0, r_user_id = 0, r_key = '''', r_status = 0, r_name = '''', r_quota = 0,
     r_created_time = 0, r_redeemed_time = 0\<rparr>"

definition handle_GetAllRedemptions :: "config \<Rightarrow> string \<Rightarrow> st \<Rightarrow> redemption list reply \<times> st" where
  "handle_GetAllRedemptions cfg p s =
     answer (GetAllRedemptions (wrap64 (query_page p * ItemsPerPage cfg)) (ItemsPerPage cfg) s)"

definition handle_SearchRedemptions :: "(string \<Rightarrow> string \<Rightarrow> bool) \<Rightarrow> (int \<Rightarrow> string \<Rightarrow> bool) \<Rightarrow> string \<Rightarrow> st \<Rightarrow>
    redemption list reply \<times> st" where
  "handle_SearchRedemptions like num_eq keyword s = answer (SearchRedemptions like num_eq keyword s)"

definition handle_GetRedemption :: "string \<Rightarrow> st \<Rightarrow> redemption reply \<times> st" where
  "handle_GetRedemption param s =
     (case parse_ok (ParseInt param) of
        None \<Rightarrow> (Failure (''strconv.Atoi: parsing '' @ param), s)
      | Some rid \<Rightarrow> answer (GetRedemptionById rid s))"

text \<open>The codes of the insertions that went through are part of the answer even when a later one fails.\<close>

fun insert_codes :: "(nat \<Rightarrow> string) \<Rightarrow> redemption \<Rightarrow> nat \<Rightarrow> nat \<Rightarrow> string list \<Rightarrow> st \<Rightarrow>
    (string option \<times> string list) \<times> st" where
  "insert_codes uuid r 0 i keys s = ((None, keys), s)"
| "insert_codes uuid r (Suc n) i keys s =
     (case Insert_redemption (r\<lparr>r_key := uuid i\<rparr>) s of
        (Some e, s) \<Rightarrow> ((Some e, keys), s)
      | (None, s) \<Rightarrow> insert_codes uuid r n (i + 1) (keys @ [uuid i]) s)"

definition AddRedemption :: "(nat \<Rightarrow> string) \<Rightarrow> int \<Rightarrow> int \<Rightarrow> redemption_body \<Rightarrow> st \<Rightarrow>
    (string option \<times> string list) \<times> st" where
  "AddRedemption uuid now userId body s =
     (case body of
        Inl e \<Rightarrow> ((Some e, []), s)
      | Inr (r, cnt) \<Rightarrow>
          (if r_name r = '''' \<or> 20 < length (r_name r)
           then ((Some ''Redemption code name length must be between 1-20'', []), s)
           else if cnt \<le> 0 then ((Some ''Number of redemption codes must be greater than 0'', []), s)
           else if 100 < cnt then ((Some ''Cannot generate more than 100 redemption codes at once'', []), s)
           else insert_codes uuid (zero_redemption\<lparr>r_user_id := userId, r_name := r_name r,
                  r_created_time := now, r_quota := r_quota r\<rparr>) (nat cnt) 0 [] s))"

definition done_or_failed :: "string option \<times> st \<Rightarrow> unit reply \<times> st" where
  "done_or_failed r = (case r of (None, s) \<Rightarrow> (Success (), s) | (Some e, s) \<Rightarrow> (Failure e, s))"

definition handle_DeleteRedemption :: "string \<Rightarrow> st \<Rightarrow> unit reply \<times> st" where
  "handle_DeleteRedemption param s = done_or_failed (DeleteRedemptionById (parse_value (ParseInt param)) s)"

definition UpdateRedemption :: "string \<Rightarrow> redemption_body \<Rightarrow> st \<Rightarrow> redemption reply \<times> st" where
  "UpdateRedemption statusOnly body s =
     (case body of
        Inl e \<Rightarrow> (Failure e, s)
      | Inr (r, cnt) \<Rightarrow>
          (case GetRedemptionById (r_id r) s of
             (Inl e, s) \<Rightarrow> (Failure e, s)
           | (Inr clean, s) \<Rightarrow>
               (let clean = (if statusOnly \<noteq> '''' then clean\<lparr>r_status := r_status r\<rparr>
                             else clean\<lparr>r_name := r_name r, r_quota := r_quota r\<rparr>)
                in case Update_redemption clean s of
                  (Some e, s) \<Rightarrow> (Failure e, s)
                | (None, s) \<Rightarrow> (Success clean, s))))"


section \<open>Redemption is a transaction\<close>

text \<open>The part of the database a redemption is about.\<close>

definition same_accounts :: "st \<Rightarrow> st \<Rightarrow> bool" where
  "same_accounts s s' \<longleftrightarrow> users s' = users s \<and> redemptions s' = redemptions s"

definition mark_used :: "int \<Rightarrow> redemption \<Rightarrow> redemption list \<Rightarrow> redemption list" where
  "mark_used now r = update_where (\<lambda>x. r_id x = r_id r)
     (\<lambda>_. r\<lparr>r_redeemed_time := now, r_status := RedemptionCodeStatusUsed\<rparr>)"

definition credited :: "int \<Rightarrow> string \<Rightarrow> int \<Rightarrow> redemption \<Rightarrow> st \<Rightarrow> st \<Rightarrow> bool" where
  "credited now key userId r s s' \<longleftrightarrow>
     find (\<lambda>r. r_key r = key) (redemptions s) = Some r \<and> r_status r = RedemptionCodeStatusEnabled \<and>
     users s' = bump u_id add_quota userId (r_quota r) (users s) \<and>
     redemptions s' = mark_used now r (redemptions s)"

lemma RecordLog_accounts: "same_accounts s (RecordLog cfg rid now uid ty c s)"
proof -
  have "same_accounts s' (recordLogHelper rid l s')" for l s'
    using db_exec_cases [of "\<lambda>s. s\<lparr>logs := logs s @ [l\<lparr>l_request_id := rid, l_id := next_id s\<rparr>],
        next_id := next_id s + 1\<rparr>" s']
    by (cases "db_exec (\<lambda>s. s\<lparr>logs := logs s @ [l\<lparr>l_request_id := rid, l_id := next_id s\<rparr>],
        next_id := next_id s + 1\<rparr>) s'") (fastforce simp: same_accounts_def recordLogHelper_def)
  moreover have "same_accounts s (snd (GetUsernameById uid s))"
    by (auto simp: same_accounts_def GetUsernameById_def split: prod.split sum.split
        dest: db_find_Inl db_find_Inr)
  ultimately show ?thesis
    by (auto simp: RecordLog_def same_accounts_def split: prod.splits)
qed

lemma redeem_body_Inr:
  assumes "redeem_body now key userId s = (Inr r', s')"
  shows "\<exists>r. credited now key userId r s s' \<and> r_quota r' = r_quota r"
  using assms
  by (auto simp: redeem_body_def credited_def mark_used_def Let_def
      split: prod.splits sum.splits if_splits option.splits dest!: db_first_Inr db_exec_cases)

lemma db_transaction_Inl:
  assumes "db_transaction body s = (Inl e, s')"
  shows "same_accounts s s'"
  using assms
  by (auto simp: db_transaction_def same_accounts_def rollback_def
      split: prod.splits sum.splits option.splits dest!: db_exec_cases)

lemma db_transaction_Inr:
  assumes "db_transaction body s = (Inr x, s')"
  shows "\<exists>r r' s2. body (s\<lparr>db_faults := r\<rparr>) = (Inr x, s2) \<and> s' = s2\<lparr>db_faults := r'\<rparr>"
  using assms
  by (fastforce simp: db_transaction_def split: prod.splits sum.splits option.splits dest!: db_exec_cases)

lemma Redeem_Inr:
  assumes "Redeem cfg rid now key userId s = (Inr q, s')"
  shows "\<exists>r. credited now key userId r s s' \<and> q = r_quota r \<and> key \<noteq> '''' \<and> userId \<noteq> 0"
proof -
  from assms obtain r' s2 where t: "db_transaction (redeem_body now key userId) s = (Inr r', s2)"
    and q: "q = r_quota r'" and acc: "same_accounts s2 s'" and ne: "key \<noteq> ''''" "userId \<noteq> 0"
    using RecordLog_accounts
    by (fastforce simp: Redeem_def split: if_splits prod.splits sum.splits)
  from db_transaction_Inr [OF t] obtain f f' s3 where b: "redeem_body now key userId (s\<lparr>db_faults := f\<rparr>) = (Inr r', s3)"
    and s2: "s2 = s3\<lparr>db_faults := f'\<rparr>" by blast
  from redeem_body_Inr [OF b] show ?thesis
    using acc s2 q ne by (auto simp: credited_def same_accounts_def)
qed

lemma Redeem_Inl: "Redeem cfg rid now key userId s = (Inl e, s') \<Longrightarrow> same_accounts s s'"
  by (auto simp: Redeem_def same_accounts_def split: if_splits prod.splits sum.splits
      dest!: db_transaction_Inl)

section \<open>Properties\<close>

definition unique_codes :: "st \<Rightarrow> bool" where
  "unique_codes s \<longleftrightarrow> distinct (map r_id (redemptions s)) \<and> distinct (map r_key (redemptions s))"

lemma mark_used_unique:
  assumes "distinct (map r_id rs)" and "r \<in> set rs"
  shows "mark_used now r rs =
    map (\<lambda>x. if x = r then r\<lparr>r_redeemed_time := now, r_status := RedemptionCodeStatusUsed\<rparr> else x) rs"
  using assms by (auto simp: mark_used_def update_where_def inj_on_def distinct_map)

lemma mark_used_keys: "r \<in> set rs \<Longrightarrow> distinct (map r_id rs) \<Longrightarrow>
    map r_id (mark_used now r rs) = map r_id rs \<and> map r_key (mark_used now r rs) = map r_key rs"
  by (auto simp: mark_used_unique)

lemma find_mark_used:
  assumes "distinct (map r_id rs)" and "find (\<lambda>x. r_key x = key) rs = Some r"
  shows "find (\<lambda>x. r_key x = k) (mark_used now r rs) =
    (if k = key then Some (r\<lparr>r_redeemed_time := now, r_status := RedemptionCodeStatusUsed\<rparr>)
     else find (\<lambda>x. r_key x = k) rs)"
proof -
  have r: "r \<in> set rs" "r_key r = key" using find_SomeD [OF assms(2)] by simp_all
  have other: "find (\<lambda>x. r_key x = k) (map (\<lambda>x. if x = r then r\<lparr>r_redeemed_time := now, r_status := 3\<rparr> else x) xs) =
      find (\<lambda>x. r_key x = k) xs" if "k \<noteq> key" for xs
    using that r(2) by (induction xs) auto
  have same: "find (\<lambda>x. r_key x = key) (map (\<lambda>x. if x = r then r\<lparr>r_redeemed_time := now, r_status := 3\<rparr> else x) xs) =
      Some (r\<lparr>r_redeemed_time := now, r_status := 3\<rparr>)" if "find (\<lambda>x. r_key x = key) xs = Some r" for xs
    using that r(2) by (induction xs) (auto split: if_splits)
  show ?thesis
    unfolding mark_used_unique [OF assms(1) r(1)] using other same [OF assms(2)] by simp
qed

text \<open>A history of redemption attempts: the request id, the time, the code and the user.\<close>

type_synonym attempt = "string \<times> int \<times> string \<times> int"

fun redeem_all :: "config \<Rightarrow> attempt list \<Rightarrow> st \<Rightarrow> (string + int) list \<times> st" where
  "redeem_all cfg [] s = ([], s)"
| "redeem_all cfg ((rid, now, key, uid) # as) s =
     (case Redeem cfg rid now key uid s of (r, s1) \<Rightarrow>
        (case redeem_all cfg as s1 of (rs, s2) \<Rightarrow> (r # rs, s2)))"

definition successes :: "string \<Rightarrow> attempt list \<Rightarrow> (string + int) list \<Rightarrow> nat" where
  "successes k as rs =
     length (filter (\<lambda>((rid, now, key, uid), r). key = k \<and> \<not> isl r) (zip as rs))"

definition code_used :: "string \<Rightarrow> st \<Rightarrow> bool" where
  "code_used k s \<longleftrightarrow>
     (\<exists>r. find (\<lambda>r. r_key r = k) (redemptions s) = Some r \<and> r_status r = RedemptionCodeStatusUsed)"

lemma Redeem_step:
  assumes "Redeem cfg rid now key uid s = (r, s')" and "unique_codes s"
  shows "unique_codes s' \<and> (code_used k s \<longrightarrow> code_used k s' \<and> (key = k \<longrightarrow> isl r)) \<and>
    (\<not> isl r \<longrightarrow> key = k \<longrightarrow> code_used k s')"
proof (cases r)
  case (Inl e)
  with assms Redeem_Inl [of cfg rid now key uid s e s'] show ?thesis
    by (auto simp: same_accounts_def unique_codes_def code_used_def)
next
  case (Inr q)
  with assms obtain c where c: "credited now key uid c s s'" using Redeem_Inr by blast
  then have "find (\<lambda>r. r_key r = key) (redemptions s) = Some c"
    and red: "redemptions s' = mark_used now c (redemptions s)" and en: "r_status c = 1"
    by (simp_all add: credited_def)
  moreover have "distinct (map r_id (redemptions s))" using assms(2) by (simp add: unique_codes_def)
  ultimately have f: "\<And>k. find (\<lambda>x. r_key x = k) (redemptions s') =
      (if k = key then Some (c\<lparr>r_redeemed_time := now, r_status := RedemptionCodeStatusUsed\<rparr>)
       else find (\<lambda>x. r_key x = k) (redemptions s))"
    by (simp add: find_mark_used)
  have "unique_codes s'"
    using assms(2) mark_used_keys find_SomeD [OF \<open>find _ _ = Some c\<close>] by (simp add: unique_codes_def red)
  with f en \<open>find _ _ = Some c\<close> show ?thesis by (auto simp: code_used_def Inr)
qed

lemma redeem_used:
  "unique_codes s \<Longrightarrow> code_used k s \<Longrightarrow> successes k as (fst (redeem_all cfg as s)) = 0"
proof (induction as arbitrary: s)
  case (Cons a as)
  obtain rid now key uid where a: "a = (rid, now, key, uid)" by (cases a)
  obtain r s1 where st: "Redeem cfg rid now key uid s = (r, s1)" by fastforce
  obtain rs' s2 where re: "redeem_all cfg as s1 = (rs', s2)" by fastforce
  note step = Redeem_step [OF st Cons.prems(1), of k]
  have "successes k as rs' = 0" using Cons.IH [of s1] Cons.prems step re by simp
  then show ?case using Cons.prems(2) step by (auto simp: successes_def a st re)
qed (simp add: successes_def)

text \<open>A code is redeemed at most once: over any history of attempts, by any users, with any of
  their database statements failing, no code is accepted twice, and a code that was used at the
  start is never accepted.\<close>

theorem redeem_at_most_once:
  assumes "unique_codes s"
  shows "successes k as (fst (redeem_all cfg as s)) \<le> (if code_used k s then 0 else 1)"
  using assms
proof (induction as arbitrary: s)
  case Nil
  then show ?case by (simp add: successes_def)
next
  case (Cons a as)
  obtain rid now key uid where a: "a = (rid, now, key, uid)" by (cases a)
  obtain r s1 where st: "Redeem cfg rid now key uid s = (r, s1)" by fastforce
  obtain rs' s2 where re: "redeem_all cfg as s1 = (rs', s2)" by fastforce
  note step = Redeem_step [OF st Cons.prems, of k]
  then have "successes k as rs' \<le> (if code_used k s1 then 0 else 1)"
    using Cons.IH [of s1] re by simp
  then show ?case using step by (auto simp: successes_def a st re split: if_splits)
qed

definition demo_code :: redemption where
  "demo_code = zero_redemption\<lparr>r_id := 1, r_key := ''abc'', r_status := 1, r_quota := 500\<rparr>"

definition demo_codes :: st where
  "demo_codes = empty_st\<lparr>users := [\<lparr>u_id = 1, u_username = ''u'', u_password = '''', u_display_name = '''',
     u_role = 1, u_status = 1, u_email = '''', u_github_id = '''', u_lark_id = '''', u_oidc_id = '''',
     u_access_token = '''', u_quota = 100, u_used_quota = 0, u_request_count = 0,
     u_group = ''default'', u_aff_code = '''', u_inviter_id = 0\<rparr>], redemptions := [demo_code]\<rparr>"

theorem redeem_at_most_once_witness:
  "successes ''abc'' [(''r1'', 5, ''abc'', 1), (''r2'', 6, ''abc'', 1)]
     (fst (redeem_all (init_config (\<lambda>_. [])) [(''r1'', 5, ''abc'', 1), (''r2'', 6, ''abc'', 1)] demo_codes)) \<le> 1"
proof -
  have "unique_codes demo_codes" "\<not> code_used ''abc'' demo_codes"
    by (simp_all add: unique_codes_def code_used_def demo_codes_def empty_st_def demo_code_def)
  then show ?thesis
    using redeem_at_most_once [of demo_codes "''abc''" "[(''r1'', 5, ''abc'', 1), (''r2'', 6, ''abc'', 1)]"]
    by (simp only: if_False)
qed

text \<open>C23: A redemption is all or nothing: when it succeeds, the code was enabled and carries the time
  of the redemption and the used status, the user has the code's quota more and nobody else has
  anything different; when it fails, at whichever statement, users and codes are as before.\<close>

theorem redeem_all_or_nothing:
  assumes "Redeem cfg rid now key uid s = (r, s')" and "unique_codes s"
    and "find (\<lambda>u. u_id u = uid) (users s) \<noteq> None"
  shows "case r of
      Inl e \<Rightarrow> users s' = users s \<and> redemptions s' = redemptions s
    | Inr q \<Rightarrow> (\<exists>c. find (\<lambda>c. r_key c = key) (redemptions s) = Some c \<and>
        r_status c = RedemptionCodeStatusEnabled \<and> q = r_quota c \<and>
        find (\<lambda>c. r_key c = key) (redemptions s') =
          Some (c\<lparr>r_redeemed_time := now, r_status := RedemptionCodeStatusUsed\<rparr>) \<and>
        quota_of uid s' = quota_of uid s + q \<and>
        (\<forall>v. v \<noteq> uid \<longrightarrow> quota_of v s' = quota_of v s))"
proof (cases r)
  case (Inl e)
  with assms Redeem_Inl [of cfg rid now key uid s e s'] show ?thesis by (simp add: same_accounts_def)
next
  case (Inr q)
  with assms obtain c where c: "credited now key uid c s s'" and q: "q = r_quota c" using Redeem_Inr by blast
  have u: "users s' = bump u_id add_quota uid q (users s)" using c q by (simp add: credited_def)
  show ?thesis
    using c q assms(2,3)
    by (auto simp: Inr credited_def unique_codes_def find_mark_used quota_of_bump [OF u])
qed

theorem redeem_all_or_nothing_witness:
  "fst (Redeem (init_config (\<lambda>_. [])) ''r'' 5 ''abc'' 1 demo_codes) = Inr 500 \<and>
   quota_of 1 (snd (Redeem (init_config (\<lambda>_. [])) ''r'' 5 ''abc'' 1 demo_codes)) = 600"
proof -
  have u: "unique_codes demo_codes" "find (\<lambda>u. u_id u = 1) (users demo_codes) \<noteq> None"
    "quota_of 1 demo_codes = 100"
    by (simp_all add: unique_codes_def demo_codes_def empty_st_def demo_code_def user_column_def)
  have ok: "fst (Redeem (init_config (\<lambda>_. [])) ''r'' 5 ''abc'' 1 demo_codes) = Inr 500"
    by (simp add: Redeem_def db_transaction_def redeem_body_def demo_codes_def empty_st_def demo_code_def Let_def)
  obtain r s' where st: "Redeem (init_config (\<lambda>_. [])) ''r'' 5 ''abc'' 1 demo_codes = (r, s')" by fastforce
  have "r = Inr 500" using ok st by simp
  with redeem_all_or_nothing [OF st u(1,2)] show ?thesis by (auto simp: st u(3))
qed

end
