(* ===== verification/UserAdmin.thy ===== *)
theory UserAdmin
  imports Sessions Redeeming
begin

text \<open>
  \<^verbatim>\<open>controller/user.go\<close> without the login (theory \<open>Sessions\<close>): registration, the account's own pages,
  and the administration of other accounts. The role and the identifier of the caller are those the
  authentication (theory \<open>Auth\<close>) found. Handlers with a namesake in package \<^verbatim>\<open>model\<close> carry the prefix
  \<open>handle_\<close>.
\<close>

section \<open>Registration\<close>

text \<open>The body: an account and the code sent to its email address. \<open>nanos\<close> is the time in nanoseconds.\<close>

definition Register ::
    "config \<Rightarrow> ext \<Rightarrow> int \<Rightarrow> string \<Rightarrow> string + user \<times> string \<Rightarrow> codes \<Rightarrow> st \<Rightarrow> unit reply \<times> st" where
  "Register cfg x nanos source body m s =
     (if \<not> RegisterEnabled cfg then (Failure ''Administrator has disabled new user registration'', s)
      else if \<not> PasswordRegisterEnabled cfg
        then (Failure ''Administrator has disabled password registration, please use third-party account verification for registration'', s)
      else if \<not> valid_source source then (Failure (x_tr x ''invalid_parameter''), s)
      else case body of
        Inl e \<Rightarrow> (Failure (x_tr x ''invalid_parameter''), s)
      | Inr (u, code) \<Rightarrow>
          (if x_invalid x u \<noteq> None then (Failure (x_tr x ''invalid_input''), s)
           else if EmailVerificationEnabled cfg \<and> (u_email u = '''' \<or> code = '''')
             then (Failure ''Administrator has enabled email verification, please enter email address and verification code'', s)
           else if EmailVerificationEnabled cfg \<and>
               \<not> VerifyCodeWithKey nanos (u_email u) code EmailVerificationPurpose m
             then (Failure ''Verification code is incorrect or expired'', s)
           else case GetUserIdByAffCode (u_aff_code u) s of
             (r, s) \<Rightarrow>
               (let inviterId = (case r of Inl _ \<Rightarrow> 0 | Inr i \<Rightarrow> i);
                    clean = zero_user\<lparr>u_username := u_username u, u_password := u_password u,
                      u_display_name := u_username u, u_inviter_id := inviterId,
                      u_email := (if EmailVerificationEnabled cfg then u_email u else '''')\<rparr>
                in case Insert_user cfg x inviterId clean s of
                     (Inl e, s) \<Rightarrow> (Failure e, s)
                   | (Inr _, s) \<Rightarrow> (Success (), s))))"


section \<open>Listing and reading\<close>

definition handle_GetAllUsers :: "config \<Rightarrow> string \<Rightarrow> string \<Rightarrow> st \<Rightarrow> user list reply \<times> st" where
  "handle_GetAllUsers cfg p order s =
     answer (GetAllUsers (wrap64 (query_page p * ItemsPerPage cfg)) (ItemsPerPage cfg) order s)"

definition handle_SearchUsers :: "(string \<Rightarrow> string \<Rightarrow> bool) \<Rightarrow> (int \<Rightarrow> string \<Rightarrow> bool) \<Rightarrow> bool \<Rightarrow> string \<Rightarrow> st \<Rightarrow>
    user list reply \<times> st" where
  "handle_SearchUsers like num_eq postgres keyword s = answer (SearchUsers like num_eq postgres keyword s)"

definition GetUser :: "int \<Rightarrow> string \<Rightarrow> st \<Rightarrow> user reply \<times> st" where
  "GetUser myRole param s =
     (case parse_ok (ParseInt param) of
        None \<Rightarrow> (Failure (''strconv.Atoi: parsing '' @ param), s)
      | Some uid \<Rightarrow>
          (case GetUserById uid False s of
             (Inl e, s) \<Rightarrow> (Failure e, s)
           | (Inr u, s) \<Rightarrow>
               (if myRole \<le> u_role u \<and> myRole \<noteq> RoleRootUser
                then (Failure ''No permission to access information of users with same or higher privilege level'', s)
                else (Success u, s))))"

text \<open>The last seven days; \<open>add_days\<close> is \<open>AddDate\<close> in the server's time zone, times in seconds.\<close>

definition GetUserDashboard ::
    "(int \<Rightarrow> string) \<Rightarrow> (int \<Rightarrow> int \<Rightarrow> int) \<Rightarrow> int \<Rightarrow> int \<Rightarrow> st \<Rightarrow> LogStatistic list reply \<times> st" where
  "GetUserDashboard day_of add_days now uid s =
     (let today = now - now mod 86400
      in case SearchLogsByDayAndModel day_of uid (add_days (- 6) today) (today + 86400 - 1) s of
           (Inl e, s) \<Rightarrow> (Failure ''Unable to retrieve statistics'', s)
         | (Inr d, s) \<Rightarrow> (Success d, s))"

definition GetSelf :: "int \<Rightarrow> st \<Rightarrow> user reply \<times> st" where
  "GetSelf uid s = answer (GetUserById uid False s)"


section \<open>The caller's own account\<close>

definition update_reply :: "'a \<Rightarrow> string option \<times> st \<Rightarrow> 'a reply \<times> st" where
  "update_reply a r = (case r of (Some e, s) \<Rightarrow> (Failure e, s) | (None, s) \<Rightarrow> (Success a, s))"

text \<open>
  The check for a duplicate passes a struct whose identifier is set, and gorm adds the identifier to
  the condition: only the account's own token is compared.
\<close>

definition write_access_token :: "ext \<Rightarrow> user \<Rightarrow> st \<Rightarrow> string reply \<times> st" where
  "write_access_token x u s =
     (let u = u\<lparr>u_access_token := x_uuid x\<rparr>
      in case db_first (\<lambda>s. find (\<lambda>r. u_access_token r = x_uuid x \<and> u_id r = u_id u) (users s)) s of
           (Inr _, s) \<Rightarrow> (Failure ''Please try again, the system-generated UUID is duplicated!'', s)
         | (Inl _, s) \<Rightarrow> update_reply (x_uuid x) (Update_user x False u s))"

definition GenerateAccessToken :: "ext \<Rightarrow> int \<Rightarrow> st \<Rightarrow> string reply \<times> st" where
  "GenerateAccessToken x uid s =
     (case GetUserById uid True s of
        (Inl e, s) \<Rightarrow> (Failure e, s)
      | (Inr u, s) \<Rightarrow> write_access_token x u s)"

definition GetAffCode :: "ext \<Rightarrow> int \<Rightarrow> st \<Rightarrow> string reply \<times> st" where
  "GetAffCode x uid s =
     (case GetUserById uid True s of
        (Inl e, s) \<Rightarrow> (Failure e, s)
      | (Inr u, s) \<Rightarrow>
          (if u_aff_code u = ''''
           then update_reply (x_aff_code x) (Update_user x False (u\<lparr>u_aff_code := x_aff_code x\<rparr>) s)
           else (Success (u_aff_code u), s)))"

definition keep_password :: string where
  "keep_password = ''$I_LOVE_U''"

definition UpdateSelf :: "ext \<Rightarrow> int \<Rightarrow> string + user \<Rightarrow> st \<Rightarrow> unit reply \<times> st" where
  "UpdateSelf x uid body s =
     (case body of
        Inl e \<Rightarrow> (Failure (x_tr x ''invalid_parameter''), s)
      | Inr u \<Rightarrow>
          (let u = (if u_password u = '''' then u\<lparr>u_password := keep_password\<rparr> else u)
           in case x_invalid x u of
                Some e \<Rightarrow> (Failure (''Invalid input '' @ e), s)
              | None \<Rightarrow>
                  (let password = (if u_password u = keep_password then '''' else u_password u);
                       clean = zero_user\<lparr>u_id := uid, u_username := u_username u, u_password := password,
                         u_display_name := u_display_name u\<rparr>
                   in update_reply () (Update_user x (password \<noteq> '''') clean s))))"

text \<open>An error of the query is dropped, the role then counts as 0. \<open>None\<close>: for the identifier 0 the
  handler dereferences a nil pointer.\<close>

definition DeleteSelf :: "ext \<Rightarrow> int \<Rightarrow> st \<Rightarrow> (unit reply \<times> st) option" where
  "DeleteSelf x uid s =
     (if uid = 0 then None
      else case GetUserById uid False s of
        (r, s) \<Rightarrow>
          (let role = (case r of Inl _ \<Rightarrow> 0 | Inr u \<Rightarrow> u_role u)
           in if role = RoleRootUser then Some (Failure ''Cannot delete super administrator account'', s)
              else Some (update_reply () (DeleteUserById x uid s))))"

text \<open>The configuration is returned with the email address of the root user.\<close>

definition EmailBind ::
    "config \<Rightarrow> ext \<Rightarrow> int \<Rightarrow> int \<Rightarrow> string \<Rightarrow> string \<Rightarrow> codes \<Rightarrow> st \<Rightarrow> unit reply \<times> config \<times> st" where
  "EmailBind cfg x nanos uid email code m s =
     (if \<not> VerifyCodeWithKey nanos email code EmailVerificationPurpose m
      then (Failure ''Verification code is incorrect or expired'', cfg, s)
      else case FillUserById (zero_user\<lparr>u_id := uid\<rparr>) s of
        (Inl e, s) \<Rightarrow> (Failure e, cfg, s)
      | (Inr u, s) \<Rightarrow>
          (case Update_user x False (u\<lparr>u_email := email\<rparr>) s of
             (Some e, s) \<Rightarrow> (Failure e, cfg, s)
           | (None, s) \<Rightarrow>
               (Success (), if u_role u = RoleRootUser then cfg\<lparr>RootUserEmail := email\<rparr> else cfg, s)))"

definition TopUp :: "config \<Rightarrow> ext \<Rightarrow> int \<Rightarrow> string + string \<Rightarrow> st \<Rightarrow> int reply \<times> st" where
  "TopUp cfg x uid body s =
     (case body of
        Inl e \<Rightarrow> (Failure e, s)
      | Inr key \<Rightarrow> answer (Redeem cfg (x_request_id x) (x_now x) key uid s))"


section \<open>Administration\<close>

definition UpdateUser :: "config \<Rightarrow> ext \<Rightarrow> int \<Rightarrow> string + user \<Rightarrow> st \<Rightarrow> unit reply \<times> st" where
  "UpdateUser cfg x myRole body s =
     (case body of
        Inl e \<Rightarrow> (Failure (x_tr x ''invalid_parameter''), s)
      | Inr new \<Rightarrow>
          (let new = (if u_password new = '''' then new\<lparr>u_password := keep_password\<rparr> else new)
           in if u_id new = 0 then (Failure (x_tr x ''invalid_parameter''), s)
              else if x_invalid x new \<noteq> None then (Failure (x_tr x ''invalid_input''), s)
              else case GetUserById (u_id new) False s of
                (Inl e, s) \<Rightarrow> (Failure e, s)
              | (Inr origin, s) \<Rightarrow>
                  (if myRole \<le> u_role origin \<and> myRole \<noteq> RoleRootUser
                   then (Failure ''No permission to update user information of same or higher privilege level'', s)
                   else if myRole \<le> u_role new \<and> myRole \<noteq> RoleRootUser
                   then (Failure ''No permission to elevate other users' privilege level to equal or higher than your own'', s)
                   else let new = (if u_password new = keep_password then new\<lparr>u_password := ''''\<rparr> else new)
                        in case Update_user x (u_password new \<noteq> '''') new s of
                          (Some e, s) \<Rightarrow> (Failure e, s)
                        | (None, s) \<Rightarrow>
                            (Success (),
                             if u_quota origin = u_quota new then s
                             else RecordLog cfg (x_request_id x) (x_now x) (u_id origin) LogTypeManage
                               (''Administrator changed user quota from '' @ LogQuota cfg (u_quota origin) @
                                '' to '' @ LogQuota cfg (u_quota new)) s))))"

text \<open>The answer: none at all after a deletion, and success after a deletion that failed.\<close>

definition DeleteUser :: "ext \<Rightarrow> int \<Rightarrow> string \<Rightarrow> st \<Rightarrow> unit reply option \<times> st" where
  "DeleteUser x myRole param s =
     (case parse_ok (ParseInt param) of
        None \<Rightarrow> (Some (Failure (''strconv.Atoi: parsing '' @ param)), s)
      | Some uid \<Rightarrow>
          (case GetUserById uid False s of
             (Inl e, s) \<Rightarrow> (Some (Failure e), s)
           | (Inr origin, s) \<Rightarrow>
               (if myRole \<le> u_role origin
                then (Some (Failure ''No permission to delete users with same or higher permission level''), s)
                else case DeleteUserById x uid s of
                  (Some e, s) \<Rightarrow> (Some (Success ()), s)
                | (None, s) \<Rightarrow> (None, s))))"

definition CreateUser :: "config \<Rightarrow> ext \<Rightarrow> int \<Rightarrow> string + user \<Rightarrow> st \<Rightarrow> unit reply \<times> st" where
  "CreateUser cfg x myRole body s =
     (case body of
        Inl e \<Rightarrow> (Failure (x_tr x ''invalid_parameter''), s)
      | Inr u \<Rightarrow>
          (if u_username u = '''' \<or> u_password u = '''' then (Failure (x_tr x ''invalid_parameter''), s)
           else if x_invalid x u \<noteq> None then (Failure (x_tr x ''invalid_input''), s)
           else let u = (if u_display_name u = '''' then u\<lparr>u_display_name := u_username u\<rparr> else u)
                in if myRole \<le> u_role u
                   then (Failure ''Cannot create users with privilege level greater than or equal to your own'', s)
                   else case Insert_user cfg x 0 (zero_user\<lparr>u_username := u_username u,
                       u_password := u_password u, u_display_name := u_display_name u\<rparr>) s of
                     (Inl e, s) \<Rightarrow> (Failure e, s)
                   | (Inr _, s) \<Rightarrow> (Success (), s)))"

definition manage_action :: "ext \<Rightarrow> int \<Rightarrow> string \<Rightarrow> user \<Rightarrow> st \<Rightarrow> (string + user) \<times> st" where
  "manage_action x myRole action u s =
     (if action = ''disable'' then
        (if u_role u = RoleRootUser then (Inl ''Cannot disable super administrator user'', s)
         else (Inr (u\<lparr>u_status := UserStatusDisabled\<rparr>), s))
      else if action = ''enable'' then (Inr (u\<lparr>u_status := UserStatusEnabled\<rparr>), s)
      else if action = ''delete'' then
        (if u_role u = RoleRootUser then (Inl ''Cannot delete super administrator user'', s)
         else case Delete_user x u s of
           (Some e, s) \<Rightarrow> (Inl e, s)
         | (None, s) \<Rightarrow> (Inr (deleted_user x u), s))
      else if action = ''promote'' then
        (if myRole \<noteq> RoleRootUser
         then (Inl ''Regular admin users cannot promote other users to administrator'', s)
         else if RoleAdminUser \<le> u_role u then (Inl ''This user is already an administrator'', s)
         else (Inr (u\<lparr>u_role := RoleAdminUser\<rparr>), s))
      else if action = ''demote'' then
        (if u_role u = RoleRootUser then (Inl ''Cannot demote super administrator user'', s)
         else if u_role u = RoleCommonUser then (Inl ''This user is already a regular user'', s)
         else (Inr (u\<lparr>u_role := RoleCommonUser\<rparr>), s))
      else (Inr u, s))"

text \<open>The body: a user name and an action. An empty name is no condition and selects the first account.\<close>

definition ManageUser :: "ext \<Rightarrow> int \<Rightarrow> string + string \<times> string \<Rightarrow> st \<Rightarrow> user reply \<times> st" where
  "ManageUser x myRole body s =
     (case body of
        Inl e \<Rightarrow> (Failure (x_tr x ''invalid_parameter''), s)
      | Inr (username, action) \<Rightarrow>
          (case fill_user (\<lambda>r. username = '''' \<or> u_username r = username) (zero_user\<lparr>u_username := username\<rparr>) s of
             (u, s) \<Rightarrow>
               (if u_id u = 0 then (Failure ''User does not exist'', s)
                else if myRole \<le> u_role u \<and> myRole \<noteq> RoleRootUser
                then (Failure ''No permission to update user information of same or higher privilege level'', s)
                else case manage_action x myRole action u s of
                  (Inl e, s) \<Rightarrow> (Failure e, s)
                | (Inr u, s) \<Rightarrow>
                    update_reply (zero_user\<lparr>u_role := u_role u, u_status := u_status u\<rparr>) (Update_user x False u s))))"

record topup =
  to_user_id :: int
  to_quota :: int
  to_remark :: string

definition AdminTopUp :: "config \<Rightarrow> ext \<Rightarrow> string + topup \<Rightarrow> st \<Rightarrow> unit reply \<times> st" where
  "AdminTopUp cfg x body s =
     (case body of
        Inl e \<Rightarrow> (Failure e, s)
      | Inr req \<Rightarrow>
          (case IncreaseUserQuota cfg (to_user_id req) (to_quota req) s of
             (Some e, s) \<Rightarrow> (Failure e, s)
           | (None, s) \<Rightarrow>
               (Success (), RecordTopupLog (x_request_id x) (x_now x) (to_user_id req)
                  (or_default (to_remark req) (''Top up via API '' @ LogQuota cfg (to_quota req))) (to_quota req) s)))"

end
