(* ===== verification/UserLaws.thy ===== *)
theory UserLaws
  imports UserAdmin
begin

text \<open>
  What the operations of theory \<open>UserAdmin\<close> keep: the hierarchy of privileges, the root account, the
  account's own limits, and where the write-back of a whole row loses an update.
\<close>

section \<open>Which rows an operation writes\<close>

lemma set_ban_same [simp]: "users (set_ban u s) = users s" "db_faults (set_ban u s) = db_faults s"
    "logs (set_ban u s) = logs s" "tokens (set_ban u s) = tokens s"
  by (simp_all add: set_ban_def BanUser_def UnbanUser_def)

lemma Updates_user_users:
  "users (snd (Updates_user new s)) = users s \<or>
   users (snd (Updates_user new s)) = update_where (\<lambda>u. u_id u = u_id new) (update_user new) (users s)"
  by (auto simp: Updates_user_def db_try_def Let_def split: prod.split sum.split if_splits
      dest!: db_find_Inr db_find_Inl)

text \<open>What \<open>Update\<close> sends: the struct with its password hashed or as it is.\<close>

lemma Update_user_users:
  "users (snd (Update_user x b new s)) = users s \<or>
   (\<exists>p. users (snd (Update_user x b new s)) =
      update_where (\<lambda>u. u_id u = u_id new) (update_user (new\<lparr>u_password := p\<rparr>)) (users s))"
proof (cases "if b then x_hash x (u_password new) else Inr (u_password new)")
  case (Inl e)
  then show ?thesis by (simp add: Update_user_def)
next
  case (Inr p)
  then show ?thesis
    using Updates_user_users [of "new\<lparr>u_password := p\<rparr>" "set_ban new s"] by (auto simp: Update_user_def)
qed

lemma GetUserById_result:
  "GetUserById uid sel s = (r, s') \<Longrightarrow> users s' = users s \<and> logs s' = logs s \<and> blacklist s' = blacklist s \<and>
   (\<forall>o'. r = Inr o' \<longrightarrow> uid \<noteq> 0 \<and> (\<exists>u. find (\<lambda>u. u_id u = uid) (users s) = Some u \<and> u_id o' = uid \<and>
      u_role o' = u_role u \<and> u_quota o' = u_quota u \<and> u_status o' = u_status u \<and> (sel \<longrightarrow> o' = u)))"
  by (cases r) (auto simp: GetUserById_def split: if_splits dest!: db_first_Inl db_first_Inr dest: find_SomeD)

text \<open>The rows of a given privilege or more.\<close>

definition above :: "int \<Rightarrow> user list \<Rightarrow> user list" where
  "above m us = filter (\<lambda>u. m \<le> u_role u) us"

definition below :: "int \<Rightarrow> int \<Rightarrow> user list \<Rightarrow> bool" where
  "below m uid us \<longleftrightarrow> (\<forall>r \<in> set us. u_id r = uid \<longrightarrow> u_role r < m)"

lemma below_unique:
  assumes "distinct (map u_id us)" and "u \<in> set us" and "u_role u < m"
  shows "below m (u_id u) us"
  using assms unfolding below_def by (metis distinct_map inj_onD)

lemma below_update: "below m uid us \<Longrightarrow> u_role new < m \<Longrightarrow> below m uid (update_where P (update_user new) us)"
  by (auto simp: below_def set_update_where update_user_def nz_def)

lemma above_update:
  assumes "below m uid us" and "u_role new < m"
  shows "above m (update_where (\<lambda>u. u_id u = uid) (update_user new) us) = above m us"
  using assms by (induction us) (auto simp: above_def below_def update_user_def nz_def)

lemma above_Update_user:
  assumes "below m (u_id new) (users s)" and "u_role new < m"
  shows "above m (users (snd (Update_user x b new s))) = above m (users s)"
    and "below m (u_id new) (users (snd (Update_user x b new s)))"
  using Update_user_users [of x b new s] assms above_update [of m "u_id new" "users s"] below_update [of m "u_id new" "users s"]
  by auto

lemma above_Delete_user:
  assumes "below m (u_id u) (users s)" and "u_role u < m"
  shows "above m (users (snd (Delete_user x u s))) = above m (users s)"
    and "below m (u_id u) (users (snd (Delete_user x u s)))"
proof -
  have "u_id (deleted_user x u) = u_id u" "u_role (deleted_user x u) = u_role u"
    by (simp_all add: deleted_user_def)
  then show "above m (users (snd (Delete_user x u s))) = above m (users s)"
    and "below m (u_id u) (users (snd (Delete_user x u s)))"
    using Updates_user_users [of "deleted_user x u" "BanUser (u_id u) s"] assms above_update [of m "u_id u" "users s" "deleted_user x u"]
      below_update [of m "u_id u" "users s" "deleted_user x u"]
    by (auto simp: Delete_user_def BanUser_def)
qed

lemma snd_update_reply [simp]: "snd (update_reply a r) = snd r"
  by (auto simp: update_reply_def split: prod.split option.split)

lemma fst_update_reply: "fst (update_reply a r) = (case fst r of Some e \<Rightarrow> Failure e | None \<Rightarrow> Success a)"
  by (auto simp: update_reply_def split: prod.split option.split)

lemma RecordLog_users [simp]: "users (RecordLog cfg rid now uid ty c s) = users s"
  using RecordLog_accounts [of s cfg rid now uid ty c] by (simp add: same_accounts_def)

lemma Insert_token_users [simp]: "users (snd (Insert_token t s)) = users s"
  by (auto simp: Insert_token_def db_try_def split: prod.split sum.split if_splits dest!: db_find_Inl db_find_Inr)

lemma Insert_user_users:
  "users (snd (Insert_user cfg x 0 u s)) = users s \<or>
   (\<exists>p uid. users (snd (Insert_user cfg x 0 u s)) = users s @ [stored_user uid (new_row cfg x p u)])"
proof (cases "insert_hash x u")
  case (Inl e)
  then show ?thesis by (simp add: Insert_user_def)
next
  case (Inr p)
  obtain e s1 where c: "create_user (new_row cfg x p u) s = (e, s1)" by fastforce
  then have "users s1 = users s \<or> users s1 = users s @ [stored_user (next_id s) (new_row cfg x p u)]"
    and "e \<noteq> None \<Longrightarrow> users s1 = users s"
    by (auto simp: create_user_def db_try_def Let_def split: prod.splits sum.splits if_splits
        dest!: db_find_Inl db_find_Inr)
  then show ?thesis by (cases e) (auto simp: Insert_user_def Inr c Let_def)
qed

lemma above_UpdateUser:
  assumes "distinct (map u_id (users s))" and "m < RoleRootUser"
  shows "above m (users (snd (UpdateUser cfg x m body s))) = above m (users s)"
proof (cases body)
  case (Inr new0)
  define new where "new = (if u_password new0 = '''' then new0\<lparr>u_password := keep_password\<rparr> else new0)"
  define sent where "sent = (if u_password new = keep_password then new\<lparr>u_password := ''''\<rparr> else new)"
  obtain r s1 where g: "GetUserById (u_id new) False s = (r, s1)" by fastforce
  note got = GetUserById_result [OF g]
  have ids: "u_id sent = u_id new" "u_role sent = u_role new" by (simp_all add: sent_def)
  show ?thesis
  proof (cases "\<exists>origin. r = Inr origin \<and> u_role origin < m \<and> u_role new < m")
    case False
    with got assms(2) show ?thesis
      by (cases r) (auto simp: UpdateUser_def Inr Let_def g simp flip: new_def)
  next
    case True
    then obtain origin u where o: "r = Inr origin" "u_role u < m" "u_role new < m" "find (\<lambda>r. u_id r = u_id new) (users s) = Some u"
      "u_role origin = u_role u"
      using got by auto
    then have "below m (u_id sent) (users s1)"
      using below_unique [OF assms(1), of u m] find_SomeD [OF o(4)] got ids by auto
    then have upd: "above m (users (snd (Update_user x (u_password sent \<noteq> '''') sent s1))) = above m (users s)"
      using above_Update_user(1) [of m sent s1] o(3) ids got by simp
    obtain e s2 where "Update_user x (u_password sent \<noteq> '''') sent s1 = (e, s2)" by fastforce
    with upd o got assms(2) show ?thesis
      by (cases e) (auto simp: UpdateUser_def Inr Let_def g simp flip: new_def sent_def)
  qed
qed (simp add: UpdateUser_def)

lemma above_DeleteUser:
  assumes "distinct (map u_id (users s))" and "0 < m"
  shows "above m (users (snd (DeleteUser x m param s))) = above m (users s)"
proof (cases "parse_ok (ParseInt param)")
  case (Some uid)
  obtain r s1 where g: "GetUserById uid False s = (r, s1)" by fastforce
  note got = GetUserById_result [OF g]
  show ?thesis
  proof (cases "\<exists>origin. r = Inr origin \<and> u_role origin < m")
    case False
    with got Some show ?thesis by (cases r) (auto simp: DeleteUser_def g)
  next
    case True
    then obtain origin u where o: "r = Inr origin" "u_role u < m" "find (\<lambda>r. u_id r = uid) (users s) = Some u"
        "u_role origin = u_role u" "uid \<noteq> 0"
      using got by auto
    have u: "u \<in> set (users s)" "u_id u = uid" using find_SomeD [OF o(3)] by simp_all
    then have "below m uid (users s1)" using below_unique [OF assms(1) u(1) o(2)] got by simp
    have "above m (users (snd (DeleteUserById x uid s1))) = above m (users s)"
      using above_Delete_user(1) [of m "zero_user\<lparr>u_id := uid\<rparr>" s1 x] assms(2) \<open>below m uid _\<close> got
      by (simp add: DeleteUserById_def zero_user_def)
    with o got Some show ?thesis
      by (cases "DeleteUserById x uid s1") (auto simp: DeleteUser_def g split: option.split)
  qed
qed (simp add: DeleteUser_def)

lemma above_CreateUser:
  assumes "1 < m"
  shows "above m (users (snd (CreateUser cfg x m body s))) = above m (users s)"
proof -
  have "above m (users (snd (Insert_user cfg x 0 (zero_user\<lparr>u_username := a, u_password := b, u_display_name := c\<rparr>) s))) =
      above m (users s)" for a b c
    using Insert_user_users [of cfg x "zero_user\<lparr>u_username := a, u_password := b, u_display_name := c\<rparr>" s] assms
    by (auto simp: above_def stored_user_def new_row_def zero_user_def)
  then show ?thesis
    by (auto simp: CreateUser_def Let_def split: sum.splits prod.splits) (metis snd_conv)+
qed

lemma fill_user_result:
  "fill_user P u s = (r, s') \<Longrightarrow> users s' = users s \<and> (r = u \<or> r \<in> set (users s) \<and> P r)"
  by (auto simp: fill_user_def split: prod.splits sum.splits dest!: db_first_Inl db_first_Inr dest: find_SomeD)

lemma fill_user_faults: "fill_user P u s = (r, s') \<Longrightarrow> db_faults s = [] \<Longrightarrow> s' = s"
  by (auto simp: fill_user_def db_first_ok split: option.splits)

lemma manage_action_result:
  assumes "manage_action x m action u s = (r, s')"
  shows "(users s' = users s \<or> s' = snd (Delete_user x u s) \<and> u_role u \<noteq> RoleRootUser) \<and>
    (\<forall>u'. r = Inr u' \<longrightarrow> u_id u' = u_id u \<and> (u_role u' = u_role u \<or> u_role u' = RoleCommonUser \<and> u_role u \<noteq> RoleRootUser \<or>
       u_role u' = RoleAdminUser \<and> m = RoleRootUser \<and> u_role u < RoleAdminUser))"
  using assms
  by (auto simp: manage_action_def deleted_user_def split: if_splits prod.splits option.splits)

lemma above_ManageUser:
  assumes "distinct (map u_id (users s))" and "m < RoleRootUser" and "1 < m"
  shows "above m (users (snd (ManageUser x m body s))) = above m (users s)"
proof (cases body)
  case (Inr req)
  obtain name action where req: "req = (name, action)" by (cases req)
  obtain u s1 where f: "fill_user (\<lambda>r. name = '''' \<or> u_username r = name) (zero_user\<lparr>u_username := name\<rparr>) s = (u, s1)"
    by fastforce
  note filled = fill_user_result [OF f]
  show ?thesis
  proof (cases "u_id u \<noteq> 0 \<and> u_role u < m")
    case False
    with f filled assms(2) show ?thesis by (auto simp: ManageUser_def Inr req)
  next
    case True
    then have "u \<in> set (users s)" using filled by (auto simp: zero_user_def)
    then have b: "below m (u_id u) (users s1)" using below_unique [OF assms(1)] True filled by simp
    obtain r s2 where a: "manage_action x m action u s1 = (r, s2)" by fastforce
    note act = manage_action_result [OF a]
    have same: "above m (users s2) = above m (users s)" "below m (u_id u) (users s2)"
      using act above_Delete_user [OF b, of x] b True filled by auto
    show ?thesis
    proof (cases r)
      case (Inl e)
      with f a same True show ?thesis by (auto simp: ManageUser_def \<open>body = Inr req\<close> req)
    next
      case (Inr u')
      have "u_id u' = u_id u" "u_role u' < m" using act Inr True assms(2,3) by auto
      then have "above m (users (snd (Update_user x False u' s2))) = above m (users s)"
        using above_Update_user(1) [of m u' s2] same by simp
      with f a True Inr assms(2) show ?thesis by (simp add: ManageUser_def \<open>body = Inr req\<close> req)
    qed
  qed
qed (simp add: ManageUser_def)

text \<open>C12: No administrator gets around the hierarchy. Whatever an administrator who is not root sends to
  change, delete, create or manage accounts, and whichever statement fails, the accounts with the
  administrator's own privilege or more are afterwards exactly what they were before: none is changed
  or deleted, and no account has joined them.\<close>

theorem no_privilege_escalation:
  assumes "distinct (map u_id (users s))" and "RoleAdminUser \<le> m" and "m < RoleRootUser"
    and "s' = snd (UpdateUser cfg x m update s) \<or> s' = snd (DeleteUser x m param s) \<or>
      s' = snd (CreateUser cfg x m creation s) \<or> s' = snd (ManageUser x m action s)"
  shows "filter (\<lambda>u. m \<le> u_role u) (users s') = filter (\<lambda>u. m \<le> u_role u) (users s)"
proof -
  have "0 < m" "1 < m" using assms(2) by simp_all
  then have "above m (users s') = above m (users s)"
    using assms(4) above_UpdateUser [OF assms(1,3)] above_DeleteUser [OF assms(1)] above_CreateUser
      above_ManageUser [OF assms(1,3)] by metis
  then show ?thesis by (simp add: above_def)
qed

definition staff :: st where
  "staff = empty_st\<lparr>users :=
     [zero_user\<lparr>u_id := 1, u_username := ''root'', u_role := 100, u_status := 1, u_quota := 9, u_access_token := ''r'', u_aff_code := ''r''\<rparr>,
      zero_user\<lparr>u_id := 2, u_username := ''adm'', u_role := 10, u_status := 1, u_quota := 8, u_access_token := ''a'', u_aff_code := ''a''\<rparr>,
      zero_user\<lparr>u_id := 3, u_username := ''ann'', u_role := 1, u_status := 1, u_quota := 7, u_access_token := ''t'', u_aff_code := ''u''\<rparr>],
     next_id := 4\<rparr>"

lemma staff_ids: "distinct (map u_id (users staff))" "db_faults staff = []"
  by (simp_all add: staff_def empty_st_def)

theorem no_privilege_escalation_witness:
  "filter (\<lambda>u. 10 \<le> u_role u) (users (snd (ManageUser outside 10 (Inr (''ann'', ''promote'')) staff))) =
     filter (\<lambda>u. 10 \<le> u_role u) (users staff)"
  using no_privilege_escalation [OF staff_ids(1) _ _ disjI2 [OF disjI2 [OF disjI2 [OF refl]]], of 10] by simp

text \<open>What may become of a root account: its row, or its row with the status set to enabled.\<close>

definition kept_root :: "user \<Rightarrow> user list \<Rightarrow> bool" where
  "kept_root u us \<longleftrightarrow> u \<in> set us \<or> u\<lparr>u_status := UserStatusEnabled\<rparr> \<in> set us"

lemma kept_other:
  assumes "u \<in> set us" and "u_id u \<noteq> uid"
  shows "u \<in> set (update_where (\<lambda>r. u_id r = uid) f us)"
proof -
  have "u = (if u_id u = uid then f u else u)" using assms(2) by simp
  then show ?thesis using assms(1) unfolding set_update_where by blast
qed

lemma Delete_user_other:
  assumes "u \<in> set (users s)" and "u_id u \<noteq> u_id v"
  shows "u \<in> set (users (snd (Delete_user x v s)))"
proof -
  have "u_id (deleted_user x v) = u_id v" by (simp add: deleted_user_def)
  then show ?thesis
    using Updates_user_users [of "deleted_user x v" "BanUser (u_id v) s"] assms kept_other [OF assms]
    by (auto simp: Delete_user_def BanUser_def)
qed

lemma Update_user_other:
  assumes "u \<in> set (users s)" and "u_id u \<noteq> u_id v"
  shows "u \<in> set (users (snd (Update_user x b v s)))"
  using Update_user_users [of x b v s] assms kept_other [OF assms] by auto

lemma update_user_self: "update_user (u\<lparr>u_status := st\<rparr>) u = u\<lparr>u_status := nz st (u_status u)\<rparr>" "update_user u u = u"
  by (simp_all add: update_user_def nz_def nz_str_def)

lemma Update_user_self:
  assumes "u \<in> set (users s)" and "v = u \<or> v = u\<lparr>u_status := UserStatusEnabled\<rparr>"
  shows "kept_root u (users (snd (Update_user x False v s)))"
proof -
  have v: "u_id v = u_id u" using assms(2) by auto
  consider "users (snd (Update_user x False v s)) = users s"
    | "users (snd (Update_user x False v s)) = update_where (\<lambda>r. u_id r = u_id v) (update_user v) (users s)"
    using Updates_user_users [of v "set_ban v s"] by (auto simp: Update_user_def)
  then show ?thesis
  proof cases
    case 2
    then have "update_user v u \<in> set (users (snd (Update_user x False v s)))"
      using assms(1) v by (auto simp: set_update_where)
    then show ?thesis using assms(2) by (auto simp: kept_root_def update_user_self nz_def)
  qed (use assms in \<open>simp add: kept_root_def\<close>)
qed

lemma manage_action_root:
  assumes "manage_action x m action u s = (Inr u', s')" and "u_role u = RoleRootUser"
  shows "s' = s \<and> (u' = u \<or> u' = u\<lparr>u_status := UserStatusEnabled\<rparr>)"
  using assms by (auto simp: manage_action_def split: if_splits)

lemma manage_action_failed_root:
  "manage_action x m action u s = (Inl e, s') \<Longrightarrow> u_role u = RoleRootUser \<Longrightarrow> s' = s"
  by (auto simp: manage_action_def split: if_splits)

lemma root_ManageUser:
  assumes d: "distinct (map u_id (users s))" and u: "u \<in> set (users s)" and root: "u_role u = RoleRootUser"
  shows "kept_root u (users (snd (ManageUser x m body s)))"
proof (cases body)
  case (Inr req)
  obtain name action where req: "req = (name, action)" by (cases req)
  obtain v s1 where f: "fill_user (\<lambda>r. name = '''' \<or> u_username r = name) (zero_user\<lparr>u_username := name\<rparr>) s = (v, s1)"
    by fastforce
  note filled = fill_user_result [OF f]
  obtain r s2 where a: "manage_action x m action v s1 = (r, s2)" by fastforce
  note act = manage_action_result [OF a]
  show ?thesis
  proof (cases "u_id v \<noteq> 0 \<and> (u_role v < m \<or> m = RoleRootUser)")
    case False
    with f filled u show ?thesis by (auto simp: ManageUser_def Inr req kept_root_def)
  next
    case True
    show ?thesis
    proof (cases "u_id v = u_id u")
      case same: True
      have "v \<in> set (users s)" using filled True by (auto simp: zero_user_def)
      then have "v = u" using d u same by (metis distinct_map inj_onD)
      show ?thesis
      proof (cases r)
        case (Inl e)
        with a root \<open>v = u\<close> have "s2 = s1" using manage_action_failed_root by blast
        with f a Inl True filled u show ?thesis by (auto simp: ManageUser_def \<open>body = Inr req\<close> req kept_root_def)
      next
        case (Inr v')
        with a root \<open>v = u\<close> have "s2 = s1" "v' = u \<or> v' = u\<lparr>u_status := UserStatusEnabled\<rparr>"
          using manage_action_root by blast+
        with Update_user_self [of u s1 v' x] filled u f a Inr True show ?thesis
          by (auto simp: ManageUser_def \<open>body = Inr req\<close> req)
      qed
    next
      case other: False
      have s2: "u \<in> set (users s2)" using act filled u other Delete_user_other by metis
      show ?thesis
      proof (cases r)
        case (Inl e)
        with f a True s2 show ?thesis by (auto simp: ManageUser_def \<open>body = Inr req\<close> req kept_root_def)
      next
        case (Inr v')
        then have "u_id u \<noteq> u_id v'" using act other by simp
        with Update_user_other [OF s2] f a Inr True show ?thesis
          by (auto simp: ManageUser_def \<open>body = Inr req\<close> req kept_root_def)
      qed
    qed
  qed
qed (use u in \<open>simp add: ManageUser_def kept_root_def\<close>)

lemma root_DeleteById:
  assumes "distinct (map u_id (users s))" and "u \<in> set (users s)" and "u_role u = RoleRootUser"
    and "GetUserById uid False s = (Inr origin, s1)" and "u_role origin \<noteq> RoleRootUser"
  shows "u \<in> set (users (snd (DeleteUserById x uid s1)))"
proof -
  note got = GetUserById_result [OF assms(4)]
  then have "uid \<noteq> u_id u" using assms(1,2,3,5)
    by (metis (mono_tags, lifting) distinct_map find_SomeD inj_onD)
  moreover have "u_id (zero_user\<lparr>u_id := uid\<rparr>) = uid" by simp
  ultimately show ?thesis
    using got assms(2) Delete_user_other [of u s1 "zero_user\<lparr>u_id := uid\<rparr>" x] by (auto simp: DeleteUserById_def)
qed

lemma root_DeleteUser:
  assumes "distinct (map u_id (users s))" and "u \<in> set (users s)" and "u_role u = RoleRootUser" and "m \<le> RoleRootUser"
  shows "u \<in> set (users (snd (DeleteUser x m param s)))"
proof (cases "parse_ok (ParseInt param)")
  case None
  with assms(2) show ?thesis by (simp add: DeleteUser_def)
next
  case (Some uid)
  obtain r s1 where g: "GetUserById uid False s = (r, s1)" by fastforce
  show ?thesis
  proof (cases "\<exists>origin. r = Inr origin \<and> u_role origin < m")
    case True
    then obtain origin where o: "r = Inr origin" "u_role origin < m" by blast
    then have "u \<in> set (users (snd (DeleteUserById x uid s1)))"
      using root_DeleteById [OF assms(1-3), of uid origin s1 x] g assms(4) by simp
    with o g Some show ?thesis
      by (cases "DeleteUserById x uid s1") (auto simp: DeleteUser_def split: option.splits)
  qed (use g Some assms(2) GetUserById_result [OF g] in \<open>cases r; auto simp: DeleteUser_def\<close>)
qed

lemma root_DeleteSelf:
  assumes "distinct (map u_id (users s))" and "u \<in> set (users s)" and "u_role u = RoleRootUser"
    and "DeleteSelf x uid s = Some (r, s')" and "db_faults s = []"
  shows "u \<in> set (users s')"
proof -
  obtain q s1 where g: "GetUserById uid False s = (q, s1)" by fastforce
  note got = GetUserById_result [OF g]
  show ?thesis
  proof (cases q)
    case (Inl e)
    then have "find (\<lambda>r. u_id r = uid) (users s) = None"
      using g assms(4,5) by (auto simp: GetUserById_def DeleteSelf_def db_first_ok split: if_splits option.splits)
    then have "u_id u \<noteq> uid" using assms(2) by (auto simp: find_None)
    then have "u \<in> set (users (snd (DeleteUserById x uid s1)))"
      using got assms(2) Delete_user_other [of u s1 "zero_user\<lparr>u_id := uid\<rparr>" x]
      by (simp add: DeleteUserById_def)
    with assms(4) g Inl show ?thesis
      by (auto simp: DeleteSelf_def update_reply_def split: if_splits prod.splits option.splits)
  next
    case (Inr origin)
    show ?thesis
    proof (cases "u_role origin = RoleRootUser")
      case True
      with assms(4) g Inr got assms(2) show ?thesis by (auto simp: DeleteSelf_def split: if_splits)
    next
      case False
      with assms(4) g Inr root_DeleteById [OF assms(1-3), of uid origin s1 x] show ?thesis
        by (auto simp: DeleteSelf_def update_reply_def split: if_splits prod.splits option.splits)
    qed
  qed
qed

text \<open>C28: The root account cannot be disabled, demoted or deleted by managing or deleting accounts, by
  anybody, itself included: its row stays as it is, or is switched on. For the deletion of the own
  account this holds as long as its query does not fail.\<close>

theorem root_protected:
  assumes "distinct (map u_id (users s))" and "u \<in> set (users s)" and "u_role u = RoleRootUser"
    and "s' = snd (ManageUser x m action s) \<or> s' = snd (DeleteUser x m param s) \<and> m \<le> RoleRootUser \<or>
      DeleteSelf x uid s = Some (r, s') \<and> db_faults s = []"
  shows "u \<in> set (users s') \<or> u\<lparr>u_status := UserStatusEnabled\<rparr> \<in> set (users s')"
proof -
  consider (manage) "s' = snd (ManageUser x m action s)"
    | (delete) "s' = snd (DeleteUser x m param s)" "m \<le> RoleRootUser"
    | (self) "DeleteSelf x uid s = Some (r, s')" "db_faults s = []" using assms(4) by blast
  then show ?thesis
  proof cases
    case manage
    then show ?thesis using root_ManageUser [OF assms(1-3)] by (simp add: kept_root_def)
  next
    case delete
    then show ?thesis using root_DeleteUser [OF assms(1-3)] by simp
  next
    case self
    then show ?thesis using root_DeleteSelf [OF assms(1-3)] by blast
  qed
qed

theorem root_protected_witness:
  "let s' = snd (ManageUser outside 100 (Inr (''root'', ''demote'')) staff) in
   hd (users staff) \<in> set (users s') \<or> (hd (users staff))\<lparr>u_status := UserStatusEnabled\<rparr> \<in> set (users s')"
proof -
  have "hd (users staff) \<in> set (users staff)" "u_role (hd (users staff)) = RoleRootUser" by (simp_all add: staff_def)
  from root_protected [OF staff_ids(1) this disjI1 [OF refl]] show ?thesis by (simp only: Let_def)
qed

text \<open>Users who change their own account only ever change its name, its password and its display name:
  role, status, quota and every other column stay, and so does every other account.\<close>

theorem own_account_limits:
  shows "\<exists>f. users (snd (UpdateSelf x uid body s)) = update_where (\<lambda>u. u_id u = uid) f (users s) \<and>
    (\<forall>u. f u = u\<lparr>u_username := u_username (f u), u_password := u_password (f u), u_display_name := u_display_name (f u)\<rparr>)"
proof -
  have keep: "\<exists>f. us = update_where (\<lambda>u. u_id u = uid) f us \<and>
    (\<forall>u. f u = u\<lparr>u_username := u_username (f u), u_password := u_password (f u), u_display_name := u_display_name (f u)\<rparr>)" for us
    by (rule exI [of _ "\<lambda>u. u"]) (simp add: update_where_def)
  have upd: "\<exists>f. users (snd (Update_user x b (zero_user\<lparr>u_id := uid, u_username := n, u_password := p, u_display_name := d\<rparr>) s)) =
      update_where (\<lambda>u. u_id u = uid) f (users s) \<and>
    (\<forall>u. f u = u\<lparr>u_username := u_username (f u), u_password := u_password (f u), u_display_name := u_display_name (f u)\<rparr>)"
    (is "\<exists>f. users (snd (Update_user x b ?v s)) = _ f _ \<and> ?P f") for b n p d
  proof -
    have P: "?P (update_user (?v\<lparr>u_password := q\<rparr>))" for q
      by (simp add: update_user_def nz_def nz_str_def zero_user_def)
    have id: "u_id ?v = uid" by simp
    show ?thesis using Update_user_users [of x b ?v s] keep [of "users s"] P unfolding id by metis
  qed
  show ?thesis
    using keep [of "users s"] upd by (auto simp: UpdateSelf_def Let_def split: sum.split option.split)
qed

lemma unique_update:
  assumes "distinct (map u_id us)" and "find (\<lambda>u. u_id u = uid) us = Some u"
  shows "find (\<lambda>u. u_id u = uid) (update_where (\<lambda>r. u_id r = uid) f us) = (if u_id (f u) = uid then Some (f u) else
    find (\<lambda>u. u_id u = uid) (update_where (\<lambda>r. u_id r = uid) f us))"
  using assms by (induction us) auto

lemma Update_user_ok:
  assumes "Update_user x False v s = (None, s')" and "db_faults s = []" and "v\<lparr>u_id := 0\<rparr> \<noteq> zero_user"
  shows "users s' = update_where (\<lambda>u. u_id u = u_id v) (update_user v) (users s) \<and> logs s' = logs s \<and> db_faults s' = []"
  using assms by (auto simp: Update_user_def Updates_user_def db_try_def Let_def split: if_splits sum.splits)

text \<open>The pages that read an account, change a column and write the whole row back lose what happened
  to the row in between. When a user draws a new access token and the cost of a request is charged
  after the row was read and before it is written, the write restores the old quota: the request was
  free.\<close>

theorem stale_write_back:
  assumes "db_faults s = []" and "distinct (map u_id (users s))"
    and "GetUserById uid True s = (Inr u, s0)" and "u_quota u \<noteq> 0"
    and "decreaseUserQuota uid cost s0 = (None, s1)"
    and "write_access_token x u s1 = (Success tok, s2)"
  shows "quota_of uid s1 = quota_of uid s - cost \<and> quota_of uid s2 = quota_of uid s"
proof -
  have s0: "s0 = s" and u: "find (\<lambda>r. u_id r = uid) (users s) = Some u"
    using assms(1,3) by (auto simp: GetUserById_def db_first_ok split: if_splits option.splits)
  have uid: "u_id u = uid" "uid \<noteq> 0" using find_SomeD [OF u] assms(3) by (auto simp: GetUserById_def split: if_splits)
  have s1: "s1 = s\<lparr>users := bump u_id add_quota uid (- cost) (users s)\<rparr>"
    using assms(1,5) s0 by (simp add: decreaseUserQuota_def)
  then have f1: "find (\<lambda>r. u_id r = uid) (users s1) = Some (add_quota (- cost) u)" and faults: "db_faults s1 = []"
    using u assms(1) by (simp_all add: find_bump add_defs)
  define v where "v = u\<lparr>u_access_token := x_uuid x\<rparr>"
  have v: "u_id v = uid" "u_quota v = u_quota u" using uid by (simp_all add: v_def)
  have sent: "v\<lparr>u_id := 0\<rparr> \<noteq> zero_user"
  proof
    assume "v\<lparr>u_id := 0\<rparr> = zero_user"
    then have "u_quota (v\<lparr>u_id := 0\<rparr>) = u_quota zero_user" by simp
    with assms(4) show False by (simp add: v_def zero_user_def)
  qed
  have "Update_user x False v s1 = (None, s2)"
    using assms(6) faults
    by (auto simp: write_access_token_def Let_def v_def db_first_ok update_reply_def split: option.splits prod.splits)
  from Update_user_ok [OF this faults sent] v(1)
  have s2: "users s2 = update_where (\<lambda>r. u_id r = uid) (update_user v) (users s1)" by simp
  have "map u_id (users s1) = map u_id (users s)" by (simp add: s1 quota.bump_keys)
  then have "find (\<lambda>r. u_id r = uid) (users s2) = Some (update_user v (add_quota (- cost) u))"
    using unique_update [OF _ f1, of "update_user v"] assms(2) uid by (simp add: s2 update_user_def add_defs)
  then show ?thesis
    using u f1 v(2) assms(4) by (simp add: user_column_def update_user_def nz_def add_defs)
qed

theorem stale_write_back_witness:
  "\<exists>s1 s2 tok. decreaseUserQuota 3 5 staff = (None, s1) \<and> write_access_token outside (users staff ! 2) s1 = (Success tok, s2) \<and>
     quota_of 3 s1 = 2 \<and> quota_of 3 s2 = 7"
proof -
  have g: "GetUserById 3 True staff = (Inr (users staff ! 2), staff)"
    by (simp add: GetUserById_def staff_def empty_st_def)
  obtain s1 where d: "decreaseUserQuota 3 5 staff = (None, s1)"
    using staff_ids by (simp add: decreaseUserQuota_def)
  obtain r s2 where w: "write_access_token outside (users staff ! 2) s1 = (r, s2)" by fastforce
  have "s1 = staff\<lparr>users := bump u_id add_quota 3 (- 5) (users staff)\<rparr>"
    using d staff_ids by (simp add: decreaseUserQuota_def)
  then have ok: "r = Success ''u''"
    using w
    by (simp add: write_access_token_def Let_def staff_def empty_st_def outside_def bump_def add_defs Update_user_def
        update_reply_def Updates_user_def zero_user_def set_ban_def UnbanUser_def unique_users_def update_user_def
        nz_def nz_str_def db_try_def split: option.splits)
  have "u_quota (users staff ! 2) \<noteq> 0" "quota_of 3 staff = 7" by (simp_all add: staff_def user_column_def)
  then show ?thesis
    using stale_write_back [OF staff_ids(2,1) g _ d w [unfolded ok]] d w ok by simp
qed

lemma RecordLog_ok:
  assumes "db_faults s = []" and "logType \<noteq> LogTypeConsume"
  shows "\<exists>l. logs (RecordLog cfg rid now uid logType content s) = logs s @ [l] \<and> l_content l = content"
  using assms by (simp add: RecordLog_def GetUsernameById_def recordLogHelper_def)

text \<open>An administrator cannot set a quota to 0: the handler answers with success and records that the
  quota was changed to 0, but the column keeps its value.\<close>

theorem zero_quota_ignored:
  assumes "db_faults s = []" and "distinct (map u_id (users s))"
    and "UpdateUser cfg x m (Inr new) s = (Success (), s')"
    and "u_quota new = 0" and "quota_of (u_id new) s \<noteq> 0"
  shows "quota_of (u_id new) s' = quota_of (u_id new) s \<and> (\<exists>l. logs s' = logs s @ [l] \<and>
    l_content l = ''Administrator changed user quota from '' @ LogQuota cfg (quota_of (u_id new) s) @ '' to '' @ LogQuota cfg 0)"
proof -
  define w where "w = (if u_password new = '''' then new\<lparr>u_password := keep_password\<rparr> else new)"
  define v where "v = (if u_password w = keep_password then w\<lparr>u_password := ''''\<rparr> else w)"
  have ids: "u_id v = u_id new" "u_quota v = 0" "u_id w = u_id new" "u_quota w = 0"
    using assms(4) by (simp_all add: v_def w_def)
  obtain r s1 where g: "GetUserById (u_id new) False s = (r, s1)" by fastforce
  from assms(3) g ids obtain origin where o: "r = Inr origin"
    by (cases r) (auto simp: UpdateUser_def Let_def simp flip: w_def split: if_splits)
  have s1: "s1 = s" using g assms(1) by (auto simp: GetUserById_def db_first_ok split: if_splits)
  obtain u where u: "find (\<lambda>r. u_id r = u_id new) (users s) = Some u" "u_quota origin = u_quota u" "u_id origin = u_id new"
    using GetUserById_result [OF g] o by auto
  have q: "quota_of (u_id new) s = u_quota u" using u by (simp add: user_column_def)
  obtain e s2 where up: "Update_user x (u_password v \<noteq> '''') v s = (e, s2)" by fastforce
  define content where "content = ''Administrator changed user quota from '' @ LogQuota cfg (u_quota u) @ '' to '' @ LogQuota cfg 0"
  have fin: "s' = RecordLog cfg (x_request_id x) (x_now x) (u_id new) LogTypeManage content s2"
    using assms(3,5) g o s1 u ids up q
    by (auto simp: UpdateUser_def Let_def content_def simp flip: w_def v_def split: if_splits option.splits)
  have same: "logs s2 = logs s" "db_faults s2 = []"
    using up assms(1)
    by (auto simp: Update_user_def Updates_user_def db_try_def Let_def split: if_splits sum.splits)
  have "quota_of (u_id new) s2 = u_quota u"
  proof -
    consider "users s2 = users s"
      | p where "users s2 = update_where (\<lambda>u. u_id u = u_id new) (update_user (v\<lparr>u_password := p\<rparr>)) (users s)"
      using Update_user_users [of x "u_password v \<noteq> ''''" v s] up ids by auto
    then show ?thesis
    proof cases
      case 2
      then show ?thesis
        using unique_update [OF assms(2) u(1), of "update_user (v\<lparr>u_password := p\<rparr>)"] find_SomeD [OF u(1)] ids
        by (simp add: user_column_def update_user_def nz_def)
    qed (simp add: u(1) user_column_def)
  qed
  then have "quota_of (u_id new) s' = u_quota u" by (simp add: fin user_column_def)
  moreover have "\<exists>l. logs s' = logs s @ [l] \<and> l_content l = content"
    using RecordLog_ok [OF same(2), of LogTypeManage cfg "x_request_id x" "x_now x" "u_id new" content]
    by (simp add: fin same(1))
  ultimately show ?thesis unfolding q content_def by blast
qed

theorem zero_quota_ignored_witness:
  "\<exists>s'. UpdateUser (init_config (\<lambda>_. [])) outside 10 (Inr (zero_user\<lparr>u_id := 3\<rparr>)) staff = (Success (), s') \<and> quota_of 3 s' = 7"
proof -
  obtain r s' where r: "UpdateUser (init_config (\<lambda>_. [])) outside 10 (Inr (zero_user\<lparr>u_id := 3\<rparr>)) staff = (r, s')" by fastforce
  then have ok: "r = Success ()"
    by (auto simp: UpdateUser_def Let_def zero_user_def keep_password_def outside_def GetUserById_def staff_def
        empty_st_def Update_user_def Updates_user_def set_ban_def)
  have "quota_of (u_id (zero_user\<lparr>u_id := 3\<rparr>)) staff = 7" "u_quota (zero_user\<lparr>u_id := 3\<rparr>) = 0"
    by (simp_all add: staff_def user_column_def zero_user_def)
  then show ?thesis using zero_quota_ignored [OF staff_ids(2,1) r [unfolded ok]] r ok by simp
qed

end
