(* ===== verification/Ratios.thy ===== *)
theory Ratios
  imports Float64
begin

text \<open>
  Prices: \<^verbatim>\<open>relay/billing/ratio\<close> (\<^verbatim>\<open>model.go\<close>, \<^verbatim>\<open>group.go\<close>, \<^verbatim>\<open>image.go\<close>). The shipped tables are lists of
  exact rationals, written as in the source; their values as Go's \<open>float64\<close> are the nearest floats.
  The tables an administrator may replace are the fields of a record, and the mutexes around them are
  not modelled: every operation is one step.

  JSON is the standard library's. \<open>marshal\<close> is \<open>json.Marshal\<close> on a map from strings to numbers (\<open>Inl\<close>
  its error), \<open>unmarshal\<close> is \<open>json.Unmarshal\<close> into an empty map: the map after it and its error.
\<close>

section \<open>The shipped tables\<close>

text \<open>The source's constants. \<open>RMB\<close> divides two integer constants, which Go truncates.\<close>

abbreviation (input) USD2RMB :: int where "USD2RMB \<equiv> 7"
abbreviation (input) USD_units :: int where "USD_units \<equiv> 500"

definition USD :: rat where "USD = of_int USD_units"
definition MILLI_USD :: rat where "MILLI_USD = 1.0 / 1000 * USD"
definition RMB :: rat where "RMB = of_int (go_div USD_units USD2RMB)"

definition ModelRatio_1 :: "(string \<times> rat) list" where
  "ModelRatio_1 =
    [(''gpt-4'', 15),
     (''gpt-4-0314'', 15),
     (''gpt-4-0613'', 15),
     (''gpt-4-32k'', 30),
     (''gpt-4-32k-0314'', 30),
     (''gpt-4-32k-0613'', 30),
     (''gpt-4-1106-preview'', 5),
     (''gpt-4-0125-preview'', 5),
     (''gpt-4-turbo-preview'', 5),
     (''gpt-4-turbo'', 5),
     (''gpt-4-turbo-2024-04-09'', 5),
     (''gpt-4o'', 2.5),
     (''chatgpt-4o-latest'', 2.5),
     (''gpt-4o-2024-05-13'', 2.5),
     (''gpt-4o-2024-08-06'', 1.25),
     (''gpt-4o-2024-11-20'', 1.25),
     (''gpt-4o-mini'', 0.075),
     (''gpt-4o-mini-2024-07-18'', 0.075),
     (''gpt-4-vision-preview'', 5),
     (''gpt-3.5-turbo'', 0.25),
     (''gpt-3.5-turbo-0301'', 0.75),
     (''gpt-3.5-turbo-0613'', 0.75),
     (''gpt-3.5-turbo-16k'', 1.5),
     (''gpt-3.5-turbo-16k-0613'', 1.5),
     (''gpt-3.5-turbo-instruct'', 0.75),
     (''gpt-3.5-turbo-1106'', 0.5),
     (''gpt-3.5-turbo-0125'', 0.25),
     (''o1'', 7.5),
     (''o1-2024-12-17'', 7.5),
     (''o1-preview'', 7.5),
     (''o1-preview-2024-09-12'', 7.5),
     (''o1-mini'', 1.5),
     (''o1-mini-2024-09-12'', 1.5),
     (''o3-mini'', 1.5),
     (''o3-mini-2025-01-31'', 1.5),
     (''davinci-002'', 1),
     (''babbage-002'', 0.2),
     (''text-ada-001'', 0.2),
     (''text-babbage-001'', 0.25),
     (''text-curie-001'', 1),
     (''text-davinci-002'', 10),
     (''text-davinci-003'', 10),
     (''text-davinci-edit-001'', 10),
     (''code-davinci-edit-001'', 10),
     (''whisper-1'', 15),
     (''tts-1'', 7.5),
     (''tts-1-1106'', 7.5),
     (''tts-1-hd'', 15),
     (''tts-1-hd-1106'', 15),
     (''davinci'', 10),
     (''curie'', 10),
     (''babbage'', 10),
     (''ada'', 10),
     (''text-embedding-ada-002'', 0.05),
     (''text-embedding-3-small'', 0.01),
     (''text-embedding-3-large'', 0.065),
     (''text-search-ada-doc-001'', 10),
     (''text-moderation-stable'', 0.1),
     (''text-moderation-latest'', 0.1),
     (''dall-e-2'', 0.02 * USD),
     (''dall-e-3'', 0.04 * USD),
     (''claude-instant-1.2'', 0.8 / 1000 * USD),
     (''claude-2.0'', 8.0 / 1000 * USD),
     (''claude-2.1'', 8.0 / 1000 * USD),
     (''claude-3-haiku-20240307'', 0.25 / 1000 * USD),
     (''claude-3-5-haiku-20241022'', 1.0 / 1000 * USD),
     (''claude-3-5-haiku-latest'', 1.0 / 1000 * USD),
     (''claude-3-sonnet-20240229'', 3.0 / 1000 * USD),
     (''claude-3-5-sonnet-20240620'', 3.0 / 1000 * USD),
     (''claude-3-5-sonnet-20241022'', 3.0 / 1000 * USD),
     (''claude-3-5-sonnet-latest'', 3.0 / 1000 * USD),
     (''claude-3-opus-20240229'', 15.0 / 1000 * USD),
     (''ERNIE-4.0-8K'', 0.120 * RMB),
     (''ERNIE-3.5-8K'', 0.012 * RMB),
     (''ERNIE-3.5-8K-0205'', 0.024 * RMB),
     (''ERNIE-3.5-8K-1222'', 0.012 * RMB),
     (''ERNIE-Bot-8K'', 0.024 * RMB),
     (''ERNIE-3.5-4K-0205'', 0.012 * RMB),
     (''ERNIE-Speed-8K'', 0.004 * RMB),
     (''ERNIE-Speed-128K'', 0.004 * RMB),
     (''ERNIE-Lite-8K-0922'', 0.008 * RMB),
     (''ERNIE-Lite-8K-0308'', 0.003 * RMB),
     (''ERNIE-Tiny-8K'', 0.001 * RMB),
     (''BLOOMZ-7B'', 0.004 * RMB),
     (''Embedding-V1'', 0.002 * RMB),
     (''bge-large-zh'', 0.002 * RMB),
     (''bge-large-en'', 0.002 * RMB),
     (''tao-8k'', 0.002 * RMB),
     (''gemini-pro'', 0.25 * MILLI_USD),
     (''gemini-1.0-pro'', 0.125 * MILLI_USD),
     (''gemini-1.5-pro'', 1.25 * MILLI_USD),
     (''gemini-1.5-pro-001'', 1.25 * MILLI_USD),
     (''gemini-1.5-pro-experimental'', 1.25 * MILLI_USD),
     (''gemini-1.5-flash'', 0.075 * MILLI_USD),
     (''gemini-1.5-flash-001'', 0.075 * MILLI_USD),
     (''gemini-1.5-flash-8b'', 0.0375 * MILLI_USD),
     (''gemini-2.0-flash-exp'', 0.075 * MILLI_USD),
     (''gemini-2.0-flash'', 0.15 * MILLI_USD),
     (''gemini-2.0-flash-001'', 0.15 * MILLI_USD),
     (''gemini-2.0-flash-lite-preview-02-05'', 0.075 * MILLI_USD),
     (''gemini-2.0-flash-thinking-exp-01-21'', 0.075 * MILLI_USD),
     (''gemini-2.0-pro-exp-02-05'', 1.25 * MILLI_USD),
     (''aqa'', 1),
     (''glm-zero-preview'', 0.01 * RMB),
     (''glm-4-plus'', 0.05 * RMB),
     (''glm-4-0520'', 0.1 * RMB),
     (''glm-4-airx'', 0.01 * RMB),
     (''glm-4-air'', 0.0005 * RMB),
     (''glm-4-long'', 0.001 * RMB),
     (''glm-4-flashx'', 0.0001 * RMB),
     (''glm-4-flash'', 0),
     (''glm-4'', 0.1 * RMB),
     (''glm-3-turbo'', 0.001 * RMB),
     (''glm-4v-plus'', 0.004 * RMB),
     (''glm-4v'', 0.05 * RMB),
     (''glm-4v-flash'', 0),
     (''cogview-3-plus'', 0.06 * RMB),
     (''cogview-3'', 0.1 * RMB),
     (''cogview-3-flash'', 0),
     (''cogviewx'', 0.5 * RMB),
     (''cogviewx-flash'', 0),
     (''charglm-4'', 0.001 * RMB),
     (''emohaa'', 0.015 * RMB),
     (''codegeex-4'', 0.0001 * RMB),
     (''embedding-2'', 0.0005 * RMB),
     (''embedding-3'', 0.0005 * RMB),
     (''qwen-turbo'', 0.0003 * RMB),
     (''qwen-turbo-latest'', 0.0003 * RMB),
     (''qwen-plus'', 0.0008 * RMB),
     (''qwen-plus-latest'', 0.0008 * RMB),
     (''qwen-max'', 0.0024 * RMB),
     (''qwen-max-latest'', 0.0024 * RMB),
     (''qwen-max-longcontext'', 0.0005 * RMB),
     (''qwen-vl-max'', 0.003 * RMB),
     (''qwen-vl-max-latest'', 0.003 * RMB),
     (''qwen-vl-plus'', 0.0015 * RMB),
     (''qwen-vl-plus-latest'', 0.0015 * RMB)]"

definition ModelRatio_2 :: "(string \<times> rat) list" where
  "ModelRatio_2 =
    [(''qwen-vl-ocr'', 0.005 * RMB),
     (''qwen-vl-ocr-latest'', 0.005 * RMB),
     (''qwen-audio-turbo'', 1.4286),
     (''qwen-math-plus'', 0.004 * RMB),
     (''qwen-math-plus-latest'', 0.004 * RMB),
     (''qwen-math-turbo'', 0.002 * RMB),
     (''qwen-math-turbo-latest'', 0.002 * RMB),
     (''qwen-coder-plus'', 0.0035 * RMB),
     (''qwen-coder-plus-latest'', 0.0035 * RMB),
     (''qwen-coder-turbo'', 0.002 * RMB),
     (''qwen-coder-turbo-latest'', 0.002 * RMB),
     (''qwen-mt-plus'', 0.015 * RMB),
     (''qwen-mt-turbo'', 0.001 * RMB),
     (''qwq-32b-preview'', 0.002 * RMB),
     (''qwen2.5-72b-instruct'', 0.004 * RMB),
     (''qwen2.5-32b-instruct'', 0.03 * RMB),
     (''qwen2.5-14b-instruct'', 0.001 * RMB),
     (''qwen2.5-7b-instruct'', 0.0005 * RMB),
     (''qwen2.5-3b-instruct'', 0.006 * RMB),
     (''qwen2.5-1.5b-instruct'', 0.0003 * RMB),
     (''qwen2.5-0.5b-instruct'', 0.0003 * RMB),
     (''qwen2-72b-instruct'', 0.004 * RMB),
     (''qwen2-57b-a14b-instruct'', 0.0035 * RMB),
     (''qwen2-7b-instruct'', 0.001 * RMB),
     (''qwen2-1.5b-instruct'', 0.001 * RMB),
     (''qwen2-0.5b-instruct'', 0.001 * RMB),
     (''qwen1.5-110b-chat'', 0.007 * RMB),
     (''qwen1.5-72b-chat'', 0.005 * RMB),
     (''qwen1.5-32b-chat'', 0.0035 * RMB),
     (''qwen1.5-14b-chat'', 0.002 * RMB),
     (''qwen1.5-7b-chat'', 0.001 * RMB),
     (''qwen1.5-1.8b-chat'', 0.001 * RMB),
     (''qwen1.5-0.5b-chat'', 0.001 * RMB),
     (''qwen-72b-chat'', 0.02 * RMB),
     (''qwen-14b-chat'', 0.008 * RMB),
     (''qwen-7b-chat'', 0.006 * RMB),
     (''qwen-1.8b-chat'', 0.006 * RMB),
     (''qwen-1.8b-longcontext-chat'', 0.006 * RMB),
     (''qvq-72b-preview'', 0.012 * RMB),
     (''qwen2.5-vl-72b-instruct'', 0.016 * RMB),
     (''qwen2.5-vl-7b-instruct'', 0.002 * RMB),
     (''qwen2.5-vl-3b-instruct'', 0.0012 * RMB),
     (''qwen2-vl-7b-instruct'', 0.016 * RMB),
     (''qwen2-vl-2b-instruct'', 0.002 * RMB),
     (''qwen-vl-v1'', 0.002 * RMB),
     (''qwen-vl-chat-v1'', 0.002 * RMB),
     (''qwen2-audio-instruct'', 0.002 * RMB),
     (''qwen-audio-chat'', 0.002 * RMB),
     (''qwen2.5-math-72b-instruct'', 0.004 * RMB),
     (''qwen2.5-math-7b-instruct'', 0.001 * RMB),
     (''qwen2.5-math-1.5b-instruct'', 0.001 * RMB),
     (''qwen2-math-72b-instruct'', 0.004 * RMB),
     (''qwen2-math-7b-instruct'', 0.001 * RMB),
     (''qwen2-math-1.5b-instruct'', 0.001 * RMB),
     (''qwen2.5-coder-32b-instruct'', 0.002 * RMB),
     (''qwen2.5-coder-14b-instruct'', 0.002 * RMB),
     (''qwen2.5-coder-7b-instruct'', 0.001 * RMB),
     (''qwen2.5-coder-3b-instruct'', 0.001 * RMB),
     (''qwen2.5-coder-1.5b-instruct'', 0.001 * RMB),
     (''qwen2.5-coder-0.5b-instruct'', 0.001 * RMB),
     (''text-embedding-v1'', 0.0007 * RMB),
     (''text-embedding-v3'', 0.0007 * RMB),
     (''text-embedding-v2'', 0.0007 * RMB),
     (''text-embedding-async-v2'', 0.0007 * RMB),
     (''text-embedding-async-v1'', 0.0007 * RMB),
     (''ali-stable-diffusion-xl'', 8.00),
     (''ali-stable-diffusion-v1.5'', 8.00),
     (''wanx-v1'', 8.00),
     (''deepseek-r1'', 0.002 * RMB),
     (''deepseek-v3'', 0.001 * RMB),
     (''deepseek-r1-distill-qwen-1.5b'', 0.001 * RMB),
     (''deepseek-r1-distill-qwen-7b'', 0.0005 * RMB),
     (''deepseek-r1-distill-qwen-14b'', 0.001 * RMB),
     (''deepseek-r1-distill-qwen-32b'', 0.002 * RMB),
     (''deepseek-r1-distill-llama-8b'', 0.0005 * RMB),
     (''deepseek-r1-distill-llama-70b'', 0.004 * RMB),
     (''SparkDesk'', 1.2858),
     (''SparkDesk-v1.1'', 1.2858),
     (''SparkDesk-v2.1'', 1.2858),
     (''SparkDesk-v3.1'', 1.2858),
     (''SparkDesk-v3.1-128K'', 1.2858),
     (''SparkDesk-v3.5'', 1.2858),
     (''SparkDesk-v3.5-32K'', 1.2858),
     (''SparkDesk-v4.0'', 1.2858),
     (''360GPT_S2_V9'', 0.8572),
     (''embedding-bert-512-v1'', 0.0715),
     (''embedding_s1_v1'', 0.0715),
     (''semantic_similarity_s1_v1'', 0.0715),
     (''hunyuan-turbo'', 0.015 * RMB),
     (''hunyuan-large'', 0.004 * RMB),
     (''hunyuan-large-longcontext'', 0.006 * RMB),
     (''hunyuan-standard'', 0.0008 * RMB),
     (''hunyuan-standard-256K'', 0.0005 * RMB),
     (''hunyuan-translation-lite'', 0.005 * RMB),
     (''hunyuan-role'', 0.004 * RMB),
     (''hunyuan-functioncall'', 0.004 * RMB),
     (''hunyuan-code'', 0.004 * RMB),
     (''hunyuan-turbo-vision'', 0.08 * RMB),
     (''hunyuan-vision'', 0.018 * RMB),
     (''hunyuan-embedding'', 0.0007 * RMB),
     (''moonshot-v1-8k'', 0.012 * RMB),
     (''moonshot-v1-32k'', 0.024 * RMB),
     (''moonshot-v1-128k'', 0.06 * RMB),
     (''Baichuan2-Turbo'', 0.008 * RMB),
     (''Baichuan2-Turbo-192k'', 0.016 * RMB),
     (''Baichuan2-53B'', 0.02 * RMB),
     (''abab6.5-chat'', 0.03 * RMB),
     (''abab6.5s-chat'', 0.01 * RMB),
     (''abab6-chat'', 0.1 * RMB),
     (''abab5.5-chat'', 0.015 * RMB),
     (''abab5.5s-chat'', 0.005 * RMB),
     (''open-mistral-7b'', 0.25 / 1000 * USD),
     (''open-mixtral-8x7b'', 0.7 / 1000 * USD),
     (''mistral-small-latest'', 2.0 / 1000 * USD),
     (''mistral-medium-latest'', 2.7 / 1000 * USD),
     (''mistral-large-latest'', 8.0 / 1000 * USD),
     (''mistral-embed'', 0.1 / 1000 * USD),
     (''gemma-7b-it'', 0.07 / 1000000 * USD),
     (''gemma2-9b-it'', 0.20 / 1000000 * USD),
     (''llama-3.1-70b-versatile'', 0.59 / 1000000 * USD),
     (''llama-3.1-8b-instant'', 0.05 / 1000000 * USD),
     (''llama-3.2-11b-text-preview'', 0.05 / 1000000 * USD),
     (''llama-3.2-11b-vision-preview'', 0.05 / 1000000 * USD),
     (''llama-3.2-1b-preview'', 0.05 / 1000000 * USD),
     (''llama-3.2-3b-preview'', 0.05 / 1000000 * USD),
     (''llama-3.2-90b-text-preview'', 0.59 / 1000000 * USD),
     (''llama-guard-3-8b'', 0.05 / 1000000 * USD),
     (''llama3-70b-8192'', 0.59 / 1000000 * USD),
     (''llama3-8b-8192'', 0.05 / 1000000 * USD),
     (''llama3-groq-70b-8192-tool-use-preview'', 0.89 / 1000000 * USD),
     (''llama3-groq-8b-8192-tool-use-preview'', 0.19 / 1000000 * USD),
     (''mixtral-8x7b-32768'', 0.24 / 1000000 * USD),
     (''yi-34b-chat-0205'', 2.5 / 1000 * RMB),
     (''yi-34b-chat-200k'', 12.0 / 1000 * RMB),
     (''yi-vl-plus'', 6.0 / 1000 * RMB),
     (''step-1-8k'', 0.005 / 1000 * RMB),
     (''step-1-32k'', 0.015 / 1000 * RMB),
     (''step-1-128k'', 0.040 / 1000 * RMB)]"

definition ModelRatio_3 :: "(string \<times> rat) list" where
  "ModelRatio_3 =
    [(''step-1-256k'', 0.095 / 1000 * RMB),
     (''step-1-flash'', 0.001 / 1000 * RMB),
     (''step-2-16k'', 0.038 / 1000 * RMB),
     (''step-1v-8k'', 0.005 / 1000 * RMB),
     (''step-1v-32k'', 0.015 / 1000 * RMB),
     (''llama3-8b-8192(33)'', 0.0003 / 0.002),
     (''llama3-70b-8192(33)'', 0.00265 / 0.002),
     (''command'', 0.5),
     (''command-nightly'', 0.5),
     (''command-light'', 0.5),
     (''command-light-nightly'', 0.5),
     (''command-r'', 0.5 / 1000 * USD),
     (''command-r-plus'', 3.0 / 1000 * USD),
     (''deepseek-chat'', 0.14 * MILLI_USD),
     (''deepseek-reasoner'', 0.55 * MILLI_USD),
     (''deepl-zh'', 25.0 / 1000 * USD),
     (''deepl-en'', 25.0 / 1000 * USD),
     (''deepl-ja'', 25.0 / 1000 * USD),
     (''grok-beta'', 5.0 / 1000 * USD),
     (''black-forest-labs/flux-1.1-pro'', 0.04 * USD),
     (''black-forest-labs/flux-1.1-pro-ultra'', 0.06 * USD),
     (''black-forest-labs/flux-canny-dev'', 0.025 * USD),
     (''black-forest-labs/flux-canny-pro'', 0.05 * USD),
     (''black-forest-labs/flux-depth-dev'', 0.025 * USD),
     (''black-forest-labs/flux-depth-pro'', 0.05 * USD),
     (''black-forest-labs/flux-dev'', 0.025 * USD),
     (''black-forest-labs/flux-dev-lora'', 0.032 * USD),
     (''black-forest-labs/flux-fill-dev'', 0.04 * USD),
     (''black-forest-labs/flux-fill-pro'', 0.05 * USD),
     (''black-forest-labs/flux-pro'', 0.055 * USD),
     (''black-forest-labs/flux-redux-dev'', 0.025 * USD),
     (''black-forest-labs/flux-redux-schnell'', 0.003 * USD),
     (''black-forest-labs/flux-schnell'', 0.003 * USD),
     (''black-forest-labs/flux-schnell-lora'', 0.02 * USD),
     (''ideogram-ai/ideogram-v2'', 0.08 * USD),
     (''ideogram-ai/ideogram-v2-turbo'', 0.05 * USD),
     (''recraft-ai/recraft-v3'', 0.04 * USD),
     (''recraft-ai/recraft-v3-svg'', 0.08 * USD),
     (''stability-ai/stable-diffusion-3'', 0.035 * USD),
     (''stability-ai/stable-diffusion-3.5-large'', 0.065 * USD),
     (''stability-ai/stable-diffusion-3.5-large-turbo'', 0.04 * USD),
     (''stability-ai/stable-diffusion-3.5-medium'', 0.035 * USD),
     (''ibm-granite/granite-20b-code-instruct-8k'', 0.100 * USD),
     (''ibm-granite/granite-3.0-2b-instruct'', 0.030 * USD),
     (''ibm-granite/granite-3.0-8b-instruct'', 0.050 * USD),
     (''ibm-granite/granite-8b-code-instruct-128k'', 0.050 * USD),
     (''meta/llama-2-13b'', 0.100 * USD),
     (''meta/llama-2-13b-chat'', 0.100 * USD),
     (''meta/llama-2-70b'', 0.650 * USD),
     (''meta/llama-2-70b-chat'', 0.650 * USD),
     (''meta/llama-2-7b'', 0.050 * USD),
     (''meta/llama-2-7b-chat'', 0.050 * USD),
     (''meta/meta-llama-3.1-405b-instruct'', 9.500 * USD),
     (''meta/meta-llama-3-70b'', 0.650 * USD),
     (''meta/meta-llama-3-70b-instruct'', 0.650 * USD),
     (''meta/meta-llama-3-8b'', 0.050 * USD),
     (''meta/meta-llama-3-8b-instruct'', 0.050 * USD),
     (''mistralai/mistral-7b-instruct-v0.2'', 0.050 * USD),
     (''mistralai/mistral-7b-v0.1'', 0.050 * USD),
     (''mistralai/mixtral-8x7b-instruct-v0.1'', 0.300 * USD),
     (''01-ai/yi-large'', 1.5),
     (''aetherwiing/mn-starcannon-12b'', 0.6),
     (''ai21/jamba-1-5-large'', 4.0),
     (''ai21/jamba-1-5-mini'', 0.2),
     (''ai21/jamba-instruct'', 0.35),
     (''aion-labs/aion-1.0'', 6.0),
     (''aion-labs/aion-1.0-mini'', 1.2),
     (''aion-labs/aion-rp-llama-3.1-8b'', 0.1),
     (''allenai/llama-3.1-tulu-3-405b'', 5.0),
     (''alpindale/goliath-120b'', 4.6875),
     (''alpindale/magnum-72b'', 1.125),
     (''amazon/nova-lite-v1'', 0.12),
     (''amazon/nova-micro-v1'', 0.07),
     (''amazon/nova-pro-v1'', 1.6),
     (''anthracite-org/magnum-v2-72b'', 1.5),
     (''anthracite-org/magnum-v4-72b'', 1.125),
     (''anthropic/claude-2'', 12.0),
     (''anthropic/claude-2.0'', 12.0),
     (''anthropic/claude-2.0:beta'', 12.0),
     (''anthropic/claude-2.1'', 12.0),
     (''anthropic/claude-2.1:beta'', 12.0),
     (''anthropic/claude-2:beta'', 12.0),
     (''anthropic/claude-3-haiku'', 0.625),
     (''anthropic/claude-3-haiku:beta'', 0.625),
     (''anthropic/claude-3-opus'', 37.5),
     (''anthropic/claude-3-opus:beta'', 37.5),
     (''anthropic/claude-3-sonnet'', 7.5),
     (''anthropic/claude-3-sonnet:beta'', 7.5),
     (''anthropic/claude-3.5-haiku'', 2.0),
     (''anthropic/claude-3.5-haiku-20241022'', 2.0),
     (''anthropic/claude-3.5-haiku-20241022:beta'', 2.0),
     (''anthropic/claude-3.5-haiku:beta'', 2.0),
     (''anthropic/claude-3.5-sonnet'', 7.5),
     (''anthropic/claude-3.5-sonnet-20240620'', 7.5),
     (''anthropic/claude-3.5-sonnet-20240620:beta'', 7.5),
     (''anthropic/claude-3.5-sonnet:beta'', 7.5),
     (''cognitivecomputations/dolphin-mixtral-8x22b'', 0.45),
     (''cognitivecomputations/dolphin-mixtral-8x7b'', 0.25),
     (''cohere/command'', 0.95),
     (''cohere/command-r'', 0.7125),
     (''cohere/command-r-03-2024'', 0.7125),
     (''cohere/command-r-08-2024'', 0.285),
     (''cohere/command-r-plus'', 7.125),
     (''cohere/command-r-plus-04-2024'', 7.125),
     (''cohere/command-r-plus-08-2024'', 4.75),
     (''cohere/command-r7b-12-2024'', 0.075),
     (''databricks/dbrx-instruct'', 0.6),
     (''deepseek/deepseek-chat'', 0.445),
     (''deepseek/deepseek-chat-v2.5'', 1.0),
     (''deepseek/deepseek-chat:free'', 0.0),
     (''deepseek/deepseek-r1'', 1.2),
     (''deepseek/deepseek-r1-distill-llama-70b'', 0.345),
     (''deepseek/deepseek-r1-distill-llama-70b:free'', 0.0),
     (''deepseek/deepseek-r1-distill-llama-8b'', 0.02),
     (''deepseek/deepseek-r1-distill-qwen-1.5b'', 0.09),
     (''deepseek/deepseek-r1-distill-qwen-14b'', 0.075),
     (''deepseek/deepseek-r1-distill-qwen-32b'', 0.09),
     (''deepseek/deepseek-r1:free'', 0.0),
     (''eva-unit-01/eva-llama-3.33-70b'', 3.0),
     (''eva-unit-01/eva-qwen-2.5-32b'', 1.7),
     (''eva-unit-01/eva-qwen-2.5-72b'', 3.0),
     (''google/gemini-2.0-flash-001'', 0.2),
     (''google/gemini-2.0-flash-exp:free'', 0.0),
     (''google/gemini-2.0-flash-lite-preview-02-05:free'', 0.0),
     (''google/gemini-2.0-flash-thinking-exp-1219:free'', 0.0),
     (''google/gemini-2.0-flash-thinking-exp:free'', 0.0),
     (''google/gemini-2.0-pro-exp-02-05:free'', 0.0),
     (''google/gemini-exp-1206:free'', 0.0),
     (''google/gemini-flash-1.5'', 0.15),
     (''google/gemini-flash-1.5-8b'', 0.075),
     (''google/gemini-flash-1.5-8b-exp'', 0.0),
     (''google/gemini-pro'', 0.75),
     (''google/gemini-pro-1.5'', 2.5),
     (''google/gemini-pro-vision'', 0.75),
     (''google/gemma-2-27b-it'', 0.135),
     (''google/gemma-2-9b-it'', 0.03),
     (''google/gemma-2-9b-it:free'', 0.0),
     (''google/gemma-7b-it'', 0.075)]"

definition ModelRatio_4 :: "(string \<times> rat) list" where
  "ModelRatio_4 =
    [(''google/learnlm-1.5-pro-experimental:free'', 0.0),
     (''google/palm-2-chat-bison'', 1.0),
     (''google/palm-2-chat-bison-32k'', 1.0),
     (''google/palm-2-codechat-bison'', 1.0),
     (''google/palm-2-codechat-bison-32k'', 1.0),
     (''gryphe/mythomax-l2-13b'', 0.0325),
     (''gryphe/mythomax-l2-13b:free'', 0.0),
     (''huggingfaceh4/zephyr-7b-beta:free'', 0.0),
     (''infermatic/mn-inferor-12b'', 0.6),
     (''inflection/inflection-3-pi'', 5.0),
     (''inflection/inflection-3-productivity'', 5.0),
     (''jondurbin/airoboros-l2-70b'', 0.25),
     (''liquid/lfm-3b'', 0.01),
     (''liquid/lfm-40b'', 0.075),
     (''liquid/lfm-7b'', 0.005),
     (''mancer/weaver'', 1.125),
     (''meta-llama/llama-2-13b-chat'', 0.11),
     (''meta-llama/llama-2-70b-chat'', 0.45),
     (''meta-llama/llama-3-70b-instruct'', 0.2),
     (''meta-llama/llama-3-8b-instruct'', 0.03),
     (''meta-llama/llama-3-8b-instruct:free'', 0.0),
     (''meta-llama/llama-3.1-405b'', 1.0),
     (''meta-llama/llama-3.1-405b-instruct'', 0.4),
     (''meta-llama/llama-3.1-70b-instruct'', 0.15),
     (''meta-llama/llama-3.1-8b-instruct'', 0.025),
     (''meta-llama/llama-3.2-11b-vision-instruct'', 0.0275),
     (''meta-llama/llama-3.2-11b-vision-instruct:free'', 0.0),
     (''meta-llama/llama-3.2-1b-instruct'', 0.005),
     (''meta-llama/llama-3.2-3b-instruct'', 0.0125),
     (''meta-llama/llama-3.2-90b-vision-instruct'', 0.8),
     (''meta-llama/llama-3.3-70b-instruct'', 0.15),
     (''meta-llama/llama-3.3-70b-instruct:free'', 0.0),
     (''meta-llama/llama-guard-2-8b'', 0.1),
     (''microsoft/phi-3-medium-128k-instruct'', 0.5),
     (''microsoft/phi-3-medium-128k-instruct:free'', 0.0),
     (''microsoft/phi-3-mini-128k-instruct'', 0.05),
     (''microsoft/phi-3-mini-128k-instruct:free'', 0.0),
     (''microsoft/phi-3.5-mini-128k-instruct'', 0.05),
     (''microsoft/phi-4'', 0.07),
     (''microsoft/wizardlm-2-7b'', 0.035),
     (''microsoft/wizardlm-2-8x22b'', 0.25),
     (''minimax/minimax-01'', 0.55),
     (''mistralai/codestral-2501'', 0.45),
     (''mistralai/codestral-mamba'', 0.125),
     (''mistralai/ministral-3b'', 0.02),
     (''mistralai/ministral-8b'', 0.05),
     (''mistralai/mistral-7b-instruct'', 0.0275),
     (''mistralai/mistral-7b-instruct-v0.1'', 0.1),
     (''mistralai/mistral-7b-instruct-v0.3'', 0.0275),
     (''mistralai/mistral-7b-instruct:free'', 0.0),
     (''mistralai/mistral-large'', 3.0),
     (''mistralai/mistral-large-2407'', 3.0),
     (''mistralai/mistral-large-2411'', 3.0),
     (''mistralai/mistral-medium'', 4.05),
     (''mistralai/mistral-nemo'', 0.04),
     (''mistralai/mistral-nemo:free'', 0.0),
     (''mistralai/mistral-small'', 0.3),
     (''mistralai/mistral-small-24b-instruct-2501'', 0.07),
     (''mistralai/mistral-small-24b-instruct-2501:free'', 0.0),
     (''mistralai/mistral-tiny'', 0.125),
     (''mistralai/mixtral-8x22b-instruct'', 0.45),
     (''mistralai/mixtral-8x7b'', 0.3),
     (''mistralai/mixtral-8x7b-instruct'', 0.12),
     (''mistralai/pixtral-12b'', 0.05),
     (''mistralai/pixtral-large-2411'', 3.0),
     (''neversleep/llama-3-lumimaid-70b'', 2.25),
     (''neversleep/llama-3-lumimaid-8b'', 0.5625),
     (''neversleep/llama-3-lumimaid-8b:extended'', 0.5625),
     (''neversleep/llama-3.1-lumimaid-70b'', 2.25),
     (''neversleep/llama-3.1-lumimaid-8b'', 0.5625),
     (''neversleep/noromaid-20b'', 1.125),
     (''nothingiisreal/mn-celeste-12b'', 0.6),
     (''nousresearch/hermes-2-pro-llama-3-8b'', 0.02),
     (''nousresearch/hermes-3-llama-3.1-405b'', 0.4),
     (''nousresearch/hermes-3-llama-3.1-70b'', 0.15),
     (''nousresearch/nous-hermes-2-mixtral-8x7b-dpo'', 0.3),
     (''nousresearch/nous-hermes-llama2-13b'', 0.085),
     (''nvidia/llama-3.1-nemotron-70b-instruct'', 0.15),
     (''nvidia/llama-3.1-nemotron-70b-instruct:free'', 0.0),
     (''openai/chatgpt-4o-latest'', 7.5),
     (''openai/gpt-3.5-turbo'', 0.75),
     (''openai/gpt-3.5-turbo-0125'', 0.75),
     (''openai/gpt-3.5-turbo-0613'', 1.0),
     (''openai/gpt-3.5-turbo-1106'', 1.0),
     (''openai/gpt-3.5-turbo-16k'', 2.0),
     (''openai/gpt-3.5-turbo-instruct'', 1.0),
     (''openai/gpt-4'', 30.0),
     (''openai/gpt-4-0314'', 30.0),
     (''openai/gpt-4-1106-preview'', 15.0),
     (''openai/gpt-4-32k'', 60.0),
     (''openai/gpt-4-32k-0314'', 60.0),
     (''openai/gpt-4-turbo'', 15.0),
     (''openai/gpt-4-turbo-preview'', 15.0),
     (''openai/gpt-4o'', 5.0),
     (''openai/gpt-4o-2024-05-13'', 7.5),
     (''openai/gpt-4o-2024-08-06'', 5.0),
     (''openai/gpt-4o-2024-11-20'', 5.0),
     (''openai/gpt-4o-mini'', 0.3),
     (''openai/gpt-4o-mini-2024-07-18'', 0.3),
     (''openai/gpt-4o:extended'', 9.0),
     (''openai/o1'', 30.0),
     (''openai/o1-mini'', 2.2),
     (''openai/o1-mini-2024-09-12'', 2.2),
     (''openai/o1-preview'', 30.0),
     (''openai/o1-preview-2024-09-12'', 30.0),
     (''openai/o3-mini'', 2.2),
     (''openai/o3-mini-high'', 2.2),
     (''openchat/openchat-7b'', 0.0275),
     (''openchat/openchat-7b:free'', 0.0),
     (''openrouter/auto'', - 500000.0),
     (''perplexity/llama-3.1-sonar-huge-128k-online'', 2.5),
     (''perplexity/llama-3.1-sonar-large-128k-chat'', 0.5),
     (''perplexity/llama-3.1-sonar-large-128k-online'', 0.5),
     (''perplexity/llama-3.1-sonar-small-128k-chat'', 0.1),
     (''perplexity/llama-3.1-sonar-small-128k-online'', 0.1),
     (''perplexity/sonar'', 0.5),
     (''perplexity/sonar-reasoning'', 2.5),
     (''pygmalionai/mythalion-13b'', 0.6),
     (''qwen/qvq-72b-preview'', 0.25),
     (''qwen/qwen-2-72b-instruct'', 0.45),
     (''qwen/qwen-2-7b-instruct'', 0.027),
     (''qwen/qwen-2-7b-instruct:free'', 0.0),
     (''qwen/qwen-2-vl-72b-instruct'', 0.2),
     (''qwen/qwen-2-vl-7b-instruct'', 0.05),
     (''qwen/qwen-2.5-72b-instruct'', 0.2),
     (''qwen/qwen-2.5-7b-instruct'', 0.025),
     (''qwen/qwen-2.5-coder-32b-instruct'', 0.08),
     (''qwen/qwen-max'', 3.2),
     (''qwen/qwen-plus'', 0.6),
     (''qwen/qwen-turbo'', 0.1),
     (''qwen/qwen-vl-plus:free'', 0.0),
     (''qwen/qwen2.5-vl-72b-instruct:free'', 0.0),
     (''qwen/qwq-32b-preview'', 0.09),
     (''raifle/sorcererlm-8x22b'', 2.25),
     (''sao10k/fimbulvetr-11b-v2'', 0.6),
     (''sao10k/l3-euryale-70b'', 0.4),
     (''sao10k/l3-lunaris-8b'', 0.03),
     (''sao10k/l3.1-70b-hanami-x1'', 1.5),
     (''sao10k/l3.1-euryale-70b'', 0.4),
     (''sao10k/l3.3-euryale-70b'', 0.4),
     (''sophosympatheia/midnight-rose-70b'', 0.4),
     (''sophosympatheia/rogue-rose-103b-v0.2:free'', 0.0),
     (''teknium/openhermes-2.5-mistral-7b'', 0.085),
     (''thedrummer/rocinante-12b'', 0.25),
     (''thedrummer/unslopnemo-12b'', 0.25),
     (''undi95/remm-slerp-l2-13b'', 0.6),
     (''undi95/toppy-m-7b'', 0.035)]"

definition ModelRatio_5 :: "(string \<times> rat) list" where
  "ModelRatio_5 =
    [(''undi95/toppy-m-7b:free'', 0.0),
     (''x-ai/grok-2-1212'', 5.0),
     (''x-ai/grok-2-vision-1212'', 5.0),
     (''x-ai/grok-beta'', 7.5),
     (''x-ai/grok-vision-beta'', 7.5),
     (''xwin-lm/xwin-lm-70b'', 1.875)]"

text \<open>The shipped completion prices, relative to the prompt's.\<close>

definition CompletionRatio_table :: "(string \<times> rat) list" where
  "CompletionRatio_table =
    [(''llama3-8b-8192(33)'', 0.0006 / 0.0003),
     (''llama3-70b-8192(33)'', 0.0035 / 0.00265),
     (''whisper-1'', 0),
     (''deepseek-chat'', 0.28 / 0.14),
     (''deepseek-reasoner'', 2.19 / 0.55)]"

definition ModelRatio_table :: "(string \<times> rat) list" where
  "ModelRatio_table = ModelRatio_1 @ ModelRatio_2 @ ModelRatio_3 @ ModelRatio_4 @ ModelRatio_5"

type_synonym ratio_map = "string \<rightharpoonup> f64"

definition ratio_map_of :: "(string \<times> rat) list \<Rightarrow> ratio_map" where
  "ratio_map_of t = (\<lambda>k. map_option f64_const (map_of t k))"

text \<open>The copies that \<open>init\<close> makes before anything changes the tables.\<close>

definition DefaultModelRatio :: ratio_map where
  "DefaultModelRatio = ratio_map_of ModelRatio_table"

definition DefaultCompletionRatio :: ratio_map where
  "DefaultCompletionRatio = ratio_map_of CompletionRatio_table"

definition GroupRatio_table :: "(string \<times> rat) list" where
  "GroupRatio_table = [(''default'', 1), (''vip'', 1), (''svip'', 1)]"

record ratios =
  ModelRatio :: ratio_map
  CompletionRatio :: ratio_map
  GroupRatio :: ratio_map

definition shipped_ratios :: ratios where
  "shipped_ratios = \<lparr>ModelRatio = DefaultModelRatio, CompletionRatio = DefaultCompletionRatio,
     GroupRatio = ratio_map_of GroupRatio_table\<rparr>"


section \<open>Images\<close>

definition ImageSizeRatios :: "(string \<times> (string \<times> rat) list) list" where
  "ImageSizeRatios =
    [(''dall-e-2'', [(''256x256'', 1), (''512x512'', 1.125), (''1024x1024'', 1.25)]),
     (''dall-e-3'', [(''1024x1024'', 1), (''1024x1792'', 2), (''1792x1024'', 2)]),
     (''ali-stable-diffusion-xl'',
       [(''512x1024'', 1), (''1024x768'', 1), (''1024x1024'', 1), (''576x1024'', 1), (''1024x576'', 1)]),
     (''ali-stable-diffusion-v1.5'',
       [(''512x1024'', 1), (''1024x768'', 1), (''1024x1024'', 1), (''576x1024'', 1), (''1024x576'', 1)]),
     (''wanx-v1'', [(''1024x1024'', 1), (''720x1280'', 1), (''1280x720'', 1)]),
     (''step-1x-medium'',
       [(''256x256'', 1), (''512x512'', 1), (''768x768'', 1), (''1024x1024'', 1), (''1280x800'', 1),
        (''800x1280'', 1)])]"

definition ImageGenerationAmounts :: "(string \<times> int \<times> int) list" where
  "ImageGenerationAmounts =
    [(''dall-e-2'', (1, 10)),
     (''dall-e-3'', (1, 1)),
     (''ali-stable-diffusion-xl'', (1, 4)),
     (''ali-stable-diffusion-v1.5'', (1, 4)),
     (''wanx-v1'', (1, 4)),
     (''cogview-3'', (1, 1)),
     (''step-1x-medium'', (1, 1))]"

definition ImagePromptLengthLimitations :: "(string \<times> int) list" where
  "ImagePromptLengthLimitations =
    [(''dall-e-2'', 1000),
     (''dall-e-3'', 4000),
     (''ali-stable-diffusion-xl'', 4000),
     (''ali-stable-diffusion-v1.5'', 4000),
     (''wanx-v1'', 4000),
     (''cogview-3'', 833),
     (''step-1x-medium'', 4000)]"

definition ImageOriginModelName :: "(string \<times> string) list" where
  "ImageOriginModelName =
    [(''ali-stable-diffusion-xl'', ''stable-diffusion-xl''),
     (''ali-stable-diffusion-v1.5'', ''stable-diffusion-v1.5'')]"


section \<open>Replacing the tables\<close>

text \<open>The missing entries are added; when the text cannot be read or written it stays as it was.\<close>

definition AddNewMissingRatio ::
    "(ratio_map \<Rightarrow> string + string) \<Rightarrow> (string \<Rightarrow> ratio_map \<times> string option) \<Rightarrow> string \<Rightarrow> string" where
  "AddNewMissingRatio marshal unmarshal oldRatio =
     (case unmarshal oldRatio of
        (_, Some e) \<Rightarrow> oldRatio
      | (newRatio, None) \<Rightarrow>
          (case marshal (DefaultModelRatio ++ newRatio) of Inl e \<Rightarrow> oldRatio | Inr json \<Rightarrow> json))"

text \<open>An error leaves no bytes, and the empty string is the answer.\<close>

definition json_text :: "string + string \<Rightarrow> string" where
  "json_text r = (case r of Inl e \<Rightarrow> '''' | Inr json \<Rightarrow> json)"

definition ModelRatio2JSONString :: "(ratio_map \<Rightarrow> string + string) \<Rightarrow> ratios \<Rightarrow> string" where
  "ModelRatio2JSONString marshal rs = json_text (marshal (ModelRatio rs))"

definition UpdateModelRatioByJSONString ::
    "(string \<Rightarrow> ratio_map \<times> string option) \<Rightarrow> string \<Rightarrow> ratios \<Rightarrow> string option \<times> ratios" where
  "UpdateModelRatioByJSONString unmarshal json rs =
     (let (m, err) = unmarshal json in (err, rs\<lparr>ModelRatio := m\<rparr>))"

definition CompletionRatio2JSONString :: "(ratio_map \<Rightarrow> string + string) \<Rightarrow> ratios \<Rightarrow> string" where
  "CompletionRatio2JSONString marshal rs = json_text (marshal (CompletionRatio rs))"

definition UpdateCompletionRatioByJSONString ::
    "(string \<Rightarrow> ratio_map \<times> string option) \<Rightarrow> string \<Rightarrow> ratios \<Rightarrow> string option \<times> ratios" where
  "UpdateCompletionRatioByJSONString unmarshal json rs =
     (let (m, err) = unmarshal json in (err, rs\<lparr>CompletionRatio := m\<rparr>))"

definition GroupRatio2JSONString :: "(ratio_map \<Rightarrow> string + string) \<Rightarrow> ratios \<Rightarrow> string" where
  "GroupRatio2JSONString marshal rs = json_text (marshal (GroupRatio rs))"

definition UpdateGroupRatioByJSONString ::
    "(string \<Rightarrow> ratio_map \<times> string option) \<Rightarrow> string \<Rightarrow> ratios \<Rightarrow> string option \<times> ratios" where
  "UpdateGroupRatioByJSONString unmarshal json rs =
     (let (m, err) = unmarshal json in (err, rs\<lparr>GroupRatio := m\<rparr>))"


section \<open>Looking prices up\<close>

definition GetGroupRatio :: "ratios \<Rightarrow> string \<Rightarrow> f64" where
  "GetGroupRatio rs name = (case GroupRatio rs name of Some r \<Rightarrow> r | None \<Rightarrow> f64_const 1)"

definition channel_model :: "string \<Rightarrow> int \<Rightarrow> string" where
  "channel_model name channelType = name @ ''('' @ Itoa channelType @ '')''"

text \<open>A family's suffix for search on the internet does not change the price.\<close>

definition internet_name :: "string \<Rightarrow> string \<Rightarrow> string" where
  "internet_name family name =
     (if HasPrefix name family \<and> HasSuffix name ''-internet'' then TrimSuffix name ''-internet'' else name)"

text \<open>The first of the four tables that has the name.\<close>

fun first_price :: "f64 option list \<Rightarrow> f64 \<Rightarrow> f64" where
  "first_price [] d = d"
| "first_price (Some r # rest) d = r"
| "first_price (None # rest) d = first_price rest d"

definition GetModelRatio :: "ratios \<Rightarrow> string \<Rightarrow> int \<Rightarrow> f64" where
  "GetModelRatio rs name channelType =
     (let name = internet_name ''qwen-'' name;
          name = internet_name ''command-'' name;
          model = channel_model name channelType
      in first_price [ModelRatio rs model, DefaultModelRatio model, ModelRatio rs name, DefaultModelRatio name]
           (f64_const 30))"

text \<open>The price relations by the model's family, when no table has the model.\<close>

definition family_completion_ratio :: "string \<Rightarrow> rat" where
  "family_completion_ratio name =
     (if HasPrefix name ''gpt-3.5'' then
        (if name = ''gpt-3.5-turbo'' \<or> HasSuffix name ''0125'' then 3
         else if HasSuffix name ''1106'' then 2
         else 4.0 / 3.0)
      else if HasPrefix name ''gpt-4'' then
        (if HasPrefix name ''gpt-4o'' then (if name = ''gpt-4o-2024-05-13'' then 3 else 4)
         else if HasPrefix name ''gpt-4-turbo'' \<or> HasSuffix name ''preview'' then 3
         else 2)
      else if HasPrefix name ''o1'' then 4
      else if name = ''chatgpt-4o-latest'' then 3
      else if HasPrefix name ''claude-3'' then 5
      else if HasPrefix name ''claude-'' then 3
      else if HasPrefix name ''mistral-'' then 3
      else if HasPrefix name ''gemini-'' then 3
      else if HasPrefix name ''deepseek-'' then 2
      else if name = ''llama2-70b-4096'' then 0.8 / 0.64
      else if name = ''llama3-8b-8192'' then 2
      else if name = ''llama3-70b-8192'' then 0.79 / 0.59
      else if name \<in> {''command'', ''command-light'', ''command-nightly'', ''command-light-nightly''} then 2
      else if name = ''command-r'' then 3
      else if name = ''command-r-plus'' then 5
      else if name = ''grok-beta'' then 3
      else if name = ''ibm-granite/granite-20b-code-instruct-8k'' then 5
      else if name = ''ibm-granite/granite-3.0-2b-instruct'' then 8.333333333333334
      else if name \<in> {''ibm-granite/granite-3.0-8b-instruct'', ''ibm-granite/granite-8b-code-instruct-128k''} then 5
      else if name \<in> {''meta/llama-2-13b'', ''meta/llama-2-13b-chat'', ''meta/llama-2-7b'',
        ''meta/llama-2-7b-chat'', ''meta/meta-llama-3-8b'', ''meta/meta-llama-3-8b-instruct''} then 5
      else if name \<in> {''meta/llama-2-70b'', ''meta/llama-2-70b-chat'', ''meta/meta-llama-3-70b'',
        ''meta/meta-llama-3-70b-instruct''} then 2.750 / 0.650
      else if name = ''meta/meta-llama-3.1-405b-instruct'' then 1
      else if name \<in> {''mistralai/mistral-7b-instruct-v0.2'', ''mistralai/mistral-7b-v0.1''} then 5
      else if name = ''mistralai/mixtral-8x7b-instruct-v0.1'' then 1.000 / 0.300
      else 1)"

definition GetCompletionRatio :: "ratios \<Rightarrow> string \<Rightarrow> int \<Rightarrow> f64" where
  "GetCompletionRatio rs name channelType =
     (let name = internet_name ''qwen-'' name;
          model = channel_model name channelType
      in first_price [CompletionRatio rs model, DefaultCompletionRatio model, CompletionRatio rs name,
             DefaultCompletionRatio name] (f64_const (family_completion_ratio name)))"

section \<open>Properties\<close>

lemma RMB_71: "RMB = 71"
  by (simp add: RMB_def go_div_def)

lemma f64_const_nonneg: "0 \<le> q \<Longrightarrow> 0 \<le> f64_const q"
  by (simp add: f64_const_def f64_defs rnd_nonneg)

lemma if_ge: "z \<le> x \<Longrightarrow> z \<le> y \<Longrightarrow> z \<le> (if b then x else y :: rat)"
  by simp

lemma family_completion_ratio_pos: "1 \<le> family_completion_ratio name"
  unfolding family_completion_ratio_def by (intro if_ge; simp)

definition prices_ok :: "(string \<times> rat) list \<Rightarrow> bool" where
  "prices_ok t = list_all (\<lambda>(n, q). q < 0 \<longrightarrow> n = ''openrouter/auto'') t"

lemmas price_units = USD_def MILLI_USD_def RMB_71

lemma prices_1: "prices_ok ModelRatio_1"
  unfolding prices_ok_def ModelRatio_1_def list.pred_inject prod.case
  by (intro conjI TrueI; simp add: price_units)

lemma prices_2: "prices_ok ModelRatio_2"
  unfolding prices_ok_def ModelRatio_2_def list.pred_inject prod.case
  by (intro conjI TrueI; simp add: price_units)

lemma prices_3: "prices_ok ModelRatio_3"
  unfolding prices_ok_def ModelRatio_3_def list.pred_inject prod.case
  by (intro conjI TrueI; simp add: price_units)

lemma prices_4: "prices_ok ModelRatio_4"
  unfolding prices_ok_def ModelRatio_4_def list.pred_inject prod.case
  by (intro conjI TrueI; simp add: price_units)

lemma prices_5: "prices_ok ModelRatio_5"
  unfolding prices_ok_def ModelRatio_5_def list.pred_inject prod.case
  by (intro conjI TrueI; simp add: price_units)

lemma prices_all: "prices_ok ModelRatio_table"
  using prices_1 prices_2 prices_3 prices_4 prices_5 by (simp add: prices_ok_def ModelRatio_table_def)

lemma default_price:
  assumes "DefaultModelRatio k = Some r"
  shows "0 \<le> r \<or> k = ''openrouter/auto''"
proof -
  from assms obtain q where q: "(k, q) \<in> set ModelRatio_table" "r = f64_const q"
    by (auto simp: DefaultModelRatio_def ratio_map_of_def dest: map_of_SomeD)
  then have "0 \<le> q \<or> k = ''openrouter/auto''"
    using prices_all by (auto simp: prices_ok_def list_all_iff not_less)
  with q(2) show ?thesis by (auto intro: f64_const_nonneg)
qed

lemma channel_model_not_auto: "channel_model name ty \<noteq> ''openrouter/auto''"
proof
  assume "channel_model name ty = ''openrouter/auto''"
  then have "last (channel_model name ty) = last ''openrouter/auto''" by simp
  then show False by (simp add: channel_model_def)
qed

lemma first_price_in: "first_price xs d = d \<or> Some (first_price xs d) \<in> set xs"
  by (induction xs d rule: first_price.induct) auto

lemma first_price_all: "(\<And>r. Some r \<in> set xs \<Longrightarrow> P r) \<Longrightarrow> P d \<Longrightarrow> P (first_price xs d)"
  using first_price_in [of xs d] by auto

text \<open>With tables without negative prices only the one shipped negative price remains.\<close>

lemma internet_name_not_auto:
  assumes "name \<noteq> ''openrouter/auto''" and "family = c # cs" "c \<noteq> CHR ''o''"
  shows "internet_name family name \<noteq> ''openrouter/auto''"
proof
  assume t: "internet_name family name = ''openrouter/auto''"
  then obtain r where "name = r @ ''-internet''" and p: "HasPrefix name family"
    using assms(1) by (auto simp: internet_name_def HasSuffix_iff split: if_splits)
  with t have "name = ''openrouter/auto-internet''" by (simp add: internet_name_def split: if_splits)
  with p assms(2,3) show False by (auto simp: HasPrefix_def)
qed

lemma model_price_nonneg:
  assumes "\<And>k r. ModelRatio rs k = Some r \<Longrightarrow> 0 \<le> r \<or> k = ''openrouter/auto''"
    and "name \<noteq> ''openrouter/auto''"
  shows "0 \<le> GetModelRatio rs name ty"
proof -
  define n where "n = internet_name ''command-'' (internet_name ''qwen-'' name)"
  have n: "n \<noteq> ''openrouter/auto''"
    unfolding n_def by (intro internet_name_not_auto [OF _ refl] assms(2)) simp_all
  note keys = assms(1) [of n] assms(1) [of "channel_model n ty"] default_price [of n]
    default_price [of "channel_model n ty"]
  have "0 \<le> first_price [ModelRatio rs (channel_model n ty), DefaultModelRatio (channel_model n ty),
      ModelRatio rs n, DefaultModelRatio n] (f64_const 30)"
    by (rule first_price_all) (use keys n channel_model_not_auto in \<open>auto intro: f64_const_nonneg\<close>)
  then show ?thesis by (simp add: GetModelRatio_def Let_def n_def)
qed

lemma map_of_none: "list_all (\<lambda>(n, q). n \<noteq> k) xs \<Longrightarrow> map_of xs k = None"
  by (induction xs) auto

lemma auto_1: "map_of ModelRatio_1 ''openrouter/auto'' = None" "map_of ModelRatio_1 ''openrouter/auto(20)'' = None"
  by (rule map_of_none, unfold ModelRatio_1_def list.pred_inject prod.case, intro conjI TrueI; simp)+

lemma auto_2: "map_of ModelRatio_2 ''openrouter/auto'' = None" "map_of ModelRatio_2 ''openrouter/auto(20)'' = None"
  by (rule map_of_none, unfold ModelRatio_2_def list.pred_inject prod.case, intro conjI TrueI; simp)+

lemma auto_3: "map_of ModelRatio_3 ''openrouter/auto'' = None" "map_of ModelRatio_3 ''openrouter/auto(20)'' = None"
  by (rule map_of_none, unfold ModelRatio_3_def list.pred_inject prod.case, intro conjI TrueI; simp)+

lemma auto_5: "map_of ModelRatio_5 ''openrouter/auto'' = None" "map_of ModelRatio_5 ''openrouter/auto(20)'' = None"
  by (rule map_of_none, unfold ModelRatio_5_def list.pred_inject prod.case, intro conjI TrueI; simp)+

lemma auto_4: "map_of ModelRatio_4 ''openrouter/auto'' = Some (- 500000)"
  by code_simp

lemma auto_channel_4: "map_of ModelRatio_4 ''openrouter/auto(20)'' = None"
  by (rule map_of_none, unfold ModelRatio_4_def list.pred_inject prod.case, intro conjI TrueI; simp)

lemma auto_price: "map_of ModelRatio_table ''openrouter/auto'' = Some (- 500000)"
    "map_of ModelRatio_table ''openrouter/auto(20)'' = None"
  by (simp_all add: ModelRatio_table_def map_add_def auto_1 auto_2 auto_3 auto_4 auto_5 auto_channel_4)

text \<open>The shipped tables price every model that is not a negative number of units, with one
  exception: the price of \<open>openrouter/auto\<close> on OpenRouter's channels (number 20) is negative.\<close>

theorem shipped_prices:
  "(\<forall>name ty. 0 \<le> GetModelRatio shipped_ratios name ty \<or> name = ''openrouter/auto'') \<and>
   GetModelRatio shipped_ratios ''openrouter/auto'' 20 = F64 (- 500000)"
proof -
  have "0 \<le> GetModelRatio shipped_ratios name ty \<or> name = ''openrouter/auto''" for name ty
    using model_price_nonneg [of shipped_ratios name ty] default_price by (auto simp: shipped_ratios_def)
  moreover have "channel_model ''openrouter/auto'' 20 = ''openrouter/auto(20)''"
    by code_simp
  moreover have "f64_const (- 500000) = F64 (- 500000)"
    using rnd_exact [of "- 500000"] by (simp add: f64_const_def)
  ultimately show ?thesis
    by (simp add: GetModelRatio_def internet_name_def HasPrefix_def shipped_ratios_def DefaultModelRatio_def
        ratio_map_of_def auto_price)
qed

text \<open>Adding the missing shipped prices to a table that lacks some changes no price: whether the
  completed text or the old one is loaded, every model costs the same on every channel. The completed
  table has an entry for every shipped model and keeps the old table's entries.\<close>

theorem missing_prices_neutral:
  assumes "unmarshal old = (m, None)" and "marshal (DefaultModelRatio ++ m) = Inr text"
    and "unmarshal text = (DefaultModelRatio ++ m, None)"
  shows "GetModelRatio (snd (UpdateModelRatioByJSONString unmarshal (AddNewMissingRatio marshal unmarshal old) rs)) name ty =
      GetModelRatio (snd (UpdateModelRatioByJSONString unmarshal old rs)) name ty \<and>
    dom DefaultModelRatio \<subseteq> dom (ModelRatio (snd (UpdateModelRatioByJSONString unmarshal
      (AddNewMissingRatio marshal unmarshal old) rs))) \<and>
    m \<subseteq>\<^sub>m ModelRatio (snd (UpdateModelRatioByJSONString unmarshal (AddNewMissingRatio marshal unmarshal old) rs))"
proof -
  have pick: "first_price [(D ++ m) a, D a, (D ++ m) b, D b] d = first_price [m a, D a, m b, D b] d"
    for D :: ratio_map and a b d
    by (cases "m a"; cases "m b"; cases "D a"; cases "D b") (simp_all add: map_add_def)
  show ?thesis
    by (simp add: AddNewMissingRatio_def UpdateModelRatioByJSONString_def GetModelRatio_def Let_def pick
        assms map_le_map_add)
qed

theorem missing_prices_neutral_witness:
  "GetModelRatio (snd (UpdateModelRatioByJSONString
      (\<lambda>t. (if t = ''all'' then DefaultModelRatio else Map.empty, None))
      (AddNewMissingRatio (\<lambda>m. Inr ''all'') (\<lambda>t. (if t = ''all'' then DefaultModelRatio else Map.empty, None)) ''none'')
      shipped_ratios)) ''tts-1'' 1 =
   GetModelRatio (snd (UpdateModelRatioByJSONString
      (\<lambda>t. (if t = ''all'' then DefaultModelRatio else Map.empty, None)) ''none'' shipped_ratios)) ''tts-1'' 1"
  using missing_prices_neutral [of "\<lambda>t. (if t = ''all'' then DefaultModelRatio else Map.empty, None)" "''none''"
      Map.empty "\<lambda>m. Inr ''all''" "''all''" shipped_ratios "''tts-1''" 1]
  by simp

end
