(* ===== verification/Relaymodes.thy ===== *)
theory Relaymodes
  imports Channels
begin

text \<open>
  The numbering of upstream services and interfaces: \<^verbatim>\<open>relay/channeltype\<close>, \<^verbatim>\<open>relay/apitype\<close>,
  \<^verbatim>\<open>relay/relaymode\<close> and the choice of an adaptor in \<^verbatim>\<open>relay/adaptor.go\<close>. The Go constants are input
  abbreviations with the prefixes \<open>ct_\<close>, \<open>api_\<close> and \<open>mode_\<close>.
\<close>

section \<open>Kinds of channels\<close>

abbreviation (input) ct_Unknown :: int where "ct_Unknown \<equiv> 0"
abbreviation (input) ct_OpenAI :: int where "ct_OpenAI \<equiv> 1"
abbreviation (input) ct_API2D :: int where "ct_API2D \<equiv> 2"
abbreviation (input) ct_Azure :: int where "ct_Azure \<equiv> 3"
abbreviation (input) ct_CloseAI :: int where "ct_CloseAI \<equiv> 4"
abbreviation (input) ct_OpenAISB :: int where "ct_OpenAISB \<equiv> 5"
abbreviation (input) ct_OpenAIMax :: int where "ct_OpenAIMax \<equiv> 6"
abbreviation (input) ct_OhMyGPT :: int where "ct_OhMyGPT \<equiv> 7"
abbreviation (input) ct_Custom :: int where "ct_Custom \<equiv> 8"
abbreviation (input) ct_Ails :: int where "ct_Ails \<equiv> 9"
abbreviation (input) ct_AIProxy :: int where "ct_AIProxy \<equiv> 10"
abbreviation (input) ct_PaLM :: int where "ct_PaLM \<equiv> 11"
abbreviation (input) ct_API2GPT :: int where "ct_API2GPT \<equiv> 12"
abbreviation (input) ct_AIGC2D :: int where "ct_AIGC2D \<equiv> 13"
abbreviation (input) ct_Anthropic :: int where "ct_Anthropic \<equiv> 14"
abbreviation (input) ct_Baidu :: int where "ct_Baidu \<equiv> 15"
abbreviation (input) ct_Zhipu :: int where "ct_Zhipu \<equiv> 16"
abbreviation (input) ct_Ali :: int where "ct_Ali \<equiv> 17"
abbreviation (input) ct_Xunfei :: int where "ct_Xunfei \<equiv> 18"
abbreviation (input) ct_AI360 :: int where "ct_AI360 \<equiv> 19"
abbreviation (input) ct_OpenRouter :: int where "ct_OpenRouter \<equiv> 20"
abbreviation (input) ct_AIProxyLibrary :: int where "ct_AIProxyLibrary \<equiv> 21"
abbreviation (input) ct_FastGPT :: int where "ct_FastGPT \<equiv> 22"
abbreviation (input) ct_Tencent :: int where "ct_Tencent \<equiv> 23"
abbreviation (input) ct_Gemini :: int where "ct_Gemini \<equiv> 24"
abbreviation (input) ct_Moonshot :: int where "ct_Moonshot \<equiv> 25"
abbreviation (input) ct_Baichuan :: int where "ct_Baichuan \<equiv> 26"
abbreviation (input) ct_Minimax :: int where "ct_Minimax \<equiv> 27"
abbreviation (input) ct_Mistral :: int where "ct_Mistral \<equiv> 28"
abbreviation (input) ct_Groq :: int where "ct_Groq \<equiv> 29"
abbreviation (input) ct_Ollama :: int where "ct_Ollama \<equiv> 30"
abbreviation (input) ct_LingYiWanWu :: int where "ct_LingYiWanWu \<equiv> 31"
abbreviation (input) ct_StepFun :: int where "ct_StepFun \<equiv> 32"
abbreviation (input) ct_AwsClaude :: int where "ct_AwsClaude \<equiv> 33"
abbreviation (input) ct_Coze :: int where "ct_Coze \<equiv> 34"
abbreviation (input) ct_Cohere :: int where "ct_Cohere \<equiv> 35"
abbreviation (input) ct_DeepSeek :: int where "ct_DeepSeek \<equiv> 36"
abbreviation (input) ct_Cloudflare :: int where "ct_Cloudflare \<equiv> 37"
abbreviation (input) ct_DeepL :: int where "ct_DeepL \<equiv> 38"
abbreviation (input) ct_TogetherAI :: int where "ct_TogetherAI \<equiv> 39"
abbreviation (input) ct_Doubao :: int where "ct_Doubao \<equiv> 40"
abbreviation (input) ct_Novita :: int where "ct_Novita \<equiv> 41"
abbreviation (input) ct_VertextAI :: int where "ct_VertextAI \<equiv> 42"
abbreviation (input) ct_Proxy :: int where "ct_Proxy \<equiv> 43"
abbreviation (input) ct_SiliconFlow :: int where "ct_SiliconFlow \<equiv> 44"
abbreviation (input) ct_XAI :: int where "ct_XAI \<equiv> 45"
abbreviation (input) ct_Replicate :: int where "ct_Replicate \<equiv> 46"
abbreviation (input) ct_BaiduV2 :: int where "ct_BaiduV2 \<equiv> 47"
abbreviation (input) ct_XunfeiV2 :: int where "ct_XunfeiV2 \<equiv> 48"
abbreviation (input) ct_AliBailian :: int where "ct_AliBailian \<equiv> 49"
abbreviation (input) ct_OpenAICompatible :: int where "ct_OpenAICompatible \<equiv> 50"
abbreviation (input) ct_GeminiOpenAICompatible :: int where "ct_GeminiOpenAICompatible \<equiv> 51"
abbreviation (input) ct_Dummy :: int where "ct_Dummy \<equiv> 52"

section \<open>Kinds of interfaces\<close>

abbreviation (input) api_OpenAI :: int where "api_OpenAI \<equiv> 0"
abbreviation (input) api_Anthropic :: int where "api_Anthropic \<equiv> 1"
abbreviation (input) api_PaLM :: int where "api_PaLM \<equiv> 2"
abbreviation (input) api_Baidu :: int where "api_Baidu \<equiv> 3"
abbreviation (input) api_Zhipu :: int where "api_Zhipu \<equiv> 4"
abbreviation (input) api_Ali :: int where "api_Ali \<equiv> 5"
abbreviation (input) api_Xunfei :: int where "api_Xunfei \<equiv> 6"
abbreviation (input) api_AIProxyLibrary :: int where "api_AIProxyLibrary \<equiv> 7"
abbreviation (input) api_Tencent :: int where "api_Tencent \<equiv> 8"
abbreviation (input) api_Gemini :: int where "api_Gemini \<equiv> 9"
abbreviation (input) api_Ollama :: int where "api_Ollama \<equiv> 10"
abbreviation (input) api_AwsClaude :: int where "api_AwsClaude \<equiv> 11"
abbreviation (input) api_Coze :: int where "api_Coze \<equiv> 12"
abbreviation (input) api_Cohere :: int where "api_Cohere \<equiv> 13"
abbreviation (input) api_Cloudflare :: int where "api_Cloudflare \<equiv> 14"
abbreviation (input) api_DeepL :: int where "api_DeepL \<equiv> 15"
abbreviation (input) api_VertexAI :: int where "api_VertexAI \<equiv> 16"
abbreviation (input) api_Proxy :: int where "api_Proxy \<equiv> 17"
abbreviation (input) api_Replicate :: int where "api_Replicate \<equiv> 18"
abbreviation (input) api_Dummy :: int where "api_Dummy \<equiv> 19"

section \<open>Relay modes\<close>

abbreviation (input) mode_Unknown :: int where "mode_Unknown \<equiv> 0"
abbreviation (input) mode_ChatCompletions :: int where "mode_ChatCompletions \<equiv> 1"
abbreviation (input) mode_Completions :: int where "mode_Completions \<equiv> 2"
abbreviation (input) mode_Embeddings :: int where "mode_Embeddings \<equiv> 3"
abbreviation (input) mode_Moderations :: int where "mode_Moderations \<equiv> 4"
abbreviation (input) mode_ImagesGenerations :: int where "mode_ImagesGenerations \<equiv> 5"
abbreviation (input) mode_Edits :: int where "mode_Edits \<equiv> 6"
abbreviation (input) mode_AudioSpeech :: int where "mode_AudioSpeech \<equiv> 7"
abbreviation (input) mode_AudioTranscription :: int where "mode_AudioTranscription \<equiv> 8"
abbreviation (input) mode_AudioTranslation :: int where "mode_AudioTranslation \<equiv> 9"
abbreviation (input) mode_Proxy :: int where "mode_Proxy \<equiv> 10"

section \<open>Base addresses\<close>

definition ChannelBaseURLs :: "string list" where
  "ChannelBaseURLs =
    ['''',
     ''https://api.openai.com'',
     ''https://oa.api2d.net'',
     '''',
     ''https://api.closeai-proxy.xyz'',
     ''https://api.openai-sb.com'',
     ''https://api.openaimax.com'',
     ''https://api.ohmygpt.com'',
     '''',
     ''https://api.caipacity.com'',
     ''https://api.aiproxy.io'',
     ''https://generativelanguage.googleapis.com'',
     ''https://api.api2gpt.com'',
     ''https://api.aigc2d.com'',
     ''https://api.anthropic.com'',
     ''https://aip.baidubce.com'',
     ''https://open.bigmodel.cn'',
     ''https://dashscope.aliyuncs.com'',
     '''',
     ''https://ai.360.cn'',
     ''https://openrouter.ai/api'',
     ''https://api.aiproxy.io'',
     ''https://fastgpt.run/api/openapi'',
     ''https://hunyuan.tencentcloudapi.com'',
     ''https://generativelanguage.googleapis.com'',
     ''https://api.moonshot.cn'',
     ''https://api.baichuan-ai.com'',
     ''https://api.minimax.chat'',
     ''https://api.mistral.ai'',
     ''https://api.groq.com/openai'',
     ''http://localhost:11434'',
     ''https://api.lingyiwanwu.com'',
     ''https://api.stepfun.com'',
     '''',
     ''https://api.coze.com'',
     ''https://api.cohere.ai'',
     ''https://api.deepseek.com'',
     ''https://api.cloudflare.com'',
     ''https://api-free.deepl.com'',
     ''https://api.together.xyz'',
     ''https://ark.cn-beijing.volces.com'',
     ''https://api.novita.ai/v3/openai'',
     '''',
     '''',
     ''https://api.siliconflow.cn'',
     ''https://api.x.ai'',
     ''https://api.replicate.com/v1/models/'',
     ''https://qianfan.baidubce.com'',
     ''https://spark-api-open.xf-yun.com'',
     ''https://dashscope.aliyuncs.com'',
     '''',
     ''https://generativelanguage.googleapis.com/v1beta/openai/'']"

text \<open>The package's \<open>init\<close> panics unless there is an address for each kind.\<close>

definition base_urls_init :: bool where
  "base_urls_init \<longleftrightarrow> int (length ChannelBaseURLs) = ct_Dummy"

text \<open>An index out of range panics.\<close>

definition channel_base_url :: "int \<Rightarrow> string option" where
  "channel_base_url ty =
     (if 0 \<le> ty \<and> ty < int (length ChannelBaseURLs) then Some (ChannelBaseURLs ! nat ty) else None)"

lemma base_urls_ok: base_urls_init
  by (simp add: base_urls_init_def ChannelBaseURLs_def)

lemma channel_base_url_defined: "channel_base_url ty \<noteq> None \<longleftrightarrow> 0 \<le> ty \<and> ty < ct_Dummy"
  by (simp add: channel_base_url_def ChannelBaseURLs_def)


section \<open>From channels to interfaces\<close>

definition ToAPIType :: "int \<Rightarrow> int" where
  "ToAPIType channelType =
     (if channelType = ct_Anthropic then api_Anthropic
      else if channelType = ct_Baidu then api_Baidu
      else if channelType = ct_PaLM then api_PaLM
      else if channelType = ct_Zhipu then api_Zhipu
      else if channelType = ct_Ali then api_Ali
      else if channelType = ct_Xunfei then api_Xunfei
      else if channelType = ct_AIProxyLibrary then api_AIProxyLibrary
      else if channelType = ct_Tencent then api_Tencent
      else if channelType = ct_Gemini then api_Gemini
      else if channelType = ct_Ollama then api_Ollama
      else if channelType = ct_AwsClaude then api_AwsClaude
      else if channelType = ct_Coze then api_Coze
      else if channelType = ct_Cohere then api_Cohere
      else if channelType = ct_Cloudflare then api_Cloudflare
      else if channelType = ct_DeepL then api_DeepL
      else if channelType = ct_VertextAI then api_VertexAI
      else if channelType = ct_Replicate then api_Replicate
      else if channelType = ct_Proxy then api_Proxy
      else api_OpenAI)"

text \<open>The adaptors, one package each; \<open>None\<close> is \<open>nil\<close>.\<close>

datatype adaptor =
    AIProxyAdaptor
  | AliAdaptor
  | AnthropicAdaptor
  | AwsAdaptor
  | BaiduAdaptor
  | GeminiAdaptor
  | OpenAIAdaptor
  | PaLMAdaptor
  | TencentAdaptor
  | XunfeiAdaptor
  | ZhipuAdaptor
  | OllamaAdaptor
  | CozeAdaptor
  | CohereAdaptor
  | CloudflareAdaptor
  | DeepLAdaptor
  | VertexAIAdaptor
  | ProxyAdaptor
  | ReplicateAdaptor

definition GetAdaptor :: "int \<Rightarrow> adaptor option" where
  "GetAdaptor apiType =
     (if apiType = api_AIProxyLibrary then Some AIProxyAdaptor
      else if apiType = api_Ali then Some AliAdaptor
      else if apiType = api_Anthropic then Some AnthropicAdaptor
      else if apiType = api_AwsClaude then Some AwsAdaptor
      else if apiType = api_Baidu then Some BaiduAdaptor
      else if apiType = api_Gemini then Some GeminiAdaptor
      else if apiType = api_OpenAI then Some OpenAIAdaptor
      else if apiType = api_PaLM then Some PaLMAdaptor
      else if apiType = api_Tencent then Some TencentAdaptor
      else if apiType = api_Xunfei then Some XunfeiAdaptor
      else if apiType = api_Zhipu then Some ZhipuAdaptor
      else if apiType = api_Ollama then Some OllamaAdaptor
      else if apiType = api_Coze then Some CozeAdaptor
      else if apiType = api_Cohere then Some CohereAdaptor
      else if apiType = api_Cloudflare then Some CloudflareAdaptor
      else if apiType = api_DeepL then Some DeepLAdaptor
      else if apiType = api_VertexAI then Some VertexAIAdaptor
      else if apiType = api_Proxy then Some ProxyAdaptor
      else if apiType = api_Replicate then Some ReplicateAdaptor
      else None)"

text \<open>Every channel, whatever number it has, has an interface with an adaptor.\<close>

lemma ToAPIType_range: "0 \<le> ToAPIType ty \<and> ToAPIType ty < api_Dummy"
  by (simp add: ToAPIType_def)

lemma GetAdaptor_defined: "0 \<le> ty \<Longrightarrow> ty < api_Dummy \<Longrightarrow> GetAdaptor ty \<noteq> None"
proof -
  assume "0 \<le> ty" "ty < api_Dummy"
  then have "ty = 0 \<or> ty = 1 \<or> ty = 2 \<or> ty = 3 \<or> ty = 4 \<or> ty = 5 \<or> ty = 6 \<or> ty = 7 \<or> ty = 8 \<or> ty = 9 \<or>
      ty = 10 \<or> ty = 11 \<or> ty = 12 \<or> ty = 13 \<or> ty = 14 \<or> ty = 15 \<or> ty = 16 \<or> ty = 17 \<or> ty = 18" by presburger
  then show ?thesis by (auto simp: GetAdaptor_def)
qed

lemma adaptor_of_channel: "GetAdaptor (ToAPIType ty) \<noteq> None"
  using GetAdaptor_defined ToAPIType_range by blast


section \<open>The mode of a request\<close>

definition GetByPath :: "string \<Rightarrow> int" where
  "GetByPath path =
     (if HasPrefix path ''/v1/chat/completions'' then mode_ChatCompletions
      else if HasPrefix path ''/v1/completions'' then mode_Completions
      else if HasPrefix path ''/v1/embeddings'' then mode_Embeddings
      else if HasSuffix path ''embeddings'' then mode_Embeddings
      else if HasPrefix path ''/v1/moderations'' then mode_Moderations
      else if HasPrefix path ''/v1/images/generations'' then mode_ImagesGenerations
      else if HasPrefix path ''/v1/edits'' then mode_Edits
      else if HasPrefix path ''/v1/audio/speech'' then mode_AudioSpeech
      else if HasPrefix path ''/v1/audio/transcriptions'' then mode_AudioTranscription
      else if HasPrefix path ''/v1/audio/translations'' then mode_AudioTranslation
      else if HasPrefix path ''/v1/oneapi/proxy'' then mode_Proxy
      else mode_Unknown)"

end
