(* ===== verification/Requests.thy ===== *)
theory Requests
  imports Ratios Relaymodes
begin

text \<open>
  The messages of the OpenAI interface that the relay decodes (\<^verbatim>\<open>relay/model\<close>), their validation
  (\<^verbatim>\<open>relay/controller/validator\<close>) and the counting of tokens (\<^verbatim>\<open>relay/adaptor/openai/token.go\<close>). A field
  of type \<open>any\<close> is a JSON value; a missing or null one is \<open>JNull\<close>. The token encoders and the size of an
  image (\<open>image.GetImageSize\<close>) are parameters, and a Go panic is \<open>None\<close>.
\<close>

section \<open>JSON values and messages\<close>

datatype json =
    JNull
  | JBool bool
  | JNum rat
  | JStr string
  | JArr "json list"
  | JObj "(string \<times> json) list"

text \<open>\<open>m[k]\<close> of a decoded object: a missing key gives nil.\<close>

definition field :: "string \<Rightarrow> (string \<times> json) list \<Rightarrow> json" where
  "field k fs = (case map_of fs k of None \<Rightarrow> JNull | Some v \<Rightarrow> v)"

record Function =
  fn_Description :: string
  fn_Name :: string
  fn_Parameters :: json
  fn_Arguments :: json

record Tool =
  tl_Id :: string
  tl_Type :: string
  tl_Function :: Function

record Message =
  ms_Role :: string
  ms_Content :: json
  ms_ReasoningContent :: json
  ms_Name :: "string option"
  ms_ToolCalls :: "Tool list"
  ms_ToolCallId :: string

record ImageURL =
  iu_Url :: string
  iu_Detail :: string

record MessageContent =
  mc_Type :: string
  mc_Text :: string
  mc_ImageURL :: "ImageURL option"

definition IsStringContent :: "Message \<Rightarrow> bool" where
  "IsStringContent m = (case ms_Content m of JStr _ \<Rightarrow> True | _ \<Rightarrow> False)"

fun text_part :: "json \<Rightarrow> string" where
  "text_part (JObj fs) =
     (if field ''type'' fs = JStr ''text'' then (case field ''text'' fs of JStr t \<Rightarrow> t | _ \<Rightarrow> '''') else '''')"
| "text_part _ = ''''"

definition StringContent :: "Message \<Rightarrow> string" where
  "StringContent m =
     (case ms_Content m of
        JStr s \<Rightarrow> s
      | JArr items \<Rightarrow> concat (map text_part items)
      | _ \<Rightarrow> '''')"

text \<open>Part of a message: nothing, one content, or (\<open>None\<close>) the panic of an image without an address.\<close>

fun content_part :: "json \<Rightarrow> MessageContent list option" where
  "content_part (JObj fs) =
     (if field ''type'' fs = JStr ''text'' then
        (case field ''text'' fs of
           JStr t \<Rightarrow> Some [\<lparr>mc_Type = ''text'', mc_Text = t, mc_ImageURL = None\<rparr>]
         | _ \<Rightarrow> Some [])
      else if field ''type'' fs = JStr ''image_url'' then
        (case field ''image_url'' fs of
           JObj sub \<Rightarrow>
             (case field ''url'' sub of
                JStr u \<Rightarrow> Some [\<lparr>mc_Type = ''image_url'', mc_Text = '''', mc_ImageURL = Some \<lparr>iu_Url = u, iu_Detail = ''''\<rparr>\<rparr>]
              | _ \<Rightarrow> None)
         | _ \<Rightarrow> Some [])
      else Some [])"
| "content_part _ = Some []"

fun collect :: "'a list option list \<Rightarrow> 'a list option" where
  "collect [] = Some []"
| "collect (None # xs) = None"
| "collect (Some ys # xs) = map_option (append ys) (collect xs)"

definition ParseContent :: "Message \<Rightarrow> MessageContent list option" where
  "ParseContent m =
     (case ms_Content m of
        JStr s \<Rightarrow> Some [\<lparr>mc_Type = ''text'', mc_Text = s, mc_ImageURL = None\<rparr>]
      | JArr items \<Rightarrow> collect (map content_part items)
      | _ \<Rightarrow> Some [])"

record ResponseFormat =
  rf_Type :: string
  rf_JsonSchema :: "json option"

record GeneralOpenAIRequest =
  Messages :: "Message list"
  Model :: string
  StoreFlag :: "bool option"
  ReasoningEffort :: "string option"
  Metadata :: json
  FrequencyPenalty :: "f64 option"
  LogitBias :: json
  Logprobs :: "bool option"
  TopLogprobs :: "int option"
  MaxTokens :: int
  MaxCompletionTokens :: "int option"
  N_choices :: int
  Modalities :: "string list"
  Prediction :: json
  Audio :: "(string \<times> string) option"
  PresencePenalty :: "f64 option"
  Response_Format :: "ResponseFormat option"
  Seed :: f64
  ServiceTier :: "string option"
  Stop :: json
  Stream :: bool
  IncludeUsage :: "bool option"
  Temperature :: "f64 option"
  TopP :: "f64 option"
  TopK :: int
  Tools :: "Tool list"
  ToolChoice :: json
  ParallelTooCalls :: "bool option"
  User :: string
  FunctionCall :: json
  Functions :: json
  Input :: json
  EncodingFormat :: string
  Dimensions :: int
  Prompt :: json
  Quality :: "string option"
  Size :: string
  Style :: "string option"
  Instruction :: string
  NumCtx :: int

text \<open>The elements of an array that are not strings are dropped.\<close>

definition ParseInput :: "GeneralOpenAIRequest \<Rightarrow> string list" where
  "ParseInput q =
     (case Input q of
        JStr s \<Rightarrow> [s]
      | JArr items \<Rightarrow> List.map_filter (\<lambda>v. case v of JStr s \<Rightarrow> Some s | _ \<Rightarrow> None) items
      | _ \<Rightarrow> [])"

record Usage =
  PromptTokens :: int
  CompletionTokens :: int
  TotalTokens :: int

record ImageRequest =
  im_Model :: string
  im_Prompt :: string
  im_N :: int
  im_Size :: string
  im_Quality :: string
  im_ResponseFormat :: string
  im_Style :: string
  im_User :: string

record TextToSpeechRequest =
  tts_Model :: string
  tts_Input :: string
  tts_Voice :: string
  tts_Speed :: f64
  tts_ResponseFormat :: string


section \<open>Validation\<close>

definition ValidateTextRequest :: "GeneralOpenAIRequest \<Rightarrow> int \<Rightarrow> string option" where
  "ValidateTextRequest q relayMode =
     (if MaxTokens q < 0 \<or> (2 ^ 31 - 1) div 2 < MaxTokens q then Some ''max_tokens is invalid''
      else if Model q = '''' then Some ''model is required''
      else if relayMode = mode_Completions then
        (if Prompt q = JStr '''' then Some ''field prompt is required'' else None)
      else if relayMode = mode_ChatCompletions then
        (if Messages q = [] then Some ''field messages is required'' else None)
      else if relayMode = mode_Moderations then
        (if Input q = JStr '''' then Some ''field input is required'' else None)
      else if relayMode = mode_Edits then
        (if Instruction q = '''' then Some ''field instruction is required'' else None)
      else None)"


section \<open>Counting tokens\<close>

text \<open>
  \<open>encoding\<close> is \<open>tiktoken.EncodingForModel\<close>: the encoder of a model, as the function from a text to its
  number of tokens, or nothing for a model it does not know. \<open>known\<close> are the models with a price when
  the table of encoders is filled; the models that start like the three families get their family's
  encoder, the others look theirs up when it is first needed.
\<close>

type_synonym encoder = "string \<Rightarrow> nat"

definition getTokenEncoder :: "(string \<Rightarrow> encoder option) \<Rightarrow> (string \<Rightarrow> bool) \<Rightarrow> string \<Rightarrow> encoder" where
  "getTokenEncoder encoding known model =
     (let default = the (encoding ''gpt-3.5-turbo'')
      in if known model then
           (if HasPrefix model ''gpt-3.5'' then default
            else if HasPrefix model ''gpt-4o'' then the (encoding ''gpt-4o'')
            else if HasPrefix model ''gpt-4'' then the (encoding ''gpt-4'')
            else (case encoding model of None \<Rightarrow> default | Some enc \<Rightarrow> enc))
         else default)"

definition getTokenNum :: "config \<Rightarrow> encoder \<Rightarrow> string \<Rightarrow> int" where
  "getTokenNum cfg enc text =
     (if ApproximateTokenEnabled cfg
      then int64_of_f64 (f64_of_int (int (length text)) * f64_const 0.38)
      else int (enc text))"

text \<open>\<open>math.Ceil\<close> of a quotient by 512, as the code computes it; \<open>int\<close> drops the fraction.\<close>

definition shrink :: "f64 \<Rightarrow> int \<Rightarrow> int" where
  "shrink ratio x = int64_of_f64 (f64_of_int x * ratio)"

definition countImageTokens :: "(string \<Rightarrow> string + int \<times> int) \<Rightarrow> string \<Rightarrow> string \<Rightarrow> string \<Rightarrow> string + int" where
  "countImageTokens image_size url detail model =
     (let detail = (if detail = '''' \<or> detail = ''auto'' then ''high'' else detail);
          mini = HasPrefix model ''gpt-4o-mini''
      in if detail = ''low'' then Inr (if mini then 2833 else 85)
         else if detail = ''high'' then
           (case image_size url of
              Inl e \<Rightarrow> Inl e
            | Inr (width, height) \<Rightarrow>
                (let (width, height) =
                       (if 2048 < width \<or> 2048 < height then
                          (let ratio = f64_of_int 2048 / max (f64_of_int width) (f64_of_int height)
                           in (shrink ratio width, shrink ratio height))
                        else (width, height));
                     (width, height) =
                       (if 768 < width \<and> 768 < height then
                          (let ratio = f64_of_int 768 / min (f64_of_int width) (f64_of_int height)
                           in (shrink ratio width, shrink ratio height))
                        else (width, height));
                     numSquares = int64_of_f64 (ceil64 (f64_of_int width / f64_of_int 512) *
                       ceil64 (f64_of_int height / f64_of_int 512))
                 in Inr (if mini then wrap64 (numSquares * 5667 + 2833) else wrap64 (numSquares * 170 + 85))))
         else Inl ''invalid detail option'')"

text \<open>The tokens of one part of a message's content; an item of another shape panics.\<close>

fun part_tokens :: "(string \<Rightarrow> string + int \<times> int) \<Rightarrow> config \<Rightarrow> encoder \<Rightarrow> string \<Rightarrow> json \<Rightarrow> int option" where
  "part_tokens image_size cfg enc model (JObj m) =
     (if field ''type'' m = JStr ''text'' then
        (case field ''text'' m of JStr t \<Rightarrow> Some (getTokenNum cfg enc t) | _ \<Rightarrow> Some 0)
      else if field ''type'' m = JStr ''image_url'' then
        (case field ''image_url'' m of
           JObj imageUrl \<Rightarrow>
             (case field ''url'' imageUrl of
                JStr url \<Rightarrow>
                  (case field ''detail'' imageUrl of
                     JNull \<Rightarrow> Some (case countImageTokens image_size url '''' model of Inl _ \<Rightarrow> 0 | Inr n \<Rightarrow> n)
                   | JStr detail \<Rightarrow> Some (case countImageTokens image_size url detail model of Inl _ \<Rightarrow> 0 | Inr n \<Rightarrow> n)
                   | _ \<Rightarrow> None)
              | _ \<Rightarrow> None)
         | _ \<Rightarrow> Some 0)
      else Some 0)"
| "part_tokens image_size cfg enc model _ = None"

fun sum_tokens :: "int option list \<Rightarrow> int option" where
  "sum_tokens [] = Some 0"
| "sum_tokens (None # ns) = None"
| "sum_tokens (Some n # ns) = map_option (\<lambda>m. n + m) (sum_tokens ns)"

definition message_tokens where
  "message_tokens image_size cfg enc model m =
     (let (tokensPerMessage, tokensPerName) = (if model = ''gpt-3.5-turbo-0301'' then (4, -1) else (3, 1));
          content = (case ms_Content m of
              JStr v \<Rightarrow> Some (getTokenNum cfg enc v)
            | JArr items \<Rightarrow> sum_tokens (map (part_tokens image_size cfg enc model) items)
            | _ \<Rightarrow> Some 0);
          name = (case ms_Name m of None \<Rightarrow> 0 | Some n \<Rightarrow> tokensPerName + getTokenNum cfg enc n)
      in map_option (\<lambda>c. tokensPerMessage + c + getTokenNum cfg enc (ms_Role m) + name) content)"

definition CountTokenMessages where
  "CountTokenMessages image_size encoding known cfg (messages :: Message list) (model :: string) =
     map_option (\<lambda>n. n + 3)
       (sum_tokens (map (message_tokens image_size cfg (getTokenEncoder encoding known model) model) messages))"

definition CountTokenText where
  "CountTokenText encoding known cfg text model = getTokenNum cfg (getTokenEncoder encoding known model) text"

text \<open>
  The case of a slice of strings never applies to a decoded request, whose arrays hold values of type
  \<open>any\<close>: an array counts nothing.
\<close>

definition CountTokenInput where
  "CountTokenInput encoding known cfg input model =
     (case input of JStr v \<Rightarrow> CountTokenText encoding known cfg v model | _ \<Rightarrow> 0)"

definition CountToken where
  "CountToken encoding known cfg text = CountTokenInput encoding known cfg (JStr text) ''gpt-3.5-turbo''"

end
