(* ===== verification/Auth.thy ===== *)
theory Auth
  imports UserLaws Tokens Relaymodes
begin

text \<open>
  \<^verbatim>\<open>middleware/auth.go\<close> and \<^verbatim>\<open>middleware/utils.go\<close>: who a request comes from. A handler of gin either
  aborts the chain with a status and a message, or calls the next one; what it stores in the request's
  context is the record \<open>ctx\<close>, one field per key of \<^verbatim>\<open>common/ctxkey\<close>. \<open>GetString\<close> and \<open>GetInt\<close> of a
  key that is not set give the zero value, so only the keys that the program tests for presence are
  options.
\<close>

section \<open>Requests and contexts\<close>

text \<open>
  \<open>q_body_model\<close> is what binding the body to \<open>ModelRequest\<close> gives: its error, or the model it names;
  \<open>q_param\<close> are the parameters in the path (\<open>c.Param\<close>).
\<close>

record request =
  q_path :: string
  q_url :: string
  q_authorization :: string
  q_client_ip :: string
  q_request_id :: string
  q_body_model :: "string + string"
  q_param :: "string \<Rightarrow> string"

datatype 'a outcome = Abort int string | Next 'a

definition MessageWithRequestId :: "string \<Rightarrow> string \<Rightarrow> string" where
  "MessageWithRequestId message rid = message @ '' (request id: '' @ rid @ '')''"

definition abortWithMessage :: "request \<Rightarrow> int \<Rightarrow> string \<Rightarrow> 'a outcome" where
  "abortWithMessage rq code message = Abort code (MessageWithRequestId message (q_request_id rq))"

definition getRequestModel :: "request \<Rightarrow> string + string" where
  "getRequestModel rq =
     (case q_body_model rq of
        Inl e \<Rightarrow> Inl (''common.UnmarshalBodyReusable failed: '' @ e)
      | Inr m \<Rightarrow>
          (let m = (if HasPrefix (q_path rq) ''/v1/moderations'' \<and> m = '''' then ''text-moderation-stable'' else m);
               m = (if HasSuffix (q_path rq) ''embeddings'' \<and> m = '''' then q_param rq ''model'' else m);
               m = (if HasPrefix (q_path rq) ''/v1/images/generations'' \<and> m = '''' then ''dall-e-2'' else m);
               m = (if (HasPrefix (q_path rq) ''/v1/audio/transcriptions'' \<or>
                        HasPrefix (q_path rq) ''/v1/audio/translations'') \<and> m = '''' then ''whisper-1'' else m)
           in Inr m))"

definition isModelInList :: "string \<Rightarrow> string \<Rightarrow> bool" where
  "isModelInList modelName models = (modelName \<in> set (Split (CHR '','') models))"

definition shouldCheckModel :: "request \<Rightarrow> bool" where
  "shouldCheckModel rq =
     (HasPrefix (q_path rq) ''/v1/completions'' \<or> HasPrefix (q_path rq) ''/v1/chat/completions'' \<or>
      HasPrefix (q_path rq) ''/v1/images'' \<or> HasPrefix (q_path rq) ''/v1/audio'')"


section \<open>Sessions and access tokens\<close>

record identity =
  i_username :: string
  i_role :: int
  i_id :: int

text \<open>Without a session the \<open>Authorization\<close> header must hold an access token. A session is believed.\<close>

definition caller :: "string \<Rightarrow> cookie option \<Rightarrow> st \<Rightarrow> cookie outcome \<times> st" where
  "caller accessToken ck s =
     (case ck of
        Some k \<Rightarrow> (Next k, s)
      | None \<Rightarrow>
          (if accessToken = '''' then
             (Abort 401 ''No permission to perform this operation, not logged in and no access token provided'', s)
           else
             (case ValidateAccessToken accessToken s of
                (u, s) \<Rightarrow>
                  (case u of
                     Some u \<Rightarrow>
                       (if u_username u \<noteq> '''' then
                          (Next \<lparr>k_id = u_id u, k_username = u_username u, k_role = u_role u, k_status = u_status u\<rparr>, s)
                        else (Abort 200 ''No permission to perform this operation, invalid access token'', s))
                   | None \<Rightarrow> (Abort 200 ''No permission to perform this operation, invalid access token'', s)))))"

text \<open>The outcome, the session cookie after it, and the state.\<close>

definition authHelper :: "int \<Rightarrow> string \<Rightarrow> cookie option \<Rightarrow> st \<Rightarrow> (identity outcome \<times> cookie option) \<times> st" where
  "authHelper minRole accessToken ck s =
     (case caller accessToken ck s of
        (Abort code message, s) \<Rightarrow> ((Abort code message, ck), s)
      | (Next k, s) \<Rightarrow>
          (if k_status k = UserStatusDisabled \<or> IsUserBanned (k_id k) s
           then ((Abort 200 ''User has been banned'', None), s)
           else if k_role k < minRole
           then ((Abort 200 ''No permission to perform this operation, insufficient privileges'', ck), s)
           else ((Next \<lparr>i_username = k_username k, i_role = k_role k, i_id = k_id k\<rparr>, ck), s)))"

definition UserAuth where "UserAuth = authHelper RoleCommonUser"
definition AdminAuth where "AdminAuth = authHelper RoleAdminUser"
definition RootAuth where "RootAuth = authHelper RoleRootUser"


section \<open>API keys\<close>

text \<open>The configuration of a channel, and the context of a relayed request.\<close>

record channel_config =
  Region :: string
  SK :: string
  AK :: string
  UserID :: string
  APIVersion :: string
  LibraryID :: string
  Plugin :: string
  VertexAIProjectID :: string
  VertexAIADC :: string

record ctx =
  g_id :: int
  g_request_model :: string
  g_available_models :: string
  g_token_id :: int
  g_token_name :: string
  g_specific_channel :: "string option"
  g_group :: string
  g_channel :: int
  g_channel_id :: int
  g_channel_name :: string
  g_system_prompt :: string
  g_model_mapping :: "(string \<times> string) list option"
  g_original_model :: string
  g_base_url :: string
  g_config :: "channel_config option"
  g_authorization :: string

definition empty_ctx :: "request \<Rightarrow> ctx" where
  "empty_ctx rq = \<lparr>g_id = 0, g_request_model = '''', g_available_models = '''', g_token_id = 0,
     g_token_name = '''', g_specific_channel = None, g_group = '''', g_channel = 0, g_channel_id = 0,
     g_channel_name = '''', g_system_prompt = '''', g_model_mapping = None, g_original_model = '''',
     g_base_url = '''', g_config = None, g_authorization = q_authorization rq\<rparr>"

text \<open>The parts of the key in the header: the key itself, and perhaps the channel to use.\<close>

definition key_parts :: "request \<Rightarrow> string list" where
  "key_parts rq = Split (CHR ''-'') (TrimPrefix (TrimPrefix (q_authorization rq) ''Bearer '') ''sk-'')"

text \<open>The second half of \<open>TokenAuth\<close>: the token's models, the channel asked for, the context.\<close>

definition admit :: "request \<Rightarrow> token \<Rightarrow> string \<Rightarrow> st \<Rightarrow> ctx outcome \<times> st" where
  "admit rq tok requestModel s =
     (let parts = key_parts rq;
          models = GetModels (Some tok);
          g = (empty_ctx rq)\<lparr>g_request_model := requestModel, g_available_models := models,
            g_id := t_user_id tok, g_token_id := t_id tok, g_token_name := t_name tok\<rparr>;
          proxied = (\<lambda>g. if q_param rq ''channelid'' \<noteq> ''''
            then g\<lparr>g_specific_channel := Some (q_param rq ''channelid'')\<rparr> else g)
      in if models \<noteq> '''' \<and> requestModel \<noteq> '''' \<and> \<not> isModelInList requestModel models
         then (abortWithMessage rq 403 (''This token has no permission to use model: '' @ requestModel), s)
         else if 1 < length parts then
           (case IsAdmin (t_user_id tok) s of
              (admin, s) \<Rightarrow>
                (if admin then (Next (proxied (g\<lparr>g_specific_channel := Some (parts ! 1)\<rparr>)), s)
                 else (abortWithMessage rq 403 ''Regular users do not support specifying channels'', s)))
         else (Next (proxied g), s))"

definition TokenAuth where
  "TokenAuth cidr6 ip6 cfg now rq s =
     (case ValidateUserToken cfg now (key_parts rq ! 0) s of
        (Inl e, s) \<Rightarrow> (abortWithMessage rq 401 e, s)
      | (Inr tok, s) \<Rightarrow>
          (let subnet = (case t_subnet tok of None \<Rightarrow> '''' | Some n \<Rightarrow> n)
           in if subnet \<noteq> '''' \<and> \<not> IsIpInSubnets cidr6 ip6 (q_client_ip rq) subnet
              then (abortWithMessage rq 403 (''This token can only be used in specified subnet: '' @ subnet @
                 '', current IP: '' @ q_client_ip rq), s)
              else case CacheIsUserEnabled cfg now (t_user_id tok) s of
                (Inl e, s) \<Rightarrow> (abortWithMessage rq 500 e, s)
              | (Inr userEnabled, s) \<Rightarrow>
                  (if \<not> userEnabled \<or> IsUserBanned (t_user_id tok) s
                   then (abortWithMessage rq 403 ''User has been banned'', s)
                   else case getRequestModel rq of
                     Inl e \<Rightarrow>
                       (if shouldCheckModel rq then (abortWithMessage rq 400 e, s) else admit rq tok '''' s)
                   | Inr m \<Rightarrow> admit rq tok m s)))"


section \<open>Properties\<close>

text \<open>What the lookups of an accepted request leave alone.\<close>

definition same_guards :: "st \<Rightarrow> st \<Rightarrow> bool" where
  "same_guards s s' \<longleftrightarrow> users s' = users s \<and> blacklist s' = blacklist s \<and> redis_enabled s' = redis_enabled s"

lemma same_guards_refl [simp]: "same_guards s s"
  by (simp add: same_guards_def)

lemma same_guards_trans: "same_guards s s' \<Longrightarrow> same_guards s' s'' \<Longrightarrow> same_guards s s''"
  by (simp add: same_guards_def)

lemma same_guards_faults [simp]: "same_guards s (s\<lparr>db_faults := fs\<rparr>)"
  by (simp add: same_guards_def)

lemma RedisGet_guards: "RedisGet now key s = (r, s') \<Longrightarrow> same_guards s s' \<and> kv s' = kv s"
  by (auto simp: RedisGet_def kv_tick_def same_guards_def split: list.splits option.splits prod.splits)

lemma RedisSet_guards: "same_guards s (snd (RedisSet now key v ttl s))"
  by (auto simp: RedisSet_def kv_tick_def same_guards_def split: list.splits option.splits)

lemma RedisSet_other: "k \<noteq> key \<Longrightarrow> kv (snd (RedisSet now key v ttl s)) k = kv s k"
  by (auto simp: RedisSet_def kv_tick_def split: list.splits option.splits)

lemma CacheGetTokenByKey_guards:
  assumes "CacheGetTokenByKey cfg now key s = (r, s')" and "k \<noteq> token_cache_key key"
  shows "same_guards s s' \<and> kv s' k = kv s k"
proof (cases "redis_enabled s")
  case False
  with assms(1) have "s' = snd (db_first (\<lambda>s. find (\<lambda>t. t_key t = key) (tokens s)) s)"
    by (simp add: CacheGetTokenByKey_def)
  then show ?thesis by (simp add: db_first_state)
next
  case True
  obtain q s1 where get: "RedisGet now (token_cache_key key) s = (q, s1)" by fastforce
  note g = RedisGet_guards [OF get]
  show ?thesis
  proof (cases q)
    case (Inr v)
    with assms(1) True get g show ?thesis by (cases v) (auto simp: CacheGetTokenByKey_def)
  next
    case (Inl e)
    obtain q2 s2 where first: "db_first (\<lambda>s. find (\<lambda>t. t_key t = key) (tokens s)) s1 = (q2, s2)" by fastforce
    then have s2: "s2 = s1\<lparr>db_faults := tl (db_faults s1)\<rparr>" by (metis db_first_state snd_conv)
    have "s' = s2 \<or> (\<exists>t. s' = snd (RedisSet now (token_cache_key key) (KToken t) (SyncFrequency cfg) s2))"
      using assms(1) True get Inl first by (auto simp: CacheGetTokenByKey_def split: sum.splits)
    moreover have "same_guards s s2" "kv s2 = kv s" using g s2 by (simp_all add: same_guards_def)
    ultimately show ?thesis
      using RedisSet_guards [of s2] RedisSet_other [OF assms(2)] same_guards_trans by metis
  qed
qed

lemma ValidateUserToken_guards:
  assumes "ValidateUserToken cfg now key s = (Inr tok, s')" and "k \<noteq> token_cache_key key"
  shows "same_guards s s' \<and> kv s' k = kv s k"
proof -
  from assms(1) have "CacheGetTokenByKey cfg now key s = (Inr tok, s')"
    by (auto simp: ValidateUserToken_def split: if_splits prod.splits sum.splits)
  then show ?thesis using CacheGetTokenByKey_guards assms(2) by blast
qed

lemma RedisGet_str_Inr: "RedisGet_str now key s = (Inr v, s') \<Longrightarrow>
    same_guards s s' \<and> (\<exists>d. kv_live now key s = Some (KStr v, d))"
  using RedisGet_guards [of now key s] RedisGet_Inr [of now key s]
  by (fastforce simp: RedisGet_str_def split: prod.splits sum.splits kv_value.splits)

lemma RedisGet_str_Inl: "RedisGet_str now key s = (Inl v, s') \<Longrightarrow> same_guards s s'"
  using RedisGet_guards [of now key s]
  by (fastforce simp: RedisGet_str_def split: prod.splits sum.splits kv_value.splits)

lemma IsUserEnabled_Inr:
  "IsUserEnabled uid s = (Inr b, s') \<Longrightarrow> same_guards s s' \<and> (b \<longleftrightarrow> user_column u_status 0 uid s = UserStatusEnabled)"
  by (auto simp: IsUserEnabled_def split: if_splits prod.splits sum.splits dest!: db_find_Inr)

text \<open>An account counts as enabled when its row is, or when the cache still says so.\<close>

definition counts_as_enabled :: "int \<Rightarrow> int \<Rightarrow> st \<Rightarrow> bool" where
  "counts_as_enabled now uid s \<longleftrightarrow>
     user_column u_status 0 uid s = UserStatusEnabled \<or>
     redis_enabled s \<and> (\<exists>d. kv_live now (user_key ''user_enabled:'' uid) s = Some (KStr ''1'', d))"

lemma CacheIsUserEnabled_Inr:
  assumes "CacheIsUserEnabled cfg now uid s = (Inr b, s')"
  shows "same_guards s s' \<and> (b \<longrightarrow> counts_as_enabled now uid s)"
proof (cases "redis_enabled s")
  case False
  with assms show ?thesis by (auto simp: CacheIsUserEnabled_def counts_as_enabled_def dest: IsUserEnabled_Inr)
next
  case True
  obtain q s1 where get: "RedisGet_str now (user_key ''user_enabled:'' uid) s = (q, s1)" by fastforce
  show ?thesis
  proof (cases q)
    case (Inr v)
    with assms True get RedisGet_str_Inr [of now "user_key ''user_enabled:'' uid" s v s1] show ?thesis
      by (auto simp: CacheIsUserEnabled_def counts_as_enabled_def)
  next
    case (Inl e)
    with assms True get obtain s2 where en: "IsUserEnabled uid s1 = (Inr b, s2)"
      and s': "s' = snd (RedisSet now (user_key ''user_enabled:'' uid) (KStr (if b then ''1'' else ''0'')) (SyncFrequency cfg) s2)"
      by (auto simp: CacheIsUserEnabled_def split: prod.splits sum.splits option.splits)
    have g: "same_guards s s1" using get Inl RedisGet_str_Inl by blast
    then have "user_column u_status 0 uid s1 = user_column u_status 0 uid s"
      by (simp add: same_guards_def user_column_def)
    with g IsUserEnabled_Inr [OF en] RedisSet_guards [of s2] s' show ?thesis
      by (auto simp: counts_as_enabled_def intro: same_guards_trans)
  qed
qed

lemma IsAdmin_True:
  "IsAdmin uid s = (True, s') \<Longrightarrow> RoleAdminUser \<le> user_column u_role 0 uid s"
  by (auto simp: IsAdmin_def split: if_splits prod.splits sum.splits dest!: db_find_Inr)

lemma admit_Next:
  assumes "admit rq tok m s = (Next g, s')"
  shows "g_id g = t_user_id tok \<and> g_token_id g = t_id tok \<and> g_request_model g = m \<and>
    (GetModels (Some tok) = '''' \<or> m = '''' \<or> isModelInList m (GetModels (Some tok))) \<and>
    (g_specific_channel g = None \<or> g_specific_channel g = Some (q_param rq ''channelid'') \<or>
     RoleAdminUser \<le> user_column u_role 0 (t_user_id tok) s)"
  using assms
  by (auto simp: admit_def Let_def empty_ctx_def abortWithMessage_def split: if_splits prod.splits dest: IsAdmin_True)

lemma key_parts_0: "key_parts rq ! 0 = hd (key_parts rq)"
  by (simp add: key_parts_def hd_conv_nth)

lemma TokenAuth_Next:
  assumes "TokenAuth cidr6 ip6 cfg now rq s = (Next g, s')"
  obtains tok s1 s2 m where "ValidateUserToken cfg now (hd (key_parts rq)) s = (Inr tok, s1)"
    and "CacheIsUserEnabled cfg now (t_user_id tok) s1 = (Inr True, s2)"
    and "\<not> IsUserBanned (t_user_id tok) s2" and "admit rq tok m s2 = (Next g, s')"
    and "t_subnet tok = None \<or> t_subnet tok = Some '''' \<or>
      (\<exists>n. t_subnet tok = Some n \<and> IsIpInSubnets cidr6 ip6 (q_client_ip rq) n)"
    and "getRequestModel rq = Inr m \<or> \<not> shouldCheckModel rq"
  using assms unfolding TokenAuth_def key_parts_0
  by (auto simp: Let_def abortWithMessage_def split: prod.splits sum.splits if_splits option.splits)

lemma counts_as_enabled_same:
  assumes "same_guards s s'" and "kv s' (user_key ''user_enabled:'' uid) = kv s (user_key ''user_enabled:'' uid)"
  shows "counts_as_enabled now uid s' = counts_as_enabled now uid s"
  using assms by (simp add: counts_as_enabled_def same_guards_def user_column_def kv_live_def)

text \<open>C7: A request that passes with an API key passes for a token that its key validates; it acts for
  that token's account, which counts as enabled and is not banned; its address lies in the token's
  subnets, if any; the model it names is one of the token's, if it has a list; and it only chooses a
  channel by the parameter of the path, or for an administrator.\<close>

theorem token_auth_sound:
  assumes "TokenAuth cidr6 ip6 cfg now rq s = (Next g, s')"
  shows "\<exists>tok. fst (ValidateUserToken cfg now (hd (key_parts rq)) s) = Inr tok \<and>
    g_id g = t_user_id tok \<and> g_token_id g = t_id tok \<and>
    counts_as_enabled now (t_user_id tok) s \<and> \<not> IsUserBanned (t_user_id tok) s \<and>
    (t_subnet tok = None \<or> t_subnet tok = Some '''' \<or>
      (\<exists>n. t_subnet tok = Some n \<and> IsIpInSubnets cidr6 ip6 (q_client_ip rq) n)) \<and>
    (GetModels (Some tok) = '''' \<or> g_request_model g = '''' \<or>
      isModelInList (g_request_model g) (GetModels (Some tok))) \<and>
    (g_specific_channel g = None \<or> g_specific_channel g = Some (q_param rq ''channelid'') \<or>
      RoleAdminUser \<le> user_column u_role 0 (t_user_id tok) s)"
proof -
  obtain tok s1 s2 m where v: "ValidateUserToken cfg now (hd (key_parts rq)) s = (Inr tok, s1)"
    and e: "CacheIsUserEnabled cfg now (t_user_id tok) s1 = (Inr True, s2)"
    and b: "\<not> IsUserBanned (t_user_id tok) s2" and a: "admit rq tok m s2 = (Next g, s')"
    and n: "t_subnet tok = None \<or> t_subnet tok = Some '''' \<or>
      (\<exists>n. t_subnet tok = Some n \<and> IsIpInSubnets cidr6 ip6 (q_client_ip rq) n)"
    using assms by (rule TokenAuth_Next)
  have "user_key ''user_enabled:'' (t_user_id tok) \<noteq> token_cache_key (hd (key_parts rq))"
    by (simp add: user_key_def token_cache_key_def)
  from ValidateUserToken_guards [OF v this] CacheIsUserEnabled_Inr [OF e]
  have "same_guards s s2" and "counts_as_enabled now (t_user_id tok) s"
    by (auto simp: counts_as_enabled_same intro: same_guards_trans)
  then show ?thesis
    using v b n admit_Next [OF a] by (auto simp: same_guards_def IsUserBanned_def user_column_def)
qed

definition one_key :: request where
  "one_key = \<lparr>q_path = ''/v1/chat/completions'', q_url = ''/v1/chat/completions'', q_authorization = ''Bearer sk-k'',
     q_client_ip = ''10.0.0.1'', q_request_id = ''r'', q_body_model = Inr ''gpt-4'', q_param = (\<lambda>_. '''')\<rparr>"

definition ann :: user where
  "ann = zero_user\<lparr>u_id := 1, u_username := ''ann'', u_role := 1, u_status := 1, u_group := ''default'', u_quota := 1000\<rparr>"

definition open_shop :: st where
  "open_shop = shop\<lparr>users := [ann]\<rparr>"

lemma ann_simps [simp]: "u_id ann = 1" "u_username ann = ''ann''" "u_role ann = 1" "u_status ann = 1"
  by (simp_all add: ann_def)

lemma open_shop_simps [simp]: "users open_shop = [ann]" "db_faults open_shop = []" "blacklist open_shop = []"
    "redis_enabled open_shop = False" "tokens open_shop = tokens shop"
  by (simp_all add: open_shop_def shop_def empty_st_def)

lemma one_key_passes: "\<exists>g s'. TokenAuth c6 i6 cfg 5 one_key open_shop = (Next g, s')"
  by (simp add: TokenAuth_def key_parts_def TrimPrefix_def ValidateUserToken_def CacheGetTokenByKey_def shop_def empty_st_def
      zero_token_def CacheIsUserEnabled_def IsUserEnabled_def user_column_def IsUserBanned_def
      getRequestModel_def one_key_def HasPrefix_def HasSuffix_def admit_def GetModels_def)

theorem token_auth_sound_witness:
  "\<exists>tok. fst (ValidateUserToken (init_config (\<lambda>_. '''')) 5 (hd (key_parts one_key)) open_shop) = Inr tok \<and>
    counts_as_enabled 5 (t_user_id tok) open_shop"
proof -
  obtain g s' where "TokenAuth (\<lambda>_. None) (\<lambda>_. None) (init_config (\<lambda>_. '''')) 5 one_key open_shop = (Next g, s')"
    using one_key_passes by blast
  from token_auth_sound [OF this] show ?thesis by blast
qed

lemma caller_Next_guards: "caller h ck s = (Next k, s') \<Longrightarrow> same_guards s s'"
  by (auto simp: caller_def ValidateAccessToken_def split: option.splits if_splits prod.splits sum.splits
      dest!: db_first_Inr)

lemma authHelper_Next:
  "authHelper m h ck s = ((Next i, ck'), s') \<Longrightarrow>
   \<exists>k. fst (caller h ck s) = Next k \<and> i_id i = k_id k \<and> i_role i = k_role k \<and> m \<le> k_role k \<and>
     k_status k \<noteq> UserStatusDisabled \<and> \<not> IsUserBanned (k_id k) s"
  using caller_Next_guards [of h ck s]
  by (auto simp: authHelper_def same_guards_def IsUserBanned_def split: prod.splits outcome.splits if_splits)

lemma Updates_user_blacklist [simp]: "blacklist (snd (Updates_user new s)) = blacklist s"
  by (auto simp: Updates_user_def db_try_def Let_def split: prod.split sum.split if_splits
      dest!: db_find_Inr db_find_Inl)

lemma Update_user_False: "Update_user x False u s = Updates_user u (set_ban u s)"
  by (simp add: Update_user_def)

lemma Delete_user_bans: "u_id u \<noteq> 0 \<Longrightarrow> Delete_user x u s = (r, s') \<Longrightarrow> IsUserBanned (u_id u) s'"
  using Updates_user_blacklist [of "deleted_user x u" "BanUser (u_id u) s"]
  by (simp add: Delete_user_def IsUserBanned_def BanUser_def)

text \<open>Disabling or deleting an account bans it.\<close>

lemma ManageUser_bans:
  assumes "ManageUser x m (Inr (name, action)) s = (Success r, s')" and "action = ''disable'' \<or> action = ''delete''"
  shows "\<exists>u \<in> set (users s). (name = '''' \<or> u_username u = name) \<and> IsUserBanned (u_id u) s'"
proof -
  obtain u s1 where f: "fill_user (\<lambda>r. name = '''' \<or> u_username r = name) (zero_user\<lparr>u_username := name\<rparr>) s = (u, s1)"
    by fastforce
  have id: "u_id u \<noteq> 0" using assms(1) f by (auto simp: ManageUser_def split: if_splits)
  with fill_user_result [OF f] have u: "u \<in> set (users s)" "name = '''' \<or> u_username u = name"
    by (auto simp: zero_user_def)
  obtain u' s2 where a: "manage_action x m action u s1 = (Inr u', s2)"
    and s': "s' = snd (Update_user x False u' s2)"
    using assms(1) f by (auto simp: ManageUser_def update_reply_def split: if_splits prod.splits sum.splits option.splits)
  have "IsUserBanned (u_id u) s'"
  proof (cases "action = ''disable''")
    case True
    with a have "u' = u\<lparr>u_status := UserStatusDisabled\<rparr>" by (auto simp: manage_action_def split: if_splits)
    then show ?thesis by (simp add: s' Update_user_False IsUserBanned_def set_ban_def BanUser_def)
  next
    case False
    with a assms(2) have "Delete_user x u s1 = (None, s2)" and "u' = deleted_user x u"
      by (auto simp: manage_action_def split: if_splits prod.splits option.splits)
    then show ?thesis
      using Delete_user_bans [OF id] by (simp add: s' Update_user_False IsUserBanned_def set_ban_def deleted_user_def)
  qed
  with u show ?thesis by blast
qed

lemma banned_key_refused:
  assumes "IsUserBanned uid s" and "TokenAuth cidr6 ip6 cfg now rq s = (Next g, s')"
  shows "g_id g \<noteq> uid"
proof -
  obtain tok s1 s2 m where v: "ValidateUserToken cfg now (hd (key_parts rq)) s = (Inr tok, s1)"
    and e: "CacheIsUserEnabled cfg now (t_user_id tok) s1 = (Inr True, s2)"
    and b: "\<not> IsUserBanned (t_user_id tok) s2" and a: "admit rq tok m s2 = (Next g, s')"
    using assms(2) by (rule TokenAuth_Next)
  have "same_guards s s1" using ValidateUserToken_guards [OF v, of "''''"] by (simp add: token_cache_key_def)
  with CacheIsUserEnabled_Inr [OF e] have "same_guards s s2" by (blast intro: same_guards_trans)
  with assms(1) b admit_Next [OF a] show ?thesis by (auto simp: same_guards_def IsUserBanned_def)
qed

text \<open>C27: Disabling or deleting an account through the administration locks it out at once: after the
  answer no session, no access token and no API key of the account passes any of the authentications,
  whatever the caches hold.\<close>

theorem managed_locked_out:
  assumes "ManageUser x m (Inr (name, action)) s = (Success r, s1)" and "action \<in> {''disable'', ''delete''}"
  shows "\<exists>u \<in> set (users s). (name = '''' \<or> u_username u = name) \<and>
    (\<forall>role header ck i ck' s2. authHelper role header ck s1 = ((Next i, ck'), s2) \<longrightarrow> i_id i \<noteq> u_id u) \<and>
    (\<forall>cidr6 ip6 cfg now rq g s2. TokenAuth cidr6 ip6 cfg now rq s1 = (Next g, s2) \<longrightarrow> g_id g \<noteq> u_id u)"
proof -
  obtain u where u: "u \<in> set (users s)" "name = '''' \<or> u_username u = name" "IsUserBanned (u_id u) s1"
    using ManageUser_bans [OF assms(1)] assms(2) by blast
  have "i_id i \<noteq> u_id u" if "authHelper role header ck s1 = ((Next i, ck'), s2)" for role header ck i ck' s2
    using authHelper_Next [OF that] u(3) by auto
  moreover have "g_id g \<noteq> u_id u" if "TokenAuth cidr6 ip6 cfg now rq s1 = (Next g, s2)" for cidr6 ip6 cfg now rq g s2
    using banned_key_refused [OF u(3) that] .
  ultimately show ?thesis using u(1,2) by blast
qed

lemma shop_disable:
  "fst (ManageUser outside 100 (Inr (''ann'', ''disable'')) open_shop) = Success (zero_user\<lparr>u_role := 1, u_status := 2\<rparr>)"
proof -
  have f: "fill_user (\<lambda>r. u_username r = ''ann'') (zero_user\<lparr>u_username := ''ann''\<rparr>) open_shop = (ann, open_shop)"
    by (simp add: fill_user_def zero_user_def)
  have "ann\<lparr>u_status := 2, u_id := 0\<rparr> \<noteq> zero_user" by (simp add: zero_user_def ann_def)
  then have u: "fst (Update_user outside False (ann\<lparr>u_status := 2\<rparr>) open_shop) = None"
    by (simp add: Update_user_False Updates_user_def db_try_def set_ban_def BanUser_def unique_users_def Let_def)
  show ?thesis
    using u by (auto simp: ManageUser_def f manage_action_def update_reply_def split: prod.split option.split)
qed

theorem managed_locked_out_witness:
  "\<exists>u \<in> set (users open_shop). u_username u = ''ann'' \<and>
    (\<forall>header ck i ck' s2. authHelper 1 header ck (snd (ManageUser outside 100 (Inr (''ann'', ''disable'')) open_shop)) =
      ((Next i, ck'), s2) \<longrightarrow> i_id i \<noteq> u_id u)"
proof -
  let ?run = "ManageUser outside 100 (Inr (''ann'', ''disable'')) open_shop"
  have "?run = (Success (zero_user\<lparr>u_role := 1, u_status := 2\<rparr>), snd ?run)" using shop_disable by (simp add: prod_eq_iff)
  from managed_locked_out [OF this] show ?thesis by fastforce
qed

text \<open>What a restart of the process leaves: the database and Redis.\<close>

definition restart :: "st \<Rightarrow> st" where
  "restart s = s\<lparr>blacklist := [], batch_stores := (\<lambda>_. []), jobs := []\<rparr>"

text \<open>The lock-out of a session lasts until the process restarts. A session that was opened as an
  enabled account is refused after the account has been disabled or deleted, but the ban is only in
  memory, and the session's cookie is believed without a look at the account: after a restart it passes
  again, with the role it was opened with.\<close>

theorem ban_lost_on_restart:
  assumes "ManageUser x m (Inr (name, action)) s = (Success r, s1)" and "action \<in> {''disable'', ''delete''}"
  shows "\<exists>u \<in> set (users s). (name = '''' \<or> u_username u = name) \<and>
    (\<forall>k role header. k_id k = u_id u \<and> k_status k = UserStatusEnabled \<and> role \<le> k_role k \<longrightarrow>
      fst (fst (authHelper role header (Some k) s1)) = Abort 200 ''User has been banned'' \<and>
      fst (fst (authHelper role header (Some k) (restart s1))) =
        Next \<lparr>i_username = k_username k, i_role = k_role k, i_id = k_id k\<rparr>)"
proof -
  obtain u where u: "u \<in> set (users s)" "name = '''' \<or> u_username u = name" "IsUserBanned (u_id u) s1"
    using ManageUser_bans [OF assms(1)] assms(2) by blast
  then show ?thesis
    by (intro bexI [of _ u]) (auto simp: authHelper_def caller_def restart_def IsUserBanned_def)
qed

theorem ban_lost_on_restart_witness:
  "\<exists>u \<in> set (users open_shop). u_username u = ''ann'' \<and>
    (\<forall>k header. k_id k = u_id u \<and> k_status k = UserStatusEnabled \<and> 1 \<le> k_role k \<longrightarrow>
      fst (fst (authHelper 1 header (Some k) (restart (snd (ManageUser outside 100 (Inr (''ann'', ''disable'')) open_shop))))) =
        Next \<lparr>i_username = k_username k, i_role = k_role k, i_id = k_id k\<rparr>)"
proof -
  let ?run = "ManageUser outside 100 (Inr (''ann'', ''disable'')) open_shop"
  have "?run = (Success (zero_user\<lparr>u_role := 1, u_status := 2\<rparr>), snd ?run)" using shop_disable by (simp add: prod_eq_iff)
  from ban_lost_on_restart [OF this] show ?thesis by fastforce
qed

end
