(* ===== verification/Dispatch.thy ===== *)
theory Dispatch
  imports Auth ChannelLaws
begin

text \<open>
  \<^verbatim>\<open>middleware/distributor.go\<close>, \<open>LoadConfig\<close> of \<^verbatim>\<open>model/channel.go\<close> and \<^verbatim>\<open>relay/meta/relay_meta.go\<close>: the choice
  of a channel for an authenticated request, and what the relay then knows about the request. JSON is
  the parameters \<open>json_map\<close> (an object of strings) and \<open>json_config\<close> (the configuration as far as it could
  be read, and the error); \<open>r\<close> is the random number drawn.
\<close>

section \<open>The channel's part of the context\<close>

definition zero_channel_config :: channel_config where
  "zero_channel_config = \<lparr>Region = '''', SK = '''', AK = '''', UserID = '''', APIVersion = '''',
     LibraryID = '''', Plugin = '''', VertexAIProjectID = '''', VertexAIADC = ''''\<rparr>"

definition LoadConfig :: "(string \<Rightarrow> channel_config \<times> string option) \<Rightarrow> channel \<Rightarrow> channel_config \<times> string option" where
  "LoadConfig json_config c =
     (if c_config c = '''' then (zero_channel_config, None) else json_config (c_config c))"

text \<open>Older rows keep one setting in the column \<open>other\<close>.\<close>

definition legacy_config :: "channel \<Rightarrow> channel_config \<Rightarrow> channel_config" where
  "legacy_config c cfg =
     (case c_other c of
        None \<Rightarrow> cfg
      | Some other \<Rightarrow>
          (if c_type c = ct_Azure \<or> c_type c = ct_Xunfei \<or> c_type c = ct_Gemini then
             (if APIVersion cfg = '''' then cfg\<lparr>APIVersion := other\<rparr> else cfg)
           else if c_type c = ct_AIProxyLibrary then
             (if LibraryID cfg = '''' then cfg\<lparr>LibraryID := other\<rparr> else cfg)
           else if c_type c = ct_Ali then
             (if Plugin cfg = '''' then cfg\<lparr>Plugin := other\<rparr> else cfg)
           else cfg))"

definition SetupContextForSelectedChannel where
  "SetupContextForSelectedChannel json_map json_config (c :: channel) (modelName :: string) (g :: ctx) =
     (let g = g\<lparr>g_channel := c_type c, g_channel_id := c_id c, g_channel_name := c_name c\<rparr>;
          g = (case c_system_prompt c of
                 None \<Rightarrow> g
               | Some p \<Rightarrow> (if p \<noteq> '''' then g\<lparr>g_system_prompt := p\<rparr> else g))
      in g\<lparr>g_model_mapping := GetModelMapping json_map c,
           g_original_model := modelName,
           g_authorization := ''Bearer '' @ c_key c,
           g_base_url := GetBaseURL c,
           g_config := Some (legacy_config c (fst (LoadConfig json_config c)))\<rparr>)"


section \<open>Choosing the channel\<close>

text \<open>The messages, as bytes.\<close>

definition utf8 :: "nat list \<Rightarrow> string" where
  "utf8 bs = map char_of bs"

definition invalid_channel_id :: string where
  "invalid_channel_id =
    utf8 [0xE6, 0x97, 0xA0, 0xE6, 0x95, 0x88, 0xE7, 0x9A, 0x84, 0xE6, 0xB8, 0xA0, 0xE9, 0x81, 0x93, 0x20,
      0x49, 0x64]"

definition channel_disabled :: string where
  "channel_disabled =
    utf8 [0xE8, 0xAF, 0xA5, 0xE6, 0xB8, 0xA0, 0xE9, 0x81, 0x93, 0xE5, 0xB7, 0xB2, 0xE8, 0xA2, 0xAB, 0xE7,
      0xA6, 0x81, 0xE7, 0x94, 0xA8]"

definition database_inconsistent :: string where
  "database_inconsistent =
    utf8 [0xE6, 0x95, 0xB0, 0xE6, 0x8D, 0xAE, 0xE5, 0xBA, 0x93, 0xE4, 0xB8, 0x80, 0xE8, 0x87, 0xB4, 0xE6,
      0x80, 0xA7, 0xE5, 0xB7, 0xB2, 0xE8, 0xA2, 0xAB, 0xE7, 0xA0, 0xB4, 0xE5, 0x9D, 0x8F, 0xEF, 0xBC,
      0x8C, 0xE8, 0xAF, 0xB7, 0xE8, 0x81, 0x94, 0xE7, 0xB3, 0xBB, 0xE7, 0xAE, 0xA1, 0xE7, 0x90, 0x86,
      0xE5, 0x91, 0x98]"

definition current_group :: string where
  "current_group =
    utf8 [0xE5, 0xBD, 0x93, 0xE5, 0x89, 0x8D, 0xE5, 0x88, 0x86, 0xE7, 0xBB, 0x84, 0x20]"

definition for_model :: string where
  "for_model =
    utf8 [0x20, 0xE4, 0xB8, 0x8B, 0xE5, 0xAF, 0xB9, 0xE4, 0xBA, 0x8E, 0xE6, 0xA8, 0xA1, 0xE5, 0x9E, 0x8B,
      0x20]"

definition no_channel_available :: string where
  "no_channel_available =
    utf8 [0x20, 0xE6, 0x97, 0xA0, 0xE5, 0x8F, 0xAF, 0xE7, 0x94, 0xA8, 0xE6, 0xB8, 0xA0, 0xE9, 0x81, 0x93]"


definition Distribute where
  "Distribute json_map json_config cfg now r cache rq (g :: ctx) s =
     (case CacheGetUserGroup cfg now (g_id g) s of
        ((userGroup, _), s) \<Rightarrow>
          (let g = g\<lparr>g_group := userGroup\<rparr>
           in case g_specific_channel g of
                Some channelId \<Rightarrow>
                  (case parse_ok (ParseInt channelId) of
                     None \<Rightarrow> (abortWithMessage rq 400 invalid_channel_id, s)
                   | Some cid \<Rightarrow>
                       (case GetChannelById cid True s of
                          (Inl e, s) \<Rightarrow> (abortWithMessage rq 400 invalid_channel_id, s)
                        | (Inr c, s) \<Rightarrow>
                            (if c_status c \<noteq> ChannelStatusEnabled then (abortWithMessage rq 403 channel_disabled, s)
                             else (Next (SetupContextForSelectedChannel json_map json_config c '''' g), s))))
              | None \<Rightarrow>
                  (let requestModel = g_request_model g
                   in case CacheGetRandomSatisfiedChannel cfg r cache userGroup requestModel False s of
                        (Inl (e, broken), s) \<Rightarrow>
                          (abortWithMessage rq 503 (if broken then database_inconsistent
                             else current_group @ userGroup @ for_model @ requestModel @ no_channel_available), s)
                      | (Inr c, s) \<Rightarrow>
                          (Next (SetupContextForSelectedChannel json_map json_config c requestModel g), s))))"


section \<open>What the relay knows\<close>

record Meta =
  m_Mode :: int
  m_ChannelType :: int
  m_ChannelId :: int
  m_TokenId :: int
  m_TokenName :: string
  m_UserId :: int
  m_Group :: string
  m_ModelMapping :: "(string \<times> string) list option"
  m_BaseURL :: string
  m_APIKey :: string
  m_APIType :: int
  m_Config :: channel_config
  m_IsStream :: bool
  m_OriginModelName :: string
  m_ActualModelName :: string
  m_RequestURLPath :: string
  m_PromptTokens :: int
  m_ForcedSystemPrompt :: string
  m_StartTime :: int

text \<open>\<open>None\<close> is a panic: without an address of its own, a channel of an unknown kind has none.\<close>

definition GetByContext :: "int \<Rightarrow> request \<Rightarrow> ctx \<Rightarrow> Meta option" where
  "GetByContext now rq g =
     map_option (\<lambda>baseURL. \<lparr>m_Mode = GetByPath (q_path rq), m_ChannelType = g_channel g,
         m_ChannelId = g_channel_id g, m_TokenId = g_token_id g, m_TokenName = g_token_name g,
         m_UserId = g_id g, m_Group = g_group g, m_ModelMapping = g_model_mapping g, m_BaseURL = baseURL,
         m_APIKey = TrimPrefix (g_authorization g) ''Bearer '', m_APIType = ToAPIType (g_channel g),
         m_Config = (case g_config g of None \<Rightarrow> zero_channel_config | Some c \<Rightarrow> c), m_IsStream = False,
         m_OriginModelName = g_request_model g, m_ActualModelName = '''', m_RequestURLPath = q_url rq,
         m_PromptTokens = 0, m_ForcedSystemPrompt = g_system_prompt g, m_StartTime = now\<rparr>)
       (if g_base_url g = '''' then channel_base_url (g_channel g) else Some (g_base_url g))"

section \<open>Properties\<close>

lemma SetupContext_simps [simp]:
  "g_channel_id (SetupContextForSelectedChannel jm jc c m g) = c_id c"
  "g_channel (SetupContextForSelectedChannel jm jc c m g) = c_type c"
  "g_authorization (SetupContextForSelectedChannel jm jc c m g) = ''Bearer '' @ c_key c"
  "g_base_url (SetupContextForSelectedChannel jm jc c m g) = GetBaseURL c"
  "g_original_model (SetupContextForSelectedChannel jm jc c m g) = m"
  "g_group (SetupContextForSelectedChannel jm jc c m g) = g_group g"
  "g_id (SetupContextForSelectedChannel jm jc c m g) = g_id g"
  "g_token_id (SetupContextForSelectedChannel jm jc c m g) = g_token_id g"
  "g_specific_channel (SetupContextForSelectedChannel jm jc c m g) = g_specific_channel g"
  "g_request_model (SetupContextForSelectedChannel jm jc c m g) = g_request_model g"
  by (auto simp: SetupContextForSelectedChannel_def Let_def split: option.split)

lemma RedisGet_str_rows:
  "RedisGet_str now key s = (r, s') \<Longrightarrow> channels s' = channels s \<and> abilities s' = abilities s"
  by (auto simp: RedisGet_str_def RedisGet_def kv_tick_def
      split: prod.splits sum.splits list.splits option.splits kv_value.splits)

lemma RedisSet_rows:
  "RedisSet now key v ttl s = (r, s') \<Longrightarrow> channels s' = channels s \<and> abilities s' = abilities s"
  by (auto simp: RedisSet_def kv_tick_def split: list.splits option.splits)

lemma CacheGetUserGroup_rows:
  assumes "CacheGetUserGroup cfg now uid s = (r, s')"
  shows "channels s' = channels s \<and> abilities s' = abilities s"
proof (cases "redis_enabled s")
  case False
  with assms show ?thesis
    by (auto simp: CacheGetUserGroup_def GetUserGroup_def split: prod.splits sum.splits dest!: db_find_Inl db_find_Inr)
next
  case True
  with assms show ?thesis
    by (auto simp: CacheGetUserGroup_def GetUserGroup_def split: prod.splits sum.splits option.splits
        dest!: db_find_Inl db_find_Inr RedisGet_str_rows RedisSet_rows)
qed

lemma random_channel:
  assumes "GetRandomSatisfiedChannel r grp mdl False s = (Inr c, s')"
  shows "c \<in> set (channels s) \<and> (\<exists>a \<in> set (abilities s). a_channel_id a = c_id c \<and> a_enabled a \<and> a_group a = grp \<and> a_model a = mdl)"
  using assms
  by (auto simp: GetRandomSatisfiedChannel_def candidates_def serving_def Let_def split: prod.splits sum.splits
      dest!: db_first_Inr pick_Some find_SomeD)


definition mall :: st where
  "mall = open_shop\<lparr>channels := [zero_channel\<lparr>c_id := 4, c_type := 1, c_key := ''up'', c_status := 1,
     c_models := ''gpt-4'', c_group := ''default''\<rparr>],
     abilities := [\<lparr>a_group = ''default'', a_model = ''gpt-4'', a_channel_id = 4, a_enabled = True, a_priority = Some 0\<rparr>]\<rparr>"

definition mall_ctx :: ctx where
  "mall_ctx = (empty_ctx one_key)\<lparr>g_request_model := ''gpt-4'', g_id := 1, g_token_id := 7\<rparr>"

lemma mall_dispatch: "\<exists>g s'. Distribute jm jc (init_config (\<lambda>_. '''')) 5 0 Map.empty one_key mall_ctx mall = (Next g, s') \<and>
    g_channel_id g = 4"
  by (simp add: Distribute_def mall_def mall_ctx_def CacheGetUserGroup_def GetUserGroup_def user_column_def open_shop_def
      shop_def empty_st_def empty_ctx_def CacheGetRandomSatisfiedChannel_def init_config_def ToLower_def
      GetRandomSatisfiedChannel_def candidates_def serving_def max_priority_def pick_def db_first_def db_find_def Let_def
      List.map_filter_def ann_def)


text \<open>C40: A relayed request always has an address to go to: for every kind of channel the program knows,
  and for any kind when the channel has an address of its own, the context becomes a \<open>Meta\<close> whose
  interface has an adaptor, whose key is the channel's and whose prefix \<open>Bearer\<close> is gone.\<close>

theorem meta_total:
  assumes "0 \<le> c_type c \<and> c_type c < ct_Dummy \<or> GetBaseURL c \<noteq> ''''"
  shows "\<exists>m. GetByContext now rq (SetupContextForSelectedChannel json_map json_config c mdl g) = Some m \<and>
    GetAdaptor (m_APIType m) \<noteq> None \<and> m_APIKey m = c_key c \<and> m_ChannelId m = c_id c \<and> m_TokenId m = g_token_id g"
  using assms channel_base_url_defined [of "c_type c"] adaptor_of_channel [of "c_type c"]
    TrimPrefix_append [of "''Bearer ''" "c_key c"]
  by (cases "channel_base_url (c_type c)") (auto simp: GetByContext_def)

theorem meta_total_witness:
  "GetByContext 0 one_key (SetupContextForSelectedChannel (\<lambda>_. None) (\<lambda>_. (zero_channel_config, None)) zero_channel '''' mall_ctx) \<noteq> None"
  using meta_total [of zero_channel 0 one_key "\<lambda>_. None" "\<lambda>_. (zero_channel_config, None)" "''''" mall_ctx]
  by (auto simp: zero_channel_def)

end
