(* ===== verification/Relay.thy ===== *)
theory Relay
  imports Requests Dispatch
begin

text \<open>
  The relay of text requests: \<^verbatim>\<open>relay/controller/text.go\<close>, \<^verbatim>\<open>helper.go\<close> and \<^verbatim>\<open>error.go\<close>, with
  \<^verbatim>\<open>relay/billing/billing.go\<close>. What a request needs from outside is the record \<open>env\<close>: its decoded body, the
  adaptors (the Go interface \<open>adaptor.Adaptor\<close>, whose calls talk to the upstream service), the token
  encoders and the clock. A handler returns how it finished, the goroutine it started (the change it will
  make to the state whenever it runs) and the state.
\<close>

section \<open>Errors\<close>

record api_error =
  er_Message :: string
  er_Type :: string
  er_Param :: string
  er_Code :: json

record status_error =
  se_Error :: api_error
  se_StatusCode :: int

definition ErrorWrapper :: "string \<Rightarrow> string \<Rightarrow> int \<Rightarrow> status_error" where
  "ErrorWrapper err code statusCode =
     \<lparr>se_Error = \<lparr>er_Message = err, er_Type = ''one_api_error'', er_Param = '''', er_Code = JStr code\<rparr>,
      se_StatusCode = statusCode\<rparr>"

record GeneralErrorResponse =
  ge_Error :: api_error
  ge_Message :: string
  ge_Msg :: string
  ge_Err :: string
  ge_ErrorMsg :: string
  ge_HeaderMessage :: string
  ge_ResponseErrorMessage :: string

definition ToMessage :: "GeneralErrorResponse \<Rightarrow> string" where
  "ToMessage e =
     (if er_Message (ge_Error e) \<noteq> '''' then er_Message (ge_Error e)
      else if ge_Message e \<noteq> '''' then ge_Message e
      else if ge_Msg e \<noteq> '''' then ge_Msg e
      else if ge_Err e \<noteq> '''' then ge_Err e
      else if ge_ErrorMsg e \<noteq> '''' then ge_ErrorMsg e
      else if ge_HeaderMessage e \<noteq> '''' then ge_HeaderMessage e
      else if ge_ResponseErrorMessage e \<noteq> '''' then ge_ResponseErrorMessage e
      else '''')"

text \<open>A response: reading its body and closing it may fail.\<close>

record response =
  rp_StatusCode :: int
  rp_ContentType :: string
  rp_Body :: "string + string"
  rp_Close :: "string option"

definition RelayErrorHandler :: "(string \<Rightarrow> GeneralErrorResponse option) \<Rightarrow> response option \<Rightarrow> status_error" where
  "RelayErrorHandler unmarshal_error resp =
     (case resp of
        None \<Rightarrow> \<lparr>se_Error = \<lparr>er_Message = ''resp is nil'', er_Type = ''upstream_error'', er_Param = '''',
                   er_Code = JStr ''bad_response''\<rparr>, se_StatusCode = 500\<rparr>
      | Some r \<Rightarrow>
          (let e = \<lparr>er_Message = '''', er_Type = ''upstream_error'', er_Param = Itoa (rp_StatusCode r),
                 er_Code = JStr ''bad_response_status_code''\<rparr>;
               err = (\<lambda>e. \<lparr>se_Error = e, se_StatusCode = rp_StatusCode r\<rparr>)
           in case (rp_Body r, rp_Close r) of
                (Inr body, None) \<Rightarrow>
                  (case unmarshal_error body of
                     None \<Rightarrow> err e
                   | Some g \<Rightarrow>
                       (let e = (if er_Message (ge_Error g) \<noteq> '''' then ge_Error g else e\<lparr>er_Message := ToMessage g\<rparr>)
                        in err (if er_Message e = ''''
                             then e\<lparr>er_Message := ''bad response status code '' @ Itoa (rp_StatusCode r)\<rparr> else e)))
              | _ \<Rightarrow> err e))"


section \<open>The environment of a request\<close>

text \<open>A request's body for the upstream: the caller's own, a converted image request, or converted JSON.\<close>

datatype body = RawBody | ImageBody ImageRequest | JsonBody string

record adaptor_ops =
  op_ConvertRequest :: "Meta \<Rightarrow> GeneralOpenAIRequest \<Rightarrow> string + string"
  op_ConvertImageRequest :: "Meta \<Rightarrow> ImageRequest \<Rightarrow> string + string"
  op_DoRequest :: "Meta \<Rightarrow> body \<Rightarrow> string + response option"
  op_DoResponse :: "Meta \<Rightarrow> response option \<Rightarrow> status_error + Usage option"

datatype auth_header = Authorization string | ApiKey string

record env =
  e_cfg :: config
  e_ratios :: ratios
  e_ops :: "adaptor \<Rightarrow> adaptor_ops"
  e_encoding :: "string \<Rightarrow> encoder option"
  e_known :: "string \<Rightarrow> bool"
  e_image_size :: "string \<Rightarrow> string + int \<times> int"
  e_unmarshal_error :: "string \<Rightarrow> GeneralErrorResponse option"
  e_text :: "string + GeneralOpenAIRequest"
  e_image :: "string + ImageRequest"
  e_speech :: "string + TextToSpeechRequest"
  e_body :: "string + string"
  e_response_format :: string
  e_new_request :: "string \<Rightarrow> string option"
  e_http :: "string \<Rightarrow> auth_header \<Rightarrow> string + response"
  e_slim_error :: "string \<Rightarrow> api_error option"
  e_show_code :: "json \<Rightarrow> string"
  e_whisper :: "string \<Rightarrow> string option"
  e_whisper_verbose :: "string \<Rightarrow> string option"
  e_write :: "string option"
  e_request_id :: string
  e_now :: int
  e_later :: int
  e_elapsed :: int

datatype finish = Returned "status_error option" | Panicked


section \<open>Helpers\<close>

definition getAndValidateTextRequest :: "env \<Rightarrow> request \<Rightarrow> int \<Rightarrow> string + GeneralOpenAIRequest" where
  "getAndValidateTextRequest E rq relayMode =
     (case e_text E of
        Inl e \<Rightarrow> Inl e
      | Inr q \<Rightarrow>
          (let q = (if relayMode = mode_Moderations \<and> Model q = '''' then q\<lparr>Model := ''text-moderation-latest''\<rparr> else q);
               q = (if relayMode = mode_Embeddings \<and> Model q = '''' then q\<lparr>Model := q_param rq ''model''\<rparr> else q)
           in case ValidateTextRequest q relayMode of Some e \<Rightarrow> Inl e | None \<Rightarrow> Inr q))"

definition getPromptTokens :: "env \<Rightarrow> GeneralOpenAIRequest \<Rightarrow> int \<Rightarrow> int option" where
  "getPromptTokens E q relayMode =
     (if relayMode = mode_ChatCompletions
      then CountTokenMessages (e_image_size E) (e_encoding E) (e_known E) (e_cfg E) (Messages q) (Model q)
      else if relayMode = mode_Completions
      then Some (CountTokenInput (e_encoding E) (e_known E) (e_cfg E) (Prompt q) (Model q))
      else if relayMode = mode_Moderations
      then Some (CountTokenInput (e_encoding E) (e_known E) (e_cfg E) (Input q) (Model q))
      else Some 0)"

definition getPreConsumedQuota :: "config \<Rightarrow> GeneralOpenAIRequest \<Rightarrow> int \<Rightarrow> f64 \<Rightarrow> int" where
  "getPreConsumedQuota cfg q promptTokens ratio =
     (let preConsumedTokens = wrap64 (PreConsumedQuota cfg + promptTokens);
          preConsumedTokens = (if MaxTokens q \<noteq> 0 then wrap64 (preConsumedTokens + MaxTokens q) else preConsumedTokens)
      in int64_of_f64 (f64_of_int preConsumedTokens * ratio))"

text \<open>The common part of the text and the audio relay: an estimate is checked and taken.\<close>

definition take_estimate :: "env \<Rightarrow> int \<Rightarrow> int \<Rightarrow> int \<Rightarrow> st \<Rightarrow> (int \<times> status_error option) \<times> st" where
  "take_estimate E userId tokenId preConsumedQuota s =
     (case CacheGetUserQuota (e_cfg E) (e_now E) userId s of
        ((userQuota, Some e), s) \<Rightarrow> ((preConsumedQuota, Some (ErrorWrapper e ''get_user_quota_failed'' 500)), s)
      | ((userQuota, None), s) \<Rightarrow>
          (if wrap64 (userQuota - preConsumedQuota) < 0
           then ((preConsumedQuota, Some (ErrorWrapper ''user quota is not enough'' ''insufficient_user_quota'' 403)), s)
           else case CacheDecreaseUserQuota (e_now E) userId preConsumedQuota s of
             (Some e, s) \<Rightarrow> ((preConsumedQuota, Some (ErrorWrapper e ''decrease_user_quota_failed'' 500)), s)
           | (None, s) \<Rightarrow>
               (let preConsumedQuota = (if wrap64 (100 * preConsumedQuota) < userQuota then 0 else preConsumedQuota)
                in if 0 < preConsumedQuota then
                     (case PreConsumeTokenQuota (e_cfg E) (e_now E) tokenId preConsumedQuota s of
                        (Some e, s) \<Rightarrow> ((preConsumedQuota, Some (ErrorWrapper e ''pre_consume_token_quota_failed'' 403)), s)
                      | (None, s) \<Rightarrow> ((preConsumedQuota, None), s))
                   else ((preConsumedQuota, None), s))))"

definition preConsumeQuota :: "env \<Rightarrow> GeneralOpenAIRequest \<Rightarrow> int \<Rightarrow> f64 \<Rightarrow> Meta \<Rightarrow> st \<Rightarrow>
    (int \<times> status_error option) \<times> st" where
  "preConsumeQuota E q promptTokens ratio m s =
     take_estimate E (m_UserId m) (m_TokenId m) (getPreConsumedQuota (e_cfg E) q promptTokens ratio) s"

text \<open>The cost of a request: never less than one unit when the price is not zero and tokens were used.\<close>

definition text_quota :: "f64 \<Rightarrow> f64 \<Rightarrow> Usage \<Rightarrow> int" where
  "text_quota completionRatio ratio usage =
     (let quota = int64_of_f64 (ceil64 ((f64_of_int (PromptTokens usage) +
            f64_of_int (CompletionTokens usage) * completionRatio) * ratio));
          quota = (if ratio \<noteq> 0 \<and> quota \<le> 0 then 1 else quota)
      in if wrap64 (PromptTokens usage + CompletionTokens usage) = 0 then 0 else quota)"

definition log_ratio :: "f64 list \<Rightarrow> string" where
  "log_ratio rs = utf8 [0xE5, 0x80, 0x8D, 0xE7, 0x8E, 0x87, 0xEF, 0xBC, 0x9A] @
     concat (map (\<lambda>(i, r). (if i = 0 then '''' else utf8 [0x20, 0xC3, 0x97, 0x20]) @ fmt_fixed 2 (rat_of r)) (enumerate 0 rs))"

definition postConsumeQuota :: "env \<Rightarrow> Usage option \<Rightarrow> Meta \<Rightarrow> GeneralOpenAIRequest \<Rightarrow> f64 \<Rightarrow> int \<Rightarrow> f64 \<Rightarrow> f64 \<Rightarrow>
    bool \<Rightarrow> st \<Rightarrow> st" where
  "postConsumeQuota E usage m q ratio preConsumedQuota modelRatio groupRatio systemPromptReset s =
     (case usage of
        None \<Rightarrow> s
      | Some u \<Rightarrow>
          (let completionRatio = GetCompletionRatio (e_ratios E) (Model q) (m_ChannelType m);
               quota = text_quota completionRatio ratio u;
               s = snd (PostConsumeTokenQuota (e_cfg E) (e_later E) (m_TokenId m) (wrap64 (quota - preConsumedQuota)) s);
               s = snd (CacheUpdateUserQuota (e_cfg E) (e_later E) (m_UserId m) s);
               s = RecordConsumeLog (e_cfg E) (e_request_id E) (e_later E) (zero_log\<lparr>l_user_id := m_UserId m,
                     l_channel_id := m_ChannelId m, l_prompt_tokens := PromptTokens u,
                     l_completion_tokens := CompletionTokens u, l_model_name := Model q,
                     l_token_name := m_TokenName m, l_quota := quota,
                     l_content := log_ratio [modelRatio, groupRatio, completionRatio],
                     l_is_stream := m_IsStream m, l_elapsed_time := e_elapsed E,
                     l_system_prompt_reset := systemPromptReset\<rparr>) s;
               s = UpdateUserUsedQuotaAndRequestCount (e_cfg E) (m_UserId m) quota s
           in UpdateChannelUsedQuota (e_cfg E) (m_ChannelId m) quota s))"

definition getMappedModelName :: "string \<Rightarrow> (string \<times> string) list option \<Rightarrow> string \<times> bool" where
  "getMappedModelName modelName mapping =
     (case mapping of
        None \<Rightarrow> (modelName, False)
      | Some m \<Rightarrow>
          (case map_of m modelName of
             None \<Rightarrow> (modelName, False)
           | Some mapped \<Rightarrow> (if mapped \<noteq> '''' then (mapped, True) else (modelName, False))))"

definition isErrorHappened :: "Meta \<Rightarrow> response option \<Rightarrow> bool" where
  "isErrorHappened m resp =
     (case resp of
        None \<Rightarrow> m_ChannelType m \<noteq> ct_AwsClaude
      | Some r \<Rightarrow>
          (if rp_StatusCode r \<noteq> 200 \<and> rp_StatusCode r \<noteq> 201 then True
           else if m_ChannelType m = ct_DeepL then False
           else m_IsStream m \<and> HasPrefix (rp_ContentType r) ''application/json'' \<and> m_ChannelType m \<noteq> ct_Replicate))"

definition setSystemPrompt :: "GeneralOpenAIRequest \<Rightarrow> string \<Rightarrow> GeneralOpenAIRequest \<times> bool" where
  "setSystemPrompt q prompt =
     (if prompt = '''' then (q, False)
      else case Messages q of
        [] \<Rightarrow> (q, False)
      | m # ms \<Rightarrow>
          (if ms_Role m = ''system'' then (q\<lparr>Messages := m\<lparr>ms_Content := JStr prompt\<rparr> # ms\<rparr>, True)
           else (q\<lparr>Messages := \<lparr>ms_Role = ''system'', ms_Content = JStr prompt, ms_ReasoningContent = JNull,
                   ms_Name = None, ms_ToolCalls = [], ms_ToolCallId = ''''\<rparr> # m # ms\<rparr>, True)))"

section \<open>Billing\<close>

text \<open>The goroutine that gives an estimate back; none is started for nothing.\<close>

definition ReturnPreConsumedQuota :: "env \<Rightarrow> int \<Rightarrow> int \<Rightarrow> st \<Rightarrow> st" where
  "ReturnPreConsumedQuota E preConsumedQuota tokenId s =
     (if preConsumedQuota \<noteq> 0
      then snd (PostConsumeTokenQuota (e_cfg E) (e_later E) tokenId (wrap64 (- preConsumedQuota)) s) else s)"

definition PostConsumeQuota :: "env \<Rightarrow> int \<Rightarrow> int \<Rightarrow> int \<Rightarrow> int \<Rightarrow> int \<Rightarrow> f64 \<Rightarrow> f64 \<Rightarrow> string \<Rightarrow> string \<Rightarrow> st \<Rightarrow> st" where
  "PostConsumeQuota E tokenId quotaDelta totalQuota userId channelId modelRatio groupRatio modelName tokenName s =
     (let s = snd (PostConsumeTokenQuota (e_cfg E) (e_later E) tokenId quotaDelta s);
          s = snd (CacheUpdateUserQuota (e_cfg E) (e_later E) userId s)
      in if totalQuota \<noteq> 0 then
           (let s = RecordConsumeLog (e_cfg E) (e_request_id E) (e_later E) (zero_log\<lparr>l_user_id := userId,
                  l_channel_id := channelId, l_prompt_tokens := totalQuota, l_model_name := modelName,
                  l_token_name := tokenName, l_quota := totalQuota,
                  l_content := log_ratio [modelRatio, groupRatio]\<rparr>) s;
                s = UpdateUserUsedQuotaAndRequestCount (e_cfg E) userId totalQuota s
            in UpdateChannelUsedQuota (e_cfg E) channelId totalQuota s)
         else s)"


section \<open>Relaying a text request\<close>

definition getRequestBody :: "env \<Rightarrow> Meta \<Rightarrow> GeneralOpenAIRequest \<Rightarrow> adaptor_ops \<Rightarrow> string + body" where
  "getRequestBody E m q ops =
     (if \<not> EnforceIncludeUsage (e_cfg E) \<and> m_APIType m = api_OpenAI \<and> m_OriginModelName m = m_ActualModelName m \<and>
         m_ChannelType m \<noteq> ct_Baichuan \<and> m_ForcedSystemPrompt m = ''''
      then Inr RawBody
      else case op_ConvertRequest ops m q of Inl e \<Rightarrow> Inl e | Inr json \<Rightarrow> Inr (JsonBody json))"

text \<open>The price of the mapped model on the channel, for the caller's group.\<close>

definition request_ratio :: "env \<Rightarrow> Meta \<Rightarrow> string \<Rightarrow> f64" where
  "request_ratio E m model =
     GetModelRatio (e_ratios E) model (m_ChannelType m) * GetGroupRatio (e_ratios E) (m_Group m)"

text \<open>The request and what is known about it when the price is looked up.\<close>

definition prepare_text :: "Meta \<Rightarrow> GeneralOpenAIRequest \<Rightarrow> Meta \<times> GeneralOpenAIRequest \<times> bool" where
  "prepare_text m q =
     (let m = m\<lparr>m_IsStream := Stream q, m_OriginModelName := Model q\<rparr>;
          q = q\<lparr>Model := fst (getMappedModelName (Model q) (m_ModelMapping m))\<rparr>;
          m = m\<lparr>m_ActualModelName := Model q\<rparr>;
          (q, systemPromptReset) = setSystemPrompt q (m_ForcedSystemPrompt m)
      in (m, q, systemPromptReset))"

text \<open>The part after the estimate has been taken.\<close>

definition send_text :: "env \<Rightarrow> Meta \<Rightarrow> GeneralOpenAIRequest \<Rightarrow> bool \<Rightarrow> int \<Rightarrow> finish \<times> (st \<Rightarrow> st)" where
  "send_text E m q systemPromptReset preConsumedQuota =
     (case GetAdaptor (m_APIType m) of
        None \<Rightarrow> (Returned (Some (ErrorWrapper (''invalid api type: '' @ Itoa (m_APIType m)) ''invalid_api_type'' 400)), id)
      | Some a \<Rightarrow>
          (case getRequestBody E m q (e_ops E a) of
             Inl e \<Rightarrow> (Returned (Some (ErrorWrapper e ''convert_request_failed'' 500)), id)
           | Inr requestBody \<Rightarrow>
               (case op_DoRequest (e_ops E a) m requestBody of
                  Inl e \<Rightarrow> (Returned (Some (ErrorWrapper e ''do_request_failed'' 500)), id)
                | Inr resp \<Rightarrow>
                    (if isErrorHappened m resp then
                       (Returned (Some (RelayErrorHandler (e_unmarshal_error E) resp)),
                        ReturnPreConsumedQuota E preConsumedQuota (m_TokenId m))
                     else (case op_DoResponse (e_ops E a) m resp of
                         Inl respErr \<Rightarrow>
                           (Returned (Some respErr), ReturnPreConsumedQuota E preConsumedQuota (m_TokenId m))
                       | Inr usage \<Rightarrow>
                           (Returned None, postConsumeQuota E usage m q (request_ratio E m (Model q)) preConsumedQuota
                              (GetModelRatio (e_ratios E) (Model q) (m_ChannelType m))
                              (GetGroupRatio (e_ratios E) (m_Group m)) systemPromptReset))))))"

definition RelayTextHelper :: "env \<Rightarrow> request \<Rightarrow> ctx \<Rightarrow> st \<Rightarrow> (finish \<times> (st \<Rightarrow> st)) \<times> st" where
  "RelayTextHelper E rq g s =
     (case GetByContext (e_now E) rq g of
        None \<Rightarrow> ((Panicked, id), s)
      | Some m \<Rightarrow>
          (case getAndValidateTextRequest E rq (m_Mode m) of
             Inl e \<Rightarrow> ((Returned (Some (ErrorWrapper e ''invalid_text_request'' 400)), id), s)
           | Inr q \<Rightarrow>
               (case prepare_text m q of
                  (m, q, systemPromptReset) \<Rightarrow>
                    (case getPromptTokens E q (m_Mode m) of
                       None \<Rightarrow> ((Panicked, id), s)
                     | Some promptTokens \<Rightarrow>
                         (let m = m\<lparr>m_PromptTokens := promptTokens\<rparr>
                          in case preConsumeQuota E q promptTokens (request_ratio E m (Model q)) m s of
                               ((preConsumedQuota, Some bizErr), s) \<Rightarrow> ((Returned (Some bizErr), id), s)
                             | ((preConsumedQuota, None), s) \<Rightarrow>
                                 (send_text E m q systemPromptReset preConsumedQuota, s))))))"

end
