(* ===== verification/RelayLaws.thy ===== *)
theory RelayLaws
  imports Relay QuotaLaws
begin

text \<open>
  What a relayed text request costs: the estimate that is taken first and the settlement at the end, over
  all the ways the relay can finish. The accounts are those of theory \<open>QuotaLaws\<close>.
\<close>

section \<open>The price\<close>

lemma int64_of_f64_cases: "int64_of_f64 x = trunc_rat (rat_of x) \<or> int64_of_f64 x = - (2 ^ 63)"
  by (simp add: int64_of_f64_def Let_def)

lemma text_quota_range: "0 \<le> text_quota c r u \<and> text_quota c r u < 2 ^ 63"
proof -
  let ?x = "ceil64 ((f64_of_int (PromptTokens u) + f64_of_int (CompletionTokens u) * c) * r)"
  have "int64 (int64_of_f64 ?x)" by simp
  then have up: "int64_of_f64 ?x < 2 ^ 63" by (simp add: int64_def)
  have zero: "int64_of_f64 ?x = 0" if "r = 0"
    using that by (simp add: f64_defs ceil64_def int64_of_f64_def trunc_rat_def int64_def)
  show ?thesis using up zero by (auto simp: text_quota_def Let_def)
qed

text \<open>Prices that are not negative give estimates that are not negative, as long as they stay in range.\<close>

lemma estimate_nonneg:
  assumes "0 \<le> ratio" and "0 \<le> n" and "0 \<le> MaxTokens q" and "0 \<le> PreConsumedQuota cfg"
    and "PreConsumedQuota cfg + n + MaxTokens q < 2 ^ 63"
    and "rat_of (f64_of_int (PreConsumedQuota cfg + n + MaxTokens q) * ratio) < 2 ^ 63"
  shows "0 \<le> getPreConsumedQuota cfg q n ratio"
proof -
  have "wrap64 (PreConsumedQuota cfg + n) = PreConsumedQuota cfg + n"
    using assms by (intro wrap64_id) (simp add: int64_def)
  moreover have "wrap64 (PreConsumedQuota cfg + n + MaxTokens q) = PreConsumedQuota cfg + n + MaxTokens q"
    using assms by (intro wrap64_id) (simp add: int64_def)
  ultimately have "getPreConsumedQuota cfg q n ratio =
      int64_of_f64 (f64_of_int (PreConsumedQuota cfg + n + MaxTokens q) * ratio)"
    by (simp add: getPreConsumedQuota_def Let_def)
  then show ?thesis
    using assms by (simp add: int64_of_f64_nonneg f64_mult_nonneg f64_of_int_nonneg)
qed


section \<open>Accounts\<close>

text \<open>The owner of the token, and the token if it is limited, pay exactly this much, and nobody else pays.\<close>

definition pays :: "int \<Rightarrow> token \<Rightarrow> int \<Rightarrow> st \<Rightarrow> st \<Rightarrow> bool" where
  "pays i tok q s s' \<longleftrightarrow>
     (\<forall>v. quota_of v s' = (if v = t_user_id tok then quota_of v s - q else quota_of v s)) \<and>
     remain_of i s' = remain_of i s - (if t_unlimited_quota tok then 0 else q)"

lemma pays_trans: "pays i tok p s s' \<Longrightarrow> pays i tok q s' s'' \<Longrightarrow> pays i tok (p + q) s s''"
  by (auto simp: pays_def)

lemma pays_0: "users s' = users s \<Longrightarrow> tokens s' = tokens s \<Longrightarrow> pays i tok 0 s s'"
  by (simp add: pays_def user_column_def remain_of_def)

lemma pays_refl [simp]: "pays i tok 0 s s"
  by (simp add: pays_0)

text \<open>The setting: direct updates, a database that does not fail, no Redis, and a token with an owner.\<close>

definition served :: "env \<Rightarrow> int \<Rightarrow> token \<Rightarrow> st \<Rightarrow> bool" where
  "served E i tok s \<longleftrightarrow> \<not> BatchUpdateEnabled (e_cfg E) \<and> db_faults s = [] \<and> \<not> redis_enabled s \<and>
     token_row i s = Some tok \<and> find (\<lambda>u. u_id u = t_user_id tok) (users s) \<noteq> None"

lemma PreConsume_state:
  assumes "\<not> BatchUpdateEnabled cfg" and "db_faults s = []" and "PreConsumeTokenQuota cfg now i q s = (r, s')"
  shows "db_faults s' = [] \<and> redis_enabled s' = redis_enabled s \<and> (r \<noteq> None \<longrightarrow> s' = s)"
  using assms
  by (cases "i = 0"; cases "find (\<lambda>t. t_id t = i) (tokens s)")
    (auto simp: PreConsumeTokenQuota_def GetTokenById_def GetUserQuota_def DecreaseTokenQuota_def
      decreaseTokenQuota_def DecreaseUserQuota_def decreaseUserQuota_def remind_quota_def Let_def split: if_splits)

lemma PostConsume_state:
  assumes "\<not> BatchUpdateEnabled cfg" and "db_faults s = []"
  shows "db_faults (snd (PostConsumeTokenQuota cfg now i q s)) = [] \<and>
    redis_enabled (snd (PostConsumeTokenQuota cfg now i q s)) = redis_enabled s"
  using assms
  by (cases "i = 0"; cases "find (\<lambda>t. t_id t = i) (tokens s)")
    (auto simp: PostConsumeTokenQuota_def GetTokenById_def Let_def
      DecreaseTokenQuota_def decreaseTokenQuota_def DecreaseUserQuota_def decreaseUserQuota_def
      IncreaseTokenQuota_def increaseTokenQuota_def IncreaseUserQuota_def increaseUserQuota_def
      split: if_splits)

lemma served_PreConsume:
  assumes "served E i tok s" and "PreConsumeTokenQuota (e_cfg E) now i q s = (None, s')"
  shows "pays i tok q s s'" and "\<exists>tok'. served E i tok' s' \<and> t_user_id tok' = t_user_id tok \<and>
    t_unlimited_quota tok' = t_unlimited_quota tok"
proof -
  have d: "\<not> BatchUpdateEnabled (e_cfg E)" and f: "db_faults s = []" and k: "\<not> redis_enabled s"
    and row: "token_row i s = Some tok" and u: "find (\<lambda>u. u_id u = t_user_id tok) (users s) \<noteq> None"
    using assms(1) by (simp_all add: served_def)
  have c: "charged now i q tok s s'" using PreConsume_cases [OF d assms(2)] row by auto
  note acc = charged_accounts [OF c row u]
  show "pays i tok q s s'" using acc(1,2) by (simp add: pays_def)
  obtain tok' where t: "token_row i s' = Some tok'" "t_user_id tok' = t_user_id tok"
      "t_unlimited_quota tok' = t_unlimited_quota tok" using acc(3) by blast
  with acc(4) PreConsume_state [OF d f assms(2)] d k
  have "served E i tok' s'" by (simp add: served_def)
  with t show "\<exists>tok'. served E i tok' s' \<and> t_user_id tok' = t_user_id tok \<and>
    t_unlimited_quota tok' = t_unlimited_quota tok" by blast
qed

lemma pays_token: "t_user_id tok' = t_user_id tok \<Longrightarrow> t_unlimited_quota tok' = t_unlimited_quota tok \<Longrightarrow>
    pays i tok' q s s' = pays i tok q s s'"
  by (simp add: pays_def)

lemma served_PostConsume:
  assumes "served E i tok s" and "int64 q" and "int64 (- q)"
  shows "pays i tok q s (snd (PostConsumeTokenQuota (e_cfg E) now i q s))"
proof -
  have d: "\<not> BatchUpdateEnabled (e_cfg E)" and f: "db_faults s = []"
    and row: "token_row i s = Some tok" and u: "find (\<lambda>u. u_id u = t_user_id tok) (users s) \<noteq> None"
    using assms(1) by (simp_all add: served_def)
  from PostConsume_direct [OF d f row assms(2,3)]
  have c: "charged now i q tok s (snd (PostConsumeTokenQuota (e_cfg E) now i q s))" by blast
  show ?thesis using charged_accounts(1,2) [OF c row u] by (simp add: pays_def)
qed

section \<open>The relay of a text request\<close>

text \<open>What the relay has read when it looks the price up.\<close>

definition reads_text :: "env \<Rightarrow> request \<Rightarrow> ctx \<Rightarrow> Meta \<Rightarrow> GeneralOpenAIRequest \<Rightarrow> bool \<Rightarrow> int \<Rightarrow> bool" where
  "reads_text E rq g m q reset n \<longleftrightarrow>
     (case GetByContext (e_now E) rq g of
        None \<Rightarrow> False
      | Some m0 \<Rightarrow>
          (case getAndValidateTextRequest E rq (m_Mode m0) of
             Inl e \<Rightarrow> False
           | Inr q0 \<Rightarrow>
               (case prepare_text m0 q0 of
                  (m1, q1, reset1) \<Rightarrow> q = q1 \<and> reset = reset1 \<and> m = m1\<lparr>m_PromptTokens := n\<rparr> \<and>
                    getPromptTokens E q1 (m_Mode m1) = Some n)))"

definition estimate :: "env \<Rightarrow> Meta \<Rightarrow> GeneralOpenAIRequest \<Rightarrow> int" where
  "estimate E m q = getPreConsumedQuota (e_cfg E) q (m_PromptTokens m) (request_ratio E m (Model q))"

lemma RelayTextHelper_reads:
  assumes "reads_text E rq g m q reset n"
  shows "RelayTextHelper E rq g s =
    (case take_estimate E (m_UserId m) (m_TokenId m) (estimate E m q) s of
       ((pre, Some e), s) \<Rightarrow> ((Returned (Some e), id), s)
     | ((pre, None), s) \<Rightarrow> (send_text E m q reset pre, s))"
  using assms
  by (auto simp: reads_text_def RelayTextHelper_def preConsumeQuota_def estimate_def Let_def request_ratio_def
      split: option.splits sum.splits prod.splits)

lemma reads_text_ids: "reads_text E rq g m q reset n \<Longrightarrow> m_TokenId m = g_token_id g \<and> m_UserId m = g_id g"
  by (auto simp: reads_text_def prepare_text_def GetByContext_def Let_def split: option.splits sum.splits prod.splits)

lemma take_estimate_direct:
  assumes "\<not> redis_enabled s" and "db_faults s = []" and "take_estimate E uid i est s = ((pre, r), s')"
  shows "(r \<noteq> None \<or> pre = 0 \<longrightarrow> s' = s \<or> 0 < pre) \<and>
    (r = None \<longrightarrow> pre = 0 \<and> s' = s \<or> pre < 0 \<and> pre = est \<and> s' = s \<or>
      0 < pre \<and> pre = est \<and> PreConsumeTokenQuota (e_cfg E) (e_now E) i est s = (None, s'))"
  using assms
  by (auto simp: take_estimate_def CacheGetUserQuota_def CacheDecreaseUserQuota_def GetUserQuota_def Let_def
      split: if_splits prod.splits option.splits)

text \<open>A refused estimate takes nothing.\<close>

lemma take_estimate_refused:
  assumes "served E i tok s" and "take_estimate E uid i est s = ((pre, Some e), s')"
  shows "s' = s"
proof -
  have d: "\<not> BatchUpdateEnabled (e_cfg E)" and f: "db_faults s = []" and k: "\<not> redis_enabled s"
    using assms(1) by (simp_all add: served_def)
  show ?thesis
    using assms(2) f k PreConsume_state [OF d f]
    by (auto simp: take_estimate_def CacheGetUserQuota_def CacheDecreaseUserQuota_def GetUserQuota_def Let_def
        split: if_splits prod.splits option.splits)
qed

lemma take_estimate_taken:
  assumes "served E i tok s" and "take_estimate E uid i est s = ((pre, None), s')" and "0 \<le> est"
  shows "pays i tok pre s s' \<and> (pre = 0 \<or> pre = est) \<and> (\<exists>tok'. served E i tok' s' \<and>
    t_user_id tok' = t_user_id tok \<and> t_unlimited_quota tok' = t_unlimited_quota tok)"
proof -
  have "\<not> redis_enabled s" "db_faults s = []" using assms(1) by (simp_all add: served_def)
  from take_estimate_direct [OF this assms(2)] assms(3)
  consider "pre = 0" "s' = s" | "pre = est" "PreConsumeTokenQuota (e_cfg E) (e_now E) i pre s = (None, s')"
    by auto
  then show ?thesis
  proof cases
    case 1
    then show ?thesis using assms(1) by auto
  next
    case 2
    then show ?thesis using served_PreConsume [OF assms(1)] by blast
  qed
qed

lemma RecordLog_tables:
  "tokens (RecordConsumeLog cfg rid now l s) = tokens s" "users (RecordConsumeLog cfg rid now l s) = users s"
  "db_faults s = [] \<Longrightarrow> db_faults (RecordConsumeLog cfg rid now l s) = []"
  by (auto simp: RecordConsumeLog_def recordLogHelper_def GetUsernameById_def db_exec_def db_find_def
      split: prod.splits list.splits option.splits)

lemma used_counts:
  "tokens (UpdateUserUsedQuotaAndRequestCount cfg uid q s) = tokens s"
  "quota_of v (UpdateUserUsedQuotaAndRequestCount cfg uid q s) = quota_of v s"
  "tokens (UpdateChannelUsedQuota cfg cid q s) = tokens s"
  "users (UpdateChannelUsedQuota cfg cid q s) = users s"
  by (auto simp: UpdateUserUsedQuotaAndRequestCount_def updateUserUsedQuotaAndRequestCount_def UpdateChannelUsedQuota_def
      updateChannelUsedQuota_def addNewRecord_def db_exec_def user_column_def find_bump add_defs Let_def
      split: list.splits option.splits)

lemma quota_of_logged [simp]:
  "quota_of v (RecordConsumeLog cfg rid now l s) = quota_of v s"
  "quota_of v (UpdateChannelUsedQuota cfg cid q s) = quota_of v s"
  by (simp_all add: user_column_def RecordLog_tables used_counts)

lemma postConsumeQuota_pays:
  assumes "served E i tok s" and "m_TokenId m = i"
    and "quota = text_quota (GetCompletionRatio (e_ratios E) (Model q) (m_ChannelType m)) ratio u"
    and "0 \<le> pre" and "pre < 2 ^ 63"
  shows "pays i tok (quota - pre) s (postConsumeQuota E (Some u) m q ratio pre mr gr reset s)"
proof -
  note qr = text_quota_range [of "GetCompletionRatio (e_ratios E) (Model q) (m_ChannelType m)" ratio u]
  have i: "int64 (quota - pre)" "int64 (- (quota - pre))" using qr assms(3-5) by (auto simp: int64_def)
  have k: "\<not> redis_enabled s" and d: "\<not> BatchUpdateEnabled (e_cfg E)" and f: "db_faults s = []"
    using assms(1) by (simp_all add: served_def)
  let ?s1 = "snd (PostConsumeTokenQuota (e_cfg E) (e_later E) i (quota - pre) s)"
  have p: "pays i tok (quota - pre) s ?s1" using served_PostConsume [OF assms(1) i] .
  have c: "snd (CacheUpdateUserQuota (e_cfg E) (e_later E) (m_UserId m) ?s1) = ?s1"
    using PostConsume_state [OF d f] k by (simp add: CacheUpdateUserQuota_def)
  have "quota_of v (postConsumeQuota E (Some u) m q ratio pre mr gr reset s) = quota_of v ?s1"
    and "tokens (postConsumeQuota E (Some u) m q ratio pre mr gr reset s) = tokens ?s1" for v
    using i(1) by (simp_all add: postConsumeQuota_def Let_def assms(2) c used_counts RecordLog_tables
        flip: assms(3))
  with p show ?thesis by (simp add: pays_def remain_of_def)
qed

lemma send_text_None:
  assumes "send_text E m q reset pre = (Returned None, job)"
  shows "\<exists>a b resp usage. GetAdaptor (m_APIType m) = Some a \<and> getRequestBody E m q (e_ops E a) = Inr b \<and>
    op_DoRequest (e_ops E a) m b = Inr resp \<and> \<not> isErrorHappened m resp \<and> op_DoResponse (e_ops E a) m resp = Inr usage \<and>
    job = postConsumeQuota E usage m q (request_ratio E m (Model q)) pre
      (GetModelRatio (e_ratios E) (Model q) (m_ChannelType m)) (GetGroupRatio (e_ratios E) (m_Group m)) reset"
  using assms by (auto simp: send_text_def split: option.splits sum.splits if_splits)

lemma estimate_below: "estimate E m q < 2 ^ 63"
  using int64_of_f64_int64 by (auto simp: estimate_def getPreConsumedQuota_def Let_def int64_def)

text \<open>The cost of a request with this usage.\<close>

definition text_cost :: "env \<Rightarrow> Meta \<Rightarrow> GeneralOpenAIRequest \<Rightarrow> Usage \<Rightarrow> int" where
  "text_cost E m q u =
     text_quota (GetCompletionRatio (e_ratios E) (Model q) (m_ChannelType m)) (request_ratio E m (Model q)) u"

text \<open>What the settlement of an answered request does, by what the adaptor reported: the cost of a usage is paid in all;
  without a usage the estimate stays taken.\<close>

lemma text_answered:
  assumes "served E (g_token_id g) tok s" and "reads_text E rq g m q reset n" and "0 \<le> estimate E m q"
    and "RelayTextHelper E rq g s = ((Returned None, job), s1)"
  shows "\<exists>a b resp usage pre. GetAdaptor (m_APIType m) = Some a \<and> op_DoRequest (e_ops E a) m b = Inr resp \<and>
    \<not> isErrorHappened m resp \<and> op_DoResponse (e_ops E a) m resp = Inr usage \<and>
    take_estimate E (g_id g) (g_token_id g) (estimate E m q) s = ((pre, None), s1) \<and> (pre = 0 \<or> pre = estimate E m q) \<and>
    pays (g_token_id g) tok (case usage of Some u \<Rightarrow> text_cost E m q u | None \<Rightarrow> pre) s (job s1)"
proof -
  let ?i = "g_token_id g"
  have ids: "m_TokenId m = ?i" "m_UserId m = g_id g" using reads_text_ids [OF assms(2)] by simp_all
  obtain pre where est: "take_estimate E (g_id g) ?i (estimate E m q) s = ((pre, None), s1)"
    and send: "send_text E m q reset pre = (Returned None, job)"
    using assms(4) unfolding RelayTextHelper_reads [OF assms(2)] ids
    by (auto split: prod.splits option.splits)
  obtain tok' where pre: "pays ?i tok pre s s1" "pre = 0 \<or> pre = estimate E m q"
    and tok': "served E ?i tok' s1" "t_user_id tok' = t_user_id tok" "t_unlimited_quota tok' = t_unlimited_quota tok"
    using take_estimate_taken [OF assms(1) est assms(3)] by blast
  have range: "0 \<le> pre" "pre < 2 ^ 63" using pre(2) assms(3) estimate_below [of E m q] by auto
  obtain a b resp usage where a: "GetAdaptor (m_APIType m) = Some a" "op_DoRequest (e_ops E a) m b = Inr resp"
      "\<not> isErrorHappened m resp" "op_DoResponse (e_ops E a) m resp = Inr usage"
    and job: "job = postConsumeQuota E usage m q (request_ratio E m (Model q)) pre
      (GetModelRatio (e_ratios E) (Model q) (m_ChannelType m)) (GetGroupRatio (e_ratios E) (m_Group m)) reset"
    using send_text_None [OF send] by blast
  have "pays ?i tok (case usage of Some u \<Rightarrow> text_cost E m q u | None \<Rightarrow> pre) s (job s1)"
  proof (cases usage)
    case None
    then have "job s1 = s1" by (simp add: job postConsumeQuota_def)
    then show ?thesis using pre(1) None by simp
  next
    case (Some u)
    have "pays ?i tok' (text_cost E m q u - pre) s1 (job s1)"
      unfolding job Some by (intro postConsumeQuota_pays tok'(1) ids(1) range) (simp add: text_cost_def)
    then have "pays ?i tok (text_cost E m q u - pre) s1 (job s1)" using pays_token [OF tok'(2,3)] by simp
    from pays_trans [OF pre(1) this] show ?thesis using Some by simp
  qed
  then show ?thesis using a est pre(2) by blast
qed


text \<open>C19: A text request that the upstream service refused, or whose answer could not be used, costs
  nothing: when the goroutine that gives the estimate back has run, every account and the token are as
  they were before. The same holds for a request whose estimate was refused.\<close>

theorem text_refund:
  assumes "served E (g_token_id g) tok s" and "reads_text E rq g m q reset n" and "0 \<le> estimate E m q"
    and "GetAdaptor (m_APIType m) = Some a" and "getRequestBody E m q (e_ops E a) = Inr b"
    and "op_DoRequest (e_ops E a) m b = Inr resp"
    and "RelayTextHelper E rq g s = ((Returned (Some e), job), s1)"
  shows "(\<forall>v. quota_of v (job s1) = quota_of v s) \<and> remain_of (g_token_id g) (job s1) = remain_of (g_token_id g) s"
proof -
  let ?i = "g_token_id g"
  have ids: "m_TokenId m = ?i" "m_UserId m = g_id g" using reads_text_ids [OF assms(2)] by simp_all
  have "pays ?i tok 0 s (job s1)"
  proof (cases "\<exists>pre e'. take_estimate E (g_id g) ?i (estimate E m q) s = ((pre, Some e'), s1) \<and> job = id")
    case True
    then show ?thesis using take_estimate_refused [OF assms(1)] by force
  next
    case False
    then obtain pre where est: "take_estimate E (g_id g) ?i (estimate E m q) s = ((pre, None), s1)"
      and send: "send_text E m q reset pre = (Returned (Some e), job)"
      using assms(7) unfolding RelayTextHelper_reads [OF assms(2)] ids
      by (auto split: prod.splits option.splits)
    obtain tok' where pre: "pays ?i tok pre s s1" "pre = 0 \<or> pre = estimate E m q"
      and tok': "served E ?i tok' s1" "t_user_id tok' = t_user_id tok" "t_unlimited_quota tok' = t_unlimited_quota tok"
      using take_estimate_taken [OF assms(1) est assms(3)] by blast
    have range: "int64 (- pre)" "int64 (- (- pre))"
      using pre(2) assms(3) estimate_below [of E m q] by (auto simp: int64_def)
    have job: "job = ReturnPreConsumedQuota E pre ?i"
      using send assms(4-6) ids by (auto simp: send_text_def split: if_splits sum.splits)
    show ?thesis
    proof (cases "pre = 0")
      case True
      then show ?thesis using pre(1) by (simp add: job ReturnPreConsumedQuota_def)
    next
      case False
      have "pays ?i tok' (- pre) s1 (job s1)"
        using served_PostConsume [OF tok'(1) range] range(1) False by (simp add: job ReturnPreConsumedQuota_def)
      then have "pays ?i tok (- pre) s1 (job s1)" using pays_token [OF tok'(2,3)] by simp
      from pays_trans [OF pre(1) this] show ?thesis by simp
    qed
  qed
  then show ?thesis by (auto simp: pays_def)
qed

text \<open>When the request cannot be converted, or the upstream service cannot be reached, the estimate
  is lost. No goroutine gives it back: whenever the account has no more than a hundred times the
  estimate, it and a limited token have paid the whole estimate for nothing.\<close>

theorem text_estimate_lost:
  assumes "served E (g_token_id g) tok s" and "reads_text E rq g m q reset n" and "0 < estimate E m q"
    and "GetAdaptor (m_APIType m) = Some a"
    and "(\<exists>err. getRequestBody E m q (e_ops E a) = Inl err) \<or>
      (\<exists>b err. getRequestBody E m q (e_ops E a) = Inr b \<and> op_DoRequest (e_ops E a) m b = Inl err)"
    and "take_estimate E (g_id g) (g_token_id g) (estimate E m q) s = ((estimate E m q, None), s1)"
  shows "\<exists>e job s1. RelayTextHelper E rq g s = ((Returned (Some e), job), s1) \<and>
    (\<forall>v. quota_of v (job s1) = (if v = t_user_id tok then quota_of v s - estimate E m q else quota_of v s)) \<and>
    remain_of (g_token_id g) (job s1) =
      remain_of (g_token_id g) s - (if t_unlimited_quota tok then 0 else estimate E m q)"
proof -
  have ids: "m_TokenId m = g_token_id g" "m_UserId m = g_id g" using reads_text_ids [OF assms(2)] by simp_all
  obtain e where send: "send_text E m q reset (estimate E m q) = (Returned (Some e), id)"
    using assms(4,5) by (auto simp: send_text_def)
  have "RelayTextHelper E rq g s = ((Returned (Some e), id), s1)"
    unfolding RelayTextHelper_reads [OF assms(2)] ids by (simp add: assms(6) send)
  moreover have "pays (g_token_id g) tok (estimate E m q) s s1"
    using take_estimate_taken [OF assms(1,6)] assms(3) by simp
  ultimately show ?thesis by (auto simp: pays_def)
qed

section \<open>An example\<close>

lemma f64_times_1:
  assumes "\<bar>i\<bar> \<le> 2 ^ 53"
  shows "f64_of_int i * F64 1 = f64_of_int i"
  using rnd_exact [OF assms] by (simp add: f64_of_int_def times_f64_def)

lemma one_times_one: "F64 1 * F64 1 = F64 1"
  using rnd_exact [of 1] by (simp add: times_f64_def)

definition lab_ratios :: ratios where
  "lab_ratios = \<lparr>ModelRatio = [''m(1)'' \<mapsto> F64 1], CompletionRatio = [''m(1)'' \<mapsto> F64 1], GroupRatio = [''default'' \<mapsto> F64 1]\<rparr>"

definition lab_request :: GeneralOpenAIRequest where
  "lab_request = \<lparr>Messages = [], Model = ''m'', StoreFlag = None, ReasoningEffort = None, Metadata = JNull,
     FrequencyPenalty = None, LogitBias = JNull, Logprobs = None, TopLogprobs = None, MaxTokens = 0,
     MaxCompletionTokens = None, N_choices = 0, Modalities = [], Prediction = JNull, Audio = None,
     PresencePenalty = None, Response_Format = None, Seed = 0, ServiceTier = None, Stop = JNull, Stream = False,
     IncludeUsage = None, Temperature = None, TopP = None, TopK = 0, Tools = [], ToolChoice = JNull,
     ParallelTooCalls = None, User = '''', FunctionCall = JNull, Functions = JNull, Input = JStr ''hi'',
     EncodingFormat = '''', Dimensions = 0, Prompt = JNull, Quality = None, Size = '''', Style = None,
     Instruction = '''', NumCtx = 0\<rparr>"

definition lab_response :: "int \<Rightarrow> response" where
  "lab_response code = \<lparr>rp_StatusCode = code, rp_ContentType = '''', rp_Body = Inr '''', rp_Close = None\<rparr>"

definition lab_env :: "(string + response option) \<Rightarrow> env" where
  "lab_env upstream = \<lparr>e_cfg = direct_cfg, e_ratios = lab_ratios,
     e_ops = (\<lambda>_. \<lparr>op_ConvertRequest = (\<lambda>_ _. Inr ''''), op_ConvertImageRequest = (\<lambda>_ _. Inr ''''),
       op_DoRequest = (\<lambda>_ _. upstream),
       op_DoResponse = (\<lambda>_ _. Inr (Some \<lparr>PromptTokens = 10, CompletionTokens = 0, TotalTokens = 10\<rparr>))\<rparr>),
     e_encoding = (\<lambda>_. Some length), e_known = (\<lambda>_. False), e_image_size = (\<lambda>_. Inr (0, 0)),
     e_unmarshal_error = (\<lambda>_. None), e_text = Inr lab_request, e_image = Inl '''', e_speech = Inl '''',
     e_body = Inr '''', e_response_format = ''json'', e_new_request = (\<lambda>_. None), e_http = (\<lambda>_ _. Inl ''''),
     e_slim_error = (\<lambda>_. None), e_show_code = (\<lambda>_. ''''), e_whisper = Some, e_whisper_verbose = Some,
     e_write = None, e_request_id = '''', e_now = 5, e_later = 6, e_elapsed = 0\<rparr>"

definition lab_rq :: request where
  "lab_rq = one_key\<lparr>q_path := ''/v1/embeddings''\<rparr>"

definition lab_ctx :: ctx where
  "lab_ctx = (empty_ctx lab_rq)\<lparr>g_id := 1, g_token_id := 7, g_group := ''default'', g_channel := 1, g_base_url := ''u''\<rparr>"

definition lab_token :: token where
  "lab_token = zero_token\<lparr>t_id := 7, t_user_id := 1, t_unlimited_quota := True\<rparr>"

definition lab :: st where
  "lab = empty_st\<lparr>users := [ann], tokens := [lab_token]\<rparr>"

lemma lab_simps [simp]: "e_cfg (lab_env r) = direct_cfg" "g_token_id lab_ctx = 7" "t_user_id lab_token = 1"
    "g_id lab_ctx = 1" "redis_enabled lab = False" "db_faults lab = []"
  by (simp_all add: lab_env_def lab_ctx_def empty_ctx_def lab_token_def lab_def empty_st_def)

lemma lab_served: "served (lab_env r) 7 lab_token lab"
  by (simp add: served_def token_row_def lab_def lab_token_def empty_st_def)

definition lab_meta :: Meta where
  "lab_meta = (the (GetByContext 5 lab_rq lab_ctx))\<lparr>m_ActualModelName := ''m'', m_OriginModelName := ''m''\<rparr>"

lemma lab_GetByContext: "GetByContext 5 lab_rq lab_ctx = Some (the (GetByContext 5 lab_rq lab_ctx))"
  by (simp add: GetByContext_def lab_ctx_def)

lemma lab_meta_simps [simp]: "m_Mode lab_meta = 3" "m_ChannelType lab_meta = 1" "m_APIType lab_meta = 0"
    "m_ModelMapping lab_meta = None" "m_ForcedSystemPrompt lab_meta = ''''" "m_Group lab_meta = ''default''"
    "m_OriginModelName lab_meta = ''m''" "m_ActualModelName lab_meta = ''m''" "m_IsStream lab_meta = False"
    "m_PromptTokens lab_meta = 0" "m_TokenId lab_meta = 7" "m_UserId lab_meta = 1"
  by (simp_all add: lab_meta_def GetByContext_def lab_ctx_def lab_rq_def one_key_def empty_ctx_def GetByPath_def
      HasPrefix_def ToAPIType_def)

lemma lab_reads: "reads_text (lab_env r) lab_rq lab_ctx lab_meta lab_request False 0"
proof -
  obtain m0 where m0: "GetByContext 5 lab_rq lab_ctx = Some m0" using lab_GetByContext by blast
  then have m: "lab_meta = m0\<lparr>m_ActualModelName := ''m'', m_OriginModelName := ''m''\<rparr>" by (simp add: lab_meta_def)
  have f: "m_Mode m0 = 3" "m_ModelMapping m0 = None" "m_ForcedSystemPrompt m0 = ''''" "m_IsStream m0 = False" "m_PromptTokens m0 = 0"
    using lab_meta_simps unfolding m by simp_all
  show ?thesis
    using f by (simp add: reads_text_def lab_env_def m0 getAndValidateTextRequest_def lab_request_def ValidateTextRequest_def
        prepare_text_def getMappedModelName_def setSystemPrompt_def getPromptTokens_def m)
qed

lemma lab_request_simps [simp]: "Model lab_request = ''m''" "MaxTokens lab_request = 0"
  by (simp_all add: lab_request_def)

lemma lab_m1: "channel_model ''m'' 1 = ''m(1)''"
  by code_simp

lemma lab_price: "request_ratio (lab_env r) lab_meta ''m'' = F64 1"
  "GetCompletionRatio (e_ratios (lab_env r)) ''m'' 1 = F64 1"
  by (simp_all add: request_ratio_def GetModelRatio_def GetCompletionRatio_def internet_name_def HasPrefix_def lab_m1
      GetGroupRatio_def lab_env_def lab_ratios_def one_times_one)

lemma lab_estimate: "estimate (lab_env r) lab_meta lab_request = 500"
proof -
  have "PreConsumedQuota direct_cfg = 500" by (simp add: direct_cfg_def init_config_def)
  then show ?thesis
    using int64_of_f64_of_int [of 500]
    by (simp add: estimate_def getPreConsumedQuota_def lab_price f64_times_1 int64_def)
qed

lemma lab_taken: "\<exists>s1. take_estimate (lab_env r) 1 7 500 lab = ((500, None), s1)"
  by (simp add: take_estimate_def CacheGetUserQuota_def CacheDecreaseUserQuota_def GetUserQuota_def user_column_def
      PreConsumeTokenQuota_def GetTokenById_def lab_def empty_st_def lab_token_def zero_token_def ann_def zero_user_def
      remind_quota_def DecreaseUserQuota_def decreaseUserQuota_def Let_def int64_def)

lemma lab_adaptor: "GetAdaptor 0 = Some OpenAIAdaptor"
  by (simp add: GetAdaptor_def)

lemma lab_body: "getRequestBody (lab_env r) lab_meta lab_request ops = Inr RawBody"
  by (simp add: getRequestBody_def direct_cfg_def init_config_def env_Bool_def)

lemma lab_run:
  obtains s1 where "take_estimate (lab_env r) 1 7 500 lab = ((500, None), s1)"
    and "RelayTextHelper (lab_env r) lab_rq lab_ctx lab = (send_text (lab_env r) lab_meta lab_request False 500, s1)"
  using lab_taken [of r] by (auto simp: RelayTextHelper_reads [OF lab_reads] lab_estimate)

lemma lab_cost: "text_cost (lab_env r) lab_meta lab_request \<lparr>PromptTokens = 10, CompletionTokens = 0, TotalTokens = 10\<rparr> = 10"
proof -
  have "f64_of_int 10 = F64 10" "f64_of_int 0 = F64 0" using rnd_exact [of 10] by (simp_all add: f64_of_int_def)
  moreover have "F64 10 + F64 0 * F64 1 = F64 10" "F64 10 * F64 1 = F64 10"
    using rnd_exact [of 10] by (simp_all add: f64_defs)
  ultimately show ?thesis
    by (simp add: text_cost_def lab_price text_quota_def ceil64_def int64_of_f64_def trunc_rat_def int64_def)
qed

lemma lab_upstream: "op_DoRequest (e_ops (lab_env r) a) m b = r"
    "op_DoResponse (e_ops (lab_env r) a) m resp = Inr (Some \<lparr>PromptTokens = 10, CompletionTokens = 0, TotalTokens = 10\<rparr>)"
  by (simp_all add: lab_env_def)

lemma lab_accepted: "isErrorHappened lab_meta (Some (lab_response n)) \<longleftrightarrow> n \<noteq> 200 \<and> n \<noteq> 201"
  by (simp add: isErrorHappened_def lab_response_def)


theorem text_refund_witness:
  "\<exists>e job s1. RelayTextHelper (lab_env (Inr (Some (lab_response 500)))) lab_rq lab_ctx lab = ((Returned (Some e), job), s1) \<and>
    quota_of 1 (job s1) = 1000"
proof -
  let ?E = "lab_env (Inr (Some (lab_response 500)))"
  obtain s1 where run: "RelayTextHelper ?E lab_rq lab_ctx lab = (send_text ?E lab_meta lab_request False 500, s1)"
    by (rule lab_run)
  obtain e job where send: "send_text ?E lab_meta lab_request False 500 = (Returned (Some e), job)"
    by (simp add: send_text_def lab_adaptor lab_body lab_upstream lab_accepted)
  have q: "quota_of 1 lab = 1000" by (simp add: user_column_def lab_def ann_def)
  from run send have r: "RelayTextHelper ?E lab_rq lab_ctx lab = ((Returned (Some e), job), s1)" by simp
  have "served ?E (g_token_id lab_ctx) lab_token lab" "0 \<le> estimate ?E lab_meta lab_request"
      "GetAdaptor (m_APIType lab_meta) = Some OpenAIAdaptor"
    using lab_served [of "Inr (Some (lab_response 500))"] by (simp_all add: lab_estimate lab_adaptor)
  from text_refund [OF this(1) lab_reads this(2,3) lab_body lab_upstream(1) r] q r show ?thesis by auto
qed

theorem text_estimate_lost_witness:
  "\<exists>e job s1. RelayTextHelper (lab_env (Inl ''no route'')) lab_rq lab_ctx lab = ((Returned (Some e), job), s1) \<and>
    quota_of 1 (job s1) = 500"
proof -
  let ?E = "lab_env (Inl ''no route'')"
  obtain s1 where taken: "take_estimate ?E 1 7 500 lab = ((500, None), s1)" by (rule lab_run)
  have q: "quota_of 1 lab = 1000" by (simp add: user_column_def lab_def ann_def)
  have down: "(\<exists>err. getRequestBody ?E lab_meta lab_request (e_ops ?E OpenAIAdaptor) = Inl err) \<or>
      (\<exists>b err. getRequestBody ?E lab_meta lab_request (e_ops ?E OpenAIAdaptor) = Inr b \<and>
        op_DoRequest (e_ops ?E OpenAIAdaptor) lab_meta b = Inl err)"
    by (simp add: lab_body lab_upstream)
  have "served ?E (g_token_id lab_ctx) lab_token lab" "0 < estimate ?E lab_meta lab_request"
      "GetAdaptor (m_APIType lab_meta) = Some OpenAIAdaptor"
      "take_estimate ?E (g_id lab_ctx) (g_token_id lab_ctx) (estimate ?E lab_meta lab_request) lab =
        ((estimate ?E lab_meta lab_request, None), s1)"
    using lab_served [of "Inl ''no route''"] taken by (simp_all add: lab_estimate lab_adaptor)
  from text_estimate_lost [OF this(1) lab_reads this(2,3) down this(4)] show ?thesis
    by (auto simp: lab_estimate q)
qed

end
