(* ===== verification/Media.thy ===== *)
theory Media
  imports RelayLaws
begin

text \<open>
  The relay of images, audio and raw requests: \<^verbatim>\<open>relay/controller/image.go\<close>, \<^verbatim>\<open>audio.go\<close>, \<^verbatim>\<open>proxy.go\<close> and
  \<open>GetFullRequestURL\<close> of \<^verbatim>\<open>relay/adaptor/openai/helper.go\<close>.
\<close>

section \<open>Images\<close>

definition getImageRequest :: "env \<Rightarrow> string + ImageRequest" where
  "getImageRequest E =
     (case e_image E of
        Inl e \<Rightarrow> Inl e
      | Inr r \<Rightarrow>
          (let r = (if im_N r = 0 then r\<lparr>im_N := 1\<rparr> else r);
               r = (if im_Size r = '''' then r\<lparr>im_Size := ''1024x1024''\<rparr> else r);
               r = (if im_Model r = '''' then r\<lparr>im_Model := ''dall-e-2''\<rparr> else r)
           in Inr r))"

definition isValidImageSize :: "string \<Rightarrow> string \<Rightarrow> bool" where
  "isValidImageSize model sz =
     (if model = ''cogview-3'' then True
      else case map_of ImageSizeRatios model of None \<Rightarrow> True | Some sizes \<Rightarrow> map_of sizes sz \<noteq> None)"

definition isValidImagePromptLength :: "string \<Rightarrow> int \<Rightarrow> bool" where
  "isValidImagePromptLength model promptLength =
     (case map_of ImagePromptLengthLimitations model of None \<Rightarrow> True | Some n \<Rightarrow> promptLength \<le> n)"

definition isWithinRange :: "string \<Rightarrow> int \<Rightarrow> bool" where
  "isWithinRange element n =
     (case map_of ImageGenerationAmounts element of None \<Rightarrow> True | Some (lo, hi) \<Rightarrow> lo \<le> n \<and> n \<le> hi)"

definition getImageSizeRatio :: "string \<Rightarrow> string \<Rightarrow> f64" where
  "getImageSizeRatio model sz =
     (case map_of ImageSizeRatios model of
        None \<Rightarrow> f64_const 1
      | Some sizes \<Rightarrow> (case map_of sizes sz of None \<Rightarrow> f64_const 1 | Some r \<Rightarrow> f64_const r))"

definition validateImageRequest :: "ImageRequest \<Rightarrow> status_error option" where
  "validateImageRequest r =
     (if im_Prompt r = '''' then Some (ErrorWrapper ''prompt is required'' ''prompt_missing'' 400)
      else if \<not> isValidImageSize (im_Model r) (im_Size r)
      then Some (ErrorWrapper ''size not supported for this image model'' ''size_not_supported'' 400)
      else if \<not> isValidImagePromptLength (im_Model r) (int (length (im_Prompt r)))
      then Some (ErrorWrapper ''prompt is too long'' ''prompt_too_long'' 400)
      else if \<not> isWithinRange (im_Model r) (im_N r)
      then Some (ErrorWrapper ''invalid value of n'' ''n_not_within_range'' 400)
      else None)"

definition getImageCostRatio :: "ImageRequest \<Rightarrow> f64" where
  "getImageCostRatio r =
     (let ratio = getImageSizeRatio (im_Model r) (im_Size r)
      in if im_Quality r = ''hd'' \<and> im_Model r = ''dall-e-3'' then
           (if im_Size r = ''1024x1024'' then ratio * f64_const 2 else ratio * f64_const 1.5)
         else ratio)"

text \<open>What an image request costs; Replicate always makes one image.\<close>

definition image_quota :: "int \<Rightarrow> f64 \<Rightarrow> f64 \<Rightarrow> int \<Rightarrow> int" where
  "image_quota channelType ratio imageCostRatio n =
     (let one = int64_of_f64 (ratio * imageCostRatio * f64_of_int 1000)
      in if channelType = ct_Replicate then one else wrap64 (one * n))"

definition needs_image_conversion :: "int \<Rightarrow> bool" where
  "needs_image_conversion channelType = (channelType \<in> {ct_Zhipu, ct_Ali, ct_Replicate, ct_Baidu})"

text \<open>The charge that is made when the handler returns, unless the service refused.\<close>

definition charge_image :: "env \<Rightarrow> Meta \<Rightarrow> string \<Rightarrow> f64 \<Rightarrow> f64 \<Rightarrow> int \<Rightarrow> response option \<Rightarrow> st \<Rightarrow> st" where
  "charge_image E m model modelRatio groupRatio quota resp s =
     (if (case resp of None \<Rightarrow> False | Some r \<Rightarrow> rp_StatusCode r \<noteq> 201 \<and> rp_StatusCode r \<noteq> 200) then s
      else
        (let s = snd (PostConsumeTokenQuota (e_cfg E) (e_later E) (m_TokenId m) quota s);
             s = snd (CacheUpdateUserQuota (e_cfg E) (e_later E) (m_UserId m) s)
         in if quota \<noteq> 0 then
              (let s = RecordConsumeLog (e_cfg E) (e_request_id E) (e_later E) (zero_log\<lparr>l_user_id := m_UserId m,
                     l_channel_id := m_ChannelId m, l_model_name := model, l_token_name := m_TokenName m,
                     l_quota := quota, l_content := log_ratio [modelRatio, groupRatio]\<rparr>) s;
                   s = UpdateUserUsedQuotaAndRequestCount (e_cfg E) (m_UserId m) quota s
               in UpdateChannelUsedQuota (e_cfg E) (m_ChannelId m) quota s)
            else s))"

text \<open>The body for the service: the caller's own, or the request as the relay changed it.\<close>

definition image_body :: "Meta \<Rightarrow> bool \<Rightarrow> ImageRequest \<Rightarrow> adaptor_ops \<Rightarrow> string + body" where
  "image_body m mapped r ops =
     (if needs_image_conversion (m_ChannelType m) then
        (case op_ConvertImageRequest ops m r of Inl e \<Rightarrow> Inl e | Inr json \<Rightarrow> Inr (JsonBody json))
      else if mapped \<or> m_ChannelType m = ct_Azure then Inr (ImageBody r)
      else Inr RawBody)"

definition RelayImageHelper :: "env \<Rightarrow> request \<Rightarrow> ctx \<Rightarrow> st \<Rightarrow> (finish \<times> (st \<Rightarrow> st)) \<times> st" where
  "RelayImageHelper E rq g s =
     (case GetByContext (e_now E) rq g of
        None \<Rightarrow> ((Panicked, id), s)
      | Some m \<Rightarrow>
          (case getImageRequest E of
             Inl e \<Rightarrow> ((Returned (Some (ErrorWrapper e ''invalid_image_request'' 400)), id), s)
           | Inr r \<Rightarrow>
               (let (model, mapped) = getMappedModelName (im_Model r) (m_ModelMapping m);
                    m = m\<lparr>m_OriginModelName := im_Model r, m_ActualModelName := model\<rparr>;
                    r = r\<lparr>im_Model := model\<rparr>
                in case validateImageRequest r of
                     Some bizErr \<Rightarrow> ((Returned (Some bizErr), id), s)
                   | None \<Rightarrow>
                       (let imageCostRatio = getImageCostRatio r;
                            r = r\<lparr>im_Model := fst (getMappedModelName model (Some ImageOriginModelName))\<rparr>
                        in case GetAdaptor (m_APIType m) of
                             None \<Rightarrow> ((Returned (Some (ErrorWrapper (''invalid api type: '' @ Itoa (m_APIType m)) ''invalid_api_type'' 400)), id), s)
                           | Some a \<Rightarrow>
                               (case image_body m mapped r (e_ops E a) of
                                  Inl e \<Rightarrow> ((Returned (Some (ErrorWrapper e ''convert_image_request_failed'' 500)), id), s)
                                | Inr requestBody \<Rightarrow>
                                    (let modelRatio = GetModelRatio (e_ratios E) model (m_ChannelType m);
                                         groupRatio = GetGroupRatio (e_ratios E) (m_Group m);
                                         quota = image_quota (m_ChannelType m) (modelRatio * groupRatio) imageCostRatio (im_N r)
                                     in case CacheGetUserQuota (e_cfg E) (e_now E) (m_UserId m) s of
                                          ((userQuota, _), s) \<Rightarrow>
                                            (if wrap64 (userQuota - quota) < 0
                                             then ((Returned (Some (ErrorWrapper ''user quota is not enough'' ''insufficient_user_quota'' 403)), id), s)
                                             else case op_DoRequest (e_ops E a) m requestBody of
                                               Inl e \<Rightarrow> ((Returned (Some (ErrorWrapper e ''do_request_failed'' 500)), id), s)
                                             | Inr resp \<Rightarrow>
                                                 ((Returned (case op_DoResponse (e_ops E a) m resp of
                                                     Inl respErr \<Rightarrow> Some respErr | Inr _ \<Rightarrow> None), id),
                                                  charge_image E m (im_Model r) modelRatio groupRatio quota resp s))))))))"


section \<open>Raw requests\<close>

definition RelayProxyHelper :: "env \<Rightarrow> request \<Rightarrow> ctx \<Rightarrow> st \<Rightarrow> (finish \<times> (st \<Rightarrow> st)) \<times> st" where
  "RelayProxyHelper E rq g s =
     (case GetByContext (e_now E) rq g of
        None \<Rightarrow> ((Panicked, id), s)
      | Some m \<Rightarrow>
          (case GetAdaptor (m_APIType m) of
             None \<Rightarrow> ((Returned (Some (ErrorWrapper (''invalid api type: '' @ Itoa (m_APIType m)) ''invalid_api_type'' 400)), id), s)
           | Some a \<Rightarrow>
               (case op_DoRequest (e_ops E a) m RawBody of
                  Inl e \<Rightarrow> ((Returned (Some (ErrorWrapper e ''do_request_failed'' 500)), id), s)
                | Inr resp \<Rightarrow>
                    (case op_DoResponse (e_ops E a) m resp of
                       Inl respErr \<Rightarrow> ((Returned (Some respErr), id), s)
                     | Inr _ \<Rightarrow> ((Returned None, id), s)))))"


section \<open>Audio\<close>

definition GetFullRequestURL :: "string \<Rightarrow> string \<Rightarrow> int \<Rightarrow> string" where
  "GetFullRequestURL baseURL requestURL channelType =
     (if channelType = ct_OpenAICompatible then TrimSuffix baseURL ''/'' @ TrimPrefix requestURL ''/v1''
      else if HasPrefix baseURL ''https://gateway.ai.cloudflare.com'' then
        (if channelType = ct_OpenAI then baseURL @ TrimPrefix requestURL ''/v1''
         else if channelType = ct_Azure then baseURL @ TrimPrefix requestURL ''/openai/deployments''
         else baseURL @ requestURL)
      else baseURL @ requestURL)"

text \<open>
  \<open>bufio.Scanner\<close> splits at line feeds and drops a carriage return before them; a line that fills its
  buffer of 65536 bytes is an error.
\<close>

definition drop_cr :: "string \<Rightarrow> string" where
  "drop_cr l = (if l \<noteq> [] \<and> last l = CHR 0x0D then butlast l else l)"

definition scan_lines :: "string \<Rightarrow> string list option" where
  "scan_lines s =
     (let ls = Split (CHR 0x0A) s;
          ls = (if last ls = '''' then butlast ls else ls)
      in if list_ex (\<lambda>l. 65536 \<le> length l) ls then None else Some (map drop_cr ls))"

fun srt_text :: "bool \<Rightarrow> string list \<Rightarrow> string" where
  "srt_text textLine [] = ''''"
| "srt_text textLine (l # ls) =
     (if textLine then l @ srt_text False ls
      else if Contains l ''-->'' then srt_text True ls
      else srt_text False ls)"

definition getTextFromSRT :: "string \<Rightarrow> string + string" where
  "getTextFromSRT body =
     (case scan_lines body of None \<Rightarrow> Inl ''bufio.Scanner: token too long'' | Some ls \<Rightarrow> Inr (srt_text False ls))"

definition getTextFromVTT :: "string \<Rightarrow> string + string" where
  "getTextFromVTT body = getTextFromSRT body"

definition getTextFromText :: "string \<Rightarrow> string + string" where
  "getTextFromText body = Inr (TrimSuffix body [CHR 0x0A])"

text \<open>The two JSON forms are decoded by \<open>json\<close>, which gives the field \<open>text\<close>.\<close>

definition getTextFromJSON :: "(string \<Rightarrow> string option) \<Rightarrow> string \<Rightarrow> string + string" where
  "getTextFromJSON json body =
     (case json body of None \<Rightarrow> Inl ''unmarshal_response_body_failed err '' | Some t \<Rightarrow> Inr t)"

definition getTextFromVerboseJSON :: "(string \<Rightarrow> string option) \<Rightarrow> string \<Rightarrow> string + string" where
  "getTextFromVerboseJSON json body =
     (case json body of None \<Rightarrow> Inl ''unmarshal_response_body_failed err '' | Some t \<Rightarrow> Inr t)"

definition transcript :: "env \<Rightarrow> string \<Rightarrow> status_error + string" where
  "transcript E body =
     (let wrap = (\<lambda>r. case r of Inl e \<Rightarrow> Inl (ErrorWrapper e ''get_text_from_body_err'' 500) | Inr t \<Rightarrow> Inr t)
      in if e_response_format E = ''json'' then wrap (getTextFromJSON (e_whisper E) body)
         else if e_response_format E = ''text'' then wrap (getTextFromText body)
         else if e_response_format E = ''srt'' then wrap (getTextFromSRT body)
         else if e_response_format E = ''verbose_json'' then wrap (getTextFromVerboseJSON (e_whisper_verbose E) body)
         else if e_response_format E = ''vtt'' then wrap (getTextFromVTT body)
         else Inl (ErrorWrapper ''unexpected_response_format'' ''unexpected_response_format'' 500))"

text \<open>
  After the estimate: the call, what comes back, and the goroutine. Closing an in-memory body cannot
  fail; an unknown kind of channel panics when its address is looked up. On every way out but success
  the deferred function gives the estimate back, if it was positive.
\<close>

definition audio_url :: "request \<Rightarrow> ctx \<Rightarrow> Meta \<Rightarrow> int \<Rightarrow> string \<Rightarrow> string option" where
  "audio_url rq g m relayMode model =
     map_option (\<lambda>shipped.
         (let baseURL = (if g_base_url g \<noteq> '''' then g_base_url g else shipped)
          in if g_channel g = ct_Azure \<and> relayMode = mode_AudioTranscription then
               baseURL @ ''/openai/deployments/'' @ model @ ''/audio/transcriptions?api-version='' @ APIVersion (m_Config m)
             else if g_channel g = ct_Azure \<and> relayMode = mode_AudioSpeech then
               baseURL @ ''/openai/deployments/'' @ model @ ''/audio/speech?api-version='' @ APIVersion (m_Config m)
             else GetFullRequestURL baseURL (q_url rq) (g_channel g)))
       (channel_base_url (g_channel g))"

definition audio_auth :: "ctx \<Rightarrow> int \<Rightarrow> auth_header" where
  "audio_auth g relayMode =
     (if (relayMode = mode_AudioTranscription \<or> relayMode = mode_AudioSpeech) \<and> g_channel g = ct_Azure
      then ApiKey (TrimPrefix (g_authorization g) ''Bearer '') else Authorization (g_authorization g))"

text \<open>The quota of a transcription is its number of tokens.\<close>

definition audio_result :: "env \<Rightarrow> int \<Rightarrow> string \<Rightarrow> int \<Rightarrow> response \<Rightarrow> status_error + int" where
  "audio_result E relayMode model quota resp =
     (if relayMode = mode_AudioSpeech then Inr quota
      else case rp_Body resp of
        Inl e \<Rightarrow> Inl (ErrorWrapper e ''read_response_body_failed'' 500)
      | Inr body \<Rightarrow>
          (case rp_Close resp of
             Some e \<Rightarrow> Inl (ErrorWrapper e ''close_response_body_failed'' 500)
           | None \<Rightarrow>
               (case e_slim_error E body of
                  Some err \<Rightarrow>
                    (if er_Message err \<noteq> '''' then Inl (ErrorWrapper (''type '' @ er_Type err @ '', code '' @
                        e_show_code E (er_Code err) @ '', message '' @ er_Message err) ''request_error'' 500)
                     else map_sum id (\<lambda>t. CountTokenText (e_encoding E) (e_known E) (e_cfg E) t model) (transcript E body))
                | None \<Rightarrow> map_sum id (\<lambda>t. CountTokenText (e_encoding E) (e_known E) (e_cfg E) t model) (transcript E body))))"

definition send_audio :: "env \<Rightarrow> request \<Rightarrow> ctx \<Rightarrow> Meta \<Rightarrow> int \<Rightarrow> string \<Rightarrow> f64 \<Rightarrow> f64 \<Rightarrow> int \<Rightarrow> int \<Rightarrow> finish \<times> (st \<Rightarrow> st)" where
  "send_audio E rq g m relayMode audioModel modelRatio groupRatio quota preConsumedQuota =
     (let tokenId = g_token_id g;
          refund = (if 0 < preConsumedQuota
            then (\<lambda>s. snd (PostConsumeTokenQuota (e_cfg E) (e_later E) tokenId (wrap64 (- preConsumedQuota)) s)) else id);
          fail = (\<lambda>e. (Returned (Some e), refund));
          model = fst (getMappedModelName audioModel (g_model_mapping g))
      in case audio_url rq g m relayMode model of
           None \<Rightarrow> (Panicked, refund)
         | Some fullRequestURL \<Rightarrow>
             (case e_body E of
                Inl e \<Rightarrow> fail (ErrorWrapper e ''new_request_body_failed'' 500)
              | Inr _ \<Rightarrow>
                  (case e_new_request E fullRequestURL of
                     Some e \<Rightarrow> fail (ErrorWrapper e ''new_request_failed'' 500)
                   | None \<Rightarrow>
                       (case e_http E fullRequestURL (audio_auth g relayMode) of
                          Inl e \<Rightarrow> fail (ErrorWrapper e ''do_request_failed'' 500)
                        | Inr resp \<Rightarrow>
                            (case audio_result E relayMode model quota resp of
                               Inl e \<Rightarrow> fail e
                             | Inr quota \<Rightarrow>
                                 (if rp_StatusCode resp \<noteq> 200
                                  then fail (RelayErrorHandler (e_unmarshal_error E) (Some resp))
                                  else (Returned (case e_write E of
                                          Some e \<Rightarrow> Some (ErrorWrapper e ''copy_response_body_failed'' 500)
                                        | None \<Rightarrow>
                                            (if relayMode \<noteq> mode_AudioSpeech then None
                                             else map_option (\<lambda>e. ErrorWrapper e ''close_response_body_failed'' 500) (rp_Close resp))),
                                        PostConsumeQuota E tokenId (wrap64 (quota - preConsumedQuota)) quota (g_id g)
                                          (g_channel_id g) modelRatio groupRatio model (g_token_name g))))))))"

definition RelayAudioHelper :: "env \<Rightarrow> request \<Rightarrow> ctx \<Rightarrow> int \<Rightarrow> st \<Rightarrow> (finish \<times> (st \<Rightarrow> st)) \<times> st" where
  "RelayAudioHelper E rq g relayMode s =
     (case GetByContext (e_now E) rq g of
        None \<Rightarrow> ((Panicked, id), s)
      | Some m \<Rightarrow>
          (let go = (\<lambda>audioModel preconsume final.
                (let modelRatio = GetModelRatio (e_ratios E) audioModel (g_channel g);
                     groupRatio = GetGroupRatio (e_ratios E) (g_group g);
                     preConsumedQuota = int64_of_f64 (f64_of_int preconsume * (modelRatio * groupRatio));
                     quota = (if final then preConsumedQuota else 0)
                 in case take_estimate E (g_id g) (g_token_id g) preConsumedQuota s of
                      ((_, Some e), s) \<Rightarrow> ((Returned (Some e), id), s)
                    | ((preConsumedQuota, None), s) \<Rightarrow>
                        (send_audio E rq g m relayMode audioModel modelRatio groupRatio quota preConsumedQuota, s)))
           in if relayMode = mode_AudioSpeech then
                (case e_speech E of
                   Inl e \<Rightarrow> ((Returned (Some (ErrorWrapper e ''invalid_json'' 400)), id), s)
                 | Inr tts \<Rightarrow>
                     (if 4096 < length (tts_Input tts)
                      then ((Returned (Some (ErrorWrapper ''input is too long (over 4096 characters)'' ''text_too_long'' 400)), id), s)
                      else go (tts_Model tts) (int (length (tts_Input tts))) True))
              else go ''whisper-1'' (PreConsumedQuota (e_cfg E)) False))"

section \<open>Properties\<close>

text \<open>What the relay has read of an image request when it looks up the account, and what it will cost.\<close>

definition reads_image :: "env \<Rightarrow> request \<Rightarrow> ctx \<Rightarrow> Meta \<Rightarrow> ImageRequest \<Rightarrow> adaptor \<Rightarrow> body \<Rightarrow> bool" where
  "reads_image E rq g m r a b \<longleftrightarrow>
     (\<exists>m0 r0 mapped. GetByContext (e_now E) rq g = Some m0 \<and> getImageRequest E = Inr r0 \<and>
        getMappedModelName (im_Model r0) (m_ModelMapping m0) = (im_Model r, mapped) \<and> r = r0\<lparr>im_Model := im_Model r\<rparr> \<and>
        m = m0\<lparr>m_OriginModelName := im_Model r0, m_ActualModelName := im_Model r\<rparr> \<and>
        validateImageRequest r = None \<and> GetAdaptor (m_APIType m) = Some a \<and>
        image_body m mapped (r\<lparr>im_Model := fst (getMappedModelName (im_Model r) (Some ImageOriginModelName))\<rparr>) (e_ops E a) = Inr b)"

definition image_cost :: "env \<Rightarrow> Meta \<Rightarrow> ImageRequest \<Rightarrow> int" where
  "image_cost E m r = image_quota (m_ChannelType m) (request_ratio E m (im_Model r)) (getImageCostRatio r) (im_N r)"

lemma RelayImageHelper_reads:
  assumes "reads_image E rq g m r a b"
  shows "RelayImageHelper E rq g s =
    (case CacheGetUserQuota (e_cfg E) (e_now E) (m_UserId m) s of
       ((userQuota, _), s) \<Rightarrow>
         (if wrap64 (userQuota - image_cost E m r) < 0
          then ((Returned (Some (ErrorWrapper ''user quota is not enough'' ''insufficient_user_quota'' 403)), id), s)
          else case op_DoRequest (e_ops E a) m b of
            Inl e \<Rightarrow> ((Returned (Some (ErrorWrapper e ''do_request_failed'' 500)), id), s)
          | Inr resp \<Rightarrow>
              ((Returned (case op_DoResponse (e_ops E a) m resp of Inl respErr \<Rightarrow> Some respErr | Inr _ \<Rightarrow> None), id),
               charge_image E m (fst (getMappedModelName (im_Model r) (Some ImageOriginModelName)))
                 (GetModelRatio (e_ratios E) (im_Model r) (m_ChannelType m)) (GetGroupRatio (e_ratios E) (m_Group m))
                 (image_cost E m r) resp s)))"
proof -
  obtain m0 r0 mapped where *: "GetByContext (e_now E) rq g = Some m0" "getImageRequest E = Inr r0"
      "getMappedModelName (im_Model r0) (m_ModelMapping m0) = (im_Model r, mapped)" "r = r0\<lparr>im_Model := im_Model r\<rparr>"
      "m = m0\<lparr>m_OriginModelName := im_Model r0, m_ActualModelName := im_Model r\<rparr>"
      "validateImageRequest r = None" "GetAdaptor (m_APIType m) = Some a"
      "image_body m mapped (r\<lparr>im_Model := fst (getMappedModelName (im_Model r) (Some ImageOriginModelName))\<rparr>) (e_ops E a) = Inr b"
    using assms by (auto simp: reads_image_def)
  have red: "im_Model (r\<lparr>im_Model := x\<rparr>) = x" "im_N (r\<lparr>im_Model := x\<rparr>) = im_N r" for x by simp_all
  show ?thesis
    unfolding RelayImageHelper_def *(1) option.case *(2) sum.case *(3) Let_def prod.case
    unfolding *(4) [symmetric] *(5) [symmetric] *(6) option.case *(7) *(8) sum.case
    unfolding red image_cost_def request_ratio_def by (rule refl)
qed

lemma charge_image_pays:
  assumes "served E i tok s" and "m_TokenId m = i" and "int64 quota" and "int64 (- quota)"
    and "rp_StatusCode resp = 200 \<or> rp_StatusCode resp = 201"
  shows "pays i tok quota s (charge_image E m model mr gr quota (Some resp) s)"
proof -
  have k: "\<not> redis_enabled s" and d: "\<not> BatchUpdateEnabled (e_cfg E)" and f: "db_faults s = []"
    using assms(1) by (simp_all add: served_def)
  let ?s1 = "snd (PostConsumeTokenQuota (e_cfg E) (e_later E) i quota s)"
  have p: "pays i tok quota s ?s1" using served_PostConsume [OF assms(1,3,4)] .
  have c: "snd (CacheUpdateUserQuota (e_cfg E) (e_later E) (m_UserId m) (snd (PostConsumeTokenQuota (e_cfg E) (e_later E) i q s))) =
      snd (PostConsumeTokenQuota (e_cfg E) (e_later E) i q s)" for q
    using PostConsume_state [OF d f] k by (simp add: CacheUpdateUserQuota_def)
  have "quota_of v (charge_image E m model mr gr quota (Some resp) s) = quota_of v ?s1"
    and "tokens (charge_image E m model mr gr quota (Some resp) s) = tokens ?s1" for v
    using assms(5) by (auto simp: charge_image_def Let_def assms(2) c used_counts RecordLog_tables)
  with p show ?thesis by (simp add: pays_def remain_of_def)
qed

text \<open>An image request can pay its sender. The number of images is only checked for the models that
  have a range, and the cost is multiplied with it: when a model without a range and with a positive
  price is asked for a negative number of images, and the service answers all the same, the caller's
  account grows by the price of that many images, and so does a limited token.\<close>

theorem negative_images_pay_the_caller:
  assumes "served E (g_token_id g) tok s" and "reads_image E rq g m r a b"
    and "map_of ImageGenerationAmounts (im_Model r) = None" and "m_ChannelType m \<noteq> ct_Replicate"
    and "one = int64_of_f64 (request_ratio E m (im_Model r) * getImageCostRatio r * f64_of_int 1000)"
    and "0 < one" and "one \<le> 2 ^ 32" and "im_N r < 0" and "- (2 ^ 30) \<le> im_N r"
    and "0 \<le> quota_of (g_id g) s" and "quota_of (g_id g) s < 2 ^ 62"
    and "op_DoRequest (e_ops E a) m b = Inr (Some resp)" and "rp_StatusCode resp = 200"
  shows "\<exists>e job s1. RelayImageHelper E rq g s = ((Returned e, job), s1) \<and>
    quota_of (t_user_id tok) s1 = quota_of (t_user_id tok) s + one * (- im_N r) \<and>
    remain_of (g_token_id g) s1 = remain_of (g_token_id g) s + (if t_unlimited_quota tok then 0 else one * (- im_N r))"
proof -
  have ids: "m_TokenId m = g_token_id g" "m_UserId m = g_id g"
    using assms(2) by (auto simp: reads_image_def GetByContext_def split: if_splits)
  have "one * (- im_N r) \<le> 2 ^ 32 * 2 ^ 30" using assms(6-9) by (intro mult_mono) simp_all
  moreover have "0 < one * (- im_N r)" using mult_pos_neg [OF assms(6,8)] by simp
  ultimately have small: "- (2 ^ 62) \<le> one * im_N r" "one * im_N r < 0" by simp_all
  then have i: "int64 (one * im_N r)" "int64 (- (one * im_N r))" by (simp_all add: int64_def)
  then have cost: "image_cost E m r = one * im_N r"
    using assms(4,5) by (simp add: image_cost_def image_quota_def Let_def)
  have k: "\<not> redis_enabled s" "db_faults s = []" using assms(1) by (simp_all add: served_def)
  have "wrap64 (quota_of (g_id g) s - one * im_N r) = quota_of (g_id g) s - one * im_N r"
    using assms(10,11) small by (intro wrap64_id) (simp add: int64_def)
  then have enough: "\<not> wrap64 (quota_of (g_id g) s - one * im_N r) < 0" using assms(10) small by simp
  have get: "CacheGetUserQuota (e_cfg E) (e_now E) (g_id g) s = ((quota_of (g_id g) s, None), s)"
    using k by (simp add: CacheGetUserQuota_def GetUserQuota_def)
  let ?s1 = "charge_image E m (fst (getMappedModelName (im_Model r) (Some ImageOriginModelName)))
      (GetModelRatio (e_ratios E) (im_Model r) (m_ChannelType m)) (GetGroupRatio (e_ratios E) (m_Group m)) (one * im_N r) (Some resp) s"
  have "pays (g_token_id g) tok (one * im_N r) s ?s1"
    using assms(13) by (intro charge_image_pays [OF assms(1) ids(1) i]) simp
  then have "quota_of (t_user_id tok) ?s1 = quota_of (t_user_id tok) s + one * (- im_N r) \<and>
    remain_of (g_token_id g) ?s1 = remain_of (g_token_id g) s + (if t_unlimited_quota tok then 0 else one * (- im_N r))"
    by (auto simp: pays_def)
  moreover have "\<exists>e. RelayImageHelper E rq g s = ((Returned e, id), ?s1)"
    unfolding RelayImageHelper_reads [OF assms(2)] ids get cost using enough by (simp add: assms(12))
  ultimately show ?thesis by blast
qed

definition lab_image :: ImageRequest where
  "lab_image = \<lparr>im_Model = ''m'', im_Prompt = ''a cat'', im_N = -2, im_Size = ''1024x1024'', im_Quality = '''',
     im_ResponseFormat = '''', im_Style = '''', im_User = ''''\<rparr>"

definition lab_image_env :: env where
  "lab_image_env = (lab_env (Inr (Some (lab_response 200))))\<lparr>e_image := Inr lab_image\<rparr>"

lemma lab_image_reads: "reads_image lab_image_env lab_rq lab_ctx lab_meta lab_image OpenAIAdaptor RawBody"
proof -
  obtain m0 where m0: "GetByContext 5 lab_rq lab_ctx = Some m0" using lab_GetByContext by blast
  then have m: "lab_meta = m0\<lparr>m_ActualModelName := ''m'', m_OriginModelName := ''m''\<rparr>" by (simp add: lab_meta_def)
  have f: "m_ModelMapping m0 = None" "m_APIType m0 = 0" "m_ChannelType m0 = 1" using lab_meta_simps unfolding m by simp_all
  show ?thesis
    unfolding reads_image_def
    by (intro exI [of _ m0] exI [of _ lab_image] exI [of _ False])
      (simp add: m0 m f lab_image_env_def lab_env_def getImageRequest_def lab_image_def getMappedModelName_def
        validateImageRequest_def isValidImageSize_def ImageSizeRatios_def isValidImagePromptLength_def
        ImagePromptLengthLimitations_def isWithinRange_def ImageGenerationAmounts_def lab_adaptor image_body_def
        needs_image_conversion_def)
qed

lemma lab_image_one:
  "int64_of_f64 (request_ratio lab_image_env lab_meta ''m'' * getImageCostRatio lab_image * f64_of_int 1000) = 1000"
proof -
  have r: "request_ratio lab_image_env lab_meta ''m'' = F64 1"
    using lab_price(1) by (simp add: request_ratio_def lab_image_env_def)
  have c: "getImageCostRatio lab_image = F64 1"
    using rnd_exact [of 1] by (simp add: getImageCostRatio_def getImageSizeRatio_def lab_image_def ImageSizeRatios_def f64_const_def)
  have "F64 1 * f64_of_int 1000 = F64 1000"
    using rnd_exact [of 1000] by (simp add: times_f64_def f64_of_int_def)
  then show ?thesis by (simp add: r c one_times_one int64_of_f64_def trunc_rat_def int64_def)
qed

theorem negative_images_pay_the_caller_witness:
  "\<exists>e job s1. RelayImageHelper lab_image_env lab_rq lab_ctx lab = ((Returned e, job), s1) \<and> quota_of 1 s1 = 3000"
proof -
  have q: "quota_of 1 lab = 1000" by (simp add: user_column_def lab_def ann_def)
  have s: "served lab_image_env (g_token_id lab_ctx) lab_token lab"
    using lab_served by (simp add: served_def lab_image_env_def)
  have n: "map_of ImageGenerationAmounts (im_Model lab_image) = None" "im_N lab_image = -2" "im_Model lab_image = ''m''"
    by (simp_all add: lab_image_def ImageGenerationAmounts_def)
  have up: "op_DoRequest (e_ops lab_image_env OpenAIAdaptor) lab_meta RawBody = Inr (Some (lab_response 200))"
    by (simp add: lab_image_env_def lab_env_def)
  show ?thesis
    using negative_images_pay_the_caller [OF s lab_image_reads n(1) _ refl _ _ _ _ _ _ up]
    by (auto simp: n lab_image_one q lab_response_def)
qed

end
