(* ===== verification/Monitor.thy ===== *)
theory Monitor
  imports RelayLaws
begin

text \<open>
  Package \<^verbatim>\<open>monitor\<close>: which errors disable a channel (\<^verbatim>\<open>manage.go\<close>), disabling and enabling with the
  notification of the root user (\<^verbatim>\<open>channel.go\<close>), and the metric of recent calls (\<^verbatim>\<open>metric.go\<close>). The
  consumers of the two Go channels are one step per message. The texts of the notifications are not
  modelled; \<open>push_ok\<close> tells whether the message pusher took the message.
\<close>

section \<open>Errors that disable a channel\<close>

definition disabling_phrases :: "string list" where
  "disabling_phrases =
    [''your access was terminated'',
     ''violation of our policies'',
     ''your credit balance is too low'',
     ''organization has been disabled'',
     ''credit'',
     ''balance'',
     ''permission denied'',
     ''organization has been restricted'',
     ''api key not valid'',
     ''api key expired'',
     utf8 [0xE5, 0xB7, 0xB2, 0xE6, 0xAC, 0xA0, 0xE8, 0xB4, 0xB9]]"

definition ShouldDisableChannel :: "config \<Rightarrow> api_error option \<Rightarrow> int \<Rightarrow> bool" where
  "ShouldDisableChannel cfg err statusCode =
     (if \<not> AutomaticDisableChannelEnabled cfg then False
      else case err of
        None \<Rightarrow> False
      | Some e \<Rightarrow>
          (if statusCode = 401 then True
           else if er_Type e \<in> {''insufficient_quota'', ''authentication_error'', ''permission_error'', ''forbidden''} then True
           else if er_Code e = JStr ''invalid_api_key'' \<or> er_Code e = JStr ''account_deactivated'' then True
           else list_ex (Contains (ToLower (er_Message e))) disabling_phrases))"

definition ShouldEnableChannel :: "config \<Rightarrow> string option \<Rightarrow> api_error option \<Rightarrow> bool" where
  "ShouldEnableChannel cfg err openAIErr =
     (if \<not> AutomaticEnableChannelEnabled cfg then False
      else if err \<noteq> None then False
      else if openAIErr \<noteq> None then False
      else True)"


section \<open>Disabling and enabling\<close>

text \<open>The configuration remembers the root user's address once it has been looked up.\<close>

definition notifyRootUser :: "bool \<Rightarrow> config \<Rightarrow> st \<Rightarrow> config \<times> st" where
  "notifyRootUser push_ok cfg s =
     (if MessagePusherAddress cfg \<noteq> '''' \<and> push_ok then (cfg, s)
      else if RootUserEmail cfg = '''' then
        (case GetRootUserEmail s of (email, s) \<Rightarrow> (cfg\<lparr>RootUserEmail := email\<rparr>, s))
      else (cfg, s))"

definition DisableChannel :: "bool \<Rightarrow> config \<Rightarrow> int \<Rightarrow> st \<Rightarrow> config \<times> st" where
  "DisableChannel push_ok cfg channelId s =
     notifyRootUser push_ok cfg (UpdateChannelStatusById channelId ChannelStatusAutoDisabled s)"

definition MetricDisableChannel :: "bool \<Rightarrow> config \<Rightarrow> int \<Rightarrow> st \<Rightarrow> config \<times> st" where
  "MetricDisableChannel push_ok cfg channelId s =
     notifyRootUser push_ok cfg (UpdateChannelStatusById channelId ChannelStatusAutoDisabled s)"

definition EnableChannel :: "bool \<Rightarrow> config \<Rightarrow> int \<Rightarrow> st \<Rightarrow> config \<times> st" where
  "EnableChannel push_ok cfg channelId s =
     notifyRootUser push_ok cfg (UpdateChannelStatusById channelId ChannelStatusEnabled s)"


section \<open>The metric of recent calls\<close>

text \<open>The results of a channel's recent calls, oldest first. Slicing an empty queue panics (\<open>None\<close>).\<close>

type_synonym metric = "int \<Rightarrow> bool list"

definition make_room :: "config \<Rightarrow> bool list \<Rightarrow> bool list option" where
  "make_room cfg queue =
     (if MetricQueueSize cfg < int (length queue)
      then (case queue of [] \<Rightarrow> None | _ # rest \<Rightarrow> Some rest) else Some queue)"

definition consumeSuccess :: "config \<Rightarrow> int \<Rightarrow> metric \<Rightarrow> metric option" where
  "consumeSuccess cfg channelId store =
     map_option (\<lambda>queue. store(channelId := queue @ [True])) (make_room cfg (store channelId))"

definition success_rate :: "bool list \<Rightarrow> f64" where
  "success_rate queue = f64_of_int (int (length (filter id queue))) / f64_of_int (int (length queue))"

definition consumeFail :: "config \<Rightarrow> int \<Rightarrow> metric \<Rightarrow> ((bool \<times> f64) \<times> metric) option" where
  "consumeFail cfg channelId store =
     map_option (\<lambda>queue.
       (let queue = queue @ [False]; successRate = success_rate queue
        in if int (length queue) < MetricQueueSize cfg then ((False, successRate), store(channelId := queue))
           else if successRate < MetricSuccessRateThreshold cfg
           then ((True, successRate), store(channelId := []))
           else ((False, successRate), store(channelId := queue))))
       (make_room cfg (store channelId))"

text \<open>One message of \<open>metricSuccessChan\<close> (\<open>True\<close>) or \<open>metricFailChan\<close>, and whether it starts a goroutine
  that disables the channel.\<close>

definition metric_step :: "config \<Rightarrow> int \<times> bool \<Rightarrow> metric \<Rightarrow> (bool \<times> metric) option" where
  "metric_step cfg msg store =
     (case msg of (channelId, success) \<Rightarrow>
        (if success then map_option (\<lambda>m. (False, m)) (consumeSuccess cfg channelId store)
         else map_option (\<lambda>((disable, _), m). (disable, m)) (consumeFail cfg channelId store)))"

definition Emit :: "config \<Rightarrow> int \<Rightarrow> bool \<Rightarrow> (int \<times> bool) list" where
  "Emit cfg channelId success = (if EnableMetric cfg then [(channelId, success)] else [])"


section \<open>Properties\<close>

definition bounded :: "config \<Rightarrow> metric \<Rightarrow> bool" where
  "bounded cfg store \<longleftrightarrow> (\<forall>c. int (length (store c)) \<le> MetricQueueSize cfg + 1)"

lemma make_room_Some:
  assumes "0 \<le> MetricQueueSize cfg"
  shows "make_room cfg q = Some (if MetricQueueSize cfg < int (length q) then tl q else q)"
  using assms by (cases q) (auto simp: make_room_def)

text \<open>The failures at the end of a queue, and what a further failure does to them.\<close>

definition trailing_fails :: "bool list \<Rightarrow> nat" where
  "trailing_fails q = length (takeWhile Not (rev q))"

lemma trailing_snoc [simp]: "trailing_fails (q @ [False]) = Suc (trailing_fails q)"
  by (simp add: trailing_fails_def)

lemma trailing_le: "trailing_fails q \<le> length q"
  using length_takeWhile_le [of Not "rev q"] by (simp add: trailing_fails_def)

lemma trailing_append: "trailing_fails (x # xs) =
    (if trailing_fails xs = length xs then length xs + (if x then 0 else 1) else trailing_fails xs)"
  by (induction xs rule: rev_induct) (auto simp: trailing_fails_def split: if_splits)

lemma trailing_tl: "min (trailing_fails q) (length q - 1) \<le> trailing_fails (tl q)"
  by (cases q) (auto simp: trailing_append)

lemma trailing_all:
  assumes "trailing_fails q = length q"
  shows "filter id q = []"
proof -
  have "takeWhile Not (rev q) = rev q"
    using assms takeWhile_eq_take [of Not "rev q"] by (simp add: trailing_fails_def)
  then show ?thesis by (simp add: takeWhile_eq_all_conv filter_empty_conv)
qed

lemma consumeFail_step:
  assumes "0 \<le> MetricQueueSize cfg" and "bounded cfg store" and "0 < MetricSuccessRateThreshold cfg"
    and "consumeFail cfg c store = Some ((False, r), store')"
  shows "trailing_fails (store c) < trailing_fails (store' c) \<and> int (trailing_fails (store' c)) \<le> MetricQueueSize cfg"
proof -
  let ?q = "store c"
  define q' where "q' = (if MetricQueueSize cfg < int (length ?q) then tl ?q else ?q) @ [False]"
  have len: "int (length ?q) \<le> MetricQueueSize cfg + 1" using assms(2) by (simp add: bounded_def)
  then have len': "int (length q') \<le> MetricQueueSize cfg + 1" using assms(1) by (auto simp: q'_def)
  have s': "store' c = q'" and no: "int (length q') < MetricQueueSize cfg \<or> \<not> success_rate q' < MetricSuccessRateThreshold cfg"
    using assms(4) by (auto simp: consumeFail_def make_room_Some [OF assms(1)] q'_def Let_def split: if_splits)
  have "trailing_fails q' \<noteq> length q' \<or> int (length q') < MetricQueueSize cfg"
  proof (rule ccontr)
    assume "\<not> ?thesis"
    then have "filter id q' = []" and "\<not> int (length q') < MetricQueueSize cfg" using trailing_all by auto
    then show False using no assms(3) by (simp add: success_rate_def f64_of_int_def f64_defs)
  qed
  with len' trailing_le [of q'] have up: "int (trailing_fails q') \<le> MetricQueueSize cfg" by linarith
  have "min (trailing_fails ?q) (if MetricQueueSize cfg < int (length ?q) then length ?q - 1 else length ?q) < trailing_fails q'"
    using trailing_tl [of ?q] trailing_le [of ?q] by (auto simp: q'_def)
  then show ?thesis using up len s' trailing_le [of ?q] by (auto simp: min_def split: if_splits)
qed

lemma bounded_step:
  assumes "0 \<le> MetricQueueSize cfg" and "bounded cfg store" and "metric_step cfg msg store = Some (d, store')"
  shows "bounded cfg store'"
  using assms
  by (auto simp: metric_step_def consumeSuccess_def consumeFail_def bounded_def make_room_Some Let_def
      split: prod.splits if_splits)

lemma metric_step_other:
  "metric_step cfg msg store = Some (d, store') \<Longrightarrow> fst msg \<noteq> c \<Longrightarrow> store' c = store c"
  by (auto simp: metric_step_def consumeSuccess_def consumeFail_def Let_def split: prod.splits if_splits)

lemma metric_step_total: "0 \<le> MetricQueueSize cfg \<Longrightarrow> \<exists>d store'. metric_step cfg msg store = Some (d, store')"
  by (cases msg) (auto simp: metric_step_def consumeSuccess_def consumeFail_def make_room_Some Let_def)

text \<open>A run over a sequence of messages: the channels that are disabled, in order.\<close>

fun metric_run :: "config \<Rightarrow> (int \<times> bool) list \<Rightarrow> metric \<Rightarrow> (int list \<times> metric) option" where
  "metric_run cfg [] store = Some ([], store)"
| "metric_run cfg (msg # msgs) store =
     (case metric_step cfg msg store of
        None \<Rightarrow> None
      | Some (d, store') \<Rightarrow>
          map_option (\<lambda>(ds, m). ((if d then [fst msg] else []) @ ds, m)) (metric_run cfg msgs store'))"

lemma metric_run_other:
  assumes "metric_run cfg msgs store = Some (ds, store')" and "filter (\<lambda>m. fst m = c) msgs = []"
  shows "store' c = store c"
  using assms
proof (induction msgs arbitrary: store ds)
  case (Cons msg msgs)
  then show ?case
    using metric_step_other [of cfg msg store _ _ c]
    by (auto split: option.splits if_splits)
qed simp

lemma metric_run_quiet:
  assumes "0 \<le> MetricQueueSize cfg" and "0 < MetricSuccessRateThreshold cfg" and "bounded cfg store"
    and "metric_run cfg msgs store = Some (ds, store')" and "c \<notin> set ds" and "(c, True) \<notin> set msgs"
  shows "trailing_fails (store c) + length (filter (\<lambda>m. fst m = c) msgs) \<le> trailing_fails (store' c) \<and>
    (filter (\<lambda>m. fst m = c) msgs \<noteq> [] \<longrightarrow> int (trailing_fails (store' c)) \<le> MetricQueueSize cfg)"
  using assms(3-6)
proof (induction msgs arbitrary: store ds)
  case (Cons msg msgs)
  obtain d store1 where step: "metric_step cfg msg store = Some (d, store1)"
    using metric_step_total [OF assms(1)] by blast
  with Cons.prems obtain ds1 where run: "metric_run cfg msgs store1 = Some (ds1, store')"
    and ds: "ds = (if d then [fst msg] else []) @ ds1" by auto
  note b = bounded_step [OF assms(1) Cons.prems(1) step]
  have ih: "trailing_fails (store1 c) + length (filter (\<lambda>m. fst m = c) msgs) \<le> trailing_fails (store' c) \<and>
    (filter (\<lambda>m. fst m = c) msgs \<noteq> [] \<longrightarrow> int (trailing_fails (store' c)) \<le> MetricQueueSize cfg)"
    using Cons.IH [OF b run] Cons.prems ds by simp
  show ?case
  proof (cases "fst msg = c")
    case False
    then show ?thesis using ih metric_step_other [OF step False] by simp
  next
    case True
    then have msg: "msg = (c, False)" using Cons.prems(4) by (cases msg) auto
    have "\<not> d" using Cons.prems(3) ds True by auto
    with step msg obtain r where "consumeFail cfg c store = Some ((False, r), store1)"
      by (auto simp: metric_step_def)
    from consumeFail_step [OF assms(1) Cons.prems(1) assms(2) this] ih metric_run_other [OF run, of c]
    show ?thesis using True by (cases "filter (\<lambda>m. fst m = c) msgs = []") auto
  qed
qed simp

text \<open>C30: A channel that only fails is disabled. Whatever its record is, among any sequence of results in
  which the channel has one more failure than the configured number of calls and no success, the
  metric disables it, however the results of other channels are interleaved.\<close>

theorem failing_channel_disabled:
  assumes "0 \<le> MetricQueueSize cfg" and "0 < MetricSuccessRateThreshold cfg" and "bounded cfg store"
    and "filter (\<lambda>m. fst m = c) msgs = replicate (Suc (nat (MetricQueueSize cfg))) (c, False)"
  shows "\<exists>ds store'. metric_run cfg msgs store = Some (ds, store') \<and> c \<in> set ds"
proof -
  have total: "\<exists>ds store'. metric_run cfg ms st = Some (ds, store')" for ms st
  proof (induction ms arbitrary: st)
    case (Cons m ms)
    obtain d st1 where "metric_step cfg m st = Some (d, st1)" using metric_step_total [OF assms(1)] by blast
    with Cons.IH [of st1] show ?case by auto
  qed simp
  obtain ds store' where run: "metric_run cfg msgs store = Some (ds, store')" using total by blast
  have "(c, True) \<notin> set msgs"
  proof
    assume "(c, True) \<in> set msgs"
    then have "(c, True) \<in> set (filter (\<lambda>m. fst m = c) msgs)" by simp
    then show False unfolding assms(4) by simp
  qed
  then have "c \<in> set ds"
    using metric_run_quiet [OF assms(1,2,3) run, of c] by (fastforce simp: assms(4))
  with run show ?thesis by blast
qed

text \<open>The queue of a channel holds one result more than the configured number of calls.\<close>

lemma metric_run_bounded:
  "0 \<le> MetricQueueSize cfg \<Longrightarrow> bounded cfg store \<Longrightarrow> metric_run cfg msgs store = Some (ds, store') \<Longrightarrow> bounded cfg store'"
proof (induction msgs arbitrary: store ds)
  case (Cons m ms)
  then show ?case by (auto split: option.splits intro: bounded_step)
qed simp

lemma direct_metric: "MetricQueueSize direct_cfg = 10" "0 < MetricSuccessRateThreshold direct_cfg"
proof -
  have "rnd (1 / 2) = 1 / 2" by code_simp
  moreover have "rnd (1 / 2) \<le> rnd (4 / 5)" by (rule rnd_mono) simp
  ultimately have "0 < rnd (4 / 5)" by simp
  then show "MetricQueueSize direct_cfg = 10" "0 < MetricSuccessRateThreshold direct_cfg"
    by (simp_all add: direct_cfg_def init_config_def env_Int_def env_Float64_def f64_const_def f64_defs)
qed

theorem failing_channel_disabled_witness:
  "\<exists>ds store'. metric_run direct_cfg (replicate 11 (3, False)) (\<lambda>_. []) = Some (ds, store') \<and> 3 \<in> set ds"
proof -
  have "filter (\<lambda>m. fst m = (3 :: int)) (replicate 11 (3, False)) = replicate (Suc (nat (MetricQueueSize direct_cfg))) (3, False)"
    by (simp add: direct_metric)
  from failing_channel_disabled [OF _ direct_metric(2) _ this] show ?thesis
    by (simp add: direct_metric bounded_def)
qed

end
