(* ===== verification/Retry.thy ===== *)
theory Retry
  imports Media Monitor
begin

text \<open>
  \<^verbatim>\<open>controller/relay.go\<close>: the dispatch of a request to the four relays, the retries on other channels, and
  what a failed attempt does to its channel. Attempt \<open>0\<close> is the first; a retry is numbered by the
  remaining times \<open>i\<close> of the loop, and has its own environment \<open>E i\<close> and random number \<open>rs i\<close>. The answer,
  the failed attempts (each starts a goroutine that looks at its channel), the messages to the metric
  and the goroutines of the relays are the outcome.
\<close>

section \<open>One attempt\<close>

definition relayHelper :: "env \<Rightarrow> request \<Rightarrow> ctx \<Rightarrow> int \<Rightarrow> st \<Rightarrow> (finish \<times> (st \<Rightarrow> st)) \<times> st" where
  "relayHelper E rq g relayMode s =
     (if relayMode = mode_ImagesGenerations then RelayImageHelper E rq g s
      else if relayMode = mode_AudioSpeech \<or> relayMode = mode_AudioTranslation \<or> relayMode = mode_AudioTranscription
      then RelayAudioHelper E rq g relayMode s
      else if relayMode = mode_Proxy then RelayProxyHelper E rq g s
      else RelayTextHelper E rq g s)"

definition shouldRetry :: "ctx \<Rightarrow> int \<Rightarrow> bool" where
  "shouldRetry g statusCode =
     (if g_specific_channel g \<noteq> None then False
      else if statusCode = 429 then True
      else if go_div statusCode 100 = 5 then True
      else if statusCode = 400 then False
      else if go_div statusCode 100 = 2 then False
      else True)"

text \<open>The goroutine of a failed attempt: the channel is disabled, or the metric is told.\<close>

definition processChannelRelayError :: "bool \<Rightarrow> config \<Rightarrow> int \<Rightarrow> status_error \<Rightarrow> st \<Rightarrow>
    (config \<times> (int \<times> bool) list) \<times> st" where
  "processChannelRelayError push_ok cfg channelId err s =
     (if ShouldDisableChannel cfg (Some (se_Error err)) (se_StatusCode err)
      then (case DisableChannel push_ok cfg channelId s of (cfg, s) \<Rightarrow> ((cfg, []), s))
      else ((cfg, Emit cfg channelId False), s))"


section \<open>The retries\<close>

record loop =
  lp_ctx :: ctx
  lp_last :: int
  lp_err :: "status_error option"
  lp_fails :: "(int \<times> status_error) list"
  lp_jobs :: "(st \<Rightarrow> st) list"
  lp_panic :: bool

text \<open>The loop over the remaining times \<open>i\<close>; a channel that has just failed is passed over.\<close>

fun retry where
  "retry json_map json_config E rs cache rq relayMode grp originalModel retryTimes 0 (L :: loop) (s :: st) = (L, s)"
| "retry json_map json_config E rs cache rq relayMode grp originalModel retryTimes (Suc i) L s =
     (case CacheGetRandomSatisfiedChannel (e_cfg (E (Suc i))) (rs (Suc i)) cache grp originalModel (Suc i \<noteq> retryTimes) s of
        (Inl _, s) \<Rightarrow> (L, s)
      | (Inr c, s) \<Rightarrow>
          (if c_id c = lp_last L
           then retry json_map json_config E rs cache rq relayMode grp originalModel retryTimes i L s
           else (let g = SetupContextForSelectedChannel json_map json_config c originalModel (lp_ctx L);
                     L = L\<lparr>lp_ctx := g\<rparr>
                 in case relayHelper (E (Suc i)) rq g relayMode s of
                      ((Panicked, job), s) \<Rightarrow> (L\<lparr>lp_jobs := lp_jobs L @ [job], lp_panic := True\<rparr>, s)
                    | ((Returned None, job), s) \<Rightarrow> (L\<lparr>lp_jobs := lp_jobs L @ [job], lp_err := None\<rparr>, s)
                    | ((Returned (Some e), job), s) \<Rightarrow>
                        retry json_map json_config E rs cache rq relayMode grp originalModel retryTimes i
                          (L\<lparr>lp_jobs := lp_jobs L @ [job], lp_err := Some e, lp_last := g_channel_id g,
                             lp_fails := lp_fails L @ [(g_channel_id g, e)]\<rparr>) s)))"

datatype answer = Answered | Failed int api_error | Crashed

record relay_outcome =
  ro_answer :: answer
  ro_fails :: "(int \<times> status_error) list"
  ro_emit :: "(int \<times> bool) list"
  ro_jobs :: "(st \<Rightarrow> st) list"

definition group_overloaded :: string where
  "group_overloaded =
    utf8 [0xE5, 0xBD, 0x93, 0xE5, 0x89, 0x8D, 0xE5, 0x88, 0x86, 0xE7, 0xBB, 0x84, 0xE4, 0xB8, 0x8A, 0xE6,
      0xB8, 0xB8, 0xE8, 0xB4, 0x9F, 0xE8, 0xBD, 0xBD, 0xE5, 0xB7, 0xB2, 0xE9, 0xA5, 0xB1, 0xE5, 0x92,
      0x8C, 0xEF, 0xBC, 0x8C, 0xE8, 0xAF, 0xB7, 0xE7, 0xA8, 0x8D, 0xE5, 0x90, 0x8E, 0xE5, 0x86, 0x8D,
      0xE8, 0xAF, 0x95]"

text \<open>The error that is shown.\<close>

definition final_error :: "request \<Rightarrow> status_error \<Rightarrow> answer" where
  "final_error rq e =
     (let msg = (if se_StatusCode e = 429 then group_overloaded else er_Message (se_Error e))
      in Failed (se_StatusCode e) ((se_Error e)\<lparr>er_Message := MessageWithRequestId msg (q_request_id rq)\<rparr>))"

definition Relay where
  "Relay json_map json_config E rs cache rq (g :: ctx) (s :: st) =
     (let relayMode = GetByPath (q_path rq); cfg = e_cfg (E 0)
      in case relayHelper (E 0) rq g relayMode s of
           ((Panicked, job), s) \<Rightarrow> (\<lparr>ro_answer = Crashed, ro_fails = [], ro_emit = [], ro_jobs = [job]\<rparr>, s)
         | ((Returned None, job), s) \<Rightarrow>
             (\<lparr>ro_answer = Answered, ro_fails = [], ro_emit = Emit cfg (g_channel_id g) True, ro_jobs = [job]\<rparr>, s)
         | ((Returned (Some bizErr), job), s) \<Rightarrow>
             (let retryTimes = (if shouldRetry g (se_StatusCode bizErr) then nat (RetryTimes cfg) else 0);
                  L = \<lparr>lp_ctx = g, lp_last = g_channel_id g, lp_err = Some bizErr,
                        lp_fails = [(g_channel_id g, bizErr)], lp_jobs = [job], lp_panic = False\<rparr>
              in case retry json_map json_config E rs cache rq relayMode (g_group g) (g_original_model g) retryTimes retryTimes L s of
                   (L, s) \<Rightarrow>
                     (\<lparr>ro_answer = (if lp_panic L then Crashed
                          else case lp_err L of None \<Rightarrow> Answered | Some e \<Rightarrow> final_error rq e),
                       ro_fails = lp_fails L, ro_emit = [], ro_jobs = lp_jobs L\<rparr>, s)))"

definition RelayNotImplemented :: answer where
  "RelayNotImplemented =
     Failed 501 \<lparr>er_Message = ''API not implemented'', er_Type = ''one_api_error'', er_Param = '''',
       er_Code = JStr ''api_not_implemented''\<rparr>"

definition RelayNotFound :: "string \<Rightarrow> request \<Rightarrow> answer" where
  "RelayNotFound httpMethod rq =
     Failed 404 \<lparr>er_Message = ''Invalid URL ('' @ httpMethod @ '' '' @ q_path rq @ '')'', er_Type = ''invalid_request_error'',
       er_Param = '''', er_Code = JStr ''''\<rparr>"


section \<open>Properties\<close>

lemma retry_fails:
  assumes "retry jm jc E rs cache rq mode grp mdl n i L s = (L', s')"
    and "lp_fails L \<noteq> []" and "fst (last (lp_fails L)) = lp_last L" and "distinct_adj (map fst (lp_fails L))"
  shows "distinct_adj (map fst (lp_fails L')) \<and> (\<exists>new. lp_fails L' = lp_fails L @ new \<and> length new \<le> i \<and>
    length (lp_jobs L') \<le> length (lp_jobs L) + i)"
  using assms
proof (induction jm jc E rs cache rq mode grp mdl n i L s arbitrary: L' s' rule: retry.induct)
  case (2 jm jc E rs cache rq mode grp mdl n i L s)
  obtain r s1 where pick: "CacheGetRandomSatisfiedChannel (e_cfg (E (Suc i))) (rs (Suc i)) cache grp mdl (Suc i \<noteq> n) s = (r, s1)"
    by fastforce
  show ?case
  proof (cases r)
    case (Inl e)
    with 2 pick show ?thesis by simp
  next
    case (Inr c)
    let ?g = "SetupContextForSelectedChannel jm jc c mdl (lp_ctx L)"
    show ?thesis
    proof (cases "c_id c = lp_last L")
      case True
      from "2.IH"(1) [OF pick [symmetric] Inr True] "2.prems" pick Inr True show ?thesis by fastforce
    next
      case False
      obtain fin job s2 where h: "relayHelper (E (Suc i)) rq ?g mode s1 = ((fin, job), s2)" by (metis prod.exhaust)
      show ?thesis
      proof (cases "\<exists>e. fin = Returned (Some e)")
        case False
        then have "lp_fails L' = lp_fails L \<and> lp_jobs L' = lp_jobs L @ [job]"
          using "2.prems"(1) pick Inr \<open>c_id c \<noteq> lp_last L\<close> h by (cases fin) (auto simp: Let_def split: option.splits)
        with "2.prems" show ?thesis by auto
      next
        case True
        then obtain e where e: "fin = Returned (Some e)" by blast
        let ?L = "L\<lparr>lp_ctx := ?g, lp_jobs := lp_jobs L @ [job], lp_err := Some e, lp_last := c_id c,
          lp_fails := lp_fails L @ [(c_id c, e)]\<rparr>"
        have run: "retry jm jc E rs cache rq mode grp mdl n i ?L s2 = (L', s')"
          using "2.prems"(1) pick Inr False h e by (simp add: Let_def)
        have adj: "distinct_adj (map fst (lp_fails ?L))"
          using "2.prems"(2-4) False by (simp add: distinct_adj_append_iff last_map)
        show ?thesis
          using "2.IH"(2) [OF pick [symmetric] Inr False refl refl h [symmetric] refl e refl, of L' s'] run adj
          by auto
      qed
    qed
  qed
qed auto

text \<open>C17: A request is tried at most once more than the configured number of retries, never twice in a row
  on the same channel, and a request that names its channel is tried once. The first attempt is on the
  channel that was chosen for the request.\<close>

theorem relay_attempts:
  "let r = fst (Relay json_map json_config E rs cache rq g s) in
   length (ro_fails r) \<le> Suc (nat (RetryTimes (e_cfg (E 0)))) \<and>
   length (ro_jobs r) \<le> Suc (nat (RetryTimes (e_cfg (E 0)))) \<and>
   distinct_adj (map fst (ro_fails r)) \<and>
   (g_specific_channel g = None \<or> length (ro_jobs r) \<le> 1) \<and>
   (ro_fails r = [] \<or> fst (hd (ro_fails r)) = g_channel_id g)"
proof -
  obtain fin job s1 where h: "relayHelper (E 0) rq g (GetByPath (q_path rq)) s = ((fin, job), s1)" by (metis prod.exhaust)
  show ?thesis
  proof (cases "\<exists>e. fin = Returned (Some e)")
    case False
    then show ?thesis using h by (cases fin) (auto simp: Relay_def Let_def split: option.splits)
  next
    case True
    then obtain e where e: "fin = Returned (Some e)" by blast
    define n where "n = (if shouldRetry g (se_StatusCode e) then nat (RetryTimes (e_cfg (E 0))) else 0)"
    define L where "L = \<lparr>lp_ctx = g, lp_last = g_channel_id g, lp_err = Some e,
      lp_fails = [(g_channel_id g, e)], lp_jobs = [job], lp_panic = False\<rparr>"
    obtain L' s' where run: "retry json_map json_config E rs cache rq (GetByPath (q_path rq)) (g_group g) (g_original_model g) n n L s1 = (L', s')"
      by fastforce
    have "ro_fails (fst (Relay json_map json_config E rs cache rq g s)) = lp_fails L'"
      "ro_jobs (fst (Relay json_map json_config E rs cache rq g s)) = lp_jobs L'"
      using h e run by (simp_all add: Relay_def Let_def n_def [symmetric] L_def [symmetric])
    moreover have "g_specific_channel g = None \<or> n = 0" by (auto simp: n_def shouldRetry_def)
    moreover have "n \<le> nat (RetryTimes (e_cfg (E 0)))" by (simp add: n_def)
    ultimately show ?thesis using retry_fails [OF run] by (auto simp: L_def Let_def)
  qed
qed

section \<open>The cost of a request that fails\<close>

definition served_for :: "env \<Rightarrow> int \<Rightarrow> token \<Rightarrow> st \<Rightarrow> bool" where
  "served_for E i tok s \<longleftrightarrow> (\<exists>tok'. served E i tok' s \<and> t_user_id tok' = t_user_id tok \<and>
     t_unlimited_quota tok' = t_unlimited_quota tok)"

lemma served_for_cfg: "e_cfg E' = e_cfg E \<Longrightarrow> served_for E' i tok s = served_for E i tok s"
  by (simp add: served_for_def served_def)

lemma refund_settles:
  assumes "served_for E i tok s" and "0 \<le> pre" and "pre < 2 ^ 63"
  shows "pays i tok (- pre) s (ReturnPreConsumedQuota E pre i s) \<and> served_for E i tok (ReturnPreConsumedQuota E pre i s)"
proof (cases "pre = 0")
  case True
  then show ?thesis using assms(1) by (simp add: ReturnPreConsumedQuota_def)
next
  case False
  obtain tok' where t: "served E i tok' s" "t_user_id tok' = t_user_id tok" "t_unlimited_quota tok' = t_unlimited_quota tok"
    using assms(1) by (auto simp: served_for_def)
  have i: "int64 (- pre)" "int64 (- (- pre))" using assms(2,3) by (simp_all add: int64_def)
  have d: "\<not> BatchUpdateEnabled (e_cfg E)" and f: "db_faults s = []" and k: "\<not> redis_enabled s"
    and row: "token_row i s = Some tok'" and u: "find (\<lambda>u. u_id u = t_user_id tok') (users s) \<noteq> None"
    using t(1) by (simp_all add: served_def)
  have r: "ReturnPreConsumedQuota E pre i s = snd (PostConsumeTokenQuota (e_cfg E) (e_later E) i (- pre) s)"
    using False i(1) by (simp add: ReturnPreConsumedQuota_def)
  from PostConsume_direct [OF d f row i]
  have c: "charged (e_later E) i (- pre) tok' s (ReturnPreConsumedQuota E pre i s)" unfolding r by blast
  obtain tok2 where "token_row i (ReturnPreConsumedQuota E pre i s) = Some tok2" "t_user_id tok2 = t_user_id tok'"
      "t_unlimited_quota tok2 = t_unlimited_quota tok'" using charged_accounts(3) [OF c row u] by blast
  moreover have "find (\<lambda>u. u_id u = t_user_id tok') (users (ReturnPreConsumedQuota E pre i s)) \<noteq> None"
    using charged_accounts(4) [OF c row u] .
  ultimately have "served_for E i tok (ReturnPreConsumedQuota E pre i s)"
    using PostConsume_state [OF d f] d k t(2,3) unfolding served_for_def served_def r by auto
  moreover have "pays i tok (- pre) s (ReturnPreConsumedQuota E pre i s)"
    using served_PostConsume [OF t(1) i] pays_token [OF t(2,3)] unfolding r by simp
  ultimately show ?thesis by blast
qed

text \<open>The upstream service can be reached with whatever the attempt has read, and has no negative price.\<close>

definition reachable_text :: "env \<Rightarrow> request \<Rightarrow> ctx \<Rightarrow> bool" where
  "reachable_text E rq g \<longleftrightarrow> (\<forall>m q reset n. reads_text E rq g m q reset n \<longrightarrow> 0 \<le> estimate E m q \<and>
     (\<exists>a b resp. GetAdaptor (m_APIType m) = Some a \<and> getRequestBody E m q (e_ops E a) = Inr b \<and>
        op_DoRequest (e_ops E a) m b = Inr resp))"

lemma take_estimate_channels:
  assumes "served E i tok s" and "take_estimate E uid i est s = (r, s')"
  shows "channels s' = channels s \<and> abilities s' = abilities s"
proof -
  have d: "\<not> BatchUpdateEnabled (e_cfg E)" "db_faults s = []" "\<not> redis_enabled s" using assms(1) by (simp_all add: served_def)
  have pre: "channels (snd (PreConsumeTokenQuota (e_cfg E) now i q s)) = channels s \<and>
      abilities (snd (PreConsumeTokenQuota (e_cfg E) now i q s)) = abilities s" for now q
    using d
    by (cases "i = 0"; cases "find (\<lambda>t. t_id t = i) (tokens s)")
      (auto simp: PreConsumeTokenQuota_def GetTokenById_def GetUserQuota_def DecreaseTokenQuota_def
        decreaseTokenQuota_def DecreaseUserQuota_def decreaseUserQuota_def remind_quota_def Let_def)
  then show ?thesis
    using assms(2) d
    by (auto simp: take_estimate_def CacheGetUserQuota_def CacheDecreaseUserQuota_def GetUserQuota_def Let_def
        split: if_splits prod.splits option.splits) (metis snd_conv)+
qed

lemma attempt_failed:
  assumes "served_for E i tok s" and "g_token_id g = i" and "reachable_text E rq g"
    and "RelayTextHelper E rq g s = ((fin, job), s1)" and "fin \<noteq> Returned None"
  shows "\<exists>p. pays i tok p s s1 \<and> served_for E i tok s1 \<and> channels s1 = channels s \<and>
    (\<forall>s'. served_for E i tok s' \<longrightarrow> pays i tok (- p) s' (job s') \<and> served_for E i tok (job s'))"
proof (cases "\<exists>m q reset n. reads_text E rq g m q reset n")
  case False
  have "s1 = s \<and> job = id"
  proof (cases "GetByContext (e_now E) rq g")
    case (Some m)
    show ?thesis
    proof (cases "getAndValidateTextRequest E rq (m_Mode m)")
      case (Inr q)
      obtain m1 q1 r1 where p: "prepare_text m q = (m1, q1, r1)" by (metis prod.exhaust)
      then have "getPromptTokens E q1 (m_Mode m1) = None"
        using False Some Inr by (cases "getPromptTokens E q1 (m_Mode m1)") (auto simp: reads_text_def)
      then show ?thesis using assms(4) Some Inr p by (simp add: RelayTextHelper_def)
    qed (use assms(4) Some in \<open>simp add: RelayTextHelper_def\<close>)
  qed (use assms(4) in \<open>simp add: RelayTextHelper_def\<close>)
  then show ?thesis using assms(1) by (intro exI [of _ 0]) simp
next
  case True
  then obtain m q reset n where reads: "reads_text E rq g m q reset n" by blast
  have ids: "m_TokenId m = i" "m_UserId m = g_id g" using reads_text_ids [OF reads] assms(2) by simp_all
  from assms(3) reads obtain a b resp where pos: "0 \<le> estimate E m q"
    and up: "GetAdaptor (m_APIType m) = Some a" "getRequestBody E m q (e_ops E a) = Inr b"
      "op_DoRequest (e_ops E a) m b = Inr resp"
    unfolding reachable_text_def by blast
  obtain tok1 where t: "served E i tok1 s" "t_user_id tok1 = t_user_id tok" "t_unlimited_quota tok1 = t_unlimited_quota tok"
    using assms(1) by (auto simp: served_for_def)
  obtain pre r s2 where est: "take_estimate E (g_id g) i (estimate E m q) s = ((pre, r), s2)" by (metis prod.exhaust)
  note ch = take_estimate_channels [OF t(1) est]
  show ?thesis
  proof (cases r)
    case (Some e)
    then have "s2 = s" using take_estimate_refused [OF t(1)] est by blast
    then have "s1 = s \<and> job = id" using assms(4) Some unfolding RelayTextHelper_reads [OF reads] ids est by auto
    then show ?thesis using assms(1) by (intro exI [of _ 0]) simp
  next
    case None
    from take_estimate_taken [OF t(1) est [unfolded None] pos]
    have pre: "pays i tok1 pre s s2" "pre = 0 \<or> pre = estimate E m q" and s2: "served_for E i tok s2"
      using t(2,3) by (auto simp: served_for_def)
    have range: "0 \<le> pre" "pre < 2 ^ 63" using pre(2) pos estimate_below [of E m q] by auto
    have send: "send_text E m q reset pre = (fin, job)" "s1 = s2"
      using assms(4) None unfolding RelayTextHelper_reads [OF reads] ids est by auto
    have "job = ReturnPreConsumedQuota E pre i"
      using send(1) up ids assms(5) by (auto simp: send_text_def split: if_splits sum.splits)
    with pre(1) s2 ch pays_token [OF t(2,3)] refund_settles [OF _ range] send(2) show ?thesis by (intro exI [of _ pre]) auto
  qed
qed

text \<open>Goroutines that give back what their attempts took.\<close>

definition refunds :: "env \<Rightarrow> int \<Rightarrow> token \<Rightarrow> int \<Rightarrow> (st \<Rightarrow> st) \<Rightarrow> bool" where
  "refunds E i tok p job \<longleftrightarrow>
     (\<forall>s. served_for E i tok s \<longrightarrow> pays i tok (- p) s (job s) \<and> served_for E i tok (job s))"

lemma refunds_all:
  "list_all2 (refunds E i tok) ps js \<Longrightarrow> served_for E i tok s \<Longrightarrow>
    pays i tok (- sum_list ps) s (fold (\<lambda>job. job) js s)"
proof (induction ps js arbitrary: s rule: list_all2_induct)
  case (Cons p ps job js)
  then have "pays i tok (- p) s (job s)" "pays i tok (- sum_list ps) (job s) (fold (\<lambda>job. job) js (job s))"
    by (auto simp: refunds_def)
  from pays_trans [OF this] show ?case by simp
qed simp

text \<open>What the attempts have cost so far is what their goroutines will give back.\<close>

definition repaid :: "env \<Rightarrow> int \<Rightarrow> token \<Rightarrow> st \<Rightarrow> (st \<Rightarrow> st) list \<Rightarrow> st \<Rightarrow> bool" where
  "repaid E i tok s0 js s \<longleftrightarrow> served_for E i tok s \<and> channels s = channels s0 \<and>
     (\<exists>ps. list_all2 (refunds E i tok) ps js \<and> pays i tok (sum_list ps) s0 s)"

lemma repaid_start: "served_for E i tok s \<Longrightarrow> repaid E i tok s [] s"
  by (simp add: repaid_def)

lemma repaid_attempt:
  assumes "repaid E i tok s0 js s" and "e_cfg E' = e_cfg E" and "g_token_id g = i" and "reachable_text E' rq g"
    and "RelayTextHelper E' rq g s = ((fin, job), s1)" and "fin \<noteq> Returned None"
  shows "repaid E i tok s0 (js @ [job]) s1"
proof -
  note cfg = served_for_cfg [OF assms(2)]
  from assms(1) obtain ps where s: "served_for E' i tok s" "channels s = channels s0"
    and ps: "list_all2 (refunds E i tok) ps js" "pays i tok (sum_list ps) s0 s" by (auto simp: repaid_def cfg)
  from attempt_failed [OF s(1) assms(3-6)] obtain p where p: "pays i tok p s s1" "served_for E i tok s1"
    "channels s1 = channels s" "refunds E i tok p job" by (auto simp: refunds_def cfg)
  have "list_all2 (refunds E i tok) (ps @ [p]) (js @ [job])" using ps(1) p(4) by (simp add: list_all2_appendI)
  moreover have "pays i tok (sum_list (ps @ [p])) s0 s1" using pays_trans [OF ps(2) p(1)] by simp
  ultimately show ?thesis using p s(2) unfolding repaid_def by metis
qed

lemma chosen_channel:
  assumes "CacheGetRandomSatisfiedChannel cfg r cache grp mdl ign s = (res, s1)"
    and "\<not> MemoryCacheEnabled cfg" and "db_faults s = []"
  shows "s1 = s \<and> (\<forall>c. res = Inr c \<longrightarrow> c \<in> set (channels s))"
  using assms
  by (auto simp: CacheGetRandomSatisfiedChannel_def GetRandomSatisfiedChannel_def GetChannelById_def
      db_first_ok split: sum.splits prod.splits option.splits dest!: find_SomeD)

definition text_mode :: "int \<Rightarrow> bool" where
  "text_mode m \<longleftrightarrow> m \<notin> {mode_ImagesGenerations, mode_AudioSpeech, mode_AudioTranslation, mode_AudioTranscription, mode_Proxy}"

lemma relayHelper_text: "text_mode m \<Longrightarrow> relayHelper E rq g m s = RelayTextHelper E rq g s"
  by (simp add: relayHelper_def text_mode_def)

lemma retry_repaid:
  assumes "retry jm jc E rs cache rq mode grp mdl n i L s = (L', s')" and "text_mode mode"
    and "\<forall>k. e_cfg (E k) = cfg" and "\<not> MemoryCacheEnabled cfg" and "g_token_id (lp_ctx L) = tid"
    and "\<forall>k. \<forall>c \<in> set (channels s0). \<forall>g. g_token_id g = tid \<longrightarrow>
      reachable_text (E k) rq (SetupContextForSelectedChannel jm jc c mdl g)"
    and "repaid (E 0) tid tok s0 (lp_jobs L) s" and "\<not> lp_panic L" and "lp_panic L' \<or> lp_err L' \<noteq> None"
  shows "repaid (E 0) tid tok s0 (lp_jobs L') s'"
  using assms
proof (induction jm jc E rs cache rq mode grp mdl n i L s arbitrary: L' s' rule: retry.induct)
  case (2 jm jc E rs cache rq mode grp mdl n i L s)
  obtain r s1 where pick: "CacheGetRandomSatisfiedChannel (e_cfg (E (Suc i))) (rs (Suc i)) cache grp mdl (Suc i \<noteq> n) s = (r, s1)"
    by fastforce
  have "db_faults s = []" using "2.prems"(7) by (auto simp: repaid_def served_for_def served_def)
  from chosen_channel [OF pick _ this] "2.prems"(3,4,7)
  have s1: "s1 = s" and c: "\<And>c. r = Inr c \<Longrightarrow> c \<in> set (channels s0)" by (auto simp: repaid_def)
  show ?case
  proof (cases r)
    case (Inl e)
    with 2 pick s1 show ?thesis by simp
  next
    case (Inr c)
    let ?g = "SetupContextForSelectedChannel jm jc c mdl (lp_ctx L)"
    have g: "g_token_id ?g = tid" "reachable_text (E (Suc i)) rq ?g"
      using "2.prems"(5,6) \<open>\<And>c. r = Inr c \<Longrightarrow> c \<in> set (channels s0)\<close> [OF Inr]
      by (simp_all add: SetupContextForSelectedChannel_def Let_def split: option.splits)
    show ?thesis
    proof (cases "c_id c = lp_last L")
      case True
      from "2.IH"(1) [OF pick [symmetric] Inr True] "2.prems" pick Inr True s1 show ?thesis by simp
    next
      case False
      obtain fin job s2 where h: "relayHelper (E (Suc i)) rq ?g mode s = ((fin, job), s2)" by (metis prod.exhaust)
      have step: "repaid (E 0) tid tok s0 (lp_jobs L @ [job]) s2" if "fin \<noteq> Returned None"
        using repaid_attempt [OF "2.prems"(7) _ g h [unfolded relayHelper_text [OF "2.prems"(2)]] that] "2.prems"(3) by simp
      show ?thesis
      proof (cases "\<exists>e. fin = Returned (Some e)")
        case False
        then show ?thesis
          using "2.prems"(1,8,9) pick Inr \<open>c_id c \<noteq> lp_last L\<close> h s1 step
          by (cases fin) (auto simp: Let_def split: option.splits)
      next
        case True
        then obtain e where e: "fin = Returned (Some e)" by blast
        let ?L = "L\<lparr>lp_ctx := ?g, lp_jobs := lp_jobs L @ [job], lp_err := Some e, lp_last := g_channel_id ?g,
          lp_fails := lp_fails L @ [(g_channel_id ?g, e)]\<rparr>"
        have run: "retry jm jc E rs cache rq mode grp mdl n i ?L s2 = (L', s')"
          using "2.prems"(1) pick Inr False h e s1 by (simp add: Let_def)
        show ?thesis
          using "2.IH"(2) [OF pick [symmetric] Inr False refl refl h [folded s1, symmetric] refl e refl, of L' s']
            run step g(1) e "2.prems"(2-4,6,8,9) by simp
      qed
    qed
  qed
qed simp

lemma repaid_any_order:
  assumes "repaid E i tok s0 js s" and "mset js' = mset js"
  shows "pays i tok 0 s0 (fold (\<lambda>job. job) js' s)"
proof -
  from assms(1) obtain ps where s: "served_for E i tok s"
    and "list_all2 (refunds E i tok) ps js" and ps: "pays i tok (sum_list ps) s0 s"
    by (auto simp: repaid_def)
  then have swap: "list_all2 (\<lambda>job p. refunds E i tok p job) js ps" by (simp add: list_all2_conv_all_nth)
  from list_all2_reorder_left_invariance [OF swap assms(2)] obtain ps' where
    ps': "list_all2 (\<lambda>job p. refunds E i tok p job) js' ps'" "mset ps' = mset ps" by blast
  then have "sum_list ps' = sum_list ps" by (metis sum_mset_sum_list)
  moreover have "list_all2 (refunds E i tok) ps' js'" using ps'(1) by (auto simp: list_all2_conv_all_nth)
  ultimately show ?thesis using pays_trans [OF ps] refunds_all [OF _ s, of ps' js'] by fastforce
qed

lemma Relay_repaid:
  assumes "served_for (E 0) (g_token_id g) tok s" and "\<forall>k. e_cfg (E k) = cfg" and "\<not> MemoryCacheEnabled cfg"
    and "text_mode (GetByPath (q_path rq))" and "reachable_text (E 0) rq g"
    and "\<forall>k. \<forall>c \<in> set (channels s). \<forall>g'. g_token_id g' = g_token_id g \<longrightarrow>
      reachable_text (E k) rq (SetupContextForSelectedChannel jm jc c (g_original_model g) g')"
    and "Relay jm jc E rs cache rq g s = (r, s1)" and "ro_answer r \<noteq> Answered"
  shows "repaid (E 0) (g_token_id g) tok s (ro_jobs r) s1"
proof -
  obtain fin job s2 where h: "relayHelper (E 0) rq g (GetByPath (q_path rq)) s = ((fin, job), s2)" by (metis prod.exhaust)
  have first: "repaid (E 0) (g_token_id g) tok s [job] s2" if "fin \<noteq> Returned None"
    using repaid_attempt [OF repaid_start [OF assms(1)] refl refl assms(5) h [unfolded relayHelper_text [OF assms(4)]] that]
    by simp
  show ?thesis
  proof (cases "\<exists>e. fin = Returned (Some e)")
    case False
    then show ?thesis using assms(7,8) h first
      by (cases fin) (auto simp: Relay_def Let_def split: option.splits)
  next
    case True
    then obtain e where e: "fin = Returned (Some e)" by blast
    define n where "n = (if shouldRetry g (se_StatusCode e) then nat (RetryTimes (e_cfg (E 0))) else 0)"
    define L where "L = \<lparr>lp_ctx = g, lp_last = g_channel_id g, lp_err = Some e,
      lp_fails = [(g_channel_id g, e)], lp_jobs = [job], lp_panic = False\<rparr>"
    obtain L' s3 where run: "retry jm jc E rs cache rq (GetByPath (q_path rq)) (g_group g) (g_original_model g) n n L s2 = (L', s3)"
      by fastforce
    have out: "ro_jobs r = lp_jobs L'" "s1 = s3" "ro_answer r =
        (if lp_panic L' then Crashed else case lp_err L' of None \<Rightarrow> Answered | Some e \<Rightarrow> final_error rq e)"
      using assms(7) h e run by (auto simp: Relay_def Let_def n_def [symmetric] L_def [symmetric])
    have "lp_panic L' \<or> lp_err L' \<noteq> None" using assms(8) out(3) by (cases "lp_panic L'") (auto split: option.splits)
    with retry_repaid [OF run assms(4,2,3) _ assms(6)] first e out show ?thesis by (simp add: L_def)
  qed
qed


lemma lab_reachable: "reachable_text (lab_env (Inr resp)) lab_rq lab_ctx"
proof -
  have "m = lab_meta \<and> q = lab_request" if "reads_text (lab_env (Inr resp)) lab_rq lab_ctx m q reset n" for m q reset n
    using that lab_reads [of "Inr resp"] by (auto simp: reads_text_def split: option.splits sum.splits prod.splits)
  moreover have "0 \<le> estimate (lab_env (Inr resp)) lab_meta lab_request \<and>
      (\<exists>a b r. GetAdaptor (m_APIType lab_meta) = Some a \<and>
        getRequestBody (lab_env (Inr resp)) lab_meta lab_request (e_ops (lab_env (Inr resp)) a) = Inr b \<and>
        op_DoRequest (e_ops (lab_env (Inr resp)) a) lab_meta b = Inr r)"
    by (simp add: lab_estimate lab_adaptor lab_body lab_upstream)
  ultimately show ?thesis unfolding reachable_text_def by blast
qed


end
