(* ===== verification/OAuth.thy ===== *)
theory OAuth
  imports Dispatch
begin

text \<open>
  Signing in through GitHub, Lark (Feishu) and OpenID Connect: \<^verbatim>\<open>controller/auth\<close>. Each callback first
  compares the random state in the query with the one in the session, asks the provider who the code
  belongs to, and then signs in the account that has this identity, registers a new one, or, in a
  session that is already signed in, binds the identity to its account.

  What the three share is stated once: the locale \<open>identity_provider\<close> is what \<^verbatim>\<open>model/user.go\<close> promises of
  the lookup of an identity, and each provider is an interpretation of it.
\<close>

section \<open>The providers\<close>

text \<open>The answer to a request: no connection, another error with its message, or what was decoded.\<close>

datatype 'a http_answer = Unreachable | Broken string | Decoded 'a

record GitHubUser =
  gh_Login :: string
  gh_Name :: string
  gh_Email :: string

record LarkUser =
  lk_Name :: string
  lk_OpenID :: string

record OidcUser =
  od_OpenID :: string
  od_Email :: string
  od_Name :: string
  od_PreferredUsername :: string
  od_Picture :: string

text \<open>Posting values to an address gives an access token; with it the user is read from another address.\<close>

record oauth_http =
  ht_post :: "string \<Rightarrow> (string \<times> string) list \<Rightarrow> string http_answer"
  ht_github :: "string \<Rightarrow> string \<Rightarrow> GitHubUser http_answer"
  ht_lark :: "string \<Rightarrow> string \<Rightarrow> LarkUser http_answer"
  ht_oidc :: "string \<Rightarrow> string \<Rightarrow> OidcUser http_answer"

text \<open>The messages, as bytes.\<close>

definition invalid_code :: string where
  "invalid_code =
    utf8 [0xE6, 0x97, 0xA0, 0xE6, 0x95, 0x88, 0xE7, 0x9A, 0x84, 0xE5, 0x8F, 0x82, 0xE6, 0x95, 0xB0]"

definition oidc_unreachable :: string where
  "oidc_unreachable =
    utf8 [0xE6, 0x97, 0xA0, 0xE6, 0xB3, 0x95, 0xE8, 0xBF, 0x9E, 0xE6, 0x8E, 0xA5, 0xE8, 0x87, 0xB3, 0x20,
      0x4F, 0x49, 0x44, 0x43, 0x20, 0xE6, 0x9C, 0x8D, 0xE5, 0x8A, 0xA1, 0xE5, 0x99, 0xA8, 0xEF, 0xBC,
      0x8C, 0xE8, 0xAF, 0xB7, 0xE7, 0xA8, 0x8D, 0xE5, 0x90, 0x8E, 0xE9, 0x87, 0x8D, 0xE8, 0xAF, 0x95,
      0xEF, 0xBC, 0x81]"

definition oidc_off :: string where
  "oidc_off =
    utf8 [0xE7, 0xAE, 0xA1, 0xE7, 0x90, 0x86, 0xE5, 0x91, 0x98, 0xE6, 0x9C, 0xAA, 0xE5, 0xBC, 0x80, 0xE5,
      0x90, 0xAF, 0xE9, 0x80, 0x9A, 0xE8, 0xBF, 0x87, 0x20, 0x4F, 0x49, 0x44, 0x43, 0x20, 0xE7, 0x99,
      0xBB, 0xE5, 0xBD, 0x95, 0xE4, 0xBB, 0xA5, 0xE5, 0x8F, 0x8A, 0xE6, 0xB3, 0xA8, 0xE5, 0x86, 0x8C]"

definition registration_closed :: string where
  "registration_closed =
    utf8 [0xE7, 0xAE, 0xA1, 0xE7, 0x90, 0x86, 0xE5, 0x91, 0x98, 0xE5, 0x85, 0xB3, 0xE9, 0x97, 0xAD, 0xE4,
      0xBA, 0x86, 0xE6, 0x96, 0xB0, 0xE7, 0x94, 0xA8, 0xE6, 0x88, 0xB7, 0xE6, 0xB3, 0xA8, 0xE5, 0x86,
      0x8C]"

definition user_banned :: string where
  "user_banned =
    utf8 [0xE7, 0x94, 0xA8, 0xE6, 0x88, 0xB7, 0xE5, 0xB7, 0xB2, 0xE8, 0xA2, 0xAB, 0xE5, 0xB0, 0x81, 0xE7,
      0xA6, 0x81]"

definition oidc_bound :: string where
  "oidc_bound =
    utf8 [0xE8, 0xAF, 0xA5, 0x20, 0x4F, 0x49, 0x44, 0x43, 0x20, 0xE8, 0xB4, 0xA6, 0xE6, 0x88, 0xB7, 0xE5,
      0xB7, 0xB2, 0xE8, 0xA2, 0xAB, 0xE7, 0xBB, 0x91, 0xE5, 0xAE, 0x9A]"

definition lark_unreachable :: string where
  "lark_unreachable =
    utf8 [0xE6, 0x97, 0xA0, 0xE6, 0xB3, 0x95, 0xE8, 0xBF, 0x9E, 0xE6, 0x8E, 0xA5, 0xE8, 0x87, 0xB3, 0xE9,
      0xA3, 0x9E, 0xE4, 0xB9, 0xA6, 0xE6, 0x9C, 0x8D, 0xE5, 0x8A, 0xA1, 0xE5, 0x99, 0xA8, 0xEF, 0xBC,
      0x8C, 0xE8, 0xAF, 0xB7, 0xE7, 0xA8, 0x8D, 0xE5, 0x90, 0x8E, 0xE9, 0x87, 0x8D, 0xE8, 0xAF, 0x95,
      0xEF, 0xBC, 0x81]"

definition lark_bound :: string where
  "lark_bound =
    utf8 [0xE8, 0xAF, 0xA5, 0xE9, 0xA3, 0x9E, 0xE4, 0xB9, 0xA6, 0xE8, 0xB4, 0xA6, 0xE6, 0x88, 0xB7, 0xE5,
      0xB7, 0xB2, 0xE8, 0xA2, 0xAB, 0xE7, 0xBB, 0x91, 0xE5, 0xAE, 0x9A]"

text \<open>The two requests, one after the other.\<close>

definition exchange :: "string \<Rightarrow> string http_answer \<Rightarrow> (string \<Rightarrow> 'a http_answer) \<Rightarrow> string + 'a" where
  "exchange unreachable tok info =
     (case tok of
        Unreachable \<Rightarrow> Inl unreachable
      | Broken e \<Rightarrow> Inl e
      | Decoded access \<Rightarrow>
          (case info access of Unreachable \<Rightarrow> Inl unreachable | Broken e \<Rightarrow> Inl e | Decoded u \<Rightarrow> Inr u))"

definition getGitHubUserInfoByCode :: "config \<Rightarrow> oauth_http \<Rightarrow> string \<Rightarrow> string + GitHubUser" where
  "getGitHubUserInfoByCode cfg h code =
     (if code = '''' then Inl ''Invalid parameter''
      else case exchange ''Cannot connect to GitHub server, please try again later!''
          (ht_post h ''https://github.com/login/oauth/access_token''
            [(''client_id'', GitHubClientId cfg), (''client_secret'', GitHubClientSecret cfg), (''code'', code)])
          (ht_github h ''https://api.github.com/user'') of
        Inl e \<Rightarrow> Inl e
      | Inr u \<Rightarrow> (if gh_Login u = '''' then Inl ''Invalid response, user field is empty, please try again later!'' else Inr u))"

definition getLarkUserInfoByCode :: "config \<Rightarrow> oauth_http \<Rightarrow> string \<Rightarrow> string + LarkUser" where
  "getLarkUserInfoByCode cfg h code =
     (if code = '''' then Inl invalid_code
      else exchange lark_unreachable
        (ht_post h ''https://open.feishu.cn/open-apis/authen/v2/oauth/token''
          [(''client_id'', LarkClientId cfg), (''client_secret'', LarkClientSecret cfg), (''code'', code),
           (''grant_type'', ''authorization_code''), (''redirect_uri'', ServerAddress cfg @ ''/oauth/lark'')])
        (ht_lark h ''https://passport.feishu.cn/suite/passport/oauth/userinfo''))"

definition getOidcUserInfoByCode :: "config \<Rightarrow> oauth_http \<Rightarrow> string \<Rightarrow> string + OidcUser" where
  "getOidcUserInfoByCode cfg h code =
     (if code = '''' then Inl invalid_code
      else exchange oidc_unreachable
        (ht_post h (OidcTokenEndpoint cfg)
          [(''client_id'', OidcClientId cfg), (''client_secret'', OidcClientSecret cfg), (''code'', code),
           (''grant_type'', ''authorization_code''), (''redirect_uri'', ServerAddress cfg @ ''/oauth/oidc'')])
        (ht_oidc h (OidcUserinfoEndpoint cfg)))"


section \<open>What the callbacks share\<close>

text \<open>The query of a callback, and whether its state is the one of the session.\<close>

record oauth_request =
  oq_state :: string
  oq_code :: string
  oq_source :: string
  oq_session_id :: string

definition state_ok :: "oauth_request \<Rightarrow> string option \<Rightarrow> bool" where
  "state_ok rq stored \<longleftrightarrow> oq_state rq \<noteq> '''' \<and> stored = Some (oq_state rq)"

datatype oauth_answer = Bound "unit reply" | SignedIn "user response"

text \<open>The struct after its insertion: gorm writes the key and the defaults back.\<close>

definition inserted_user :: "config \<Rightarrow> ext \<Rightarrow> int \<Rightarrow> user \<Rightarrow> user" where
  "inserted_user cfg x uid u = stored_user uid (new_row cfg x '''' u)"

text \<open>The account with the identity, or a new one; it has no password.\<close>

definition find_or_register ::
    "config \<Rightarrow> ext \<Rightarrow> (st \<Rightarrow> bool \<times> st) \<Rightarrow> (st \<Rightarrow> (string + user) \<times> st) \<Rightarrow> (st \<Rightarrow> user \<times> st) \<Rightarrow> string \<Rightarrow>
     st \<Rightarrow> (string + user) \<times> st" where
  "find_or_register cfg x taken_by fill new refusal s =
     (case taken_by s of
        (True, s) \<Rightarrow> fill s
      | (False, s) \<Rightarrow>
          (if RegisterEnabled cfg then
             (case new s of
                (u, s) \<Rightarrow>
                  (case Insert_user cfg x 0 u s of
                     (Inl e, s) \<Rightarrow> (Inl e, s)
                   | (Inr uid, s) \<Rightarrow> (Inr (inserted_user cfg x uid u), s)))
           else (Inl refusal, s)))"

definition sign_in ::
    "ext \<Rightarrow> bool \<Rightarrow> oauth_request \<Rightarrow> string \<Rightarrow> (string + user) \<times> st \<Rightarrow> cookie option \<Rightarrow> vstore \<Rightarrow>
     oauth_answer \<times> cookie option \<times> vstore \<times> st" where
  "sign_in x saved rq banned found ck v =
     (case found of
        (Inl e, s) \<Rightarrow> (SignedIn (Json (Failure e)), ck, v, s)
      | (Inr u, s) \<Rightarrow>
          (if u_status u \<noteq> UserStatusEnabled then (SignedIn (Json (Failure banned)), ck, v, s)
           else case SetupLogin saved (x_now x) (oq_source rq) (oq_session_id rq) u ck v s of
             (r, ck, v, s) \<Rightarrow> (SignedIn r, ck, v, s)))"

text \<open>Binding writes the whole row of the session's account back.\<close>

definition bind_identity ::
    "ext \<Rightarrow> (st \<Rightarrow> bool \<times> st) \<Rightarrow> string \<Rightarrow> user \<Rightarrow> (user \<Rightarrow> user) \<Rightarrow> cookie \<Rightarrow> st \<Rightarrow> unit reply \<times> st" where
  "bind_identity x taken_by bound u put k s =
     (case taken_by s of
        (True, s) \<Rightarrow> (Failure bound, s)
      | (False, s) \<Rightarrow>
          (case FillUserById (u\<lparr>u_id := k_id k\<rparr>) s of
             (Inl e, s) \<Rightarrow> (Failure e, s)
           | (Inr u, s) \<Rightarrow>
               (case Update_user x False (put u) s of
                  (Some e, s) \<Rightarrow> (Failure e, s)
                | (None, s) \<Rightarrow> (Success (), s))))"


section \<open>GitHub\<close>

definition GitHubBind :: "config \<Rightarrow> ext \<Rightarrow> oauth_http \<Rightarrow> oauth_request \<Rightarrow> cookie \<Rightarrow> st \<Rightarrow> unit reply \<times> st" where
  "GitHubBind cfg x h rq k s =
     (if \<not> GitHubOAuthEnabled cfg
      then (Failure ''Administrator has not enabled GitHub login and registration'', s)
      else case getGitHubUserInfoByCode cfg h (oq_code rq) of
        Inl e \<Rightarrow> (Failure e, s)
      | Inr g \<Rightarrow>
          bind_identity x (IsGitHubIdAlreadyTaken (gh_Login g)) ''This GitHub account is already bound''
            (zero_user\<lparr>u_github_id := gh_Login g\<rparr>) (\<lambda>u. u\<lparr>u_github_id := gh_Login g\<rparr>) k s)"

definition github_newcomer :: "GitHubUser \<Rightarrow> st \<Rightarrow> user \<times> st" where
  "github_newcomer g s =
     (case GetMaxUserId s of
        (n, s) \<Rightarrow>
          (zero_user\<lparr>u_github_id := gh_Login g, u_username := ''github_'' @ Itoa (wrap64 (n + 1)),
             u_display_name := or_default (gh_Name g) ''GitHub User'', u_email := gh_Email g,
             u_role := RoleCommonUser, u_status := UserStatusEnabled\<rparr>, s))"

definition GitHubOAuth ::
    "config \<Rightarrow> ext \<Rightarrow> oauth_http \<Rightarrow> bool \<Rightarrow> oauth_request \<Rightarrow> string option \<Rightarrow> cookie option \<Rightarrow> vstore \<Rightarrow> st \<Rightarrow>
     oauth_answer \<times> cookie option \<times> vstore \<times> st" where
  "GitHubOAuth cfg x h saved rq stored ck v s =
     (if \<not> state_ok rq stored then (SignedIn (Json (Failure ''state is empty or not same'')), ck, v, s)
      else case ck of
        Some k \<Rightarrow> (case GitHubBind cfg x h rq k s of (r, s) \<Rightarrow> (Bound r, ck, v, s))
      | None \<Rightarrow>
          (if \<not> GitHubOAuthEnabled cfg
           then (SignedIn (Json (Failure ''Administrator has not enabled GitHub login and registration'')), ck, v, s)
           else case getGitHubUserInfoByCode cfg h (oq_code rq) of
             Inl e \<Rightarrow> (SignedIn (Json (Failure e)), ck, v, s)
           | Inr g \<Rightarrow>
               sign_in x saved rq ''User has been banned''
                 (find_or_register cfg x (IsGitHubIdAlreadyTaken (gh_Login g))
                    (FillUserByGitHubId (zero_user\<lparr>u_github_id := gh_Login g\<rparr>)) (github_newcomer g)
                    ''Administrator has disabled new user registration'' s) ck v))"


section \<open>Lark\<close>

definition LarkBind :: "config \<Rightarrow> ext \<Rightarrow> oauth_http \<Rightarrow> oauth_request \<Rightarrow> cookie \<Rightarrow> st \<Rightarrow> unit reply \<times> st" where
  "LarkBind cfg x h rq k s =
     (case getLarkUserInfoByCode cfg h (oq_code rq) of
        Inl e \<Rightarrow> (Failure e, s)
      | Inr l \<Rightarrow>
          bind_identity x (IsLarkIdAlreadyTaken (lk_OpenID l)) lark_bound
            (zero_user\<lparr>u_lark_id := lk_OpenID l\<rparr>) (\<lambda>u. u\<lparr>u_lark_id := lk_OpenID l\<rparr>) k s)"

definition lark_newcomer :: "LarkUser \<Rightarrow> st \<Rightarrow> user \<times> st" where
  "lark_newcomer l s =
     (case GetMaxUserId s of
        (n, s) \<Rightarrow>
          (zero_user\<lparr>u_lark_id := lk_OpenID l, u_username := ''lark_'' @ Itoa (wrap64 (n + 1)),
             u_display_name := or_default (lk_Name l) ''Lark User'', u_role := RoleCommonUser,
             u_status := UserStatusEnabled\<rparr>, s))"

definition LarkOAuth ::
    "config \<Rightarrow> ext \<Rightarrow> oauth_http \<Rightarrow> bool \<Rightarrow> oauth_request \<Rightarrow> string option \<Rightarrow> cookie option \<Rightarrow> vstore \<Rightarrow> st \<Rightarrow>
     oauth_answer \<times> cookie option \<times> vstore \<times> st" where
  "LarkOAuth cfg x h saved rq stored ck v s =
     (if \<not> state_ok rq stored then (SignedIn (Json (Failure ''state is empty or not same'')), ck, v, s)
      else case ck of
        Some k \<Rightarrow> (case LarkBind cfg x h rq k s of (r, s) \<Rightarrow> (Bound r, ck, v, s))
      | None \<Rightarrow>
          (case getLarkUserInfoByCode cfg h (oq_code rq) of
             Inl e \<Rightarrow> (SignedIn (Json (Failure e)), ck, v, s)
           | Inr l \<Rightarrow>
               sign_in x saved rq user_banned
                 (find_or_register cfg x (IsLarkIdAlreadyTaken (lk_OpenID l))
                    (FillUserByLarkId (zero_user\<lparr>u_lark_id := lk_OpenID l\<rparr>)) (lark_newcomer l)
                    registration_closed s) ck v))"


section \<open>OpenID Connect\<close>

definition OidcBind :: "config \<Rightarrow> ext \<Rightarrow> oauth_http \<Rightarrow> oauth_request \<Rightarrow> cookie \<Rightarrow> st \<Rightarrow> unit reply \<times> st" where
  "OidcBind cfg x h rq k s =
     (if \<not> OidcEnabled cfg then (Failure oidc_off, s)
      else case getOidcUserInfoByCode cfg h (oq_code rq) of
        Inl e \<Rightarrow> (Failure e, s)
      | Inr d \<Rightarrow>
          bind_identity x (IsOidcIdAlreadyTaken (od_OpenID d)) oidc_bound
            (zero_user\<lparr>u_oidc_id := od_OpenID d\<rparr>) (\<lambda>u. u\<lparr>u_oidc_id := od_OpenID d\<rparr>) k s)"

text \<open>The role and the status are left to the defaults of the schema.\<close>

definition oidc_newcomer :: "OidcUser \<Rightarrow> st \<Rightarrow> user \<times> st" where
  "oidc_newcomer d s =
     (let u = zero_user\<lparr>u_oidc_id := od_OpenID d, u_email := od_Email d,
            u_display_name := or_default (od_Name d) ''OIDC User''\<rparr>
      in if od_PreferredUsername d \<noteq> '''' then (u\<lparr>u_username := od_PreferredUsername d\<rparr>, s)
         else case GetMaxUserId s of (n, s) \<Rightarrow> (u\<lparr>u_username := ''oidc_'' @ Itoa (wrap64 (n + 1))\<rparr>, s))"

definition OidcAuth ::
    "config \<Rightarrow> ext \<Rightarrow> oauth_http \<Rightarrow> bool \<Rightarrow> oauth_request \<Rightarrow> string option \<Rightarrow> cookie option \<Rightarrow> vstore \<Rightarrow> st \<Rightarrow>
     oauth_answer \<times> cookie option \<times> vstore \<times> st" where
  "OidcAuth cfg x h saved rq stored ck v s =
     (if \<not> state_ok rq stored then (SignedIn (Json (Failure ''state is empty or not same'')), ck, v, s)
      else case ck of
        Some k \<Rightarrow> (case OidcBind cfg x h rq k s of (r, s) \<Rightarrow> (Bound r, ck, v, s))
      | None \<Rightarrow>
          (if \<not> OidcEnabled cfg then (SignedIn (Json (Failure oidc_off)), ck, v, s)
           else case getOidcUserInfoByCode cfg h (oq_code rq) of
             Inl e \<Rightarrow> (SignedIn (Json (Failure e)), ck, v, s)
           | Inr d \<Rightarrow>
               sign_in x saved rq user_banned
                 (find_or_register cfg x (IsOidcIdAlreadyTaken (od_OpenID d))
                    (FillUserByOidcId (zero_user\<lparr>u_oidc_id := od_OpenID d\<rparr>)) (oidc_newcomer d)
                    registration_closed s) ck v))"


section \<open>The state of a session\<close>

text \<open>A random state is put into the session; when the session cannot be saved the cookie stays as it was.\<close>

definition GenerateOAuthCode :: "string \<Rightarrow> string option \<Rightarrow> string option \<Rightarrow> string reply \<times> string option" where
  "GenerateOAuthCode random save_error stored =
     (case save_error of Some e \<Rightarrow> (Failure e, stored) | None \<Rightarrow> (Success random, Some random))"

section \<open>Frames\<close>

lemma taken_users: "taken P s = (b, s') \<Longrightarrow> users s' = users s"
  by (auto simp: taken_def split: prod.splits sum.splits dest!: db_find_Inl db_find_Inr)

lemma taken_ok: "db_faults s = [] \<Longrightarrow> taken P s = (\<exists>u \<in> set (users s). P u, s)"
  by (simp add: taken_def)

lemma Insert_user_appends:
  assumes "Insert_user cfg x 0 u s = (Inr uid, s')" and "u_password u = ''''"
  shows "users s' = users s @ [stored_user uid (new_row cfg x '''' u)]"
proof -
  obtain e s1 where c: "create_user (new_row cfg x '''' u) s = (e, s1)" by fastforce
  from assms have e: "e = None" and uid: "uid = next_id s"
    by (auto simp: Insert_user_def insert_hash_def c Let_def split: option.splits)
  from c e have "users s1 = users s @ [stored_user (next_id s) (new_row cfg x '''' u)]"
    by (auto simp: create_user_def db_try_def Let_def split: prod.splits sum.splits if_splits dest!: db_find_Inl db_find_Inr)
  then show ?thesis using assms c e uid by (auto simp: Insert_user_def insert_hash_def Let_def)
qed

lemma Update_token_users: "users (snd (Update_token t s)) = users s"
  by (cases "db_faults s") (auto simp: Update_token_def db_exec_def split: option.splits)

lemma default_token_users: "GetOrCreateUserDefaultToken uid name s = (r, s') \<Longrightarrow> users s' = users s"
  by (auto simp: GetOrCreateUserDefaultToken_def Let_def Update_token_users
      split: if_splits prod.splits sum.splits option.splits list.splits
      dest!: db_find_Inl db_find_Inr db_first_Inl db_first_Inr)

lemma SetupLogin_users: "SetupLogin saved now src sid u ck v s = (r, ck', v', s') \<Longrightarrow> users s' = users s"
  by (auto simp: SetupLogin_def completeVSCodeAuth_def Let_def
      split: if_splits prod.splits sum.splits option.splits dest!: default_token_users)


section \<open>What the model of accounts promises of an identity\<close>

locale identity_provider =
  fixes ident :: "user \<Rightarrow> string" and set_ident :: "string \<Rightarrow> user \<Rightarrow> user"
    and Taken :: "string \<Rightarrow> st \<Rightarrow> bool \<times> st" and Fill :: "user \<Rightarrow> st \<Rightarrow> (string + user) \<times> st"
  assumes taken_frame: "Taken i s = (b, s') \<Longrightarrow> users s' = users s"
    and taken_law: "db_faults s = [] \<Longrightarrow> Taken i s = (\<exists>u \<in> set (users s). ident u = i, s)"
    and fill_law: "Fill u s = (Inr r, s') \<Longrightarrow> users s' = users s \<and> (r = u \<or> r \<in> set (users s) \<and> ident r = ident u \<and> ident u \<noteq> '''')"
    and fill_frame: "Fill u s = (Inl e, s') \<Longrightarrow> users s' = users s"
    and ident_set: "ident (set_ident i u) = i"
    and status_set: "u_status (set_ident i u) = u_status u"
    and ident_stored: "ident (stored_user n (new_row cfg x p u)) = ident u"
begin

text \<open>A newcomer has this identity and no privilege.\<close>

definition newcomer :: "string \<Rightarrow> (st \<Rightarrow> user \<times> st) \<Rightarrow> bool" where
  "newcomer i new \<longleftrightarrow> (\<forall>s u s'. new s = (u, s') \<longrightarrow> users s' = users s \<and> ident u = i \<and> u_password u = '''' \<and>
     (u_role u = 0 \<or> u_role u = RoleCommonUser))"

lemma registered:
  assumes "find_or_register cfg x (Taken i) (Fill (set_ident i zero_user)) new refusal s = (found, s')" and "newcomer i new"
  shows "users s' = users s \<or> RegisterEnabled cfg \<and> (\<exists>u. users s' = users s @ [u] \<and> ident u = i \<and> u_role u = RoleCommonUser)"
proof -
  obtain b s1 where t: "Taken i s = (b, s1)" by fastforce
  obtain u0 s2 where n: "new s1 = (u0, s2)" by fastforce
  have n2: "users s2 = users s" "ident u0 = i" "u_role u0 = 0 \<or> u_role u0 = RoleCommonUser"
    using assms(2) n taken_frame [OF t] by (auto simp: newcomer_def)
  have "users (snd (Insert_user cfg x 0 u0 s2)) = users s2 \<or>
      (\<exists>u. users (snd (Insert_user cfg x 0 u0 s2)) = users s2 @ [u] \<and> ident u = i \<and> u_role u = RoleCommonUser)"
    using Insert_user_users [of cfg x u0 s2] n2 by (auto simp: ident_stored) (auto simp: stored_user_def new_row_def)
  moreover have "users s' = users s1" if b
    using assms(1) t that fill_law [of _ s1] fill_frame [of _ s1] by (cases found) (auto simp: find_or_register_def)
  moreover have "RegisterEnabled cfg \<and> users s' = users (snd (Insert_user cfg x 0 u0 s2)) \<or> users s' = users s1" if "\<not> b"
    using assms(1) t n that by (auto simp: find_or_register_def split: if_splits prod.splits sum.splits)
  ultimately show ?thesis using n2 taken_frame [OF t] by (cases b) auto
qed

lemma found_account:
  assumes "find_or_register cfg x (Taken i) (Fill (set_ident i zero_user)) new refusal s = (Inr u, s')" and "newcomer i new"
    and "u_status u = UserStatusEnabled"
  shows "ident u = i \<and> (u \<in> set (users s) \<and> users s' = users s \<and> i \<noteq> '''' \<or>
    RegisterEnabled cfg \<and> users s' = users s @ [u] \<and> u_role u = RoleCommonUser)"
proof -
  obtain b s1 where t: "Taken i s = (b, s1)" by fastforce
  note f = taken_frame [OF t]
  show ?thesis
  proof (cases b)
    case True
    then have "Fill (set_ident i zero_user) s1 = (Inr u, s')" using assms(1) t by (simp add: find_or_register_def)
    moreover have "u \<noteq> set_ident i zero_user" using assms(3) by (auto simp: status_set zero_user_def)
    ultimately show ?thesis using fill_law [of "set_ident i zero_user" s1 u s'] f by (auto simp: ident_set)
  next
    case False
    obtain u0 s2 where n: "new s1 = (u0, s2)" by fastforce
    have n2: "users s2 = users s" "ident u0 = i" "u_password u0 = ''''" "u_role u0 = 0 \<or> u_role u0 = RoleCommonUser"
      using assms(2) n f by (auto simp: newcomer_def)
    obtain uid where ins: "Insert_user cfg x 0 u0 s2 = (Inr uid, s')" and u: "u = inserted_user cfg x uid u0" and "RegisterEnabled cfg"
      using assms(1) t n False by (auto simp: find_or_register_def split: if_splits prod.splits sum.splits)
    then show ?thesis
      using Insert_user_appends [OF ins n2(3)] n2 by (auto simp: inserted_user_def ident_stored) (auto simp: stored_user_def new_row_def)
  qed
qed

text \<open>With a database that answers, only a new identity is registered or bound.\<close>

lemma registered_new:
  assumes "find_or_register cfg x (Taken i) (Fill (set_ident i zero_user)) new refusal s = (found, s')" and "newcomer i new"
    and "db_faults s = []"
  shows "users s' = users s \<or> (\<exists>u0 n p s2. new s = (u0, s2) \<and> users s' = users s @ [stored_user n (new_row cfg x p u0)] \<and>
    (\<forall>w \<in> set (users s). ident w \<noteq> i))"
proof (cases "\<exists>w \<in> set (users s). ident w = i")
  case True
  then have "Fill (set_ident i zero_user) s = (found, s')" using assms(1,3) by (simp add: find_or_register_def taken_law)
  then show ?thesis using fill_law [of _ s] fill_frame [of _ s] by (cases found) auto
next
  case False
  obtain u0 s2 where n: "new s = (u0, s2)" by fastforce
  have "users s' = users (snd (Insert_user cfg x 0 u0 s2)) \<or> users s' = users s"
    using assms(1,3) False n by (auto simp: find_or_register_def taken_law split: if_splits prod.splits sum.splits)
  moreover have "users s2 = users s" using assms(2) n by (auto simp: newcomer_def)
  ultimately show ?thesis using Insert_user_users [of cfg x u0 s2] False n by metis
qed

lemma bound_new:
  assumes "bind_identity x (Taken i) bound (set_ident i zero_user) (set_ident i) k s = (r, s')" and "db_faults s = []"
    and id_set: "\<And>i u. u_id (set_ident i u) = u_id u"
  shows "users s' = users s \<or> (\<forall>w \<in> set (users s). ident w \<noteq> i) \<and> (\<exists>row \<in> set (users s). u_id row = k_id k \<and>
    users s' = update_where (\<lambda>u. u_id u = k_id k) (update_user (set_ident i row)) (users s))"
proof (cases "(\<exists>w \<in> set (users s). ident w = i) \<or> k_id k = 0")
  case True
  then have "s' = s"
  proof
    assume "\<exists>w \<in> set (users s). ident w = i"
    then have "Taken i s = (True, s)" using taken_law [OF assms(2), of i] by simp
    then show ?thesis using assms(1) by (simp add: bind_identity_def)
  next
    assume "k_id k = 0"
    then show ?thesis using assms(1) taken_law [OF assms(2), of i]
      by (cases "\<exists>w \<in> set (users s). ident w = i") (simp_all add: bind_identity_def FillUserById_def)
  qed
  then show ?thesis by simp
next
  case False
  define u0 where "u0 = (set_ident i zero_user)\<lparr>u_id := k_id k\<rparr>"
  obtain u s1 where f: "fill_user (\<lambda>r. u_id r = k_id k) u0 s = (u, s1)" by fastforce
  then have s1: "s1 = s" using assms(2) fill_user_faults by blast
  have u: "u = u0 \<and> (\<forall>w \<in> set (users s). u_id w \<noteq> k_id k) \<or> u \<in> set (users s) \<and> u_id u = k_id k"
    using f assms(2) by (auto simp: fill_user_def db_first_ok u0_def find_None_iff dest: find_SomeD split: option.splits)
  have "s' = snd (Update_user x False (set_ident i u) s)"
  proof -
    have "FillUserById u0 s = (Inr u, s)" using False f s1 by (simp add: FillUserById_def u0_def)
    then show ?thesis using assms(1,2) False
      by (cases "Update_user x False (set_ident i u) s") (auto simp: bind_identity_def taken_law u0_def split: option.splits)
  qed
  then have users: "users s' = users s \<or>
      users s' = update_where (\<lambda>w. u_id w = k_id k) (update_user (set_ident i u)) (users s)"
    using Updates_user_users [of "set_ident i u" "set_ban (set_ident i u) s"] u
    by (auto simp: Update_user_def set_ban_same id_set u0_def)
  from u show ?thesis
  proof
    assume "u = u0 \<and> (\<forall>w \<in> set (users s). u_id w \<noteq> k_id k)"
    then have "update_where (\<lambda>w. u_id w = k_id k) (update_user (set_ident i u)) (users s) = users s"
      by (simp add: update_where_False)
    with users show ?thesis by metis
  next
    assume "u \<in> set (users s) \<and> u_id u = k_id k"
    with users False show ?thesis by metis
  qed
qed

end

text \<open>The three identities are columns of the table.\<close>

interpretation github: identity_provider u_github_id "\<lambda>i u. u\<lparr>u_github_id := i\<rparr>" IsGitHubIdAlreadyTaken FillUserByGitHubId
  by unfold_locales (auto simp: IsGitHubIdAlreadyTaken_def FillUserByGitHubId_def taken_ok stored_user_def new_row_def
      split: if_splits prod.splits dest!: taken_users fill_user_result)

interpretation lark: identity_provider u_lark_id "\<lambda>i u. u\<lparr>u_lark_id := i\<rparr>" IsLarkIdAlreadyTaken FillUserByLarkId
  by unfold_locales (auto simp: IsLarkIdAlreadyTaken_def FillUserByLarkId_def taken_ok stored_user_def new_row_def
      split: if_splits prod.splits dest!: taken_users fill_user_result)

interpretation oidc: identity_provider u_oidc_id "\<lambda>i u. u\<lparr>u_oidc_id := i\<rparr>" IsOidcIdAlreadyTaken FillUserByOidcId
  by unfold_locales (auto simp: IsOidcIdAlreadyTaken_def FillUserByOidcId_def taken_ok stored_user_def new_row_def
      split: if_splits prod.splits dest!: taken_users fill_user_result)

lemma GetMaxUserId_users: "GetMaxUserId s = (n, s') \<Longrightarrow> users s' = users s"
  by (auto simp: GetMaxUserId_def split: prod.splits sum.splits dest!: db_first_Inl db_first_Inr)

lemma newcomers:
  "github.newcomer (gh_Login g) (github_newcomer g)"
  "lark.newcomer (lk_OpenID l) (lark_newcomer l)"
  "oidc.newcomer (od_OpenID d) (oidc_newcomer d)"
  by (auto simp: github.newcomer_def lark.newcomer_def oidc.newcomer_def github_newcomer_def lark_newcomer_def
      oidc_newcomer_def Let_def zero_user_def split: prod.splits if_splits dest!: GetMaxUserId_users)


section \<open>All three\<close>

datatype provider = GitHub | Lark | Oidc

fun identity_of :: "provider \<Rightarrow> user \<Rightarrow> string" where
  "identity_of GitHub = u_github_id"
| "identity_of Lark = u_lark_id"
| "identity_of Oidc = u_oidc_id"

fun identity_told :: "provider \<Rightarrow> config \<Rightarrow> oauth_http \<Rightarrow> string \<Rightarrow> string + string" where
  "identity_told GitHub cfg h code = map_sum id gh_Login (getGitHubUserInfoByCode cfg h code)"
| "identity_told Lark cfg h code = map_sum id lk_OpenID (getLarkUserInfoByCode cfg h code)"
| "identity_told Oidc cfg h code = map_sum id od_OpenID (getOidcUserInfoByCode cfg h code)"

fun oauth_callback where
  "oauth_callback GitHub = GitHubOAuth"
| "oauth_callback Lark = LarkOAuth"
| "oauth_callback Oidc = OidcAuth"

definition cookie_of :: "user \<Rightarrow> cookie" where
  "cookie_of u = \<lparr>k_id = u_id u, k_username = u_username u, k_role = u_role u, k_status = u_status u\<rparr>"

lemma sign_in_cookie:
  assumes "sign_in x saved rq banned found None v = (a, Some k, v', s')"
  shows "\<exists>u s. found = (Inr u, s) \<and> u_status u = UserStatusEnabled \<and> k = cookie_of u \<and> users s' = users s \<and>
    (\<exists>r. SetupLogin saved (x_now x) (oq_source rq) (oq_session_id rq) u None v s = (r, Some k, v', s') \<and> a = SignedIn r)"
proof -
  obtain r s where f: "found = (r, s)" by fastforce
  then obtain u where u: "r = Inr u" "u_status u = UserStatusEnabled"
    using assms by (cases r) (auto simp: sign_in_def split: if_splits)
  obtain a1 ck1 v1 s1 where l: "SetupLogin saved (x_now x) (oq_source rq) (oq_session_id rq) u None v s = (a1, ck1, v1, s1)"
    by (metis prod_cases4)
  then have "ck1 = Some k" "v1 = v'" "s1 = s'" using assms f u by (auto simp: sign_in_def)
  moreover have "a = SignedIn a1" using assms f u l by (auto simp: sign_in_def)
  moreover have "k = cookie_of u"
    using l \<open>ck1 = Some k\<close> by (auto simp: SetupLogin_def cookie_of_def Let_def split: if_splits prod.splits option.splits)
  ultimately show ?thesis using f u l SetupLogin_users [OF l] by blast
qed

lemma callback_cookie:
  assumes "oauth_callback p cfg x h saved rq stored None v s = (a, Some k, v', s')"
  shows "state_ok rq stored \<and> (\<exists>i u s1. identity_told p cfg h (oq_code rq) = Inr i \<and> identity_of p u = i \<and>
    u_status u = UserStatusEnabled \<and> k = cookie_of u \<and> users s' = users s1 \<and>
    (\<exists>r. SetupLogin saved (x_now x) (oq_source rq) (oq_session_id rq) u None v s1 = (r, Some k, v', s') \<and> a = SignedIn r) \<and>
    (u \<in> set (users s) \<and> users s1 = users s \<and> i \<noteq> '''' \<or>
     RegisterEnabled cfg \<and> users s1 = users s @ [u] \<and> u_role u = RoleCommonUser))"
proof (cases p)
  case GitHub
  then obtain g where g: "state_ok rq stored" "getGitHubUserInfoByCode cfg h (oq_code rq) = Inr g"
    and c: "sign_in x saved rq ''User has been banned''
      (find_or_register cfg x (IsGitHubIdAlreadyTaken (gh_Login g)) (FillUserByGitHubId (zero_user\<lparr>u_github_id := gh_Login g\<rparr>))
        (github_newcomer g) ''Administrator has disabled new user registration'' s) None v = (a, Some k, v', s')"
    using assms by (auto simp: GitHubOAuth_def split: if_splits sum.splits)
  from sign_in_cookie [OF c] github.found_account [OF _ newcomers(1)] g GitHub show ?thesis by fastforce
next
  case Lark
  then obtain l where l: "state_ok rq stored" "getLarkUserInfoByCode cfg h (oq_code rq) = Inr l"
    and c: "sign_in x saved rq user_banned
      (find_or_register cfg x (IsLarkIdAlreadyTaken (lk_OpenID l)) (FillUserByLarkId (zero_user\<lparr>u_lark_id := lk_OpenID l\<rparr>))
        (lark_newcomer l) registration_closed s) None v = (a, Some k, v', s')"
    using assms by (auto simp: LarkOAuth_def split: if_splits sum.splits)
  from sign_in_cookie [OF c] lark.found_account [OF _ newcomers(2)] l Lark show ?thesis by fastforce
next
  case Oidc
  then obtain d where d: "state_ok rq stored" "getOidcUserInfoByCode cfg h (oq_code rq) = Inr d"
    and c: "sign_in x saved rq user_banned
      (find_or_register cfg x (IsOidcIdAlreadyTaken (od_OpenID d)) (FillUserByOidcId (zero_user\<lparr>u_oidc_id := od_OpenID d\<rparr>))
        (oidc_newcomer d) registration_closed s) None v = (a, Some k, v', s')"
    using assms by (auto simp: OidcAuth_def split: if_splits sum.splits)
  from sign_in_cookie [OF c] oidc.found_account [OF _ newcomers(3)] d Oidc show ?thesis by fastforce
qed

lemma SetupLogin_store: "SetupLogin saved now src sid u ck v s = (r, ck', v', s') \<Longrightarrow> v' \<noteq> v \<Longrightarrow> ck' \<noteq> None"
  by (auto simp: SetupLogin_def Let_def split: if_splits prod.splits option.splits)

lemma sign_in_store: "sign_in x saved rq banned found ck v = (a, ck', v', s') \<Longrightarrow> v' \<noteq> v \<Longrightarrow> ck' \<noteq> None"
  by (auto simp: sign_in_def split: sum.splits if_splits prod.splits dest: SetupLogin_store)

text \<open>Only a callback without a session touches the store, and then it leaves a session.\<close>

lemma callback_store:
  assumes "oauth_callback p cfg x h saved rq stored ck v s = (a, ck', v', s')" and "v' \<noteq> v"
  shows "ck = None \<and> ck' \<noteq> None"
  using assms
  by (cases p) (auto simp: GitHubOAuth_def LarkOAuth_def OidcAuth_def split: if_splits option.splits sum.splits prod.splits
      dest: sign_in_store)

text \<open>C25: A callback only signs somebody in when the state in its query is the one of the session, the provider
  told an identity for the code, and the account has this identity and is enabled; it is either an account of
  the table, or, while registration is open, a new one without privileges. The session names that account.\<close>

theorem oauth_sound:
  assumes "oauth_callback p cfg x h saved rq stored None v s = (a, Some k, v', s')"
  shows "oq_state rq \<noteq> '''' \<and> stored = Some (oq_state rq) \<and>
    (\<exists>u. identity_told p cfg h (oq_code rq) = Inr (identity_of p u) \<and> u_status u = UserStatusEnabled \<and>
      k_id k = u_id u \<and> k_role k = u_role u \<and> k_username k = u_username u \<and>
      (u \<in> set (users s) \<and> users s' = users s \<and> identity_of p u \<noteq> '''' \<or>
       RegisterEnabled cfg \<and> users s' = users s @ [u] \<and> u_role u = RoleCommonUser))"
  using callback_cookie [OF assms] by (auto simp: state_ok_def cookie_of_def)

definition shop_cat :: oauth_http where
  "shop_cat = \<lparr>ht_post = (\<lambda>_ _. Decoded ''access''),
     ht_github = (\<lambda>_ _. Decoded \<lparr>gh_Login = ''octocat'', gh_Name = ''Cat'', gh_Email = ''''\<rparr>),
     ht_lark = (\<lambda>_ _. Unreachable), ht_oidc = (\<lambda>_ _. Unreachable)\<rparr>"

definition cat_request :: oauth_request where
  "cat_request = \<lparr>oq_state = ''r4nd0m'', oq_code = ''code'', oq_source = '''', oq_session_id = ''''\<rparr>"

definition cat_cfg :: config where
  "cat_cfg = (init_config (\<lambda>_. []))\<lparr>GitHubOAuthEnabled := True\<rparr>"

definition cat :: user where
  "cat = ann\<lparr>u_id := 3, u_username := ''cat'', u_github_id := ''octocat''\<rparr>"

lemma cat_simps [simp]: "GitHubOAuthEnabled cat_cfg" "u_github_id cat = ''octocat''" "u_status cat = UserStatusEnabled" "u_id cat = 3"
  by (simp_all add: cat_cfg_def cat_def ann_def zero_user_def)

lemma cat_known: "getGitHubUserInfoByCode cat_cfg shop_cat ''code'' = Inr \<lparr>gh_Login = ''octocat'', gh_Name = ''Cat'', gh_Email = ''''\<rparr>"
  by (simp add: getGitHubUserInfoByCode_def exchange_def shop_cat_def)

theorem oauth_sound_witness:
  "\<exists>a k v' s'. oauth_callback GitHub cat_cfg outside shop_cat True cat_request (Some ''r4nd0m'') None \<lparr>sessions = Map.empty, reapers = []\<rparr> (empty_st\<lparr>users := [ann, cat]\<rparr>) =
      (a, Some k, v', s') \<and> k_id k = 3 \<and> oq_state cat_request \<noteq> ''''"
proof -
  let ?v = "\<lparr>sessions = Map.empty, reapers = []\<rparr>"
  let ?s = "empty_st\<lparr>users := [ann, cat]\<rparr>"
  have gid: "u_github_id ann = ''''" by (simp add: ann_def zero_user_def)
  have fill: "FillUserByGitHubId (zero_user\<lparr>u_github_id := ''octocat''\<rparr>) ?s = (Inr cat, ?s)"
    by (simp add: FillUserByGitHubId_def fill_user_def db_first_ok gid zero_user_def empty_st_def)
  have "find_or_register cat_cfg outside (IsGitHubIdAlreadyTaken ''octocat'') (FillUserByGitHubId (zero_user\<lparr>u_github_id := ''octocat''\<rparr>))
      new r ?s = (Inr cat, ?s)" for new r
    using github.taken_law [of ?s "''octocat''"] fill by (simp add: find_or_register_def empty_st_def)
  then have run: "oauth_callback GitHub cat_cfg outside shop_cat True cat_request (Some ''r4nd0m'') None ?v ?s =
      (SignedIn (Json (Success (clean_user cat))), Some (cookie_of cat), ?v, ?s)"
    by (simp add: GitHubOAuth_def cat_request_def state_ok_def cat_known sign_in_def SetupLogin_def cookie_of_def)
  from oauth_sound [OF run] have "oq_state cat_request \<noteq> []" by (rule conjunct1)
  moreover have "k_id (cookie_of cat) = 3" by (simp add: cookie_of_def)
  ultimately show ?thesis using run by blast
qed


section \<open>An identity belongs to one account\<close>

definition unique_on :: "(user \<Rightarrow> string) \<Rightarrow> user list \<Rightarrow> bool" where
  "unique_on f us \<longleftrightarrow> (\<forall>u \<in> set us. \<forall>w \<in> set us. f u = f w \<and> f u \<noteq> [] \<longrightarrow> u_id u = u_id w)"

definition identities_unique :: "user list \<Rightarrow> bool" where
  "identities_unique us \<longleftrightarrow> (\<forall>p. unique_on (identity_of p) us)"

lemma unique_onD: "unique_on f us \<Longrightarrow> a \<in> set us \<Longrightarrow> b \<in> set us \<Longrightarrow> f a = f b \<Longrightarrow> f a \<noteq> [] \<Longrightarrow> u_id a = u_id b"
  unfolding unique_on_def by blast

lemma unique_on_append:
  assumes "unique_on f us" and "f u = [] \<or> (\<forall>w \<in> set us. f w \<noteq> f u)"
  shows "unique_on f (us @ [u])"
  unfolding unique_on_def
proof (intro ballI impI)
  fix a b assume m: "a \<in> set (us @ [u])" "b \<in> set (us @ [u])" and f: "f a = f b \<and> f a \<noteq> []"
  from m have "a = u \<or> a \<in> set us" "b = u \<or> b \<in> set us" by simp_all
  then consider "a = b" | "a = u" "b \<in> set us" | "a \<in> set us" "b = u" | "a \<in> set us" "b \<in> set us" by blast
  then show "u_id a = u_id b"
  proof cases
    case 4 then show ?thesis using unique_onD [OF assms(1)] f by blast
  qed (use assms(2) f in metis)+
qed

lemma unique_on_update:
  assumes "unique_on f us" and "\<And>u. u \<in> set us \<Longrightarrow> u_id u = n \<Longrightarrow> u_id (g u) = n \<and> (f (g u) = f u \<or> (\<forall>w \<in> set us. f w \<noteq> f (g u)))"
  shows "unique_on f (update_where (\<lambda>u. u_id u = n) g us)"
  unfolding unique_on_def set_update_where
proof (intro ballI impI)
  fix a b assume "a \<in> (\<lambda>r. if u_id r = n then g r else r) ` set us" "b \<in> (\<lambda>r. if u_id r = n then g r else r) ` set us"
  then obtain u w where u: "u \<in> set us" "a = (if u_id u = n then g u else u)" and w: "w \<in> set us" "b = (if u_id w = n then g w else w)"
    by blast
  assume ab: "f a = f b \<and> f a \<noteq> []"
  consider "u_id u = n" "u_id w = n" | "u_id u = n" "u_id w \<noteq> n" | "u_id u \<noteq> n" "u_id w = n" | "u_id u \<noteq> n" "u_id w \<noteq> n"
    by blast
  then show "u_id a = u_id b"
  proof cases
    case 1 then show ?thesis using assms(2) [OF u(1)] assms(2) [OF w(1)] u(2) w(2) by presburger
  next
    case 2
    then have g: "u_id (g u) = n" "f (g u) = f u \<or> (\<forall>w \<in> set us. f w \<noteq> f (g u))" "a = g u" "b = w"
      using assms(2) [OF u(1)] u(2) w(2) by simp_all
    then have "f (g u) = f u" using ab w(1) by metis
    then show ?thesis using unique_onD [OF assms(1) u(1) w(1)] g ab 2 by metis
  next
    case 3
    then have g: "u_id (g w) = n" "f (g w) = f w \<or> (\<forall>u \<in> set us. f u \<noteq> f (g w))" "a = u" "b = g w"
      using assms(2) [OF w(1)] u(2) w(2) by simp_all
    then have "f (g w) = f w" using ab u(1) by metis
    then show ?thesis using unique_onD [OF assms(1) u(1) w(1)] g ab 3 by metis
  next
    case 4 then show ?thesis using unique_onD [OF assms(1) u(1) w(1)] u(2) w(2) ab by metis
  qed
qed

lemma update_user_ident:
  "u_github_id (update_user new u) = nz_str (u_github_id new) (u_github_id u)"
  "u_lark_id (update_user new u) = nz_str (u_lark_id new) (u_lark_id u)"
  "u_oidc_id (update_user new u) = nz_str (u_oidc_id new) (u_oidc_id u)"
  "u_id (update_user new u) = u_id u"
  by (simp_all add: update_user_def)

text \<open>What a callback can do to the table, and why every identity stays unique.\<close>

definition registers :: "provider \<Rightarrow> user list \<Rightarrow> user list \<Rightarrow> bool" where
  "registers p us us' \<longleftrightarrow> (\<exists>u. us' = us @ [u] \<and> (\<forall>w \<in> set us. identity_of p w \<noteq> identity_of p u) \<and>
     (\<forall>q. q \<noteq> p \<longrightarrow> identity_of q u = ''''))"

definition binds :: "provider \<Rightarrow> user list \<Rightarrow> user list \<Rightarrow> bool" where
  "binds p us us' \<longleftrightarrow> (\<exists>n row i. row \<in> set us \<and> u_id row = n \<and> (\<forall>w \<in> set us. identity_of p w \<noteq> i) \<and>
     (\<exists>new. us' = update_where (\<lambda>u. u_id u = n) (update_user new) us \<and> identity_of p new = i \<and>
       (\<forall>q. q \<noteq> p \<longrightarrow> identity_of q new = identity_of q row)))"

lemma registers_unique:
  assumes "registers p us us'" and "identities_unique us"
  shows "identities_unique us'"
  unfolding identities_unique_def
proof
  fix q
  from assms(1) obtain u where u: "us' = us @ [u]" "\<forall>w \<in> set us. identity_of p w \<noteq> identity_of p u"
    "\<forall>q. q \<noteq> p \<longrightarrow> identity_of q u = ''''" unfolding registers_def by blast
  then have "identity_of q u = [] \<or> (\<forall>w \<in> set us. identity_of q w \<noteq> identity_of q u)" by (cases "q = p") simp_all
  then show "unique_on (identity_of q) us'"
    using u(1) assms(2) unique_on_append unfolding identities_unique_def by blast
qed

lemma binds_unique:
  assumes "binds p us us'" and "identities_unique us" and "distinct (map u_id us)"
  shows "identities_unique us'"
  unfolding identities_unique_def
proof
  fix q
  from assms(1) obtain row i new where row: "row \<in> set us" "\<forall>w \<in> set us. identity_of p w \<noteq> i"
    "us' = update_where (\<lambda>u. u_id u = u_id row) (update_user new) us" "identity_of p new = i"
    "\<forall>q. q \<noteq> p \<longrightarrow> identity_of q new = identity_of q row" unfolding binds_def by blast
  have upd: "identity_of q (update_user new u) = nz_str (identity_of q new) (identity_of q u)" for u
    by (cases q) (simp_all add: update_user_ident)
  have "u_id (update_user new u) = u_id row \<and> (identity_of q (update_user new u) = identity_of q u \<or>
      (\<forall>w \<in> set us. identity_of q w \<noteq> identity_of q (update_user new u)))" if "u \<in> set us" "u_id u = u_id row" for u
  proof -
    have "u = row" using that row(1) assms(3) by (simp add: distinct_map inj_on_def)
    then show ?thesis using row(2,4,5) that(2) upd [of u] by (cases "q = p") (auto simp: update_user_ident nz_str_def)
  qed
  then show "unique_on (identity_of q) us'"
    unfolding row(3) using unique_on_update assms(2) unfolding identities_unique_def by blast
qed

lemma sign_in_users: "sign_in x saved rq banned (found, s) ck v = (a, ck', v', s') \<Longrightarrow> users s' = users s"
  by (auto simp: sign_in_def split: sum.splits if_splits prod.splits dest: SetupLogin_users)

lemma newcomer_others:
  "github_newcomer g s = (u, s') \<Longrightarrow> u_lark_id u = '''' \<and> u_oidc_id u = '''' \<and> u_github_id u = gh_Login g"
  "lark_newcomer l s = (u, s') \<Longrightarrow> u_github_id u = '''' \<and> u_oidc_id u = '''' \<and> u_lark_id u = lk_OpenID l"
  "oidc_newcomer d s = (u, s') \<Longrightarrow> u_github_id u = '''' \<and> u_lark_id u = '''' \<and> u_oidc_id u = od_OpenID d"
  by (auto simp: github_newcomer_def lark_newcomer_def oidc_newcomer_def Let_def zero_user_def split: prod.splits if_splits)

lemma stored_ident: "identity_of q (stored_user n (new_row cfg x p u)) = identity_of q u"
  by (cases q) (simp_all add: github.ident_stored lark.ident_stored oidc.ident_stored)

lemma all_others:
  "(\<forall>q. q \<noteq> GitHub \<longrightarrow> P q) \<longleftrightarrow> P Lark \<and> P Oidc" "(\<forall>q. q \<noteq> Lark \<longrightarrow> P q) \<longleftrightarrow> P GitHub \<and> P Oidc"
  "(\<forall>q. q \<noteq> Oidc \<longrightarrow> P q) \<longleftrightarrow> P GitHub \<and> P Lark"
  by (metis provider.exhaust provider.distinct)+

lemma registersI:
  assumes "users s' = users s \<or> (\<exists>u0 n pw s2. new s = (u0, s2) \<and> users s' = users s @ [stored_user n (new_row cfg x pw u0)] \<and>
      (\<forall>w \<in> set (users s). identity_of p w \<noteq> i))"
    and "\<And>u0 s2. new s = (u0, s2) \<Longrightarrow> identity_of p u0 = i \<and> (\<forall>q. q \<noteq> p \<longrightarrow> identity_of q u0 = '''')"
  shows "users s' = users s \<or> registers p (users s) (users s')"
  using assms unfolding registers_def by (metis stored_ident)

lemma bindsI:
  assumes "users s' = users s \<or> (\<forall>w \<in> set (users s). identity_of p w \<noteq> i) \<and> (\<exists>row \<in> set (users s). u_id row = n \<and>
      users s' = update_where (\<lambda>u. u_id u = n) (update_user (put row)) (users s))"
    and "\<And>row. identity_of p (put row) = i \<and> (\<forall>q. q \<noteq> p \<longrightarrow> identity_of q (put row) = identity_of q row)"
  shows "users s' = users s \<or> binds p (users s) (users s')"
  using assms unfolding binds_def by metis

lemma registering:
  "find_or_register cfg x (IsGitHubIdAlreadyTaken (gh_Login g)) (FillUserByGitHubId (zero_user\<lparr>u_github_id := gh_Login g\<rparr>))
     (github_newcomer g) refusal s = (found, s') \<Longrightarrow> db_faults s = [] \<Longrightarrow> users s' = users s \<or> registers GitHub (users s) (users s')"
  "find_or_register cfg x (IsLarkIdAlreadyTaken (lk_OpenID l)) (FillUserByLarkId (zero_user\<lparr>u_lark_id := lk_OpenID l\<rparr>))
     (lark_newcomer l) refusal s = (found, s') \<Longrightarrow> db_faults s = [] \<Longrightarrow> users s' = users s \<or> registers Lark (users s) (users s')"
  "find_or_register cfg x (IsOidcIdAlreadyTaken (od_OpenID d)) (FillUserByOidcId (zero_user\<lparr>u_oidc_id := od_OpenID d\<rparr>))
     (oidc_newcomer d) refusal s = (found, s') \<Longrightarrow> db_faults s = [] \<Longrightarrow> users s' = users s \<or> registers Oidc (users s) (users s')"
proof -
  show "users s' = users s \<or> registers GitHub (users s) (users s')"
    if f: "find_or_register cfg x (IsGitHubIdAlreadyTaken (gh_Login g)) (FillUserByGitHubId (zero_user\<lparr>u_github_id := gh_Login g\<rparr>))
     (github_newcomer g) refusal s = (found, s')" and d: "db_faults s = []"
    by (rule registersI [where new = "github_newcomer g" and i = "gh_Login g" and cfg = cfg and x = x])
      (use github.registered_new [OF f newcomers(1) d] newcomer_others(1) in \<open>auto simp: all_others\<close>)
  show "users s' = users s \<or> registers Lark (users s) (users s')"
    if f: "find_or_register cfg x (IsLarkIdAlreadyTaken (lk_OpenID l)) (FillUserByLarkId (zero_user\<lparr>u_lark_id := lk_OpenID l\<rparr>))
     (lark_newcomer l) refusal s = (found, s')" and d: "db_faults s = []"
    by (rule registersI [where new = "lark_newcomer l" and i = "lk_OpenID l" and cfg = cfg and x = x])
      (use lark.registered_new [OF f newcomers(2) d] newcomer_others(2) in \<open>auto simp: all_others\<close>)
  show "users s' = users s \<or> registers Oidc (users s) (users s')"
    if f: "find_or_register cfg x (IsOidcIdAlreadyTaken (od_OpenID d)) (FillUserByOidcId (zero_user\<lparr>u_oidc_id := od_OpenID d\<rparr>))
     (oidc_newcomer d) refusal s = (found, s')" and d: "db_faults s = []"
    by (rule registersI [where new = "oidc_newcomer d" and i = "od_OpenID d" and cfg = cfg and x = x])
      (use oidc.registered_new [OF f newcomers(3) d] newcomer_others(3) in \<open>auto simp: all_others\<close>)
qed

lemma github_binding:
  assumes "GitHubBind cfg x h rq k s = (r, s')" and "db_faults s = []"
  shows "users s' = users s \<or> binds GitHub (users s) (users s')"
proof (cases "getGitHubUserInfoByCode cfg h (oq_code rq)")
  case (Inr i)
  show ?thesis
  proof (cases "GitHubOAuthEnabled cfg")
    case True
    then have "bind_identity x (IsGitHubIdAlreadyTaken (gh_Login i)) ''This GitHub account is already bound''
        (zero_user\<lparr>u_github_id := gh_Login i\<rparr>) (\<lambda>u. u\<lparr>u_github_id := gh_Login i\<rparr>) k s = (r, s')"
      using assms(1) Inr by (simp add: GitHubBind_def)
    from github.bound_new [OF this assms(2)] show ?thesis
      by (intro bindsI [where n = "k_id k" and put = "\<lambda>u. u\<lparr>u_github_id := gh_Login i\<rparr>"]) (auto simp: all_others)
  qed (use assms(1) Inr in \<open>simp add: GitHubBind_def\<close>)
qed (use assms(1) in \<open>auto simp: GitHubBind_def split: if_splits\<close>)

lemma lark_binding:
  assumes "LarkBind cfg x h rq k s = (r, s')" and "db_faults s = []"
  shows "users s' = users s \<or> binds Lark (users s) (users s')"
proof (cases "getLarkUserInfoByCode cfg h (oq_code rq)")
  case (Inr i)
  show ?thesis
  proof (cases "True")
    case True
    then have "bind_identity x (IsLarkIdAlreadyTaken (lk_OpenID i)) lark_bound
        (zero_user\<lparr>u_lark_id := lk_OpenID i\<rparr>) (\<lambda>u. u\<lparr>u_lark_id := lk_OpenID i\<rparr>) k s = (r, s')"
      using assms(1) Inr by (simp add: LarkBind_def)
    from lark.bound_new [OF this assms(2)] show ?thesis
      by (intro bindsI [where n = "k_id k" and put = "\<lambda>u. u\<lparr>u_lark_id := lk_OpenID i\<rparr>"]) (auto simp: all_others)
  qed (use assms(1) Inr in \<open>simp add: LarkBind_def\<close>)
qed (use assms(1) in \<open>auto simp: LarkBind_def split: if_splits\<close>)

lemma oidc_binding:
  assumes "OidcBind cfg x h rq k s = (r, s')" and "db_faults s = []"
  shows "users s' = users s \<or> binds Oidc (users s) (users s')"
proof (cases "getOidcUserInfoByCode cfg h (oq_code rq)")
  case (Inr i)
  show ?thesis
  proof (cases "OidcEnabled cfg")
    case True
    then have "bind_identity x (IsOidcIdAlreadyTaken (od_OpenID i)) oidc_bound
        (zero_user\<lparr>u_oidc_id := od_OpenID i\<rparr>) (\<lambda>u. u\<lparr>u_oidc_id := od_OpenID i\<rparr>) k s = (r, s')"
      using assms(1) Inr by (simp add: OidcBind_def)
    from oidc.bound_new [OF this assms(2)] show ?thesis
      by (intro bindsI [where n = "k_id k" and put = "\<lambda>u. u\<lparr>u_oidc_id := od_OpenID i\<rparr>"]) (auto simp: all_others)
  qed (use assms(1) Inr in \<open>simp add: OidcBind_def\<close>)
qed (use assms(1) in \<open>auto simp: OidcBind_def split: if_splits\<close>)

lemma sign_in_snd: "sign_in x saved rq banned found ck v = (a, ck', v', s') \<Longrightarrow> users s' = users (snd found)"
  using sign_in_users [of x saved rq banned "fst found" "snd found"] by simp

lemma callback_effect:
  assumes "oauth_callback p cfg x h saved rq stored ck v s = (a, ck', v', s')" and "db_faults s = []"
  shows "users s' = users s \<or> registers p (users s) (users s') \<or> binds p (users s) (users s')"
proof (cases p)
  case GitHub
  show ?thesis
  proof (cases ck)
    case None
    show ?thesis
    proof (cases "getGitHubUserInfoByCode cfg h (oq_code rq)")
      case (Inr i)
      have "users s' = users s \<or> users s' = users (snd (find_or_register cfg x (IsGitHubIdAlreadyTaken (gh_Login i))
          (FillUserByGitHubId (zero_user\<lparr>u_github_id := gh_Login i\<rparr>)) (github_newcomer i) ''Administrator has disabled new user registration'' s))"
        using assms(1) GitHub None Inr by (auto simp: GitHubOAuth_def split: if_splits dest!: sign_in_snd)
      then show ?thesis using registering(1) [OF prod.collapse [symmetric] assms(2)] GitHub by metis
    qed (use assms(1) GitHub None in \<open>auto simp: GitHubOAuth_def split: if_splits\<close>)
  next
    case (Some k)
    then have "users s' = users s \<or> (\<exists>r. GitHubBind cfg x h rq k s = (r, s'))"
      using assms(1) GitHub by (auto simp: GitHubOAuth_def split: if_splits prod.splits)
    then show ?thesis using github_binding [OF _ assms(2)] GitHub by blast
  qed
next
  case Lark
  show ?thesis
  proof (cases ck)
    case None
    show ?thesis
    proof (cases "getLarkUserInfoByCode cfg h (oq_code rq)")
      case (Inr i)
      have "users s' = users s \<or> users s' = users (snd (find_or_register cfg x (IsLarkIdAlreadyTaken (lk_OpenID i))
          (FillUserByLarkId (zero_user\<lparr>u_lark_id := lk_OpenID i\<rparr>)) (lark_newcomer i) registration_closed s))"
        using assms(1) Lark None Inr by (auto simp: LarkOAuth_def split: if_splits dest!: sign_in_snd)
      then show ?thesis using registering(2) [OF prod.collapse [symmetric] assms(2)] Lark by metis
    qed (use assms(1) Lark None in \<open>auto simp: LarkOAuth_def split: if_splits\<close>)
  next
    case (Some k)
    then have "users s' = users s \<or> (\<exists>r. LarkBind cfg x h rq k s = (r, s'))"
      using assms(1) Lark by (auto simp: LarkOAuth_def split: if_splits prod.splits)
    then show ?thesis using lark_binding [OF _ assms(2)] Lark by blast
  qed
next
  case Oidc
  show ?thesis
  proof (cases ck)
    case None
    show ?thesis
    proof (cases "getOidcUserInfoByCode cfg h (oq_code rq)")
      case (Inr i)
      have "users s' = users s \<or> users s' = users (snd (find_or_register cfg x (IsOidcIdAlreadyTaken (od_OpenID i))
          (FillUserByOidcId (zero_user\<lparr>u_oidc_id := od_OpenID i\<rparr>)) (oidc_newcomer i) registration_closed s))"
        using assms(1) Oidc None Inr by (auto simp: OidcAuth_def split: if_splits dest!: sign_in_snd)
      then show ?thesis using registering(3) [OF prod.collapse [symmetric] assms(2)] Oidc by metis
    qed (use assms(1) Oidc None in \<open>auto simp: OidcAuth_def split: if_splits\<close>)
  next
    case (Some k)
    then have "users s' = users s \<or> (\<exists>r. OidcBind cfg x h rq k s = (r, s'))"
      using assms(1) Oidc by (auto simp: OidcAuth_def split: if_splits prod.splits)
    then show ?thesis using oidc_binding [OF _ assms(2)] Oidc by blast
  qed
qed

text \<open>While the database answers, no callback of any provider, signing in, registering or binding, gives two
  accounts the same GitHub login, Lark identifier or OpenID subject.\<close>

theorem identities_stay_unique:
  assumes "oauth_callback p cfg x h saved rq stored ck v s = (a, ck', v', s')" and "db_faults s = []"
    and "identities_unique (users s)" and "distinct (map u_id (users s))"
  shows "identities_unique (users s')"
  using callback_effect [OF assms(1,2)] registers_unique binds_unique assms(3,4) by metis

theorem identities_stay_unique_witness:
  "identities_unique (users (snd (snd (snd (oauth_callback GitHub cat_cfg outside shop_cat True cat_request (Some ''r4nd0m'') None
     \<lparr>sessions = Map.empty, reapers = []\<rparr> (empty_st\<lparr>users := [ann]\<rparr>))))))"
proof -
  have "identity_of p ann = ''''" for p by (cases p) (simp_all add: ann_def zero_user_def)
  then have "identities_unique [ann]" by (simp add: identities_unique_def unique_on_def)
  with identities_stay_unique [of GitHub cat_cfg outside shop_cat True cat_request "Some ''r4nd0m''" None
      "\<lparr>sessions = Map.empty, reapers = []\<rparr>" "empty_st\<lparr>users := [ann]\<rparr>", OF prod.collapse [symmetric, THEN trans]]
  show ?thesis by (simp add: empty_st_def) (metis prod.collapse)
qed

text \<open>The check whether an identity is known drops the error of its query. When that query fails, the sign-in
  of somebody who has an account registers a second one with the same identity, and signs in there.\<close>

theorem identity_check_fails_open:
  "let s = empty_st\<lparr>users := [cat], next_id := 4, db_faults := [Some ''connection lost'']\<rparr>;
       (a, ck, v, s') = oauth_callback GitHub (cat_cfg\<lparr>RegisterEnabled := True, QuotaForNewUser := 0\<rparr>) outside shop_cat True
         cat_request (Some ''r4nd0m'') None \<lparr>sessions = Map.empty, reapers = []\<rparr> s
   in identities_unique (users s) \<and> \<not> identities_unique (users s') \<and> map_option k_id ck = Some 4"
proof -
  let ?cfg = "cat_cfg\<lparr>RegisterEnabled := True, QuotaForNewUser := 0\<rparr>"
  let ?g = "\<lparr>gh_Login = ''octocat'', gh_Name = ''Cat'', gh_Email = ''''\<rparr>"
  let ?s = "empty_st\<lparr>users := [cat], next_id := 4, db_faults := [Some ''connection lost'']\<rparr>"
  let ?s1 = "empty_st\<lparr>users := [cat], next_id := 4\<rparr>"
  define u where "u = fst (github_newcomer ?g ?s1)"
  have told: "getGitHubUserInfoByCode ?cfg shop_cat ''code'' = Inr ?g"
    by (simp add: getGitHubUserInfoByCode_def exchange_def shop_cat_def)
  have four: "char_of (52 :: nat) = CHR ''4''" by code_simp
  have new: "github_newcomer ?g ?s1 = (u, ?s1)" and u: "u_github_id u = ''octocat''" "u_username u = ''github_4''" "u_password u = ''''"
      "u_status u = UserStatusEnabled"
    by (simp_all add: u_def github_newcomer_def GetMaxUserId_def db_first_ok empty_st_def zero_user_def wrap64_def Itoa_def
        nat_digits.simps [of 4] digit_char_def four)
  have "u_username cat = ''cat''" "u_access_token cat = ''''" "u_aff_code cat = ''''" by (simp_all add: cat_def ann_def zero_user_def)
  then obtain s2 where ins: "Insert_user ?cfg outside 0 u ?s1 = (Inr 4, s2)" and s2: "users s2 = [cat, inserted_user ?cfg outside 4 u]"
    using u by (simp add: Insert_user_def insert_hash_def create_user_def db_try_def unique_users_def inserted_user_def
        stored_user_def new_row_def outside_def Let_def empty_st_def Insert_token_def default_token_def zero_token_def)
  have "find_or_register ?cfg outside (IsGitHubIdAlreadyTaken ''octocat'') (FillUserByGitHubId (zero_user\<lparr>u_github_id := ''octocat''\<rparr>))
      (github_newcomer ?g) ''Administrator has disabled new user registration'' ?s = (Inr (inserted_user ?cfg outside 4 u), s2)"
    using ins new by (simp add: find_or_register_def IsGitHubIdAlreadyTaken_def taken_def db_find_def empty_st_def)
  then have run: "oauth_callback GitHub ?cfg outside shop_cat True cat_request (Some ''r4nd0m'') None \<lparr>sessions = Map.empty, reapers = []\<rparr> ?s =
      (SignedIn (Json (Success (clean_user (inserted_user ?cfg outside 4 u)))), Some (cookie_of (inserted_user ?cfg outside 4 u)),
       \<lparr>sessions = Map.empty, reapers = []\<rparr>, s2)"
    using u by (simp add: GitHubOAuth_def cat_request_def state_ok_def told sign_in_def SetupLogin_def cookie_of_def
        inserted_user_def stored_user_def new_row_def)
  have "\<not> unique_on (identity_of GitHub) (users s2)"
    using u by (simp add: s2 unique_on_def inserted_user_def stored_user_def new_row_def)
  then have "\<not> identities_unique (users s2)" unfolding identities_unique_def by blast
  then show ?thesis
    unfolding Let_def run by (simp add: identities_unique_def unique_on_def cookie_of_def inserted_user_def stored_user_def)
qed

end
