(* ===== verification/SignIn.thy ===== *)
theory SignIn
  imports OAuth
begin

text \<open>
  Who gets a token for an editor. The requests of theory \<open>Sessions\<close> and the callbacks of theory \<open>OAuth\<close>
  arrive in any order and at any times, and the scheduler and the clean-up routine run between them: a
  step relation on the store of sessions and the database. \<open>log_ins\<close> records, for the statements below
  only, what was answered with the success page: the session, the account, what the visitor showed, and
  the database then.
\<close>

section \<open>Steps\<close>

datatype shown = Password string | Told provider string

record log_in =
  e_sid :: string
  e_user :: user
  e_shown :: shown
  e_db :: st

record world =
  w_store :: vstore
  w_db :: st
  log_ins :: "log_in list"

definition recorded :: "ext \<Rightarrow> string \<Rightarrow> string \<Rightarrow> string \<Rightarrow> user response \<Rightarrow> st \<Rightarrow> log_in list" where
  "recorded x sid username password r s =
     (case (r, ValidateAndFill x username password s) of
        (Redirect _, (Inr u, _)) \<Rightarrow> [\<lparr>e_sid = sid, e_user = u, e_shown = Password password, e_db = s\<rparr>]
      | _ \<Rightarrow> [])"

text \<open>A callback is recorded with an account that the session names and that has the identity told.\<close>

definition recorded_callback ::
    "config \<Rightarrow> oauth_http \<Rightarrow> provider \<Rightarrow> oauth_request \<Rightarrow> oauth_answer \<Rightarrow> cookie option \<Rightarrow> st \<Rightarrow> log_in list" where
  "recorded_callback cfg h p rq a ck s =
     (case (a, ck, identity_told p cfg h (oq_code rq)) of
        (SignedIn (Redirect _), Some k, Inr i) \<Rightarrow>
          (case find (\<lambda>u. cookie_of u = k \<and> identity_of p u = i) (users s) of
             None \<Rightarrow> []
           | Some u \<Rightarrow> [\<lparr>e_sid = oq_session_id rq, e_user = u, e_shown = Told p i, e_db = s\<rparr>])
      | _ \<Rightarrow> [])"

inductive step :: "config \<Rightarrow> (string \<Rightarrow> string \<Rightarrow> bool) \<Rightarrow> world \<Rightarrow> world \<Rightarrow> bool" for cfg check where
  init: "InitVSCodeAuth cfg host sid now body rebound (w_store w) = (r, v) \<Longrightarrow>
    step cfg check w (w\<lparr>w_store := v\<rparr>)"
| init_coder: "InitCoderAuth cfg host sid now body (w_store w) = (r, v) \<Longrightarrow>
    step cfg check w (w\<lparr>w_store := v\<rparr>)"
| login: "x_check x = check \<Longrightarrow>
    Login cfg x saved source sid (Inr (username, password)) ck (w_store w) (w_db w) = (r, ck', v, s) \<Longrightarrow>
    step cfg check w \<lparr>w_store = v, w_db = s, log_ins = recorded x sid username password r (w_db w) @ log_ins w\<rparr>"
| oauth: "oauth_callback p cfg x h saved rq stored ck (w_store w) (w_db w) = (a, ck', v, s) \<Longrightarrow>
    step cfg check w \<lparr>w_store = v, w_db = s, log_ins = recorded_callback cfg h p rq a ck' s @ log_ins w\<rparr>"
| callback: "CoderAuthCallback cfg x sid (w_store w) (w_db w) = (r, v, s) \<Longrightarrow>
    step cfg check w (w\<lparr>w_store := v, w_db := s\<rparr>)"
| poll: "GetVSCodeAuthStatus now sid (w_store w) = (r, v) \<Longrightarrow> step cfg check w (w\<lparr>w_store := v\<rparr>)"
| reaping: "step cfg check w (w\<lparr>w_store := reap i (w_store w)\<rparr>)"
| cleanup: "step cfg check w (w\<lparr>w_store := CleanupExpiredVSCodeSessions now (w_store w)\<rparr>)"
| elsewhere: "step cfg check w (w\<lparr>w_db := s\<rparr>)"

inductive reachable :: "config \<Rightarrow> (string \<Rightarrow> string \<Rightarrow> bool) \<Rightarrow> world \<Rightarrow> bool" for cfg check where
  start: "sessions (w_store w) = Map.empty \<Longrightarrow> log_ins w = [] \<Longrightarrow> reachable cfg check w"
| more: "reachable cfg check w \<Longrightarrow> step cfg check w w' \<Longrightarrow> reachable cfg check w'"

inductive_simps step_simps: "step cfg check w w'"
inductive_cases stepE: "step cfg check w w'"

text \<open>What justifies handing out a token, and the invariant: every completed local session has it.\<close>

definition shown_ok :: "(string \<Rightarrow> string \<Rightarrow> bool) \<Rightarrow> shown \<Rightarrow> user \<Rightarrow> bool" where
  "shown_ok check how u =
     (case how of Password p \<Rightarrow> check p (u_password u) | Told p i \<Rightarrow> identity_of p u = i)"

definition authenticated :: "(string \<Rightarrow> string \<Rightarrow> bool) \<Rightarrow> string \<Rightarrow> int \<Rightarrow> string \<Rightarrow> log_in \<Rightarrow> bool" where
  "authenticated check sid uid key e \<longleftrightarrow> e_sid e = sid \<and> u_id (e_user e) = uid \<and> e_user e \<in> set (users (e_db e)) \<and>
     shown_ok check (e_shown e) (e_user e) \<and> u_status (e_user e) = UserStatusEnabled \<and>
     (\<exists>t \<in> set (tokens (e_db e)). t_key t = key \<and> t_user_id t = uid)"

definition justified :: "(string \<Rightarrow> string \<Rightarrow> bool) \<Rightarrow> log_in list \<Rightarrow> string \<Rightarrow> vsession \<Rightarrow> bool" where
  "justified check es sid session \<longleftrightarrow>
     (v_status session = ''completed'' \<and> v_provider session \<noteq> ''coder'' \<longrightarrow>
        (\<exists>e \<in> set es. authenticated check sid (v_user_id session) (v_api_token session) e))"

definition all_justified :: "(string \<Rightarrow> string \<Rightarrow> bool) \<Rightarrow> world \<Rightarrow> bool" where
  "all_justified check w \<longleftrightarrow> (\<forall>sid session. sessions (w_store w) sid = Some session \<longrightarrow>
     v_id session = sid \<and> justified check (log_ins w) sid session)"

lemma all_justified_sub:
  assumes "all_justified check w" and "\<And>sid x. sessions (w_store w') sid = Some x \<Longrightarrow> sessions (w_store w) sid = Some x"
    and "log_ins w' = log_ins w"
  shows "all_justified check w'"
  using assms by (simp add: all_justified_def)

lemma all_justified_put:
  assumes "all_justified check w" and "justified check (log_ins w) (v_id x) x"
    and "sessions v = (sessions (w_store w))(v_id x \<mapsto> x)" and "w' = w\<lparr>w_store := v\<rparr> \<or> w' = w\<lparr>w_store := v, w_db := s\<rparr>"
  shows "all_justified check w'"
  using assms by (auto simp: all_justified_def split: if_splits)

lemma StoreVSCodeAuthSession_result:
  "StoreVSCodeAuthSession x v = (e, v') \<Longrightarrow> v' = v \<and> e \<noteq> None \<or>
    e = None \<and> sessions v' = (sessions v)(v_id x \<mapsto> x) \<and> reapers v' = reapers v"
  by (auto simp: StoreVSCodeAuthSession_def split: if_splits)

lemma GetVSCodeAuthSession_result:
  "GetVSCodeAuthSession now sid v = (r, v') \<Longrightarrow> sessions v' = sessions v \<and>
    (\<forall>x. r = Inr x \<longrightarrow> sessions v sid = Some x \<and> now \<le> v_expires_at x \<and> v' = v \<and> sid \<noteq> '''')"
  by (auto simp: GetVSCodeAuthSession_def split: if_splits option.splits)

lemma pending_justified: "v_status x = ''pending'' \<Longrightarrow> justified check es sid x"
  by (simp add: justified_def)

lemma all_justified_pending:
  assumes "all_justified check w"
    and "v = w_store w \<or> (\<exists>x. v_id x = sid \<and> v_status x = ''pending'' \<and> sessions v = (sessions (w_store w))(sid \<mapsto> x))"
  shows "all_justified check (w\<lparr>w_store := v\<rparr>)"
  using assms by (auto simp: all_justified_def pending_justified split: if_splits)

lemma InitCoderAuth_sessions:
  assumes "InitCoderAuth cfg host sid now body v = (r, v')"
  shows "v' = v \<or> (\<exists>x. v_id x = sid \<and> v_status x = ''pending'' \<and> sessions v' = (sessions v)(sid \<mapsto> x))"
  using assms
  by (auto simp: InitCoderAuth_def CreateExternalProviderSession_def StoreVSCodeAuthSession_def Let_def
      split: sum.splits if_splits intro!: exI)

lemma InitVSCodeAuth_sessions:
  assumes "InitVSCodeAuth cfg host sid now body rebound v = (r, v')"
  shows "v' = v \<or> (\<exists>x. v_id x = sid \<and> v_status x = ''pending'' \<and> sessions v' = (sessions v)(sid \<mapsto> x))"
  using assms InitCoderAuth_sessions [of cfg host sid now rebound v r v']
  by (auto simp: InitVSCodeAuth_def StoreVSCodeAuthSession_def Let_def split: sum.splits if_splits intro!: exI)

lemma ValidateAndFill_Inr:
  assumes "ValidateAndFill x username password s = (Inr u, s')"
  shows "u \<in> set (users s) \<and> x_check x password (u_password u) \<and> u_status u = UserStatusEnabled \<and>
    tokens s' = tokens s"
  using assms
  by (auto simp: ValidateAndFill_def Let_def split: if_splits prod.splits sum.splits
      dest!: db_first_Inr db_first_Inl find_SomeD)

lemma GetOrCreateUserDefaultToken_Inr:
  assumes "GetOrCreateUserDefaultToken uid name s = (Inr t, s')"
  shows "\<exists>t0 \<in> set (tokens s). t_key t0 = t_key t \<and> t_user_id t0 = uid"
proof -
  obtain r s1 where q: "db_find (\<lambda>s. filter (\<lambda>t. t_user_id t = uid \<and> t_name t = ''default'') (tokens s)) s = (r, s1)"
    by fastforce
  from assms q obtain ts where r: "r = Inr ts"
    by (cases r) (auto simp: GetOrCreateUserDefaultToken_def split: if_splits)
  note found = db_find_Inr [OF q [unfolded r]]
  show ?thesis
  proof (cases ts)
    case Nil
    with assms q r found show ?thesis
      by (auto simp: GetOrCreateUserDefaultToken_def split: if_splits prod.splits sum.splits
          dest!: db_first_Inr find_SomeD)
  next
    case (Cons t0 rest)
    then have "t0 \<in> set (filter (\<lambda>t. t_user_id t = uid \<and> t_name t = ''default'') (tokens s))"
      using found by simp
    with Cons assms q r show ?thesis
      by (auto simp: GetOrCreateUserDefaultToken_def split: if_splits intro: bexI [of _ t0])
  qed
qed

lemma completeVSCodeAuth_result:
  assumes "completeVSCodeAuth now u sid v s = (e, v', s')"
  shows "e \<noteq> None \<and> sessions v' = sessions v \<or>
    (\<exists>x t. e = None \<and> sessions v sid = Some x \<and> t \<in> set (tokens s) \<and> t_user_id t = u_id u \<and>
       sessions v' = (sessions v)(v_id x \<mapsto> x\<lparr>v_status := ''completed'', v_api_token := t_key t,
         v_token_name := v_token_name (the (sessions v' (v_id x))), v_user_id := u_id u,
         v_username := u_username u, v_display_name := u_display_name u\<rparr>))"
proof -
  obtain r v1 where g: "GetVSCodeAuthSession now sid v = (r, v1)" by fastforce
  note got = GetVSCodeAuthSession_result [OF g]
  show ?thesis
  proof (cases r)
    case (Inl e1)
    with assms g got show ?thesis by (auto simp: completeVSCodeAuth_def)
  next
    case (Inr x)
    obtain r2 s1 where k: "GetOrCreateUserDefaultToken (u_id u) ''VSCode Integration'' s = (r2, s1)" by fastforce
    show ?thesis
    proof (cases r2)
      case (Inl e2)
      with assms g got Inr k show ?thesis by (auto simp: completeVSCodeAuth_def)
    next
      case (Inr t)
      then obtain t0 where "t0 \<in> set (tokens s)" "t_key t0 = t_key t" "t_user_id t0 = u_id u"
        using GetOrCreateUserDefaultToken_Inr k by blast
      with assms g got \<open>r = Inr x\<close> k Inr show ?thesis
        by (auto simp: completeVSCodeAuth_def StoreVSCodeAuthSession_def split: if_splits)
    qed
  qed
qed

lemma SetupLogin_result:
  assumes "SetupLogin saved now source sid u ck v s = (r, ck', v', s')"
  shows "sessions v' = sessions v \<or>
    (\<exists>x t path. r = Redirect path \<and> sessions v sid = Some x \<and> t \<in> set (tokens s) \<and> t_user_id t = u_id u \<and>
       sessions v' = (sessions v)(v_id x \<mapsto> x\<lparr>v_status := ''completed'', v_api_token := t_key t,
         v_token_name := v_token_name (the (sessions v' (v_id x))), v_user_id := u_id u,
         v_username := u_username u, v_display_name := u_display_name u\<rparr>))"
proof -
  obtain e v1 s1 where c: "completeVSCodeAuth now u sid v s = (e, v1, s1)" by (metis prod_cases3)
  show ?thesis
    using assms completeVSCodeAuth_result [OF c]
    by (cases e) (auto simp: SetupLogin_def Let_def c split: if_splits)
qed

lemma all_justified_setup:
  assumes inv: "all_justified check w"
    and su: "SetupLogin saved now source sid u ck (w_store w) s1 = (r, ck', v, s)"
    and entry: "\<And>path t. r = Redirect path \<Longrightarrow> t \<in> set (tokens s1) \<Longrightarrow> t_user_id t = u_id u \<Longrightarrow>
      \<exists>e \<in> set es. authenticated check sid (u_id u) (t_key t) e"
  shows "all_justified check \<lparr>w_store = v, w_db = s2, log_ins = es @ log_ins w\<rparr>"
proof -
  have grow: "justified check (es @ log_ins w) i y" if "justified check (log_ins w) i y" for i y
    using that by (auto simp: justified_def)
  show ?thesis
  proof (cases "sessions v = sessions (w_store w)")
    case True
    with inv grow show ?thesis by (auto simp: all_justified_def)
  next
    case False
    from SetupLogin_result [OF su] False obtain y t path n where
      r: "r = Redirect path" and y: "sessions (w_store w) sid = Some y" and t: "t \<in> set (tokens s1)" "t_user_id t = u_id u"
      and v: "sessions v = (sessions (w_store w))(v_id y \<mapsto> y\<lparr>v_status := ''completed'', v_api_token := t_key t,
         v_token_name := n, v_user_id := u_id u, v_username := u_username u, v_display_name := u_display_name u\<rparr>)"
      by blast
    have "v_id y = sid" using inv y by (simp add: all_justified_def)
    then show ?thesis
      using inv grow v entry [OF r t] by (auto simp: all_justified_def justified_def split: if_splits)
  qed
qed

lemma all_justified_login:
  assumes inv: "all_justified check w" and check: "x_check x = check"
    and l: "Login cfg x saved source sid (Inr (username, password)) ck (w_store w) (w_db w) = (r, ck', v, s)"
  shows "all_justified check
    \<lparr>w_store = v, w_db = s, log_ins = recorded x sid username password r (w_db w) @ log_ins w\<rparr>"
proof -
  obtain ru s1 where val: "ValidateAndFill x username password (w_db w) = (ru, s1)" by fastforce
  show ?thesis
  proof (cases "v = w_store w")
    case True
    with inv show ?thesis by (auto simp: all_justified_def justified_def)
  next
    case False
    from l False obtain u where ru: "ru = Inr u"
      and su: "SetupLogin saved (x_now x) source sid u ck (w_store w) s1 = (r, ck', v, s)"
      by (cases ru) (auto simp: Login_def val split: if_splits)
    note ok = ValidateAndFill_Inr [OF val [unfolded ru]]
    show ?thesis
      by (rule all_justified_setup [OF inv su])
        (use ok check in \<open>auto simp: recorded_def val ru authenticated_def shown_ok_def\<close>)
  qed
qed

text \<open>The tokens keep their keys and owners when a session is completed.\<close>

lemma SetupLogin_keys:
  assumes "SetupLogin saved now source sid u ck v s = (r, ck', v', s')" and "t \<in> set (tokens s)"
  shows "\<exists>t' \<in> set (tokens s'). t_key t' = t_key t \<and> t_user_id t' = t_user_id t"
proof -
  have upd: "\<exists>t' \<in> set (tokens (snd (Update_token tok s))). t_key t' = t_key t \<and> t_user_id t' = t_user_id t"
    if "t \<in> set (tokens s)" for tok s
  proof -
    have "tokens (snd (Update_token tok s)) = tokens s \<or>
        (\<exists>f. tokens (snd (Update_token tok s)) = map f (tokens s) \<and> (\<forall>t. t_key (f t) = t_key t \<and> t_user_id (f t) = t_user_id t))"
      by (cases "db_faults s") (auto simp: Update_token_def db_exec_def update_where_def split: option.splits
          intro!: exI [of _ "\<lambda>r. if t_id r = t_id tok then _ r else r"])
    then show ?thesis using that by auto
  qed
  have "\<exists>t' \<in> set (tokens s1). t_key t' = t_key t \<and> t_user_id t' = t_user_id t"
    if "GetOrCreateUserDefaultToken uid name s = (r1, s1)" for uid name r1 s1
    using that assms(2) upd
    by (auto simp: GetOrCreateUserDefaultToken_def Let_def split: if_splits prod.splits sum.splits list.splits
        dest!: db_find_Inl db_find_Inr db_first_Inl db_first_Inr)
  then show ?thesis
    using assms by (auto simp: SetupLogin_def completeVSCodeAuth_def Let_def split: if_splits prod.splits sum.splits option.splits)
qed

lemma all_justified_oauth:
  assumes inv: "all_justified check w" and c: "oauth_callback p cfg x h saved rq stored ck (w_store w) (w_db w) = (a, ck', v, s)"
  shows "all_justified check \<lparr>w_store = v, w_db = s, log_ins = recorded_callback cfg h p rq a ck' s @ log_ins w\<rparr>"
proof (cases "v = w_store w")
  case True
  with inv show ?thesis by (auto simp: all_justified_def justified_def)
next
  case False
  then have "ck = None" and "ck' \<noteq> None"
    using c callback_store by blast+
  then obtain k where c': "oauth_callback p cfg x h saved rq stored None (w_store w) (w_db w) = (a, Some k, v, s)"
    using c by auto
  from callback_cookie [OF c'] obtain u s1 r where told: "identity_told p cfg h (oq_code rq) = Inr (identity_of p u)"
    and u: "u_status u = UserStatusEnabled" "k = cookie_of u" "u \<in> set (users s)"
    and su: "SetupLogin saved (x_now x) (oq_source rq) (oq_session_id rq) u None (w_store w) s1 = (r, Some k, v, s)" and a: "a = SignedIn r"
    by auto
  show ?thesis
  proof (rule all_justified_setup [OF inv su])
    fix path t assume r: "r = Redirect path" and t: "t \<in> set (tokens s1)" "t_user_id t = u_id u"
    have "find (\<lambda>w. cookie_of w = k \<and> identity_of p w = identity_of p u) (users s) \<noteq> None"
      using u by (auto simp: find_None_iff)
    then obtain w where w: "find (\<lambda>w. cookie_of w = k \<and> identity_of p w = identity_of p u) (users s) = Some w" by blast
    from find_SomeD [OF this] u have e: "w \<in> set (users s)" "u_id w = u_id u" "u_status w = UserStatusEnabled"
      "identity_of p w = identity_of p u" by (auto simp: cookie_of_def)
    have "recorded_callback cfg h p rq a (Some k) s =
        [\<lparr>e_sid = oq_session_id rq, e_user = w, e_shown = Told p (identity_of p u), e_db = s\<rparr>]"
      by (simp add: recorded_callback_def a r told w)
    then show "\<exists>e \<in> set (recorded_callback cfg h p rq a ck' s). authenticated check (oq_session_id rq) (u_id u) (t_key t) e"
      using c c' \<open>ck = None\<close> e SetupLogin_keys [OF su t(1)] t(2) by (auto simp: authenticated_def shown_ok_def)
  qed
qed

definition grant_updates :: "token \<Rightarrow> user \<Rightarrow> (string \<times> update_value) list" where
  "grant_updates t u =
     [(''status'', UStr ''completed''), (''api_token'', UStr (t_key t)), (''token_name'', UStr (t_name t)),
      (''user_id'', UInt (u_id u)), (''username'', UStr (u_username u)),
      (''display_name'', UStr (u_display_name u)),
      (''external_user'', UStr (external_user_json mock_coder_user))]"

lemma all_justified_callback:
  assumes inv: "all_justified check w" and c: "CoderAuthCallback cfg x sid (w_store w) (w_db w) = (r, v, s)"
  shows "all_justified check (w\<lparr>w_store := v, w_db := s\<rparr>)"
proof -
  obtain ru v1 where g: "GetVSCodeAuthSession (x_now x) sid (w_store w) = (ru, v1)" by fastforce
  note got = GetVSCodeAuthSession_result [OF g]
  have upd: "all_justified check (w\<lparr>w_store := snd (UpdateVSCodeAuthSession (x_now x) sid us (w_store w)), w_db := s\<rparr>)"
    if "ru = Inr y" "v_provider y = ''coder''" "\<forall>p \<in> set us. fst p \<noteq> ''provider''" for us y
  proof -
    have "v_id (fold apply_update us z) = v_id z \<and> v_provider (fold apply_update us z) = v_provider z" for z
      using that(3) by (induction us arbitrary: z) (auto simp: apply_update_def split: update_value.split)
    moreover have "sessions (w_store w) sid = Some y" using got that(1) by simp
    ultimately show ?thesis
      using inv that(2) by (auto simp: all_justified_def UpdateVSCodeAuthSession_def justified_def split: if_splits)
  qed
  show ?thesis
  proof (cases "\<exists>y. ru = Inr y \<and> v_provider y = ''coder''")
    case False
    then have "sessions v = sessions (w_store w)"
      using c g got by (cases ru) (auto simp: CoderAuthCallback_def split: if_splits)
    with inv show ?thesis by (simp add: all_justified_def)
  next
    case True
    then obtain y where y: "ru = Inr y" "v_provider y = ''coder''" by blast
    with got have "v1 = w_store w" "sid \<noteq> ''''" by simp_all
    obtain rf s1 where f: "findOrCreateCoderUser cfg x mock_coder_user (w_db w) = (rf, s1)" by fastforce
    show ?thesis
    proof (cases rf)
      case (Inl e)
      with c g y f \<open>v1 = _\<close> \<open>sid \<noteq> _\<close> have "v = w_store w" by (auto simp: CoderAuthCallback_def)
      with inv show ?thesis by (simp add: all_justified_def)
    next
      case (Inr u)
      obtain rt s2 where k: "GetOrCreateUserDefaultToken (u_id u) ''Coder Integration'' s1 = (rt, s2)" by fastforce
      show ?thesis
      proof (cases rt)
        case (Inl e)
        with c g y f k \<open>rf = Inr u\<close> \<open>v1 = _\<close> \<open>sid \<noteq> _\<close> have "v = w_store w" by (auto simp: CoderAuthCallback_def)
        with inv show ?thesis by (simp add: all_justified_def)
      next
        case (Inr t)
        with c g y f k \<open>rf = Inr u\<close> \<open>v1 = _\<close> \<open>sid \<noteq> _\<close>
        have "v = snd (UpdateVSCodeAuthSession (x_now x) sid (grant_updates t u) (w_store w))"
          by (auto simp: CoderAuthCallback_def grant_updates_def split: prod.splits option.splits)
        with upd [OF y, of "grant_updates t u"] show ?thesis by (auto simp: grant_updates_def)
      qed
    qed
  qed
qed

lemma all_justified_step: "step cfg check w w' \<Longrightarrow> all_justified check w \<Longrightarrow> all_justified check w'"
proof (induction rule: step.induct)
  case (init host sid now body rebound w r v)
  then show ?case by (intro all_justified_pending InitVSCodeAuth_sessions)
next
  case (init_coder host sid now body w r v)
  then show ?case by (intro all_justified_pending InitCoderAuth_sessions)
next
  case (login x saved source sid username password ck w r ck' v s)
  then show ?case using all_justified_login by blast
next
  case (oauth x p h saved rq stored ck w a ck' v s)
  then show ?case using all_justified_oauth by blast
next
  case (callback x sid w r v s)
  then show ?case using all_justified_callback by blast
next
  case (poll now sid w r v)
  then have "sessions v sid' = Some y \<Longrightarrow> sessions (w_store w) sid' = Some y" for sid' y
    by (auto simp: GetVSCodeAuthStatus_def GetVSCodeAuthSession_def DeleteVSCodeAuthSession_def
        split: if_splits option.splits)
  then show ?case using poll by (auto simp: all_justified_def)
next
  case (reaping w i)
  then show ?case by (auto simp: all_justified_def reap_def DeleteVSCodeAuthSession_def split: if_splits)
next
  case (cleanup w now)
  then show ?case
    by (auto simp: all_justified_def CleanupExpiredVSCodeSessions_def split: option.splits if_splits)
next
  case (elsewhere w s)
  then show ?case by (simp add: all_justified_def)
qed

lemma all_justified_reachable: "reachable cfg check w \<Longrightarrow> all_justified check w"
proof (induction rule: reachable.induct)
  case (start w)
  then show ?case by (simp add: all_justified_def)
next
  case (more w w')
  then show ?case using all_justified_step by blast
qed


definition office :: st where
  "office = empty_st\<lparr>
     users := [zero_user\<lparr>u_id := 1, u_username := ''ann'', u_password := ''secret'', u_display_name := ''Ann'',
       u_role := 1, u_status := 1, u_email := ''user@coder.example.com''\<rparr>],
     tokens := [zero_token\<lparr>t_id := 2, t_user_id := 1, t_key := ''k'', t_name := ''mine'', t_status := 1\<rparr>]\<rparr>"

definition web :: world where
  "web = \<lparr>w_store = \<lparr>sessions = Map.empty, reapers = []\<rparr>, w_db = office, log_ins = []\<rparr>"

definition editor :: init_request where
  "editor = \<lparr>q_client_name = '''', q_version = '''', q_provider = '''', q_coder_url = ''http://c''\<rparr>"

definition open_web :: world where
  "open_web = web\<lparr>w_store := snd (InitVSCodeAuth (init_config (\<lambda>_. [])) '''' ''s'' 0 (Inr editor) (Inl '''') (w_store web))\<rparr>"

definition ann_login where
  "ann_login = Login (init_config (\<lambda>_. [])) outside True ''vscode'' ''s'' (Inr (''ann'', ''secret'')) None
     (w_store open_web) office"

definition used_web :: world where
  "used_web = (case ann_login of (r, ck, v, s) \<Rightarrow>
     \<lparr>w_store = v, w_db = s, log_ins = recorded outside ''s'' ''ann'' ''secret'' r office @ []\<rparr>)"

lemma reachable_used_web: "reachable (init_config (\<lambda>_. [])) (=) used_web"
proof -
  let ?cfg = "init_config (\<lambda>_. [])"
  have web: "reachable ?cfg (=) web" by (rule start) (simp_all add: web_def)
  have "step ?cfg (=) web open_web"
    unfolding open_web_def by (rule step.init [of ?cfg "''''" "''s''" 0 "Inr editor" "Inl ''''" web])
      (rule surjective_pairing)
  with web have opened: "reachable ?cfg (=) open_web" by (rule more)
  obtain r ck v s where l: "ann_login = (r, ck, v, s)" by (metis prod_cases4)
  have same: "w_db open_web = office" "log_ins open_web = []" by (simp_all add: open_web_def web_def)
  have chk: "x_check outside = (=)" by (simp add: outside_def)
  have "Login ?cfg outside True ''vscode'' ''s'' (Inr (''ann'', ''secret'')) None (w_store open_web) (w_db open_web) =
      (r, ck, v, s)"
    using l by (simp only: ann_login_def same)
  from step.login [OF chk this] have "step ?cfg (=) open_web used_web" by (simp add: used_web_def l same)
  with opened show ?thesis by (rule more)
qed

lemma used_web_store: "\<exists>x. sessions (w_store used_web) ''s'' = Some x \<and> v_provider x = ''local'' \<and>
    v_status x = ''completed'' \<and> v_expires_at x = 600 \<and> v_api_token x = ''k''"
  by (simp add: used_web_def ann_login_def Login_def init_config_def valid_source_def open_web_def web_def
      InitVSCodeAuth_def editor_def or_default_def StoreVSCodeAuthSession_def ValidateAndFill_def Let_def
      office_def empty_st_def outside_def SetupLogin_def completeVSCodeAuth_def GetVSCodeAuthSession_def
      GetOrCreateUserDefaultToken_def zero_vsession_def zero_user_def zero_token_def)


lemma Update_user_tokens:
  "db_faults s = [] \<Longrightarrow> tokens (snd (Update_user x b u s)) = tokens s \<and> db_faults (snd (Update_user x b u s)) = []"
  by (auto simp: Update_user_def Updates_user_def set_ban_def BanUser_def UnbanUser_def db_try_def Let_def
      split: sum.splits)

text \<open>The callback of the external provider is not authenticated: anybody who creates a session for
  the provider \<open>coder\<close>, calls the callback with its identifier and then polls is given an API key of
  the account that has the email address of the callback's built-in user, if there is one.\<close>

theorem coder_callback_open:
  assumes "db_faults s = []" and "find (\<lambda>u. u_email u = ''user@coder.example.com'') (users s) = Some u"
    and "u_id u \<noteq> 0" and "\<exists>t \<in> set (tokens s). t_user_id t = u_id u"
    and "q_coder_url q \<noteq> ''''" and "q_provider q = ''''" and "sid \<noteq> ''''"
    and "InitCoderAuth cfg host sid now (Inr q) v = (r, v1)"
    and "CoderAuthCallback cfg (x\<lparr>x_now := now\<rparr>) sid v1 s = (r2, v2, s2)"
    and "now \<le> later" and "later \<le> now + 600"
  shows "\<exists>g v3. GetVSCodeAuthStatus later sid v2 = (StatusCompleted g, v3) \<and> g_user_id g = u_id u \<and>
    (\<exists>t \<in> set (tokens s). t_user_id t = u_id u \<and> t_key t = g_api_token g)"
proof -
  let ?x = "x\<lparr>x_now := now\<rparr>"
  obtain y where v1: "sessions v1 = (sessions v)(sid \<mapsto> y)" and y: "v_provider y = ''coder''" "v_expires_at y = now + 600"
    using assms(5-8)
    by (auto simp: InitCoderAuth_def CreateExternalProviderSession_def StoreVSCodeAuthSession_def Let_def
        or_default_def split: if_splits)
  then have got: "GetVSCodeAuthSession now sid v1 = (Inr y, v1)"
    using assms(7) by (simp add: GetVSCodeAuthSession_def)
  have "\<exists>u' s1. findOrCreateCoderUser cfg ?x mock_coder_user s = (Inr u', s1) \<and> u_id u' = u_id u \<and>
      tokens s1 = tokens s \<and> db_faults s1 = []"
    using assms(1,2) Update_user_tokens [OF assms(1)]
    by (simp add: findOrCreateCoderUser_def mock_coder_user_def Let_def)
  then obtain u' s1 where f: "findOrCreateCoderUser cfg ?x mock_coder_user s = (Inr u', s1)" "u_id u' = u_id u"
    "tokens s1 = tokens s" "db_faults s1 = []" by blast
  have some: "find (\<lambda>t. t_user_id t = u_id u) (tokens s) \<noteq> None" using assms(4) by (auto simp: find_None)
  obtain rt s3 where k: "GetOrCreateUserDefaultToken (u_id u) ''Coder Integration'' s1 = (rt, s3)" by fastforce
  have "\<exists>t. rt = Inr t"
    using k f(3,4) some assms(3)
    by (auto simp: GetOrCreateUserDefaultToken_def split: list.splits option.splits if_splits)
  then obtain t where t: "rt = Inr t" by blast
  obtain t0 where t0: "t0 \<in> set (tokens s)" "t_key t0 = t_key t" "t_user_id t0 = u_id u"
    using GetOrCreateUserDefaultToken_Inr k t f(3) by metis
  have "v2 = v1\<lparr>sessions := (sessions v1)(sid \<mapsto> fold apply_update (grant_updates t u') y)\<rparr>"
    using assms(7,9) got y v1 f k t
    by (simp add: CoderAuthCallback_def UpdateVSCodeAuthSession_def grant_updates_def)
  moreover have "v_status (fold apply_update (grant_updates t u') y) = ''completed''"
    "v_api_token (fold apply_update (grant_updates t u') y) = t_key t"
    "v_user_id (fold apply_update (grant_updates t u') y) = u_id u'"
    "v_expires_at (fold apply_update (grant_updates t u') y) = now + 600"
    using y by (simp_all add: grant_updates_def apply_update_def)
  ultimately show ?thesis
    using assms(7,10,11) t0 f(2)
    by (auto simp: GetVSCodeAuthStatus_def GetVSCodeAuthSession_def grant_of_def)
qed

theorem coder_callback_open_witness:
  "\<exists>r v1 r2 v2 s2 g v3. InitCoderAuth (init_config (\<lambda>_. [])) '''' ''s'' 0 (Inr editor) (w_store web) = (r, v1) \<and>
     CoderAuthCallback (init_config (\<lambda>_. [])) outside ''s'' v1 office = (r2, v2, s2) \<and>
     GetVSCodeAuthStatus 1 ''s'' v2 = (StatusCompleted g, v3) \<and> g_api_token g = ''k''"
proof -
  obtain r v1 where i: "InitCoderAuth (init_config (\<lambda>_. [])) '''' ''s'' 0 (Inr editor) (w_store web) = (r, v1)"
    by fastforce
  obtain r2 v2 s2 where c: "CoderAuthCallback (init_config (\<lambda>_. [])) (outside\<lparr>x_now := 0\<rparr>) ''s'' v1 office = (r2, v2, s2)"
    by (metis prod_cases3)
  have u: "db_faults office = []" "find (\<lambda>u. u_email u = ''user@coder.example.com'') (users office) = Some (hd (users office))"
    "u_id (hd (users office)) \<noteq> 0" "\<exists>t \<in> set (tokens office). t_user_id t = u_id (hd (users office))"
    "\<forall>t \<in> set (tokens office). t_key t = ''k''"
    by (simp_all add: office_def empty_st_def)
  have "q_coder_url editor \<noteq> ''''" "q_provider editor = ''''" by (simp_all add: editor_def)
  from coder_callback_open [OF u(1-4) this _ i c, of 1] u(5) obtain g v3 where
    "GetVSCodeAuthStatus 1 ''s'' v2 = (StatusCompleted g, v3)" "g_api_token g = ''k''" by auto
  moreover have "outside\<lparr>x_now := 0\<rparr> = outside" by (simp add: outside_def)
  ultimately show ?thesis using i c by metis
qed

text \<open>A completed session is handed out until the goroutine that deletes it has run: two polls before
  that get the same token, and a poll after it gets none.\<close>

theorem completed_session_until_reaped:
  assumes "sid \<noteq> ''''" and "sessions v sid = Some session" and "v_status session = ''completed''"
    and "now \<le> v_expires_at session" and "v1 = snd (GetVSCodeAuthStatus now sid v)"
  shows "fst (GetVSCodeAuthStatus now sid v) = StatusCompleted (grant_of session) \<and>
    fst (GetVSCodeAuthStatus now sid v1) = StatusCompleted (grant_of session) \<and>
    fst (GetVSCodeAuthStatus now sid (reap (length (reapers v)) v1)) = StatusError ''session_not_found''"
  using assms by (simp add: GetVSCodeAuthStatus_def GetVSCodeAuthSession_def reap_def DeleteVSCodeAuthSession_def)

theorem completed_session_until_reaped_witness:
  "fst (GetVSCodeAuthStatus 5 ''s'' (snd (GetVSCodeAuthStatus 5 ''s'' (w_store used_web)))) =
     fst (GetVSCodeAuthStatus 5 ''s'' (w_store used_web))"
proof -
  obtain x where x: "sessions (w_store used_web) ''s'' = Some x" "v_status x = ''completed''" "5 \<le> v_expires_at x"
    using used_web_store by auto
  show ?thesis using completed_session_until_reaped [OF _ x refl] by simp
qed

end
