(* ===== verification/Caches.thy ===== *)
theory Caches
  imports Dispatch
begin

text \<open>
  How old the answers of the caches of \<^verbatim>\<open>model/cache.go\<close> can be. A lookup reads Redis first and the
  database when Redis has nothing, and then leaves what it found in Redis for \<open>SyncFrequency\<close> seconds. The
  locale \<open>read_through\<close> is what the callers rely on; the lookups of keys, groups and of the enabled flag
  are interpretations of it.
\<close>

section \<open>Histories\<close>

text \<open>A lookup, or anything else that happens to the state, each with its time.\<close>

datatype moment = Lookup int | Change int "st \<Rightarrow> st"

fun moment_time :: "moment \<Rightarrow> int" where
  "moment_time (Lookup t) = t"
| "moment_time (Change t f) = t"

fun moment_step :: "(int \<Rightarrow> st \<Rightarrow> st) \<Rightarrow> moment \<Rightarrow> st \<Rightarrow> st" where
  "moment_step look (Lookup t) s = look t s"
| "moment_step look (Change t f) s = f s"

definition run_moments :: "(int \<Rightarrow> st \<Rightarrow> st) \<Rightarrow> moment list \<Rightarrow> st \<Rightarrow> st" where
  "run_moments look es s = fold (moment_step look) es s"

text \<open>The states a history passes through, with the times at which it leaves them.\<close>

fun passed :: "(int \<Rightarrow> st \<Rightarrow> st) \<Rightarrow> moment list \<Rightarrow> st \<Rightarrow> (int \<times> st) list" where
  "passed look [] s = []"
| "passed look (e # es) s = (moment_time e, s) # passed look es (moment_step look e s)"

lemma passed_snoc: "passed look (es @ [e]) s = passed look es s @ [(moment_time e, run_moments look es s)]"
  by (induction es arbitrary: s) (simp_all add: run_moments_def)

lemma run_snoc: "run_moments look (es @ [e]) s = moment_step look e (run_moments look es s)"
  by (simp add: run_moments_def)

text \<open>Nobody else writes the entry (removing it is allowed), and nothing is in it at the start.\<close>

definition history_ok :: "config \<Rightarrow> string \<Rightarrow> moment list \<Rightarrow> st \<Rightarrow> int \<Rightarrow> bool" where
  "history_ok cfg key es s now \<longleftrightarrow> 0 < SyncFrequency cfg \<and> kv s key = None \<and> (\<forall>e \<in> set es. moment_time e \<le> now) \<and>
     (\<forall>t f. Change t f \<in> set es \<longrightarrow> (\<forall>s. kv (f s) key = kv s key \<or> kv (f s) key = None))"

text \<open>The value was in the database at some moment of the last \<open>SyncFrequency\<close> seconds.\<close>

definition recently ::
    "config \<Rightarrow> (int \<Rightarrow> st \<Rightarrow> st) \<Rightarrow> moment list \<Rightarrow> st \<Rightarrow> int \<Rightarrow> (st \<Rightarrow> bool) \<Rightarrow> bool" where
  "recently cfg look es s now P \<longleftrightarrow>
     (\<exists>(t, x) \<in> set (passed look es s @ [(now, run_moments look es s)]). now - SyncFrequency cfg < t \<and> t \<le> now \<and> P x)"


section \<open>The contract of a read-through cache\<close>

locale read_through =
  fixes get :: "config \<Rightarrow> int \<Rightarrow> 'k \<Rightarrow> st \<Rightarrow> (string + 'v) \<times> st"
    and held :: "'k \<Rightarrow> st \<Rightarrow> 'v \<Rightarrow> bool"
    and key :: "'k \<Rightarrow> string" and enc :: "'v \<Rightarrow> kv_value" and dec :: "kv_value \<Rightarrow> 'v option"
  assumes dec_enc: "dec (enc v) = Some v"
    and get_entry: "get cfg now k s = (r, s') \<Longrightarrow> kv s' (key k) = kv s (key k) \<or>
      (\<exists>v. held k s v \<and> kv s' (key k) = Some (enc v, if 0 < SyncFrequency cfg then Some (now + SyncFrequency cfg) else None))"
    and get_answer: "get cfg now k s = (Inr v, s') \<Longrightarrow> held k s v \<or> (\<exists>w d. kv_live now (key k) s = Some (w, d) \<and> dec w = Some v)"
begin

lemma entry_origin:
  assumes "history_ok cfg (key k) es s now"
  shows "kv (run_moments (\<lambda>t s. snd (get cfg t k s)) es s) (key k) = None \<or>
    (\<exists>t x v. (t, x) \<in> set (passed (\<lambda>t s. snd (get cfg t k s)) es s) \<and> held k x v \<and>
      kv (run_moments (\<lambda>t s. snd (get cfg t k s)) es s) (key k) = Some (enc v, Some (t + SyncFrequency cfg)))"
  using assms
proof (induction es rule: rev_induct)
  case Nil
  then show ?case by (simp add: history_ok_def run_moments_def)
next
  case (snoc e es)
  let ?look = "\<lambda>t s. snd (get cfg t k s)"
  have ok: "history_ok cfg (key k) es s now" using snoc.prems by (simp add: history_ok_def)
  have keep: ?case if "kv (run_moments ?look (es @ [e]) s) (key k) = kv (run_moments ?look es s) (key k)"
    using snoc.IH [OF ok] unfolding that by (auto simp: passed_snoc)
  let ?r = "run_moments ?look es s"
  show ?case
  proof (cases e)
    case (Lookup t)
    obtain r s1 where g: "get cfg t k ?r = (r, s1)" by fastforce
    have end_state: "run_moments ?look (es @ [e]) s = s1" using g Lookup by (simp add: run_snoc)
    from get_entry [OF g] show ?thesis
    proof
      assume "kv s1 (key k) = kv ?r (key k)"
      then show ?thesis using keep end_state by simp
    next
      assume "\<exists>v. held k ?r v \<and> kv s1 (key k) = Some (enc v, if 0 < SyncFrequency cfg then Some (t + SyncFrequency cfg) else None)"
      then obtain v where v: "held k ?r v" "kv s1 (key k) = Some (enc v, Some (t + SyncFrequency cfg))"
        using ok by (auto simp: history_ok_def)
      have "(t, ?r) \<in> set (passed ?look (es @ [e]) s)" by (simp add: passed_snoc Lookup)
      with v end_state show ?thesis by metis
    qed
  next
    case (Change t f)
    then have "kv (f ?r) (key k) = kv ?r (key k) \<or> kv (f ?r) (key k) = None"
      using snoc.prems unfolding history_ok_def by (metis in_set_conv_decomp)
    moreover have "run_moments ?look (es @ [e]) s = f ?r" by (simp add: run_snoc Change)
    ultimately show ?thesis using keep by (elim disjE) simp_all
  qed
qed

lemma passed_past: "(t, x) \<in> set (passed look es s) \<Longrightarrow> \<forall>e \<in> set es. moment_time e \<le> now \<Longrightarrow> t \<le> now"
  by (induction es arbitrary: s) auto

lemma answer_recent:
  assumes "history_ok cfg (key k) es s now"
    and "get cfg now k (run_moments (\<lambda>t s. snd (get cfg t k s)) es s) = (Inr v, s')"
  shows "recently cfg (\<lambda>t s. snd (get cfg t k s)) es s now (\<lambda>x. held k x v)"
proof -
  let ?look = "\<lambda>t s. snd (get cfg t k s)"
  have pos: "0 < SyncFrequency cfg" and past: "\<forall>e \<in> set es. moment_time e \<le> now"
    using assms(1) by (simp_all add: history_ok_def)
  from get_answer [OF assms(2)] show ?thesis
  proof
    assume "held k (run_moments ?look es s) v"
    then show ?thesis using pos by (auto simp: recently_def)
  next
    assume "\<exists>w d. kv_live now (key k) (run_moments ?look es s) = Some (w, d) \<and> dec w = Some v"
    then obtain w d where w: "kv_live now (key k) (run_moments ?look es s) = Some (w, d)" "dec w = Some v" by blast
    with entry_origin [OF assms(1)] obtain t x u where x: "(t, x) \<in> set (passed ?look es s)" "held k x u"
      and entry: "kv (run_moments ?look es s) (key k) = Some (enc u, Some (t + SyncFrequency cfg))"
      by (auto simp: kv_live_def)
    have "now < t + SyncFrequency cfg" "u = v"
      using w entry dec_enc [of u] by (auto simp: kv_live_def split: if_splits)
    moreover have "t \<le> now" using passed_past [OF x(1) past] .
    ultimately show ?thesis using x unfolding recently_def by (intro bexI [of _ "(t, x)"]) simp_all
  qed
qed

end

section \<open>The lookups\<close>

lemma RedisSet_entry:
  "kv (snd (RedisSet now key v ttl s)) key = kv s key \<or>
   kv (snd (RedisSet now key v ttl s)) key = Some (v, if 0 < ttl then Some (now + ttl) else None)"
  by (auto simp: RedisSet_def kv_tick_def split: list.splits option.splits)

lemma RedisGet_str_kv: "RedisGet_str now key s = (r, s') \<Longrightarrow> same_guards s s' \<and> kv s' = kv s"
  using RedisGet_guards [of now key s]
  by (fastforce simp: RedisGet_str_def split: prod.splits sum.splits kv_value.splits)

lemma db_find_kv: "db_find q s = (r, s') \<Longrightarrow> kv s' = kv s"
  by (auto simp: db_find_def split: list.splits option.splits)

lemma db_first_kv: "db_first q s = (r, s') \<Longrightarrow> kv s' = kv s"
  by (auto simp: db_first_def split: prod.splits sum.splits option.splits dest!: db_find_kv)

definition held_token :: "string \<Rightarrow> st \<Rightarrow> token \<Rightarrow> bool" where
  "held_token k s t \<longleftrightarrow> find (\<lambda>t. t_key t = k) (tokens s) = Some t"

definition held_enabled :: "int \<Rightarrow> st \<Rightarrow> bool \<Rightarrow> bool" where
  "held_enabled uid s b \<longleftrightarrow> (b \<longleftrightarrow> user_column u_status 0 uid s = UserStatusEnabled)"

fun token_of_kv :: "kv_value \<Rightarrow> token option" where
  "token_of_kv (KToken t) = Some t"
| "token_of_kv (KStr v) = None"

fun flag_of_kv :: "kv_value \<Rightarrow> bool option" where
  "flag_of_kv (KToken t) = None"
| "flag_of_kv (KStr v) = Some (v = ''1'')"

definition flag_kv :: "bool \<Rightarrow> kv_value" where
  "flag_kv b = KStr (if b then ''1'' else ''0'')"

lemma CacheIsUserEnabled_entry:
  assumes "CacheIsUserEnabled cfg now uid s = (r, s')"
  shows "kv s' (user_key ''user_enabled:'' uid) = kv s (user_key ''user_enabled:'' uid) \<or>
    (\<exists>b. held_enabled uid s b \<and> kv s' (user_key ''user_enabled:'' uid) =
       Some (flag_kv b, if 0 < SyncFrequency cfg then Some (now + SyncFrequency cfg) else None))"
proof (cases "redis_enabled s")
  case False
  with assms show ?thesis
    by (auto simp: CacheIsUserEnabled_def IsUserEnabled_def split: if_splits prod.splits sum.splits dest!: db_find_kv)
next
  case True
  let ?key = "user_key ''user_enabled:'' uid"
  obtain q s1 where get: "RedisGet_str now ?key s = (q, s1)" by fastforce
  note g = RedisGet_str_kv [OF get]
  show ?thesis
  proof (cases "\<exists>b s2. (\<exists>e. q = Inl e) \<and> IsUserEnabled uid s1 = (Inr b, s2)")
    case False
    with assms True get g show ?thesis
      by (auto simp: CacheIsUserEnabled_def IsUserEnabled_def split: if_splits prod.splits sum.splits dest!: db_find_kv)
  next
    case sought: True
    then obtain e b s2 where q: "q = Inl e" and en: "IsUserEnabled uid s1 = (Inr b, s2)" by blast
    have "kv s2 = kv s1"
      using en by (auto simp: IsUserEnabled_def split: if_splits prod.splits sum.splits dest!: db_find_kv)
    moreover have "held_enabled uid s b"
      using IsUserEnabled_Inr [OF en] g by (auto simp: held_enabled_def same_guards_def user_column_def)
    moreover have "s' = snd (RedisSet now ?key (flag_kv b) (SyncFrequency cfg) s2)"
      using assms True get q en
      by (auto simp: CacheIsUserEnabled_def flag_kv_def split: prod.splits option.splits)
    ultimately show ?thesis
      using RedisSet_entry [of now ?key "flag_kv b" "SyncFrequency cfg" s2] g by metis
  qed
qed

lemma CacheIsUserEnabled_answer:
  assumes "CacheIsUserEnabled cfg now uid s = (Inr b, s')"
  shows "held_enabled uid s b \<or>
    (\<exists>w d. kv_live now (user_key ''user_enabled:'' uid) s = Some (w, d) \<and> flag_of_kv w = Some b)"
proof (cases "redis_enabled s")
  case False
  with assms IsUserEnabled_Inr [of uid s b s'] show ?thesis by (simp add: CacheIsUserEnabled_def held_enabled_def)
next
  case True
  let ?key = "user_key ''user_enabled:'' uid"
  obtain q s1 where get: "RedisGet_str now ?key s = (q, s1)" by fastforce
  show ?thesis
  proof (cases q)
    case (Inr v)
    with RedisGet_str_Inr [of now ?key s v s1] get obtain d where d: "kv_live now ?key s = Some (KStr v, d)" by blast
    have "flag_of_kv (KStr v) = Some b" using assms True get Inr by (simp add: CacheIsUserEnabled_def)
    with d show ?thesis by blast
  next
    case (Inl e)
    with assms True get obtain s2 where en: "IsUserEnabled uid s1 = (Inr b, s2)"
      by (auto simp: CacheIsUserEnabled_def split: prod.splits sum.splits option.splits)
    then have "held_enabled uid s b"
      using IsUserEnabled_Inr [OF en] RedisGet_str_kv [OF get]
      by (auto simp: held_enabled_def same_guards_def user_column_def)
    then show ?thesis ..
  qed
qed

interpretation enabled_cache: read_through CacheIsUserEnabled held_enabled "user_key ''user_enabled:''" flag_kv flag_of_kv
proof
  show "flag_of_kv (flag_kv v) = Some v" for v by (simp add: flag_kv_def)
qed (fact CacheIsUserEnabled_entry, fact CacheIsUserEnabled_answer)

lemma CacheGetTokenByKey_entry:
  assumes "CacheGetTokenByKey cfg now k s = (r, s')"
  shows "kv s' (token_cache_key k) = kv s (token_cache_key k) \<or>
    (\<exists>t. held_token k s t \<and> kv s' (token_cache_key k) =
       Some (KToken t, if 0 < SyncFrequency cfg then Some (now + SyncFrequency cfg) else None))"
proof (cases "redis_enabled s")
  case False
  with assms show ?thesis
    by (auto simp: CacheGetTokenByKey_def dest!: db_first_kv)
next
  case True
  let ?find = "db_first (\<lambda>s. find (\<lambda>t. t_key t = k) (tokens s))"
  obtain q s1 where get: "RedisGet now (token_cache_key k) s = (q, s1)" by fastforce
  note g = RedisGet_guards [OF get] and tb = RedisGet_tables [OF get]
  show ?thesis
  proof (cases "\<exists>t s2. (\<exists>e. q = Inl e) \<and> ?find s1 = (Inr t, s2)")
    case False
    with assms True get g show ?thesis
      by (cases q) (auto simp: CacheGetTokenByKey_def split: prod.splits sum.splits kv_value.splits dest!: db_first_kv)
  next
    case sought: True
    then obtain e t s2 where q: "q = Inl e" and first: "?find s1 = (Inr t, s2)" by blast
    have "kv s2 = kv s1" using db_first_kv [OF first] .
    moreover have "held_token k s t" using db_first_Inr [OF first] tb by (auto simp: held_token_def)
    moreover have "s' = snd (RedisSet now (token_cache_key k) (KToken t) (SyncFrequency cfg) s2)"
      using assms True get q first by (auto simp: CacheGetTokenByKey_def)
    ultimately show ?thesis
      using RedisSet_entry [of now "token_cache_key k" "KToken t" "SyncFrequency cfg" s2] g by metis
  qed
qed

interpretation token_cache: read_through CacheGetTokenByKey held_token token_cache_key KToken token_of_kv
proof
  show "held_token k s t \<or> (\<exists>w d. kv_live now (token_cache_key k) s = Some (w, d) \<and> token_of_kv w = Some t)"
    if "CacheGetTokenByKey cfg now k s = (Inr t, s')" for cfg now k s t s'
    using CacheGetTokenByKey_Inr(1) [OF that] unfolding held_token_def cached_token_def by (metis token_of_kv.simps(1))
qed (simp, fact CacheGetTokenByKey_entry)

text \<open>The group comes with an error when it could not be stored.\<close>

definition group_answer :: "config \<Rightarrow> int \<Rightarrow> int \<Rightarrow> st \<Rightarrow> (string + string) \<times> st" where
  "group_answer cfg now uid s =
     (case CacheGetUserGroup cfg now uid s of ((g, None), s') \<Rightarrow> (Inr g, s') | ((g, Some e), s') \<Rightarrow> (Inl e, s'))"

definition held_group :: "int \<Rightarrow> st \<Rightarrow> string \<Rightarrow> bool" where
  "held_group uid s g \<longleftrightarrow> user_column u_group '''' uid s = g"

fun string_of_kv :: "kv_value \<Rightarrow> string option" where
  "string_of_kv (KToken t) = None"
| "string_of_kv (KStr v) = Some v"

lemma GetUserGroup_held:
  "GetUserGroup uid s1 = (r, s2) \<Longrightarrow> same_guards s s1 \<Longrightarrow> kv s2 = kv s1 \<and> (\<forall>g. r = Inr g \<longrightarrow> held_group uid s g)"
  by (auto simp: GetUserGroup_def held_group_def same_guards_def user_column_def dest: db_find_kv dest!: db_find_Inr)

lemma group_answer_cases:
  assumes "group_answer cfg now uid s = (r, s')"
  obtains (same) "kv s' = kv s" "\<And>g. r = Inr g \<Longrightarrow> held_group uid s g \<or>
      (\<exists>w d. kv_live now (user_key ''user_group:'' uid) s = Some (w, d) \<and> string_of_kv w = Some g)"
    | (stored) g s2 where "held_group uid s g" "kv s2 = kv s" "\<And>h. r = Inr h \<Longrightarrow> h = g"
      "s' = snd (RedisSet now (user_key ''user_group:'' uid) (KStr g) (SyncFrequency cfg) s2)"
proof (cases "redis_enabled s")
  case False
  obtain q s1 where "GetUserGroup uid s = (q, s1)" by fastforce
  from GetUserGroup_held [OF this, of s] this False assms same show thesis
    by (auto simp: group_answer_def CacheGetUserGroup_def same_guards_def split: sum.splits)
next
  case True
  let ?key = "user_key ''user_group:'' uid"
  obtain q s1 where get: "RedisGet_str now ?key s = (q, s1)" by fastforce
  note g = RedisGet_str_kv [OF get]
  obtain q2 s2 where row: "GetUserGroup uid s1 = (q2, s2)" by fastforce
  note h = GetUserGroup_held [OF row, of s]
  show thesis
  proof (cases q)
    case (Inr v)
    with RedisGet_str_Inr [of now ?key s v s1] get obtain d where d: "kv_live now ?key s = Some (KStr v, d)" by blast
    have "r = Inr v" "s' = s1" using assms True get Inr by (simp_all add: group_answer_def CacheGetUserGroup_def)
    with same d g show thesis by simp
  next
    case (Inl e)
    show thesis
    proof (cases q2)
      case (Inl e2)
      with assms True get \<open>q = Inl e\<close> row g h same show thesis
        by (auto simp: group_answer_def CacheGetUserGroup_def)
    next
      case (Inr v)
      obtain e3 s3 where set: "RedisSet now ?key (KStr v) (SyncFrequency cfg) s2 = (e3, s3)" by fastforce
      have "s' = s3" "\<And>g. r = Inr g \<Longrightarrow> g = v"
        using assms True get \<open>q = Inl e\<close> row Inr set
        by (auto simp: group_answer_def CacheGetUserGroup_def split: option.splits)
      with stored [of v s2] set Inr g h show thesis by simp
    qed
  qed
qed

lemma group_answer_entry:
  assumes "group_answer cfg now uid s = (r, s')"
  shows "kv s' (user_key ''user_group:'' uid) = kv s (user_key ''user_group:'' uid) \<or>
    (\<exists>g. held_group uid s g \<and> kv s' (user_key ''user_group:'' uid) =
       Some (KStr g, if 0 < SyncFrequency cfg then Some (now + SyncFrequency cfg) else None))"
  using assms
proof (cases rule: group_answer_cases)
  case same
  then show ?thesis by simp
next
  case (stored g s2)
  then show ?thesis
    using RedisSet_entry [of now "user_key ''user_group:'' uid" "KStr g" "SyncFrequency cfg" s2] by metis
qed

interpretation group_cache: read_through group_answer held_group "user_key ''user_group:''" KStr string_of_kv
proof
  show "held_group uid s g \<or>
      (\<exists>w d. kv_live now (user_key ''user_group:'' uid) s = Some (w, d) \<and> string_of_kv w = Some g)"
    if "group_answer cfg now uid s = (Inr g, s')" for cfg now uid s g s'
    using that by (cases rule: group_answer_cases) auto
qed (simp, fact group_answer_entry)

section \<open>Properties\<close>

text \<open>C26: with Redis, whatever else happens to the state and however often the key is looked up in between
  (as long as nobody else writes its entry), the row that \<open>CacheGetTokenByKey\<close> answers with was the row
  of the database at some moment of the last \<open>SyncFrequency\<close> seconds: a key that was deleted, disabled
  or emptied cannot be served from the cache for longer, and repeated lookups do not renew an entry.
\<close>

theorem token_recent:
  assumes "history_ok cfg (token_cache_key k) es s now"
    and "CacheGetTokenByKey cfg now k (run_moments (\<lambda>t s. snd (CacheGetTokenByKey cfg t k s)) es s) = (Inr tok, s')"
  shows "recently cfg (\<lambda>t s. snd (CacheGetTokenByKey cfg t k s)) es s now
    (\<lambda>x. find (\<lambda>t. t_key t = k) (tokens x) = Some tok)"
  using token_cache.answer_recent [OF assms] by (simp add: held_token_def)

lemma default_sync [simp]: "SyncFrequency (init_config (\<lambda>_. '''')) = 600"
  by (simp add: init_config_def env_Int_def)

definition redis_shop :: st where
  "redis_shop = shop\<lparr>redis_enabled := True\<rparr>"

definition drop_keys :: "st \<Rightarrow> st" where
  "drop_keys s = s\<lparr>tokens := []\<rparr>"

theorem token_recent_witness:
  "\<exists>s'. CacheGetTokenByKey (init_config (\<lambda>_. '''')) 20 ''k''
      (run_moments (\<lambda>t s. snd (CacheGetTokenByKey (init_config (\<lambda>_. '''')) t ''k'' s)) [Lookup 5, Change 10 drop_keys] redis_shop) =
        (Inr (hd (tokens shop)), s') \<and>
    recently (init_config (\<lambda>_. '''')) (\<lambda>t s. snd (CacheGetTokenByKey (init_config (\<lambda>_. '''')) t ''k'' s))
      [Lookup 5, Change 10 drop_keys] redis_shop 20 (\<lambda>x. find (\<lambda>t. t_key t = ''k'') (tokens x) = Some (hd (tokens shop)))"
proof -
  let ?cfg = "init_config (\<lambda>_. '''')"
  let ?after = "run_moments (\<lambda>t s. snd (CacheGetTokenByKey ?cfg t ''k'' s)) [Lookup 5, Change 10 drop_keys] redis_shop"
  have "history_ok ?cfg (token_cache_key ''k'') [Lookup 5, Change 10 drop_keys] redis_shop 20"
    by (simp add: history_ok_def redis_shop_def shop_def empty_st_def drop_keys_def zero_token_def)
  moreover have "fst (CacheGetTokenByKey ?cfg 20 ''k'' ?after) = Inr (hd (tokens shop))"
    by (simp add: run_moments_def CacheGetTokenByKey_def RedisGet_def RedisSet_def kv_tick_def kv_live_def db_first_def db_find_def
        redis_shop_def shop_def empty_st_def drop_keys_def zero_token_def)
  ultimately show ?thesis using token_recent by (metis prod.collapse)
qed

text \<open>an account that has not been enabled at any moment of the last \<open>SyncFrequency\<close> seconds is not
  reported as enabled by \<open>CacheIsUserEnabled\<close>, whatever the cache was told before and however often the
  account was looked up meanwhile: disabling an account takes effect on every instance within that time.
\<close>

theorem disabled_account_locked_out:
  assumes "history_ok cfg (user_key ''user_enabled:'' uid) es s now"
    and "\<not> recently cfg (\<lambda>t s. snd (CacheIsUserEnabled cfg t uid s)) es s now
      (\<lambda>x. user_column u_status 0 uid x = UserStatusEnabled)"
  shows "fst (CacheIsUserEnabled cfg now uid (run_moments (\<lambda>t s. snd (CacheIsUserEnabled cfg t uid s)) es s)) \<noteq> Inr True"
  using enabled_cache.answer_recent [OF assms(1), of True] assms(2) by (auto simp: held_enabled_def prod_eq_iff)

definition disable_all :: "st \<Rightarrow> st" where
  "disable_all s = s\<lparr>users := map (\<lambda>u. u\<lparr>u_status := UserStatusDisabled\<rparr>) (users s)\<rparr>"

definition redis_ann :: st where
  "redis_ann = open_shop\<lparr>redis_enabled := True\<rparr>"

theorem disabled_account_locked_out_witness:
  "fst (CacheIsUserEnabled (init_config (\<lambda>_. '''')) 610 1
     (run_moments (\<lambda>t s. snd (CacheIsUserEnabled (init_config (\<lambda>_. '''')) t 1 s)) [Lookup 5, Change 10 disable_all] redis_ann)) \<noteq> Inr True"
proof (rule disabled_account_locked_out)
  show "history_ok (init_config (\<lambda>_. '''')) (user_key ''user_enabled:'' 1) [Lookup 5, Change 10 disable_all] redis_ann 610"
    by (simp add: history_ok_def redis_ann_def open_shop_def shop_def empty_st_def disable_all_def)
  show "\<not> recently (init_config (\<lambda>_. '''')) (\<lambda>t s. snd (CacheIsUserEnabled (init_config (\<lambda>_. '''')) t 1 s))
      [Lookup 5, Change 10 disable_all] redis_ann 610 (\<lambda>x. user_column u_status 0 1 x = UserStatusEnabled)"
    by (simp add: recently_def run_moments_def CacheIsUserEnabled_def IsUserEnabled_def user_column_def RedisGet_str_def RedisGet_def RedisSet_def
        kv_tick_def kv_live_def db_find_def redis_ann_def open_shop_def shop_def empty_st_def disable_all_def)
qed

end
