(* ===== verification/Routes.thy ===== *)
theory Routes
  imports Dispatch RateLimit
begin

text \<open>
  The routes of the server: \<^verbatim>\<open>router\<close>. A route is registered in a group and runs the guards of the group, in
  the order in which they were added, then its own, then its handler. What the guards of \<open>Auth\<close> and
  \<open>Dispatch\<close> promise is composed here into what holds when a handler of \<^verbatim>\<open>controller\<close> runs.
\<close>

section \<open>Groups and routes\<close>

text \<open>The middleware. Compression, CORS headers and the recovery from panics let every request pass.\<close>

datatype guard = Gzip | GzipDecode | Cors | PanicRecover | Limited limit_kind | CacheHeader
  | Authenticated int | ByToken | Distributed

datatype verb = M_GET | M_POST | M_PUT | M_DELETE | M_ANY

record router_group =
  rg_path :: string
  rg_chain :: "guard list"

record route =
  rt_verb :: verb
  rt_path :: string
  rt_chain :: "guard list"
  rt_handler :: string

definition engine :: router_group where
  "engine = \<lparr>rg_path = ''/'', rg_chain = []\<rparr>"

text \<open>Paths are joined with one slash between them.\<close>

definition joinPaths :: "string \<Rightarrow> string \<Rightarrow> string" where
  "joinPaths absolute relative =
     (if relative = '''' then absolute else TrimSuffix absolute ''/'' @ relative)"

definition Group :: "string \<Rightarrow> router_group \<Rightarrow> router_group" where
  "Group path g = \<lparr>rg_path = joinPaths (rg_path g) path, rg_chain = rg_chain g\<rparr>"

definition Use :: "guard list \<Rightarrow> router_group \<Rightarrow> router_group" where
  "Use gs g = g\<lparr>rg_chain := rg_chain g @ gs\<rparr>"

definition route :: "router_group \<Rightarrow> verb \<Rightarrow> string \<Rightarrow> guard list \<Rightarrow> string \<Rightarrow> route" where
  "route g verb path gs handler =
     \<lparr>rt_verb = verb, rt_path = joinPaths (rg_path g) path, rt_chain = rg_chain g @ gs, rt_handler = handler\<rparr>"


section \<open>The tables\<close>

definition apiRouter :: router_group where
  "apiRouter = Use [Gzip, Limited GlobalAPIRateLimit]
     (Group ''/api'' engine)"

definition vscodeRoute :: router_group where
  "vscodeRoute = Group ''/vscode'' apiRouter"

definition vscodeAuthRoute :: router_group where
  "vscodeAuthRoute = Use [Limited CriticalRateLimit]
     (Group ''/auth'' vscodeRoute)"

definition userRoute :: router_group where
  "userRoute = Group ''/user'' apiRouter"

definition selfRoute :: router_group where
  "selfRoute = Use [Authenticated RoleCommonUser]
     (Group ''/'' userRoute)"

definition adminRoute :: router_group where
  "adminRoute = Use [Authenticated RoleAdminUser]
     (Group ''/'' userRoute)"

definition optionRoute :: router_group where
  "optionRoute = Use [Authenticated RoleRootUser]
     (Group ''/option'' apiRouter)"

definition channelRoute :: router_group where
  "channelRoute = Use [Authenticated RoleAdminUser]
     (Group ''/channel'' apiRouter)"

definition tokenRoute :: router_group where
  "tokenRoute = Use [Authenticated RoleCommonUser]
     (Group ''/token'' apiRouter)"

definition redemptionRoute :: router_group where
  "redemptionRoute = Use [Authenticated RoleAdminUser]
     (Group ''/redemption'' apiRouter)"

definition logRoute :: router_group where
  "logRoute = Group ''/log'' apiRouter"

definition groupRoute :: router_group where
  "groupRoute = Use [Authenticated RoleAdminUser]
     (Group ''/group'' apiRouter)"

definition SetApiRouter :: "route list" where
  "SetApiRouter = [
     route apiRouter M_GET ''/status'' [] ''GetStatus'',
     route apiRouter M_GET ''/models'' [Authenticated RoleCommonUser] ''DashboardListModels'',
     route apiRouter M_GET ''/notice'' [] ''GetNotice'',
     route apiRouter M_GET ''/about'' [] ''GetAbout'',
     route apiRouter M_GET ''/home_page_content'' [] ''GetHomePageContent'',
     route apiRouter M_GET ''/verification'' [Limited CriticalRateLimit] ''SendEmailVerification'',
     route apiRouter M_GET ''/reset_password'' [Limited CriticalRateLimit] ''SendPasswordResetEmail'',
     route apiRouter M_POST ''/user/reset'' [Limited CriticalRateLimit] ''ResetPassword'',
     route apiRouter M_GET ''/oauth/github'' [Limited CriticalRateLimit] ''GitHubOAuth'',
     route apiRouter M_GET ''/oauth/oidc'' [Limited CriticalRateLimit] ''OidcAuth'',
     route apiRouter M_GET ''/oauth/lark'' [Limited CriticalRateLimit] ''LarkOAuth'',
     route apiRouter M_GET ''/oauth/state'' [Limited CriticalRateLimit] ''GenerateOAuthCode'',
     route apiRouter M_GET ''/oauth/email/bind'' [Limited CriticalRateLimit, Authenticated RoleCommonUser] ''EmailBind'',
     route apiRouter M_POST ''/topup'' [Authenticated RoleAdminUser] ''AdminTopUp'',
     route vscodeAuthRoute M_POST ''/init'' [] ''InitVSCodeAuth'',
     route vscodeAuthRoute M_GET ''/status/:session_id'' [] ''GetVSCodeAuthStatus'',
     route vscodeAuthRoute M_POST ''/coder/init'' [] ''InitCoderAuth'',
     route vscodeAuthRoute M_GET ''/coder/callback'' [] ''CoderAuthCallback'',
     route userRoute M_POST ''/register'' [Limited CriticalRateLimit] ''Register'',
     route userRoute M_POST ''/login'' [Limited CriticalRateLimit] ''Login'',
     route userRoute M_GET ''/logout'' [] ''Logout'',
     route userRoute M_POST ''/sign_up'' [Limited CriticalRateLimit] ''Register'',
     route selfRoute M_GET ''/dashboard'' [] ''GetUserDashboard'',
     route selfRoute M_GET ''/self'' [] ''GetSelf'',
     route selfRoute M_PUT ''/self'' [] ''UpdateSelf'',
     route selfRoute M_DELETE ''/self'' [] ''DeleteSelf'',
     route selfRoute M_GET ''/token'' [] ''GenerateAccessToken'',
     route selfRoute M_GET ''/aff'' [] ''GetAffCode'',
     route selfRoute M_POST ''/topup'' [] ''TopUp'',
     route selfRoute M_GET ''/available_models'' [] ''GetUserAvailableModels'',
     route adminRoute M_GET ''/'' [] ''GetAllUsers'',
     route adminRoute M_GET ''/search'' [] ''SearchUsers'',
     route adminRoute M_GET ''/:id'' [] ''GetUser'',
     route adminRoute M_POST ''/'' [] ''CreateUser'',
     route adminRoute M_POST ''/manage'' [] ''ManageUser'',
     route adminRoute M_PUT ''/'' [] ''UpdateUser'',
     route adminRoute M_DELETE ''/:id'' [] ''DeleteUser'',
     route optionRoute M_GET ''/'' [] ''GetOptions'',
     route optionRoute M_PUT ''/'' [] ''UpdateOption'',
     route channelRoute M_GET ''/'' [] ''GetAllChannels'',
     route channelRoute M_GET ''/search'' [] ''SearchChannels'',
     route channelRoute M_GET ''/models'' [] ''ListAllModels'',
     route channelRoute M_GET ''/:id'' [] ''GetChannel'',
     route channelRoute M_GET ''/test'' [] ''TestChannels'',
     route channelRoute M_GET ''/test/:id'' [] ''TestChannel'',
     route channelRoute M_GET ''/update_balance'' [] ''UpdateAllChannelsBalance'',
     route channelRoute M_GET ''/update_balance/:id'' [] ''UpdateChannelBalance'',
     route channelRoute M_POST ''/'' [] ''AddChannel'',
     route channelRoute M_PUT ''/'' [] ''UpdateChannel'',
     route channelRoute M_DELETE ''/disabled'' [] ''DeleteDisabledChannel'',
     route channelRoute M_DELETE ''/:id'' [] ''DeleteChannel'',
     route tokenRoute M_GET ''/'' [] ''GetAllTokens'',
     route tokenRoute M_GET ''/search'' [] ''SearchTokens'',
     route tokenRoute M_GET ''/:id'' [] ''GetToken'',
     route tokenRoute M_POST ''/'' [] ''AddToken'',
     route tokenRoute M_PUT ''/'' [] ''UpdateToken'',
     route tokenRoute M_DELETE ''/:id'' [] ''DeleteToken'',
     route redemptionRoute M_GET ''/'' [] ''GetAllRedemptions'',
     route redemptionRoute M_GET ''/search'' [] ''SearchRedemptions'',
     route redemptionRoute M_GET ''/:id'' [] ''GetRedemption'',
     route redemptionRoute M_POST ''/'' [] ''AddRedemption'',
     route redemptionRoute M_PUT ''/'' [] ''UpdateRedemption'',
     route redemptionRoute M_DELETE ''/:id'' [] ''DeleteRedemption'',
     route logRoute M_GET ''/'' [Authenticated RoleAdminUser] ''GetAllLogs'',
     route logRoute M_DELETE ''/'' [Authenticated RoleAdminUser] ''DeleteHistoryLogs'',
     route logRoute M_GET ''/stat'' [Authenticated RoleAdminUser] ''GetLogsStat'',
     route logRoute M_GET ''/self/stat'' [Authenticated RoleCommonUser] ''GetLogsSelfStat'',
     route logRoute M_GET ''/search'' [Authenticated RoleAdminUser] ''SearchAllLogs'',
     route logRoute M_GET ''/self'' [Authenticated RoleCommonUser] ''GetUserLogs'',
     route logRoute M_GET ''/self/search'' [Authenticated RoleCommonUser] ''SearchUserLogs'',
     route groupRoute M_GET ''/'' [] ''GetGroups'']"


definition billing_apiRouter :: router_group where
  "billing_apiRouter = Use [Cors, Gzip, Limited GlobalAPIRateLimit, ByToken]
     (Group ''/'' engine)"

definition SetDashboardRouter :: "route list" where
  "SetDashboardRouter = [
     route billing_apiRouter M_GET ''/dashboard/billing/subscription'' [] ''GetSubscription'',
     route billing_apiRouter M_GET ''/v1/dashboard/billing/subscription'' [] ''GetSubscription'',
     route billing_apiRouter M_GET ''/dashboard/billing/usage'' [] ''GetUsage'',
     route billing_apiRouter M_GET ''/v1/dashboard/billing/usage'' [] ''GetUsage'']"


definition relay_engine :: router_group where
  "relay_engine = Use [Cors, GzipDecode] engine"

definition relay_modelsRouter :: router_group where
  "relay_modelsRouter = Use [ByToken]
     (Group ''/v1/models'' relay_engine)"

definition relay_relayV1Router :: router_group where
  "relay_relayV1Router = Use [PanicRecover, ByToken, Distributed]
     (Group ''/v1'' relay_engine)"

definition SetRelayRouter :: "route list" where
  "SetRelayRouter = [
     route relay_modelsRouter M_GET '''' [] ''ListModels'',
     route relay_modelsRouter M_GET ''/:model'' [] ''RetrieveModel'',
     route relay_relayV1Router M_ANY ''/oneapi/proxy/:channelid/*target'' [] ''Relay'',
     route relay_relayV1Router M_POST ''/completions'' [] ''Relay'',
     route relay_relayV1Router M_POST ''/chat/completions'' [] ''Relay'',
     route relay_relayV1Router M_POST ''/edits'' [] ''Relay'',
     route relay_relayV1Router M_POST ''/images/generations'' [] ''Relay'',
     route relay_relayV1Router M_POST ''/images/edits'' [] ''RelayNotImplemented'',
     route relay_relayV1Router M_POST ''/images/variations'' [] ''RelayNotImplemented'',
     route relay_relayV1Router M_POST ''/embeddings'' [] ''Relay'',
     route relay_relayV1Router M_POST ''/engines/:model/embeddings'' [] ''Relay'',
     route relay_relayV1Router M_POST ''/audio/transcriptions'' [] ''Relay'',
     route relay_relayV1Router M_POST ''/audio/translations'' [] ''Relay'',
     route relay_relayV1Router M_POST ''/audio/speech'' [] ''Relay'',
     route relay_relayV1Router M_GET ''/files'' [] ''RelayNotImplemented'',
     route relay_relayV1Router M_POST ''/files'' [] ''RelayNotImplemented'',
     route relay_relayV1Router M_DELETE ''/files/:id'' [] ''RelayNotImplemented'',
     route relay_relayV1Router M_GET ''/files/:id'' [] ''RelayNotImplemented'',
     route relay_relayV1Router M_GET ''/files/:id/content'' [] ''RelayNotImplemented'',
     route relay_relayV1Router M_POST ''/fine_tuning/jobs'' [] ''RelayNotImplemented'',
     route relay_relayV1Router M_GET ''/fine_tuning/jobs'' [] ''RelayNotImplemented'',
     route relay_relayV1Router M_GET ''/fine_tuning/jobs/:id'' [] ''RelayNotImplemented'',
     route relay_relayV1Router M_POST ''/fine_tuning/jobs/:id/cancel'' [] ''RelayNotImplemented'',
     route relay_relayV1Router M_GET ''/fine_tuning/jobs/:id/events'' [] ''RelayNotImplemented'',
     route relay_relayV1Router M_DELETE ''/models/:model'' [] ''RelayNotImplemented'',
     route relay_relayV1Router M_POST ''/moderations'' [] ''Relay'',
     route relay_relayV1Router M_POST ''/assistants'' [] ''RelayNotImplemented'',
     route relay_relayV1Router M_GET ''/assistants/:id'' [] ''RelayNotImplemented'',
     route relay_relayV1Router M_POST ''/assistants/:id'' [] ''RelayNotImplemented'',
     route relay_relayV1Router M_DELETE ''/assistants/:id'' [] ''RelayNotImplemented'',
     route relay_relayV1Router M_GET ''/assistants'' [] ''RelayNotImplemented'',
     route relay_relayV1Router M_POST ''/assistants/:id/files'' [] ''RelayNotImplemented'',
     route relay_relayV1Router M_GET ''/assistants/:id/files/:fileId'' [] ''RelayNotImplemented'',
     route relay_relayV1Router M_DELETE ''/assistants/:id/files/:fileId'' [] ''RelayNotImplemented'',
     route relay_relayV1Router M_GET ''/assistants/:id/files'' [] ''RelayNotImplemented'',
     route relay_relayV1Router M_POST ''/threads'' [] ''RelayNotImplemented'',
     route relay_relayV1Router M_GET ''/threads/:id'' [] ''RelayNotImplemented'',
     route relay_relayV1Router M_POST ''/threads/:id'' [] ''RelayNotImplemented'',
     route relay_relayV1Router M_DELETE ''/threads/:id'' [] ''RelayNotImplemented'',
     route relay_relayV1Router M_POST ''/threads/:id/messages'' [] ''RelayNotImplemented'',
     route relay_relayV1Router M_GET ''/threads/:id/messages/:messageId'' [] ''RelayNotImplemented'',
     route relay_relayV1Router M_POST ''/threads/:id/messages/:messageId'' [] ''RelayNotImplemented'',
     route relay_relayV1Router M_GET ''/threads/:id/messages/:messageId/files/:filesId'' [] ''RelayNotImplemented'',
     route relay_relayV1Router M_GET ''/threads/:id/messages/:messageId/files'' [] ''RelayNotImplemented'',
     route relay_relayV1Router M_POST ''/threads/:id/runs'' [] ''RelayNotImplemented'',
     route relay_relayV1Router M_GET ''/threads/:id/runs/:runsId'' [] ''RelayNotImplemented'',
     route relay_relayV1Router M_POST ''/threads/:id/runs/:runsId'' [] ''RelayNotImplemented'',
     route relay_relayV1Router M_GET ''/threads/:id/runs'' [] ''RelayNotImplemented'',
     route relay_relayV1Router M_POST ''/threads/:id/runs/:runsId/submit_tool_outputs'' [] ''RelayNotImplemented'',
     route relay_relayV1Router M_POST ''/threads/:id/runs/:runsId/cancel'' [] ''RelayNotImplemented'',
     route relay_relayV1Router M_GET ''/threads/:id/runs/:runsId/steps/:stepId'' [] ''RelayNotImplemented'',
     route relay_relayV1Router M_GET ''/threads/:id/runs/:runsId/steps'' [] ''RelayNotImplemented'']"

definition all_routes :: "route list" where
  "all_routes = SetApiRouter @ SetDashboardRouter @ SetRelayRouter"


section \<open>Other paths\<close>

text \<open>A path without a route: a static file, the page of the web interface, an error, or a redirection.\<close>

datatype fallback = StaticFile string | NotFound | IndexPage | MovedTo string

definition SetWebRouter :: "(string \<Rightarrow> string option) \<Rightarrow> string \<Rightarrow> fallback" where
  "SetWebRouter file uri =
     (case file uri of
        Some f \<Rightarrow> StaticFile f
      | None \<Rightarrow> (if HasPrefix uri ''/v1'' \<or> HasPrefix uri ''/api'' then NotFound else IndexPage))"

definition SetRouter :: "environ \<Rightarrow> config \<Rightarrow> (string \<Rightarrow> string option) \<Rightarrow> string \<Rightarrow> fallback" where
  "SetRouter getenv cfg file uri =
     (let base = getenv ''FRONTEND_BASE_URL'';
          base = (if IsMasterNode cfg \<and> base \<noteq> '''' then '''' else base)
      in if base = '''' then SetWebRouter file uri else MovedTo (TrimSuffix base ''/'' @ uri))"


section \<open>Running a chain\<close>

text \<open>What the guards leave for the handler.\<close>

record chain_state =
  ch_identity :: "identity option"
  ch_ctx :: "ctx option"
  ch_cookie :: "cookie option"
  ch_st :: st

datatype 'a served = Stopped int string | Reached 'a

text \<open>
  The limiters' answers, and whether a compressed body can be read, are given; \<open>tok\<close> and \<open>sel\<close> are
  \<open>TokenAuth\<close> and \<open>Distribute\<close> with their parameters. Distributing without a token's context cannot happen
  in the tables (the lookup of the identity would give 0).
\<close>

fun run_guard ::
    "(limit_kind \<Rightarrow> bool) \<Rightarrow> bool \<Rightarrow> (request \<Rightarrow> st \<Rightarrow> ctx outcome \<times> st) \<Rightarrow> (request \<Rightarrow> ctx \<Rightarrow> st \<Rightarrow> ctx outcome \<times> st) \<Rightarrow>
     request \<Rightarrow> guard \<Rightarrow> chain_state \<Rightarrow> chain_state served" where
  "run_guard admits readable tok sel rq (Limited k) ch =
     (if admits k then Reached ch else Stopped 429 '''')"
| "run_guard admits readable tok sel rq GzipDecode ch = (if readable then Reached ch else Stopped 400 '''')"
| "run_guard admits readable tok sel rq (Authenticated minRole) ch =
     (case authHelper minRole (q_authorization rq) (ch_cookie ch) (ch_st ch) of
        ((outcome.Abort code msg, ck), s) \<Rightarrow> Stopped code msg
      | ((Next i, ck), s) \<Rightarrow> Reached (ch\<lparr>ch_identity := Some i, ch_cookie := ck, ch_st := s\<rparr>))"
| "run_guard admits readable tok sel rq ByToken ch =
     (case tok rq (ch_st ch) of
        (outcome.Abort code msg, s) \<Rightarrow> Stopped code msg
      | (Next g, s) \<Rightarrow> Reached (ch\<lparr>ch_ctx := Some g, ch_st := s\<rparr>))"
| "run_guard admits readable tok sel rq Distributed ch =
     (case sel rq (case ch_ctx ch of None \<Rightarrow> empty_ctx rq | Some g \<Rightarrow> g) (ch_st ch) of
        (outcome.Abort code msg, s) \<Rightarrow> Stopped code msg
      | (Next g, s) \<Rightarrow> Reached (ch\<lparr>ch_ctx := Some g, ch_st := s\<rparr>))"
| "run_guard admits readable tok sel rq _ ch = Reached ch"

fun run_chain where
  "run_chain admits readable tok sel rq [] ch = Reached ch"
| "run_chain admits readable tok sel rq (g # gs) ch =
     (case run_guard admits readable tok sel rq g ch of
        Stopped code msg \<Rightarrow> Stopped code msg
      | Reached ch \<Rightarrow> run_chain admits readable tok sel rq gs ch)"

definition arrive :: "cookie option \<Rightarrow> st \<Rightarrow> chain_state" where
  "arrive ck s = \<lparr>ch_identity = None, ch_ctx = None, ch_cookie = ck, ch_st = s\<rparr>"

definition serve where
  "serve admits readable tok sel rq r ck s = run_chain admits readable tok sel rq (rt_chain r) (arrive ck s)"


section \<open>Who may run what\<close>

text \<open>
  The handlers that act for an administrator, for the root account and for the caller: those that read
  the role, the identity or nothing of the context but change or show what belongs to others.
\<close>

definition root_handlers :: "string list" where
  "root_handlers = [''GetOptions'', ''UpdateOption'']"

definition admin_handlers :: "string list" where
  "admin_handlers = [''GetAllUsers'', ''SearchUsers'', ''GetUser'', ''CreateUser'', ''ManageUser'', ''UpdateUser'',
     ''DeleteUser'', ''AdminTopUp'', ''GetAllChannels'', ''SearchChannels'', ''ListAllModels'', ''GetChannel'',
     ''TestChannels'', ''TestChannel'', ''UpdateAllChannelsBalance'', ''UpdateChannelBalance'', ''AddChannel'',
     ''UpdateChannel'', ''DeleteDisabledChannel'', ''DeleteChannel'', ''GetAllRedemptions'', ''SearchRedemptions'',
     ''GetRedemption'', ''AddRedemption'', ''UpdateRedemption'', ''DeleteRedemption'', ''GetAllLogs'',
     ''DeleteHistoryLogs'', ''GetLogsStat'', ''SearchAllLogs'', ''GetGroups'']"

definition own_handlers :: "string list" where
  "own_handlers = [''DashboardListModels'', ''EmailBind'', ''GetUserDashboard'', ''GetSelf'', ''UpdateSelf'',
     ''DeleteSelf'', ''GenerateAccessToken'', ''GetAffCode'', ''TopUp'', ''GetUserAvailableModels'', ''GetAllTokens'',
     ''SearchTokens'', ''GetToken'', ''AddToken'', ''UpdateToken'', ''DeleteToken'', ''GetLogsSelfStat'',
     ''GetUserLogs'', ''SearchUserLogs'']"

definition needed_role :: "string \<Rightarrow> int option" where
  "needed_role h =
     (if h \<in> set root_handlers then Some RoleRootUser
      else if h \<in> set admin_handlers then Some RoleAdminUser
      else if h \<in> set own_handlers then Some RoleCommonUser else None)"

lemmas group_defs = engine_def Group_def Use_def apiRouter_def vscodeRoute_def vscodeAuthRoute_def userRoute_def
  selfRoute_def adminRoute_def optionRoute_def channelRoute_def tokenRoute_def redemptionRoute_def logRoute_def
  groupRoute_def billing_apiRouter_def relay_engine_def relay_modelsRouter_def relay_relayV1Router_def

text \<open>The tables ask for the role: one look at every route.\<close>

fun harmless :: "guard \<Rightarrow> bool" where
  "harmless (Authenticated m) = False"
| "harmless ByToken = False"
| "harmless Distributed = False"
| "harmless _ = True"

definition serious :: "route \<Rightarrow> guard list" where
  "serious r = filter (\<lambda>g. \<not> harmless g) (rt_chain r)"

definition key_handlers :: "string list" where
  "key_handlers = [''GetSubscription'', ''GetUsage'', ''ListModels'', ''RetrieveModel'']"

definition relay_handlers :: "string list" where
  "relay_handlers = [''Relay'', ''RelayNotImplemented'']"

definition asks_role :: "route \<Rightarrow> bool" where
  "asks_role r = (case needed_role (rt_handler r) of
     Some m \<Rightarrow> serious r = [Authenticated m]
   | None \<Rightarrow>
       (if rt_handler r \<in> set relay_handlers then serious r = [ByToken, Distributed]
        else if rt_handler r \<in> set key_handlers then serious r = [ByToken] else True))"

lemma api_asks_role: "list_all asks_role SetApiRouter"
  by code_simp

lemma dashboard_asks_role: "list_all asks_role SetDashboardRouter"
  by code_simp

lemma relay_asks_role: "list_all asks_role SetRelayRouter"
  by code_simp

lemma routes_ask: "r \<in> set all_routes \<Longrightarrow> asks_role r"
  using api_asks_role dashboard_asks_role relay_asks_role by (auto simp: all_routes_def list_all_iff)


section \<open>Properties\<close>

lemma harmless_runs:
  "harmless g \<Longrightarrow> run_guard admits readable tok sel rq g ch = Reached ch' \<Longrightarrow> ch' = ch"
  by (cases g) (auto split: if_splits)

lemma run_chain_harmless:
  "\<forall>g \<in> set gs. harmless g \<Longrightarrow> run_chain admits readable tok sel rq gs ch = Reached ch' \<Longrightarrow> ch' = ch"
  by (induction gs arbitrary: ch) (auto split: served.splits dest: harmless_runs)

text \<open>A chain that reaches its handler has run its serious guards, one after the other.\<close>

lemma run_chain_serious:
  "run_chain admits readable tok sel rq gs ch = Reached ch' \<Longrightarrow>
   run_chain admits readable tok sel rq (filter (\<lambda>g. \<not> harmless g) gs) ch = Reached ch'"
proof (induction gs arbitrary: ch)
  case (Cons g gs)
  then obtain ch1 where g: "run_guard admits readable tok sel rq g ch = Reached ch1"
    and rest: "run_chain admits readable tok sel rq gs ch1 = Reached ch'" by (auto split: served.splits)
  show ?case
  proof (cases "harmless g")
    case True
    with harmless_runs [OF True g] Cons.IH [OF rest] show ?thesis by simp
  next
    case False
    with g Cons.IH [OF rest] show ?thesis by simp
  qed
qed simp

lemma serve_serious:
  "serve admits readable tok sel rq r ck s = Reached ch \<Longrightarrow>
   run_chain admits readable tok sel rq (serious r) (arrive ck s) = Reached ch"
  by (simp add: serve_def serious_def run_chain_serious)

text \<open>C6: The tables of routes give every handler of the web interface its guard: whenever a handler that acts
  for the caller, for an administrator or for the root account runs, the request has come with a session or
  an access token of an account that has at least this role, is not disabled and not on the blacklist, and
  the identity that the handler reads is that account's. This holds for all routes, whatever the other
  middleware does.\<close>

theorem roles_enforced:
  assumes "r \<in> set all_routes" and "needed_role (rt_handler r) = Some m"
    and "serve admits readable tok sel rq r ck s = Reached ch"
  shows "\<exists>i k. ch_identity ch = Some i \<and> fst (caller (q_authorization rq) ck s) = Next k \<and>
    i_id i = k_id k \<and> i_role i = k_role k \<and> m \<le> k_role k \<and>
    k_status k \<noteq> UserStatusDisabled \<and> \<not> IsUserBanned (k_id k) s"
proof -
  have "serious r = [Authenticated m]" using routes_ask [OF assms(1)] assms(2) by (simp add: asks_role_def)
  with serve_serious [OF assms(3)]
  obtain i ck1 s1 where a: "authHelper m (q_authorization rq) ck s = ((Next i, ck1), s1)" and ch: "ch_identity ch = Some i"
    by (auto simp: arrive_def split: prod.splits outcome.splits)
  from authHelper_Next [OF a] ch show ?thesis by blast
qed

definition manage_route :: route where
  "manage_route = route adminRoute M_POST ''/manage'' [] ''ManageUser''"

definition admin_cookie :: cookie where
  "admin_cookie = \<lparr>k_id = 9, k_username = ''boss'', k_role = 10, k_status = 1\<rparr>"

definition web_request :: request where
  "web_request = \<lparr>q_path = ''/api/user/manage'', q_url = ''/api/user/manage'', q_authorization = '''', q_client_ip = ''10.0.0.1'',
     q_request_id = ''r'', q_body_model = Inr '''', q_param = (\<lambda>_. '''')\<rparr>"

theorem roles_enforced_witness:
  "\<exists>k. fst (caller '''' (Some admin_cookie) empty_st) = Next k \<and> 9 = k_id k \<and> 10 \<le> k_role k"
proof -
  have "manage_route \<in> set all_routes" by (simp add: manage_route_def all_routes_def SetApiRouter_def)
  moreover have "needed_role (rt_handler manage_route) = Some RoleAdminUser"
    by (simp add: manage_route_def route_def needed_role_def root_handlers_def admin_handlers_def)
  moreover have "serve (\<lambda>_. True) True (\<lambda>rq s. (outcome.Abort 0 '''', s)) (\<lambda>rq g s. (outcome.Abort 0 '''', s)) web_request
      manage_route (Some admin_cookie) empty_st =
      Reached ((arrive (Some admin_cookie) empty_st)\<lparr>ch_identity := Some \<lparr>i_username = ''boss'', i_role = 10, i_id = 9\<rparr>\<rparr>)"
    by (simp add: serve_def manage_route_def route_def group_defs arrive_def authHelper_def caller_def admin_cookie_def
        web_request_def IsUserBanned_def empty_st_def)
  ultimately show ?thesis
    using roles_enforced [of manage_route RoleAdminUser "\<lambda>_. True" True "\<lambda>rq s. (outcome.Abort 0 '''', s)"
        "\<lambda>rq g s. (outcome.Abort 0 '''', s)" web_request "Some admin_cookie" empty_st] by (auto simp: web_request_def)
qed

lemma keyed_handlers:
  "list_all (\<lambda>h. needed_role h = None) (relay_handlers @ key_handlers)"
  by code_simp

text \<open>Every route that relays a request runs it only with a key: \<open>TokenAuth\<close> has accepted the key, and
  \<open>Distribute\<close> has chosen a channel for exactly the context that the key gave. The billing pages and the lists
  of models run with the key's context.\<close>

theorem keys_enforced:
  assumes "r \<in> set all_routes" and "rt_handler r \<in> set (relay_handlers @ key_handlers)"
    and "serve admits readable tok sel rq r ck s = Reached ch"
  shows "\<exists>g s1. tok rq s = (Next g, s1) \<and>
    (if rt_handler r \<in> set relay_handlers then \<exists>g' s2. sel rq g s1 = (Next g', s2) \<and> ch_ctx ch = Some g' \<and> ch_st ch = s2
     else ch_ctx ch = Some g \<and> ch_st ch = s1)"
proof -
  have none: "needed_role (rt_handler r) = None"
    using assms(2) keyed_handlers unfolding list_all_iff by blast
  show ?thesis
  proof (cases "rt_handler r \<in> set relay_handlers")
    case True
    then have "serious r = [ByToken, Distributed]" using routes_ask [OF assms(1)] none by (simp add: asks_role_def)
    with serve_serious [OF assms(3)] True show ?thesis
      by (auto simp: arrive_def split: prod.splits outcome.splits)
  next
    case False
    then have "serious r = [ByToken]" using routes_ask [OF assms(1)] none assms(2) by (auto simp: asks_role_def)
    with serve_serious [OF assms(3)] False show ?thesis
      by (auto simp: arrive_def split: prod.splits outcome.splits)
  qed
qed

theorem keys_enforced_witness:
  "\<exists>r ch. r \<in> set SetRelayRouter \<and> rt_handler r = ''Relay'' \<and>
    serve (\<lambda>_. True) True (\<lambda>rq s. (Next (empty_ctx rq), s)) (\<lambda>rq g s. (Next (g\<lparr>g_channel_id := 4\<rparr>), s)) web_request r None empty_st =
      Reached ch \<and> ch_ctx ch = Some (empty_ctx web_request\<lparr>g_channel_id := 4\<rparr>)"
proof -
  let ?r = "route relay_relayV1Router M_POST ''/chat/completions'' [] ''Relay''"
  let ?ch = "arrive None empty_st\<lparr>ch_ctx := Some (empty_ctx web_request\<lparr>g_channel_id := 4\<rparr>)\<rparr>"
  have r: "?r \<in> set SetRelayRouter" "rt_handler ?r = ''Relay''" by (simp_all add: SetRelayRouter_def route_def)
  moreover have run: "serve (\<lambda>_. True) True (\<lambda>rq s. (Next (empty_ctx rq), s)) (\<lambda>rq g s. (Next (g\<lparr>g_channel_id := 4\<rparr>), s))
      web_request ?r None empty_st = Reached ?ch"
    by (simp add: serve_def route_def group_defs arrive_def)
  moreover have "ch_ctx ?ch = Some (empty_ctx web_request\<lparr>g_channel_id := 4\<rparr>)"
    using keys_enforced [of ?r "\<lambda>_. True" True "\<lambda>rq s. (Next (empty_ctx rq), s)" "\<lambda>rq g s. (Next (g\<lparr>g_channel_id := 4\<rparr>), s)"
        web_request None empty_st ?ch] r run by (simp add: all_routes_def relay_handlers_def)
  ultimately show ?thesis by blast
qed

end
