(* ===== verification/Options.thy ===== *)
theory Options
  imports Users Ratios
begin

text \<open>
  Options: the settings that administrators change at run time. \<^verbatim>\<open>model/option.go\<close> keeps them in a table of
  the database, in a map of strings for the web pages, and in the variables of packages \<open>config\<close> and
  \<open>ratio\<close>; every node of the server reads the table again from time to time. \<^verbatim>\<open>controller/option.go\<close> is
  the page that shows and changes them.

  The specification is \<open>configured\<close>: every variable has the value that is stored for it, or the one it
  started with. Starting a node, changing an option and synchronising all implement it.
\<close>

section \<open>The state\<close>

text \<open>Reading and writing price tables as JSON, and \<open>strconv.FormatFloat(x, 'f', -1, 64)\<close>.\<close>

record option_ext =
  ox_marshal :: "ratio_map \<Rightarrow> string + string"
  ox_unmarshal :: "string \<Rightarrow> ratio_map \<times> string option"
  ox_float :: "f64 \<Rightarrow> string"

text \<open>The memory of a node.\<close>

record settings =
  sg_config :: config
  sg_ratios :: ratios
  sg_map :: "string \<rightharpoonup> string"

definition FormatBool :: "bool \<Rightarrow> string" where
  "FormatBool b = (if b then ''true'' else ''false'')"

text \<open>A text that is not a number counts as 0.\<close>

definition float_or_zero :: "string \<Rightarrow> f64" where
  "float_or_zero v = (case ParseFloat v of None \<Rightarrow> f64_const 0 | Some x \<Rightarrow> x)"


section \<open>Memory\<close>

definition set_enabled :: "string \<Rightarrow> bool \<Rightarrow> config \<Rightarrow> config" where
  "set_enabled key b c =
     (if key = ''PasswordRegisterEnabled'' then c\<lparr>PasswordRegisterEnabled := b\<rparr>
      else if key = ''PasswordLoginEnabled'' then c\<lparr>PasswordLoginEnabled := b\<rparr>
      else if key = ''EmailVerificationEnabled'' then c\<lparr>EmailVerificationEnabled := b\<rparr>
      else if key = ''GitHubOAuthEnabled'' then c\<lparr>GitHubOAuthEnabled := b\<rparr>
      else if key = ''OidcEnabled'' then c\<lparr>OidcEnabled := b\<rparr>
      else if key = ''RegisterEnabled'' then c\<lparr>RegisterEnabled := b\<rparr>
      else if key = ''EmailDomainRestrictionEnabled'' then c\<lparr>EmailDomainRestrictionEnabled := b\<rparr>
      else if key = ''AutomaticDisableChannelEnabled'' then c\<lparr>AutomaticDisableChannelEnabled := b\<rparr>
      else if key = ''AutomaticEnableChannelEnabled'' then c\<lparr>AutomaticEnableChannelEnabled := b\<rparr>
      else if key = ''ApproximateTokenEnabled'' then c\<lparr>ApproximateTokenEnabled := b\<rparr>
      else if key = ''LogConsumeEnabled'' then c\<lparr>LogConsumeEnabled := b\<rparr>
      else if key = ''DisplayInCurrencyEnabled'' then c\<lparr>DisplayInCurrencyEnabled := b\<rparr>
      else if key = ''DisplayTokenStatEnabled'' then c\<lparr>DisplayTokenStatEnabled := b\<rparr>
      else c)"

definition set_option :: "string \<Rightarrow> string \<Rightarrow> config \<Rightarrow> config" where
  "set_option key v c =
     (if key = ''EmailDomainWhitelist'' then c\<lparr>EmailDomainWhitelist := Split (CHR '','') v\<rparr>
      else if key = ''SMTPServer'' then c\<lparr>SMTPServer := v\<rparr>
      else if key = ''SMTPPort'' then c\<lparr>SMTPPort := parse_value (ParseInt v)\<rparr>
      else if key = ''SMTPAccount'' then c\<lparr>SMTPAccount := v\<rparr>
      else if key = ''SMTPFrom'' then c\<lparr>SMTPFrom := v\<rparr>
      else if key = ''SMTPToken'' then c\<lparr>SMTPToken := v\<rparr>
      else if key = ''ServerAddress'' then c\<lparr>ServerAddress := v\<rparr>
      else if key = ''GitHubClientId'' then c\<lparr>GitHubClientId := v\<rparr>
      else if key = ''GitHubClientSecret'' then c\<lparr>GitHubClientSecret := v\<rparr>
      else if key = ''LarkClientId'' then c\<lparr>LarkClientId := v\<rparr>
      else if key = ''LarkClientSecret'' then c\<lparr>LarkClientSecret := v\<rparr>
      else if key = ''OidcClientId'' then c\<lparr>OidcClientId := v\<rparr>
      else if key = ''OidcClientSecret'' then c\<lparr>OidcClientSecret := v\<rparr>
      else if key = ''OidcWellKnown'' then c\<lparr>OidcWellKnown := v\<rparr>
      else if key = ''OidcAuthorizationEndpoint'' then c\<lparr>OidcAuthorizationEndpoint := v\<rparr>
      else if key = ''OidcTokenEndpoint'' then c\<lparr>OidcTokenEndpoint := v\<rparr>
      else if key = ''OidcUserinfoEndpoint'' then c\<lparr>OidcUserinfoEndpoint := v\<rparr>
      else if key = ''Footer'' then c\<lparr>Footer := v\<rparr>
      else if key = ''SystemName'' then c\<lparr>SystemName := v\<rparr>
      else if key = ''Logo'' then c\<lparr>Logo := v\<rparr>
      else if key = ''MessagePusherAddress'' then c\<lparr>MessagePusherAddress := v\<rparr>
      else if key = ''MessagePusherToken'' then c\<lparr>MessagePusherToken := v\<rparr>
      else if key = ''QuotaForNewUser'' then c\<lparr>QuotaForNewUser := parse_value (ParseInt v)\<rparr>
      else if key = ''QuotaForInviter'' then c\<lparr>QuotaForInviter := parse_value (ParseInt v)\<rparr>
      else if key = ''QuotaForInvitee'' then c\<lparr>QuotaForInvitee := parse_value (ParseInt v)\<rparr>
      else if key = ''QuotaRemindThreshold'' then c\<lparr>QuotaRemindThreshold := parse_value (ParseInt v)\<rparr>
      else if key = ''PreConsumedQuota'' then c\<lparr>PreConsumedQuota := parse_value (ParseInt v)\<rparr>
      else if key = ''RetryTimes'' then c\<lparr>RetryTimes := parse_value (ParseInt v)\<rparr>
      else if key = ''TopUpLink'' then c\<lparr>TopUpLink := v\<rparr>
      else if key = ''ChatLink'' then c\<lparr>ChatLink := v\<rparr>
      else if key = ''ChannelDisableThreshold'' then c\<lparr>ChannelDisableThreshold := float_or_zero v\<rparr>
      else if key = ''QuotaPerUnit'' then c\<lparr>QuotaPerUnit := float_or_zero v\<rparr>
      else if key = ''Theme'' then c\<lparr>Theme := v\<rparr>
      else c)"

text \<open>The cases that change a price table; the error is that of the JSON text.\<close>

definition set_ratio :: "option_ext \<Rightarrow> string \<Rightarrow> string \<Rightarrow> ratios \<Rightarrow> string option \<times> ratios" where
  "set_ratio ox key v rs =
     (if key = ''ModelRatio'' then UpdateModelRatioByJSONString (ox_unmarshal ox) v rs
      else if key = ''GroupRatio'' then UpdateGroupRatioByJSONString (ox_unmarshal ox) v rs
      else if key = ''CompletionRatio'' then UpdateCompletionRatioByJSONString (ox_unmarshal ox) v rs
      else (None, rs))"

definition updateOptionMap :: "option_ext \<Rightarrow> string \<Rightarrow> string \<Rightarrow> settings \<Rightarrow> string option \<times> settings" where
  "updateOptionMap ox key v g =
     (let c = (if HasSuffix key ''Enabled'' then set_enabled key (v = ''true'') (sg_config g) else sg_config g)
      in case set_ratio ox key v (sg_ratios g) of
        (err, rs) \<Rightarrow>
          (err, \<lparr>sg_config = set_option key v c, sg_ratios = rs, sg_map = (sg_map g)(key \<mapsto> v)\<rparr>))"

text \<open>What the map shows at the start.\<close>

definition option_defaults :: "option_ext \<Rightarrow> config \<Rightarrow> ratios \<Rightarrow> (string \<times> string) list" where
  "option_defaults ox c rs = [
     (''PasswordLoginEnabled'', FormatBool (PasswordLoginEnabled c)),
     (''PasswordRegisterEnabled'', FormatBool (PasswordRegisterEnabled c)),
     (''EmailVerificationEnabled'', FormatBool (EmailVerificationEnabled c)),
     (''GitHubOAuthEnabled'', FormatBool (GitHubOAuthEnabled c)),
     (''OidcEnabled'', FormatBool (OidcEnabled c)),
     (''RegisterEnabled'', FormatBool (RegisterEnabled c)),
     (''AutomaticDisableChannelEnabled'', FormatBool (AutomaticDisableChannelEnabled c)),
     (''AutomaticEnableChannelEnabled'', FormatBool (AutomaticEnableChannelEnabled c)),
     (''ApproximateTokenEnabled'', FormatBool (ApproximateTokenEnabled c)),
     (''LogConsumeEnabled'', FormatBool (LogConsumeEnabled c)),
     (''DisplayInCurrencyEnabled'', FormatBool (DisplayInCurrencyEnabled c)),
     (''DisplayTokenStatEnabled'', FormatBool (DisplayTokenStatEnabled c)),
     (''ChannelDisableThreshold'', ox_float ox (ChannelDisableThreshold c)),
     (''EmailDomainRestrictionEnabled'', FormatBool (EmailDomainRestrictionEnabled c)),
     (''EmailDomainWhitelist'', Join (CHR '','') (EmailDomainWhitelist c)),
     (''SMTPServer'', ''''),
     (''SMTPFrom'', ''''),
     (''SMTPPort'', Itoa (SMTPPort c)),
     (''SMTPAccount'', ''''),
     (''SMTPToken'', ''''),
     (''Notice'', ''''),
     (''About'', ''''),
     (''HomePageContent'', ''''),
     (''Footer'', Footer c),
     (''SystemName'', SystemName c),
     (''Logo'', Logo c),
     (''ServerAddress'', ''''),
     (''GitHubClientId'', ''''),
     (''GitHubClientSecret'', ''''),
     (''MessagePusherAddress'', ''''),
     (''MessagePusherToken'', ''''),
     (''QuotaForNewUser'', Itoa (QuotaForNewUser c)),
     (''QuotaForInviter'', Itoa (QuotaForInviter c)),
     (''QuotaForInvitee'', Itoa (QuotaForInvitee c)),
     (''QuotaRemindThreshold'', Itoa (QuotaRemindThreshold c)),
     (''PreConsumedQuota'', Itoa (PreConsumedQuota c)),
     (''ModelRatio'', ModelRatio2JSONString (ox_marshal ox) rs),
     (''GroupRatio'', GroupRatio2JSONString (ox_marshal ox) rs),
     (''CompletionRatio'', CompletionRatio2JSONString (ox_marshal ox) rs),
     (''TopUpLink'', TopUpLink c),
     (''ChatLink'', ChatLink c),
     (''QuotaPerUnit'', ox_float ox (QuotaPerUnit c)),
     (''RetryTimes'', Itoa (RetryTimes c)),
     (''Theme'', Theme c)]"


text \<open>These start out as the empty text, whatever the variable is.\<close>

definition blank_keys :: "string list" where
  "blank_keys = [''SMTPServer'', ''SMTPFrom'', ''SMTPAccount'', ''SMTPToken'',
     ''Notice'', ''About'', ''HomePageContent'', ''ServerAddress'',
     ''GitHubClientId'', ''GitHubClientSecret'', ''MessagePusherAddress'', ''MessagePusherToken'']"


section \<open>The table\<close>

definition AllOption :: "st \<Rightarrow> (string + (string \<times> string) list) \<times> st" where
  "AllOption = db_find options"

text \<open>Prices of models that the stored table lacks are added when it is loaded.\<close>

definition load_option :: "option_ext \<Rightarrow> string \<times> string \<Rightarrow> settings \<Rightarrow> settings" where
  "load_option ox row g =
     (let v = (if fst row = ''ModelRatio'' then AddNewMissingRatio (ox_marshal ox) (ox_unmarshal ox) (snd row) else snd row)
      in snd (updateOptionMap ox (fst row) v g))"

text \<open>An error of the query gives no rows.\<close>

definition loadOptionsFromDatabase :: "option_ext \<Rightarrow> settings \<Rightarrow> st \<Rightarrow> settings \<times> st" where
  "loadOptionsFromDatabase ox g s =
     (case AllOption s of
        (Inl e, s) \<Rightarrow> (g, s)
      | (Inr os, s) \<Rightarrow> (fold (load_option ox) os g, s))"

definition InitOptionMap :: "option_ext \<Rightarrow> settings \<Rightarrow> st \<Rightarrow> settings \<times> st" where
  "InitOptionMap ox g s =
     loadOptionsFromDatabase ox (g\<lparr>sg_map := map_of (option_defaults ox (sg_config g) (sg_ratios g))\<rparr>) s"

text \<open>Keys are ordered bytewise; without a condition the first row is taken.\<close>

fun bytes_le :: "string \<Rightarrow> string \<Rightarrow> bool" where
  "bytes_le [] ys = True"
| "bytes_le (x # xs) [] = False"
| "bytes_le (x # xs) (y # ys) =
     (of_char x < (of_char y :: nat) \<or> x = y \<and> bytes_le xs ys)"

fun first_option :: "(string \<times> string) list \<Rightarrow> (string \<times> string) option" where
  "first_option [] = None"
| "first_option (x # xs) =
     (case first_option xs of None \<Rightarrow> Some x | Some y \<Rightarrow> Some (if bytes_le (fst x) (fst y) then x else y))"

text \<open>
  The struct with the condition has only non-zero fields as conditions, so the empty key is no condition.
  Errors are dropped; the struct keeps its key.
\<close>

definition FirstOrCreate_option :: "string \<Rightarrow> st \<Rightarrow> string \<times> st" where
  "FirstOrCreate_option key s =
     (case db_find (\<lambda>s. if key = '''' then first_option (options s) else find (\<lambda>r. fst r = key) (options s)) s of
        (Inl e, s) \<Rightarrow> (key, s)
      | (Inr (Some row), s) \<Rightarrow> (fst row, s)
      | (Inr None, s) \<Rightarrow> (key, snd (db_exec (\<lambda>s. s\<lparr>options := options s @ [(key, '''')]\<rparr>) s)))"

definition has_option :: "string \<Rightarrow> st \<Rightarrow> bool" where
  "has_option key s \<longleftrightarrow> (\<exists>r \<in> set (options s). fst r = key)"

text \<open>
  \<open>Save\<close>: a struct without its primary key is inserted, one with it updates its row, and is inserted when
  there is no such row.
\<close>

definition Save_option :: "string \<Rightarrow> string \<Rightarrow> st \<Rightarrow> st" where
  "Save_option key v s =
     (let insert = (\<lambda>s. if has_option key s then s else s\<lparr>options := options s @ [(key, v)]\<rparr>)
      in if key = '''' then snd (db_exec insert s)
         else case db_exec (\<lambda>s. s\<lparr>options := map (\<lambda>r. if fst r = key then (key, v) else r) (options s)\<rparr>) s of
           (Some e, s) \<Rightarrow> s
         | (None, s) \<Rightarrow> (if has_option key s then s else snd (db_exec insert s)))"

definition UpdateOption :: "option_ext \<Rightarrow> string \<Rightarrow> string \<Rightarrow> settings \<Rightarrow> st \<Rightarrow> string option \<times> settings \<times> st" where
  "UpdateOption ox key v g s =
     (case FirstOrCreate_option key s of
        (row_key, s) \<Rightarrow>
          (case updateOptionMap ox key v g of (err, g) \<Rightarrow> (err, g, Save_option row_key v s)))"


section \<open>The page\<close>

text \<open>The rows of the answer have no order. Values of keys that end in \<open>Token\<close> or \<open>Secret\<close> are not shown.\<close>

definition GetOptions :: "settings \<Rightarrow> string \<rightharpoonup> string" where
  "GetOptions g = (\<lambda>k. if HasSuffix k ''Token'' \<or> HasSuffix k ''Secret'' then None else sg_map g k)"

definition option_refused :: "config \<Rightarrow> string \<Rightarrow> string \<Rightarrow> string option" where
  "option_refused c key v =
     (if key = ''Theme'' then (if \<not> ValidThemes v then Some ''Invalid theme'' else None)
      else if key = ''GitHubOAuthEnabled'' then
        (if v = ''true'' \<and> GitHubClientId c = ''''
         then Some ''Cannot enable GitHub OAuth, please fill in GitHub Client Id and GitHub Client Secret first!'' else None)
      else if key = ''EmailDomainRestrictionEnabled'' then
        (if v = ''true'' \<and> EmailDomainWhitelist c = []
         then Some ''Cannot enable email domain restriction, please fill in restricted email domains first!'' else None)
      else None)"

text \<open>The handler \<open>UpdateOption\<close> of package \<open>controller\<close>.\<close>

definition UpdateOption_handler ::
    "option_ext \<Rightarrow> (string \<Rightarrow> string) \<Rightarrow> (string + string \<times> string) \<Rightarrow> settings \<Rightarrow> st \<Rightarrow> unit reply \<times> settings \<times> st" where
  "UpdateOption_handler ox tr body g s =
     (case body of
        Inl e \<Rightarrow> (Failure (tr ''invalid_parameter''), g, s)
      | Inr (key, v) \<Rightarrow>
          (case option_refused (sg_config g) key v of
             Some msg \<Rightarrow> (Failure msg, g, s)
           | None \<Rightarrow>
               (case UpdateOption ox key v g s of
                  (Some e, g, s) \<Rightarrow> (Failure e, g, s)
                | (None, g, s) \<Rightarrow> (Success (), g, s))))"


section \<open>Specification\<close>

definition opt_str :: "(string \<rightharpoonup> string) \<Rightarrow> string \<Rightarrow> string \<Rightarrow> string" where
  "opt_str m k d = (case m k of None \<Rightarrow> d | Some v \<Rightarrow> v)"

definition opt_bool :: "(string \<rightharpoonup> string) \<Rightarrow> string \<Rightarrow> bool \<Rightarrow> bool" where
  "opt_bool m k d = (case m k of None \<Rightarrow> d | Some v \<Rightarrow> v = ''true'')"

definition opt_int :: "(string \<rightharpoonup> string) \<Rightarrow> string \<Rightarrow> int \<Rightarrow> int" where
  "opt_int m k d = (case m k of None \<Rightarrow> d | Some v \<Rightarrow> parse_value (ParseInt v))"

definition opt_float :: "(string \<rightharpoonup> string) \<Rightarrow> string \<Rightarrow> f64 \<Rightarrow> f64" where
  "opt_float m k d = (case m k of None \<Rightarrow> d | Some v \<Rightarrow> float_or_zero v)"

definition opt_list :: "(string \<rightharpoonup> string) \<Rightarrow> string \<Rightarrow> string list \<Rightarrow> string list" where
  "opt_list m k d = (case m k of None \<Rightarrow> d | Some v \<Rightarrow> Split (CHR '','') v)"

text \<open>The variables of \<open>config\<close> when the map of options is \<open>m\<close> and they started as \<open>c\<close>.\<close>

definition configured :: "(string \<rightharpoonup> string) \<Rightarrow> config \<Rightarrow> config" where
  "configured m c = \<lparr>
     SystemName = opt_str m ''SystemName'' (SystemName c),
     ServerAddress = opt_str m ''ServerAddress'' (ServerAddress c),
     Footer = opt_str m ''Footer'' (Footer c),
     Logo = opt_str m ''Logo'' (Logo c),
     TopUpLink = opt_str m ''TopUpLink'' (TopUpLink c),
     ChatLink = opt_str m ''ChatLink'' (ChatLink c),
     QuotaPerUnit = opt_float m ''QuotaPerUnit'' (QuotaPerUnit c),
     DisplayInCurrencyEnabled = opt_bool m ''DisplayInCurrencyEnabled'' (DisplayInCurrencyEnabled c),
     DisplayTokenStatEnabled = opt_bool m ''DisplayTokenStatEnabled'' (DisplayTokenStatEnabled c),
     ItemsPerPage = ItemsPerPage c,
     MaxRecentItems = MaxRecentItems c,
     PasswordLoginEnabled = opt_bool m ''PasswordLoginEnabled'' (PasswordLoginEnabled c),
     PasswordRegisterEnabled = opt_bool m ''PasswordRegisterEnabled'' (PasswordRegisterEnabled c),
     EmailVerificationEnabled = opt_bool m ''EmailVerificationEnabled'' (EmailVerificationEnabled c),
     GitHubOAuthEnabled = opt_bool m ''GitHubOAuthEnabled'' (GitHubOAuthEnabled c),
     OidcEnabled = opt_bool m ''OidcEnabled'' (OidcEnabled c),
     RegisterEnabled = opt_bool m ''RegisterEnabled'' (RegisterEnabled c),
     EmailDomainRestrictionEnabled = opt_bool m ''EmailDomainRestrictionEnabled'' (EmailDomainRestrictionEnabled c),
     EmailDomainWhitelist = opt_list m ''EmailDomainWhitelist'' (EmailDomainWhitelist c),
     DebugEnabled = DebugEnabled c,
     DebugSQLEnabled = DebugSQLEnabled c,
     MemoryCacheEnabled = MemoryCacheEnabled c,
     LogConsumeEnabled = opt_bool m ''LogConsumeEnabled'' (LogConsumeEnabled c),
     SMTPServer = opt_str m ''SMTPServer'' (SMTPServer c),
     SMTPPort = opt_int m ''SMTPPort'' (SMTPPort c),
     SMTPAccount = opt_str m ''SMTPAccount'' (SMTPAccount c),
     SMTPFrom = opt_str m ''SMTPFrom'' (SMTPFrom c),
     SMTPToken = opt_str m ''SMTPToken'' (SMTPToken c),
     GitHubClientId = opt_str m ''GitHubClientId'' (GitHubClientId c),
     GitHubClientSecret = opt_str m ''GitHubClientSecret'' (GitHubClientSecret c),
     LarkClientId = opt_str m ''LarkClientId'' (LarkClientId c),
     LarkClientSecret = opt_str m ''LarkClientSecret'' (LarkClientSecret c),
     OidcClientId = opt_str m ''OidcClientId'' (OidcClientId c),
     OidcClientSecret = opt_str m ''OidcClientSecret'' (OidcClientSecret c),
     OidcWellKnown = opt_str m ''OidcWellKnown'' (OidcWellKnown c),
     OidcAuthorizationEndpoint = opt_str m ''OidcAuthorizationEndpoint'' (OidcAuthorizationEndpoint c),
     OidcTokenEndpoint = opt_str m ''OidcTokenEndpoint'' (OidcTokenEndpoint c),
     OidcUserinfoEndpoint = opt_str m ''OidcUserinfoEndpoint'' (OidcUserinfoEndpoint c),
     MessagePusherAddress = opt_str m ''MessagePusherAddress'' (MessagePusherAddress c),
     MessagePusherToken = opt_str m ''MessagePusherToken'' (MessagePusherToken c),
     QuotaForNewUser = opt_int m ''QuotaForNewUser'' (QuotaForNewUser c),
     QuotaForInviter = opt_int m ''QuotaForInviter'' (QuotaForInviter c),
     QuotaForInvitee = opt_int m ''QuotaForInvitee'' (QuotaForInvitee c),
     ChannelDisableThreshold = opt_float m ''ChannelDisableThreshold'' (ChannelDisableThreshold c),
     AutomaticDisableChannelEnabled = opt_bool m ''AutomaticDisableChannelEnabled'' (AutomaticDisableChannelEnabled c),
     AutomaticEnableChannelEnabled = opt_bool m ''AutomaticEnableChannelEnabled'' (AutomaticEnableChannelEnabled c),
     QuotaRemindThreshold = opt_int m ''QuotaRemindThreshold'' (QuotaRemindThreshold c),
     PreConsumedQuota = opt_int m ''PreConsumedQuota'' (PreConsumedQuota c),
     ApproximateTokenEnabled = opt_bool m ''ApproximateTokenEnabled'' (ApproximateTokenEnabled c),
     RetryTimes = opt_int m ''RetryTimes'' (RetryTimes c),
     RootUserEmail = RootUserEmail c,
     IsMasterNode = IsMasterNode c,
     RequestInterval = RequestInterval c,
     SyncFrequency = SyncFrequency c,
     BatchUpdateEnabled = BatchUpdateEnabled c,
     BatchUpdateInterval = BatchUpdateInterval c,
     RelayTimeout = RelayTimeout c,
     GeminiSafetySetting = GeminiSafetySetting c,
     Theme = opt_str m ''Theme'' (Theme c),
     GlobalApiRateLimitNum = GlobalApiRateLimitNum c,
     GlobalApiRateLimitDuration = GlobalApiRateLimitDuration c,
     GlobalWebRateLimitNum = GlobalWebRateLimitNum c,
     GlobalWebRateLimitDuration = GlobalWebRateLimitDuration c,
     UploadRateLimitNum = UploadRateLimitNum c,
     UploadRateLimitDuration = UploadRateLimitDuration c,
     DownloadRateLimitNum = DownloadRateLimitNum c,
     DownloadRateLimitDuration = DownloadRateLimitDuration c,
     CriticalRateLimitNum = CriticalRateLimitNum c,
     CriticalRateLimitDuration = CriticalRateLimitDuration c,
     RateLimitKeyExpirationDuration = RateLimitKeyExpirationDuration c,
     EnableMetric = EnableMetric c,
     MetricQueueSize = MetricQueueSize c,
     MetricSuccessRateThreshold = MetricSuccessRateThreshold c,
     MetricSuccessChanSize = MetricSuccessChanSize c,
     MetricFailChanSize = MetricFailChanSize c,
     InitialRootToken = InitialRootToken c,
     InitialRootAccessToken = InitialRootAccessToken c,
     GeminiVersion = GeminiVersion c,
     OnlyOneLogFile = OnlyOneLogFile c,
     RelayProxy = RelayProxy c,
     UserContentRequestProxy = UserContentRequestProxy c,
     UserContentRequestTimeout = UserContentRequestTimeout c,
     EnforceIncludeUsage = EnforceIncludeUsage c,
     TestPrompt = TestPrompt c\<rparr>"

definition enabled_keys :: "string list" where
  "enabled_keys = [''PasswordRegisterEnabled'', ''PasswordLoginEnabled'', ''EmailVerificationEnabled'', ''GitHubOAuthEnabled'',
     ''OidcEnabled'', ''RegisterEnabled'', ''EmailDomainRestrictionEnabled'', ''AutomaticDisableChannelEnabled'',
     ''AutomaticEnableChannelEnabled'', ''ApproximateTokenEnabled'', ''LogConsumeEnabled'', ''DisplayInCurrencyEnabled'',
     ''DisplayTokenStatEnabled'']"

definition service_keys :: "string list" where
  "service_keys = [''EmailDomainWhitelist'', ''SMTPServer'', ''SMTPPort'', ''SMTPAccount'',
     ''SMTPFrom'', ''SMTPToken'', ''ServerAddress'', ''GitHubClientId'',
     ''GitHubClientSecret'', ''LarkClientId'', ''LarkClientSecret'', ''OidcClientId'',
     ''OidcClientSecret'', ''OidcWellKnown'', ''OidcAuthorizationEndpoint'', ''OidcTokenEndpoint'',
     ''OidcUserinfoEndpoint'']"

definition site_keys :: "string list" where
  "site_keys = [''Footer'', ''SystemName'', ''Logo'', ''MessagePusherAddress'',
     ''MessagePusherToken'', ''QuotaForNewUser'', ''QuotaForInviter'', ''QuotaForInvitee'',
     ''QuotaRemindThreshold'', ''PreConsumedQuota'', ''RetryTimes'', ''TopUpLink'',
     ''ChatLink'', ''ChannelDisableThreshold'', ''QuotaPerUnit'', ''Theme'']"

definition config_keys :: "string list" where
  "config_keys = enabled_keys @ service_keys @ site_keys"

lemmas opt_defs = opt_str_def opt_bool_def opt_int_def opt_float_def opt_list_def

lemma opt_upd [simp]:
  "opt_str (m(k \<mapsto> v)) k d = v" "opt_bool (m(k \<mapsto> v)) k b = (v = ''true'')"
  "opt_int (m(k \<mapsto> v)) k i = parse_value (ParseInt v)" "opt_float (m(k \<mapsto> v)) k f = float_or_zero v"
  "opt_list (m(k \<mapsto> v)) k ds = Split (CHR '','') v"
  by (simp_all add: opt_defs)

lemma opt_other [simp]:
  "k \<noteq> l \<Longrightarrow> opt_str (m(l \<mapsto> v)) k d = opt_str m k d" "k \<noteq> l \<Longrightarrow> opt_bool (m(l \<mapsto> v)) k b = opt_bool m k b"
  "k \<noteq> l \<Longrightarrow> opt_int (m(l \<mapsto> v)) k i = opt_int m k i" "k \<noteq> l \<Longrightarrow> opt_float (m(l \<mapsto> v)) k f = opt_float m k f"
  "k \<noteq> l \<Longrightarrow> opt_list (m(l \<mapsto> v)) k ds = opt_list m k ds"
  by (simp_all add: opt_defs)

definition set_variable :: "string \<Rightarrow> string \<Rightarrow> config \<Rightarrow> config" where
  "set_variable key v c =
     set_option key v (if HasSuffix key ''Enabled'' then set_enabled key (v = ''true'') c else c)"

lemma set_variable_other: "k \<notin> set config_keys \<Longrightarrow> set_variable k v c = c"
  by (simp add: set_variable_def set_option_def set_enabled_def config_keys_def enabled_keys_def service_keys_def site_keys_def)

lemma configured_other: "k \<notin> set config_keys \<Longrightarrow> configured (m(k \<mapsto> v)) c = configured m c"
  by (simp add: config_keys_def enabled_keys_def service_keys_def site_keys_def configured_def opt_other [OF not_sym])

text \<open>The lemma is checked key by key, in three groups.\<close>

lemma set_variable_enabled:
  "\<forall>k \<in> set enabled_keys. set_variable k v (configured m c) = configured (m(k \<mapsto> v)) c"
  unfolding enabled_keys_def list.set ball_simps
  by (intro conjI TrueI; simp add: set_variable_def set_option_def set_enabled_def HasSuffix_def; simp add: configured_def)

lemma set_variable_service:
  "\<forall>k \<in> set service_keys. set_variable k v (configured m c) = configured (m(k \<mapsto> v)) c"
  unfolding service_keys_def list.set ball_simps
  by (intro conjI TrueI; simp add: set_variable_def set_option_def HasSuffix_def; simp add: configured_def)

lemma set_variable_site:
  "\<forall>k \<in> set site_keys. set_variable k v (configured m c) = configured (m(k \<mapsto> v)) c"
  unfolding site_keys_def list.set ball_simps
  by (intro conjI TrueI; simp add: set_variable_def set_option_def HasSuffix_def; simp add: configured_def)

lemma set_variable_configured [simp]: "set_variable k v (configured m c) = configured (m(k \<mapsto> v)) c"
proof (cases "k \<in> set config_keys")
  case True
  then show ?thesis using set_variable_enabled set_variable_service set_variable_site by (auto simp: config_keys_def)
next
  case False
  then show ?thesis by (simp only: set_variable_other configured_other not_False_eq_True)
qed

lemma configured_empty [simp]: "configured Map.empty c = c"
  by (simp add: configured_def opt_defs)

lemma configured_cong: "(\<And>k. k \<in> set config_keys \<Longrightarrow> m k = m' k) \<Longrightarrow> configured m c = configured m' c"
  by (simp add: configured_def opt_defs config_keys_def enabled_keys_def service_keys_def site_keys_def)

text \<open>The price tables, likewise.\<close>

definition opt_ratio :: "option_ext \<Rightarrow> (string \<rightharpoonup> string) \<Rightarrow> string \<Rightarrow> ratio_map \<Rightarrow> ratio_map" where
  "opt_ratio ox m k d = (case m k of None \<Rightarrow> d | Some v \<Rightarrow> fst (ox_unmarshal ox v))"

definition priced :: "option_ext \<Rightarrow> (string \<rightharpoonup> string) \<Rightarrow> ratios \<Rightarrow> ratios" where
  "priced ox m rs = \<lparr>
     ModelRatio = opt_ratio ox m ''ModelRatio'' (ModelRatio rs),
     CompletionRatio = opt_ratio ox m ''CompletionRatio'' (CompletionRatio rs),
     GroupRatio = opt_ratio ox m ''GroupRatio'' (GroupRatio rs)\<rparr>"

definition in_memory :: "option_ext \<Rightarrow> (string \<rightharpoonup> string) \<Rightarrow> settings \<Rightarrow> settings \<Rightarrow> bool" where
  "in_memory ox m g0 g \<longleftrightarrow>
     sg_config g = configured m (sg_config g0) \<and> sg_ratios g = priced ox m (sg_ratios g0)"

lemma in_memory_start: "sg_config g = sg_config g0 \<Longrightarrow> sg_ratios g = sg_ratios g0 \<Longrightarrow> in_memory ox Map.empty g0 g"
  by (simp add: in_memory_def priced_def opt_ratio_def)

lemma set_ratio_priced: "snd (set_ratio ox k v (priced ox m rs)) = priced ox (m(k \<mapsto> v)) rs"
  by (auto simp: set_ratio_def priced_def opt_ratio_def UpdateModelRatioByJSONString_def Let_def
      UpdateGroupRatioByJSONString_def UpdateCompletionRatioByJSONString_def split: prod.splits)

lemma updateOptionMap_parts:
  "sg_config (snd (updateOptionMap ox k v g)) = set_variable k v (sg_config g)"
  "sg_ratios (snd (updateOptionMap ox k v g)) = snd (set_ratio ox k v (sg_ratios g))"
  by (simp_all add: updateOptionMap_def set_variable_def split: prod.split)

lemma in_memory_update: "in_memory ox m g0 g \<Longrightarrow> in_memory ox (m(k \<mapsto> v)) g0 (snd (updateOptionMap ox k v g))"
  by (simp add: in_memory_def updateOptionMap_parts set_ratio_priced)

text \<open>The text that loading a row gives to the map.\<close>

definition loaded_text :: "option_ext \<Rightarrow> string \<Rightarrow> string \<Rightarrow> string" where
  "loaded_text ox k v = (if k = ''ModelRatio'' then AddNewMissingRatio (ox_marshal ox) (ox_unmarshal ox) v else v)"

definition loaded :: "option_ext \<Rightarrow> (string \<times> string) list \<Rightarrow> string \<rightharpoonup> string" where
  "loaded ox os = (\<lambda>k. map_option (loaded_text ox k) (map_of os k))"

lemma in_memory_fold:
  "in_memory ox m g0 g \<Longrightarrow> in_memory ox (m ++ loaded ox (rev os)) g0 (fold (load_option ox) os g)"
proof (induction os arbitrary: m g)
  case Nil
  then show ?case by (simp add: loaded_def)
next
  case (Cons r os)
  have "in_memory ox (m(fst r \<mapsto> loaded_text ox (fst r) (snd r))) g0 (load_option ox r g)"
    using in_memory_update [OF Cons.prems] by (simp add: load_option_def loaded_text_def)
  then have "in_memory ox (m(fst r \<mapsto> loaded_text ox (fst r) (snd r)) ++ loaded ox (rev os)) g0
      (fold (load_option ox) os (load_option ox r g))" by (rule Cons.IH)
  moreover have "m(fst r \<mapsto> loaded_text ox (fst r) (snd r)) ++ loaded ox (rev os) = m ++ loaded ox (rev (r # os))"
    by (cases r) (auto simp: loaded_def map_add_def fun_eq_iff split: option.splits)
  ultimately show ?case by (simp only: fold.simps o_apply)
qed

lemma priced_cong:
  "(\<And>k. k \<in> {''ModelRatio'', ''CompletionRatio'', ''GroupRatio''} \<Longrightarrow> m k = m' k) \<Longrightarrow> priced ox m rs = priced ox m' rs"
  by (simp add: priced_def opt_ratio_def)

lemma loadOptions_ok:
  "db_faults s = [] \<Longrightarrow> loadOptionsFromDatabase ox g s = (fold (load_option ox) (options s) g, s)"
  by (simp add: loadOptionsFromDatabase_def AllOption_def)

lemma in_memory_boot:
  assumes "db_faults s = []" and "InitOptionMap ox g0 s = (g, s')"
  shows "in_memory ox (loaded ox (rev (options s))) g0 g \<and> s' = s"
  using assms in_memory_fold [OF in_memory_start, of "g0\<lparr>sg_map := map_of (option_defaults ox (sg_config g0) (sg_ratios g0))\<rparr>" g0]
  by (auto simp: InitOptionMap_def loadOptions_ok)


section \<open>The table after a change\<close>

definition option_keys :: "st \<Rightarrow> string set" where
  "option_keys s = fst ` set (options s)"

lemma dom_loaded: "dom (loaded ox os) = fst ` set os"
proof -
  have "dom (loaded ox os) = dom (map_of os)" by (auto simp: loaded_def)
  then show ?thesis by (simp add: dom_map_of_conv_image_fst)
qed

lemma first_option_mem: "first_option os = Some r \<Longrightarrow> r \<in> set os"
  by (induction os arbitrary: r) (auto split: option.splits if_splits)

lemma first_option_None: "first_option os = None \<longleftrightarrow> os = []"
  by (cases os) (auto split: option.splits)

lemma has_option_iff: "has_option k s \<longleftrightarrow> k \<in> option_keys s"
  by (auto simp: has_option_def option_keys_def image_iff)

text \<open>\<open>FirstOrCreate\<close> leaves a row with the key of the struct.\<close>

lemma FirstOrCreate_option_ok:
  assumes "db_faults s = []" and "distinct (map fst (options s))" and "FirstOrCreate_option key s = (k, s1)"
  shows "db_faults s1 = [] \<and> distinct (map fst (options s1)) \<and> k \<in> option_keys s1 \<and>
    option_keys s \<subseteq> option_keys s1 \<and> (key \<noteq> '''' \<longrightarrow> k = key) \<and> (\<forall>j. j \<noteq> key \<longrightarrow> map_of (options s1) j = map_of (options s) j)"
proof (cases "if key = '''' then first_option (options s) else find (\<lambda>r. fst r = key) (options s)")
  case None
  then have "key \<notin> option_keys s"
    by (auto simp: option_keys_def first_option_None find_None_iff split: if_splits)
  with None assms show ?thesis
    by (auto simp: FirstOrCreate_option_def option_keys_def map_of_append map_add_def split: option.splits)
next
  case (Some r)
  then have "r \<in> set (options s)" "key \<noteq> '''' \<longrightarrow> fst r = key"
    by (auto split: if_splits dest: first_option_mem simp: find_Some_iff)
  with Some assms show ?thesis by (auto simp: FirstOrCreate_option_def option_keys_def)
qed

lemma map_of_set_value:
  "map_of (map (\<lambda>r. if fst r = k then (k, v) else r) os) j =
     (if j = k then map_option (\<lambda>_. v) (map_of os k) else map_of os j)"
  by (induction os) auto

lemma Save_option_ok:
  assumes "db_faults s = []" and "distinct (map fst (options s))" and "k \<in> option_keys s"
  shows "db_faults (Save_option k v s) = [] \<and> distinct (map fst (options (Save_option k v s))) \<and>
    option_keys (Save_option k v s) = option_keys s \<and>
    (\<forall>j. map_of (options (Save_option k v s)) j = (if j = k \<and> k \<noteq> '''' then Some v else map_of (options s) j))"
proof (cases "k = ''''")
  case True
  with assms show ?thesis by (simp add: Save_option_def Let_def has_option_iff)
next
  case False
  let ?os = "map (\<lambda>r. if fst r = k then (k, v) else r) (options s)"
  have keys: "map fst ?os = map fst (options s)" by (simp add: comp_def if_distrib cong: if_cong)
  then have set_keys: "fst ` set ?os = fst ` set (options s)" by (metis set_map)
  then have "has_option k (s\<lparr>options := ?os\<rparr>)"     using assms(3) set_keys by (simp add: has_option_iff option_keys_def del: set_map)
  then have saved: "Save_option k v s = s\<lparr>options := ?os\<rparr>" using False assms(1) by (simp add: Save_option_def Let_def)
  have "map_of (options s) k \<noteq> None" using assms(3) by (simp add: option_keys_def map_of_eq_None_iff)
  then show ?thesis using assms keys set_keys False by (auto simp: saved option_keys_def map_of_set_value simp del: map_map)
qed

lemma UpdateOption_table:
  assumes "db_faults s = []" and "distinct (map fst (options s))" and "UpdateOption ox key v g s = (r, g', s')"
  shows "db_faults s' = [] \<and> distinct (map fst (options s')) \<and> option_keys s \<union> (if key = '''' then {} else {key}) \<subseteq> option_keys s' \<and>
    g' = snd (updateOptionMap ox key v g) \<and> (key \<noteq> '''' \<longrightarrow> map_of (options s') = (map_of (options s))(key \<mapsto> v))"
proof -
  obtain k s1 where f: "FirstOrCreate_option key s = (k, s1)" by fastforce
  note F = FirstOrCreate_option_ok [OF assms(1,2) f]
  then have S: "db_faults (Save_option k v s1) = []" "distinct (map fst (options (Save_option k v s1)))"
      "option_keys (Save_option k v s1) = option_keys s1"
      "\<And>j. map_of (options (Save_option k v s1)) j = (if j = k \<and> k \<noteq> '''' then Some v else map_of (options s1) j)"
    using Save_option_ok [of s1 k v] by simp_all
  have "s' = Save_option k v s1" "g' = snd (updateOptionMap ox key v g)"
    using assms(3) f by (auto simp: UpdateOption_def split: prod.splits)
  with F S show ?thesis by (auto simp: fun_eq_iff)
qed


section \<open>Events\<close>

text \<open>An option is changed on this node, or on another one, or this node reads the table again.\<close>

datatype option_event = Here string string | Elsewhere string string | Synchronise

fun option_step :: "option_ext \<Rightarrow> option_event \<Rightarrow> settings \<times> st \<Rightarrow> settings \<times> st" where
  "option_step ox (Here k v) (g, s) = snd (UpdateOption ox k v g s)"
| "option_step ox (Elsewhere k v) (g, s) = (g, snd (snd (UpdateOption ox k v g s)))"
| "option_step ox Synchronise (g, s) = loadOptionsFromDatabase ox g s"

text \<open>What the memory knows is in the table, perhaps with another value.\<close>

definition node_ok :: "option_ext \<Rightarrow> settings \<Rightarrow> settings \<times> st \<Rightarrow> bool" where
  "node_ok ox g0 n \<longleftrightarrow> db_faults (snd n) = [] \<and> distinct (map fst (options (snd n))) \<and>
     (\<exists>m. in_memory ox m g0 (fst n) \<and> dom m \<subseteq> insert '''' (option_keys (snd n)))"

lemma node_ok_step:
  assumes "node_ok ox g0 n"
  shows "node_ok ox g0 (option_step ox e n)"
proof -
  obtain g s where n: "n = (g, s)" by fastforce
  from assms obtain m where ok: "db_faults s = []" "distinct (map fst (options s))"
    and m: "in_memory ox m g0 g" "dom m \<subseteq> insert '''' (option_keys s)" by (auto simp: node_ok_def n)
  have change: "node_ok ox g0 (g', s')" if "UpdateOption ox k v g s = (r, g1, s')" "g' = g1 \<or> g' = g" for k v r g1 s' g'
  proof -
    note T = UpdateOption_table [OF ok that(1)]
    from in_memory_update [OF m(1)] T have g1: "in_memory ox (m(k \<mapsto> v)) g0 g1" by simp
    have "dom m \<subseteq> insert '''' (option_keys s')" "dom (m(k \<mapsto> v)) \<subseteq> insert '''' (option_keys s')"
      using m(2) T by (auto split: if_splits)
    with that(2) g1 m(1) T show ?thesis unfolding node_ok_def fst_conv snd_conv by blast
  qed
  show ?thesis
  proof (cases e)
    case (Here k v)
    with change show ?thesis by (cases "UpdateOption ox k v g s") (auto simp: n)
  next
    case (Elsewhere k v)
    with change show ?thesis by (cases "UpdateOption ox k v g s") (auto simp: n)
  next
    case Synchronise
    have "dom (m ++ loaded ox (rev (options s))) \<subseteq> insert '''' (option_keys s)"
      using m(2) by (auto simp: dom_loaded option_keys_def)
    with in_memory_fold [OF m(1), of "options s"] ok show ?thesis
      by (auto simp: node_ok_def n Synchronise loadOptions_ok)
  qed
qed

lemma node_ok_run: "node_ok ox g0 n \<Longrightarrow> node_ok ox g0 (fold (option_step ox) es n)"
  by (induction es arbitrary: n) (simp_all add: node_ok_step)

lemma config_keys_nonempty: "'''' \<notin> set config_keys"
  by (simp add: config_keys_def enabled_keys_def service_keys_def site_keys_def)

lemma map_of_rev_distinct: "distinct (map fst os) \<Longrightarrow> map_of (rev os) = map_of os"
  by (rule map_of_inject_set [THEN iffD2]) (simp_all flip: rev_map)

lemma loaded_config: "distinct (map fst os) \<Longrightarrow> configured (loaded ox (rev os)) c = configured (map_of os) c"
proof (rule configured_cong)
  fix k assume d: "distinct (map fst os)" and "k \<in> set config_keys"
  then have "k \<noteq> ''ModelRatio''"
    by (auto simp: config_keys_def enabled_keys_def service_keys_def site_keys_def)
  then have "loaded_text ox k = id" by (simp add: loaded_text_def fun_eq_iff)
  then show "loaded ox (rev os) k = map_of os k"
    using d by (simp add: loaded_def option.map_id map_of_rev_distinct)
qed

text \<open>C5: However options are changed on this node and on others, once a node has read the table again its
  configuration and its prices are those of a node that starts now: every stored option has taken effect,
  with the same value everywhere, and nothing that was in memory only survives. In particular every
  variable has its stored value, or the one it started with when nothing is stored.\<close>

theorem synced_as_restarted:
  assumes "db_faults s = []" and "distinct (map fst (options s))"
    and "fold (option_step ox) es (InitOptionMap ox g0 s) = (g, s')"
    and "loadOptionsFromDatabase ox g s' = (g1, s1)" and "InitOptionMap ox g0 s' = (g2, s2)"
  shows "sg_config g1 = configured (map_of (options s')) (sg_config g0) \<and>
    sg_config g1 = sg_config g2 \<and> sg_ratios g1 = sg_ratios g2"
proof -
  obtain b sb where boot: "InitOptionMap ox g0 s = (b, sb)" by fastforce
  have "node_ok ox g0 (b, sb)"
    using in_memory_boot [OF assms(1) boot] assms(1,2) dom_loaded [of ox "rev (options s)"]
    unfolding node_ok_def option_keys_def fst_conv snd_conv by fastforce
  from node_ok_run [OF this, of es] assms(3) boot have "node_ok ox g0 (g, s')" by simp
  then obtain m where ok: "db_faults s' = []" "distinct (map fst (options s'))"
    and m: "in_memory ox m g0 g" "dom m \<subseteq> insert '''' (option_keys s')" by (auto simp: node_ok_def)
  let ?l = "loaded ox (rev (options s'))"
  have g1: "in_memory ox (m ++ ?l) g0 g1" using in_memory_fold [OF m(1)] ok assms(4) by (auto simp: loadOptions_ok)
  have g2: "in_memory ox ?l g0 g2" using in_memory_boot [OF ok(1) assms(5)] by simp
  have same: "(m ++ ?l) k = ?l k" if "k \<noteq> ''''" for k
  proof (cases "?l k")
    case None
    then have "k \<notin> option_keys s'" using dom_loaded [of ox "rev (options s')"] by (auto simp: option_keys_def)
    with m(2) that have "m k = None" by blast
    with None show ?thesis by (simp add: map_add_def)
  qed (simp add: map_add_def)
  have "configured (m ++ ?l) c = configured ?l c" for c
    by (rule configured_cong) (metis same config_keys_nonempty)
  moreover have "priced ox (m ++ ?l) rs = priced ox ?l rs" for rs
    by (rule priced_cong) (auto intro: same)
  ultimately show ?thesis using g1 g2 loaded_config [OF ok(2)] by (simp add: in_memory_def)
qed

text \<open>A small world: two texts denote price tables, and the shipped numbers are printed as they are.\<close>

definition tiny_ext :: option_ext where
  "tiny_ext = \<lparr>
     ox_marshal = (\<lambda>m. Inr (if m ''gpt-4'' = None then ''{}'' else ''all'')),
     ox_unmarshal = (\<lambda>t. if t = ''all'' then (DefaultModelRatio, None)
        else if t = ''{}'' then (Map.empty, None) else (Map.empty, Some ''invalid character'')),
     ox_float = (\<lambda>x. if x = f64_const 5 then ''5'' else ''500000'')\<rparr>"

definition new_node :: settings where
  "new_node = \<lparr>sg_config = init_config (\<lambda>_. ''''), sg_ratios = shipped_ratios, sg_map = Map.empty\<rparr>"

definition some_changes :: "option_event list" where
  "some_changes = [Here ''RetryTimes'' ''3'', Elsewhere ''RetryTimes'' ''5'', Here ''Theme'' ''berry'']"

definition changed_node :: "settings \<times> st" where
  "changed_node = fold (option_step tiny_ext) some_changes (InitOptionMap tiny_ext new_node empty_st)"

lemma changed_node_options: "options (snd changed_node) = [(''RetryTimes'', ''5''), (''Theme'', ''berry'')]"
  by (simp add: changed_node_def some_changes_def InitOptionMap_def loadOptions_ok empty_st_def UpdateOption_def
      FirstOrCreate_option_def Save_option_def has_option_def split: prod.split)

theorem synced_as_restarted_witness:
  "RetryTimes (sg_config (fst (loadOptionsFromDatabase tiny_ext (fst changed_node) (snd changed_node)))) = 5"
proof -
  have "db_faults empty_st = []" "distinct (map fst (options empty_st))" by (simp_all add: empty_st_def)
  then have "sg_config (fst (loadOptionsFromDatabase tiny_ext (fst changed_node) (snd changed_node))) =
      configured (map_of (options (snd changed_node))) (sg_config new_node)"
    using synced_as_restarted [of empty_st tiny_ext some_changes new_node] unfolding changed_node_def by (metis prod.collapse)
  then show ?thesis
    by (simp add: changed_node_options configured_def opt_int_def ParseInt_def signed_parse_def digit_val_def)
qed

text \<open>The texts that the page shows can be read back.\<close>

definition readable :: "option_ext \<Rightarrow> config \<Rightarrow> ratios \<Rightarrow> bool" where
  "readable ox c rs \<longleftrightarrow>
     (\<forall>x \<in> {QuotaPerUnit c, ChannelDisableThreshold c}. ParseFloat (ox_float ox x) = Some x) \<and>
     (\<forall>m \<in> {ModelRatio rs, CompletionRatio rs, GroupRatio rs}.
        \<exists>json. ox_marshal ox m = Inr json \<and> ox_unmarshal ox json = (m, None)) \<and>
     (\<forall>i \<in> {SMTPPort c, QuotaForNewUser c, QuotaForInviter c, QuotaForInvitee c, QuotaRemindThreshold c,
        PreConsumedQuota c, RetryTimes c}. int64 i) \<and>
     EmailDomainWhitelist c \<noteq> [] \<and> (\<forall>d \<in> set (EmailDomainWhitelist c). CHR '','' \<notin> set d)"

lemma FormatBool_true [simp]: "FormatBool b = ''true'' \<longleftrightarrow> b"
  by (simp add: FormatBool_def)

lemma shown_variables:
  assumes "readable ox c rs"
  shows "\<forall>(k, v) \<in> set (option_defaults ox c rs). k \<notin> set blank_keys \<longrightarrow> set_variable k v c = c"
proof -
  have numbers: "parse_value (ParseInt (Itoa (SMTPPort c))) = SMTPPort c"
      "parse_value (ParseInt (Itoa (QuotaForNewUser c))) = QuotaForNewUser c"
      "parse_value (ParseInt (Itoa (QuotaForInviter c))) = QuotaForInviter c"
      "parse_value (ParseInt (Itoa (QuotaForInvitee c))) = QuotaForInvitee c"
      "parse_value (ParseInt (Itoa (QuotaRemindThreshold c))) = QuotaRemindThreshold c"
      "parse_value (ParseInt (Itoa (PreConsumedQuota c))) = PreConsumedQuota c"
      "parse_value (ParseInt (Itoa (RetryTimes c))) = RetryTimes c"
      "float_or_zero (ox_float ox (QuotaPerUnit c)) = QuotaPerUnit c"
      "float_or_zero (ox_float ox (ChannelDisableThreshold c)) = ChannelDisableThreshold c"
      "Split (CHR '','') (Join (CHR '','') (EmailDomainWhitelist c)) = EmailDomainWhitelist c"
    using assms by (simp_all add: readable_def float_or_zero_def Split_Join)
  show ?thesis
    unfolding option_defaults_def list.set ball_simps prod.case
    by (intro conjI TrueI impI;
        simp add: numbers blank_keys_def set_variable_def set_option_def set_enabled_def HasSuffix_def)
qed

lemma shown_prices:
  assumes "readable ox c rs"
  shows "\<forall>(k, v) \<in> set (option_defaults ox c rs). set_ratio ox k v rs = (None, rs)"
  using assms unfolding option_defaults_def list.set ball_simps prod.case readable_def
  by (intro conjI TrueI; force simp: set_ratio_def ModelRatio2JSONString_def CompletionRatio2JSONString_def
      GroupRatio2JSONString_def json_text_def UpdateModelRatioByJSONString_def UpdateGroupRatioByJSONString_def
      UpdateCompletionRatioByJSONString_def)


lemma new_node_readable: "readable tiny_ext (sg_config new_node) (sg_ratios new_node\<lparr>CompletionRatio := Map.empty, GroupRatio := Map.empty\<rparr>)"
proof -
  have "DefaultModelRatio ''gpt-4'' \<noteq> None"
    by (simp add: DefaultModelRatio_def ratio_map_of_def ModelRatio_table_def ModelRatio_1_def)
  moreover have "ParseFloat ''5'' = Some (f64_const 5)" "ParseFloat ''500000'' = Some (f64_const 500000)"
    by (simp_all add: ParseFloat_def parse_unsigned_float_def digits_value_def parse_exponent_def pow10_def digit_val_def)
  ultimately show ?thesis
    by (auto simp: readable_def tiny_ext_def new_node_def init_config_def shipped_ratios_def int64_def)
qed


text \<open>An option that cannot be written to the database is still changed in memory and the page reports
  success: the errors of both statements are dropped. The change is lost when the node starts again, and
  never reaches the other nodes.\<close>

theorem unsaved_option_reported_saved:
  assumes "db_faults s = Some e # Some e' # fs" and "option_refused (sg_config g) key v = None"
    and "key \<in> set config_keys"
  shows "UpdateOption_handler ox tr (Inr (key, v)) g s =
    (Success (), snd (updateOptionMap ox key v g), s\<lparr>db_faults := fs\<rparr>)"
proof -
  have "key \<noteq> ''''" "set_ratio ox key v (sg_ratios g) = (None, sg_ratios g)"
    using assms(3) by (auto simp: config_keys_def enabled_keys_def service_keys_def site_keys_def set_ratio_def)
  then show ?thesis using assms(1,2)
    by (simp add: UpdateOption_handler_def UpdateOption_def FirstOrCreate_option_def Save_option_def db_find_def db_exec_def
        updateOptionMap_def)
qed

theorem unsaved_option_reported_saved_witness:
  "UpdateOption_handler tiny_ext id (Inr (''RetryTimes'', ''3'')) new_node (empty_st\<lparr>db_faults := [Some ''down'', Some ''down'']\<rparr>) =
    (Success (), snd (updateOptionMap tiny_ext ''RetryTimes'' ''3'' new_node), empty_st)"
  using unsaved_option_reported_saved [of "empty_st\<lparr>db_faults := [Some ''down'', Some ''down'']\<rparr>" "''down''" "''down''" "[]"
      new_node "''RetryTimes''" "''3''" tiny_ext id]
  by (simp add: option_refused_def config_keys_def site_keys_def service_keys_def empty_st_def)

text \<open>The empty key is no condition for \<open>FirstOrCreate\<close>, which then takes the first row: its value is
  overwritten in the database, while the memory has another key.\<close>

theorem empty_key_overwrites:
  assumes "db_faults s = []" and "distinct (map fst (options s))" and "first_option (options s) = Some (k, old)" and "k \<noteq> ''''"
    and "UpdateOption ox '''' v g s = (r, g', s')"
  shows "map_of (options s') k = Some v \<and> sg_config g' = sg_config g"
proof -
  have f: "FirstOrCreate_option '''' s = (k, s)" using assms(1,3) by (simp add: FirstOrCreate_option_def)
  have "k \<in> option_keys s" using first_option_mem [OF assms(3)] by (force simp: option_keys_def)
  from Save_option_ok [OF assms(1,2) this, of v] assms(4)
  have "map_of (options (Save_option k v s)) k = Some v" by simp
  moreover have "s' = Save_option k v s" "g' = snd (updateOptionMap ox '''' v g)"
    using assms(5) f by (auto simp: UpdateOption_def split: prod.splits)
  ultimately show ?thesis by (simp add: updateOptionMap_parts set_variable_other config_keys_nonempty)
qed

end

