(* ===== verification/Startup.thy ===== *)
theory Startup
  imports Options Channels
begin

text \<open>
  Starting the server: \<^verbatim>\<open>main.go\<close>, the choice of the database and the first account in \<^verbatim>\<open>model/main.go\<close>, and the
  choice to use Redis in \<^verbatim>\<open>common/redis.go\<close>. Opening connections, migrations of the schema and the web server
  itself belong to libraries.
\<close>

section \<open>Databases\<close>

datatype database = SQLite | MySQL string | PostgreSQL string

definition chooseDB :: "environ \<Rightarrow> string \<Rightarrow> database" where
  "chooseDB getenv envName =
     (let dsn = getenv envName
      in if dsn = '''' then SQLite
         else if HasPrefix dsn ''postgres://'' \<or> HasPrefix dsn ''postgresql://'' then PostgreSQL dsn
         else if Contains dsn ''@'' \<and> (Contains dsn ''/'' \<or> Contains dsn ''tcp('') then MySQL dsn
         else SQLite)"

text \<open>The database of the logs: the main one unless another is named.\<close>

definition InitLogDB :: "environ \<Rightarrow> database option" where
  "InitLogDB getenv = (if getenv ''LOG_SQL_DSN'' = '''' then None else Some (chooseDB getenv ''LOG_SQL_DSN''))"


section \<open>The first account\<close>

definition root_user :: "config \<Rightarrow> ext \<Rightarrow> string \<Rightarrow> user" where
  "root_user cfg x hashed =
     zero_user\<lparr>u_username := ''root'', u_password := hashed, u_role := RoleRootUser, u_status := UserStatusEnabled,
       u_display_name := ''Root User'', u_quota := 500000000000000,
       u_access_token := (if InitialRootAccessToken cfg \<noteq> '''' then InitialRootAccessToken cfg else x_uuid x)\<rparr>"

definition root_token :: "config \<Rightarrow> ext \<Rightarrow> int \<Rightarrow> token" where
  "root_token cfg x uid =
     zero_token\<lparr>t_id := 1, t_user_id := uid, t_key := InitialRootToken cfg, t_status := TokenStatusEnabled,
       t_name := ''Initial Root Token'', t_created_time := x_now x, t_accessed_time := x_now x, t_expired_time := -1,
       t_remain_quota := 500000000000000, t_unlimited_quota := True\<rparr>"

text \<open>A row with a given key.\<close>

definition insert_keyed_token :: "token \<Rightarrow> st \<Rightarrow> string option \<times> st" where
  "insert_keyed_token t =
     db_try (\<lambda>s.
       if t_id t \<in> t_id ` set (tokens s) \<or> t_key t \<in> t_key ` set (tokens s) then Inl ErrDuplicatedKey
       else Inr (s\<lparr>tokens := tokens s @ [t], next_id := max (next_id s) (t_id t + 1)\<rparr>))"

text \<open>Any error of the query counts as an empty table. The errors of the insertions are dropped.\<close>

definition CreateRootAccountIfNeed :: "config \<Rightarrow> ext \<Rightarrow> st \<Rightarrow> string option \<times> st" where
  "CreateRootAccountIfNeed cfg x s =
     (case db_first (\<lambda>s. case users s of [] \<Rightarrow> None | u # us \<Rightarrow> Some u) s of
        (Inr u, s) \<Rightarrow> (None, s)
      | (Inl e, s) \<Rightarrow>
          (case x_hash x ''123456'' of
             Inl e \<Rightarrow> (Some e, s)
           | Inr hashed \<Rightarrow>
               (let uid = next_id s
                in case create_user (root_user cfg x hashed) s of
                     (err, s) \<Rightarrow>
                       (None, if InitialRootToken cfg \<noteq> ''''
                              then snd (insert_keyed_token (root_token cfg x (if err = None then uid else 0)) s) else s))))"


section \<open>Redis\<close>

datatype 'a started = Fatal string | Running 'a

text \<open>Redis is used when both variables are set; an unusable address, or no answer to a ping, ends the process.\<close>

definition InitRedisClient :: "environ \<Rightarrow> (string \<Rightarrow> string option) \<Rightarrow> string option \<Rightarrow> bool started" where
  "InitRedisClient getenv parse_error ping_error =
     (if getenv ''REDIS_CONN_STRING'' = '''' then Running False
      else if getenv ''SYNC_FREQUENCY'' = '''' then Running False
      else case (if getenv ''REDIS_MASTER_NAME'' = '''' then parse_error (getenv ''REDIS_CONN_STRING'') else None) of
        Some e \<Rightarrow> Fatal (''failed to parse Redis connection string: '' @ e)
      | None \<Rightarrow> (case ping_error of Some e \<Rightarrow> Fatal (''Redis ping test failed: '' @ e) | None \<Rightarrow> Running True))"


section \<open>The server\<close>

datatype task = SyncOptionsTask int | SyncChannelCacheTask int | TestChannelsTask int | BatchUpdaterTask int | CleanupSessions

record server =
  sv_settings :: settings
  sv_cache :: "channel_cache option"
  sv_tasks :: "task list"
  sv_db :: st

text \<open>What \<open>main\<close> does between the flags and the web server; \<open>init_config\<close> and \<open>shipped_ratios\<close> are the values
  of the variables before it.\<close>

definition start_caches :: "(channel list \<Rightarrow> channel list) \<Rightarrow> settings \<Rightarrow> st \<Rightarrow> (channel_cache option \<times> st) option" where
  "start_caches srt g s =
     (if MemoryCacheEnabled (sg_config g)
      then map_option (\<lambda>(c, s). (Some c, s)) (InitChannelCache srt s) else Some (None, s))"

definition cache_tasks :: "config \<Rightarrow> task list" where
  "cache_tasks cfg =
     (if MemoryCacheEnabled cfg then [SyncOptionsTask (SyncFrequency cfg), SyncChannelCacheTask (SyncFrequency cfg)] else [])"

definition test_task :: "environ \<Rightarrow> task list started" where
  "test_task getenv =
     (if getenv ''CHANNEL_TEST_FREQUENCY'' = '''' then Running []
      else case parse_ok (ParseInt (getenv ''CHANNEL_TEST_FREQUENCY'')) of
        None \<Rightarrow> Fatal ''failed to parse CHANNEL_TEST_FREQUENCY''
      | Some n \<Rightarrow> Running [TestChannelsTask n])"

definition start_settings :: "option_ext \<Rightarrow> environ \<Rightarrow> bool \<Rightarrow> settings \<Rightarrow> st \<Rightarrow> settings \<times> st" where
  "start_settings ox getenv redis g s =
     (case InitOptionMap ox g (s\<lparr>redis_enabled := redis\<rparr>) of
        (g, s) \<Rightarrow> (if redis then g\<lparr>sg_config := sg_config g\<lparr>MemoryCacheEnabled := True\<rparr>\<rparr> else g, s))"

definition with_batches :: "environ \<Rightarrow> settings \<Rightarrow> settings" where
  "with_batches getenv g =
     (if getenv ''BATCH_UPDATE_ENABLED'' = ''true'' then g\<lparr>sg_config := sg_config g\<lparr>BatchUpdateEnabled := True\<rparr>\<rparr> else g)"

definition batch_task :: "environ \<Rightarrow> config \<Rightarrow> task list" where
  "batch_task getenv cfg =
     (if getenv ''BATCH_UPDATE_ENABLED'' = ''true'' then [BatchUpdaterTask (BatchUpdateInterval cfg)] else [])"

text \<open>\<open>None\<close> is a panic of the channel cache.\<close>

definition main_start ::
    "option_ext \<Rightarrow> ext \<Rightarrow> environ \<Rightarrow> (string \<Rightarrow> string option) \<Rightarrow> string option \<Rightarrow> (channel list \<Rightarrow> channel list) \<Rightarrow> st \<Rightarrow>
     server started option" where
  "main_start ox x getenv parse_error ping_error srt s =
     (let cfg = init_config getenv
      in case CreateRootAccountIfNeed cfg x s of
        (Some e, s) \<Rightarrow> Some (Fatal (''database init error: '' @ e))
      | (None, s) \<Rightarrow>
          (case InitRedisClient getenv parse_error ping_error of
             Fatal e \<Rightarrow> Some (Fatal e)
           | Running redis \<Rightarrow>
               (case start_settings ox getenv redis
                    \<lparr>sg_config = cfg, sg_ratios = shipped_ratios, sg_map = Map.empty\<rparr> s of
                  (g, s) \<Rightarrow>
                    (case start_caches srt g s of
                       None \<Rightarrow> None
                     | Some (c, s) \<Rightarrow>
                         Some (case test_task getenv of
                           Fatal e \<Rightarrow> Fatal e
                         | Running ts \<Rightarrow>
                             Running \<lparr>sv_settings = with_batches getenv g, sv_cache = c,
                               sv_tasks = cache_tasks (sg_config g) @ ts @ batch_task getenv (sg_config g) @ [CleanupSessions],
                               sv_db = s\<rparr>)))))"

section \<open>Properties\<close>

text \<open>The check for the first account takes any error of its query for an empty table: when the database
  answers the query with an error and the insertion without one, a second root account with the password
  123456 is created next to the existing accounts (unless one of them still has the name, or one of the
  unique columns, of the new row), although the server has long been set up.\<close>

theorem default_root_despite_accounts:
  assumes "db_faults s = [Some e]" and "x_hash x ''123456'' = Inr h" and "InitialRootToken cfg = ''''"
    and "unique_users (users s @ [stored_user (next_id s) (root_user cfg x h)])"
  shows "CreateRootAccountIfNeed cfg x s =
    (None, s\<lparr>db_faults := [], users := users s @ [stored_user (next_id s) (root_user cfg x h)], next_id := next_id s + 1\<rparr>) \<and>
    u_role (stored_user (next_id s) (root_user cfg x h)) = RoleRootUser"
proof
  let ?u = "stored_user (next_id s) (root_user cfg x h)"
  have "db_first (\<lambda>s. case users s of [] \<Rightarrow> None | u # us \<Rightarrow> Some u) s = (Inl e, s\<lparr>db_faults := []\<rparr>)"
    using assms(1) by (simp add: db_first_def db_find_def)
  moreover have "create_user (root_user cfg x h) (s\<lparr>db_faults := []\<rparr>) =
      (None, s\<lparr>db_faults := [], users := users s @ [?u], next_id := next_id s + 1\<rparr>)"
    using assms(4) by (simp add: create_user_def db_try_def)
  ultimately show "CreateRootAccountIfNeed cfg x s =
      (None, s\<lparr>db_faults := [], users := users s @ [?u], next_id := next_id s + 1\<rparr>)"
    using assms(2,3) by (simp add: CreateRootAccountIfNeed_def)
  show "u_role ?u = RoleRootUser" by (simp add: stored_user_def root_user_def)
qed

definition first_ext :: ext where
  "first_ext = \<lparr>x_now = 0, x_request_id = '''', x_uuid = ''u'', x_aff_code = ''a'', x_key = ''k'', x_hash = Inr,
     x_check = (=), x_invalid = (\<lambda>_. None), x_tr = id\<rparr>"

definition office_st :: st where
  "office_st = empty_st\<lparr>users := [zero_user\<lparr>u_id := 1, u_username := ''boss'', u_role := 100, u_access_token := ''t'', u_aff_code := ''b''\<rparr>],
     next_id := 2, db_faults := [Some ''driver: bad connection'']\<rparr>"

theorem default_root_despite_accounts_witness:
  "length (users (snd (CreateRootAccountIfNeed (init_config (\<lambda>_. '''')) first_ext office_st))) = 2"
proof -
  have "db_faults office_st = [Some ''driver: bad connection'']" "x_hash first_ext ''123456'' = Inr ''123456''"
    "InitialRootToken (init_config (\<lambda>_. '''')) = ''''"
    "unique_users (users office_st @ [stored_user (next_id office_st) (root_user (init_config (\<lambda>_. '''')) first_ext ''123456'')])"
    by (simp_all add: office_st_def first_ext_def init_config_def unique_users_def stored_user_def root_user_def zero_user_def empty_st_def)
  from default_root_despite_accounts [OF this] show ?thesis by (simp add: office_st_def)
qed

lemma CreateRootAccountIfNeed_kept:
  "db_faults s = [] \<Longrightarrow> users s \<noteq> [] \<Longrightarrow> CreateRootAccountIfNeed cfg x s = (None, s)"
  by (cases "users s") (simp_all add: CreateRootAccountIfNeed_def db_first_ok)

lemma db_find_rows: "db_find q s = (r, s') \<Longrightarrow> options s' = options s \<and> users s' = users s"
  by (cases r) (auto dest: db_find_Inl db_find_Inr)

lemma InitChannelCache_tables: "InitChannelCache srt s = Some (c, s') \<Longrightarrow> options s' = options s \<and> users s' = users s"
  by (auto simp: InitChannelCache_def Let_def split: prod.splits dest!: db_find_rows)

text \<open>A server that starts with accounts in its database and without errors changes nothing in it, and runs with
  the stored options: its configuration is the one the environment gives, overlaid with the stored values, the
  memory cache being forced on with Redis and batch updates with their variable.\<close>

theorem started_with_stored_options:
  assumes "main_start ox x getenv pe pg srt s = Some (Running sv)"
    and "db_faults s = []" and "users s \<noteq> []" and "distinct (map fst (options s))"
  shows "options (sv_db sv) = options s \<and> users (sv_db sv) = users s \<and>
    (let c = configured (map_of (options s)) (init_config getenv);
         c = (if InitRedisClient getenv pe pg = Running True then c\<lparr>MemoryCacheEnabled := True\<rparr> else c)
     in sg_config (sv_settings sv) = (if getenv ''BATCH_UPDATE_ENABLED'' = ''true'' then c\<lparr>BatchUpdateEnabled := True\<rparr> else c))"
proof -
  let ?g0 = "\<lparr>sg_config = init_config getenv, sg_ratios = shipped_ratios, sg_map = Map.empty\<rparr>"
  obtain redis g s1 c s2 ts where redis: "InitRedisClient getenv pe pg = Running redis"
    and g: "start_settings ox getenv redis ?g0 s = (g, s1)"
    and c: "start_caches srt g s1 = Some (c, s2)" and sv: "sv_settings sv = with_batches getenv g" "sv_db sv = s2"
    using assms(1) CreateRootAccountIfNeed_kept [OF assms(2,3)]
    by (auto simp: main_start_def Let_def split: started.splits prod.splits option.splits)
  obtain b s0 where boot: "InitOptionMap ox ?g0 (s\<lparr>redis_enabled := redis\<rparr>) = (b, s0)" by fastforce
  have "in_memory ox (loaded ox (rev (options s))) ?g0 b \<and> s0 = s\<lparr>redis_enabled := redis\<rparr>"
    using in_memory_boot [OF _ boot] assms(2) by simp
  then have b: "sg_config b = configured (map_of (options s)) (init_config getenv)" "s0 = s\<lparr>redis_enabled := redis\<rparr>"
    using loaded_config [OF assms(4)] by (simp_all add: in_memory_def)
  have g': "g = (if redis then b\<lparr>sg_config := sg_config b\<lparr>MemoryCacheEnabled := True\<rparr>\<rparr> else b)" "s1 = s0"
    using g boot by (simp_all add: start_settings_def split: if_splits)
  have "options s2 = options s1 \<and> users s2 = users s1"
    using c by (auto simp: start_caches_def split: if_splits dest: InitChannelCache_tables)
  then show ?thesis
    using sv b g' redis by (simp add: with_batches_def Let_def)
qed

theorem started_with_stored_options_witness:
  "\<exists>sv. main_start tiny_ext first_ext (\<lambda>_. '''') (\<lambda>_. None) None id
      (office_st\<lparr>db_faults := [], options := [(''RetryTimes'', ''4'')]\<rparr>) = Some (Running sv) \<and>
    RetryTimes (sg_config (sv_settings sv)) = 4"
proof -
  let ?s = "office_st\<lparr>db_faults := [], options := [(''RetryTimes'', ''4'')]\<rparr>"
  let ?start = "start_settings tiny_ext (\<lambda>_. '''') False
      \<lparr>sg_config = init_config (\<lambda>_. ''''), sg_ratios = shipped_ratios, sg_map = Map.empty\<rparr> ?s"
  have s: "db_faults ?s = []" "users ?s \<noteq> []" "distinct (map fst (options ?s))" by (simp_all add: office_st_def)
  obtain g s1 where start: "?start = (g, s1)" by fastforce
  have "\<not> MemoryCacheEnabled (sg_config g)"
    using start s(1) by (auto simp: start_settings_def InitOptionMap_def loadOptions_ok load_option_def updateOptionMap_def
        set_option_def set_ratio_def HasSuffix_def init_config_def ToLower_def Let_def)
  then obtain sv where sv: "main_start tiny_ext first_ext (\<lambda>_. '''') (\<lambda>_. None) None id ?s = Some (Running sv)"
    using start CreateRootAccountIfNeed_kept [OF s(1,2)]
    by (auto simp: main_start_def InitRedisClient_def start_caches_def test_task_def Let_def)
  from started_with_stored_options [OF sv s] have "RetryTimes (sg_config (sv_settings sv)) = 4"
    by (simp add: InitRedisClient_def Let_def configured_def opt_int_def ParseInt_def signed_parse_def digit_val_def)
  with sv show ?thesis by blast
qed

end
