(* ===== verification/OpenAI.thy ===== *)
theory OpenAI
  imports Media
begin

text \<open>
  The interface of OpenAI and of the services compatible with it (\<^verbatim>\<open>relay/adaptor/openai\<close>, and the addresses of
  \<^verbatim>\<open>minimax\<close>, \<^verbatim>\<open>doubao\<close>, \<^verbatim>\<open>novita\<close>, \<^verbatim>\<open>baiduv2\<close>, \<^verbatim>\<open>alibailian\<close>, \<^verbatim>\<open>geminiv2\<close>), sending a request (\<^verbatim>\<open>relay/adaptor/common.go\<close>)
  and writing server-sent events (\<^verbatim>\<open>common/render\<close>, \<^verbatim>\<open>common/custom-event.go\<close>). Decoding JSON is a parameter; what a
  handler writes to the caller is a list of events, or the bytes of a body.

  A stream that breaks off is a body that ends there: the error of the reader is only written to the log.
\<close>

section \<open>Responses\<close>

record StreamChoice =
  sc_Index :: int
  sc_Delta :: Message
  sc_FinishReason :: "string option"

record ChatChunk =
  cc_Id :: string
  cc_Object :: string
  cc_Created :: int
  cc_Model :: string
  cc_Choices :: "StreamChoice list"
  cc_Usage :: "Usage option"

record TextChoice =
  tc_Index :: int
  tc_Message :: Message
  tc_FinishReason :: string

record TextResponse =
  tr_Id :: string
  tr_Model :: string
  tr_Object :: string
  tr_Created :: int
  tr_Choices :: "TextChoice list"
  tr_Usage :: Usage

record SlimTextResponse =
  sl_Choices :: "TextChoice list"
  sl_Usage :: Usage
  sl_Error :: api_error

record EmbeddingItem =
  ei_Object :: string
  ei_Index :: int
  ei_Embedding :: "f64 list"

record EmbeddingResponse =
  eb_Object :: string
  eb_Data :: "EmbeddingItem list"
  eb_Model :: string
  eb_Usage :: Usage

definition zero_usage :: Usage where
  "zero_usage = \<lparr>PromptTokens = 0, CompletionTokens = 0, TotalTokens = 0\<rparr>"

definition no_message :: Message where
  "no_message = \<lparr>ms_Role = '''', ms_Content = JNull, ms_ReasoningContent = JNull, ms_Name = None, ms_ToolCalls = [],
     ms_ToolCallId = ''''\<rparr>"

definition AsString :: "json \<Rightarrow> string" where
  "AsString v = (case v of JStr s \<Rightarrow> s | _ \<Rightarrow> '''')"

text \<open>The decoders: a chunk of a chat, the texts of a chunk of a completion, a response, a response with images.\<close>

record openai_json =
  oj_chat :: "string \<Rightarrow> ChatChunk option"
  oj_completion :: "string \<Rightarrow> string list option"
  oj_slim :: "string \<Rightarrow> string + SlimTextResponse"
  oj_image :: "string \<Rightarrow> string option"


section \<open>Events\<close>

text \<open>The replacer of \<open>custom-event.go\<close>, and an event as it is written.\<close>

definition escape_byte :: "char \<Rightarrow> string" where
  "escape_byte c =
     (if c = CHR 0x0A then CHR 0x0A # ''data:''
      else if c = CHR 0x0D then [CHR 0x5C, CHR ''r'']
      else [c])"

definition StringData :: "string \<Rightarrow> string" where
  "StringData str =
     concat (map escape_byte (''data: '' @ TrimSuffix (TrimPrefix str ''data: '') [CHR 0x0D])) @ [CHR 0x0A, CHR 0x0A]"

definition written :: "string list \<Rightarrow> string" where
  "written out = concat (map StringData out)"

definition DONE :: string where
  "DONE = ''[DONE]''"

text \<open>The lines of a body, up to one that is too long for the scanner.\<close>

definition body_lines :: "string \<Rightarrow> string list" where
  "body_lines s =
     (let ls = Split (CHR 0x0A) s;
          ls = (if last ls = '''' then butlast ls else ls)
      in takeWhile (\<lambda>l. length l < 65536) ls)"

definition stream_body :: "response \<Rightarrow> string" where
  "stream_body r = (case rp_Body r of Inl e \<Rightarrow> '''' | Inr b \<Rightarrow> b)"


section \<open>Streams\<close>

record stream_state =
  os_text :: string
  os_usage :: "Usage option"
  os_done :: bool
  os_out :: "string list"

definition stream_start :: stream_state where
  "stream_start = \<lparr>os_text = '''', os_usage = None, os_done = False, os_out = []\<rparr>"

definition emit :: "string \<Rightarrow> stream_state \<Rightarrow> stream_state" where
  "emit data st = st\<lparr>os_out := os_out st @ [data]\<rparr>"

definition chat_line :: "openai_json \<Rightarrow> string \<Rightarrow> stream_state \<Rightarrow> stream_state" where
  "chat_line J data st =
     (case oj_chat J (drop 6 data) of
        None \<Rightarrow> emit data st
      | Some r \<Rightarrow>
          (if cc_Choices r = [] \<and> cc_Usage r = None then st
           else (emit data st)\<lparr>os_text := os_text st @ concat (map (\<lambda>c. AsString (ms_Content (sc_Delta c))) (cc_Choices r)),
                  os_usage := (if cc_Usage r = None then os_usage st else cc_Usage r)\<rparr>))"

definition completion_line :: "openai_json \<Rightarrow> string \<Rightarrow> stream_state \<Rightarrow> stream_state" where
  "completion_line J data st =
     (case oj_completion J (drop 6 data) of
        None \<Rightarrow> emit data st
      | Some texts \<Rightarrow> (emit data st)\<lparr>os_text := os_text st @ concat texts\<rparr>)"

definition stream_line :: "openai_json \<Rightarrow> int \<Rightarrow> string \<Rightarrow> stream_state \<Rightarrow> stream_state" where
  "stream_line J mode data st =
     (if length data < 6 then st
      else if take 6 data \<noteq> ''data: '' \<and> take 6 data \<noteq> DONE then st
      else if HasPrefix (drop 6 data) DONE then (emit data st)\<lparr>os_done := True\<rparr>
      else if mode = mode_ChatCompletions then chat_line J data st
      else if mode = mode_Completions then completion_line J data st
      else st)"

definition run_stream :: "openai_json \<Rightarrow> int \<Rightarrow> string list \<Rightarrow> stream_state" where
  "run_stream J mode ls =
     (let st = fold (stream_line J mode) ls stream_start
      in if os_done st then st else emit DONE st)"

text \<open>The events written; then the error, or the text and the usage that the stream reported.\<close>

definition StreamHandler ::
    "openai_json \<Rightarrow> int \<Rightarrow> response \<Rightarrow> string list \<times> (status_error + string \<times> Usage option)" where
  "StreamHandler J mode resp =
     (let st = run_stream J mode (map drop_cr (body_lines (stream_body resp)))
      in (os_out st,
          case rp_Close resp of
            Some e \<Rightarrow> Inl (ErrorWrapper e ''close_response_body_failed'' 500)
          | None \<Rightarrow> Inr (os_text st, os_usage st)))"


section \<open>Whole responses\<close>

text \<open>Reading a body completely and closing it, as every handler starts.\<close>

definition read_all :: "response \<Rightarrow> status_error + string" where
  "read_all resp =
     (case rp_Body resp of
        Inl e \<Rightarrow> Inl (ErrorWrapper e ''read_response_body_failed'' 500)
      | Inr body \<Rightarrow>
          (case rp_Close resp of
             Some e \<Rightarrow> Inl (ErrorWrapper e ''close_response_body_failed'' 500)
           | None \<Rightarrow> Inr body))"

text \<open>Reading and decoding a body; a decoder on the body itself reports every failure as its own.\<close>

definition read_json :: "(string \<Rightarrow> string + 'a) \<Rightarrow> response \<Rightarrow> status_error + 'a" where
  "read_json decode resp =
     (case read_all resp of
        Inl e \<Rightarrow> Inl e
      | Inr body \<Rightarrow>
          (case decode body of
             Inl e \<Rightarrow> Inl (ErrorWrapper e ''unmarshal_response_body_failed'' 500)
           | Inr r \<Rightarrow> Inr r))"

definition decode_body :: "(string \<Rightarrow> string + 'a) \<Rightarrow> response \<Rightarrow> status_error + 'a" where
  "decode_body decode resp =
     (case (case rp_Body resp of Inl e \<Rightarrow> Inl e | Inr body \<Rightarrow> decode body) of
        Inl e \<Rightarrow> Inl (ErrorWrapper e ''unmarshal_response_body_failed'' 500)
      | Inr r \<Rightarrow>
          (case rp_Close resp of
             Some e \<Rightarrow> Inl (ErrorWrapper e ''close_response_body_failed'' 500)
           | None \<Rightarrow> Inr r))"

text \<open>The error of a service, as the handlers wrap it.\<close>

definition service_error :: "string \<Rightarrow> string \<Rightarrow> string \<Rightarrow> json \<Rightarrow> response \<Rightarrow> status_error" where
  "service_error message ty param code resp =
     \<lparr>se_Error = \<lparr>er_Message = message, er_Type = ty, er_Param = param, er_Code = code\<rparr>, se_StatusCode = rp_StatusCode resp\<rparr>"

text \<open>Closing the body of a stream.\<close>

definition close_stream :: "response \<Rightarrow> 'a \<Rightarrow> status_error + 'a" where
  "close_stream resp r =
     (case rp_Close resp of
        Some e \<Rightarrow> Inl (ErrorWrapper e ''close_response_body_failed'' 500)
      | None \<Rightarrow> Inr r)"

text \<open>Counting the tokens of a text with the model's encoder, as the environment gives it.\<close>

definition count_text :: "env \<Rightarrow> string \<Rightarrow> string \<Rightarrow> int" where
  "count_text E text model = CountTokenText (e_encoding E) (e_known E) (e_cfg E) text model"

definition counted_usage :: "env \<Rightarrow> SlimTextResponse \<Rightarrow> int \<Rightarrow> string \<Rightarrow> Usage" where
  "counted_usage E r promptTokens modelName =
     (let completionTokens = fold (\<lambda>c n. wrap64 (n + count_text E (StringContent (tc_Message c)) modelName)) (sl_Choices r) 0
      in \<lparr>PromptTokens = promptTokens, CompletionTokens = completionTokens,
          TotalTokens = wrap64 (promptTokens + completionTokens)\<rparr>)"

text \<open>The body for the caller, if it came to that, and the error or the usage. Writing may fail.\<close>

definition Handler :: "env \<Rightarrow> openai_json \<Rightarrow> response \<Rightarrow> int \<Rightarrow> string \<Rightarrow> string option \<times> (status_error + Usage)" where
  "Handler E J resp promptTokens modelName =
     (case read_all resp of
        Inl e \<Rightarrow> (None, Inl e)
      | Inr body \<Rightarrow>
          (case oj_slim J body of
             Inl e \<Rightarrow> (None, Inl (ErrorWrapper e ''unmarshal_response_body_failed'' 500))
           | Inr r \<Rightarrow>
               (if er_Type (sl_Error r) \<noteq> '''' then (None, Inl \<lparr>se_Error = sl_Error r, se_StatusCode = rp_StatusCode resp\<rparr>)
                else case e_write E of
                  Some e \<Rightarrow> (Some body, Inl (ErrorWrapper e ''copy_response_body_failed'' 500))
                | None \<Rightarrow>
                    (let u = sl_Usage r
                     in (Some body, Inr (if TotalTokens u = 0 \<or> PromptTokens u = 0 \<and> CompletionTokens u = 0
                           then counted_usage E r promptTokens modelName else u))))))"

definition ImageHandler :: "env \<Rightarrow> openai_json \<Rightarrow> response \<Rightarrow> string option \<times> status_error option" where
  "ImageHandler E J resp =
     (case read_all resp of
        Inl e \<Rightarrow> (None, Some e)
      | Inr body \<Rightarrow>
          (case oj_image J body of
             Some e \<Rightarrow> (None, Some (ErrorWrapper e ''unmarshal_response_body_failed'' 500))
           | None \<Rightarrow>
               (case e_write E of
                  Some e \<Rightarrow> (Some body, Some (ErrorWrapper e ''copy_response_body_failed'' 500))
                | None \<Rightarrow> (Some body, None))))"

definition ResponseText2Usage :: "env \<Rightarrow> string \<Rightarrow> string \<Rightarrow> int \<Rightarrow> Usage" where
  "ResponseText2Usage E responseText modelName promptTokens =
     (let n = count_text E responseText modelName
      in \<lparr>PromptTokens = promptTokens, CompletionTokens = n, TotalTokens = wrap64 (promptTokens + n)\<rparr>)"


section \<open>The adaptor\<close>

definition unsupported_mode :: "int \<Rightarrow> string \<Rightarrow> string" where
  "unsupported_mode mode service = ''unsupported relay mode '' @ Itoa mode @ '' for '' @ service"

definition minimax_GetRequestURL :: "Meta \<Rightarrow> string + string" where
  "minimax_GetRequestURL m =
     (if m_Mode m = mode_ChatCompletions then Inr (m_BaseURL m @ ''/v1/text/chatcompletion_v2'')
      else Inl (unsupported_mode (m_Mode m) ''minimax''))"

definition doubao_GetRequestURL :: "Meta \<Rightarrow> string + string" where
  "doubao_GetRequestURL m =
     (if m_Mode m = mode_ChatCompletions then Inr (m_BaseURL m @ ''/api/v3/chat/completions'')
      else if m_Mode m = mode_Embeddings then Inr (m_BaseURL m @ ''/api/v3/embeddings'')
      else Inl (unsupported_mode (m_Mode m) ''doubao''))"

definition novita_GetRequestURL :: "Meta \<Rightarrow> string + string" where
  "novita_GetRequestURL m =
     (if m_Mode m = mode_ChatCompletions then Inr (m_BaseURL m @ ''/chat/completions'')
      else Inl (unsupported_mode (m_Mode m) ''novita''))"

definition baiduv2_GetRequestURL :: "Meta \<Rightarrow> string + string" where
  "baiduv2_GetRequestURL m =
     (if m_Mode m = mode_ChatCompletions then Inr (m_BaseURL m @ ''/v2/chat/completions'')
      else Inl (unsupported_mode (m_Mode m) ''baidu v2''))"

definition alibailian_GetRequestURL :: "Meta \<Rightarrow> string + string" where
  "alibailian_GetRequestURL m =
     (if m_Mode m = mode_ChatCompletions then Inr (m_BaseURL m @ ''/compatible-mode/v1/chat/completions'')
      else if m_Mode m = mode_Embeddings then Inr (m_BaseURL m @ ''/compatible-mode/v1/embeddings'')
      else Inl (unsupported_mode (m_Mode m) ''ali bailian''))"

definition geminiv2_GetRequestURL :: "Meta \<Rightarrow> string + string" where
  "geminiv2_GetRequestURL m = Inr (TrimSuffix (m_BaseURL m) ''/'' @ TrimPrefix (m_RequestURLPath m) ''/v1'')"

definition azure_GetRequestURL :: "Meta \<Rightarrow> string" where
  "azure_GetRequestURL m =
     (if m_Mode m = mode_ImagesGenerations
      then m_BaseURL m @ ''/openai/deployments/'' @ m_ActualModelName m @ ''/images/generations?api-version='' @
        APIVersion (m_Config m)
      else (let requestURL = Split (CHR ''?'') (m_RequestURLPath m) ! 0;
                requestURL = requestURL @ ''?api-version='' @ APIVersion (m_Config m);
                task = TrimPrefix requestURL ''/v1/'';
                model = filter (\<lambda>c. c \<noteq> CHR ''.'') (m_ActualModelName m)
            in GetFullRequestURL (m_BaseURL m) (''/openai/deployments/'' @ model @ ''/'' @ task) (m_ChannelType m)))"

definition GetRequestURL :: "Meta \<Rightarrow> string + string" where
  "GetRequestURL m =
     (if m_ChannelType m = ct_Azure then Inr (azure_GetRequestURL m)
      else if m_ChannelType m = ct_Minimax then minimax_GetRequestURL m
      else if m_ChannelType m = ct_Doubao then doubao_GetRequestURL m
      else if m_ChannelType m = ct_Novita then novita_GetRequestURL m
      else if m_ChannelType m = ct_BaiduV2 then baiduv2_GetRequestURL m
      else if m_ChannelType m = ct_AliBailian then alibailian_GetRequestURL m
      else if m_ChannelType m = ct_GeminiOpenAICompatible then geminiv2_GetRequestURL m
      else Inr (GetFullRequestURL (m_BaseURL m) (m_RequestURLPath m) (m_ChannelType m)))"

text \<open>Headers: setting one replaces it.\<close>

type_synonym headers = "string \<rightharpoonup> string"

definition SetupCommonRequestHeader :: "(string \<Rightarrow> string) \<Rightarrow> Meta \<Rightarrow> headers \<Rightarrow> headers" where
  "SetupCommonRequestHeader from m h =
     (let h = h(''Content-Type'' \<mapsto> from ''Content-Type'', ''Accept'' \<mapsto> from ''Accept'')
      in if m_IsStream m \<and> from ''Accept'' = '''' then h(''Accept'' \<mapsto> ''text/event-stream'') else h)"

definition SetupRequestHeader :: "(string \<Rightarrow> string) \<Rightarrow> Meta \<Rightarrow> headers \<Rightarrow> headers" where
  "SetupRequestHeader from m h =
     (let h = SetupCommonRequestHeader from m h
      in if m_ChannelType m = ct_Azure then h(''api-key'' \<mapsto> m_APIKey m)
         else (let h = h(''Authorization'' \<mapsto> ''Bearer '' @ m_APIKey m)
               in if m_ChannelType m = ct_OpenRouter
                  then h(''HTTP-Referer'' \<mapsto> ''https://github.com/songquanpeng/one-api'', ''X-Title'' \<mapsto> ''One API'') else h))"

text \<open>A stream always has to report its usage.\<close>

definition ConvertRequest :: "GeneralOpenAIRequest \<Rightarrow> GeneralOpenAIRequest" where
  "ConvertRequest q = (if Stream q then q\<lparr>IncludeUsage := Some True\<rparr> else q)"

text \<open>Sending: the address, the request (which may be malformed), its headers, the answer. The body and the method
  are the caller's.\<close>

definition DoRequestHelper ::
    "string + string \<Rightarrow> (string \<Rightarrow> string option) \<Rightarrow> string + headers \<Rightarrow> (string \<Rightarrow> headers \<Rightarrow> body \<Rightarrow> string + response option) \<Rightarrow>
     body \<Rightarrow> string + response option" where
  "DoRequestHelper url new_request header send b =
     (case url of
        Inl e \<Rightarrow> Inl (''get request url failed: '' @ e)
      | Inr u \<Rightarrow>
          (case new_request u of
             Some e \<Rightarrow> Inl (''new request failed: '' @ e)
           | None \<Rightarrow>
               (case header of
                  Inl e \<Rightarrow> Inl (''setup request header failed: '' @ e)
                | Inr h \<Rightarrow>
                    (case send u h b of
                       Inl e \<Rightarrow> Inl (''do request failed: '' @ e)
                     | Inr None \<Rightarrow> Inl (''do request failed: '' @ ''resp is nil'')
                     | Inr (Some r) \<Rightarrow> Inr (Some r)))))"

text \<open>The usage of a stream: what it reported, or the tokens of its text; a service that reports only the total is
  charged for the estimate of the prompt and the rest.\<close>

definition stream_usage :: "env \<Rightarrow> Meta \<Rightarrow> string \<times> Usage option \<Rightarrow> Usage" where
  "stream_usage E m r =
     (let u = (case snd r of
            None \<Rightarrow> ResponseText2Usage E (fst r) (m_ActualModelName m) (m_PromptTokens m)
          | Some u \<Rightarrow> (if TotalTokens u = 0 then ResponseText2Usage E (fst r) (m_ActualModelName m) (m_PromptTokens m) else u))
      in if TotalTokens u \<noteq> 0 \<and> PromptTokens u = 0
         then u\<lparr>PromptTokens := m_PromptTokens m, CompletionTokens := wrap64 (TotalTokens u - m_PromptTokens m)\<rparr> else u)"

text \<open>What is written to the caller (events, or a body), and the error or the usage.\<close>

datatype shown = Events "string list" | Body "string option"

definition DoResponse :: "env \<Rightarrow> openai_json \<Rightarrow> Meta \<Rightarrow> response \<Rightarrow> shown \<times> (status_error + Usage option)" where
  "DoResponse E J m resp =
     (if m_IsStream m then
        (case StreamHandler J (m_Mode m) resp of
           (out, Inl e) \<Rightarrow> (Events out, Inl e)
         | (out, Inr r) \<Rightarrow> (Events out, Inr (Some (stream_usage E m r))))
      else if m_Mode m = mode_ImagesGenerations then
        (case ImageHandler E J resp of
           (out, Some e) \<Rightarrow> (Body out, Inl e)
         | (out, None) \<Rightarrow> (Body out, Inr None))
      else
        (case Handler E J resp (m_PromptTokens m) (m_ActualModelName m) of
           (out, Inl e) \<Rightarrow> (Body out, Inl e)
         | (out, Inr u) \<Rightarrow> (Body out, Inr (Some u))))"

section \<open>Properties\<close>

text \<open>Lines of a stream as services send them: events whose marker has its prefix, without carriage returns.\<close>

definition plain_stream :: "string \<Rightarrow> bool" where
  "plain_stream s \<longleftrightarrow> CHR 0x0D \<notin> set s \<and> (\<forall>l \<in> set (body_lines s). \<not> HasPrefix l DONE)"

definition event_line :: "string \<Rightarrow> bool" where
  "event_line l \<longleftrightarrow> HasPrefix l ''data: '' \<and> CHR 0x0D \<notin> set l \<and> CHR 0x0A \<notin> set l \<and> length l < 65536"

lemma event_line_split: "event_line l \<Longrightarrow> \<exists>x. l = ''data: '' @ x"
  by (metis HasPrefix_iff event_line_def)

lemma escape_id: "CHR 0x0D \<notin> set l \<Longrightarrow> CHR 0x0A \<notin> set l \<Longrightarrow> concat (map escape_byte l) = l"
  by (induction l) (auto simp: escape_byte_def)

lemma StringData_event: "event_line l \<Longrightarrow> StringData l = l @ [CHR 0x0A, CHR 0x0A]"
proof -
  assume l: "event_line l"
  then obtain x where x: "l = ''data: '' @ x" using event_line_split by blast
  have "\<not> HasSuffix x [CHR 0x0D]" using l x by (auto simp: event_line_def HasSuffix_iff)
  then show ?thesis
    using l x escape_id [of l] by (simp add: StringData_def event_line_def TrimPrefix_def TrimSuffix_def HasPrefix_def)
qed

lemma Split_event: "CHR 0x0A \<notin> set l \<Longrightarrow> Split (CHR 0x0A) (l @ CHR 0x0A # s) = l # Split (CHR 0x0A) s"
  by (rule Split_append_sep)

lemma body_lines_written:
  assumes "\<forall>l \<in> set ls. event_line l"
  shows "body_lines (concat (map (\<lambda>l. l @ [CHR 0x0A, CHR 0x0A]) ls)) = concat (map (\<lambda>l. [l, '''']) ls)"
proof -
  let ?w = "\<lambda>ls. concat (map (\<lambda>l. l @ [CHR 0x0A, CHR 0x0A]) ls)"
  have split: "Split (CHR 0x0A) (?w ls) = concat (map (\<lambda>l. [l, '''']) ls) @ ['''']"
    using assms by (induction ls) (simp_all add: Split_event event_line_def)
  have "\<forall>l \<in> set (concat (map (\<lambda>l. [l, '''']) ls)). length l < 65536"
    using assms by (auto simp: event_line_def)
  then show ?thesis by (simp add: body_lines_def split Let_def)
qed

lemma body_lines_no_LF: "l \<in> set (body_lines s) \<Longrightarrow> CHR 0x0A \<notin> set l \<and> length l < 65536"
proof -
  assume l: "l \<in> set (body_lines s)"
  then have "l \<in> set (Split (CHR 0x0A) s)"
    by (auto simp: body_lines_def Let_def dest!: set_takeWhileD in_set_butlastD split: if_splits)
  moreover have "length l < 65536" using l by (auto simp: body_lines_def Let_def dest: set_takeWhileD split: if_splits)
  ultimately show ?thesis using Split_parts_no_sep by blast
qed

text \<open>Which lines are passed on; the others change nothing.\<close>

definition emits :: "openai_json \<Rightarrow> int \<Rightarrow> string \<Rightarrow> bool" where
  "emits J mode l \<longleftrightarrow>
     length l \<ge> 6 \<and> (take 6 l = ''data: '' \<or> take 6 l = DONE) \<and>
     (HasPrefix (drop 6 l) DONE
      \<or> mode = mode_ChatCompletions \<and>
          (case oj_chat J (drop 6 l) of None \<Rightarrow> True | Some r \<Rightarrow> \<not> (cc_Choices r = [] \<and> cc_Usage r = None))
      \<or> mode = mode_Completions)"


lemma stream_line_skips: "\<not> emits J mode l \<Longrightarrow> stream_line J mode l st = st"
  by (auto simp: emits_def stream_line_def chat_line_def split: option.splits)

lemma stream_line_out: "os_out (stream_line J mode l st) = os_out st @ (if emits J mode l then [l] else [])"
  by (auto simp: emits_def stream_line_def chat_line_def completion_line_def emit_def split: option.splits)

lemma emits_blank: "\<not> emits J mode ''''"
  by (simp add: emits_def)

lemma fold_emits: "fold (stream_line J mode) (filter (emits J mode) ls) st = fold (stream_line J mode) ls st"
  by (induction ls arbitrary: st) (simp_all add: stream_line_skips)

lemma fold_out: "os_out (fold (stream_line J mode) ls st) = os_out st @ filter (emits J mode) ls"
  by (induction ls arbitrary: st) (simp_all add: stream_line_out)

lemma fold_blanks: "fold (stream_line J mode) (concat (map (\<lambda>l. [l, '''']) ls)) st = fold (stream_line J mode) ls st"
  by (induction ls arbitrary: st) (simp_all add: stream_line_skips emits_blank)

lemma written_events: "\<forall>l \<in> set ls. event_line l \<Longrightarrow> written ls = concat (map (\<lambda>l. l @ [CHR 0x0A, CHR 0x0A]) ls)"
  unfolding written_def by (induction ls) (simp_all add: StringData_event)

lemma drop_cr_id: "CHR 0x0D \<notin> set l \<Longrightarrow> drop_cr l = l"
  using last_in_set by (fastforce simp: drop_cr_def)

lemma body_lines_chars: "l \<in> set (body_lines s) \<Longrightarrow> set l \<subseteq> set s"
proof -
  have "l \<in> set (Split c s) \<Longrightarrow> set l \<subseteq> set s" for c l
    by (induction c s arbitrary: l rule: Split.induct) (simp, force split: list.splits if_splits)
  then show "l \<in> set (body_lines s) \<Longrightarrow> set l \<subseteq> set s"
    by (auto simp: body_lines_def Let_def dest!: set_takeWhileD in_set_butlastD split: if_splits)
qed

lemma length_DONE: "length DONE = 6"
  by (simp add: DONE_def)

lemma done_event: "event_line (''data: '' @ DONE)" "StringData DONE = StringData (''data: '' @ DONE)"
    "emits J mode (''data: '' @ DONE)"
  by (simp_all add: event_line_def DONE_def HasPrefix_def StringData_def TrimPrefix_def emits_def)

text \<open>Running the handler on what events it wrote.\<close>

lemma run_events:
  assumes "\<forall>l \<in> set es. event_line l"
  shows "run_stream J mode (map drop_cr (body_lines (written es))) = run_stream J mode es"
proof -
  have "body_lines (written es) = concat (map (\<lambda>l. [l, '''']) es)"
    using assms by (simp add: written_events body_lines_written)
  moreover have "map drop_cr (concat (map (\<lambda>l. [l, '''']) es)) = concat (map (\<lambda>l. [l, '''']) es)"
    using assms by (induction es) (simp_all add: drop_cr_id event_line_def)
  ultimately show ?thesis by (simp add: run_stream_def fold_blanks)
qed

lemma run_again:
  fixes J mode ls
  defines "st \<equiv> run_stream J mode ls"
  assumes ls: "\<forall>l \<in> set ls. emits J mode l \<longrightarrow> event_line l"
  defines "st' \<equiv> run_stream J mode (map drop_cr (body_lines (written (os_out st))))"
  shows "written (os_out st') = written (os_out st) \<and> os_text st' = os_text st \<and> os_usage st' = os_usage st"
proof -
  let ?f = "fold (stream_line J mode)"
  let ?es = "filter (emits J mode) ls"
  have es: "\<forall>l \<in> set ?es. event_line l" using ls by simp
  have out: "os_out (?f ls stream_start) = ?es" by (simp add: fold_out stream_start_def)
  show ?thesis
  proof (cases "os_done (?f ls stream_start)")
    case True
    then have "st = ?f ls stream_start" by (simp add: st_def run_stream_def)
    then have "st' = run_stream J mode ?es" using run_events [OF es] by (simp add: st'_def out)
    then show ?thesis using True by (simp add: st_def run_stream_def fold_emits)
  next
    case False
    let ?d = "''data: '' @ DONE"
    have st: "st = emit DONE (?f ls stream_start)" using False by (simp add: st_def run_stream_def)
    have w: "written (os_out st) = written (?es @ [?d])" by (simp add: st emit_def out written_def done_event)
    have "st' = run_stream J mode (?es @ [?d])"
      unfolding st'_def w by (rule run_events) (use es done_event in auto)
    also have "\<dots> = (emit ?d (?f ls stream_start))\<lparr>os_done := True\<rparr>"
      by (simp add: run_stream_def fold_emits stream_line_def HasPrefix_def DONE_def emit_def)
    finally show ?thesis unfolding w by (simp add: st emit_def out)
  qed
qed

text \<open>C18: gateways compose. Relaying the stream that a relay of this kind wrote changes nothing: the same bytes reach
  the caller and the same text and usage are charged, for every stream of a service whose lines carry no carriage
  return and no bare end marker. The caller's view of an event is thus a fixed point of the handler, whatever the
  service reported and wherever it broke off.\<close>

theorem stream_relays_compose:
  fixes J mode resp
  assumes "plain_stream (stream_body resp)"
  defines "r \<equiv> StreamHandler J mode resp"
  defines "r' \<equiv> StreamHandler J mode (resp\<lparr>rp_Body := Inr (written (fst r))\<rparr>)"
  shows "written (fst r') = written (fst r) \<and> snd r' = snd r"
proof -
  let ?ls = "body_lines (stream_body resp)"
  have cr: "\<forall>l \<in> set ?ls. CHR 0x0D \<notin> set l"
    using assms(1) body_lines_chars by (fastforce simp: plain_stream_def)
  then have id: "map drop_cr ?ls = ?ls" by (simp add: drop_cr_id map_idI)
  have "event_line l" if "l \<in> set ?ls" "emits J mode l" for l
  proof -
    have "take 6 l = ''data: ''"
      using that assms(1) unfolding emits_def plain_stream_def HasPrefix_def by (auto simp: length_DONE)
    then have "HasPrefix l ''data: ''" by (simp add: HasPrefix_def numeral_eq_Suc)
    then show ?thesis using that cr body_lines_no_LF [OF that(1)] by (simp add: event_line_def)
  qed
  then have "\<forall>l \<in> set ?ls. emits J mode l \<longrightarrow> event_line l" by blast
  from run_again [OF this] show ?thesis
    by (simp add: r'_def r_def StreamHandler_def Let_def id split: option.splits) (simp add: stream_body_def)
qed

text \<open>A stream of two chunks that breaks off before its end marker.\<close>

definition sample_chunks :: openai_json where
  "sample_chunks = \<lparr>oj_chat = (\<lambda>_. Some \<lparr>cc_Id = '''', cc_Object = '''', cc_Created = 0, cc_Model = '''',
       cc_Choices = [\<lparr>sc_Index = 0, sc_Delta = no_message\<lparr>ms_Content := JStr ''x''\<rparr>, sc_FinishReason = None\<rparr>], cc_Usage = None\<rparr>),
     oj_completion = (\<lambda>_. None), oj_slim = (\<lambda>_. Inl ''''), oj_image = (\<lambda>_. None)\<rparr>"

definition two_chunks :: response where
  "two_chunks = \<lparr>rp_StatusCode = 200, rp_ContentType = '''',
     rp_Body = Inr (''data: a'' @ [CHR 0x0A, CHR 0x0A] @ ''data: b'' @ [CHR 0x0A]), rp_Close = None\<rparr>"

theorem stream_relays_compose_witness:
  "(let r = StreamHandler sample_chunks mode_ChatCompletions two_chunks;
        r' = StreamHandler sample_chunks mode_ChatCompletions (two_chunks\<lparr>rp_Body := Inr (written (fst r))\<rparr>)
    in fst r = [''data: a'', ''data: b'', DONE] \<and> snd r = Inr (''xx'', None) \<and> snd r' = snd r \<and> written (fst r') = written (fst r))"
proof -
  have lines: "body_lines (stream_body two_chunks) = [''data: a'', '''', ''data: b'']"
    by (simp add: two_chunks_def stream_body_def body_lines_def)
  have ends: "rp_Close two_chunks = None" by (simp add: two_chunks_def)
  have "plain_stream (stream_body two_chunks)"
    unfolding plain_stream_def lines by (simp add: two_chunks_def stream_body_def HasPrefix_def DONE_def)
  from stream_relays_compose [OF this, of sample_chunks mode_ChatCompletions]
  have "snd (StreamHandler sample_chunks mode_ChatCompletions
        (two_chunks\<lparr>rp_Body := Inr (written (fst (StreamHandler sample_chunks mode_ChatCompletions two_chunks)))\<rparr>)) =
      snd (StreamHandler sample_chunks mode_ChatCompletions two_chunks)"
    and "written (fst (StreamHandler sample_chunks mode_ChatCompletions
        (two_chunks\<lparr>rp_Body := Inr (written (fst (StreamHandler sample_chunks mode_ChatCompletions two_chunks)))\<rparr>))) =
      written (fst (StreamHandler sample_chunks mode_ChatCompletions two_chunks))"
    by blast+
  moreover have "fst (StreamHandler sample_chunks mode_ChatCompletions two_chunks) = [''data: a'', ''data: b'', DONE]"
    and "snd (StreamHandler sample_chunks mode_ChatCompletions two_chunks) = Inr (''xx'', None)"
    using ends by (simp_all add: StreamHandler_def lines run_stream_def stream_line_def chat_line_def emit_def drop_cr_def
        HasPrefix_def sample_chunks_def stream_start_def no_message_def AsString_def DONE_def Let_def)
  ultimately show ?thesis unfolding Let_def by blast
qed

end
