(* ===== verification/Claude.thy ===== *)
theory Claude
  imports OpenAI
begin

text \<open>
  The interface of Anthropic (\<^verbatim>\<open>relay/adaptor/anthropic\<close>): a request of the OpenAI interface becomes one of Claude, and
  Claude's events or answer become chunks or an answer of the OpenAI interface. Decoding and encoding JSON and fetching
  an image are parameters. A Go panic is \<open>None\<close>, or the mark of a stream that broke off.
\<close>

section \<open>Data\<close>

record ImageSource =
  is_Type :: string
  is_MediaType :: string
  is_Data :: string

record Content =
  cb_Type :: string
  cb_Text :: string
  cb_Source :: "ImageSource option"
  cb_Id :: string
  cb_Name :: string
  cb_Input :: json
  cb_Content :: string
  cb_ToolUseId :: string

record ClaudeMessage =
  cm_Role :: string
  cm_Content :: "Content list"

record InputSchema =
  sch_Type :: string
  sch_Properties :: json
  sch_Required :: json

record ClaudeTool =
  ctl_Name :: string
  ctl_Description :: string
  ctl_InputSchema :: InputSchema

text \<open>The choice of a tool: its type and its name.\<close>

record ClaudeRequest =
  cq_Model :: string
  cq_Messages :: "ClaudeMessage list"
  cq_System :: string
  cq_MaxTokens :: int
  cq_StopSequences :: "string list"
  cq_Stream :: bool
  cq_Temperature :: "f64 option"
  cq_TopP :: "f64 option"
  cq_TopK :: int
  cq_Tools :: "ClaudeTool list"
  cq_ToolChoice :: "(string \<times> string) option"

record ClaudeUsage =
  cu_InputTokens :: int
  cu_OutputTokens :: int

record ClaudeError =
  ce_Type :: string
  ce_Message :: string

record ClaudeResponse =
  cr_Id :: string
  cr_Type :: string
  cr_Role :: string
  cr_Content :: "Content list"
  cr_Model :: string
  cr_StopReason :: "string option"
  cr_StopSequence :: "string option"
  cr_Usage :: ClaudeUsage
  cr_Error :: ClaudeError

record Delta =
  dl_Type :: string
  dl_Text :: string
  dl_PartialJson :: string
  dl_StopReason :: "string option"
  dl_StopSequence :: "string option"

record StreamResponse =
  sr_Type :: string
  sr_Message :: "ClaudeResponse option"
  sr_Index :: int
  sr_ContentBlock :: "Content option"
  sr_Delta :: "Delta option"
  sr_Usage :: "ClaudeUsage option"

text \<open>The zero values of Go.\<close>

definition no_content :: Content where
  "no_content = \<lparr>cb_Type = '''', cb_Text = '''', cb_Source = None, cb_Id = '''', cb_Name = '''', cb_Input = JNull,
     cb_Content = '''', cb_ToolUseId = ''''\<rparr>"

definition no_response :: ClaudeResponse where
  "no_response = \<lparr>cr_Id = '''', cr_Type = '''', cr_Role = '''', cr_Content = [], cr_Model = '''', cr_StopReason = None,
     cr_StopSequence = None, cr_Usage = \<lparr>cu_InputTokens = 0, cu_OutputTokens = 0\<rparr>,
     cr_Error = \<lparr>ce_Type = '''', ce_Message = ''''\<rparr>\<rparr>"

definition no_tool :: Tool where
  "no_tool = \<lparr>tl_Id = '''', tl_Type = '''', tl_Function = \<lparr>fn_Description = '''', fn_Name = '''', fn_Parameters = JNull,
     fn_Arguments = JNull\<rparr>\<rparr>"

text \<open>Decoding an event and a response, encoding the input of a tool, decoding its arguments, fetching an image (its
  type and its data).\<close>

record claude_json =
  cj_event :: "string \<Rightarrow> StreamResponse option"
  cj_response :: "string \<Rightarrow> string + ClaudeResponse"
  cj_marshal :: "json \<Rightarrow> string"
  cj_arguments :: "string \<Rightarrow> json"
  cj_image :: "string \<Rightarrow> string \<times> string"


section \<open>Requests\<close>

definition stopReasonClaude2OpenAI :: "string option \<Rightarrow> string" where
  "stopReasonClaude2OpenAI reason =
     (case reason of
        None \<Rightarrow> ''''
      | Some r \<Rightarrow>
          (if r = ''end_turn'' then ''stop''
           else if r = ''stop_sequence'' then ''stop''
           else if r = ''max_tokens'' then ''length''
           else if r = ''tool_use'' then ''tool_calls''
           else r))"

text \<open>A tool whose parameters are no object is skipped; one whose parameters have no type panics.\<close>

fun claude_tools :: "Tool list \<Rightarrow> ClaudeTool list option" where
  "claude_tools [] = Some []"
| "claude_tools (t # ts) =
     (case fn_Parameters (tl_Function t) of
        JObj params \<Rightarrow>
          (case field ''type'' params of
             JStr ty \<Rightarrow>
               map_option (Cons \<lparr>ctl_Name = fn_Name (tl_Function t), ctl_Description = fn_Description (tl_Function t),
                   ctl_InputSchema = \<lparr>sch_Type = ty, sch_Properties = field ''properties'' params,
                     sch_Required = field ''required'' params\<rparr>\<rparr>) (claude_tools ts)
           | _ \<Rightarrow> None)
      | _ \<Rightarrow> claude_tools ts)"

definition claude_choice :: "json \<Rightarrow> (string \<times> string) option" where
  "claude_choice choice =
     (case choice of
        JObj c \<Rightarrow>
          (case field ''function'' c of
             JObj f \<Rightarrow> (case field ''name'' f of JStr n \<Rightarrow> Some (''tool'', n) | _ \<Rightarrow> None)
           | _ \<Rightarrow> Some (''auto'', ''''))
      | JStr ty \<Rightarrow> (if ty = ''any'' then Some (ty, '''') else Some (''auto'', ''''))
      | _ \<Rightarrow> Some (''auto'', ''''))"

fun tool_uses :: "claude_json \<Rightarrow> Tool list \<Rightarrow> Content list option" where
  "tool_uses J [] = Some []"
| "tool_uses J (t # ts) =
     (case fn_Arguments (tl_Function t) of
        JStr a \<Rightarrow>
          map_option (Cons (no_content\<lparr>cb_Type := ''tool_use'', cb_Id := tl_Id t, cb_Name := fn_Name (tl_Function t),
            cb_Input := cj_arguments J a\<rparr>)) (tool_uses J ts)
      | _ \<Rightarrow> None)"

definition claude_part :: "claude_json \<Rightarrow> MessageContent \<Rightarrow> Content" where
  "claude_part J part =
     (if mc_Type part = ''text'' then no_content\<lparr>cb_Type := ''text'', cb_Text := mc_Text part\<rparr>
      else if mc_Type part = ''image_url'' then
        (let img = cj_image J (case mc_ImageURL part of None \<Rightarrow> '''' | Some u \<Rightarrow> iu_Url u)
         in no_content\<lparr>cb_Type := ''image'',
              cb_Source := Some \<lparr>is_Type = ''base64'', is_MediaType = fst img, is_Data = snd img\<rparr>\<rparr>)
      else no_content)"

definition claude_message :: "claude_json \<Rightarrow> Message \<Rightarrow> ClaudeMessage option" where
  "claude_message J m =
     (if IsStringContent m then
        (let content = no_content\<lparr>cb_Type := ''text'', cb_Text := StringContent m\<rparr>;
             tool = (ms_Role m = ''tool'');
             content = (if tool then content\<lparr>cb_Type := ''tool_result'', cb_Content := cb_Text content, cb_Text := '''',
                 cb_ToolUseId := ms_ToolCallId m\<rparr> else content)
         in map_option (\<lambda>uses. \<lparr>cm_Role = (if tool then ''user'' else ms_Role m), cm_Content = content # uses\<rparr>)
              (tool_uses J (ms_ToolCalls m)))
      else map_option (\<lambda>parts. \<lparr>cm_Role = ms_Role m, cm_Content = map (claude_part J) parts\<rparr>) (ParseContent m))"

text \<open>The system prompt that was found, and the messages.\<close>

fun claude_messages :: "claude_json \<Rightarrow> string \<Rightarrow> Message list \<Rightarrow> (string \<times> ClaudeMessage list) option" where
  "claude_messages J sys [] = Some (sys, [])"
| "claude_messages J sys (m # ms) =
     (if ms_Role m = ''system'' \<and> sys = '''' then claude_messages J (StringContent m) ms
      else case claude_message J m of
        None \<Rightarrow> None
      | Some c \<Rightarrow> map_option (\<lambda>(s, cs). (s, c # cs)) (claude_messages J sys ms))"

definition legacy_model :: "string \<Rightarrow> string" where
  "legacy_model m = (if m = ''claude-instant-1'' then ''claude-instant-1.1'' else if m = ''claude-2'' then ''claude-2.1'' else m)"

definition claude_ConvertRequest :: "claude_json \<Rightarrow> GeneralOpenAIRequest \<Rightarrow> ClaudeRequest option" where
  "claude_ConvertRequest J q =
     (case claude_tools (Tools q) of
        None \<Rightarrow> None
      | Some tools \<Rightarrow>
          (case (if tools = [] then Some None else map_option Some (claude_choice (ToolChoice q))) of
             None \<Rightarrow> None
           | Some choice \<Rightarrow>
               map_option (\<lambda>(sys, msgs).
                 \<lparr>cq_Model = legacy_model (Model q), cq_Messages = msgs, cq_System = sys,
                  cq_MaxTokens = (if MaxTokens q = 0 then 4096 else MaxTokens q), cq_StopSequences = [],
                  cq_Stream = Stream q, cq_Temperature = Temperature q, cq_TopP = TopP q, cq_TopK = TopK q,
                  cq_Tools = tools, cq_ToolChoice = choice\<rparr>)
                 (claude_messages J '''' (Messages q))))"


section \<open>Answers\<close>

text \<open>The text and the tools of an event, the usage it carries and why Claude stopped.\<close>

definition started_tool :: "Content \<Rightarrow> Tool" where
  "started_tool c = no_tool\<lparr>tl_Id := cb_Id c, tl_Type := ''function'',
     tl_Function := (tl_Function no_tool)\<lparr>fn_Name := cb_Name c, fn_Arguments := JStr ''''\<rparr>\<rparr>"

definition partial_tool :: "Delta \<Rightarrow> Tool" where
  "partial_tool d = no_tool\<lparr>tl_Function := (tl_Function no_tool)\<lparr>fn_Arguments := JStr (dl_PartialJson d)\<rparr>\<rparr>"

definition chunk_of :: "string \<Rightarrow> Tool list \<Rightarrow> string \<Rightarrow> ChatChunk" where
  "chunk_of responseText tools stopReason =
     (let finishReason = stopReasonClaude2OpenAI (Some stopReason)
      in \<lparr>cc_Id = '''', cc_Object = ''chat.completion.chunk'', cc_Created = 0, cc_Model = '''',
          cc_Choices = [\<lparr>sc_Index = 0,
            sc_Delta = no_message\<lparr>ms_Role := ''assistant'',
               ms_Content := (if tools = [] then JStr responseText else JNull), ms_ToolCalls := tools\<rparr>,
            sc_FinishReason = (if finishReason \<noteq> ''null'' then Some finishReason else None)\<rparr>],
          cc_Usage = None\<rparr>)"

definition StreamResponseClaude2OpenAI :: "StreamResponse \<Rightarrow> ChatChunk option \<times> ClaudeResponse option" where
  "StreamResponseClaude2OpenAI r =
     (if sr_Type r = ''message_start'' then (None, sr_Message r)
      else if sr_Type r = ''content_block_start'' then
        (Some (case sr_ContentBlock r of
             None \<Rightarrow> chunk_of '''' [] ''''
           | Some c \<Rightarrow> chunk_of (cb_Text c) (if cb_Type c = ''tool_use'' then [started_tool c] else []) ''''), None)
      else if sr_Type r = ''content_block_delta'' then
        (Some (case sr_Delta r of
             None \<Rightarrow> chunk_of '''' [] ''''
           | Some d \<Rightarrow> chunk_of (dl_Text d) (if dl_Type d = ''input_json_delta'' then [partial_tool d] else []) ''''), None)
      else if sr_Type r = ''message_delta'' then
        (Some (chunk_of '''' [] (case sr_Delta r of None \<Rightarrow> '''' | Some d \<Rightarrow> (case dl_StopReason d of None \<Rightarrow> '''' | Some s \<Rightarrow> s))),
         map_option (\<lambda>u. no_response\<lparr>cr_Usage := u\<rparr>) (sr_Usage r))
      else (Some (chunk_of '''' [] ''''), None))"

definition used_tool :: "claude_json \<Rightarrow> Content \<Rightarrow> Tool" where
  "used_tool J c = no_tool\<lparr>tl_Id := cb_Id c, tl_Type := ''function'',
     tl_Function := (tl_Function no_tool)\<lparr>fn_Name := cb_Name c, fn_Arguments := JStr (cj_marshal J (cb_Input c))\<rparr>\<rparr>"

definition ResponseClaude2OpenAI :: "claude_json \<Rightarrow> int \<Rightarrow> ClaudeResponse \<Rightarrow> TextResponse" where
  "ResponseClaude2OpenAI J now r =
     (let responseText = (case cr_Content r of [] \<Rightarrow> '''' | c # cs \<Rightarrow> cb_Text c);
          tools = map (used_tool J) (filter (\<lambda>c. cb_Type c = ''tool_use'') (cr_Content r))
      in \<lparr>tr_Id = ''chatcmpl-'' @ cr_Id r, tr_Model = cr_Model r, tr_Object = ''chat.completion'', tr_Created = now,
          tr_Choices = [\<lparr>tc_Index = 0,
            tc_Message = no_message\<lparr>ms_Role := ''assistant'', ms_Content := JStr responseText, ms_ToolCalls := tools\<rparr>,
            tc_FinishReason = stopReasonClaude2OpenAI (cr_StopReason r)\<rparr>],
          tr_Usage = zero_usage\<rparr>)"


section \<open>Handlers\<close>

record claude_stream =
  cs_usage :: Usage
  cs_model :: string
  cs_id :: string
  cs_tools :: "Tool list"
  cs_out :: "ChatChunk list"
  cs_panic :: bool

definition claude_start :: claude_stream where
  "claude_start = \<lparr>cs_usage = zero_usage, cs_model = '''', cs_id = '''', cs_tools = [], cs_out = [], cs_panic = False\<rparr>"

definition add_usage :: "ClaudeUsage \<Rightarrow> Usage \<Rightarrow> Usage" where
  "add_usage c u = u\<lparr>PromptTokens := wrap64 (PromptTokens u + cu_InputTokens c),
     CompletionTokens := wrap64 (CompletionTokens u + cu_OutputTokens c)\<rparr>"

text \<open>Writing a chunk; the choice with tools that was written last is kept.\<close>

definition claude_emit :: "int \<Rightarrow> ChatChunk option \<Rightarrow> claude_stream \<Rightarrow> claude_stream" where
  "claude_emit created response st =
     (case response of
        None \<Rightarrow> st
      | Some r \<Rightarrow>
          st\<lparr>cs_tools := fold (\<lambda>c ts. if ms_ToolCalls (sc_Delta c) \<noteq> [] then ms_ToolCalls (sc_Delta c) else ts)
               (cc_Choices r) (cs_tools st),
             cs_out := cs_out st @ [r\<lparr>cc_Id := cs_id st, cc_Model := cs_model st, cc_Created := created\<rparr>]\<rparr>)"

definition tool_arguments :: "Tool \<Rightarrow> string" where
  "tool_arguments t = AsString (fn_Arguments (tl_Function t))"

text \<open>A tool that was called without arguments gets an empty object; the chunk that ends the message carries it.\<close>

definition fill_arguments :: "Tool list \<Rightarrow> Tool list" where
  "fill_arguments ts = butlast ts @ [(last ts)\<lparr>tl_Function := (tl_Function (last ts))\<lparr>fn_Arguments := JStr ''{}''\<rparr>\<rparr>]"

definition with_tools :: "Tool list \<Rightarrow> ChatChunk \<Rightarrow> ChatChunk" where
  "with_tools ts r =
     r\<lparr>cc_Choices := butlast (cc_Choices r) @
        [(last (cc_Choices r))\<lparr>sc_Delta := (sc_Delta (last (cc_Choices r)))\<lparr>ms_Content := JNull, ms_ToolCalls := ts\<rparr>\<rparr>]\<rparr>"

definition claude_event :: "int \<Rightarrow> StreamResponse \<Rightarrow> claude_stream \<Rightarrow> claude_stream" where
  "claude_event created r st =
     (if cs_panic st then st
      else case StreamResponseClaude2OpenAI r of
        (response, None) \<Rightarrow> claude_emit created response st
      | (response, Some m) \<Rightarrow>
          (let st = st\<lparr>cs_usage := add_usage (cr_Usage m) (cs_usage st)\<rparr>
           in if cr_Id m \<noteq> '''' then st\<lparr>cs_model := cr_Model m, cs_id := ''chatcmpl-'' @ cr_Id m\<rparr>
              else if cs_tools st \<noteq> [] \<and> tool_arguments (last (cs_tools st)) = '''' then
                (case response of
                   None \<Rightarrow> st\<lparr>cs_panic := True\<rparr>
                 | Some c \<Rightarrow>
                     (let ts = fill_arguments (cs_tools st)
                      in claude_emit created (Some (with_tools ts c)) (st\<lparr>cs_tools := ts\<rparr>)))
              else claude_emit created response st))"

definition claude_line :: "claude_json \<Rightarrow> int \<Rightarrow> string \<Rightarrow> claude_stream \<Rightarrow> claude_stream" where
  "claude_line J created data st =
     (if length data < 6 \<or> \<not> HasPrefix data ''data:'' then st
      else case cj_event J (TrimSpace (TrimPrefix data ''data:'')) of
        None \<Rightarrow> st
      | Some r \<Rightarrow> claude_event created r st)"

text \<open>The chunks written (the end marker after them, unless it panicked: \<open>None\<close>); then the error or the usage.\<close>

definition claude_StreamHandler :: "claude_json \<Rightarrow> int \<Rightarrow> response \<Rightarrow> ChatChunk list \<times> (status_error + Usage) option" where
  "claude_StreamHandler J createdTime resp =
     (let st = fold (claude_line J createdTime) (body_lines (stream_body resp)) claude_start
      in (cs_out st,
          if cs_panic st then None
          else case rp_Close resp of
            Some e \<Rightarrow> Some (Inl (ErrorWrapper e ''close_response_body_failed'' 500))
          | None \<Rightarrow> Some (Inr (cs_usage st))))"

definition claude_Handler :: "claude_json \<Rightarrow> int \<Rightarrow> response \<Rightarrow> string \<Rightarrow> status_error + TextResponse \<times> Usage" where
  "claude_Handler J now resp modelName =
     (case read_all resp of
        Inl e \<Rightarrow> Inl e
      | Inr body \<Rightarrow>
          (case cj_response J body of
             Inl e \<Rightarrow> Inl (ErrorWrapper e ''unmarshal_response_body_failed'' 500)
           | Inr r \<Rightarrow>
               (if ce_Type (cr_Error r) \<noteq> '''' then
                  Inl \<lparr>se_Error = \<lparr>er_Message = ce_Message (cr_Error r), er_Type = ce_Type (cr_Error r), er_Param = '''',
                         er_Code = JStr (ce_Type (cr_Error r))\<rparr>, se_StatusCode = rp_StatusCode resp\<rparr>
                else
                  (let usage = \<lparr>PromptTokens = cu_InputTokens (cr_Usage r), CompletionTokens = cu_OutputTokens (cr_Usage r),
                         TotalTokens = wrap64 (cu_InputTokens (cr_Usage r) + cu_OutputTokens (cr_Usage r))\<rparr>
                   in Inr ((ResponseClaude2OpenAI J now r)\<lparr>tr_Model := modelName, tr_Usage := usage\<rparr>, usage)))))"


section \<open>The adaptor\<close>

definition claude_GetRequestURL :: "Meta \<Rightarrow> string + string" where
  "claude_GetRequestURL m = Inr (m_BaseURL m @ ''/v1/messages'')"

definition claude_SetupRequestHeader :: "(string \<Rightarrow> string) \<Rightarrow> Meta \<Rightarrow> headers \<Rightarrow> headers" where
  "claude_SetupRequestHeader from m h =
     (let h = SetupCommonRequestHeader from m h;
          h = h(''x-api-key'' \<mapsto> m_APIKey m);
          anthropicVersion = from ''anthropic-version'';
          anthropicVersion = (if anthropicVersion = '''' then ''2023-06-01'' else anthropicVersion);
          h = h(''anthropic-version'' \<mapsto> anthropicVersion, ''anthropic-beta'' \<mapsto> ''messages-2023-12-15'')
      in if HasPrefix (m_ActualModelName m) ''claude-3-5-sonnet''
         then h(''anthropic-beta'' \<mapsto> ''max-tokens-3-5-sonnet-2024-07-15'') else h)"

text \<open>The outcome for the relay: the error or the usage. What was written is in the handlers' results.\<close>

definition claude_DoResponse :: "claude_json \<Rightarrow> int \<Rightarrow> Meta \<Rightarrow> response \<Rightarrow> (status_error + Usage option) option" where
  "claude_DoResponse J now m resp =
     (if m_IsStream m then
        (case snd (claude_StreamHandler J now resp) of
           None \<Rightarrow> None
         | Some (Inl e) \<Rightarrow> Some (Inl e)
         | Some (Inr u) \<Rightarrow> Some (Inr (Some u)))
      else (case claude_Handler J now resp (m_ActualModelName m) of
          Inl e \<Rightarrow> Some (Inl e)
        | Inr (r, u) \<Rightarrow> Some (Inr (Some u))))"

section \<open>An answer, streamed and whole\<close>

text \<open>An answer of Claude as its interface documents it: the pieces of a text, then the tools that are called, each
  with the pieces of its arguments, and the usage reported at the start and at the end.\<close>

record answer =
  an_id :: string
  an_model :: string
  an_text :: "string list"
  an_tools :: "(string \<times> string \<times> json \<times> string list) list"
  an_start :: ClaudeUsage
  an_end :: int
  an_stop :: string

definition no_event :: StreamResponse where
  "no_event = \<lparr>sr_Type = '''', sr_Message = None, sr_Index = 0, sr_ContentBlock = None, sr_Delta = None, sr_Usage = None\<rparr>"

definition no_delta :: Delta where
  "no_delta = \<lparr>dl_Type = '''', dl_Text = '''', dl_PartialJson = '''', dl_StopReason = None, dl_StopSequence = None\<rparr>"

definition block_start :: "Content \<Rightarrow> StreamResponse" where
  "block_start c = no_event\<lparr>sr_Type := ''content_block_start'', sr_ContentBlock := Some c\<rparr>"

definition text_delta :: "string \<Rightarrow> StreamResponse" where
  "text_delta t = no_event\<lparr>sr_Type := ''content_block_delta'', sr_Delta := Some (no_delta\<lparr>dl_Type := ''text_delta'', dl_Text := t\<rparr>)\<rparr>"

definition json_delta :: "string \<Rightarrow> StreamResponse" where
  "json_delta t = no_event\<lparr>sr_Type := ''content_block_delta'',
     sr_Delta := Some (no_delta\<lparr>dl_Type := ''input_json_delta'', dl_PartialJson := t\<rparr>)\<rparr>"

definition block_stop :: StreamResponse where
  "block_stop = no_event\<lparr>sr_Type := ''content_block_stop''\<rparr>"

fun tool_events :: "string \<times> string \<times> json \<times> string list \<Rightarrow> StreamResponse list" where
  "tool_events (i, n, _, ps) =
     block_start (no_content\<lparr>cb_Type := ''tool_use'', cb_Id := i, cb_Name := n\<rparr>) # map json_delta ps @ [block_stop]"

definition events_of :: "answer \<Rightarrow> StreamResponse list" where
  "events_of a =
     no_event\<lparr>sr_Type := ''message_start'',
       sr_Message := Some (no_response\<lparr>cr_Id := an_id a, cr_Model := an_model a, cr_Usage := an_start a\<rparr>)\<rparr>
     # block_start (no_content\<lparr>cb_Type := ''text''\<rparr>) # map text_delta (an_text a) @ [block_stop]
     @ concat (map tool_events (an_tools a))
     @ [no_event\<lparr>sr_Type := ''message_delta'', sr_Delta := Some (no_delta\<lparr>dl_StopReason := Some (an_stop a)\<rparr>),
          sr_Usage := Some \<lparr>cu_InputTokens = 0, cu_OutputTokens = an_end a\<rparr>\<rparr>,
        no_event\<lparr>sr_Type := ''message_stop''\<rparr>]"

fun tool_block :: "string \<times> string \<times> json \<times> string list \<Rightarrow> Content" where
  "tool_block (i, n, j, _) = no_content\<lparr>cb_Type := ''tool_use'', cb_Id := i, cb_Name := n, cb_Input := j\<rparr>"

definition whole_of :: "answer \<Rightarrow> ClaudeResponse" where
  "whole_of a = no_response\<lparr>cr_Id := an_id a, cr_Model := an_model a,
     cr_Content := no_content\<lparr>cb_Type := ''text'', cb_Text := concat (an_text a)\<rparr> # map tool_block (an_tools a),
     cr_StopReason := Some (an_stop a),
     cr_Usage := \<lparr>cu_InputTokens = cu_InputTokens (an_start a),
       cu_OutputTokens = cu_OutputTokens (an_start a) + an_end a\<rparr>\<rparr>"

text \<open>What such answers have: an identity, a reason to stop, counts that fit; each tool has an identity and its
  arguments, whose pieces (the last one not empty) make up their encoding.\<close>

fun tool_ok :: "claude_json \<Rightarrow> string \<times> string \<times> json \<times> string list \<Rightarrow> bool" where
  "tool_ok J (i, n, j, ps) = (i \<noteq> '''' \<and> ps \<noteq> [] \<and> last ps \<noteq> '''' \<and> cj_marshal J j = concat ps)"

definition small_count :: "int \<Rightarrow> bool" where
  "small_count n \<longleftrightarrow> 0 \<le> n \<and> n < 2 ^ 62"

definition answer_ok :: "claude_json \<Rightarrow> answer \<Rightarrow> bool" where
  "answer_ok J a \<longleftrightarrow>
     an_id a \<noteq> '''' \<and> an_stop a \<noteq> '''' \<and> an_stop a \<noteq> ''null''
     \<and> small_count (cu_InputTokens (an_start a)) \<and> small_count (cu_OutputTokens (an_start a)) \<and> small_count (an_end a)
     \<and> (\<forall>t \<in> set (an_tools a). tool_ok J t)"

text \<open>How a caller puts chunks together: texts are appended, a tool with an identity is a new call, one without
  extends the arguments of the last, and the last reason given counts.\<close>

type_synonym shown_answer = "string \<times> (string \<times> string \<times> string) list \<times> string"

definition add_tool :: "Tool \<Rightarrow> (string \<times> string \<times> string) list \<Rightarrow> (string \<times> string \<times> string) list" where
  "add_tool t ts =
     (if tl_Id t \<noteq> '''' \<or> ts = [] then ts @ [(tl_Id t, fn_Name (tl_Function t), tool_arguments t)]
      else (case last ts of (i, n, a) \<Rightarrow> butlast ts @ [(i, n, a @ tool_arguments t)]))"

definition add_choice :: "StreamChoice \<Rightarrow> shown_answer \<Rightarrow> shown_answer" where
  "add_choice c = (\<lambda>(text, ts, fin).
     (text @ AsString (ms_Content (sc_Delta c)), fold add_tool (ms_ToolCalls (sc_Delta c)) ts,
      case sc_FinishReason c of None \<Rightarrow> fin | Some f \<Rightarrow> (if f = '''' then fin else f)))"

definition assembled :: "ChatChunk list \<Rightarrow> shown_answer" where
  "assembled cs = fold add_choice (concat (map cc_Choices cs)) ('''', [], '''')"

definition read_choice :: "TextChoice \<Rightarrow> shown_answer" where
  "read_choice c =
     (StringContent (tc_Message c),
      map (\<lambda>t. (tl_Id t, fn_Name (tl_Function t), tool_arguments t)) (ms_ToolCalls (tc_Message c)), tc_FinishReason c)"

text \<open>The events that a stream's lines decode to.\<close>

definition claude_events :: "claude_json \<Rightarrow> string list \<Rightarrow> StreamResponse list" where
  "claude_events J ls =
     List.map_filter (\<lambda>l. if length l < 6 \<or> \<not> HasPrefix l ''data:'' then None
       else cj_event J (TrimSpace (TrimPrefix l ''data:''))) ls"

lemma fold_claude_lines: "fold (claude_line J now) ls st = fold (claude_event now) (claude_events J ls) st"
  by (induction ls arbitrary: st) (simp_all add: claude_events_def claude_line_def map_filter_simps split: option.split)

text \<open>A state of a stream that goes on: what was assembled, its usage, and that the last tool has arguments.\<close>

definition on_track :: "Usage \<Rightarrow> shown_answer \<Rightarrow> claude_stream \<Rightarrow> bool" where
  "on_track u A st \<longleftrightarrow> \<not> cs_panic st \<and> cs_usage st = u \<and> assembled (cs_out st) = A
     \<and> (cs_tools st \<noteq> [] \<longrightarrow> tool_arguments (last (cs_tools st)) \<noteq> '''')"

lemma assembled_snoc: "assembled (cs @ [c]) = fold add_choice (cc_Choices c) (assembled cs)"
  by (simp add: assembled_def)

lemma stopReason_none: "stopReasonClaude2OpenAI (Some '''') = ''''"
  by (simp add: stopReasonClaude2OpenAI_def)

lemma stopReason_not_null:
  "stop \<noteq> '''' \<Longrightarrow> stop \<noteq> ''null'' \<Longrightarrow>
   stopReasonClaude2OpenAI (Some stop) \<noteq> '''' \<and> stopReasonClaude2OpenAI (Some stop) \<noteq> ''null''"
  by (simp add: stopReasonClaude2OpenAI_def)

lemmas chunk_defs = StreamResponseClaude2OpenAI_def chunk_of_def claude_event_def claude_emit_def block_start_def
  text_delta_def json_delta_def block_stop_def no_event_def no_delta_def no_content_def stopReason_none
  assembled_snoc add_choice_def no_message_def AsString_def

lemma text_step:
  "on_track u (t, ts, f) st \<Longrightarrow> on_track u (t @ p, ts, f) (claude_event now (text_delta p) st)"
  by (simp add: on_track_def chunk_defs)

lemma stop_step: "on_track u A st \<Longrightarrow> on_track u A (claude_event now block_stop st)"
  by (cases A) (simp add: on_track_def chunk_defs)

lemma text_steps:
  "on_track u (t, ts, f) st \<Longrightarrow> on_track u (t @ concat ps, ts, f) (fold (claude_event now) (map text_delta ps) st)"
proof (induction ps arbitrary: t st)
  case (Cons p ps)
  from Cons.IH [OF text_step [OF Cons.prems]] show ?case by simp
qed simp

text \<open>Within the block of a tool, the last call's arguments grow; at its end the last piece is not empty.\<close>

definition in_tool :: "Usage \<Rightarrow> shown_answer \<Rightarrow> string \<Rightarrow> claude_stream \<Rightarrow> bool" where
  "in_tool u A p st \<longleftrightarrow> \<not> cs_panic st \<and> cs_usage st = u \<and> assembled (cs_out st) = A
     \<and> cs_tools st \<noteq> [] \<and> tool_arguments (last (cs_tools st)) = p"

lemma tool_start:
  "on_track u (t, ts, f) st \<Longrightarrow> i \<noteq> '''' \<Longrightarrow>
   in_tool u (t, ts @ [(i, n, '''')], f) ''''
     (claude_event now (block_start (no_content\<lparr>cb_Type := ''tool_use'', cb_Id := i, cb_Name := n\<rparr>)) st)"
  by (simp add: on_track_def in_tool_def chunk_defs add_tool_def started_tool_def no_tool_def tool_arguments_def)

lemma tool_step:
  "in_tool u (t, ts @ [(i, n, a)], f) p st \<Longrightarrow>
   in_tool u (t, ts @ [(i, n, a @ q)], f) q (claude_event now (json_delta q) st)"
  by (simp add: in_tool_def chunk_defs add_tool_def partial_tool_def no_tool_def tool_arguments_def)

lemma tool_steps:
  "in_tool u (t, ts @ [(i, n, a)], f) p st \<Longrightarrow>
   in_tool u (t, ts @ [(i, n, a @ concat ps)], f) (last (p # ps)) (fold (claude_event now) (map json_delta ps) st)"
proof (induction ps arbitrary: a p st)
  case (Cons q ps)
  from Cons.IH [OF tool_step [OF Cons.prems]] show ?case by simp
qed simp

lemma tool_end: "in_tool u A p st \<Longrightarrow> p \<noteq> '''' \<Longrightarrow> on_track u A (claude_event now block_stop st)"
  using stop_step [of u A st now] by (simp add: in_tool_def on_track_def)

lemma tool_block_step:
  assumes "on_track u (t, ts, f) st" "tool_ok J (i, n, j, ps)"
  shows "on_track u (t, ts @ [(i, n, cj_marshal J j)], f) (fold (claude_event now) (tool_events (i, n, j, ps)) st)"
proof -
  have ok: "i \<noteq> ''''" "last ('''' # ps) \<noteq> ''''" "cj_marshal J j = concat ps" using assms(2) by auto
  from tool_end [OF tool_steps [OF tool_start [OF assms(1) ok(1)]] ok(2)] show ?thesis by (simp add: ok(3))
qed

lemma tools_step:
  assumes "on_track u (t, ts, f) st" "\<forall>x \<in> set tools. tool_ok J x"
  shows "on_track u (t, ts @ map (\<lambda>(i, n, j, ps). (i, n, cj_marshal J j)) tools, f)
           (fold (claude_event now) (concat (map tool_events tools)) st)"
  using assms
proof (induction tools arbitrary: ts st)
  case (Cons x tools)
  obtain i n j ps where x: "x = (i, n, j, ps)" by (metis prod_cases4)
  have "tool_ok J (i, n, j, ps)" using Cons.prems(2) x by simp
  from Cons.IH [OF tool_block_step [OF Cons.prems(1) this]] Cons.prems(2) show ?case by (simp add: x)
qed simp

lemma opening_step:
  assumes "answer_ok J a"
  shows "on_track \<lparr>PromptTokens = cu_InputTokens (an_start a), CompletionTokens = cu_OutputTokens (an_start a), TotalTokens = 0\<rparr>
     ('''', [], '''')
     (claude_event now (no_event\<lparr>sr_Type := ''message_start'',
        sr_Message := Some (no_response\<lparr>cr_Id := an_id a, cr_Model := an_model a, cr_Usage := an_start a\<rparr>)\<rparr>) claude_start)"
  using assms by (simp add: answer_ok_def small_count_def on_track_def claude_start_def claude_event_def
      StreamResponseClaude2OpenAI_def no_response_def assembled_def zero_usage_def add_usage_def int64_def)

lemma text_start_step:
  "on_track u A st \<Longrightarrow> on_track u A (claude_event now (block_start (no_content\<lparr>cb_Type := ''text''\<rparr>)) st)"
  by (cases A) (simp add: on_track_def chunk_defs)

lemma closing_step:
  assumes "on_track u (t, ts, f) st" "stop \<noteq> ''''" "stop \<noteq> ''null''"
  shows "on_track (add_usage \<lparr>cu_InputTokens = 0, cu_OutputTokens = n\<rparr> u) (t, ts, stopReasonClaude2OpenAI (Some stop))
     (claude_event now (no_event\<lparr>sr_Type := ''message_delta'', sr_Delta := Some (no_delta\<lparr>dl_StopReason := Some stop\<rparr>),
        sr_Usage := Some \<lparr>cu_InputTokens = 0, cu_OutputTokens = n\<rparr>\<rparr>) st)"
  using assms(1) stopReason_not_null [OF assms(2,3)]
  by (cases "cs_tools st = []") (simp_all add: on_track_def chunk_defs no_response_def add_usage_def Let_def)

lemma last_step: "on_track u A st \<Longrightarrow> on_track u A (claude_event now (no_event\<lparr>sr_Type := ''message_stop''\<rparr>) st)"
  by (cases A) (simp add: on_track_def chunk_defs)

lemma answer_streamed:
  assumes "answer_ok J a"
  shows "on_track \<lparr>PromptTokens = cu_InputTokens (an_start a),
       CompletionTokens = cu_OutputTokens (an_start a) + an_end a, TotalTokens = 0\<rparr>
     (concat (an_text a), map (\<lambda>(i, n, j, ps). (i, n, cj_marshal J j)) (an_tools a), stopReasonClaude2OpenAI (Some (an_stop a)))
     (fold (claude_event now) (events_of a) claude_start)"
proof -
  have ok: "an_stop a \<noteq> ''''" "an_stop a \<noteq> ''null''" "\<forall>x \<in> set (an_tools a). tool_ok J x"
    using assms by (simp_all add: answer_ok_def)
  note 1 = stop_step [OF text_steps [OF text_start_step [OF opening_step [OF assms]]]]
  note 2 = last_step [OF closing_step [where n = "an_end a", OF tools_step [OF 1 [unfolded append_Nil] ok(3)] ok(1,2)]]
  have u: "add_usage \<lparr>cu_InputTokens = 0, cu_OutputTokens = an_end a\<rparr>
      \<lparr>PromptTokens = cu_InputTokens (an_start a), CompletionTokens = cu_OutputTokens (an_start a), TotalTokens = 0\<rparr>
    = \<lparr>PromptTokens = cu_InputTokens (an_start a),
       CompletionTokens = cu_OutputTokens (an_start a) + an_end a, TotalTokens = 0\<rparr>"
    using assms by (simp add: answer_ok_def small_count_def add_usage_def int64_def)
  from 2 [unfolded u] show ?thesis by (simp add: events_of_def)
qed

lemma whole_selectors:
  "cr_Error (whole_of a) = \<lparr>ce_Type = '''', ce_Message = ''''\<rparr>"
  "cr_Usage (whole_of a) = \<lparr>cu_InputTokens = cu_InputTokens (an_start a),
     cu_OutputTokens = cu_OutputTokens (an_start a) + an_end a\<rparr>"
  by (simp_all add: whole_of_def no_response_def)

lemma answer_whole:
  "map read_choice (tr_Choices (ResponseClaude2OpenAI J now (whole_of a))) =
     [(concat (an_text a), map (\<lambda>(i, n, j, ps). (i, n, cj_marshal J j)) (an_tools a), stopReasonClaude2OpenAI (Some (an_stop a)))]"
proof -
  have "filter (\<lambda>c. cb_Type c = ''tool_use'') (map tool_block ts) = map tool_block ts" for ts
    by (induction ts) (auto simp: no_content_def)
  then show ?thesis
    by (auto simp: ResponseClaude2OpenAI_def whole_of_def no_response_def no_content_def read_choice_def StringContent_def
        no_message_def used_tool_def no_tool_def tool_arguments_def AsString_def)
qed


text \<open>An answer with a text of two pieces and a tool, as it comes over the wire.\<close>

definition sample_answer :: answer where
  "sample_answer = \<lparr>an_id = ''m1'', an_model = ''claude'', an_text = [''Hel'', ''lo''],
     an_tools = [(''t1'', ''f'', JObj [], [''{'', ''}''])],
     an_start = \<lparr>cu_InputTokens = 7, cu_OutputTokens = 1\<rparr>, an_end = 5, an_stop = ''tool_use''\<rparr>"

definition sample_event :: "string \<Rightarrow> StreamResponse option" where
  "sample_event = map_of (zip (map (\<lambda>c. [c]) ''abcdefghijk'') (events_of sample_answer))"

definition sample_json :: claude_json where
  "sample_json = \<lparr>cj_event = sample_event, cj_response = (\<lambda>_. Inr (whole_of sample_answer)), cj_marshal = (\<lambda>_. ''{}''),
     cj_arguments = (\<lambda>_. JObj []), cj_image = (\<lambda>_. ('''', ''''))\<rparr>"

definition sample_stream :: response where
  "sample_stream = \<lparr>rp_StatusCode = 200, rp_ContentType = ''text/event-stream'',
     rp_Body = Inr (concat (map (\<lambda>c. ''data: '' @ [c, CHR 0x0A]) ''abcdefghijk'')), rp_Close = None\<rparr>"

lemma sample_answer_ok: "answer_ok sample_json sample_answer"
  by (simp add: answer_ok_def sample_answer_def sample_json_def small_count_def)

lemma sample_lines: "body_lines (stream_body sample_stream) = map (\<lambda>c. ''data: '' @ [c]) ''abcdefghijk''"
  by (simp add: sample_stream_def stream_body_def body_lines_def)

lemma numbered_events:
  assumes "length es = length cs" "distinct cs" "\<forall>c \<in> set cs. \<not> is_space c"
    "cj_event J = map_of (zip (map (\<lambda>c. [c]) cs) es)"
  shows "claude_events J (map (\<lambda>c. ''data: '' @ [c]) cs) = es"
proof -
  have line: "TrimSpace (TrimPrefix (''data: '' @ [c]) ''data:'') = [c]" if "\<not> is_space c" for c
    using that by (simp add: TrimPrefix_def HasPrefix_def TrimSpace_def is_space_def)
  have decoded: "claude_events J (map (\<lambda>c. ''data: '' @ [c]) ds) = map (\<lambda>c. the (cj_event J [c])) ds"
    if "\<forall>c \<in> set ds. \<not> is_space c \<and> cj_event J [c] \<noteq> None" for ds
    using that
  proof (induction ds)
    case (Cons d ds)
    then obtain e where "cj_event J [d] = Some e" "\<not> is_space d" by auto
    with Cons line [of d] show ?case by (simp add: claude_events_def map_filter_simps HasPrefix_def)
  qed (simp add: claude_events_def map_filter_simps)
  have at: "cj_event J [cs ! i] = Some (es ! i)" if "i < length cs" for i
  proof -
    have "distinct (map (\<lambda>c. [c]) cs)" using assms(2) by (simp add: distinct_map inj_on_def)
    with map_of_zip_nth [of "map (\<lambda>c. [c]) cs" es i] show ?thesis using that assms by simp
  qed
  then have "map (\<lambda>c. the (cj_event J [c])) cs = es" using assms(1) by (simp add: list_eq_iff_nth_eq)
  moreover have "\<forall>c \<in> set cs. cj_event J [c] \<noteq> None" using at by (auto simp: in_set_conv_nth)
  ultimately show ?thesis using decoded [of cs] assms(3) by blast
qed

lemma sample_events: "claude_events sample_json (body_lines (stream_body sample_stream)) = events_of sample_answer"
  unfolding sample_lines
proof (rule numbered_events)
  show "length (events_of sample_answer) = length ''abcdefghijk''" by (simp add: events_of_def sample_answer_def)
  show "cj_event sample_json = map_of (zip (map (\<lambda>c. [c]) ''abcdefghijk'') (events_of sample_answer))"
    by (simp only: sample_json_def claude_json.select_convs sample_event_def)
qed (simp_all add: is_space_def)


text \<open>An assistant's message that only calls tools (its content is null, as the interface has it) loses its calls.\<close>

theorem calls_without_text_lost:
  "ms_Content m = JNull \<Longrightarrow> claude_message J m = Some \<lparr>cm_Role = ms_Role m, cm_Content = []\<rparr>"
  by (simp add: claude_message_def IsStringContent_def ParseContent_def)

text \<open>A tool whose parameters are an object without a type makes the conversion panic.\<close>

theorem untyped_tool_panics:
  assumes "t \<in> set (Tools q)" "fn_Parameters (tl_Function t) = JObj ps" "field ''type'' ps = JNull"
  shows "claude_ConvertRequest J q = None"
proof -
  have "t \<in> set ts \<Longrightarrow> claude_tools ts = None" for ts
    by (induction ts) (use assms(2,3) in \<open>auto split: json.splits\<close>)
  then show ?thesis using assms(1) by (simp add: claude_ConvertRequest_def)
qed

end
