(* ===== verification/Gemini.thy ===== *)
theory Gemini
  imports OpenAI
begin

text \<open>
  The interface of Google's Gemini (\<^verbatim>\<open>relay/adaptor/gemini\<close>): requests, chunks, answers and embeddings. Decoding and
  encoding JSON and fetching an image are parameters; random identifiers are drawn from a sequence. A Go panic is
  \<open>None\<close>.
\<close>

section \<open>Data\<close>

record FunctionCall =
  fc_Name :: string
  fc_Arguments :: json

text \<open>A part: its text, an image (its type and its data) and a call of a function.\<close>

record Part =
  pt_Text :: string
  pt_InlineData :: "(string \<times> string) option"
  pt_FunctionCall :: "FunctionCall option"

record ChatContent =
  gc_Role :: string
  gc_Parts :: "Part list"

record ChatGenerationConfig =
  gg_ResponseMimeType :: string
  gg_ResponseSchema :: json
  gg_Temperature :: "f64 option"
  gg_TopP :: "f64 option"
  gg_MaxOutputTokens :: int

text \<open>The declarations of functions: those of the tools, or what the caller sent as \<open>functions\<close>.\<close>

datatype declarations = DeclaredTools "Function list" | DeclaredJson json

record ChatRequest =
  gr_Contents :: "ChatContent list"
  gr_SafetySettings :: "(string \<times> string) list"
  gr_GenerationConfig :: ChatGenerationConfig
  gr_Tools :: "declarations list"
  gr_SystemInstruction :: "ChatContent option"

record EmbeddingRequest =
  ge_Model :: string
  ge_Content :: ChatContent

record ChatCandidate =
  ca_Content :: ChatContent
  ca_FinishReason :: string
  ca_Index :: int

record ChatResponse =
  gs_Candidates :: "ChatCandidate list"

record GeminiEmbedding =
  gb_Embeddings :: "f64 list list"
  gb_Error :: "(int \<times> string) option"

record gemini_json =
  gj_chat :: "string \<Rightarrow> string + ChatResponse"
  gj_embedding :: "string \<Rightarrow> string + GeminiEmbedding"
  gj_marshal :: "json \<Rightarrow> string"
  gj_image :: "string \<Rightarrow> string \<times> string"
  gj_uuid :: "nat \<Rightarrow> string"

definition text_of :: "string \<Rightarrow> Part" where
  "text_of t = \<lparr>pt_Text = t, pt_InlineData = None, pt_FunctionCall = None\<rparr>"


section \<open>Requests\<close>

definition ModelsSupportSystemInstruction :: "string list" where
  "ModelsSupportSystemInstruction = [''gemini-2.0-flash'', ''gemini-2.0-flash-exp'', ''gemini-2.0-flash-thinking-exp-01-21'']"

definition IsModelSupportSystemInstruction :: "string \<Rightarrow> bool" where
  "IsModelSupportSystemInstruction model = list_ex (\<lambda>m. m = model) ModelsSupportSystemInstruction"

definition VisionMaxImageNum :: int where
  "VisionMaxImageNum = 16"

text \<open>The parts of a message; images after the sixteenth are skipped.\<close>

fun gemini_parts :: "gemini_json \<Rightarrow> int \<Rightarrow> MessageContent list \<Rightarrow> Part list" where
  "gemini_parts J imageNum [] = []"
| "gemini_parts J imageNum (part # ps) =
     (if mc_Type part = ''text'' then text_of (mc_Text part) # gemini_parts J imageNum ps
      else if mc_Type part = ''image_url'' then
        (if imageNum + 1 > VisionMaxImageNum then gemini_parts J (imageNum + 1) ps
         else (text_of '''')\<lparr>pt_InlineData := Some (gj_image J (case mc_ImageURL part of None \<Rightarrow> '''' | Some u \<Rightarrow> iu_Url u))\<rparr>
           # gemini_parts J (imageNum + 1) ps)
      else gemini_parts J imageNum ps)"

definition okay :: ChatContent where
  "okay = \<lparr>gc_Role = ''model'', gc_Parts = [text_of ''Okay'']\<rparr>"

text \<open>The loop over the messages: whether a dummy message is due, the system instruction, the contents.\<close>

fun gemini_messages ::
    "gemini_json \<Rightarrow> string \<Rightarrow> bool \<Rightarrow> ChatContent option \<Rightarrow> Message list \<Rightarrow> (ChatContent option \<times> ChatContent list) option" where
  "gemini_messages J model dummy sys [] = Some (sys, [])"
| "gemini_messages J model dummy sys (m # ms) =
     (case ParseContent m of
        None \<Rightarrow> None
      | Some openaiContent \<Rightarrow>
          (let parts = gemini_parts J 0 openaiContent;
               role = (if ms_Role m = ''assistant'' then ''model'' else ms_Role m);
               system = (role = ''system'');
               dummy = (dummy \<or> system)
           in if system \<and> IsModelSupportSystemInstruction model
              then gemini_messages J model dummy (Some \<lparr>gc_Role = '''', gc_Parts = parts\<rparr>) ms
              else (let content = \<lparr>gc_Role = (if system then ''user'' else role), gc_Parts = parts\<rparr>
                    in map_option (\<lambda>(s, cs). (s, content # (if dummy then [okay] else []) @ cs))
                         (gemini_messages J model False sys ms))))"

definition mimeTypeMap :: "(string \<times> string) list" where
  "mimeTypeMap = [(''json_object'', ''application/json''), (''text'', ''text/plain'')]"

definition gemini_generation :: "GeneralOpenAIRequest \<Rightarrow> ChatGenerationConfig" where
  "gemini_generation q =
     (let g = \<lparr>gg_ResponseMimeType = '''', gg_ResponseSchema = JNull, gg_Temperature = Temperature q, gg_TopP = TopP q,
            gg_MaxOutputTokens = MaxTokens q\<rparr>
      in case Response_Format q of
           None \<Rightarrow> g
         | Some f \<Rightarrow>
             (let g = (case map_of mimeTypeMap (rf_Type f) of None \<Rightarrow> g | Some t \<Rightarrow> g\<lparr>gg_ResponseMimeType := t\<rparr>)
              in case rf_JsonSchema f of
                   None \<Rightarrow> g
                 | Some s \<Rightarrow> g\<lparr>gg_ResponseSchema := (case s of JObj fs \<Rightarrow> field ''schema'' fs | _ \<Rightarrow> JNull),
                     gg_ResponseMimeType := ''application/json''\<rparr>))"

definition harm_categories :: "string list" where
  "harm_categories = [''HARM_CATEGORY_HARASSMENT'', ''HARM_CATEGORY_HATE_SPEECH'', ''HARM_CATEGORY_SEXUALLY_EXPLICIT'',
     ''HARM_CATEGORY_DANGEROUS_CONTENT'', ''HARM_CATEGORY_CIVIC_INTEGRITY'']"

text \<open>The argument \<open>given\<close>: the request has a list of tools, if an empty one (a slice that is not nil).\<close>

definition gemini_ConvertRequest :: "gemini_json \<Rightarrow> config \<Rightarrow> bool \<Rightarrow> GeneralOpenAIRequest \<Rightarrow> ChatRequest option" where
  "gemini_ConvertRequest J cfg given q =
     map_option (\<lambda>(sys, contents).
       \<lparr>gr_Contents = contents,
        gr_SafetySettings = map (\<lambda>c. (c, GeminiSafetySetting cfg)) harm_categories,
        gr_GenerationConfig = gemini_generation q,
        gr_Tools = (if given then [DeclaredTools (map tl_Function (Tools q))]
          else if Functions q \<noteq> JNull then [DeclaredJson (Functions q)] else []),
        gr_SystemInstruction = sys\<rparr>)
       (gemini_messages J (Model q) False None (Messages q))"

definition ConvertEmbeddingRequest :: "GeneralOpenAIRequest \<Rightarrow> EmbeddingRequest list" where
  "ConvertEmbeddingRequest q =
     map (\<lambda>input. \<lparr>ge_Model = ''models/'' @ Model q, ge_Content = \<lparr>gc_Role = '''', gc_Parts = [text_of input]\<rparr>\<rparr>) (ParseInput q)"


section \<open>Answers\<close>

definition GetResponseText :: "ChatResponse \<Rightarrow> string" where
  "GetResponseText g =
     (case gs_Candidates g of
        [] \<Rightarrow> ''''
      | c # cs \<Rightarrow> (case gc_Parts (ca_Content c) of [] \<Rightarrow> '''' | p # ps \<Rightarrow> pt_Text p))"

text \<open>Only a candidate with parts is asked for its calls.\<close>

definition getToolCalls :: "gemini_json \<Rightarrow> nat \<Rightarrow> ChatCandidate \<Rightarrow> Tool list" where
  "getToolCalls J n candidate =
     (case pt_FunctionCall (hd (gc_Parts (ca_Content candidate))) of
        None \<Rightarrow> []
      | Some f \<Rightarrow> [\<lparr>tl_Id = ''call_'' @ gj_uuid J n, tl_Type = ''function'',
          tl_Function = \<lparr>fn_Description = '''', fn_Name = fc_Name f, fn_Parameters = JNull,
            fn_Arguments = JStr (gj_marshal J (fc_Arguments f))\<rparr>\<rparr>])"

definition gemini_choice :: "gemini_json \<Rightarrow> nat \<Rightarrow> ChatCandidate \<Rightarrow> TextChoice" where
  "gemini_choice J i candidate =
     (let m = no_message\<lparr>ms_Role := ''assistant''\<rparr>
      in case gc_Parts (ca_Content candidate) of
           [] \<Rightarrow> \<lparr>tc_Index = int i, tc_Message = m\<lparr>ms_Content := JStr ''''\<rparr>, tc_FinishReason = ca_FinishReason candidate\<rparr>
         | p # ps \<Rightarrow>
             (if pt_FunctionCall p \<noteq> None
              then \<lparr>tc_Index = int i, tc_Message = m\<lparr>ms_ToolCalls := getToolCalls J (Suc i) candidate\<rparr>, tc_FinishReason = ''stop''\<rparr>
              else \<lparr>tc_Index = int i,
                tc_Message = m\<lparr>ms_Content := JStr (concat (map (\<lambda>part. (if i > 0 then [CHR 0x0A] else '''') @ pt_Text part)
                  (gc_Parts (ca_Content candidate))))\<rparr>, tc_FinishReason = ''stop''\<rparr>))"

definition responseGeminiChat2OpenAI :: "gemini_json \<Rightarrow> int \<Rightarrow> ChatResponse \<Rightarrow> TextResponse" where
  "responseGeminiChat2OpenAI J now r =
     \<lparr>tr_Id = ''chatcmpl-'' @ gj_uuid J 0, tr_Model = '''', tr_Object = ''chat.completion'', tr_Created = now,
      tr_Choices = map (\<lambda>(i, c). gemini_choice J i c) (enumerate 0 (gs_Candidates r)),
      tr_Usage = zero_usage\<rparr>"

definition streamResponseGeminiChat2OpenAI :: "gemini_json \<Rightarrow> nat \<Rightarrow> int \<Rightarrow> ChatResponse \<Rightarrow> ChatChunk" where
  "streamResponseGeminiChat2OpenAI J n now r =
     \<lparr>cc_Id = ''chatcmpl-'' @ gj_uuid J n, cc_Object = ''chat.completion.chunk'', cc_Created = now, cc_Model = ''gemini'',
      cc_Choices = [\<lparr>sc_Index = 0, sc_Delta = no_message\<lparr>ms_Content := JStr (GetResponseText r)\<rparr>, sc_FinishReason = None\<rparr>],
      cc_Usage = None\<rparr>"

definition embeddingResponseGemini2OpenAI :: "GeminiEmbedding \<Rightarrow> EmbeddingResponse" where
  "embeddingResponseGemini2OpenAI r =
     \<lparr>eb_Object = ''list'',
      eb_Data = map (\<lambda>v. \<lparr>ei_Object = ''embedding'', ei_Index = 0, ei_Embedding = v\<rparr>) (gb_Embeddings r),
      eb_Model = ''gemini-embedding'',
      eb_Usage = zero_usage\<rparr>"


section \<open>Handlers\<close>

text \<open>A line of a stream: the text so far and the chunks written.\<close>

definition gemini_line :: "gemini_json \<Rightarrow> int \<Rightarrow> string \<Rightarrow> string \<times> ChatChunk list \<Rightarrow> string \<times> ChatChunk list" where
  "gemini_line J now line st =
     (let data = TrimSpace line
      in if \<not> HasPrefix data ''data: '' then st
         else (case gj_chat J (TrimSuffix (TrimPrefix data ''data: '') [CHR 0x22]) of
             Inl e \<Rightarrow> st
           | Inr r \<Rightarrow>
               (let response = streamResponseGeminiChat2OpenAI J (length (snd st)) now r
                in (fst st @ AsString (ms_Content (sc_Delta (hd (cc_Choices response)))), snd st @ [response]))))"

definition gemini_StreamHandler :: "gemini_json \<Rightarrow> int \<Rightarrow> response \<Rightarrow> ChatChunk list \<times> (status_error + string)" where
  "gemini_StreamHandler J now resp =
     (let st = fold (gemini_line J now) (map drop_cr (body_lines (stream_body resp))) ('''', [])
      in (snd st,
          case rp_Close resp of
            Some e \<Rightarrow> Inl (ErrorWrapper e ''close_response_body_failed'' 500)
          | None \<Rightarrow> Inr (fst st)))"

definition gemini_Handler :: "env \<Rightarrow> gemini_json \<Rightarrow> int \<Rightarrow> response \<Rightarrow> int \<Rightarrow> string \<Rightarrow> status_error + TextResponse \<times> Usage" where
  "gemini_Handler E J now resp promptTokens modelName =
     (case read_all resp of
        Inl e \<Rightarrow> Inl e
      | Inr body \<Rightarrow>
          (case gj_chat J body of
             Inl e \<Rightarrow> Inl (ErrorWrapper e ''unmarshal_response_body_failed'' 500)
           | Inr r \<Rightarrow>
               (if gs_Candidates r = [] then
                  Inl \<lparr>se_Error = \<lparr>er_Message = ''No candidates returned'', er_Type = ''server_error'', er_Param = '''',
                         er_Code = JNum 500\<rparr>, se_StatusCode = rp_StatusCode resp\<rparr>
                else (let usage = ResponseText2Usage E (GetResponseText r) modelName promptTokens
                      in Inr ((responseGeminiChat2OpenAI J now r)\<lparr>tr_Model := modelName, tr_Usage := usage\<rparr>, usage)))))"

definition gemini_EmbeddingHandler :: "gemini_json \<Rightarrow> response \<Rightarrow> status_error + EmbeddingResponse \<times> Usage" where
  "gemini_EmbeddingHandler J resp =
     (case read_all resp of
        Inl e \<Rightarrow> Inl e
      | Inr body \<Rightarrow>
          (case gj_embedding J body of
             Inl e \<Rightarrow> Inl (ErrorWrapper e ''unmarshal_response_body_failed'' 500)
           | Inr r \<Rightarrow>
               (case gb_Error r of
                  Some (code, msg) \<Rightarrow>
                    Inl \<lparr>se_Error = \<lparr>er_Message = msg, er_Type = ''gemini_error'', er_Param = '''',
                           er_Code = JNum (of_int code)\<rparr>, se_StatusCode = rp_StatusCode resp\<rparr>
                | None \<Rightarrow> (let f = embeddingResponseGemini2OpenAI r in Inr (f, eb_Usage f)))))"


section \<open>The adaptor\<close>

definition gemini_GetRequestURL :: "config \<Rightarrow> Meta \<Rightarrow> string + string" where
  "gemini_GetRequestURL cfg m =
     (let defaultVersion = (if Contains (m_ActualModelName m) ''gemini-2.0'' \<or> Contains (m_ActualModelName m) ''gemini-1.5''
            then ''v1beta'' else GeminiVersion cfg);
          version = (if APIVersion (m_Config m) \<noteq> '''' then APIVersion (m_Config m) else defaultVersion);
          action = (if m_Mode m = mode_Embeddings then ''batchEmbedContents'' else ''generateContent'');
          action = (if m_IsStream m then ''streamGenerateContent?alt=sse'' else action)
      in Inr (m_BaseURL m @ ''/'' @ version @ ''/models/'' @ m_ActualModelName m @ '':'' @ action))"

definition gemini_SetupRequestHeader :: "(string \<Rightarrow> string) \<Rightarrow> Meta \<Rightarrow> headers \<Rightarrow> headers" where
  "gemini_SetupRequestHeader from m h = (SetupCommonRequestHeader from m h)(''x-goog-api-key'' \<mapsto> m_APIKey m)"

definition gemini_DoResponse :: "env \<Rightarrow> gemini_json \<Rightarrow> int \<Rightarrow> Meta \<Rightarrow> response \<Rightarrow> status_error + Usage option" where
  "gemini_DoResponse E J now m resp =
     (if m_IsStream m then
        (case snd (gemini_StreamHandler J now resp) of
           Inl e \<Rightarrow> Inl e
         | Inr t \<Rightarrow> Inr (Some (ResponseText2Usage E t (m_ActualModelName m) (m_PromptTokens m))))
      else if m_Mode m = mode_Embeddings then
        (case gemini_EmbeddingHandler J resp of Inl e \<Rightarrow> Inl e | Inr (r, u) \<Rightarrow> Inr (Some u))
      else
        (case gemini_Handler E J now resp (m_PromptTokens m) (m_ActualModelName m) of
           Inl e \<Rightarrow> Inl e
         | Inr (r, u) \<Rightarrow> Inr (Some u)))"

section \<open>Properties\<close>

text \<open>Texts survive the conversion: a message of strings becomes one text part, in its place.\<close>

lemma gemini_string_parts:
  "ms_Content m = JStr t \<Longrightarrow> map_option (gemini_parts J 0) (ParseContent m) = Some [text_of t]"
  by (simp add: ParseContent_def)

text \<open>The message as Gemini gets it when it carries no instruction for the system.\<close>

definition turn :: "Message \<Rightarrow> ChatContent" where
  "turn m = \<lparr>gc_Role = (if ms_Role m = ''assistant'' then ''model'' else ms_Role m), gc_Parts = [text_of (StringContent m)]\<rparr>"

lemma gemini_turns:
  assumes "\<forall>m \<in> set ms. IsStringContent m \<and> ms_Role m \<noteq> ''system''"
  shows "gemini_messages J model False sys ms = Some (sys, map turn ms)"
  using assms
  by (induction ms)
    (auto simp: IsStringContent_def ParseContent_def turn_def StringContent_def Let_def split: json.splits)

text \<open>With a system prompt in front, the dummy answer goes behind the caller's own first turn if the model supports system
  instructions, and behind the prompt otherwise. For a conversation of one turn this ends it with a message of the model.\<close>

theorem dummy_behind_user:
  assumes "IsModelSupportSystemInstruction (Model q)" "Messages q = p # m # ms" "ms_Role p = ''system''"
    and "\<forall>x \<in> set (p # m # ms). IsStringContent x" "\<forall>x \<in> set (m # ms). ms_Role x \<noteq> ''system''"
  shows "\<exists>r. gemini_ConvertRequest J cfg given q = Some r \<and> gr_Contents r = turn m # okay # map turn ms
    \<and> gr_SystemInstruction r = Some \<lparr>gc_Role = '''', gc_Parts = [text_of (StringContent p)]\<rparr>"
proof -
  have str: "ParseContent x = Some [\<lparr>mc_Type = ''text'', mc_Text = StringContent x, mc_ImageURL = None\<rparr>]" if "IsStringContent x" for x
    using that by (simp add: IsStringContent_def ParseContent_def StringContent_def split: json.splits)
  have "gemini_messages J (Model q) True sys (m # ms) = Some (sys, turn m # okay # map turn ms)" for sys
    using gemini_turns [of ms J "Model q" sys] assms(4,5) str [of m] by (simp add: turn_def Let_def)
  then have "gemini_messages J (Model q) False None (Messages q) =
      Some (Some \<lparr>gc_Role = '''', gc_Parts = [text_of (StringContent p)]\<rparr>, turn m # okay # map turn ms)"
    using assms(1-4) str [of p] by (simp add: Let_def)
  then show ?thesis by (simp add: gemini_ConvertRequest_def)
qed

lemma GetResponseText_first:
  "gs_Candidates g = c # cs \<Longrightarrow> gc_Parts (ca_Content c) = p # ps \<Longrightarrow> GetResponseText g = pt_Text p"
  by (simp add: GetResponseText_def)

text \<open>Embeddings carry no usage.\<close>

lemma gemini_embeddings_usage:
  "\<not> m_IsStream m \<Longrightarrow> m_Mode m = mode_Embeddings \<Longrightarrow> gemini_DoResponse E J now m resp = Inr (Some u) \<Longrightarrow>
   u = zero_usage"
  by (auto simp: gemini_DoResponse_def gemini_EmbeddingHandler_def embeddingResponseGemini2OpenAI_def Let_def
      split: sum.splits option.splits)

end
