(* ===== verification/Ollama.thy ===== *)
theory Ollama
  imports OpenAI
begin

text \<open>
  The interface of Ollama (\<^verbatim>\<open>relay/adaptor/ollama\<close>). Decoding JSON and fetching an image are parameters, random
  identifiers are drawn from a sequence, and a Go panic is \<open>None\<close>. The scanner sees the whole body at once.
\<close>

section \<open>Data\<close>

record OllamaOptions =
  oo_Seed :: int
  oo_Temperature :: "f64 option"
  oo_TopK :: int
  oo_TopP :: "f64 option"
  oo_FrequencyPenalty :: "f64 option"
  oo_PresencePenalty :: "f64 option"
  oo_NumPredict :: int
  oo_NumCtx :: int

record OllamaMessage =
  om_Role :: string
  om_Content :: string
  om_Images :: "string list"

record OllamaRequest =
  or_Model :: string
  or_Messages :: "OllamaMessage list"
  or_Stream :: bool
  or_Options :: OllamaOptions

record OllamaResponse =
  os_Model :: string
  os_Message :: OllamaMessage
  os_Done :: bool
  os_PromptEvalCount :: int
  os_EvalCount :: int
  os_Error :: string

record OllamaEmbeddingRequest =
  oq_Model :: string
  oq_Input :: "string list"
  oq_Options :: OllamaOptions

record OllamaEmbedding =
  ob_Error :: string
  ob_Model :: string
  ob_Embeddings :: "f64 list list"

record ollama_json =
  lj_chat :: "string \<Rightarrow> string + OllamaResponse"
  lj_embedding :: "string \<Rightarrow> string + OllamaEmbedding"
  lj_image :: "string \<Rightarrow> string \<times> string"
  lj_uuid :: "nat \<Rightarrow> string"


section \<open>Requests\<close>

text \<open>The last text of a message and its images.\<close>

definition ollama_message :: "ollama_json \<Rightarrow> Message \<Rightarrow> OllamaMessage option" where
  "ollama_message J m =
     map_option (\<lambda>parts.
       \<lparr>om_Role = ms_Role m,
        om_Content = fold (\<lambda>p t. if mc_Type p = ''text'' then mc_Text p else t) parts '''',
        om_Images = map (\<lambda>p. snd (lj_image J (case mc_ImageURL p of None \<Rightarrow> '''' | Some u \<Rightarrow> iu_Url u)))
          (filter (\<lambda>p. mc_Type p = ''image_url'') parts)\<rparr>)
       (ParseContent m)"

fun ollama_messages :: "ollama_json \<Rightarrow> Message list \<Rightarrow> OllamaMessage list option" where
  "ollama_messages J [] = Some []"
| "ollama_messages J (m # ms) =
     (case ollama_message J m of
        None \<Rightarrow> None
      | Some x \<Rightarrow> map_option (Cons x) (ollama_messages J ms))"

definition ollama_options :: "GeneralOpenAIRequest \<Rightarrow> OllamaOptions" where
  "ollama_options q =
     \<lparr>oo_Seed = int64_of_f64 (Seed q), oo_Temperature = Temperature q, oo_TopK = 0, oo_TopP = TopP q,
      oo_FrequencyPenalty = FrequencyPenalty q, oo_PresencePenalty = PresencePenalty q, oo_NumPredict = 0, oo_NumCtx = 0\<rparr>"

definition ollama_ConvertRequest :: "ollama_json \<Rightarrow> GeneralOpenAIRequest \<Rightarrow> OllamaRequest option" where
  "ollama_ConvertRequest J q =
     map_option (\<lambda>ms.
       \<lparr>or_Model = Model q, or_Messages = ms, or_Stream = Stream q,
        or_Options = (ollama_options q)\<lparr>oo_NumPredict := MaxTokens q, oo_NumCtx := NumCtx q\<rparr>\<rparr>)
       (ollama_messages J (Messages q))"

definition ollama_ConvertEmbeddingRequest :: "GeneralOpenAIRequest \<Rightarrow> OllamaEmbeddingRequest" where
  "ollama_ConvertEmbeddingRequest q = \<lparr>oq_Model = Model q, oq_Input = ParseInput q, oq_Options = ollama_options q\<rparr>"


section \<open>Answers\<close>

definition ollama_usage :: "OllamaResponse \<Rightarrow> Usage" where
  "ollama_usage r = \<lparr>PromptTokens = os_PromptEvalCount r, CompletionTokens = os_EvalCount r,
     TotalTokens = wrap64 (os_PromptEvalCount r + os_EvalCount r)\<rparr>"

definition responseOllama2OpenAI :: "ollama_json \<Rightarrow> int \<Rightarrow> OllamaResponse \<Rightarrow> TextResponse" where
  "responseOllama2OpenAI J now r =
     \<lparr>tr_Id = ''chatcmpl-'' @ lj_uuid J 0, tr_Model = os_Model r, tr_Object = ''chat.completion'', tr_Created = now,
      tr_Choices = [\<lparr>tc_Index = 0,
        tc_Message = no_message\<lparr>ms_Role := om_Role (os_Message r), ms_Content := JStr (om_Content (os_Message r))\<rparr>,
        tc_FinishReason = (if os_Done r then ''stop'' else '''')\<rparr>],
      tr_Usage = ollama_usage r\<rparr>"

definition streamResponseOllama2OpenAI :: "ollama_json \<Rightarrow> nat \<Rightarrow> int \<Rightarrow> OllamaResponse \<Rightarrow> ChatChunk" where
  "streamResponseOllama2OpenAI J n now r =
     \<lparr>cc_Id = ''chatcmpl-'' @ lj_uuid J n, cc_Object = ''chat.completion.chunk'', cc_Created = now, cc_Model = os_Model r,
      cc_Choices = [\<lparr>sc_Index = 0,
        sc_Delta = no_message\<lparr>ms_Role := om_Role (os_Message r), ms_Content := JStr (om_Content (os_Message r))\<rparr>,
        sc_FinishReason = (if os_Done r then Some ''stop'' else None)\<rparr>],
      cc_Usage = None\<rparr>"

definition embeddingResponseOllama2OpenAI :: "OllamaEmbedding \<Rightarrow> EmbeddingResponse" where
  "embeddingResponseOllama2OpenAI r =
     \<lparr>eb_Object = ''list'',
      eb_Data = map (\<lambda>(i, v). \<lparr>ei_Object = ''embedding'', ei_Index = int i, ei_Embedding = v\<rparr>) (enumerate 0 (ob_Embeddings r)),
      eb_Model = ob_Model r, eb_Usage = zero_usage\<rparr>"


section \<open>Handlers\<close>

text \<open>The pieces of a body that end with a closing brace and a line feed; the first argument is the piece so far,
  reversed.\<close>

fun brace_parts :: "string \<Rightarrow> string \<Rightarrow> string list" where
  "brace_parts acc [] = (if acc = [] then [] else [rev acc])"
| "brace_parts acc [c] = [rev (c # acc)]"
| "brace_parts acc (c # d # s) =
     (if c = CHR ''}'' \<and> d = CHR 0x0A then rev (c # acc) # brace_parts [] s else brace_parts (c # acc) (d # s))"

definition ollama_parts :: "string \<Rightarrow> string list" where
  "ollama_parts s = takeWhile (\<lambda>t. length t < 65536) (brace_parts [] s)"

text \<open>A piece: the usage so far and the chunks written.\<close>

definition ollama_piece :: "ollama_json \<Rightarrow> int \<Rightarrow> string \<Rightarrow> Usage \<times> ChatChunk list \<Rightarrow> Usage \<times> ChatChunk list" where
  "ollama_piece J now data st =
     (let data = (if HasPrefix data ''}'' then TrimPrefix data ''}'' @ ''}'' else data)
      in case lj_chat J data of
           Inl e \<Rightarrow> st
         | Inr r \<Rightarrow>
             (if os_EvalCount r \<noteq> 0 then ollama_usage r else fst st,
              snd st @ [streamResponseOllama2OpenAI J (length (snd st)) now r]))"

definition ollama_StreamHandler :: "ollama_json \<Rightarrow> int \<Rightarrow> response \<Rightarrow> ChatChunk list \<times> (status_error + Usage)" where
  "ollama_StreamHandler J now resp =
     (let st = fold (ollama_piece J now) (ollama_parts (stream_body resp)) (zero_usage, [])
      in (snd st, close_stream resp (fst st)))"

definition ollama_error :: "string \<Rightarrow> response \<Rightarrow> status_error" where
  "ollama_error e resp = service_error e ''ollama_error'' '''' (JStr ''ollama_error'') resp"

definition ollama_Handler :: "ollama_json \<Rightarrow> int \<Rightarrow> response \<Rightarrow> status_error + TextResponse \<times> Usage" where
  "ollama_Handler J now resp =
     (case read_json (lj_chat J) resp of
        Inl e \<Rightarrow> Inl e
      | Inr r \<Rightarrow>
          (if os_Error r \<noteq> '''' then Inl (ollama_error (os_Error r) resp)
           else (let f = responseOllama2OpenAI J now r in Inr (f, tr_Usage f))))"

definition ollama_EmbeddingHandler :: "ollama_json \<Rightarrow> response \<Rightarrow> status_error + EmbeddingResponse \<times> Usage" where
  "ollama_EmbeddingHandler J resp =
     (case decode_body (lj_embedding J) resp of
        Inl e \<Rightarrow> Inl e
      | Inr r \<Rightarrow>
          (if ob_Error r \<noteq> '''' then Inl (ollama_error (ob_Error r) resp)
           else (let f = embeddingResponseOllama2OpenAI r in Inr (f, eb_Usage f))))"


section \<open>The adaptor\<close>

definition ollama_GetRequestURL :: "Meta \<Rightarrow> string + string" where
  "ollama_GetRequestURL m =
     Inr (if m_Mode m = mode_Embeddings then m_BaseURL m @ ''/api/embed'' else m_BaseURL m @ ''/api/chat'')"

definition ollama_SetupRequestHeader :: "(string \<Rightarrow> string) \<Rightarrow> Meta \<Rightarrow> headers \<Rightarrow> headers" where
  "ollama_SetupRequestHeader from m h = (SetupCommonRequestHeader from m h)(''Authorization'' \<mapsto> ''Bearer '' @ m_APIKey m)"

definition ollama_DoResponse :: "ollama_json \<Rightarrow> int \<Rightarrow> Meta \<Rightarrow> response \<Rightarrow> status_error + Usage option" where
  "ollama_DoResponse J now m resp =
     (if m_IsStream m then map_sum id Some (snd (ollama_StreamHandler J now resp))
      else if m_Mode m = mode_Embeddings then map_sum id (\<lambda>(f, u). Some u) (ollama_EmbeddingHandler J resp)
      else map_sum id (\<lambda>(f, u). Some u) (ollama_Handler J now resp))"


section \<open>Properties\<close>

text \<open>A message of several texts keeps its last one only.\<close>

theorem ollama_last_text:
  "ParseContent m = Some (ps @ [\<lparr>mc_Type = ''text'', mc_Text = t, mc_ImageURL = None\<rparr>]) \<Longrightarrow>
   map_option om_Content (ollama_message J m) = Some t"
  by (simp add: ollama_message_def)

lemma ollama_embeddings_usage:
  "\<not> m_IsStream m \<Longrightarrow> m_Mode m = mode_Embeddings \<Longrightarrow> ollama_DoResponse J now m resp = Inr (Some u) \<Longrightarrow> u = zero_usage"
  by (auto simp: ollama_DoResponse_def ollama_EmbeddingHandler_def embeddingResponseOllama2OpenAI_def Let_def
      split: sum.splits if_splits)

end
