(* ===== verification/Cohere.thy ===== *)
theory Cohere
  imports OpenAI
begin

text \<open>
  The interface of Cohere (\<^verbatim>\<open>relay/adaptor/cohere\<close>). Decoding JSON is a parameter; a Go panic is \<open>None\<close>, or the mark
  of a stream that broke off.
\<close>

section \<open>Data\<close>

record CohereMessage =
  hm_Role :: string
  hm_Message :: string

record CohereRequest =
  hq_Message :: string
  hq_Model :: string
  hq_Stream :: bool
  hq_ChatHistory :: "CohereMessage list"
  hq_Connectors :: "string list"
  hq_Temperature :: "f64 option"
  hq_MaxTokens :: int
  hq_K :: int
  hq_P :: "f64 option"
  hq_Seed :: int
  hq_FrequencyPenalty :: "f64 option"
  hq_PresencePenalty :: "f64 option"

text \<open>The tokens of a response are those read and those written.\<close>

record CohereResponse =
  hr_ResponseID :: string
  hr_Text :: string
  hr_FinishReason :: "string option"
  hr_Tokens :: "int \<times> int"
  hr_Message :: string

record CohereEvent =
  he_EventType :: string
  he_Text :: string
  he_Response :: "CohereResponse option"

record cohere_json =
  hj_event :: "string \<Rightarrow> CohereEvent option"
  hj_response :: "string \<Rightarrow> string + CohereResponse"


section \<open>Requests\<close>

definition stopReasonCohere2OpenAI :: "string option \<Rightarrow> string" where
  "stopReasonCohere2OpenAI reason =
     (case reason of None \<Rightarrow> '''' | Some r \<Rightarrow> (if r = ''COMPLETE'' then ''stop'' else r))"

text \<open>The loop over the messages: the question and the history so far. A content that is no string panics.\<close>

fun cohere_messages :: "string \<Rightarrow> CohereMessage list \<Rightarrow> Message list \<Rightarrow> (string \<times> CohereMessage list) option" where
  "cohere_messages question history [] = Some (question, history)"
| "cohere_messages question history (m # ms) =
     (case ms_Content m of
        JStr t \<Rightarrow>
          (if ms_Role m = ''user'' then cohere_messages t history ms
           else (let role = (if ms_Role m = ''assistant'' then ''CHATBOT''
                   else if ms_Role m = ''system'' then ''SYSTEM'' else ''USER'')
                 in cohere_messages question (history @ [\<lparr>hm_Role = role, hm_Message = t\<rparr>]) ms))
      | _ \<Rightarrow> None)"

definition cohere_ConvertRequest :: "GeneralOpenAIRequest \<Rightarrow> CohereRequest option" where
  "cohere_ConvertRequest q =
     (let model = (if Model q = '''' then ''command-r'' else Model q);
          internet = HasSuffix model ''-internet''
      in map_option (\<lambda>(question, history).
           \<lparr>hq_Message = question, hq_Model = (if internet then TrimSuffix model ''-internet'' else model), hq_Stream = Stream q,
            hq_ChatHistory = history, hq_Connectors = (if internet then [''web-search''] else []),
            hq_Temperature = Temperature q, hq_MaxTokens = MaxTokens q, hq_K = TopK q, hq_P = TopP q,
            hq_Seed = int64_of_f64 (Seed q), hq_FrequencyPenalty = FrequencyPenalty q,
            hq_PresencePenalty = PresencePenalty q\<rparr>)
           (cohere_messages '''' [] (Messages q)))"


section \<open>Answers\<close>

definition cohere_chunk :: "string \<Rightarrow> string \<Rightarrow> ChatChunk" where
  "cohere_chunk responseText finishReason =
     \<lparr>cc_Id = '''', cc_Object = ''chat.completion.chunk'', cc_Created = 0, cc_Model = '''',
      cc_Choices = [\<lparr>sc_Index = 0, sc_Delta = no_message\<lparr>ms_Role := ''assistant'', ms_Content := JStr responseText\<rparr>,
        sc_FinishReason = (if finishReason \<noteq> '''' then Some finishReason else None)\<rparr>],
      cc_Usage = None\<rparr>"

text \<open>The chunk and the tokens; an end without a response or a reason panics.\<close>

definition StreamResponseCohere2OpenAI :: "CohereEvent \<Rightarrow> (ChatChunk option \<times> (int \<times> int) option) option" where
  "StreamResponseCohere2OpenAI e =
     (if he_EventType e = ''stream-start'' then Some (None, None)
      else if he_EventType e = ''text-generation'' then Some (Some (cohere_chunk (he_Text e) ''''), None)
      else if he_EventType e = ''stream-end'' then
        (case he_Response e of
           None \<Rightarrow> None
         | Some r \<Rightarrow>
             (case hr_FinishReason r of
                None \<Rightarrow> None
              | Some f \<Rightarrow> Some (Some (cohere_chunk '''' f), Some (hr_Tokens r))))
      else Some (None, None))"

definition ResponseCohere2OpenAI :: "int \<Rightarrow> CohereResponse \<Rightarrow> TextResponse" where
  "ResponseCohere2OpenAI now r =
     \<lparr>tr_Id = ''chatcmpl-'' @ hr_ResponseID r, tr_Model = ''model'', tr_Object = ''chat.completion'', tr_Created = now,
      tr_Choices = [\<lparr>tc_Index = 0, tc_Message = no_message\<lparr>ms_Role := ''assistant'', ms_Content := JStr (hr_Text r)\<rparr>,
        tc_FinishReason = stopReasonCohere2OpenAI (hr_FinishReason r)\<rparr>],
      tr_Usage = zero_usage\<rparr>"


section \<open>Handlers\<close>

record cohere_stream =
  hs_usage :: Usage
  hs_out :: "ChatChunk list"
  hs_panic :: bool

definition cohere_line :: "cohere_json \<Rightarrow> string \<Rightarrow> int \<Rightarrow> string \<Rightarrow> cohere_stream \<Rightarrow> cohere_stream" where
  "cohere_line J original_model createdTime line st =
     (if hs_panic st then st
      else case hj_event J (TrimSuffix line [CHR 0x0D]) of
        None \<Rightarrow> st
      | Some e \<Rightarrow>
          (case StreamResponseCohere2OpenAI e of
             None \<Rightarrow> st\<lparr>hs_panic := True\<rparr>
           | Some (_, Some (inp, out)) \<Rightarrow>
               st\<lparr>hs_usage := (hs_usage st)\<lparr>PromptTokens := wrap64 (PromptTokens (hs_usage st) + inp),
                 CompletionTokens := wrap64 (CompletionTokens (hs_usage st) + out)\<rparr>\<rparr>
           | Some (None, None) \<Rightarrow> st
           | Some (Some c, None) \<Rightarrow>
               st\<lparr>hs_out := hs_out st @
                 [c\<lparr>cc_Id := ''chatcmpl-'' @ Itoa createdTime, cc_Model := original_model, cc_Created := createdTime\<rparr>]\<rparr>))"

definition cohere_StreamHandler ::
    "cohere_json \<Rightarrow> string \<Rightarrow> int \<Rightarrow> response \<Rightarrow> ChatChunk list \<times> (status_error + Usage) option" where
  "cohere_StreamHandler J original_model createdTime resp =
     (let st = fold (cohere_line J original_model createdTime) (map drop_cr (body_lines (stream_body resp)))
            \<lparr>hs_usage = zero_usage, hs_out = [], hs_panic = False\<rparr>
      in (hs_out st, if hs_panic st then None else Some (close_stream resp (hs_usage st))))"

definition cohere_Handler :: "cohere_json \<Rightarrow> int \<Rightarrow> response \<Rightarrow> string \<Rightarrow> status_error + TextResponse \<times> Usage" where
  "cohere_Handler J now resp modelName =
     (case read_json (hj_response J) resp of
        Inl e \<Rightarrow> Inl e
      | Inr r \<Rightarrow>
          (if hr_ResponseID r = '''' then
             Inl (service_error (hr_Message r) (hr_Message r) '''' (JNum (of_int (rp_StatusCode resp))) resp)
           else (let usage = \<lparr>PromptTokens = fst (hr_Tokens r), CompletionTokens = snd (hr_Tokens r),
                   TotalTokens = wrap64 (fst (hr_Tokens r) + snd (hr_Tokens r))\<rparr>
                 in Inr ((ResponseCohere2OpenAI now r)\<lparr>tr_Model := modelName, tr_Usage := usage\<rparr>, usage))))"


section \<open>The adaptor\<close>

definition cohere_GetRequestURL :: "Meta \<Rightarrow> string + string" where
  "cohere_GetRequestURL m = Inr (m_BaseURL m @ ''/v1/chat'')"

definition cohere_SetupRequestHeader :: "(string \<Rightarrow> string) \<Rightarrow> Meta \<Rightarrow> headers \<Rightarrow> headers" where
  "cohere_SetupRequestHeader from m h = (SetupCommonRequestHeader from m h)(''Authorization'' \<mapsto> ''Bearer '' @ m_APIKey m)"

definition cohere_DoResponse ::
    "cohere_json \<Rightarrow> string \<Rightarrow> int \<Rightarrow> Meta \<Rightarrow> response \<Rightarrow> (status_error + Usage option) option" where
  "cohere_DoResponse J original_model now m resp =
     (if m_IsStream m then map_option (map_sum id Some) (snd (cohere_StreamHandler J original_model now resp))
      else Some (map_sum id (\<lambda>(f, u). Some u) (cohere_Handler J now resp (m_ActualModelName m))))"


section \<open>Properties\<close>

text \<open>Of the caller's questions only the last one reaches the service: the earlier ones are in no history.\<close>

lemma cohere_history:
  assumes "\<forall>m \<in> set ms. IsStringContent m"
  shows "\<exists>question. cohere_messages q0 h ms = Some (question, h @ map (\<lambda>m.
      \<lparr>hm_Role = (if ms_Role m = ''assistant'' then ''CHATBOT'' else if ms_Role m = ''system'' then ''SYSTEM'' else ''USER''),
       hm_Message = StringContent m\<rparr>) (filter (\<lambda>m. ms_Role m \<noteq> ''user'') ms))
    \<and> question = (case filter (\<lambda>m. ms_Role m = ''user'') ms of [] \<Rightarrow> q0 | us \<Rightarrow> StringContent (last us))"
  using assms
proof (induction ms arbitrary: q0 h)
  case (Cons m ms)
  obtain t where t: "ms_Content m = JStr t" using Cons.prems by (auto simp: IsStringContent_def split: json.splits)
  then have "StringContent m = t" by (simp add: StringContent_def)
  with t Cons.IH [of t h] Cons.IH [of q0] Cons.prems show ?case
    by (auto simp: Let_def split: list.splits)
qed simp

theorem earlier_questions_lost:
  assumes "\<forall>m \<in> set (Messages q). IsStringContent m" "\<forall>m \<in> set (Messages q). ms_Role m = ''user''" "Messages q \<noteq> []"
  shows "\<exists>r. cohere_ConvertRequest q = Some r \<and> hq_Message r = StringContent (last (Messages q)) \<and> hq_ChatHistory r = []"
proof -
  have f: "filter (\<lambda>m. ms_Role m \<noteq> ''user'') (Messages q) = []" "filter (\<lambda>m. ms_Role m = ''user'') (Messages q) = Messages q"
    using assms(2) by (simp_all add: filter_empty_conv filter_id_conv)
  from cohere_history [OF assms(1), of "''''" "[]"] show ?thesis
    using assms(3) by (auto simp: f cohere_ConvertRequest_def Let_def split: list.splits)
qed

text \<open>The reason why an answer ended is never streamed: no chunk carries one.\<close>

definition without_reason :: "ChatChunk list \<Rightarrow> bool" where
  "without_reason cs \<longleftrightarrow> (\<forall>c \<in> set cs. \<forall>x \<in> set (cc_Choices c). sc_FinishReason x = None)"

lemma cohere_no_reason_line: "without_reason (hs_out st) \<Longrightarrow> without_reason (hs_out (cohere_line J om t l st))"
  by (auto simp: without_reason_def cohere_line_def StreamResponseCohere2OpenAI_def cohere_chunk_def
      split: option.splits prod.splits if_splits)

theorem cohere_reason_lost: "without_reason (fst (cohere_StreamHandler J om t resp))"
proof -
  have "without_reason (hs_out st) \<Longrightarrow> without_reason (hs_out (fold (cohere_line J om t) ls st))" for ls st
    by (induction ls arbitrary: st) (simp_all add: cohere_no_reason_line)
  from this [of "\<lparr>hs_usage = zero_usage, hs_out = [], hs_panic = False\<rparr>"] show ?thesis
    by (simp add: cohere_StreamHandler_def Let_def) (simp add: without_reason_def)
qed

end
