(* ===== verification/Zhipu.thy ===== *)
theory Zhipu
  imports OpenAI
begin

text \<open>
  The interface of Zhipu (\<^verbatim>\<open>relay/adaptor/zhipu\<close>): the third version, and the fourth which speaks OpenAI's interface.
  Decoding JSON and signing a token are parameters. The scanner sees the whole body at once.
\<close>

section \<open>Tokens\<close>

text \<open>The tokens kept per key, with the time each expires (\<open>zhipuTokens\<close>); times in seconds. A signature of the parts of a
  key (its identity, its secret, the time) may fail.\<close>

type_synonym zhipu_tokens = "string \<rightharpoonup> string \<times> int"

definition expSeconds :: int where
  "expSeconds = 24 * 3600"

definition zhipu_GetToken ::
    "(string \<Rightarrow> string \<Rightarrow> int \<Rightarrow> string option) \<Rightarrow> int \<Rightarrow> string \<Rightarrow> zhipu_tokens \<Rightarrow> string \<times> zhipu_tokens" where
  "zhipu_GetToken sign now apikey store =
     (case (case store apikey of None \<Rightarrow> None | Some (token, expires) \<Rightarrow> if now < expires then Some token else None) of
        Some token \<Rightarrow> (token, store)
      | None \<Rightarrow>
          (case Split (CHR ''.'') apikey of
             [ident, secret] \<Rightarrow>
               (case sign ident secret now of
                  None \<Rightarrow> ('''', store)
                | Some token \<Rightarrow> (token, store(apikey \<mapsto> (token, now + expSeconds))))
           | _ \<Rightarrow> ('''', store)))"


section \<open>Data\<close>

record ZhipuMessage =
  zm_Role :: string
  zm_Content :: string

record ZhipuRequest =
  zq_Prompt :: "ZhipuMessage list"
  zq_Temperature :: "f64 option"
  zq_TopP :: "f64 option"
  zq_Incremental :: bool

record ZhipuResponse =
  zr_Code :: int
  zr_Msg :: string
  zr_Success :: bool
  zr_TaskId :: string
  zr_Choices :: "ZhipuMessage list"
  zr_Usage :: Usage

record ZhipuEmbedding =
  ze_Model :: string
  ze_Embeddings :: "EmbeddingItem list"
  ze_Usage :: Usage

text \<open>The meta line of a stream: the identity of the request and the usage.\<close>

record zhipu_json =
  zj_response :: "string \<Rightarrow> string + ZhipuResponse"
  zj_meta :: "string \<Rightarrow> (string \<times> Usage) option"
  zj_embedding :: "string \<Rightarrow> string + ZhipuEmbedding"


section \<open>Requests\<close>

definition zhipu_v4 :: "string \<Rightarrow> bool" where
  "zhipu_v4 modelName = HasPrefix modelName ''glm-''"

definition Float64PtrMax :: "f64 option \<Rightarrow> f64 \<Rightarrow> f64 option" where
  "Float64PtrMax p maxValue = (case p of None \<Rightarrow> None | Some x \<Rightarrow> if x > maxValue then Some maxValue else p)"

definition Float64PtrMin :: "f64 option \<Rightarrow> f64 \<Rightarrow> f64 option" where
  "Float64PtrMin p minValue = (case p of None \<Rightarrow> None | Some x \<Rightarrow> if x < minValue then Some minValue else p)"

definition zhipu_messages :: "GeneralOpenAIRequest \<Rightarrow> ZhipuRequest" where
  "zhipu_messages q =
     \<lparr>zq_Prompt = map (\<lambda>m. \<lparr>zm_Role = ms_Role m, zm_Content = StringContent m\<rparr>) (Messages q),
      zq_Temperature = Temperature q, zq_TopP = TopP q, zq_Incremental = False\<rparr>"

text \<open>A converted request: an embedding, OpenAI's own for version four, or version three's.\<close>

datatype zhipu_body = ZhipuEmbed string string | ZhipuV4 GeneralOpenAIRequest | ZhipuV3 ZhipuRequest

definition zhipu_ConvertEmbeddingRequest :: "GeneralOpenAIRequest \<Rightarrow> string + zhipu_body" where
  "zhipu_ConvertEmbeddingRequest q =
     (case ParseInput q of
        [i] \<Rightarrow> Inr (ZhipuEmbed (Model q) i)
      | _ \<Rightarrow> Inl ''invalid input length, zhipu only support one input'')"

definition zhipu_ConvertRequest :: "int \<Rightarrow> GeneralOpenAIRequest \<Rightarrow> string + zhipu_body" where
  "zhipu_ConvertRequest relayMode q =
     (if relayMode = mode_Embeddings then zhipu_ConvertEmbeddingRequest q
      else (let q = q\<lparr>TopP := Float64PtrMin (Float64PtrMax (TopP q) 1) 0,
                Temperature := Float64PtrMin (Float64PtrMax (Temperature q) 1) 0\<rparr>
            in Inr (if zhipu_v4 (Model q) then ZhipuV4 q else ZhipuV3 (zhipu_messages q))))"

definition zhipu_ConvertImageRequest :: "ImageRequest \<Rightarrow> string \<times> string \<times> string" where
  "zhipu_ConvertImageRequest r = (im_Model r, im_Prompt r, im_User r)"


section \<open>Answers\<close>

text \<open>\<open>strings.Trim\<close> of quotes.\<close>

definition trim_quotes :: "string \<Rightarrow> string" where
  "trim_quotes s = rev (dropWhile (\<lambda>c. c = CHR 0x22) (rev (dropWhile (\<lambda>c. c = CHR 0x22) s)))"

definition responseZhipu2OpenAI :: "int \<Rightarrow> ZhipuResponse \<Rightarrow> TextResponse" where
  "responseZhipu2OpenAI now r =
     \<lparr>tr_Id = zr_TaskId r, tr_Model = '''', tr_Object = ''chat.completion'', tr_Created = now,
      tr_Choices = map (\<lambda>(i, c).
        \<lparr>tc_Index = int i, tc_Message = no_message\<lparr>ms_Role := zm_Role c, ms_Content := JStr (trim_quotes (zm_Content c))\<rparr>,
         tc_FinishReason = (if Suc i = length (zr_Choices r) then ''stop'' else '''')\<rparr>) (enumerate 0 (zr_Choices r)),
      tr_Usage = zr_Usage r\<rparr>"

definition zhipu_chunk :: "int \<Rightarrow> string \<Rightarrow> string option \<Rightarrow> string \<Rightarrow> ChatChunk" where
  "zhipu_chunk now text finish ident =
     \<lparr>cc_Id = ident, cc_Object = ''chat.completion.chunk'', cc_Created = now, cc_Model = ''chatglm'',
      cc_Choices = [\<lparr>sc_Index = 0, sc_Delta = no_message\<lparr>ms_Content := JStr text\<rparr>, sc_FinishReason = finish\<rparr>],
      cc_Usage = None\<rparr>"

definition streamResponseZhipu2OpenAI :: "int \<Rightarrow> string \<Rightarrow> ChatChunk" where
  "streamResponseZhipu2OpenAI now text = zhipu_chunk now text None ''''"

definition streamMetaResponseZhipu2OpenAI :: "int \<Rightarrow> string \<times> Usage \<Rightarrow> ChatChunk \<times> Usage" where
  "streamMetaResponseZhipu2OpenAI now r = (zhipu_chunk now '''' (Some ''stop'') (fst r), snd r)"

definition embeddingResponseZhipu2OpenAI :: "ZhipuEmbedding \<Rightarrow> EmbeddingResponse" where
  "embeddingResponseZhipu2OpenAI r =
     \<lparr>eb_Object = ''list'', eb_Data = map (\<lambda>e. e\<lparr>ei_Object := ''embedding''\<rparr>) (ze_Embeddings r), eb_Model = ze_Model r,
      eb_Usage = ze_Usage r\<rparr>"


section \<open>Handlers\<close>

text \<open>The pieces of a body up to an empty line, provided the rest has a colon at all, each with what the scanner needs to
  hold for it; the first argument is the piece so far, reversed.\<close>

fun event_blocks :: "string \<Rightarrow> string \<Rightarrow> (string \<times> nat) list" where
  "event_blocks acc [] = (if acc = [] then [] else [(rev acc, length acc + 1)])"
| "event_blocks acc [c] = [(rev (c # acc), length acc + 2)]"
| "event_blocks acc (c # d # s) =
     (if c = CHR 0x0A \<and> d = CHR 0x0A \<and> CHR '':'' \<in> set (acc @ s) then (rev acc, length acc + 2) # event_blocks [] s
      else event_blocks (c # acc) (d # s))"

definition zhipu_blocks :: "string \<Rightarrow> string list" where
  "zhipu_blocks s = map fst (takeWhile (\<lambda>(t, n). n \<le> 65536) (event_blocks [] s))"

text \<open>A line of a block, and whether it is the last one: the usage so far and the chunks written.\<close>

definition zhipu_line :: "zhipu_json \<Rightarrow> int \<Rightarrow> string \<times> bool \<Rightarrow> Usage option \<times> ChatChunk list \<Rightarrow> Usage option \<times> ChatChunk list" where
  "zhipu_line J now = (\<lambda>(line, is_last) st.
     (if length line < 5 then st
      else if HasPrefix line ''data:'' then
        (fst st, snd st @ [streamResponseZhipu2OpenAI now (drop 5 line @ (if is_last then [] else [CHR 0x0A]))])
      else if HasPrefix line ''meta:'' then
        (case zj_meta J (drop 5 line) of
           None \<Rightarrow> st
         | Some r \<Rightarrow> (let (response, usage) = streamMetaResponseZhipu2OpenAI now r in (Some usage, snd st @ [response])))
      else st))"

definition zhipu_block :: "zhipu_json \<Rightarrow> int \<Rightarrow> string \<Rightarrow> Usage option \<times> ChatChunk list \<Rightarrow> Usage option \<times> ChatChunk list" where
  "zhipu_block J now data =
     (let ls = Split (CHR 0x0A) data
      in fold (zhipu_line J now) (map (\<lambda>(i, l). (l, Suc i = length ls)) (enumerate 0 ls)))"

definition zhipu_StreamHandler :: "zhipu_json \<Rightarrow> int \<Rightarrow> response \<Rightarrow> ChatChunk list \<times> (status_error + Usage option)" where
  "zhipu_StreamHandler J now resp =
     (let st = fold (zhipu_block J now) (zhipu_blocks (stream_body resp)) (None, [])
      in (snd st, close_stream resp (fst st)))"

definition zhipu_Handler :: "zhipu_json \<Rightarrow> int \<Rightarrow> response \<Rightarrow> status_error + TextResponse \<times> Usage" where
  "zhipu_Handler J now resp =
     (case read_json (zj_response J) resp of
        Inl e \<Rightarrow> Inl e
      | Inr r \<Rightarrow>
          (if \<not> zr_Success r then
             Inl (service_error (zr_Msg r) ''zhipu_error'' '''' (JNum (of_int (zr_Code r))) resp)
           else (let f = (responseZhipu2OpenAI now r)\<lparr>tr_Model := ''chatglm''\<rparr> in Inr (f, tr_Usage f))))"

definition zhipu_EmbeddingsHandler :: "zhipu_json \<Rightarrow> response \<Rightarrow> status_error + EmbeddingResponse \<times> Usage" where
  "zhipu_EmbeddingsHandler J resp =
     (case read_json (zj_embedding J) resp of
        Inl e \<Rightarrow> Inl e
      | Inr r \<Rightarrow> (let f = embeddingResponseZhipu2OpenAI r in Inr (f, eb_Usage f)))"


section \<open>The adaptor\<close>

definition zhipu_GetRequestURL :: "Meta \<Rightarrow> string + string" where
  "zhipu_GetRequestURL m =
     (if m_Mode m = mode_ImagesGenerations then Inr (m_BaseURL m @ ''/api/paas/v4/images/generations'')
      else if m_Mode m = mode_Embeddings then Inr (m_BaseURL m @ ''/api/paas/v4/embeddings'')
      else if zhipu_v4 (m_ActualModelName m) then Inr (m_BaseURL m @ ''/api/paas/v4/chat/completions'')
      else Inr (m_BaseURL m @ ''/api/paas/v3/model-api/'' @ m_ActualModelName m @ ''/'' @
        (if m_IsStream m then ''sse-invoke'' else ''invoke'')))"

definition zhipu_SetupRequestHeader :: "(string \<Rightarrow> string) \<Rightarrow> string \<Rightarrow> Meta \<Rightarrow> headers \<Rightarrow> headers" where
  "zhipu_SetupRequestHeader from token m h = (SetupCommonRequestHeader from m h)(''Authorization'' \<mapsto> token)"

text \<open>OpenAI's stream handler reports no usage when the stream did not; its text is not counted here.\<close>

definition zhipu_DoResponseV4 :: "env \<Rightarrow> openai_json \<Rightarrow> Meta \<Rightarrow> response \<Rightarrow> status_error + Usage option" where
  "zhipu_DoResponseV4 E J m resp =
     (if m_IsStream m then map_sum id snd (snd (StreamHandler J (m_Mode m) resp))
      else map_sum id Some (snd (Handler E J resp (m_PromptTokens m) (m_ActualModelName m))))"

text \<open>The version is the one set when the address was chosen.\<close>

definition zhipu_DoResponse :: "env \<Rightarrow> openai_json \<Rightarrow> zhipu_json \<Rightarrow> int \<Rightarrow> Meta \<Rightarrow> response \<Rightarrow> status_error + Usage option" where
  "zhipu_DoResponse E OJ J now m resp =
     (if m_Mode m = mode_Embeddings then map_sum id (\<lambda>(f, u). Some u) (zhipu_EmbeddingsHandler J resp)
      else if m_Mode m = mode_ImagesGenerations then
        (case snd (ImageHandler E OJ resp) of Some e \<Rightarrow> Inl e | None \<Rightarrow> Inr None)
      else if zhipu_v4 (m_ActualModelName m) then zhipu_DoResponseV4 E OJ m resp
      else if m_IsStream m then snd (zhipu_StreamHandler J now resp)
      else map_sum id (\<lambda>(f, u). Some u) (zhipu_Handler J now resp))"


section \<open>Properties\<close>

text \<open>A kept token is used until it expires; a new one is signed for a day.\<close>

lemma zhipu_token_fresh:
  assumes "zhipu_GetToken sign now k store = (t, store')" "t \<noteq> ''''"
    and "\<forall>k t e. store k = Some (t, e) \<longrightarrow> e \<le> now + expSeconds"
  shows "\<exists>e. store' k = Some (t, e) \<and> now < e \<and> e \<le> now + expSeconds"
  using assms
  by (auto simp: zhipu_GetToken_def expSeconds_def split: option.splits if_splits list.splits)

end
