(* ===== verification/Ali.thy ===== *)
theory Ali
  imports Zhipu
begin

text \<open>
  The interface of Ali (\<^verbatim>\<open>relay/adaptor/ali\<close>): texts, embeddings and images, which are made by a task that is asked
  for until it is done. Decoding JSON, asking for a task and fetching an image are parameters.
\<close>

section \<open>Data\<close>

record AliRequest =
  aq_Model :: string
  aq_Messages :: "(string \<times> string) list"
  aq_EnableSearch :: bool
  aq_IncrementalOutput :: bool
  aq_Seed :: int
  aq_MaxTokens :: int
  aq_Temperature :: "f64 option"
  aq_TopP :: "f64 option"
  aq_TopK :: int
  aq_ResultFormat :: string
  aq_Tools :: "Tool list"

record AliImageRequest =
  ai_Model :: string
  ai_Prompt :: string
  ai_Size :: string
  ai_N :: int
  ai_ResponseFormat :: string

record AliError =
  ae_Code :: string
  ae_Message :: string
  ae_RequestId :: string

text \<open>The usage: the tokens read, written and in total.\<close>

record AliResponse =
  ar_Choices :: "TextChoice list"
  ar_Usage :: "int \<times> int \<times> int"
  ar_Error :: AliError

record AliEmbedding =
  ab_Embeddings :: "(f64 list \<times> int) list"
  ab_Usage :: "int \<times> int \<times> int"
  ab_Error :: AliError

text \<open>A task; a result is its encoded image and its address.\<close>

record TaskResponse =
  ta_Message :: string
  ta_TaskId :: string
  ta_TaskStatus :: string
  ta_OutputCode :: string
  ta_OutputMessage :: string
  ta_Results :: "(string \<times> string) list"

text \<open>Asking for a task (its identity, the key) the n-th time: the error, or the decoded answer.\<close>

record ali_json =
  aj_response :: "string \<Rightarrow> string + AliResponse"
  aj_embedding :: "string \<Rightarrow> string + AliEmbedding"
  aj_task :: "string \<Rightarrow> string + TaskResponse"
  aj_poll :: "nat \<Rightarrow> string \<Rightarrow> string \<Rightarrow> string + TaskResponse"
  aj_image_data :: "string \<Rightarrow> string + string"
  aj_base64 :: "string \<Rightarrow> string"
  aj_seed :: "f64 \<Rightarrow> int"

record ImageData =
  id_Url :: string
  id_B64Json :: string
  id_RevisedPrompt :: string

record ImageResponse =
  ir_Created :: int
  ir_Data :: "ImageData list"


section \<open>Requests\<close>

definition ali_ConvertRequest :: "ali_json \<Rightarrow> GeneralOpenAIRequest \<Rightarrow> AliRequest" where
  "ali_ConvertRequest J q =
     (let enableSearch = HasSuffix (Model q) ''-internet''
      in \<lparr>aq_Model = (if enableSearch then TrimSuffix (Model q) ''-internet'' else Model q),
          aq_Messages = map (\<lambda>m. (StringContent m, ToLower (ms_Role m))) (Messages q),
          aq_EnableSearch = enableSearch, aq_IncrementalOutput = Stream q, aq_Seed = aj_seed J (Seed q),
          aq_MaxTokens = MaxTokens q, aq_Temperature = Temperature q,
          aq_TopP = Float64PtrMax (TopP q) (F64 (9999 / 10000)), aq_TopK = TopK q, aq_ResultFormat = ''message'',
          aq_Tools = Tools q\<rparr>)"

definition ali_ConvertEmbeddingRequest :: "GeneralOpenAIRequest \<Rightarrow> string \<times> string list" where
  "ali_ConvertEmbeddingRequest q = (Model q, ParseInput q)"

definition ali_ConvertImageRequest :: "ImageRequest \<Rightarrow> AliImageRequest" where
  "ali_ConvertImageRequest r =
     \<lparr>ai_Model = im_Model r, ai_Prompt = im_Prompt r,
      ai_Size = map (\<lambda>c. if c = CHR ''x'' then CHR ''*'' else c) (im_Size r), ai_N = im_N r,
      ai_ResponseFormat = im_ResponseFormat r\<rparr>"


section \<open>Answers\<close>

definition ali_usage :: "int \<times> int \<times> int \<Rightarrow> Usage" where
  "ali_usage u = (case u of (inp, out, all_tokens) \<Rightarrow>
     \<lparr>PromptTokens = inp, CompletionTokens = out, TotalTokens = wrap64 (inp + out)\<rparr>)"

definition embeddingResponseAli2OpenAI :: "AliEmbedding \<Rightarrow> EmbeddingResponse" where
  "embeddingResponseAli2OpenAI r =
     \<lparr>eb_Object = ''list'',
      eb_Data = map (\<lambda>(v, i). \<lparr>ei_Object = ''embedding'', ei_Index = i, ei_Embedding = v\<rparr>) (ab_Embeddings r),
      eb_Model = ''text-embedding-v1'',
      eb_Usage = zero_usage\<lparr>TotalTokens := snd (snd (ab_Usage r))\<rparr>\<rparr>"

definition responseAli2OpenAI :: "int \<Rightarrow> AliResponse \<Rightarrow> TextResponse" where
  "responseAli2OpenAI now r =
     \<lparr>tr_Id = ae_RequestId (ar_Error r), tr_Model = '''', tr_Object = ''chat.completion'', tr_Created = now,
      tr_Choices = ar_Choices r, tr_Usage = ali_usage (ar_Usage r)\<rparr>"

definition streamResponseAli2OpenAI :: "int \<Rightarrow> AliResponse \<Rightarrow> ChatChunk option" where
  "streamResponseAli2OpenAI now r =
     (case ar_Choices r of
        [] \<Rightarrow> None
      | c # cs \<Rightarrow>
          Some \<lparr>cc_Id = ae_RequestId (ar_Error r), cc_Object = ''chat.completion.chunk'', cc_Created = now, cc_Model = ''qwen'',
            cc_Choices = [\<lparr>sc_Index = 0, sc_Delta = tc_Message c,
              sc_FinishReason = (if tc_FinishReason c \<noteq> ''null'' then Some (tc_FinishReason c) else None)\<rparr>],
            cc_Usage = None\<rparr>)"


section \<open>Handlers\<close>

definition ali_error :: "AliError \<Rightarrow> response \<Rightarrow> status_error" where
  "ali_error e resp = service_error (ae_Message e) (ae_Code e) (ae_RequestId e) (JStr (ae_Code e)) resp"

definition ali_line :: "ali_json \<Rightarrow> int \<Rightarrow> string \<Rightarrow> Usage \<times> ChatChunk list \<Rightarrow> Usage \<times> ChatChunk list" where
  "ali_line J now data st =
     (if length data < 5 \<or> take 5 data \<noteq> ''data:'' then st
      else case aj_response J (drop 5 data) of
        Inl e \<Rightarrow> st
      | Inr r \<Rightarrow>
          (if fst (snd (ar_Usage r)) \<noteq> 0 then ali_usage (ar_Usage r) else fst st,
           snd st @ (case streamResponseAli2OpenAI now r of None \<Rightarrow> [] | Some c \<Rightarrow> [c])))"

definition ali_StreamHandler :: "ali_json \<Rightarrow> int \<Rightarrow> response \<Rightarrow> ChatChunk list \<times> (status_error + Usage)" where
  "ali_StreamHandler J now resp =
     (let st = fold (ali_line J now) (body_lines (stream_body resp)) (zero_usage, [])
      in (snd st, close_stream resp (fst st)))"

definition ali_Handler :: "ali_json \<Rightarrow> int \<Rightarrow> response \<Rightarrow> status_error + TextResponse \<times> Usage" where
  "ali_Handler J now resp =
     (case read_json (aj_response J) resp of
        Inl e \<Rightarrow> Inl e
      | Inr r \<Rightarrow>
          (if ae_Code (ar_Error r) \<noteq> '''' then Inl (ali_error (ar_Error r) resp)
           else (let f = (responseAli2OpenAI now r)\<lparr>tr_Model := ''qwen''\<rparr> in Inr (f, tr_Usage f))))"

definition ali_EmbeddingHandler :: "ali_json \<Rightarrow> string \<Rightarrow> response \<Rightarrow> status_error + EmbeddingResponse \<times> Usage" where
  "ali_EmbeddingHandler J requestModel resp =
     (case decode_body (aj_embedding J) resp of
        Inl e \<Rightarrow> Inl e
      | Inr r \<Rightarrow>
          (if ae_Code (ab_Error r) \<noteq> '''' then Inl (ali_error (ab_Error r) resp)
           else (let f = (embeddingResponseAli2OpenAI r)\<lparr>eb_Model := requestModel\<rparr> in Inr (f, eb_Usage f))))"


section \<open>Images\<close>

text \<open>The answer to one question is an error, the decoded task, or an empty task on an error.\<close>

definition maxStep :: nat where
  "maxStep = 20"

definition no_task :: TaskResponse where
  "no_task = \<lparr>ta_Message = '''', ta_TaskId = '''', ta_TaskStatus = '''', ta_OutputCode = '''', ta_OutputMessage = '''', ta_Results = []\<rparr>"

text \<open>The loop: its argument counts the questions asked before.\<close>

function wait_step :: "(nat \<Rightarrow> string + TaskResponse) \<Rightarrow> nat \<Rightarrow> string + TaskResponse" where
  "wait_step poll n =
     (let step = Suc n
      in case poll step of
           Inl e \<Rightarrow> Inl e
         | Inr rsp \<Rightarrow>
             (if ta_TaskStatus rsp = '''' then Inr no_task
              else if ta_TaskStatus rsp \<in> {''FAILED'', ''CANCELED'', ''SUCCEEDED'', ''UNKNOWN''} then Inr rsp
              else if step \<ge> maxStep then Inl ''aliAsyncTaskWait timeout''
              else wait_step poll step))"
  by pat_completeness auto

termination
  by (relation "measure (\<lambda>(poll, n). maxStep - n)") (auto simp: Let_def)

declare wait_step.simps [simp del]

definition asyncTaskWait :: "ali_json \<Rightarrow> string \<Rightarrow> string \<Rightarrow> string + TaskResponse" where
  "asyncTaskWait J taskID key = wait_step (\<lambda>n. aj_poll J n taskID key) 0"

definition responseAli2OpenAIImage :: "ali_json \<Rightarrow> int \<Rightarrow> TaskResponse \<Rightarrow> string \<Rightarrow> ImageResponse" where
  "responseAli2OpenAIImage J now response responseFormat =
     \<lparr>ir_Created = now,
      ir_Data = List.map_filter (\<lambda>(b64, url).
        if responseFormat = ''b64_json'' then
          (case aj_image_data J url of
             Inl e \<Rightarrow> None
           | Inr d \<Rightarrow> Some \<lparr>id_Url = url, id_B64Json = aj_base64 J d, id_RevisedPrompt = ''''\<rparr>)
        else Some \<lparr>id_Url = url, id_B64Json = b64, id_RevisedPrompt = ''''\<rparr>) (ta_Results response)\<rparr>"

text \<open>The key is that of the channel, which the distributor put into the header.\<close>

definition ali_ImageHandler :: "ali_json \<Rightarrow> int \<Rightarrow> string \<Rightarrow> string \<Rightarrow> response \<Rightarrow> status_error + ImageResponse" where
  "ali_ImageHandler J now authorization responseFormat resp =
     (case read_json (aj_task J) resp of
        Inl e \<Rightarrow> Inl e
      | Inr t \<Rightarrow>
          (if ta_Message t \<noteq> '''' then Inl (ErrorWrapper (ta_Message t) ''ali_async_task_failed'' 500)
           else (case asyncTaskWait J (ta_TaskId t) (TrimPrefix authorization ''Bearer '') of
               Inl e \<Rightarrow> Inl (ErrorWrapper e ''ali_async_task_wait_failed'' 500)
             | Inr r \<Rightarrow>
                 (if ta_TaskStatus r \<noteq> ''SUCCEEDED'' then
                    Inl (service_error (ta_OutputMessage r) ''ali_error'' '''' (JStr (ta_OutputCode r)) resp)
                  else Inr (responseAli2OpenAIImage J now r responseFormat)))))"


section \<open>The adaptor\<close>

definition ali_GetRequestURL :: "Meta \<Rightarrow> string + string" where
  "ali_GetRequestURL m =
     Inr (m_BaseURL m @
       (if m_Mode m = mode_Embeddings then ''/api/v1/services/embeddings/text-embedding/text-embedding''
        else if m_Mode m = mode_ImagesGenerations then ''/api/v1/services/aigc/text2image/image-synthesis''
        else ''/api/v1/services/aigc/text-generation/generation''))"

definition ali_SetupRequestHeader :: "(string \<Rightarrow> string) \<Rightarrow> Meta \<Rightarrow> headers \<Rightarrow> headers" where
  "ali_SetupRequestHeader from m h =
     (let h = SetupCommonRequestHeader from m h;
          h = (if m_IsStream m then h(''Accept'' \<mapsto> ''text/event-stream'', ''X-DashScope-SSE'' \<mapsto> ''enable'') else h);
          h = h(''Authorization'' \<mapsto> ''Bearer '' @ m_APIKey m);
          h = (if m_Mode m = mode_ImagesGenerations then h(''X-DashScope-Async'' \<mapsto> ''enable'') else h)
      in if Plugin (m_Config m) \<noteq> '''' then h(''X-DashScope-Plugin'' \<mapsto> Plugin (m_Config m)) else h)"

definition ali_DoResponse ::
    "ali_json \<Rightarrow> int \<Rightarrow> string \<Rightarrow> string \<Rightarrow> string \<Rightarrow> Meta \<Rightarrow> response \<Rightarrow> status_error + Usage option" where
  "ali_DoResponse J now requestModel authorization responseFormat m resp =
     (if m_IsStream m then map_sum id Some (snd (ali_StreamHandler J now resp))
      else if m_Mode m = mode_Embeddings then map_sum id (\<lambda>(f, u). Some u) (ali_EmbeddingHandler J requestModel resp)
      else if m_Mode m = mode_ImagesGenerations then
        (case ali_ImageHandler J now authorization responseFormat resp of Inl e \<Rightarrow> Inl e | Inr r \<Rightarrow> Inr None)
      else map_sum id (\<lambda>(f, u). Some u) (ali_Handler J now resp))"


section \<open>Properties\<close>

lemma ali_embeddings_usage:
  "\<not> m_IsStream m \<Longrightarrow> m_Mode m = mode_Embeddings \<Longrightarrow> ali_DoResponse J now rm au rf m resp = Inr (Some u) \<Longrightarrow>
   PromptTokens u = 0 \<and> CompletionTokens u = 0"
  by (auto simp: ali_DoResponse_def ali_EmbeddingHandler_def embeddingResponseAli2OpenAI_def zero_usage_def Let_def
      split: sum.splits if_splits)

text \<open>The loop asks for a task while it is neither done nor unknown, at most twenty times; it gives up with an error or
  with the first answer that ends it.\<close>

definition unfinished :: "string + TaskResponse \<Rightarrow> bool" where
  "unfinished a = (case a of Inl e \<Rightarrow> False
     | Inr t \<Rightarrow> ta_TaskStatus t \<notin> {'''', ''FAILED'', ''CANCELED'', ''SUCCEEDED'', ''UNKNOWN''})"

lemma wait_step_end:
  "n < maxStep \<Longrightarrow> (\<forall>k. n < k \<and> k \<le> maxStep \<longrightarrow> unfinished (poll k)) \<Longrightarrow> wait_step poll n = Inl ''aliAsyncTaskWait timeout''"
proof (induction poll n rule: wait_step.induct)
  case (1 poll n)
  have "unfinished (poll (Suc n))" using 1(2,3) by simp
  then obtain t where t: "poll (Suc n) = Inr t" "ta_TaskStatus t \<notin> {'''', ''FAILED'', ''CANCELED'', ''SUCCEEDED'', ''UNKNOWN''}"
    by (auto simp: unfinished_def split: sum.splits)
  show ?case
  proof (cases "Suc n < maxStep")
    case True
    have "\<forall>k. Suc n < k \<and> k \<le> maxStep \<longrightarrow> unfinished (poll k)" using 1(3) by simp
    with 1(1) [OF refl t(1)] t(2) True have "wait_step poll (Suc n) = Inl ''aliAsyncTaskWait timeout''" by simp
    then show ?thesis using t True by (subst wait_step.simps) simp
  qed (use t in \<open>subst wait_step.simps, simp\<close>)
qed

lemma wait_step_first:
  "n < k \<Longrightarrow> k \<le> maxStep \<Longrightarrow> \<forall>i. n < i \<and> i < k \<longrightarrow> unfinished (poll i) \<Longrightarrow> \<not> unfinished (poll k) \<Longrightarrow>
   wait_step poll n = (case poll k of Inl e \<Rightarrow> Inl e | Inr t \<Rightarrow> if ta_TaskStatus t = '''' then Inr no_task else Inr t)"
proof (induction poll n rule: wait_step.induct)
  case (1 poll n)
  show ?case
  proof (cases "Suc n = k")
    case True
    then show ?thesis using 1(5) by (subst wait_step.simps) (auto simp: unfinished_def split: sum.splits)
  next
    case False
    then have k: "Suc n < k" using 1(2) by simp
    then have "unfinished (poll (Suc n))" using 1(4) by simp
    then obtain t where t: "poll (Suc n) = Inr t" "ta_TaskStatus t \<notin> {'''', ''FAILED'', ''CANCELED'', ''SUCCEEDED'', ''UNKNOWN''}"
      by (auto simp: unfinished_def split: sum.splits)
    have "\<not> Suc n \<ge> maxStep" using k 1(3) by simp
    with t 1(1) [OF refl t(1)] k 1(3-5) have "wait_step poll (Suc n) =
        (case poll k of Inl e \<Rightarrow> Inl e | Inr t \<Rightarrow> if ta_TaskStatus t = '''' then Inr no_task else Inr t)" by auto
    then show ?thesis using t \<open>\<not> Suc n \<ge> maxStep\<close> by (subst wait_step.simps) simp
  qed
qed

text \<open>waiting for an image ends. Whatever the service answers, the wait returns after at most twenty questions: with
  the first answer that fails, ends or forgets the task, or, when all twenty find it unfinished, with the timeout. What
  the service would answer later is not looked at.\<close>

theorem task_wait_returns:
  "asyncTaskWait J task key =
     (case List.find (\<lambda>n. \<not> unfinished (aj_poll J n task key)) [1..<21] of
        None \<Rightarrow> Inl ''aliAsyncTaskWait timeout''
      | Some n \<Rightarrow>
          (case aj_poll J n task key of Inl e \<Rightarrow> Inl e | Inr t \<Rightarrow> if ta_TaskStatus t = '''' then Inr no_task else Inr t))"
proof (cases "List.find (\<lambda>n. \<not> unfinished (aj_poll J n task key)) [1..<21]")
  case None
  then have "\<forall>k. 0 < k \<and> k \<le> maxStep \<longrightarrow> unfinished (aj_poll J k task key)"
    by (auto simp: find_None_iff maxStep_def)
  then show ?thesis using None wait_step_end [of 0] by (simp add: asyncTaskWait_def maxStep_def del: upt.simps)
next
  case (Some n)
  then have "0 < n" "n \<le> maxStep" "\<not> unfinished (aj_poll J n task key)" "\<forall>i. 0 < i \<and> i < n \<longrightarrow> unfinished (aj_poll J i task key)"
    by (auto simp: find_Some_iff maxStep_def gr0_conv_Suc simp del: upt.simps)
  then show ?thesis using Some wait_step_first [of 0 n] by (simp add: asyncTaskWait_def del: upt.simps)
qed

end
