(* ===== verification/Baidu.thy ===== *)
theory Baidu
  imports OpenAI
begin

text \<open>
  The interface of Baidu (\<^verbatim>\<open>relay/adaptor/baidu\<close>), with the access tokens that it keeps. Decoding JSON and the
  service that gives tokens are parameters.
\<close>

section \<open>Access tokens\<close>

text \<open>The answer of the token service: an error with its description, the token and its life in seconds.\<close>

record AccessToken =
  bt_Token :: string
  bt_Error :: string
  bt_ErrorDescription :: string
  bt_ExpiresIn :: int
  bt_ExpiresAt :: int

type_synonym baidu_tokens = "string \<rightharpoonup> AccessToken"

text \<open>The service: the decoded answer for the two halves of a key, or an error on the way.\<close>

type_synonym token_service = "string \<Rightarrow> string \<Rightarrow> string + AccessToken"

definition getBaiduAccessTokenHelper :: "token_service \<Rightarrow> int \<Rightarrow> string \<Rightarrow> baidu_tokens \<Rightarrow> (string + AccessToken) \<times> baidu_tokens" where
  "getBaiduAccessTokenHelper ask now apiKey store =
     (case Split (CHR ''|'') apiKey of
        [a, b] \<Rightarrow>
          (case ask a b of
             Inl e \<Rightarrow> (Inl e, store)
           | Inr t \<Rightarrow>
               (if bt_Error t \<noteq> '''' then (Inl (bt_Error t @ '': '' @ bt_ErrorDescription t), store)
                else if bt_Token t = '''' then (Inl ''getBaiduAccessTokenHelper get empty access token'', store)
                else (let t = t\<lparr>bt_ExpiresAt := now + bt_ExpiresIn t\<rparr> in (Inr t, store(apiKey \<mapsto> t)))))
      | _ \<Rightarrow> (Inl ''invalid baidu apikey'', store))"

text \<open>The token, the store, and whether a goroutine was started that asks for a new one.\<close>

definition baidu_GetAccessToken :: "token_service \<Rightarrow> int \<Rightarrow> string \<Rightarrow> baidu_tokens \<Rightarrow> (string + string) \<times> baidu_tokens \<times> bool" where
  "baidu_GetAccessToken ask now apiKey store =
     (case store apiKey of
        Some t \<Rightarrow> (Inr (bt_Token t), store, now + 3600 > bt_ExpiresAt t)
      | None \<Rightarrow>
          (case getBaiduAccessTokenHelper ask now apiKey store of
             (Inl e, store) \<Rightarrow> (Inl e, store, False)
           | (Inr t, store) \<Rightarrow> (Inr (bt_Token t), store, False)))"


section \<open>Data\<close>

record BaiduMessage =
  bm_Role :: string
  bm_Content :: string

record BaiduRequest =
  bq_Messages :: "BaiduMessage list"
  bq_Temperature :: "f64 option"
  bq_TopP :: "f64 option"
  bq_PenaltyScore :: "f64 option"
  bq_Stream :: bool
  bq_System :: string
  bq_DisableSearch :: bool
  bq_EnableCitation :: bool
  bq_MaxOutputTokens :: int
  bq_UserId :: string

record BaiduResponse =
  br_Id :: string
  br_Created :: int
  br_Result :: string
  br_Usage :: Usage
  br_ErrorCode :: int
  br_ErrorMsg :: string
  br_IsEnd :: bool

record BaiduEmbedding =
  be_Data :: "EmbeddingItem list"
  be_Usage :: Usage
  be_ErrorCode :: int
  be_ErrorMsg :: string

record baidu_json =
  bj_response :: "string \<Rightarrow> string + BaiduResponse"
  bj_embedding :: "string \<Rightarrow> string + BaiduEmbedding"


section \<open>Requests and answers\<close>

text \<open>The loop over the messages: the system prompt (the last one) and the others.\<close>

definition baidu_ConvertRequest :: "GeneralOpenAIRequest \<Rightarrow> BaiduRequest" where
  "baidu_ConvertRequest q =
     fold (\<lambda>m r. if ms_Role m = ''system'' then r\<lparr>bq_System := StringContent m\<rparr>
         else r\<lparr>bq_Messages := bq_Messages r @ [\<lparr>bm_Role = ms_Role m, bm_Content = StringContent m\<rparr>]\<rparr>)
       (Messages q)
       \<lparr>bq_Messages = [], bq_Temperature = Temperature q, bq_TopP = TopP q, bq_PenaltyScore = FrequencyPenalty q,
        bq_Stream = Stream q, bq_System = '''', bq_DisableSearch = False, bq_EnableCitation = False,
        bq_MaxOutputTokens = MaxTokens q, bq_UserId = User q\<rparr>"

definition responseBaidu2OpenAI :: "BaiduResponse \<Rightarrow> TextResponse" where
  "responseBaidu2OpenAI r =
     \<lparr>tr_Id = br_Id r, tr_Model = '''', tr_Object = ''chat.completion'', tr_Created = br_Created r,
      tr_Choices = [\<lparr>tc_Index = 0, tc_Message = no_message\<lparr>ms_Role := ''assistant'', ms_Content := JStr (br_Result r)\<rparr>,
        tc_FinishReason = ''stop''\<rparr>],
      tr_Usage = br_Usage r\<rparr>"

definition streamResponseBaidu2OpenAI :: "BaiduResponse \<Rightarrow> ChatChunk" where
  "streamResponseBaidu2OpenAI r =
     \<lparr>cc_Id = br_Id r, cc_Object = ''chat.completion.chunk'', cc_Created = br_Created r, cc_Model = ''ernie-bot'',
      cc_Choices = [\<lparr>sc_Index = 0, sc_Delta = no_message\<lparr>ms_Content := JStr (br_Result r)\<rparr>,
        sc_FinishReason = (if br_IsEnd r then Some ''stop'' else None)\<rparr>],
      cc_Usage = None\<rparr>"

definition baidu_ConvertEmbeddingRequest :: "GeneralOpenAIRequest \<Rightarrow> string list" where
  "baidu_ConvertEmbeddingRequest q = ParseInput q"

definition embeddingResponseBaidu2OpenAI :: "BaiduEmbedding \<Rightarrow> EmbeddingResponse" where
  "embeddingResponseBaidu2OpenAI r =
     \<lparr>eb_Object = ''list'', eb_Data = be_Data r, eb_Model = ''baidu-embedding'', eb_Usage = be_Usage r\<rparr>"


section \<open>Handlers\<close>

definition baidu_line :: "baidu_json \<Rightarrow> string \<Rightarrow> Usage \<times> ChatChunk list \<Rightarrow> Usage \<times> ChatChunk list" where
  "baidu_line J data st =
     (if length data < 6 then st
      else case bj_response J (drop 6 data) of
        Inl e \<Rightarrow> st
      | Inr r \<Rightarrow>
          (if TotalTokens (br_Usage r) \<noteq> 0
           then (fst st)\<lparr>TotalTokens := TotalTokens (br_Usage r), PromptTokens := PromptTokens (br_Usage r),
                  CompletionTokens := wrap64 (TotalTokens (br_Usage r) - PromptTokens (br_Usage r))\<rparr>
           else fst st,
           snd st @ [streamResponseBaidu2OpenAI r]))"

definition baidu_StreamHandler :: "baidu_json \<Rightarrow> response \<Rightarrow> ChatChunk list \<times> (status_error + Usage)" where
  "baidu_StreamHandler J resp =
     (let st = fold (baidu_line J) (map drop_cr (body_lines (stream_body resp))) (zero_usage, [])
      in (snd st, close_stream resp (fst st)))"

definition baidu_Handler :: "baidu_json \<Rightarrow> response \<Rightarrow> status_error + TextResponse \<times> Usage" where
  "baidu_Handler J resp =
     (case read_json (bj_response J) resp of
        Inl e \<Rightarrow> Inl e
      | Inr r \<Rightarrow>
          (if br_ErrorMsg r \<noteq> '''' then
             Inl (service_error (br_ErrorMsg r) ''baidu_error'' '''' (JNum (of_int (br_ErrorCode r))) resp)
           else (let f = (responseBaidu2OpenAI r)\<lparr>tr_Model := ''ernie-bot''\<rparr> in Inr (f, tr_Usage f))))"

definition baidu_EmbeddingHandler :: "baidu_json \<Rightarrow> response \<Rightarrow> status_error + EmbeddingResponse \<times> Usage" where
  "baidu_EmbeddingHandler J resp =
     (case read_json (bj_embedding J) resp of
        Inl e \<Rightarrow> Inl e
      | Inr r \<Rightarrow>
          (if be_ErrorMsg r \<noteq> '''' then
             Inl (service_error (be_ErrorMsg r) ''baidu_error'' '''' (JNum (of_int (be_ErrorCode r))) resp)
           else (let f = embeddingResponseBaidu2OpenAI r in Inr (f, eb_Usage f))))"


section \<open>The adaptor\<close>

definition baidu_paths :: "(string \<times> string) list" where
  "baidu_paths =
     [(''ERNIE-4.0'', ''completions_pro''), (''ERNIE-Bot-4'', ''completions_pro''), (''ERNIE-Bot'', ''completions''),
      (''ERNIE-Bot-turbo'', ''eb-instant''), (''ERNIE-Speed'', ''ernie_speed''), (''ERNIE-4.0-8K'', ''completions_pro''),
      (''ERNIE-3.5-8K'', ''completions''), (''ERNIE-3.5-8K-0205'', ''ernie-3.5-8k-0205''),
      (''ERNIE-3.5-8K-1222'', ''ernie-3.5-8k-1222''), (''ERNIE-Bot-8K'', ''ernie_bot_8k''),
      (''ERNIE-3.5-4K-0205'', ''ernie-3.5-4k-0205''), (''ERNIE-Speed-8K'', ''ernie_speed''),
      (''ERNIE-Speed-128K'', ''ernie-speed-128k''), (''ERNIE-Lite-8K-0922'', ''eb-instant''),
      (''ERNIE-Lite-8K-0308'', ''ernie-lite-8k''), (''ERNIE-Tiny-8K'', ''ernie-tiny-8k''), (''BLOOMZ-7B'', ''bloomz_7b1''),
      (''Embedding-V1'', ''embedding-v1''), (''bge-large-zh'', ''bge_large_zh''), (''bge-large-en'', ''bge_large_en''),
      (''tao-8k'', ''tao_8k'')]"

text \<open>The address has the access token, so choosing it may ask for one.\<close>

definition baidu_GetRequestURL :: "token_service \<Rightarrow> int \<Rightarrow> Meta \<Rightarrow> baidu_tokens \<Rightarrow> (string + string) \<times> baidu_tokens \<times> bool" where
  "baidu_GetRequestURL ask now m store =
     (let model = m_ActualModelName m;
          suffix = (if HasPrefix model ''Embedding'' \<or> HasPrefix model ''bge-large'' \<or> HasPrefix model ''tao-8k''
            then ''embeddings/'' else ''chat/'');
          suffix = suffix @ (case map_of baidu_paths model of Some p \<Rightarrow> p | None \<Rightarrow> ToLower model)
      in case baidu_GetAccessToken ask now (m_APIKey m) store of
           (Inl e, r) \<Rightarrow> (Inl e, r)
         | (Inr token, r) \<Rightarrow>
             (Inr (m_BaseURL m @ ''/rpc/2.0/ai_custom/v1/wenxinworkshop/'' @ suffix @ ''?access_token='' @ token), r))"

definition baidu_SetupRequestHeader :: "(string \<Rightarrow> string) \<Rightarrow> Meta \<Rightarrow> headers \<Rightarrow> headers" where
  "baidu_SetupRequestHeader from m h = (SetupCommonRequestHeader from m h)(''Authorization'' \<mapsto> ''Bearer '' @ m_APIKey m)"

definition baidu_DoResponse :: "baidu_json \<Rightarrow> Meta \<Rightarrow> response \<Rightarrow> status_error + Usage option" where
  "baidu_DoResponse J m resp =
     (if m_IsStream m then map_sum id Some (snd (baidu_StreamHandler J resp))
      else if m_Mode m = mode_Embeddings then map_sum id (\<lambda>(f, u). Some u) (baidu_EmbeddingHandler J resp)
      else map_sum id (\<lambda>(f, u). Some u) (baidu_Handler J resp))"


section \<open>Properties\<close>

text \<open>A kept token is used whenever it is there, even one that expired: only the next request gets another.\<close>

theorem expired_token_used:
  "store k = Some t \<Longrightarrow> bt_ExpiresAt t < now \<Longrightarrow> baidu_GetAccessToken ask now k store = (Inr (bt_Token t), store, True)"
  by (simp add: baidu_GetAccessToken_def)

text \<open>The system prompt and the other messages, in their order.\<close>

lemma baidu_conversation:
  "bq_Messages (baidu_ConvertRequest q) =
     map (\<lambda>m. \<lparr>bm_Role = ms_Role m, bm_Content = StringContent m\<rparr>) (filter (\<lambda>m. ms_Role m \<noteq> ''system'') (Messages q))"
proof -
  let ?f = "\<lambda>m r. if ms_Role m = ''system'' then r\<lparr>bq_System := StringContent m\<rparr>
         else r\<lparr>bq_Messages := bq_Messages r @ [\<lparr>bm_Role = ms_Role m, bm_Content = StringContent m\<rparr>]\<rparr>"
  have *: "bq_Messages (fold ?f ms r) = bq_Messages r @
      map (\<lambda>m. \<lparr>bm_Role = ms_Role m, bm_Content = StringContent m\<rparr>) (filter (\<lambda>m. ms_Role m \<noteq> ''system'') ms)" for ms r
    by (induction ms arbitrary: r) simp_all
  show ?thesis unfolding baidu_ConvertRequest_def by (subst *) simp
qed

end
