(* ===== verification/Tencent.thy ===== *)
theory Tencent
  imports OpenAI
begin

text \<open>
  The interface of Tencent (\<^verbatim>\<open>relay/adaptor/tencent\<close>), whose requests are signed. Decoding and encoding JSON, the
  hashes, the calendar and random identifiers are parameters.
\<close>

section \<open>Data\<close>

record TencentRequest =
  nq_Model :: string
  nq_Messages :: "(string \<times> string) list"
  nq_Stream :: bool
  nq_TopP :: "f64 option"
  nq_Temperature :: "f64 option"

text \<open>A converted request: a chat, or the inputs of an embedding.\<close>

datatype tencent_body = TencentChat TencentRequest | TencentEmbed "string list"

text \<open>A choice: why it ended, its message and its delta (their contents). An error: its code and its message.\<close>

record TencentResponse =
  nr_Choices :: "(string \<times> string \<times> string) list"
  nr_Usage :: Usage
  nr_Error :: "string \<times> string"
  nr_ReqID :: string

record TencentEmbedding =
  nb_Data :: "EmbeddingItem list"
  nb_TotalTokens :: int
  nb_Error :: "string \<times> string"

text \<open>A stream's lines are responses, a whole body wraps one.\<close>

record tencent_json =
  nj_line :: "string \<Rightarrow> TencentResponse option"
  nj_response :: "string \<Rightarrow> string + TencentResponse"
  nj_embedding :: "string \<Rightarrow> string + TencentEmbedding"
  nj_marshal :: "tencent_body \<Rightarrow> string"
  nj_sha256 :: "string \<Rightarrow> string"
  nj_hmac :: "string \<Rightarrow> string \<Rightarrow> string"
  nj_hex :: "string \<Rightarrow> string"
  nj_date :: "int \<Rightarrow> string"
  nj_uuid :: "nat \<Rightarrow> string"

record tencent =
  nt_Sign :: string
  nt_Action :: string
  nt_Version :: string
  nt_Timestamp :: int

definition tencent_Init :: "int \<Rightarrow> tencent \<Rightarrow> tencent" where
  "tencent_Init now a = a\<lparr>nt_Action := ''ChatCompletions'', nt_Version := ''2023-09-01'', nt_Timestamp := now\<rparr>"


section \<open>Requests\<close>

definition tencent_chat :: "GeneralOpenAIRequest \<Rightarrow> TencentRequest" where
  "tencent_chat q =
     \<lparr>nq_Model = Model q, nq_Messages = map (\<lambda>m. (ms_Role m, StringContent m)) (Messages q), nq_Stream = Stream q,
      nq_TopP = TopP q, nq_Temperature = Temperature q\<rparr>"

definition ParseConfig :: "string \<Rightarrow> string + int \<times> string \<times> string" where
  "ParseConfig cfg =
     (case Split (CHR ''|'') cfg of
        [a, b, c] \<Rightarrow>
          (case ParseInt a of
             ParsedInt n \<Rightarrow> Inr (n, b, c)
           | _ \<Rightarrow> Inl (''strconv.ParseInt: parsing '' @ a))
      | _ \<Rightarrow> Inl ''invalid tencent config'')"

definition sha256hex :: "tencent_json \<Rightarrow> string \<Rightarrow> string" where
  "sha256hex J s = nj_hex J (nj_sha256 J s)"

definition unlines :: "string list \<Rightarrow> string" where
  "unlines ls = Join (CHR 0x0A) ls"

text \<open>The value that is hashed with its key (\<open>hmacSha256\<close>): the key comes second.\<close>

definition GetSign :: "tencent_json \<Rightarrow> tencent_body \<Rightarrow> tencent \<Rightarrow> string \<Rightarrow> string \<Rightarrow> string" where
  "GetSign J req a secId secKey =
     (let canonicalHeaders = unlines [''content-type:application/json'', ''host:hunyuan.tencentcloudapi.com'',
            ''x-tc-action:'' @ ToLower (nt_Action a), ''''];
          signedHeaders = ''content-type;host;x-tc-action'';
          canonicalRequest = unlines [''POST'', ''/'', '''', canonicalHeaders, signedHeaders, sha256hex J (nj_marshal J req)];
          date = nj_date J (nt_Timestamp a);
          credentialScope = date @ ''/hunyuan/tc3_request'';
          string2sign = unlines [''TC3-HMAC-SHA256'', Itoa (nt_Timestamp a), credentialScope, sha256hex J canonicalRequest];
          secretDate = nj_hmac J date (''TC3'' @ secKey);
          secretService = nj_hmac J ''hunyuan'' secretDate;
          secretKey = nj_hmac J ''tc3_request'' secretService;
          signature = nj_hex J (nj_hmac J string2sign secretKey)
      in ''TC3-HMAC-SHA256 Credential='' @ secId @ ''/'' @ credentialScope @ '', SignedHeaders='' @ signedHeaders @
         '', Signature='' @ signature)"

text \<open>Converting signs the request; the key is in the header of the caller's request, where the distributor put it.\<close>

definition tencent_ConvertRequest ::
    "tencent_json \<Rightarrow> string \<Rightarrow> int \<Rightarrow> GeneralOpenAIRequest \<Rightarrow> tencent \<Rightarrow> (string + tencent_body) \<times> tencent" where
  "tencent_ConvertRequest J authorization relayMode q a =
     (case ParseConfig (TrimPrefix authorization ''Bearer '') of
        Inl e \<Rightarrow> (Inl e, a)
      | Inr (_, secretId, secretKey) \<Rightarrow>
          (let embed = (relayMode = mode_Embeddings);
               a = a\<lparr>nt_Action := (if embed then ''GetEmbedding'' else ''ChatCompletions'')\<rparr>;
               body = (if embed then TencentEmbed (ParseInput q) else TencentChat (tencent_chat q))
           in (Inr body, a\<lparr>nt_Sign := GetSign J body a secretId secretKey\<rparr>)))"


section \<open>Answers\<close>

definition embeddingResponseTencent2OpenAI :: "TencentEmbedding \<Rightarrow> EmbeddingResponse" where
  "embeddingResponseTencent2OpenAI r =
     \<lparr>eb_Object = ''list'', eb_Data = nb_Data r, eb_Model = ''hunyuan-embedding'',
      eb_Usage = zero_usage\<lparr>TotalTokens := nb_TotalTokens r\<rparr>\<rparr>"

definition responseTencent2OpenAI :: "int \<Rightarrow> TencentResponse \<Rightarrow> TextResponse" where
  "responseTencent2OpenAI now r =
     \<lparr>tr_Id = nr_ReqID r, tr_Model = '''', tr_Object = ''chat.completion'', tr_Created = now,
      tr_Choices = (case nr_Choices r of
          [] \<Rightarrow> []
        | (finish, message, delta) # cs \<Rightarrow>
            [\<lparr>tc_Index = 0, tc_Message = no_message\<lparr>ms_Role := ''assistant'', ms_Content := JStr message\<rparr>,
              tc_FinishReason = finish\<rparr>]),
      tr_Usage = nr_Usage r\<rparr>"

definition streamResponseTencent2OpenAI :: "tencent_json \<Rightarrow> nat \<Rightarrow> int \<Rightarrow> TencentResponse \<Rightarrow> ChatChunk" where
  "streamResponseTencent2OpenAI J n now r =
     \<lparr>cc_Id = ''chatcmpl-'' @ nj_uuid J n, cc_Object = ''chat.completion.chunk'', cc_Created = now,
      cc_Model = ''tencent-hunyuan'',
      cc_Choices = (case nr_Choices r of
          [] \<Rightarrow> []
        | (finish, message, delta) # cs \<Rightarrow>
            [\<lparr>sc_Index = 0, sc_Delta = no_message\<lparr>ms_Content := JStr delta\<rparr>,
              sc_FinishReason = (if finish = ''stop'' then Some ''stop'' else None)\<rparr>]),
      cc_Usage = None\<rparr>"


section \<open>Handlers\<close>

definition tencent_line :: "tencent_json \<Rightarrow> int \<Rightarrow> string \<Rightarrow> string \<times> ChatChunk list \<Rightarrow> string \<times> ChatChunk list" where
  "tencent_line J now data st =
     (if length data < 5 \<or> \<not> HasPrefix data ''data:'' then st
      else case nj_line J (TrimPrefix data ''data:'') of
        None \<Rightarrow> st
      | Some r \<Rightarrow>
          (let response = streamResponseTencent2OpenAI J (length (snd st)) now r
           in (fst st @ (case cc_Choices response of [] \<Rightarrow> '''' | c # cs \<Rightarrow> AsString (ms_Content (sc_Delta c))),
               snd st @ [response])))"

definition tencent_StreamHandler :: "tencent_json \<Rightarrow> int \<Rightarrow> response \<Rightarrow> ChatChunk list \<times> (status_error + string)" where
  "tencent_StreamHandler J now resp =
     (let st = fold (tencent_line J now) (map drop_cr (body_lines (stream_body resp))) ('''', [])
      in (snd st, close_stream resp (fst st)))"

definition tencent_error :: "string \<times> string \<Rightarrow> response \<Rightarrow> status_error" where
  "tencent_error e resp = service_error (snd e) '''' '''' (JStr (fst e)) resp"

definition tencent_Handler :: "env \<Rightarrow> tencent_json \<Rightarrow> int \<Rightarrow> response \<Rightarrow> status_error + TextResponse \<times> Usage" where
  "tencent_Handler E J now resp =
     (case read_json (nj_response J) resp of
        Inl e \<Rightarrow> Inl e
      | Inr r \<Rightarrow>
          (if fst (nr_Error r) \<noteq> '''' then Inl (tencent_error (nr_Error r) resp)
           else (let f = (responseTencent2OpenAI now r)\<lparr>tr_Model := ''hunyuan''\<rparr>
                 in case e_write E of
                      Some e \<Rightarrow> Inl (ErrorWrapper e ''write_response_body_failed'' 500)
                    | None \<Rightarrow> Inr (f, tr_Usage f))))"

definition tencent_EmbeddingHandler :: "tencent_json \<Rightarrow> string \<Rightarrow> response \<Rightarrow> status_error + EmbeddingResponse \<times> Usage" where
  "tencent_EmbeddingHandler J requestModel resp =
     (case decode_body (nj_embedding J) resp of
        Inl e \<Rightarrow> Inl e
      | Inr r \<Rightarrow>
          (if fst (nb_Error r) \<noteq> '''' then Inl (tencent_error (nb_Error r) resp)
           else (let f = (embeddingResponseTencent2OpenAI r)\<lparr>eb_Model := requestModel\<rparr> in Inr (f, eb_Usage f))))"


section \<open>The adaptor\<close>

definition tencent_GetRequestURL :: "Meta \<Rightarrow> string + string" where
  "tencent_GetRequestURL m = Inr (m_BaseURL m @ ''/'')"

definition tencent_SetupRequestHeader :: "(string \<Rightarrow> string) \<Rightarrow> tencent \<Rightarrow> Meta \<Rightarrow> headers \<Rightarrow> headers" where
  "tencent_SetupRequestHeader from a m h =
     (SetupCommonRequestHeader from m h)
       (''Authorization'' \<mapsto> nt_Sign a, ''X-TC-Action'' \<mapsto> nt_Action a, ''X-TC-Version'' \<mapsto> nt_Version a,
        ''X-TC-Timestamp'' \<mapsto> Itoa (nt_Timestamp a))"

definition tencent_DoResponse :: "env \<Rightarrow> tencent_json \<Rightarrow> int \<Rightarrow> string \<Rightarrow> Meta \<Rightarrow> response \<Rightarrow> status_error + Usage option" where
  "tencent_DoResponse E J now requestModel m resp =
     (if m_IsStream m then
        map_sum id (\<lambda>t. Some (ResponseText2Usage E t (m_ActualModelName m) (m_PromptTokens m)))
          (snd (tencent_StreamHandler J now resp))
      else if m_Mode m = mode_Embeddings then map_sum id (\<lambda>(f, u). Some u) (tencent_EmbeddingHandler J requestModel resp)
      else map_sum id (\<lambda>(f, u). Some u) (tencent_Handler E J now resp))"


section \<open>Properties\<close>

lemma tencent_embeddings_usage:
  "\<not> m_IsStream m \<Longrightarrow> m_Mode m = mode_Embeddings \<Longrightarrow> tencent_DoResponse E J now rm m resp = Inr (Some u) \<Longrightarrow>
   PromptTokens u = 0 \<and> CompletionTokens u = 0"
  by (auto simp: tencent_DoResponse_def tencent_EmbeddingHandler_def embeddingResponseTencent2OpenAI_def zero_usage_def Let_def
      split: sum.splits if_splits)

text \<open>What was signed is what is sent: the header carries the signature of the converted request, made with the action
  and the time that the other headers state.\<close>

lemma tencent_signed:
  assumes "tencent_ConvertRequest J authorization mode q a = (Inr body, a')"
  shows "\<exists>n secId secKey. ParseConfig (TrimPrefix authorization ''Bearer '') = Inr (n, secId, secKey) \<and>
    tencent_SetupRequestHeader from a' m h ''Authorization'' = Some (GetSign J body a' secId secKey) \<and>
    tencent_SetupRequestHeader from a' m h ''X-TC-Action'' = Some (nt_Action a') \<and>
    tencent_SetupRequestHeader from a' m h ''X-TC-Timestamp'' = Some (Itoa (nt_Timestamp a'))"
  using assms
  by (auto simp: tencent_ConvertRequest_def tencent_SetupRequestHeader_def GetSign_def Let_def split: sum.splits)

end
