(* ===== verification/Xunfei.thy ===== *)
theory Xunfei
  imports OpenAI
begin

text \<open>
  The interface of Xunfei (\<^verbatim>\<open>relay/adaptor/xunfei\<close>), which talks over a socket: its answer is the list of messages
  that were read before the socket failed or was closed. The socket, decoding JSON, the signature of an address and random
  identifiers are parameters.
\<close>

section \<open>Data\<close>

record XunfeiRequest =
  xq_AppId :: string
  xq_Domain :: string
  xq_Temperature :: "f64 option"
  xq_TopK :: int
  xq_MaxTokens :: int
  xq_Messages :: "(string \<times> string) list"
  xq_Functions :: "Function list option"

text \<open>A text of an answer: its content and the function it calls.\<close>

record XunfeiResponse =
  xr_Status :: int
  xr_Text :: "(string \<times> Function option) list"
  xr_Usage :: Usage

text \<open>The host and the path of an address, the date, the signature and the encodings; and talking over a socket: the
  failure to connect, to write or to read a first message, or the messages.\<close>

record xunfei_world =
  xw_parse :: "string \<Rightarrow> string \<times> string"
  xw_date :: string
  xw_hmac64 :: "string \<Rightarrow> string \<Rightarrow> string"
  xw_base64 :: "string \<Rightarrow> string"
  xw_escape :: "string \<Rightarrow> string"
  xw_talk :: "string \<Rightarrow> XunfeiRequest \<Rightarrow> string + string list"
  xw_decode :: "string \<Rightarrow> XunfeiResponse option"
  xw_uuid :: "nat \<Rightarrow> string"


section \<open>Versions and addresses\<close>

definition modelName2APIVersion :: "string \<Rightarrow> string" where
  "modelName2APIVersion modelName =
     (if modelName = ''Spark-Lite'' then ''v1.1''
      else if modelName = ''Spark-Pro'' then ''v3.1''
      else if modelName = ''Spark-Pro-128K'' then ''v3.1-128K''
      else if modelName = ''Spark-Max'' then ''v3.5''
      else if modelName = ''Spark-Max-32K'' then ''v3.5-32K''
      else if modelName = ''Spark-4.0-Ultra'' then ''v4.0''
      else '''')"

definition parseAPIVersionByModelName :: "string \<Rightarrow> string" where
  "parseAPIVersionByModelName modelName =
     (let apiVersion = modelName2APIVersion modelName
      in if apiVersion \<noteq> '''' then apiVersion else drop 1 (dropWhile (\<lambda>c. c \<noteq> CHR ''-'') modelName))"

definition apiVersion2domain :: "string \<Rightarrow> string" where
  "apiVersion2domain apiVersion =
     (if apiVersion = ''v1.1'' then ''lite''
      else if apiVersion = ''v2.1'' then ''generalv2''
      else if apiVersion = ''v3.1'' then ''generalv3''
      else if apiVersion = ''v3.1-128K'' then ''pro-128k''
      else if apiVersion = ''v3.5'' then ''generalv3.5''
      else if apiVersion = ''v3.5-32K'' then ''max-32k''
      else if apiVersion = ''v4.0'' then ''4.0Ultra''
      else ''general'' @ apiVersion)"

definition quoted :: "string \<Rightarrow> string" where
  "quoted s = CHR 0x22 # s @ [CHR 0x22]"

definition buildXunfeiAuthUrl :: "xunfei_world \<Rightarrow> string \<Rightarrow> string \<Rightarrow> string \<Rightarrow> string" where
  "buildXunfeiAuthUrl W hostUrl apiKey apiSecret =
     (let (host, path) = xw_parse W hostUrl;
          sign = Join (CHR 0x0A) [''host: '' @ host, ''date: '' @ xw_date W, ''GET '' @ path @ '' HTTP/1.1''];
          sha = xw_hmac64 W sign apiSecret;
          authUrl = ''hmac username='' @ quoted apiKey @ '', algorithm='' @ quoted ''hmac-sha256'' @ '', headers='' @
            quoted ''host date request-line'' @ '', signature='' @ quoted sha
      in hostUrl @ ''?authorization='' @ xw_escape W (xw_base64 W authUrl) @ ''&date='' @ xw_escape W (xw_date W) @
         ''&host='' @ xw_escape W host)"

definition getXunfeiAuthUrl :: "xunfei_world \<Rightarrow> string \<Rightarrow> string \<Rightarrow> string \<Rightarrow> string \<times> string" where
  "getXunfeiAuthUrl W apiVersion apiKey apiSecret =
     (let url = (if apiVersion = ''v3.1-128K'' then ''wss://spark-api.xf-yun.com/chat/pro-128k''
            else if apiVersion = ''v3.5-32K'' then ''wss://spark-api.xf-yun.com/chat/max-32k''
            else ''wss://spark-api.xf-yun.com/'' @ apiVersion @ ''/chat'')
      in (apiVersion2domain apiVersion, buildXunfeiAuthUrl W url apiKey apiSecret))"


section \<open>Requests and answers\<close>

definition requestOpenAI2Xunfei :: "GeneralOpenAIRequest \<Rightarrow> string \<Rightarrow> string \<Rightarrow> XunfeiRequest" where
  "requestOpenAI2Xunfei q xunfeiAppId domain =
     \<lparr>xq_AppId = xunfeiAppId, xq_Domain = domain, xq_Temperature = Temperature q, xq_TopK = N_choices q,
      xq_MaxTokens = MaxTokens q, xq_Messages = map (\<lambda>m. (ms_Role m, StringContent m)) (Messages q),
      xq_Functions = (if HasPrefix domain ''generalv3'' \<or> domain = ''4.0Ultra'' then Some (map tl_Function (Tools q)) else None)\<rparr>"

definition xunfei_getToolCalls :: "xunfei_world \<Rightarrow> nat \<Rightarrow> XunfeiResponse \<Rightarrow> Tool list" where
  "xunfei_getToolCalls W n r =
     (case xr_Text r of
        (_, Some f) # _ \<Rightarrow> [\<lparr>tl_Id = ''call_'' @ xw_uuid W n, tl_Type = ''function'', tl_Function = f\<rparr>]
      | _ \<Rightarrow> [])"

definition with_text :: "XunfeiResponse \<Rightarrow> XunfeiResponse" where
  "with_text r = (if xr_Text r = [] then r\<lparr>xr_Text := [('''', None)]\<rparr> else r)"

definition responseXunfei2OpenAI :: "xunfei_world \<Rightarrow> int \<Rightarrow> XunfeiResponse \<Rightarrow> TextResponse" where
  "responseXunfei2OpenAI W now r =
     (let r = with_text r
      in \<lparr>tr_Id = ''chatcmpl-'' @ xw_uuid W 0, tr_Model = '''', tr_Object = ''chat.completion'', tr_Created = now,
          tr_Choices = [\<lparr>tc_Index = 0,
            tc_Message = no_message\<lparr>ms_Role := ''assistant'', ms_Content := JStr (fst (hd (xr_Text r))),
              ms_ToolCalls := xunfei_getToolCalls W 1 r\<rparr>,
            tc_FinishReason = ''stop''\<rparr>],
          tr_Usage = xr_Usage r\<rparr>)"

definition streamResponseXunfei2OpenAI :: "xunfei_world \<Rightarrow> nat \<Rightarrow> int \<Rightarrow> XunfeiResponse \<Rightarrow> ChatChunk" where
  "streamResponseXunfei2OpenAI W n now r =
     (let r = with_text r
      in \<lparr>cc_Id = ''chatcmpl-'' @ xw_uuid W (2 * n), cc_Object = ''chat.completion.chunk'', cc_Created = now,
          cc_Model = ''SparkDesk'',
          cc_Choices = [\<lparr>sc_Index = 0,
            sc_Delta = no_message\<lparr>ms_Content := JStr (fst (hd (xr_Text r))),
              ms_ToolCalls := xunfei_getToolCalls W (2 * n + 1) r\<rparr>,
            sc_FinishReason = (if xr_Status r = 2 then Some ''stop'' else None)\<rparr>],
          cc_Usage = None\<rparr>)"


section \<open>Talking\<close>

text \<open>The goroutine: the answers it hands over before it stops.\<close>

fun handed_over :: "xunfei_world \<Rightarrow> string list \<Rightarrow> XunfeiResponse list" where
  "handed_over W [] = []"
| "handed_over W (msg # msgs) =
     (case xw_decode W msg of
        None \<Rightarrow> []
      | Some r \<Rightarrow> r # (if xr_Status r = 2 then [] else handed_over W msgs))"

definition xunfeiMakeRequest :: "xunfei_world \<Rightarrow> GeneralOpenAIRequest \<Rightarrow> string \<Rightarrow> string \<Rightarrow> string \<Rightarrow> string + XunfeiResponse list" where
  "xunfeiMakeRequest W q domain authUrl appId =
     (case xw_talk W authUrl (requestOpenAI2Xunfei q appId domain) of
        Inl e \<Rightarrow> Inl e
      | Inr msgs \<Rightarrow> Inr (handed_over W msgs))"

definition add_text_usage :: "Usage \<Rightarrow> Usage \<Rightarrow> Usage" where
  "add_text_usage u v = \<lparr>PromptTokens = wrap64 (PromptTokens u + PromptTokens v),
     CompletionTokens = wrap64 (CompletionTokens u + CompletionTokens v), TotalTokens = wrap64 (TotalTokens u + TotalTokens v)\<rparr>"

definition xunfei_StreamHandler ::
    "xunfei_world \<Rightarrow> int \<Rightarrow> string \<Rightarrow> GeneralOpenAIRequest \<Rightarrow> string \<Rightarrow> string \<Rightarrow> string \<Rightarrow> ChatChunk list \<times> (status_error + Usage)" where
  "xunfei_StreamHandler W now version q appId apiSecret apiKey =
     (let (domain, authUrl) = getXunfeiAuthUrl W version apiKey apiSecret
      in case xunfeiMakeRequest W q domain authUrl appId of
           Inl e \<Rightarrow> ([], Inl (ErrorWrapper e ''xunfei_request_failed'' 500))
         | Inr rs \<Rightarrow>
             (map (\<lambda>(n, r). streamResponseXunfei2OpenAI W n now r) (enumerate 0 rs),
              Inr (fold (\<lambda>r u. add_text_usage u (xr_Usage r)) rs zero_usage)))"

text \<open>Without a stream: the text, the usage and the answer received last. An answer without a text is not counted.\<close>

definition xunfei_receive :: "XunfeiResponse \<Rightarrow> string \<times> Usage \<times> XunfeiResponse option \<Rightarrow> string \<times> Usage \<times> XunfeiResponse option" where
  "xunfei_receive r = (\<lambda>(content, usage, last_r).
     (case xr_Text r of
        [] \<Rightarrow> (content, usage, Some r)
      | t # ts \<Rightarrow> (content @ fst t, add_text_usage usage (xr_Usage r), Some r)))"

definition xunfei_Handler ::
    "xunfei_world \<Rightarrow> int \<Rightarrow> string \<Rightarrow> GeneralOpenAIRequest \<Rightarrow> string \<Rightarrow> string \<Rightarrow> string \<Rightarrow> status_error + TextResponse \<times> Usage" where
  "xunfei_Handler W now version q appId apiSecret apiKey =
     (let (domain, authUrl) = getXunfeiAuthUrl W version apiKey apiSecret;
          no_text = ErrorWrapper ''xunfei empty response detected'' ''xunfei_empty_response_detected'' 500
      in case xunfeiMakeRequest W q domain authUrl appId of
           Inl e \<Rightarrow> Inl (ErrorWrapper e ''xunfei_request_failed'' 500)
         | Inr rs \<Rightarrow>
             (case fold xunfei_receive rs ('''', zero_usage, None) of
                (content, usage, None) \<Rightarrow> Inl no_text
              | (content, usage, Some r) \<Rightarrow>
                  (case xr_Text r of
                     [] \<Rightarrow> Inl no_text
                   | t # ts \<Rightarrow> Inr (responseXunfei2OpenAI W now (r\<lparr>xr_Text := (content, snd t) # ts\<rparr>), usage))))"


section \<open>The adaptor\<close>

text \<open>The request is kept when it is converted; the answer to sending it is a dummy.\<close>

definition xunfei_DoRequest :: "response" where
  "xunfei_DoRequest = \<lparr>rp_StatusCode = 200, rp_ContentType = '''', rp_Body = Inr '''', rp_Close = None\<rparr>"

definition xunfei_DoResponse :: "xunfei_world \<Rightarrow> int \<Rightarrow> GeneralOpenAIRequest option \<Rightarrow> Meta \<Rightarrow> status_error + Usage option" where
  "xunfei_DoResponse W now request m =
     (case Split (CHR ''|'') (m_APIKey m) of
        [appId, apiSecret, apiKey] \<Rightarrow>
          (case request of
             None \<Rightarrow> Inl (ErrorWrapper ''request is nil'' ''request_is_nil'' 400)
           | Some q \<Rightarrow>
               (let version = parseAPIVersionByModelName (m_ActualModelName m);
                    version = (if version = '''' then APIVersion (m_Config m) else version);
                    version = (if version = '''' then ''v1.1'' else version)
                in if m_IsStream m then map_sum id Some (snd (xunfei_StreamHandler W now version q appId apiSecret apiKey))
                   else map_sum id (\<lambda>(f, u). Some u) (xunfei_Handler W now version q appId apiSecret apiKey)))
      | _ \<Rightarrow> Inl (ErrorWrapper ''invalid auth'' ''invalid_auth'' 400))"


section \<open>Properties\<close>

text \<open>Without a stream, a last answer without a text (the usage alone, say) discards everything that was read.\<close>

theorem usage_only_end_discards:
  assumes "xunfeiMakeRequest W q (fst (getXunfeiAuthUrl W v k s)) (snd (getXunfeiAuthUrl W v k s)) app = Inr (rs @ [r])"
    and "xr_Text r = []"
  shows "xunfei_Handler W now v q app s k =
    Inl (ErrorWrapper ''xunfei empty response detected'' ''xunfei_empty_response_detected'' 500)"
proof -
  obtain content u l where "fold xunfei_receive rs ('''', zero_usage, None) = (content, u, l)" by (metis prod_cases3)
  then have f: "fold xunfei_receive (rs @ [r]) ('''', zero_usage, None) = (content, u, Some r)"
    by (simp add: xunfei_receive_def assms(2))
  obtain d a where g: "getXunfeiAuthUrl W v k s = (d, a)" by fastforce
  then have m: "xunfeiMakeRequest W q d a app = Inr (rs @ [r])" using assms(1) by simp
  show ?thesis by (simp add: xunfei_Handler_def Let_def g m f assms(2) del: fold_append)
qed

end
