(* ===== verification/Palm.thy ===== *)
theory Palm
  imports OpenAI
begin

text \<open>
  The interface of PaLM (\<^verbatim>\<open>relay/adaptor/palm\<close>). The service has no streams: a caller who asks for one gets the whole
  answer as a single chunk. Decoding JSON and random identities are parameters.
\<close>

section \<open>Data\<close>

record PalmMessage =
  pm_Author :: string
  pm_Content :: string

record PalmFilter =
  pf_Reason :: string
  pf_Message :: string

record PalmRequest =
  pq_Prompt :: "PalmMessage list"
  pq_Temperature :: "f64 option"
  pq_CandidateCount :: int
  pq_TopP :: "f64 option"
  pq_TopK :: int

record PalmError =
  pe_Code :: int
  pe_Message :: string
  pe_Status :: string

record PalmResponse =
  pr_Candidates :: "PalmMessage list"
  pr_Messages :: "Message list"
  pr_Filters :: "PalmFilter list"
  pr_Error :: PalmError

type_synonym palm_json = "string \<Rightarrow> string + PalmResponse"


section \<open>Requests and answers\<close>

definition palm_message :: "Message \<Rightarrow> PalmMessage" where
  "palm_message m =
     \<lparr>pm_Author = (if ms_Role m = ''user'' then ''0'' else ''1''), pm_Content = StringContent m\<rparr>"

text \<open>\<open>TopK\<close> is the limit of the tokens.\<close>

definition palm_ConvertRequest :: "GeneralOpenAIRequest \<Rightarrow> PalmRequest" where
  "palm_ConvertRequest q =
     \<lparr>pq_Prompt = map palm_message (Messages q), pq_Temperature = Temperature q, pq_CandidateCount = N_choices q,
      pq_TopP = TopP q, pq_TopK = MaxTokens q\<rparr>"

definition responsePaLM2OpenAI :: "PalmResponse \<Rightarrow> TextResponse" where
  "responsePaLM2OpenAI r =
     \<lparr>tr_Id = '''', tr_Model = '''', tr_Object = '''', tr_Created = 0,
      tr_Choices = map (\<lambda>(i, c). \<lparr>tc_Index = int i,
          tc_Message = no_message\<lparr>ms_Role := ''assistant'', ms_Content := JStr (pm_Content c)\<rparr>, tc_FinishReason = ''stop''\<rparr>)
        (enumerate 0 (pr_Candidates r)),
      tr_Usage = zero_usage\<rparr>"

definition streamResponsePaLM2OpenAI :: "PalmResponse \<Rightarrow> ChatChunk" where
  "streamResponsePaLM2OpenAI r =
     \<lparr>cc_Id = '''', cc_Object = ''chat.completion.chunk'', cc_Created = 0, cc_Model = ''palm2'',
      cc_Choices = [\<lparr>sc_Index = 0,
        sc_Delta = (case pr_Candidates r of [] \<Rightarrow> no_message | c # _ \<Rightarrow> no_message\<lparr>ms_Content := JStr (pm_Content c)\<rparr>),
        sc_FinishReason = Some ''stop''\<rparr>],
      cc_Usage = None\<rparr>"


section \<open>Handlers\<close>

text \<open>
  The chunk written, and the error or the text. A body that cannot be read but can be closed panics (\<open>None\<close>):
  the error of reading is shadowed by that of closing, which is \<open>nil\<close>.
\<close>

definition palm_StreamHandler :: "palm_json \<Rightarrow> string \<Rightarrow> int \<Rightarrow> response \<Rightarrow> ChatChunk list \<times> (status_error + string) option" where
  "palm_StreamHandler J responseId createdTime resp =
     (case (rp_Body resp, rp_Close resp) of
        (Inl _, None) \<Rightarrow> ([], None)
      | (_, Some e) \<Rightarrow> ([], Some (Inl (ErrorWrapper e ''close_response_body_failed'' 500)))
      | (Inr body, None) \<Rightarrow>
          (case J body of
             Inl e \<Rightarrow> ([], Some (Inl (ErrorWrapper e ''unmarshal_response_body_failed'' 500)))
           | Inr r \<Rightarrow>
               ([(streamResponsePaLM2OpenAI r)\<lparr>cc_Id := responseId, cc_Created := createdTime\<rparr>],
                Some (Inr (case pr_Candidates r of [] \<Rightarrow> '''' | c # _ \<Rightarrow> pm_Content c)))))"

definition palm_Handler :: "env \<Rightarrow> palm_json \<Rightarrow> response \<Rightarrow> int \<Rightarrow> string \<Rightarrow> status_error + TextResponse \<times> Usage" where
  "palm_Handler E J resp promptTokens modelName =
     (case read_json J resp of
        Inl e \<Rightarrow> Inl e
      | Inr r \<Rightarrow>
          (case pr_Candidates r of
             c # _ \<Rightarrow>
               (if pe_Code (pr_Error r) = 0 then
                  (let usage = ResponseText2Usage E (pm_Content c) modelName promptTokens
                   in Inr ((responsePaLM2OpenAI r)\<lparr>tr_Model := modelName, tr_Usage := usage\<rparr>, usage))
                else Inl (service_error (pe_Message (pr_Error r)) (pe_Status (pr_Error r)) '''' (JNum (of_int (pe_Code (pr_Error r)))) resp))
           | [] \<Rightarrow> Inl (service_error (pe_Message (pr_Error r)) (pe_Status (pr_Error r)) '''' (JNum (of_int (pe_Code (pr_Error r)))) resp)))"


section \<open>The adaptor\<close>

definition palm_GetRequestURL :: "Meta \<Rightarrow> string + string" where
  "palm_GetRequestURL m = Inr (m_BaseURL m @ ''/v1beta2/models/chat-bison-001:generateMessage'')"

definition palm_SetupRequestHeader :: "(string \<Rightarrow> string) \<Rightarrow> Meta \<Rightarrow> headers \<Rightarrow> headers" where
  "palm_SetupRequestHeader from m h = (SetupCommonRequestHeader from m h)(''x-goog-api-key'' \<mapsto> m_APIKey m)"

definition palm_DoResponse :: "env \<Rightarrow> palm_json \<Rightarrow> string \<Rightarrow> int \<Rightarrow> Meta \<Rightarrow> response \<Rightarrow> (status_error + Usage option) option" where
  "palm_DoResponse E J uuid now m resp =
     (if m_IsStream m then
        map_option (map_sum id (\<lambda>t. Some (ResponseText2Usage E t (m_ActualModelName m) (m_PromptTokens m))))
          (snd (palm_StreamHandler J (''chatcmpl-'' @ uuid) now resp))
      else Some (map_sum id (\<lambda>(r, u). Some u) (palm_Handler E J resp (m_PromptTokens m) (m_ActualModelName m))))"


section \<open>Properties\<close>

text \<open>An error of the service is an answer without a text when a stream was asked for: it is not reported.\<close>

theorem palm_stream_hides_errors:
  assumes "m_IsStream m" "rp_Body resp = Inr body" "rp_Close resp = None" "J body = Inr r" "pr_Candidates r = []"
  shows "palm_DoResponse E J uuid now m resp = Some (Inr (Some (ResponseText2Usage E '''' (m_ActualModelName m) (m_PromptTokens m))))"
  using assms by (simp add: palm_DoResponse_def palm_StreamHandler_def)

theorem palm_unread_body_panics:
  "m_IsStream m \<Longrightarrow> rp_Body resp = Inl e \<Longrightarrow> rp_Close resp = None \<Longrightarrow> palm_DoResponse E J uuid now m resp = None"
  by (simp add: palm_DoResponse_def palm_StreamHandler_def)

end
