(* ===== verification/DeepL.thy ===== *)
theory DeepL
  imports OpenAI
begin

text \<open>
  The interface of DeepL (\<^verbatim>\<open>relay/adaptor/deepl\<close>): the last message of a chat is translated into the language that the
  name of the model says. The adaptor remembers the text it sent; \<open>promptText\<close> is what it remembers.
\<close>

section \<open>Data\<close>

record DeeplRequest =
  dq_Text :: "string list"
  dq_TargetLang :: string

record Translation =
  tn_DetectedSourceLanguage :: string
  tn_Text :: string

record DeeplResponse =
  dr_Translations :: "Translation list"
  dr_Message :: string

type_synonym deepl_json = "string \<Rightarrow> string + DeeplResponse"


section \<open>Requests and answers\<close>

definition parseLangFromModelName :: "string \<Rightarrow> string" where
  "parseLangFromModelName modelName =
     (let parts = Split (CHR ''-'') modelName in if length parts = 1 then ''ZH'' else parts ! 1)"

definition deepl_convert :: "GeneralOpenAIRequest \<Rightarrow> DeeplRequest \<times> string" where
  "deepl_convert q =
     (let t = (if Messages q \<noteq> [] then StringContent (last (Messages q)) else '''')
      in (\<lparr>dq_Text = [t], dq_TargetLang = parseLangFromModelName (Model q)\<rparr>, t))"

definition translated :: "DeeplResponse \<Rightarrow> string" where
  "translated r = (case dr_Translations r of [] \<Rightarrow> '''' | t # _ \<Rightarrow> tn_Text t)"

definition StreamResponseDeepL2OpenAI :: "int \<Rightarrow> DeeplResponse \<Rightarrow> ChatChunk" where
  "StreamResponseDeepL2OpenAI now r =
     \<lparr>cc_Id = '''', cc_Object = ''chat.completion.chunk'', cc_Created = now, cc_Model = '''',
      cc_Choices = [\<lparr>sc_Index = 0,
        sc_Delta = no_message\<lparr>ms_Role := ''assistant'',
          ms_Content := (if dr_Translations r = [] then JNull else JStr (translated r))\<rparr>,
        sc_FinishReason = Some ''stop''\<rparr>],
      cc_Usage = None\<rparr>"

definition ResponseDeepL2OpenAI :: "int \<Rightarrow> DeeplResponse \<Rightarrow> TextResponse" where
  "ResponseDeepL2OpenAI now r =
     \<lparr>tr_Id = '''', tr_Model = '''', tr_Object = ''chat.completion'', tr_Created = now,
      tr_Choices = [\<lparr>tc_Index = 0, tc_Message = no_message\<lparr>ms_Role := ''assistant'', ms_Content := JStr (translated r)\<rparr>,
        tc_FinishReason = ''stop''\<rparr>],
      tr_Usage = zero_usage\<rparr>"


section \<open>Handlers\<close>

definition deepl_StreamHandler :: "deepl_json \<Rightarrow> string \<Rightarrow> int \<Rightarrow> response \<Rightarrow> string \<Rightarrow> status_error + ChatChunk" where
  "deepl_StreamHandler J responseId now resp modelName =
     map_sum id (\<lambda>r. (StreamResponseDeepL2OpenAI now r)\<lparr>cc_Model := modelName, cc_Id := responseId\<rparr>) (read_json J resp)"

definition deepl_Handler :: "deepl_json \<Rightarrow> string \<Rightarrow> int \<Rightarrow> response \<Rightarrow> string \<Rightarrow> status_error + TextResponse" where
  "deepl_Handler J responseId now resp modelName =
     (case read_json J resp of
        Inl e \<Rightarrow> Inl e
      | Inr r \<Rightarrow>
          (if dr_Message r \<noteq> '''' then Inl (service_error (dr_Message r) '''' '''' (JStr ''deepl_error'') resp)
           else Inr ((ResponseDeepL2OpenAI now r)\<lparr>tr_Model := modelName, tr_Id := responseId\<rparr>)))"


section \<open>The adaptor\<close>

definition deepl_ConvertRequest :: "GeneralOpenAIRequest \<Rightarrow> DeeplRequest \<times> string" where
  "deepl_ConvertRequest q = deepl_convert q"

definition deepl_GetRequestURL :: "Meta \<Rightarrow> string + string" where
  "deepl_GetRequestURL m = Inr (m_BaseURL m @ ''/v2/translate'')"

definition deepl_SetupRequestHeader :: "(string \<Rightarrow> string) \<Rightarrow> Meta \<Rightarrow> headers \<Rightarrow> headers" where
  "deepl_SetupRequestHeader from m h = (SetupCommonRequestHeader from m h)(''Authorization'' \<mapsto> ''DeepL-Auth-Key '' @ m_APIKey m)"

text \<open>The price is that of the bytes of the text, which are reported as tokens of the prompt.\<close>

definition deepl_DoResponse :: "deepl_json \<Rightarrow> string \<Rightarrow> int \<Rightarrow> string \<Rightarrow> Meta \<Rightarrow> response \<Rightarrow> status_error + Usage option" where
  "deepl_DoResponse J responseId now promptText m resp =
     (let err = (if m_IsStream m then map_sum id (\<lambda>_. ()) (deepl_StreamHandler J responseId now resp (m_ActualModelName m))
                 else map_sum id (\<lambda>_. ()) (deepl_Handler J responseId now resp (m_ActualModelName m)));
          promptTokens = int (length promptText)
      in map_sum id (\<lambda>_. Some \<lparr>PromptTokens = promptTokens, CompletionTokens = 0, TotalTokens = promptTokens\<rparr>) err)"


section \<open>Properties\<close>

text \<open>The refusal of the service is an empty answer when a stream was asked for, and the text is charged.\<close>

theorem deepl_stream_hides_errors:
  assumes "m_IsStream m" "read_json J resp = Inr r"
  shows "deepl_DoResponse J i now t m resp = Inr (Some \<lparr>PromptTokens = int (length t), CompletionTokens = 0, TotalTokens = int (length t)\<rparr>)"
  using assms by (simp add: deepl_DoResponse_def deepl_StreamHandler_def Let_def)

end
