(* ===== verification/Cloudflare.thy ===== *)
theory Cloudflare
  imports OpenAI
begin

text \<open>
  The interface of Cloudflare (\<^verbatim>\<open>relay/adaptor/cloudflare\<close>). Chats and embeddings are sent as they came; answers are decoded as
  those of OpenAI, with the decoders of theory \<open>OpenAI\<close> for chunks and a decoder of its own for a whole answer.
\<close>

section \<open>Requests\<close>

record CloudflareRequest =
  fq_Messages :: "Message list"
  fq_Lora :: string
  fq_MaxTokens :: int
  fq_Prompt :: string
  fq_Raw :: bool
  fq_Stream :: bool
  fq_Temperature :: "f64 option"

definition ConvertCompletionsRequest :: "GeneralOpenAIRequest \<Rightarrow> CloudflareRequest" where
  "ConvertCompletionsRequest q =
     \<lparr>fq_Messages = [], fq_Lora = '''', fq_MaxTokens = MaxTokens q, fq_Prompt = AsString (Prompt q), fq_Raw = False,
      fq_Stream = Stream q, fq_Temperature = Temperature q\<rparr>"

datatype cloudflare_request = Run_request CloudflareRequest | Same_request GeneralOpenAIRequest

definition cloudflare_ConvertRequest :: "int \<Rightarrow> GeneralOpenAIRequest \<Rightarrow> string + cloudflare_request" where
  "cloudflare_ConvertRequest relayMode q =
     (if relayMode = mode_Completions then Inr (Run_request (ConvertCompletionsRequest q))
      else if relayMode = mode_ChatCompletions \<or> relayMode = mode_Embeddings then Inr (Same_request q)
      else Inl ''not implemented'')"

definition isAIGateWay :: "string \<Rightarrow> bool" where
  "isAIGateWay baseURL \<longleftrightarrow> HasPrefix baseURL ''https://gateway.ai.cloudflare.com'' \<and> HasSuffix baseURL ''/workers-ai''"

definition cloudflare_GetRequestURL :: "Meta \<Rightarrow> string + string" where
  "cloudflare_GetRequestURL m =
     (let gateway = isAIGateWay (m_BaseURL m);
          urlPrefix = (if gateway then m_BaseURL m else m_BaseURL m @ ''/client/v4/accounts/'' @ UserID (m_Config m) @ ''/ai'')
      in Inr (if m_Mode m = mode_ChatCompletions then urlPrefix @ ''/v1/chat/completions''
              else if m_Mode m = mode_Embeddings then urlPrefix @ ''/v1/embeddings''
              else if gateway then urlPrefix @ ''/'' @ m_ActualModelName m
              else urlPrefix @ ''/run/'' @ m_ActualModelName m))"

definition cloudflare_SetupRequestHeader :: "(string \<Rightarrow> string) \<Rightarrow> Meta \<Rightarrow> headers \<Rightarrow> headers" where
  "cloudflare_SetupRequestHeader from m h = (SetupCommonRequestHeader from m h)(''Authorization'' \<mapsto> ''Bearer '' @ m_APIKey m)"


section \<open>Answers\<close>

record cloudflare_json =
  fj_chunk :: "string \<Rightarrow> ChatChunk option"
  fj_response :: "string \<Rightarrow> string + TextResponse"

text \<open>The text so far, the chunks written, and whether the end marker was read. Setting the role of a copy has no effect.\<close>

definition cloudflare_line :: "cloudflare_json \<Rightarrow> string \<Rightarrow> string \<Rightarrow> string \<Rightarrow> string \<times> ChatChunk list \<times> bool \<Rightarrow> string \<times> ChatChunk list \<times> bool" where
  "cloudflare_line J i modelName data st =
     (case st of (responseText, out, stopped) \<Rightarrow>
        (let rest = TrimSuffix (TrimPrefix data ''data: '') [CHR 0x0D]
         in if stopped \<or> length data < 6 then st
            else if rest = DONE then (responseText, out, True)
            else case fj_chunk J rest of
                None \<Rightarrow> st
              | Some r \<Rightarrow>
                  (responseText @ concat (map (\<lambda>v. StringContent (sc_Delta v)) (cc_Choices r)),
                   out @ [r\<lparr>cc_Id := i, cc_Model := modelName\<rparr>], False)))"

text \<open>The tokens of a stream are counted for the model that the caller named.\<close>

definition cloudflare_StreamHandler ::
    "env \<Rightarrow> cloudflare_json \<Rightarrow> string \<Rightarrow> string \<Rightarrow> response \<Rightarrow> int \<Rightarrow> string \<Rightarrow> ChatChunk list \<times> (status_error + Usage)" where
  "cloudflare_StreamHandler E J i responseModel resp promptTokens modelName =
     (case fold (cloudflare_line J i modelName) (map drop_cr (body_lines (stream_body resp))) ('''', [], False) of
        (responseText, out, _) \<Rightarrow> (out, close_stream resp (ResponseText2Usage E responseText responseModel promptTokens)))"

text \<open>A content that is no string panics: \<open>None\<close>.\<close>

fun cloudflare_text :: "TextChoice list \<Rightarrow> string option" where
  "cloudflare_text [] = Some ''''"
| "cloudflare_text (v # vs) =
     (case ms_Content (tc_Message v) of
        JStr t \<Rightarrow> map_option (\<lambda>ts. t @ ts) (cloudflare_text vs)
      | _ \<Rightarrow> None)"

definition cloudflare_Handler ::
    "env \<Rightarrow> cloudflare_json \<Rightarrow> string \<Rightarrow> response \<Rightarrow> int \<Rightarrow> string \<Rightarrow> (status_error + TextResponse \<times> Usage) option" where
  "cloudflare_Handler E J i resp promptTokens modelName =
     (case read_json (fj_response J) resp of
        Inl e \<Rightarrow> Some (Inl e)
      | Inr r \<Rightarrow>
          (case cloudflare_text (tr_Choices r) of
             None \<Rightarrow> None
           | Some responseText \<Rightarrow>
               (let usage = ResponseText2Usage E responseText modelName promptTokens
                in Some (Inr (r\<lparr>tr_Model := modelName, tr_Usage := usage, tr_Id := i\<rparr>, usage)))))"

definition cloudflare_DoResponse ::
    "env \<Rightarrow> cloudflare_json \<Rightarrow> string \<Rightarrow> string \<Rightarrow> Meta \<Rightarrow> response \<Rightarrow> (status_error + Usage option) option" where
  "cloudflare_DoResponse E J i original_model m resp =
     (if m_IsStream m then
        Some (map_sum id Some (snd (cloudflare_StreamHandler E J i original_model resp (m_PromptTokens m) (m_ActualModelName m))))
      else map_option (map_sum id (\<lambda>(r, u). Some u))
        (cloudflare_Handler E J i resp (m_PromptTokens m) (m_ActualModelName m)))"


section \<open>Properties\<close>

text \<open>An answer that calls a tool instead of giving a text, as the interface of OpenAI has it, panics.\<close>

theorem cloudflare_null_content_panics:
  assumes "\<not> m_IsStream m" "read_json (fj_response J) resp = Inr r" "v \<in> set (tr_Choices r)" "ms_Content (tc_Message v) = JNull"
  shows "cloudflare_DoResponse E J i om m resp = None"
proof -
  have "v \<in> set vs \<Longrightarrow> cloudflare_text vs = None" for vs
    by (induction vs) (use assms(4) in \<open>auto split: json.splits\<close>)
  then show ?thesis using assms by (simp add: cloudflare_DoResponse_def cloudflare_Handler_def)
qed

end
