(* ===== verification/Coze.thy ===== *)
theory Coze
  imports OpenAI
begin

text \<open>
  The interface of Coze (\<^verbatim>\<open>relay/adaptor/coze\<close>). Decoding JSON is a parameter. The function \<open>event2StopReason\<close> of the
  package is not called by it.
\<close>

section \<open>Data\<close>

record CozeMessage =
  ozm_Role :: string
  ozm_Type :: string
  ozm_Content :: string
  ozm_ContentType :: string

record CozeRequest =
  ozq_ConversationId :: string
  ozq_BotId :: string
  ozq_User :: string
  ozq_Query :: string
  ozq_ChatHistory :: "CozeMessage list"
  ozq_Stream :: bool

record CozeResponse =
  ozr_ConversationId :: string
  ozr_Messages :: "CozeMessage list"
  ozr_Code :: int
  ozr_Msg :: string

text \<open>The error of an event is its code and its message.\<close>

record CozeEvent =
  oze_Event :: string
  oze_Message :: "CozeMessage option"
  oze_IsFinish :: bool
  oze_Index :: int
  oze_ConversationId :: string
  oze_ErrorInformation :: "(int \<times> string) option"

record coze_json =
  ozj_event :: "string \<Rightarrow> CozeEvent option"
  ozj_response :: "string \<Rightarrow> string + CozeResponse"

definition messagetype_Answer :: string where
  "messagetype_Answer = ''answer''"

definition event2StopReason :: "string option \<Rightarrow> string" where
  "event2StopReason e = (if e = None \<or> e = Some ''message'' then '''' else ''stop'')"


section \<open>Requests and answers\<close>

definition stopReasonCoze2OpenAI :: "string option \<Rightarrow> string" where
  "stopReasonCoze2OpenAI reason =
     (case reason of
        None \<Rightarrow> ''''
      | Some r \<Rightarrow>
          (if r = ''end_turn'' then ''stop''
           else if r = ''stop_sequence'' then ''stop''
           else if r = ''max_tokens'' then ''length''
           else r))"

definition coze_message :: "Message \<Rightarrow> CozeMessage" where
  "coze_message m = \<lparr>ozm_Role = ms_Role m, ozm_Type = '''', ozm_Content = StringContent m, ozm_ContentType = ''''\<rparr>"

text \<open>The last message is the question, the others are the history.\<close>

definition coze_convert :: "GeneralOpenAIRequest \<Rightarrow> CozeRequest" where
  "coze_convert q =
     \<lparr>ozq_ConversationId = '''', ozq_BotId = TrimPrefix (Model q) ''bot-'', ozq_User = User q,
      ozq_Query = (if Messages q = [] then '''' else StringContent (last (Messages q))),
      ozq_ChatHistory = map coze_message (butlast (Messages q)), ozq_Stream = Stream q\<rparr>"

text \<open>Other messages than answers give nothing.\<close>

definition StreamResponseCoze2OpenAI :: "CozeEvent \<Rightarrow> ChatChunk option" where
  "StreamResponseCoze2OpenAI r =
     (let chunk = (\<lambda>content. \<lparr>cc_Id = oze_ConversationId r, cc_Object = ''chat.completion.chunk'', cc_Created = 0, cc_Model = '''',
            cc_Choices = [\<lparr>sc_Index = 0, sc_Delta = no_message\<lparr>ms_Role := ''assistant'', ms_Content := content\<rparr>,
              sc_FinishReason = (let finishReason = stopReasonCoze2OpenAI (Some '''')
                in if finishReason \<noteq> ''null'' then Some finishReason else None)\<rparr>],
            cc_Usage = None\<rparr>)
      in case oze_Message r of
           None \<Rightarrow> Some (chunk JNull)
         | Some m \<Rightarrow> (if ozm_Type m \<noteq> messagetype_Answer then None else Some (chunk (JStr (ozm_Content m)))))"

definition ResponseCoze2OpenAI :: "int \<Rightarrow> CozeResponse \<Rightarrow> TextResponse" where
  "ResponseCoze2OpenAI now r =
     (let responseText = (case find (\<lambda>m. ozm_Type m = messagetype_Answer) (ozr_Messages r) of None \<Rightarrow> '''' | Some m \<Rightarrow> ozm_Content m)
      in \<lparr>tr_Id = ''chatcmpl-'' @ ozr_ConversationId r, tr_Model = ''coze-bot'', tr_Object = ''chat.completion'', tr_Created = now,
          tr_Choices = [\<lparr>tc_Index = 0, tc_Message = no_message\<lparr>ms_Role := ''assistant'', ms_Content := JStr responseText\<rparr>,
            tc_FinishReason = ''stop''\<rparr>],
          tr_Usage = zero_usage\<rparr>)"


section \<open>Handlers\<close>

text \<open>A line: the text so far and the chunks written. The name of the model is never set.\<close>

definition coze_line :: "coze_json \<Rightarrow> int \<Rightarrow> string \<Rightarrow> string \<times> ChatChunk list \<Rightarrow> string \<times> ChatChunk list" where
  "coze_line J created data st =
     (if length data < 5 \<or> \<not> HasPrefix data ''data:'' then st
      else case ozj_event J (TrimSuffix (TrimPrefix data ''data:'') [CHR 0x0D]) of
        None \<Rightarrow> st
      | Some r \<Rightarrow>
          (case StreamResponseCoze2OpenAI r of
             None \<Rightarrow> st
           | Some chunk \<Rightarrow>
               (fst st @ concat (map (\<lambda>c. AsString (ms_Content (sc_Delta c))) (cc_Choices chunk)),
                snd st @ [chunk\<lparr>cc_Model := '''', cc_Created := created\<rparr>])))"

definition coze_StreamHandler :: "coze_json \<Rightarrow> int \<Rightarrow> response \<Rightarrow> ChatChunk list \<times> (status_error + string)" where
  "coze_StreamHandler J createdTime resp =
     (let st = fold (coze_line J createdTime) (map drop_cr (body_lines (stream_body resp))) ('''', [])
      in (snd st, close_stream resp (fst st)))"

definition coze_Handler :: "coze_json \<Rightarrow> int \<Rightarrow> response \<Rightarrow> string \<Rightarrow> status_error + TextResponse \<times> string" where
  "coze_Handler J now resp modelName =
     (case read_json (ozj_response J) resp of
        Inl e \<Rightarrow> Inl e
      | Inr r \<Rightarrow>
          (if ozr_Code r \<noteq> 0 then Inl (service_error (ozr_Msg r) '''' '''' (JNum (of_int (ozr_Code r))) resp)
           else (let f = (ResponseCoze2OpenAI now r)\<lparr>tr_Model := modelName\<rparr>
                 in Inr (f, case tr_Choices f of [] \<Rightarrow> '''' | c # _ \<Rightarrow> StringContent (tc_Message c)))))"


section \<open>The adaptor\<close>

definition coze_GetRequestURL :: "Meta \<Rightarrow> string + string" where
  "coze_GetRequestURL m = Inr (m_BaseURL m @ ''/open_api/v2/chat'')"

definition coze_SetupRequestHeader :: "(string \<Rightarrow> string) \<Rightarrow> Meta \<Rightarrow> headers \<Rightarrow> headers" where
  "coze_SetupRequestHeader from m h = (SetupCommonRequestHeader from m h)(''Authorization'' \<mapsto> ''Bearer '' @ m_APIKey m)"

definition coze_ConvertRequest :: "Meta \<Rightarrow> GeneralOpenAIRequest \<Rightarrow> CozeRequest" where
  "coze_ConvertRequest m q = coze_convert (q\<lparr>User := UserID (m_Config m)\<rparr>)"

definition coze_usage :: "env \<Rightarrow> Meta \<Rightarrow> string \<Rightarrow> Usage" where
  "coze_usage E m responseText =
     (let usage = ResponseText2Usage E responseText (m_ActualModelName m) (m_PromptTokens m);
          usage = usage\<lparr>PromptTokens := m_PromptTokens m\<rparr>
      in usage\<lparr>TotalTokens := wrap64 (PromptTokens usage + CompletionTokens usage)\<rparr>)"

definition coze_DoResponse :: "env \<Rightarrow> coze_json \<Rightarrow> int \<Rightarrow> Meta \<Rightarrow> response \<Rightarrow> status_error + Usage option" where
  "coze_DoResponse E J now m resp =
     map_sum id (\<lambda>t. Some (coze_usage E m t))
       (if m_IsStream m then snd (coze_StreamHandler J now resp)
        else map_sum id snd (coze_Handler J now resp (m_ActualModelName m)))"


section \<open>Properties\<close>

text \<open>Every chunk of a stream says that it is finished, with an empty reason.\<close>

theorem coze_reason_always_empty:
  "StreamResponseCoze2OpenAI r = Some c \<Longrightarrow> map sc_FinishReason (cc_Choices c) = [Some '''']"
  by (auto simp: StreamResponseCoze2OpenAI_def Let_def stopReasonCoze2OpenAI_def split: option.splits if_splits)

text \<open>Questions and history together are the messages, in their order.\<close>

theorem coze_messages_kept:
  "Messages q \<noteq> [] \<Longrightarrow> map ozm_Content (ozq_ChatHistory (coze_convert q)) @ [ozq_Query (coze_convert q)] = map StringContent (Messages q)"
  by (cases "Messages q" rule: rev_cases) (auto simp: coze_convert_def coze_message_def)

end
