(* ===== verification/AIProxy.thy ===== *)
theory AIProxy
  imports OpenAI
begin

text \<open>
  The interface of the libraries of AIProxy (\<^verbatim>\<open>relay/adaptor/aiproxy\<close>). Decoding JSON and random identities are parameters.
\<close>

section \<open>Data\<close>

record LibraryRequest =
  lbq_Model :: string
  lbq_Query :: string
  lbq_LibraryId :: string
  lbq_Stream :: bool

record LibraryDocument =
  ld_Title :: string
  ld_URL :: string

text \<open>The code and the message are those of the embedded struct of errors.\<close>

record LibraryResponse =
  lbr_Success :: bool
  lbr_Answer :: string
  lbr_Documents :: "LibraryDocument list"
  lbr_ErrCode :: int
  lbr_Message :: string

record LibraryStreamResponse =
  lbs_Content :: string
  lbs_Finish :: bool
  lbs_Model :: string
  lbs_Documents :: "LibraryDocument list"

record library_json =
  lbj_event :: "string \<Rightarrow> LibraryStreamResponse option"
  lbj_response :: "string \<Rightarrow> string + LibraryResponse"
  lbj_uuid :: "nat \<Rightarrow> string"


section \<open>Requests and answers\<close>

definition library_convert :: "GeneralOpenAIRequest \<Rightarrow> LibraryRequest" where
  "library_convert q =
     \<lparr>lbq_Model = Model q, lbq_Query = (if Messages q \<noteq> [] then StringContent (last (Messages q)) else ''''),
      lbq_LibraryId = '''', lbq_Stream = Stream q\<rparr>"

text \<open>The heading of the references, as bytes.\<close>

definition references_heading :: string where
  "references_heading = [CHR 0x0A, CHR 0x0A] @
     map char_of [0xE5, 0x8F, 0x82, 0xE8, 0x80, 0x83, 0xE6, 0x96, 0x87, 0xE6, 0xA1, 0xA3, 0xEF, 0xBC, 0x9A :: nat] @ [CHR 0x0A]"

definition aiProxyDocuments2Markdown :: "LibraryDocument list \<Rightarrow> string" where
  "aiProxyDocuments2Markdown documents =
     (if documents = [] then ''''
      else references_heading @
        concat (map (\<lambda>(i, d). Itoa (int i + 1) @ ''. ['' @ ld_Title d @ ''](''  @ ld_URL d @ '')'' @ [CHR 0x0A])
          (enumerate 0 documents)))"

definition responseAIProxyLibrary2OpenAI :: "library_json \<Rightarrow> int \<Rightarrow> LibraryResponse \<Rightarrow> TextResponse" where
  "responseAIProxyLibrary2OpenAI J now r =
     \<lparr>tr_Id = ''chatcmpl-'' @ lbj_uuid J 0, tr_Model = '''', tr_Object = ''chat.completion'', tr_Created = now,
      tr_Choices = [\<lparr>tc_Index = 0,
        tc_Message = no_message\<lparr>ms_Role := ''assistant'',
          ms_Content := JStr (lbr_Answer r @ aiProxyDocuments2Markdown (lbr_Documents r))\<rparr>,
        tc_FinishReason = ''stop''\<rparr>],
      tr_Usage = zero_usage\<rparr>"

definition library_chunk :: "library_json \<Rightarrow> nat \<Rightarrow> int \<Rightarrow> string \<Rightarrow> string \<Rightarrow> string option \<Rightarrow> ChatChunk" where
  "library_chunk J n now model content reason =
     \<lparr>cc_Id = ''chatcmpl-'' @ lbj_uuid J n, cc_Object = ''chat.completion.chunk'', cc_Created = now, cc_Model = model,
      cc_Choices = [\<lparr>sc_Index = 0, sc_Delta = no_message\<lparr>ms_Content := JStr content\<rparr>, sc_FinishReason = reason\<rparr>],
      cc_Usage = None\<rparr>"

definition documentsAIProxyLibrary :: "library_json \<Rightarrow> nat \<Rightarrow> int \<Rightarrow> LibraryDocument list \<Rightarrow> ChatChunk" where
  "documentsAIProxyLibrary J n now documents =
     library_chunk J n now '''' (aiProxyDocuments2Markdown documents) (Some ''stop'')"

definition streamResponseAIProxyLibrary2OpenAI :: "library_json \<Rightarrow> nat \<Rightarrow> int \<Rightarrow> LibraryStreamResponse \<Rightarrow> ChatChunk" where
  "streamResponseAIProxyLibrary2OpenAI J n now r = library_chunk J n now (lbs_Model r) (lbs_Content r) None"


section \<open>Handlers\<close>

text \<open>A line: the documents so far and the chunks written. Lines keep their carriage returns.\<close>

definition library_line :: "library_json \<Rightarrow> int \<Rightarrow> string \<Rightarrow> LibraryDocument list \<times> ChatChunk list \<Rightarrow> LibraryDocument list \<times> ChatChunk list" where
  "library_line J now data st =
     (if length data < 5 \<or> take 5 data \<noteq> ''data:'' then st
      else case lbj_event J (drop 5 data) of
        None \<Rightarrow> st
      | Some r \<Rightarrow>
          (if lbs_Documents r \<noteq> [] then lbs_Documents r else fst st,
           snd st @ [streamResponseAIProxyLibrary2OpenAI J (length (snd st)) now r]))"

text \<open>The usage is never set.\<close>

definition library_StreamHandler :: "library_json \<Rightarrow> int \<Rightarrow> response \<Rightarrow> ChatChunk list \<times> (status_error + Usage)" where
  "library_StreamHandler J now resp =
     (let st = fold (library_line J now) (body_lines (stream_body resp)) ([], [])
      in (snd st @ [documentsAIProxyLibrary J (length (snd st)) now (fst st)], close_stream resp zero_usage))"

definition library_Handler :: "library_json \<Rightarrow> int \<Rightarrow> string option \<Rightarrow> response \<Rightarrow> status_error + TextResponse \<times> Usage" where
  "library_Handler J now write resp =
     (case read_json (lbj_response J) resp of
        Inl e \<Rightarrow> Inl e
      | Inr r \<Rightarrow>
          (if lbr_ErrCode r \<noteq> 0 then
             Inl (service_error (lbr_Message r) (Itoa (lbr_ErrCode r)) '''' (JNum (of_int (lbr_ErrCode r))) resp)
           else case write of
             Some e \<Rightarrow> Inl (ErrorWrapper e ''write_response_body_failed'' 500)
           | None \<Rightarrow> (let f = responseAIProxyLibrary2OpenAI J now r in Inr (f, tr_Usage f))))"


section \<open>The adaptor\<close>

definition library_GetRequestURL :: "Meta \<Rightarrow> string + string" where
  "library_GetRequestURL m = Inr (m_BaseURL m @ ''/api/library/ask'')"

definition library_SetupRequestHeader :: "(string \<Rightarrow> string) \<Rightarrow> Meta \<Rightarrow> headers \<Rightarrow> headers" where
  "library_SetupRequestHeader from m h = (SetupCommonRequestHeader from m h)(''Authorization'' \<mapsto> ''Bearer '' @ m_APIKey m)"

definition library_ConvertRequest :: "Meta \<Rightarrow> GeneralOpenAIRequest \<Rightarrow> LibraryRequest" where
  "library_ConvertRequest m q = (library_convert q)\<lparr>lbq_LibraryId := LibraryID (m_Config m)\<rparr>"

definition library_DoResponse :: "env \<Rightarrow> library_json \<Rightarrow> int \<Rightarrow> Meta \<Rightarrow> response \<Rightarrow> status_error + Usage option" where
  "library_DoResponse E J now m resp =
     (if m_IsStream m then map_sum id Some (snd (library_StreamHandler J now resp))
      else map_sum id (\<lambda>(f, u). Some u) (library_Handler J now (e_write E) resp))"


section \<open>Properties\<close>

text \<open>The usage that is reported is always zero.\<close>

lemma library_usage: "library_DoResponse E J now m resp = Inr u \<Longrightarrow> u = Some zero_usage"
  by (auto simp: library_DoResponse_def library_StreamHandler_def library_Handler_def close_stream_def Let_def
      responseAIProxyLibrary2OpenAI_def split: option.splits sum.splits if_splits)

end
