(* ===== verification/ModelLists.thy ===== *)
theory ModelLists
  imports Relaymodes
begin

text \<open>
  The models that every adaptor names (\<^verbatim>\<open>constants.go\<close> of the packages under \<^verbatim>\<open>relay/adaptor\<close>), and which list belongs to which
  adaptor and kind of channel (\<open>GetModelList\<close>, \<open>GetChannelName\<close>, \<open>GetCompatibleChannelMeta\<close>).
\<close>

section \<open>The lists\<close>

definition openai_models :: "string list" where
  "openai_models = [
     ''gpt-3.5-turbo'', ''gpt-3.5-turbo-0301'', ''gpt-3.5-turbo-0613'', ''gpt-3.5-turbo-1106'',
     ''gpt-3.5-turbo-0125'', ''gpt-3.5-turbo-16k'', ''gpt-3.5-turbo-16k-0613'', ''gpt-3.5-turbo-instruct'',
     ''gpt-4'', ''gpt-4-0314'', ''gpt-4-0613'', ''gpt-4-1106-preview'', ''gpt-4-0125-preview'', ''gpt-4-32k'',
     ''gpt-4-32k-0314'', ''gpt-4-32k-0613'', ''gpt-4-turbo-preview'', ''gpt-4-turbo'', ''gpt-4-turbo-2024-04-09'',
     ''gpt-4o'', ''gpt-4o-2024-05-13'', ''gpt-4o-2024-08-06'', ''gpt-4o-2024-11-20'', ''chatgpt-4o-latest'',
     ''gpt-4o-mini'', ''gpt-4o-mini-2024-07-18'', ''gpt-4-vision-preview'', ''text-embedding-ada-002'',
     ''text-embedding-3-small'', ''text-embedding-3-large'', ''text-curie-001'', ''text-babbage-001'',
     ''text-ada-001'', ''text-davinci-002'', ''text-davinci-003'', ''text-moderation-latest'',
     ''text-moderation-stable'', ''text-davinci-edit-001'', ''davinci-002'', ''babbage-002'', ''dall-e-2'',
     ''dall-e-3'', ''whisper-1'', ''tts-1'', ''tts-1-1106'', ''tts-1-hd'', ''tts-1-hd-1106'', ''o1'',
     ''o1-2024-12-17'', ''o1-preview'', ''o1-preview-2024-09-12'', ''o1-mini'', ''o1-mini-2024-09-12'']"

definition anthropic_models :: "string list" where
  "anthropic_models = [
     ''claude-instant-1.2'', ''claude-2.0'', ''claude-2.1'', ''claude-3-haiku-20240307'',
     ''claude-3-5-haiku-20241022'', ''claude-3-5-haiku-latest'', ''claude-3-sonnet-20240229'',
     ''claude-3-opus-20240229'', ''claude-3-5-sonnet-20240620'', ''claude-3-5-sonnet-20241022'',
     ''claude-3-5-sonnet-latest'']"

definition palm_models :: "string list" where
  "palm_models = [
     ''PaLM-2'']"

definition baidu_models :: "string list" where
  "baidu_models = [
     ''ERNIE-4.0-8K'', ''ERNIE-3.5-8K'', ''ERNIE-3.5-8K-0205'', ''ERNIE-3.5-8K-1222'', ''ERNIE-Bot-8K'',
     ''ERNIE-3.5-4K-0205'', ''ERNIE-Speed-8K'', ''ERNIE-Speed-128K'', ''ERNIE-Lite-8K-0922'',
     ''ERNIE-Lite-8K-0308'', ''ERNIE-Tiny-8K'', ''BLOOMZ-7B'', ''Embedding-V1'', ''bge-large-zh'',
     ''bge-large-en'', ''tao-8k'']"

definition zhipu_models :: "string list" where
  "zhipu_models = [
     ''glm-zero-preview'', ''glm-4-plus'', ''glm-4-0520'', ''glm-4-airx'', ''glm-4-air'', ''glm-4-long'',
     ''glm-4-flashx'', ''glm-4-flash'', ''glm-4'', ''glm-3-turbo'', ''glm-4v-plus'', ''glm-4v'', ''glm-4v-flash'',
     ''cogview-3-plus'', ''cogview-3'', ''cogview-3-flash'', ''cogviewx'', ''cogviewx-flash'', ''charglm-4'',
     ''emohaa'', ''codegeex-4'', ''embedding-2'', ''embedding-3'']"

definition ali_models :: "string list" where
  "ali_models = [
     ''qwen-turbo'', ''qwen-turbo-latest'', ''qwen-plus'', ''qwen-plus-latest'', ''qwen-max'',
     ''qwen-max-latest'', ''qwen-max-longcontext'', ''qwen-vl-max'', ''qwen-vl-max-latest'', ''qwen-vl-plus'',
     ''qwen-vl-plus-latest'', ''qwen-vl-ocr'', ''qwen-vl-ocr-latest'', ''qwen-audio-turbo'', ''qwen-math-plus'',
     ''qwen-math-plus-latest'', ''qwen-math-turbo'', ''qwen-math-turbo-latest'', ''qwen-coder-plus'',
     ''qwen-coder-plus-latest'', ''qwen-coder-turbo'', ''qwen-coder-turbo-latest'', ''qwq-32b-preview'',
     ''qwen2.5-72b-instruct'', ''qwen2.5-32b-instruct'', ''qwen2.5-14b-instruct'', ''qwen2.5-7b-instruct'',
     ''qwen2.5-3b-instruct'', ''qwen2.5-1.5b-instruct'', ''qwen2.5-0.5b-instruct'', ''qwen2-72b-instruct'',
     ''qwen2-57b-a14b-instruct'', ''qwen2-7b-instruct'', ''qwen2-1.5b-instruct'', ''qwen2-0.5b-instruct'',
     ''qwen1.5-110b-chat'', ''qwen1.5-72b-chat'', ''qwen1.5-32b-chat'', ''qwen1.5-14b-chat'', ''qwen1.5-7b-chat'',
     ''qwen1.5-1.8b-chat'', ''qwen1.5-0.5b-chat'', ''qwen-72b-chat'', ''qwen-14b-chat'', ''qwen-7b-chat'',
     ''qwen-1.8b-chat'', ''qwen-1.8b-longcontext-chat'', ''qvq-72b-preview'', ''qwen2.5-vl-72b-instruct'',
     ''qwen2.5-vl-7b-instruct'', ''qwen2.5-vl-2b-instruct'', ''qwen2.5-vl-1b-instruct'',
     ''qwen2.5-vl-0.5b-instruct'', ''qwen2-vl-7b-instruct'', ''qwen2-vl-2b-instruct'', ''qwen-vl-v1'',
     ''qwen-vl-chat-v1'', ''qwen2-audio-instruct'', ''qwen-audio-chat'', ''qwen2.5-math-72b-instruct'',
     ''qwen2.5-math-7b-instruct'', ''qwen2.5-math-1.5b-instruct'', ''qwen2-math-72b-instruct'',
     ''qwen2-math-7b-instruct'', ''qwen2-math-1.5b-instruct'', ''qwen2.5-coder-32b-instruct'',
     ''qwen2.5-coder-14b-instruct'', ''qwen2.5-coder-7b-instruct'', ''qwen2.5-coder-3b-instruct'',
     ''qwen2.5-coder-1.5b-instruct'', ''qwen2.5-coder-0.5b-instruct'', ''text-embedding-v1'',
     ''text-embedding-v3'', ''text-embedding-v2'', ''text-embedding-async-v2'', ''text-embedding-async-v1'',
     ''ali-stable-diffusion-xl'', ''ali-stable-diffusion-v1.5'', ''wanx-v1'', ''qwen-mt-plus'', ''qwen-mt-turbo'',
     ''deepseek-r1'', ''deepseek-v3'', ''deepseek-r1-distill-qwen-1.5b'', ''deepseek-r1-distill-qwen-7b'',
     ''deepseek-r1-distill-qwen-14b'', ''deepseek-r1-distill-qwen-32b'', ''deepseek-r1-distill-llama-8b'',
     ''deepseek-r1-distill-llama-70b'']"

definition xunfei_models :: "string list" where
  "xunfei_models = [
     ''Spark-Lite'', ''Spark-Pro'', ''Spark-Pro-128K'', ''Spark-Max'', ''Spark-Max-32K'', ''Spark-4.0-Ultra'']"

definition tencent_models :: "string list" where
  "tencent_models = [
     ''hunyuan-lite'', ''hunyuan-standard'', ''hunyuan-standard-256K'', ''hunyuan-pro'', ''hunyuan-vision'',
     ''hunyuan-embedding'']"

definition geminiv2_models :: "string list" where
  "geminiv2_models = [
     ''gemini-pro'', ''gemini-1.0-pro'', ''gemini-1.5-flash'', ''gemini-1.5-flash-8b'', ''gemini-1.5-pro'',
     ''gemini-1.5-pro-experimental'', ''text-embedding-004'', ''aqa'', ''gemini-2.0-flash'',
     ''gemini-2.0-flash-exp'', ''gemini-2.0-flash-lite-preview-02-05'', ''gemini-2.0-flash-thinking-exp-01-21'',
     ''gemini-2.0-pro-exp-02-05'']"

definition ollama_models :: "string list" where
  "ollama_models = [
     ''codellama:7b-instruct'', ''llama2:7b'', ''llama2:latest'', ''llama3:latest'', ''phi3:latest'',
     ''qwen:0.5b-chat'', ''qwen:7b'']"

definition coze_models :: "string list" where
  "coze_models = []"

definition cloudflare_models :: "string list" where
  "cloudflare_models = [
     ''@cf/meta/llama-3.1-8b-instruct'', ''@cf/meta/llama-2-7b-chat-fp16'', ''@cf/meta/llama-2-7b-chat-int8'',
     ''@cf/mistral/mistral-7b-instruct-v0.1'', ''@hf/thebloke/deepseek-coder-6.7b-base-awq'',
     ''@hf/thebloke/deepseek-coder-6.7b-instruct-awq'', ''@cf/deepseek-ai/deepseek-math-7b-base'',
     ''@cf/deepseek-ai/deepseek-math-7b-instruct'', ''@cf/thebloke/discolm-german-7b-v1-awq'',
     ''@cf/tiiuae/falcon-7b-instruct'', ''@cf/google/gemma-2b-it-lora'', ''@hf/google/gemma-7b-it'',
     ''@cf/google/gemma-7b-it-lora'', ''@hf/nousresearch/hermes-2-pro-mistral-7b'',
     ''@hf/thebloke/llama-2-13b-chat-awq'', ''@cf/meta-llama/llama-2-7b-chat-hf-lora'',
     ''@cf/meta/llama-3-8b-instruct'', ''@hf/thebloke/llamaguard-7b-awq'',
     ''@hf/thebloke/mistral-7b-instruct-v0.1-awq'', ''@hf/mistralai/mistral-7b-instruct-v0.2'',
     ''@cf/mistral/mistral-7b-instruct-v0.2-lora'', ''@hf/thebloke/neural-chat-7b-v3-1-awq'',
     ''@cf/openchat/openchat-3.5-0106'', ''@hf/thebloke/openhermes-2.5-mistral-7b-awq'', ''@cf/microsoft/phi-2'',
     ''@cf/qwen/qwen1.5-0.5b-chat'', ''@cf/qwen/qwen1.5-1.8b-chat'', ''@cf/qwen/qwen1.5-14b-chat-awq'',
     ''@cf/qwen/qwen1.5-7b-chat-awq'', ''@cf/defog/sqlcoder-7b-2'', ''@hf/nexusflow/starling-lm-7b-beta'',
     ''@cf/tinyllama/tinyllama-1.1b-chat-v1.0'', ''@hf/thebloke/zephyr-7b-beta-awq'']"

definition deepl_models :: "string list" where
  "deepl_models = [
     ''deepl-zh'', ''deepl-en'', ''deepl-ja'']"

definition replicate_models :: "string list" where
  "replicate_models = [
     ''black-forest-labs/flux-1.1-pro'', ''black-forest-labs/flux-1.1-pro-ultra'',
     ''black-forest-labs/flux-canny-dev'', ''black-forest-labs/flux-canny-pro'',
     ''black-forest-labs/flux-depth-dev'', ''black-forest-labs/flux-depth-pro'', ''black-forest-labs/flux-dev'',
     ''black-forest-labs/flux-dev-lora'', ''black-forest-labs/flux-fill-dev'',
     ''black-forest-labs/flux-fill-pro'', ''black-forest-labs/flux-pro'', ''black-forest-labs/flux-redux-dev'',
     ''black-forest-labs/flux-redux-schnell'', ''black-forest-labs/flux-schnell'',
     ''black-forest-labs/flux-schnell-lora'', ''ideogram-ai/ideogram-v2'', ''ideogram-ai/ideogram-v2-turbo'',
     ''recraft-ai/recraft-v3'', ''recraft-ai/recraft-v3-svg'', ''stability-ai/stable-diffusion-3'',
     ''stability-ai/stable-diffusion-3.5-large'', ''stability-ai/stable-diffusion-3.5-large-turbo'',
     ''stability-ai/stable-diffusion-3.5-medium'', ''ibm-granite/granite-20b-code-instruct-8k'',
     ''ibm-granite/granite-3.0-2b-instruct'', ''ibm-granite/granite-3.0-8b-instruct'',
     ''ibm-granite/granite-8b-code-instruct-128k'', ''meta/llama-2-13b'', ''meta/llama-2-13b-chat'',
     ''meta/llama-2-70b'', ''meta/llama-2-70b-chat'', ''meta/llama-2-7b'', ''meta/llama-2-7b-chat'',
     ''meta/meta-llama-3.1-405b-instruct'', ''meta/meta-llama-3-70b'', ''meta/meta-llama-3-70b-instruct'',
     ''meta/meta-llama-3-8b'', ''meta/meta-llama-3-8b-instruct'', ''mistralai/mistral-7b-instruct-v0.2'',
     ''mistralai/mistral-7b-v0.1'', ''mistralai/mixtral-8x7b-instruct-v0.1'']"

definition ai360_models :: "string list" where
  "ai360_models = [
     ''360GPT_S2_V9'', ''embedding-bert-512-v1'', ''embedding_s1_v1'', ''semantic_similarity_s1_v1'']"

definition moonshot_models :: "string list" where
  "moonshot_models = [
     ''moonshot-v1-8k'', ''moonshot-v1-32k'', ''moonshot-v1-128k'']"

definition baichuan_models :: "string list" where
  "baichuan_models = [
     ''Baichuan2-Turbo'', ''Baichuan2-Turbo-192k'', ''Baichuan-Text-Embedding'']"

definition minimax_models :: "string list" where
  "minimax_models = [
     ''abab6.5-chat'', ''abab6.5s-chat'', ''abab6-chat'', ''abab5.5-chat'', ''abab5.5s-chat'', ''MiniMax-VL-01'',
     ''MiniMax-Text-01'']"

definition doubao_models :: "string list" where
  "doubao_models = [
     ''Doubao-pro-128k'', ''Doubao-pro-32k'', ''Doubao-pro-4k'', ''Doubao-lite-128k'', ''Doubao-lite-32k'',
     ''Doubao-lite-4k'', ''Doubao-embedding'']"

definition mistral_models :: "string list" where
  "mistral_models = [
     ''open-mistral-7b'', ''open-mixtral-8x7b'', ''mistral-small-latest'', ''mistral-medium-latest'',
     ''mistral-large-latest'', ''mistral-embed'']"

definition groq_models :: "string list" where
  "groq_models = [
     ''gemma2-9b-it'', ''llama-3.1-70b-versatile'', ''llama-3.1-8b-instant'', ''llama-3.2-11b-text-preview'',
     ''llama-3.2-11b-vision-preview'', ''llama-3.2-1b-preview'', ''llama-3.2-3b-preview'',
     ''llama-3.2-90b-text-preview'', ''llama-3.2-90b-vision-preview'', ''llama-guard-3-8b'', ''llama3-70b-8192'',
     ''llama3-8b-8192'', ''llama3-groq-70b-8192-tool-use-preview'', ''llama3-groq-8b-8192-tool-use-preview'',
     ''llava-v1.5-7b-4096-preview'', ''mixtral-8x7b-32768'', ''distil-whisper-large-v3-en'', ''whisper-large-v3'',
     ''whisper-large-v3-turbo'', ''deepseek-r1-distill-llama-70b-specdec'', ''deepseek-r1-distill-llama-70b'']"

definition lingyiwanwu_models :: "string list" where
  "lingyiwanwu_models = [
     ''yi-34b-chat-0205'', ''yi-34b-chat-200k'', ''yi-vl-plus'']"

definition stepfun_models :: "string list" where
  "stepfun_models = [
     ''step-1-8k'', ''step-1-32k'', ''step-1-128k'', ''step-1-256k'', ''step-1-flash'', ''step-2-16k'',
     ''step-1v-8k'', ''step-1v-32k'', ''step-1x-medium'']"

definition deepseek_models :: "string list" where
  "deepseek_models = [
     ''deepseek-chat'', ''deepseek-reasoner'']"

definition togetherai_models :: "string list" where
  "togetherai_models = [
     ''meta-llama/Llama-3-70b-chat-hf'', ''deepseek-ai/deepseek-coder-33b-instruct'',
     ''mistralai/Mixtral-8x22B-Instruct-v0.1'', ''Qwen/Qwen1.5-72B-Chat'']"

definition novita_models :: "string list" where
  "novita_models = [
     ''meta-llama/llama-3-8b-instruct'', ''meta-llama/llama-3-70b-instruct'',
     ''nousresearch/hermes-2-pro-llama-3-8b'', ''nousresearch/nous-hermes-llama2-13b'',
     ''mistralai/mistral-7b-instruct'', ''cognitivecomputations/dolphin-mixtral-8x22b'',
     ''sao10k/l3-70b-euryale-v2.1'', ''sophosympatheia/midnight-rose-70b'', ''gryphe/mythomax-l2-13b'',
     ''Nous-Hermes-2-Mixtral-8x7B-DPO'', ''lzlv_70b'', ''teknium/openhermes-2.5-mistral-7b'',
     ''microsoft/wizardlm-2-8x22b'']"

definition siliconflow_models :: "string list" where
  "siliconflow_models = [
     ''deepseek-ai/deepseek-llm-67b-chat'', ''Qwen/Qwen1.5-14B-Chat'', ''Qwen/Qwen1.5-7B-Chat'',
     ''Qwen/Qwen1.5-110B-Chat'', ''Qwen/Qwen1.5-32B-Chat'', ''01-ai/Yi-1.5-6B-Chat'',
     ''01-ai/Yi-1.5-9B-Chat-16K'', ''01-ai/Yi-1.5-34B-Chat-16K'', ''THUDM/chatglm3-6b'',
     ''deepseek-ai/DeepSeek-V2-Chat'', ''THUDM/glm-4-9b-chat'', ''Qwen/Qwen2-72B-Instruct'',
     ''Qwen/Qwen2-7B-Instruct'', ''Qwen/Qwen2-57B-A14B-Instruct'', ''deepseek-ai/DeepSeek-Coder-V2-Instruct'',
     ''Qwen/Qwen2-1.5B-Instruct'', ''internlm/internlm2_5-7b-chat'', ''BAAI/bge-large-en-v1.5'',
     ''BAAI/bge-large-zh-v1.5'', ''Pro/Qwen/Qwen2-7B-Instruct'', ''Pro/Qwen/Qwen2-1.5B-Instruct'',
     ''Pro/Qwen/Qwen1.5-7B-Chat'', ''Pro/THUDM/glm-4-9b-chat'', ''Pro/THUDM/chatglm3-6b'',
     ''Pro/01-ai/Yi-1.5-9B-Chat-16K'', ''Pro/01-ai/Yi-1.5-6B-Chat'', ''Pro/google/gemma-2-9b-it'',
     ''Pro/internlm/internlm2_5-7b-chat'', ''Pro/meta-llama/Meta-Llama-3-8B-Instruct'',
     ''Pro/mistralai/Mistral-7B-Instruct-v0.2'']"

definition xai_models :: "string list" where
  "xai_models = [
     ''grok-2'', ''grok-vision-beta'', ''grok-2-vision-1212'', ''grok-2-vision'', ''grok-2-vision-latest'',
     ''grok-2-1212'', ''grok-2-latest'', ''grok-beta'']"

definition baiduv2_models :: "string list" where
  "baiduv2_models = [
     ''ernie-4.0-8k-latest'', ''ernie-4.0-8k-preview'', ''ernie-4.0-8k'', ''ernie-4.0-turbo-8k-latest'',
     ''ernie-4.0-turbo-8k-preview'', ''ernie-4.0-turbo-8k'', ''ernie-4.0-turbo-128k'', ''ernie-3.5-8k-preview'',
     ''ernie-3.5-8k'', ''ernie-3.5-128k'', ''ernie-speed-8k'', ''ernie-speed-128k'', ''ernie-speed-pro-128k'',
     ''ernie-lite-8k'', ''ernie-lite-pro-128k'', ''ernie-tiny-8k'', ''ernie-char-8k'', ''ernie-char-fiction-8k'',
     ''ernie-novel-8k'', ''deepseek-v3'', ''deepseek-r1'', ''deepseek-r1-distill-qwen-32b'',
     ''deepseek-r1-distill-qwen-14b'']"

definition xunfeiv2_models :: "string list" where
  "xunfeiv2_models = [
     ''lite'', ''generalv3'', ''pro-128k'', ''generalv3.5'', ''max-32k'', ''4.0Ultra'']"

definition openrouter_models :: "string list" where
  "openrouter_models = [
     ''01-ai/yi-large'', ''aetherwiing/mn-starcannon-12b'', ''ai21/jamba-1-5-large'', ''ai21/jamba-1-5-mini'',
     ''ai21/jamba-instruct'', ''aion-labs/aion-1.0'', ''aion-labs/aion-1.0-mini'',
     ''aion-labs/aion-rp-llama-3.1-8b'', ''allenai/llama-3.1-tulu-3-405b'', ''alpindale/goliath-120b'',
     ''alpindale/magnum-72b'', ''amazon/nova-lite-v1'', ''amazon/nova-micro-v1'', ''amazon/nova-pro-v1'',
     ''anthracite-org/magnum-v2-72b'', ''anthracite-org/magnum-v4-72b'', ''anthropic/claude-2'',
     ''anthropic/claude-2.0'', ''anthropic/claude-2.0:beta'', ''anthropic/claude-2.1'',
     ''anthropic/claude-2.1:beta'', ''anthropic/claude-2:beta'', ''anthropic/claude-3-haiku'',
     ''anthropic/claude-3-haiku:beta'', ''anthropic/claude-3-opus'', ''anthropic/claude-3-opus:beta'',
     ''anthropic/claude-3-sonnet'', ''anthropic/claude-3-sonnet:beta'', ''anthropic/claude-3.5-haiku'',
     ''anthropic/claude-3.5-haiku-20241022'', ''anthropic/claude-3.5-haiku-20241022:beta'',
     ''anthropic/claude-3.5-haiku:beta'', ''anthropic/claude-3.5-sonnet'',
     ''anthropic/claude-3.5-sonnet-20240620'', ''anthropic/claude-3.5-sonnet-20240620:beta'',
     ''anthropic/claude-3.5-sonnet:beta'', ''cognitivecomputations/dolphin-mixtral-8x22b'',
     ''cognitivecomputations/dolphin-mixtral-8x7b'', ''cohere/command'', ''cohere/command-r'',
     ''cohere/command-r-03-2024'', ''cohere/command-r-08-2024'', ''cohere/command-r-plus'',
     ''cohere/command-r-plus-04-2024'', ''cohere/command-r-plus-08-2024'', ''cohere/command-r7b-12-2024'',
     ''databricks/dbrx-instruct'', ''deepseek/deepseek-chat'', ''deepseek/deepseek-chat-v2.5'',
     ''deepseek/deepseek-chat:free'', ''deepseek/deepseek-r1'', ''deepseek/deepseek-r1-distill-llama-70b'',
     ''deepseek/deepseek-r1-distill-llama-70b:free'', ''deepseek/deepseek-r1-distill-llama-8b'',
     ''deepseek/deepseek-r1-distill-qwen-1.5b'', ''deepseek/deepseek-r1-distill-qwen-14b'',
     ''deepseek/deepseek-r1-distill-qwen-32b'', ''deepseek/deepseek-r1:free'', ''eva-unit-01/eva-llama-3.33-70b'',
     ''eva-unit-01/eva-qwen-2.5-32b'', ''eva-unit-01/eva-qwen-2.5-72b'', ''google/gemini-2.0-flash-001'',
     ''google/gemini-2.0-flash-exp:free'', ''google/gemini-2.0-flash-lite-preview-02-05:free'',
     ''google/gemini-2.0-flash-thinking-exp-1219:free'', ''google/gemini-2.0-flash-thinking-exp:free'',
     ''google/gemini-2.0-pro-exp-02-05:free'', ''google/gemini-exp-1206:free'', ''google/gemini-flash-1.5'',
     ''google/gemini-flash-1.5-8b'', ''google/gemini-flash-1.5-8b-exp'', ''google/gemini-pro'',
     ''google/gemini-pro-1.5'', ''google/gemini-pro-vision'', ''google/gemma-2-27b-it'', ''google/gemma-2-9b-it'',
     ''google/gemma-2-9b-it:free'', ''google/gemma-7b-it'', ''google/learnlm-1.5-pro-experimental:free'',
     ''google/palm-2-chat-bison'', ''google/palm-2-chat-bison-32k'', ''google/palm-2-codechat-bison'',
     ''google/palm-2-codechat-bison-32k'', ''gryphe/mythomax-l2-13b'', ''gryphe/mythomax-l2-13b:free'',
     ''huggingfaceh4/zephyr-7b-beta:free'', ''infermatic/mn-inferor-12b'', ''inflection/inflection-3-pi'',
     ''inflection/inflection-3-productivity'', ''jondurbin/airoboros-l2-70b'', ''liquid/lfm-3b'',
     ''liquid/lfm-40b'', ''liquid/lfm-7b'', ''mancer/weaver'', ''meta-llama/llama-2-13b-chat'',
     ''meta-llama/llama-2-70b-chat'', ''meta-llama/llama-3-70b-instruct'', ''meta-llama/llama-3-8b-instruct'',
     ''meta-llama/llama-3-8b-instruct:free'', ''meta-llama/llama-3.1-405b'',
     ''meta-llama/llama-3.1-405b-instruct'', ''meta-llama/llama-3.1-70b-instruct'',
     ''meta-llama/llama-3.1-8b-instruct'', ''meta-llama/llama-3.2-11b-vision-instruct'',
     ''meta-llama/llama-3.2-11b-vision-instruct:free'', ''meta-llama/llama-3.2-1b-instruct'',
     ''meta-llama/llama-3.2-3b-instruct'', ''meta-llama/llama-3.2-90b-vision-instruct'',
     ''meta-llama/llama-3.3-70b-instruct'', ''meta-llama/llama-3.3-70b-instruct:free'',
     ''meta-llama/llama-guard-2-8b'', ''microsoft/phi-3-medium-128k-instruct'',
     ''microsoft/phi-3-medium-128k-instruct:free'', ''microsoft/phi-3-mini-128k-instruct'',
     ''microsoft/phi-3-mini-128k-instruct:free'', ''microsoft/phi-3.5-mini-128k-instruct'', ''microsoft/phi-4'',
     ''microsoft/wizardlm-2-7b'', ''microsoft/wizardlm-2-8x22b'', ''minimax/minimax-01'',
     ''mistralai/codestral-2501'', ''mistralai/codestral-mamba'', ''mistralai/ministral-3b'',
     ''mistralai/ministral-8b'', ''mistralai/mistral-7b-instruct'', ''mistralai/mistral-7b-instruct-v0.1'',
     ''mistralai/mistral-7b-instruct-v0.3'', ''mistralai/mistral-7b-instruct:free'', ''mistralai/mistral-large'',
     ''mistralai/mistral-large-2407'', ''mistralai/mistral-large-2411'', ''mistralai/mistral-medium'',
     ''mistralai/mistral-nemo'', ''mistralai/mistral-nemo:free'', ''mistralai/mistral-small'',
     ''mistralai/mistral-small-24b-instruct-2501'', ''mistralai/mistral-small-24b-instruct-2501:free'',
     ''mistralai/mistral-tiny'', ''mistralai/mixtral-8x22b-instruct'', ''mistralai/mixtral-8x7b'',
     ''mistralai/mixtral-8x7b-instruct'', ''mistralai/pixtral-12b'', ''mistralai/pixtral-large-2411'',
     ''neversleep/llama-3-lumimaid-70b'', ''neversleep/llama-3-lumimaid-8b'',
     ''neversleep/llama-3-lumimaid-8b:extended'', ''neversleep/llama-3.1-lumimaid-70b'',
     ''neversleep/llama-3.1-lumimaid-8b'', ''neversleep/noromaid-20b'', ''nothingiisreal/mn-celeste-12b'',
     ''nousresearch/hermes-2-pro-llama-3-8b'', ''nousresearch/hermes-3-llama-3.1-405b'',
     ''nousresearch/hermes-3-llama-3.1-70b'', ''nousresearch/nous-hermes-2-mixtral-8x7b-dpo'',
     ''nousresearch/nous-hermes-llama2-13b'', ''nvidia/llama-3.1-nemotron-70b-instruct'',
     ''nvidia/llama-3.1-nemotron-70b-instruct:free'', ''openai/chatgpt-4o-latest'', ''openai/gpt-3.5-turbo'',
     ''openai/gpt-3.5-turbo-0125'', ''openai/gpt-3.5-turbo-0613'', ''openai/gpt-3.5-turbo-1106'',
     ''openai/gpt-3.5-turbo-16k'', ''openai/gpt-3.5-turbo-instruct'', ''openai/gpt-4'', ''openai/gpt-4-0314'',
     ''openai/gpt-4-1106-preview'', ''openai/gpt-4-32k'', ''openai/gpt-4-32k-0314'', ''openai/gpt-4-turbo'',
     ''openai/gpt-4-turbo-preview'', ''openai/gpt-4o'', ''openai/gpt-4o-2024-05-13'',
     ''openai/gpt-4o-2024-08-06'', ''openai/gpt-4o-2024-11-20'', ''openai/gpt-4o-mini'',
     ''openai/gpt-4o-mini-2024-07-18'', ''openai/gpt-4o:extended'', ''openai/o1'', ''openai/o1-mini'',
     ''openai/o1-mini-2024-09-12'', ''openai/o1-preview'', ''openai/o1-preview-2024-09-12'', ''openai/o3-mini'',
     ''openai/o3-mini-high'', ''openchat/openchat-7b'', ''openchat/openchat-7b:free'', ''openrouter/auto'',
     ''perplexity/llama-3.1-sonar-huge-128k-online'', ''perplexity/llama-3.1-sonar-large-128k-chat'',
     ''perplexity/llama-3.1-sonar-large-128k-online'', ''perplexity/llama-3.1-sonar-small-128k-chat'',
     ''perplexity/llama-3.1-sonar-small-128k-online'', ''perplexity/sonar'', ''perplexity/sonar-reasoning'',
     ''pygmalionai/mythalion-13b'', ''qwen/qvq-72b-preview'', ''qwen/qwen-2-72b-instruct'',
     ''qwen/qwen-2-7b-instruct'', ''qwen/qwen-2-7b-instruct:free'', ''qwen/qwen-2-vl-72b-instruct'',
     ''qwen/qwen-2-vl-7b-instruct'', ''qwen/qwen-2.5-72b-instruct'', ''qwen/qwen-2.5-7b-instruct'',
     ''qwen/qwen-2.5-coder-32b-instruct'', ''qwen/qwen-max'', ''qwen/qwen-plus'', ''qwen/qwen-turbo'',
     ''qwen/qwen-vl-plus:free'', ''qwen/qwen2.5-vl-72b-instruct:free'', ''qwen/qwq-32b-preview'',
     ''raifle/sorcererlm-8x22b'', ''sao10k/fimbulvetr-11b-v2'', ''sao10k/l3-euryale-70b'',
     ''sao10k/l3-lunaris-8b'', ''sao10k/l3.1-70b-hanami-x1'', ''sao10k/l3.1-euryale-70b'',
     ''sao10k/l3.3-euryale-70b'', ''sophosympatheia/midnight-rose-70b'',
     ''sophosympatheia/rogue-rose-103b-v0.2:free'', ''teknium/openhermes-2.5-mistral-7b'',
     ''thedrummer/rocinante-12b'', ''thedrummer/unslopnemo-12b'', ''undi95/remm-slerp-l2-13b'',
     ''undi95/toppy-m-7b'', ''undi95/toppy-m-7b:free'', ''x-ai/grok-2-1212'', ''x-ai/grok-2-vision-1212'',
     ''x-ai/grok-beta'', ''x-ai/grok-vision-beta'', ''xwin-lm/xwin-lm-70b'']"

definition alibailian_models :: "string list" where
  "alibailian_models = [
     ''qwen-turbo'', ''qwen-plus'', ''qwen-long'', ''qwen-max'', ''qwen-coder-plus'', ''qwen-coder-plus-latest'',
     ''qwen-coder-turbo'', ''qwen-coder-turbo-latest'', ''qwen-mt-plus'', ''qwen-mt-turbo'', ''qwq-32b-preview'',
     ''deepseek-r1'', ''deepseek-v3'']"

definition vertexai_claude_models :: "string list" where
  "vertexai_claude_models = [
     ''claude-3-haiku@20240307'', ''claude-3-sonnet@20240229'', ''claude-3-opus@20240229'',
     ''claude-3-5-sonnet@20240620'', ''claude-3-5-sonnet-v2@20241022'', ''claude-3-5-haiku@20241022'']"

definition vertexai_gemini_models :: "string list" where
  "vertexai_gemini_models = [
     ''gemini-pro'', ''gemini-pro-vision'', ''gemini-exp-1206'', ''gemini-1.5-pro-001'', ''gemini-1.5-pro-002'',
     ''gemini-1.5-flash-001'', ''gemini-1.5-flash-002'', ''gemini-2.0-flash-exp'', ''gemini-2.0-flash-001'',
     ''gemini-2.0-flash-lite-preview-02-05'', ''gemini-2.0-flash-thinking-exp-01-21'']"

definition cohere_base_models :: "string list" where
  "cohere_base_models = [
     ''command'', ''command-nightly'', ''command-light'', ''command-light-nightly'', ''command-r'',
     ''command-r-plus'']"

text \<open>The package appends to its list when it is loaded.\<close>

definition cohere_models :: "string list" where
  "cohere_models = cohere_base_models @ map (\<lambda>m. m @ ''-internet'') cohere_base_models"

definition gemini_models :: "string list" where
  "gemini_models = geminiv2_models"

definition aiproxy_models :: "string list" where
  "aiproxy_models = openai_models"

definition vertexai_models :: "string list" where
  "vertexai_models = vertexai_claude_models @ vertexai_gemini_models"

text \<open>The names of the models at AWS. \<open>GetModelList\<close> collects the keys of a map, in no particular order.\<close>

definition aws_claude_ids :: "(string \<times> string) list" where
  "aws_claude_ids = [
     (''claude-instant-1.2'', ''anthropic.claude-instant-v1''),
     (''claude-2.0'', ''anthropic.claude-v2''),
     (''claude-2.1'', ''anthropic.claude-v2:1''),
     (''claude-3-haiku-20240307'', ''anthropic.claude-3-haiku-20240307-v1:0''),
     (''claude-3-sonnet-20240229'', ''anthropic.claude-3-sonnet-20240229-v1:0''),
     (''claude-3-opus-20240229'', ''anthropic.claude-3-opus-20240229-v1:0''),
     (''claude-3-5-sonnet-20240620'', ''anthropic.claude-3-5-sonnet-20240620-v1:0''),
     (''claude-3-5-sonnet-20241022'', ''anthropic.claude-3-5-sonnet-20241022-v2:0''),
     (''claude-3-5-sonnet-latest'', ''anthropic.claude-3-5-sonnet-20241022-v2:0''),
     (''claude-3-5-haiku-20241022'', ''anthropic.claude-3-5-haiku-20241022-v1:0'')]"

definition aws_llama3_ids :: "(string \<times> string) list" where
  "aws_llama3_ids = [
     (''llama3-8b-8192'', ''meta.llama3-8b-instruct-v1:0''),
     (''llama3-70b-8192'', ''meta.llama3-70b-instruct-v1:0'')]"

definition aws_models :: "string list" where
  "aws_models = map fst aws_claude_ids @ map fst aws_llama3_ids"


section \<open>Adaptors and their lists\<close>

definition CompatibleChannels :: "int list" where
  "CompatibleChannels =
    [ct_Azure, ct_AI360, ct_Moonshot, ct_Baichuan, ct_Minimax, ct_Doubao, ct_Mistral, ct_Groq, ct_LingYiWanWu, ct_StepFun,
     ct_DeepSeek, ct_TogetherAI, ct_Novita, ct_SiliconFlow, ct_XAI, ct_BaiduV2, ct_XunfeiV2]"

definition GetCompatibleChannelMeta :: "int \<Rightarrow> string \<times> string list" where
  "GetCompatibleChannelMeta channelType =
     (if channelType = ct_Azure then (''azure'', openai_models)
      else if channelType = ct_AI360 then (''360'', ai360_models)
      else if channelType = ct_Moonshot then (''moonshot'', moonshot_models)
      else if channelType = ct_Baichuan then (''baichuan'', baichuan_models)
      else if channelType = ct_Minimax then (''minimax'', minimax_models)
      else if channelType = ct_Mistral then (''mistralai'', mistral_models)
      else if channelType = ct_Groq then (''groq'', groq_models)
      else if channelType = ct_LingYiWanWu then (''lingyiwanwu'', lingyiwanwu_models)
      else if channelType = ct_StepFun then (''stepfun'', stepfun_models)
      else if channelType = ct_DeepSeek then (''deepseek'', deepseek_models)
      else if channelType = ct_TogetherAI then (''together.ai'', togetherai_models)
      else if channelType = ct_Doubao then (''doubao'', doubao_models)
      else if channelType = ct_Novita then (''novita'', novita_models)
      else if channelType = ct_SiliconFlow then (''siliconflow'', siliconflow_models)
      else if channelType = ct_XAI then (''xai'', xai_models)
      else if channelType = ct_BaiduV2 then (''baiduv2'', baiduv2_models)
      else if channelType = ct_XunfeiV2 then (''xunfeiv2'', xunfeiv2_models)
      else if channelType = ct_OpenRouter then (''openrouter'', openrouter_models)
      else if channelType = ct_AliBailian then (''alibailian'', alibailian_models)
      else if channelType = ct_GeminiOpenAICompatible then (''geminiv2'', geminiv2_models)
      else (''openai'', openai_models))"

text \<open>The name and the list of an adaptor; that of OpenAI depends on the kind of channel it was initialised with.\<close>

definition adaptor_meta :: "adaptor \<Rightarrow> int \<Rightarrow> string \<times> string list" where
  "adaptor_meta a channelType =
     (case a of
        AIProxyAdaptor \<Rightarrow> (''aiproxy'', aiproxy_models)
      | AliAdaptor \<Rightarrow> (''ali'', ali_models)
      | AnthropicAdaptor \<Rightarrow> (''anthropic'', anthropic_models)
      | AwsAdaptor \<Rightarrow> (''aws'', aws_models)
      | BaiduAdaptor \<Rightarrow> (''baidu'', baidu_models)
      | GeminiAdaptor \<Rightarrow> (''google gemini'', gemini_models)
      | OpenAIAdaptor \<Rightarrow> GetCompatibleChannelMeta channelType
      | PaLMAdaptor \<Rightarrow> (''google palm'', palm_models)
      | TencentAdaptor \<Rightarrow> (''tencent'', tencent_models)
      | XunfeiAdaptor \<Rightarrow> (''xunfei'', xunfei_models)
      | ZhipuAdaptor \<Rightarrow> (''zhipu'', zhipu_models)
      | OllamaAdaptor \<Rightarrow> (''ollama'', ollama_models)
      | CozeAdaptor \<Rightarrow> (''coze'', coze_models)
      | CohereAdaptor \<Rightarrow> (''Cohere'', cohere_models)
      | CloudflareAdaptor \<Rightarrow> (''cloudflare'', cloudflare_models)
      | DeepLAdaptor \<Rightarrow> (''deepl'', deepl_models)
      | VertexAIAdaptor \<Rightarrow> (''vertexai'', vertexai_models)
      | ProxyAdaptor \<Rightarrow> (''proxy'', [])
      | ReplicateAdaptor \<Rightarrow> (''replicate'', replicate_models))"

definition GetChannelName :: "adaptor \<Rightarrow> int \<Rightarrow> string" where
  "GetChannelName a channelType = fst (adaptor_meta a channelType)"

definition GetModelList :: "adaptor \<Rightarrow> int \<Rightarrow> string list" where
  "GetModelList a channelType = snd (adaptor_meta a channelType)"

end
