(* ===== verification/VertexAI.thy ===== *)
theory VertexAI
  imports Claude Gemini ModelLists
begin

text \<open>
  The interface of Vertex AI (\<^verbatim>\<open>relay/adaptor/vertexai\<close>): Claude and Gemini behind the addresses of Google, with the access token
  of a service account. The token cache keeps a token for fifty minutes under the number of the channel; Google's
  client, decoding JSON and the clock are parameters.
\<close>

section \<open>Data\<close>

text \<open>The caller's list of tools and its limits are copied, the choice of a tool and the stop sequences are not.\<close>

record VertexClaudeRequest =
  vc_AnthropicVersion :: string
  vc_Messages :: "ClaudeMessage list"
  vc_System :: string
  vc_MaxTokens :: int
  vc_StopSequences :: "string list"
  vc_Stream :: bool
  vc_Temperature :: "f64 option"
  vc_TopP :: "f64 option"
  vc_TopK :: int
  vc_Tools :: "ClaudeTool list"
  vc_ToolChoice :: "(string \<times> string) option"

definition vertex_claude_request :: "ClaudeRequest \<Rightarrow> VertexClaudeRequest" where
  "vertex_claude_request r =
     \<lparr>vc_AnthropicVersion = ''vertex-2023-10-16'', vc_Messages = cq_Messages r, vc_System = cq_System r,
      vc_MaxTokens = cq_MaxTokens r, vc_StopSequences = [], vc_Stream = cq_Stream r, vc_Temperature = cq_Temperature r,
      vc_TopP = cq_TopP r, vc_TopK = cq_TopK r, vc_Tools = cq_Tools r, vc_ToolChoice = None\<rparr>"

text \<open>Which of the two a model belongs to; Gemini's list is written over Claude's.\<close>

datatype vertex_adapter = VertexClaude | VertexGemini

definition vertex_GetAdaptor :: "string \<Rightarrow> vertex_adapter option" where
  "vertex_GetAdaptor model =
     (if model \<in> set vertexai_gemini_models then Some VertexGemini
      else if model \<in> set vertexai_claude_models then Some VertexClaude
      else None)"

datatype vertex_request = Claude_request VertexClaudeRequest | Gemini_request ChatRequest

text \<open>\<open>None\<close> is a panic of a conversion. \<open>cfg\<close> and \<open>given\<close> are those of Gemini's conversion.\<close>

definition vertex_ConvertRequest ::
    "claude_json \<Rightarrow> gemini_json \<Rightarrow> config \<Rightarrow> bool \<Rightarrow> GeneralOpenAIRequest \<Rightarrow> (string + vertex_request) option" where
  "vertex_ConvertRequest CJ GJ cfg given q =
     (case vertex_GetAdaptor (Model q) of
        None \<Rightarrow> Some (Inl ''adaptor not found'')
      | Some VertexClaude \<Rightarrow> map_option (\<lambda>r. Inr (Claude_request (vertex_claude_request r))) (claude_ConvertRequest CJ q)
      | Some VertexGemini \<Rightarrow> map_option (\<lambda>r. Inr (Gemini_request r)) (gemini_ConvertRequest GJ cfg given q))"


section \<open>Addresses and tokens\<close>

definition vertex_suffix :: "Meta \<Rightarrow> string" where
  "vertex_suffix m =
     (if HasPrefix (m_ActualModelName m) ''gemini''
      then (if m_IsStream m then ''streamGenerateContent?alt=sse'' else ''generateContent'')
      else (if m_IsStream m then ''streamRawPredict?alt=sse'' else ''rawPredict''))"

definition vertex_GetRequestURL :: "Meta \<Rightarrow> string + string" where
  "vertex_GetRequestURL m =
     (let path = ''/v1/projects/'' @ VertexAIProjectID (m_Config m) @ ''/locations/'' @ Region (m_Config m) @
        ''/publishers/google/models/'' @ m_ActualModelName m @ '':'' @ vertex_suffix m
      in Inr (if m_BaseURL m \<noteq> '''' then m_BaseURL m @ path
              else ''https://'' @ Region (m_Config m) @ ''-aiplatform.googleapis.com'' @ path))"

text \<open>A cached token and when it expires, in nanoseconds; the record has the client's three steps.\<close>

type_synonym token_cache = "string \<rightharpoonup> string \<times> int"

record google_client =
  gc_email :: "string \<Rightarrow> string + string"
  gc_client :: "string \<Rightarrow> string option"
  gc_token :: "string \<Rightarrow> string + string"

definition vertex_token_key :: "int \<Rightarrow> string" where
  "vertex_token_key channelId = ''vertexai-token-'' @ Itoa channelId"

definition getToken :: "google_client \<Rightarrow> int \<Rightarrow> int \<Rightarrow> string \<Rightarrow> token_cache \<Rightarrow> (string + string) \<times> token_cache" where
  "getToken G now channelId adcJson cache =
     (let fetch = (case gc_email G adcJson of
            Inl e \<Rightarrow> (Inl (''Failed to decode credentials file: '' @ e), cache)
          | Inr email \<Rightarrow>
              (case gc_client G adcJson of
                 Some e \<Rightarrow> (Inl (''Failed to create client: '' @ e), cache)
               | None \<Rightarrow>
                   (case gc_token G (''projects/-/serviceAccounts/'' @ email) of
                      Inl e \<Rightarrow> (Inl (''Failed to generate access token: '' @ e), cache)
                    | Inr t \<Rightarrow> (Inr t, cache(vertex_token_key channelId \<mapsto> (t, now + 50 * 60 * second))))))
      in case cache (vertex_token_key channelId) of
           None \<Rightarrow> fetch
         | Some (t, expiry) \<Rightarrow> (if expiry < now then fetch else (Inr t, cache)))"

definition vertex_SetupRequestHeader ::
    "google_client \<Rightarrow> int \<Rightarrow> (string \<Rightarrow> string) \<Rightarrow> Meta \<Rightarrow> headers \<Rightarrow> token_cache \<Rightarrow> (string + headers) \<times> token_cache" where
  "vertex_SetupRequestHeader G now from m h cache =
     (case getToken G now (m_ChannelId m) (VertexAIADC (m_Config m)) cache of
        (Inl e, cache) \<Rightarrow> (Inl e, cache)
      | (Inr t, cache) \<Rightarrow> (Inr ((SetupCommonRequestHeader from m h)(''Authorization'' \<mapsto> ''Bearer '' @ t)), cache))"


section \<open>Answers\<close>

definition vertex_claude_DoResponse :: "claude_json \<Rightarrow> int \<Rightarrow> Meta \<Rightarrow> response \<Rightarrow> (status_error + Usage option) option" where
  "vertex_claude_DoResponse J now m resp =
     (if m_IsStream m then map_option (map_sum id Some) (snd (claude_StreamHandler J now resp))
      else Some (map_sum id (\<lambda>(r, u). Some u) (claude_Handler J now resp (m_ActualModelName m))))"

definition vertex_gemini_DoResponse :: "env \<Rightarrow> gemini_json \<Rightarrow> int \<Rightarrow> Meta \<Rightarrow> response \<Rightarrow> status_error + Usage option" where
  "vertex_gemini_DoResponse E J now m resp =
     (if m_IsStream m then
        map_sum id (\<lambda>t. Some (ResponseText2Usage E t (m_ActualModelName m) (m_PromptTokens m))) (snd (gemini_StreamHandler J now resp))
      else if m_Mode m = mode_Embeddings then map_sum id (\<lambda>(r, u). Some u) (gemini_EmbeddingHandler J resp)
      else map_sum id (\<lambda>(r, u). Some u) (gemini_Handler E J now resp (m_PromptTokens m) (m_ActualModelName m)))"

definition vertex_DoResponse ::
    "env \<Rightarrow> claude_json \<Rightarrow> gemini_json \<Rightarrow> int \<Rightarrow> Meta \<Rightarrow> response \<Rightarrow> (status_error + Usage option) option" where
  "vertex_DoResponse E CJ GJ now m resp =
     (case vertex_GetAdaptor (m_ActualModelName m) of
        None \<Rightarrow> Some (Inl \<lparr>se_Error = \<lparr>er_Message = ''adaptor not found'', er_Type = '''', er_Param = '''', er_Code = JNull\<rparr>,
          se_StatusCode = 500\<rparr>)
      | Some VertexClaude \<Rightarrow> vertex_claude_DoResponse CJ now m resp
      | Some VertexGemini \<Rightarrow> Some (vertex_gemini_DoResponse E GJ now m resp))"


section \<open>Properties\<close>

text \<open>The two interfaces behind Vertex AI answer as they do on their own.\<close>

theorem vertex_answers_as_direct:
  "vertex_GetAdaptor (m_ActualModelName m) = Some VertexClaude \<Longrightarrow> vertex_DoResponse E CJ GJ now m resp = claude_DoResponse CJ now m resp"
  "vertex_GetAdaptor (m_ActualModelName m) = Some VertexGemini \<Longrightarrow>
     vertex_DoResponse E CJ GJ now m resp = Some (gemini_DoResponse E GJ now m resp)"
  by (auto simp: vertex_DoResponse_def vertex_claude_DoResponse_def vertex_gemini_DoResponse_def claude_DoResponse_def
      gemini_DoResponse_def split: option.splits sum.splits prod.splits)

text \<open>A token is used until it expires, whatever credentials the channel has been given since.\<close>

theorem vertex_old_token_used:
  "cache (vertex_token_key i) = Some (t, expiry) \<Longrightarrow> now \<le> expiry \<Longrightarrow> getToken G now i adc cache = (Inr t, cache)"
  by (simp add: getToken_def Let_def)

text \<open>A choice of a tool never reaches Claude at Vertex AI.\<close>

theorem vertex_choice_lost:
  "vertex_ConvertRequest CJ GJ cfg given q = Some (Inr (Claude_request r)) \<Longrightarrow> vc_ToolChoice r = None"
  by (auto simp: vertex_ConvertRequest_def vertex_claude_request_def split: option.splits vertex_adapter.splits)

end
