(* ===== verification/Aws.thy ===== *)
theory Aws
  imports Claude ModelLists
begin

text \<open>
  The interface of AWS Bedrock (\<^verbatim>\<open>relay/adaptor/aws\<close>): Claude and Llama 3 behind the client of AWS. The client is the record
  \<open>aws_client\<close> of parameters, as are JSON and random identities; a stream is the list of its events up to where the
  channel of the client is closed. \<open>DoRequest\<close> sends nothing: the call is made by \<open>DoResponse\<close>.
\<close>

section \<open>Data\<close>

record AwsClaudeRequest =
  ac_AnthropicVersion :: string
  ac_Messages :: "ClaudeMessage list"
  ac_System :: string
  ac_MaxTokens :: int
  ac_Temperature :: "f64 option"
  ac_TopP :: "f64 option"
  ac_TopK :: int
  ac_StopSequences :: "string list"
  ac_Tools :: "ClaudeTool list"
  ac_ToolChoice :: "(string \<times> string) option"

record LlamaRequest =
  lq_Prompt :: string
  lq_MaxGenLen :: int
  lq_Temperature :: "f64 option"
  lq_TopP :: "f64 option"

text \<open>Of a whole answer and of a piece of a stream alike.\<close>

record LlamaResponse =
  lr_Generation :: string
  lr_PromptTokenCount :: int
  lr_GenerationTokenCount :: int
  lr_StopReason :: string

text \<open>An event of a stream: a chunk with its bytes, or a member of the union that is not known.\<close>

datatype aws_event = Chunk_event string | Unknown_event

text \<open>A model and a body give the body of the answer, or the events of a stream.\<close>

record aws_client =
  aw_invoke :: "string \<Rightarrow> string \<Rightarrow> string + string"
  aw_stream :: "string \<Rightarrow> string \<Rightarrow> string + aws_event list"
  aw_marshal_claude :: "AwsClaudeRequest \<Rightarrow> string + string"
  aw_marshal_llama :: "LlamaRequest \<Rightarrow> string + string"
  aw_llama :: "string \<Rightarrow> string + LlamaResponse"
  aw_uuid :: "nat \<Rightarrow> string"

definition WrapErr :: "string \<Rightarrow> status_error" where
  "WrapErr e = \<lparr>se_Error = \<lparr>er_Message = e, er_Type = '''', er_Param = '''', er_Code = JNull\<rparr>, se_StatusCode = 500\<rparr>"

text \<open>\<open>errors.Wrap\<close>.\<close>

definition wrapped :: "string \<Rightarrow> string \<Rightarrow> status_error" where
  "wrapped what e = WrapErr (what @ '': '' @ e)"

definition awsModelID :: "(string \<times> string) list \<Rightarrow> string \<Rightarrow> string + string" where
  "awsModelID ids requestModel =
     (case map_of ids requestModel of
        Some i \<Rightarrow> Inr i
      | None \<Rightarrow> Inl (''model '' @ requestModel @ '' not found''))"

text \<open>The events that were read, decoded, and whether the end of the stream was reached.\<close>

fun aws_chunks :: "(string \<Rightarrow> 'a option) \<Rightarrow> aws_event list \<Rightarrow> 'a list \<times> bool" where
  "aws_chunks decode [] = ([], True)"
| "aws_chunks decode (Unknown_event # es) = ([], False)"
| "aws_chunks decode (Chunk_event b # es) =
     (case decode b of
        None \<Rightarrow> ([], False)
      | Some r \<Rightarrow> (case aws_chunks decode es of (rs, ended) \<Rightarrow> (r # rs, ended)))"


section \<open>Claude\<close>

definition aws_claude_request :: "ClaudeRequest \<Rightarrow> AwsClaudeRequest" where
  "aws_claude_request q =
     \<lparr>ac_AnthropicVersion = ''bedrock-2023-05-31'', ac_Messages = cq_Messages q, ac_System = cq_System q,
      ac_MaxTokens = cq_MaxTokens q, ac_Temperature = cq_Temperature q, ac_TopP = cq_TopP q, ac_TopK = cq_TopK q,
      ac_StopSequences = cq_StopSequences q, ac_Tools = cq_Tools q, ac_ToolChoice = cq_ToolChoice q\<rparr>"

text \<open>The identity of the model and the body: what both handlers prepare.\<close>

definition aws_prepare :: "(string \<times> string) list \<Rightarrow> string \<Rightarrow> 'q option \<Rightarrow> ('q \<Rightarrow> string + string) \<Rightarrow> status_error + string \<times> string" where
  "aws_prepare ids requestModel converted marshal =
     (case awsModelID ids requestModel of
        Inl e \<Rightarrow> Inl (wrapped ''awsModelID'' e)
      | Inr awsModelId \<Rightarrow>
          (case converted of
             None \<Rightarrow> Inl (WrapErr ''request not found'')
           | Some q \<Rightarrow>
               (case marshal q of
                  Inl e \<Rightarrow> Inl (wrapped ''marshal request'' e)
                | Inr body \<Rightarrow> Inr (awsModelId, body))))"

definition aws_claude_Handler ::
    "aws_client \<Rightarrow> claude_json \<Rightarrow> int \<Rightarrow> string \<Rightarrow> ClaudeRequest option \<Rightarrow> string \<Rightarrow> status_error + TextResponse \<times> Usage" where
  "aws_claude_Handler W J now requestModel converted modelName =
     (case aws_prepare aws_claude_ids requestModel converted (\<lambda>q. aw_marshal_claude W (aws_claude_request q)) of
        Inl e \<Rightarrow> Inl e
      | Inr (awsModelId, body) \<Rightarrow>
          (case aw_invoke W awsModelId body of
             Inl e \<Rightarrow> Inl (wrapped ''InvokeModel'' e)
           | Inr reply_body \<Rightarrow>
               (case cj_response J reply_body of
                  Inl e \<Rightarrow> Inl (wrapped ''unmarshal response'' e)
                | Inr r \<Rightarrow>
                    (let usage = \<lparr>PromptTokens = cu_InputTokens (cr_Usage r), CompletionTokens = cu_OutputTokens (cr_Usage r),
                           TotalTokens = wrap64 (cu_InputTokens (cr_Usage r) + cu_OutputTokens (cr_Usage r))\<rparr>
                     in Inr ((ResponseClaude2OpenAI J now r)\<lparr>tr_Model := modelName, tr_Usage := usage\<rparr>, usage)))))"

text \<open>One event. The name of the model is that of the caller; only the identity is taken from the first event.\<close>

definition aws_claude_event :: "int \<Rightarrow> StreamResponse \<Rightarrow> claude_stream \<Rightarrow> claude_stream" where
  "aws_claude_event created r st =
     (if cs_panic st then st
      else case StreamResponseClaude2OpenAI r of
        (response, None) \<Rightarrow> claude_emit created response st
      | (response, Some m) \<Rightarrow>
          (let st = st\<lparr>cs_usage := add_usage (cr_Usage m) (cs_usage st)\<rparr>
           in if cr_Id m \<noteq> '''' then st\<lparr>cs_id := ''chatcmpl-'' @ cr_Id m\<rparr>
              else if cs_tools st \<noteq> [] \<and> tool_arguments (last (cs_tools st)) = '''' then
                (case response of
                   None \<Rightarrow> st\<lparr>cs_panic := True\<rparr>
                 | Some c \<Rightarrow>
                     (let ts = fill_arguments (cs_tools st)
                      in claude_emit created (Some (with_tools ts c)) (st\<lparr>cs_tools := ts\<rparr>)))
              else claude_emit created response st))"

text \<open>The chunks and whether the end marker follows; the error or the usage, \<open>None\<close> for a panic.\<close>

definition aws_claude_StreamHandler ::
    "aws_client \<Rightarrow> claude_json \<Rightarrow> int \<Rightarrow> string \<Rightarrow> ClaudeRequest option \<Rightarrow> string \<Rightarrow>
     (ChatChunk list \<times> bool) \<times> (status_error + Usage) option" where
  "aws_claude_StreamHandler W J createdTime requestModel converted originalModel =
     (case aws_prepare aws_claude_ids requestModel converted (\<lambda>q. aw_marshal_claude W (aws_claude_request q)) of
        Inl e \<Rightarrow> (([], False), Some (Inl e))
      | Inr (awsModelId, body) \<Rightarrow>
          (case aw_stream W awsModelId body of
             Inl e \<Rightarrow> (([], False), Some (Inl (wrapped ''InvokeModelWithResponseStream'' e)))
           | Inr events \<Rightarrow>
               (case aws_chunks (cj_event J) events of
                  (rs, ended) \<Rightarrow>
                    (let st = fold (aws_claude_event createdTime) rs (claude_start\<lparr>cs_model := originalModel\<rparr>)
                     in ((cs_out st, ended), if cs_panic st then None else Some (Inr (cs_usage st)))))))"


section \<open>Llama 3\<close>

text \<open>The template of the prompt.\<close>

definition RenderPrompt :: "Message list \<Rightarrow> string" where
  "RenderPrompt ms =
     ''<|begin_of_text|>'' @
     concat (map (\<lambda>m. ''<|start_header_id|>'' @ ms_Role m @ ''<|end_header_id|>'' @ StringContent m @ ''<|eot_id|>'') ms) @
     ''<|start_header_id|>assistant<|end_header_id|>'' @ [CHR 0x0A]"

definition llama_ConvertRequest :: "GeneralOpenAIRequest \<Rightarrow> LlamaRequest" where
  "llama_ConvertRequest q =
     \<lparr>lq_Prompt = RenderPrompt (Messages q), lq_MaxGenLen = (if MaxTokens q = 0 then 2048 else MaxTokens q),
      lq_Temperature = Temperature q, lq_TopP = TopP q\<rparr>"

definition ResponseLlama2OpenAI :: "aws_client \<Rightarrow> int \<Rightarrow> LlamaResponse \<Rightarrow> TextResponse" where
  "ResponseLlama2OpenAI W now r =
     \<lparr>tr_Id = ''chatcmpl-'' @ aw_uuid W 0, tr_Model = '''', tr_Object = ''chat.completion'', tr_Created = now,
      tr_Choices = [\<lparr>tc_Index = 0,
        tc_Message = no_message\<lparr>ms_Role := ''assistant'', ms_Content := JStr (lr_Generation r)\<rparr>,
        tc_FinishReason = lr_StopReason r\<rparr>],
      tr_Usage = zero_usage\<rparr>"

definition StreamResponseLlama2OpenAI :: "LlamaResponse \<Rightarrow> ChatChunk" where
  "StreamResponseLlama2OpenAI r =
     \<lparr>cc_Id = '''', cc_Object = ''chat.completion.chunk'', cc_Created = 0, cc_Model = '''',
      cc_Choices = [\<lparr>sc_Index = 0,
        sc_Delta = no_message\<lparr>ms_Role := ''assistant'', ms_Content := JStr (lr_Generation r)\<rparr>,
        sc_FinishReason = (if lr_StopReason r \<noteq> ''null'' then Some (lr_StopReason r) else None)\<rparr>],
      cc_Usage = None\<rparr>"

definition llama_Handler ::
    "aws_client \<Rightarrow> int \<Rightarrow> string \<Rightarrow> LlamaRequest option \<Rightarrow> string \<Rightarrow> status_error + TextResponse \<times> Usage" where
  "llama_Handler W now requestModel converted modelName =
     (case aws_prepare aws_llama3_ids requestModel converted (aw_marshal_llama W) of
        Inl e \<Rightarrow> Inl e
      | Inr (awsModelId, body) \<Rightarrow>
          (case aw_invoke W awsModelId body of
             Inl e \<Rightarrow> Inl (wrapped ''InvokeModel'' e)
           | Inr reply_body \<Rightarrow>
               (case aw_llama W reply_body of
                  Inl e \<Rightarrow> Inl (wrapped ''unmarshal response'' e)
                | Inr r \<Rightarrow>
                    (let usage = \<lparr>PromptTokens = lr_PromptTokenCount r, CompletionTokens = lr_GenerationTokenCount r,
                           TotalTokens = wrap64 (lr_PromptTokenCount r + lr_GenerationTokenCount r)\<rparr>
                     in Inr ((ResponseLlama2OpenAI W now r)\<lparr>tr_Model := modelName, tr_Usage := usage\<rparr>, usage)))))"

text \<open>What a piece of a stream does to the usage: the written tokens count only in a piece that says \<open>stop\<close>.\<close>

definition llama_usage :: "LlamaResponse \<Rightarrow> Usage \<Rightarrow> Usage" where
  "llama_usage r u =
     (let u = (if 0 < lr_PromptTokenCount r then u\<lparr>PromptTokens := lr_PromptTokenCount r\<rparr> else u)
      in if lr_StopReason r = ''stop''
         then u\<lparr>CompletionTokens := lr_GenerationTokenCount r,
                TotalTokens := wrap64 (PromptTokens u + lr_GenerationTokenCount r)\<rparr> else u)"

definition llama_StreamHandler ::
    "aws_client \<Rightarrow> int \<Rightarrow> string \<Rightarrow> LlamaRequest option \<Rightarrow> string \<Rightarrow> (ChatChunk list \<times> bool) \<times> (status_error + Usage)" where
  "llama_StreamHandler W createdTime requestModel converted originalModel =
     (case aws_prepare aws_llama3_ids requestModel converted (aw_marshal_llama W) of
        Inl e \<Rightarrow> (([], False), Inl e)
      | Inr (awsModelId, body) \<Rightarrow>
          (case aw_stream W awsModelId body of
             Inl e \<Rightarrow> (([], False), Inl (wrapped ''InvokeModelWithResponseStream'' e))
           | Inr events \<Rightarrow>
               (case aws_chunks (\<lambda>b. case aw_llama W b of Inl e \<Rightarrow> None | Inr r \<Rightarrow> Some r) events of
                  (rs, ended) \<Rightarrow>
                    ((map (\<lambda>(i, r). (StreamResponseLlama2OpenAI r)\<lparr>cc_Id := ''chatcmpl-'' @ aw_uuid W i, cc_Model := originalModel,
                        cc_Created := createdTime\<rparr>) (enumerate 0 rs), ended),
                     Inr (fold llama_usage rs zero_usage)))))"


section \<open>The adaptor\<close>

text \<open>Which of the two a model belongs to; the second map is written over the first.\<close>

datatype aws_adapter = ClaudeAdapter | LlamaAdapter

definition aws_GetAdaptor :: "string \<Rightarrow> aws_adapter option" where
  "aws_GetAdaptor model =
     (if model \<in> set (map fst aws_llama3_ids) then Some LlamaAdapter
      else if model \<in> set (map fst aws_claude_ids) then Some ClaudeAdapter
      else None)"

text \<open>What the adaptor and the context remember of the conversion: the adapter, the name of the model, the request.\<close>

datatype aws_state =
    Not_converted
  | Claude_converted string ClaudeRequest
  | Llama_converted string LlamaRequest

text \<open>\<open>None\<close> is the panic of a conversion of Claude.\<close>

definition aws_ConvertRequest :: "claude_json \<Rightarrow> GeneralOpenAIRequest \<Rightarrow> (string + aws_state) option" where
  "aws_ConvertRequest J q =
     (case aws_GetAdaptor (Model q) of
        None \<Rightarrow> Some (Inl ''adaptor not found'')
      | Some ClaudeAdapter \<Rightarrow> map_option (\<lambda>r. Inr (Claude_converted (Model q) r)) (claude_ConvertRequest J q)
      | Some LlamaAdapter \<Rightarrow> Some (Inr (Llama_converted (Model q) (llama_ConvertRequest q))))"

definition aws_DoRequest :: "Meta \<Rightarrow> body \<Rightarrow> string + response option" where
  "aws_DoRequest m b = Inr None"

definition aws_DoResponse ::
    "aws_client \<Rightarrow> claude_json \<Rightarrow> int \<Rightarrow> string \<Rightarrow> aws_state \<Rightarrow> Meta \<Rightarrow> (status_error + Usage option) option" where
  "aws_DoResponse W J now originalModel st m =
     (case st of
        Not_converted \<Rightarrow> Some (Inl (WrapErr ''awsAdapter is nil''))
      | Claude_converted requestModel q \<Rightarrow>
          (if m_IsStream m then
             map_option (map_sum id Some) (snd (aws_claude_StreamHandler W J now requestModel (Some q) originalModel))
           else Some (map_sum id (\<lambda>(r, u). Some u) (aws_claude_Handler W J now requestModel (Some q) (m_ActualModelName m))))
      | Llama_converted requestModel q \<Rightarrow>
          Some (if m_IsStream m then map_sum id Some (snd (llama_StreamHandler W now requestModel (Some q) originalModel))
                else map_sum id (\<lambda>(r, u). Some u) (llama_Handler W now requestModel (Some q) (m_ActualModelName m))))"

section \<open>Claude at AWS and at Anthropic\<close>

text \<open>The two streams of a handler differ in the names of the model only.\<close>

definition same_stream :: "string \<Rightarrow> claude_stream \<Rightarrow> claude_stream \<Rightarrow> bool" where
  "same_stream model direct aws \<longleftrightarrow>
     cs_usage aws = cs_usage direct \<and> cs_id aws = cs_id direct \<and> cs_tools aws = cs_tools direct \<and>
     cs_panic aws = cs_panic direct \<and> cs_model aws = model \<and>
     cs_out aws = map (\<lambda>c. c\<lparr>cc_Model := model\<rparr>) (cs_out direct)"

lemma same_stream_emit: "same_stream model direct aws \<Longrightarrow> same_stream model (claude_emit t r direct) (claude_emit t r aws)"
  by (simp add: same_stream_def claude_emit_def split: option.split)

lemma same_stream_event:
  assumes "same_stream model direct aws"
  shows "same_stream model (claude_event t r direct) (aws_claude_event t r aws)"
proof (cases "StreamResponseClaude2OpenAI r")
  case (Pair response m)
  show ?thesis
  proof (cases m)
    case None
    then show ?thesis
      using assms same_stream_emit [OF assms] by (simp add: claude_event_def aws_claude_event_def Pair same_stream_def)
  next
    case (Some x)
    have used: "same_stream model (direct\<lparr>cs_usage := add_usage (cr_Usage x) (cs_usage direct)\<rparr>)
        (aws\<lparr>cs_usage := add_usage (cr_Usage x) (cs_usage aws)\<rparr>)"
      using assms by (simp add: same_stream_def)
    then have tools: "same_stream model (direct\<lparr>cs_usage := add_usage (cr_Usage x) (cs_usage direct), cs_tools := ts\<rparr>)
        (aws\<lparr>cs_usage := add_usage (cr_Usage x) (cs_usage aws), cs_tools := ts\<rparr>)" for ts
      by (simp add: same_stream_def)
    have "cs_panic aws = cs_panic direct" "cs_tools aws = cs_tools direct" using assms by (simp_all add: same_stream_def)
    then show ?thesis
      using assms same_stream_emit [OF used, of t response] same_stream_emit [OF tools, of t]
      by (simp add: claude_event_def aws_claude_event_def Pair Some Let_def split: option.split) (simp add: same_stream_def)
  qed
qed

lemma same_stream_fold:
  "same_stream model direct aws \<Longrightarrow> same_stream model (fold (claude_event t) rs direct) (fold (aws_claude_event t) rs aws)"
  by (induction rs arbitrary: direct aws) (simp_all add: same_stream_event)

text \<open>C15: Claude answers a stream alike at AWS and at Anthropic. When the events that AWS sends are those that
  Anthropic sends, a caller gets the same chunks, text for text and tool for tool, under the name of the model that
  was asked for, and the same usage is charged; the stream panics at AWS exactly if it panics at Anthropic.\<close>

theorem aws_streams_as_anthropic:
  assumes "aws_prepare aws_claude_ids requestModel (Some q) (\<lambda>q. aw_marshal_claude W (aws_claude_request q)) = Inr (i, body)"
    and "aw_stream W i body = Inr events" and "aws_chunks (cj_event J) events = (rs, ended)"
    and "claude_events J (body_lines (stream_body resp)) = rs" and "rp_Close resp = None"
    and "claude_StreamHandler J t resp = (chunks, outcome)"
  shows "aws_claude_StreamHandler W J t requestModel (Some q) model =
    ((map (\<lambda>c. c\<lparr>cc_Model := model\<rparr>) chunks, ended), outcome)"
proof -
  let ?direct = "fold (claude_event t) rs claude_start"
  have "same_stream model ?direct (fold (aws_claude_event t) rs (claude_start\<lparr>cs_model := model\<rparr>))"
    by (rule same_stream_fold) (simp add: same_stream_def claude_start_def)
  moreover have "chunks = cs_out ?direct" "outcome = (if cs_panic ?direct then None else Some (Inr (cs_usage ?direct)))"
    using assms(4-6) by (auto simp: claude_StreamHandler_def fold_claude_lines Let_def)
  ultimately show ?thesis
    using assms(1-3) by (simp add: aws_claude_StreamHandler_def same_stream_def)
qed


lemma aws_chunks_decoded:
  "\<forall>b \<in> set bs. decode b \<noteq> None \<Longrightarrow> aws_chunks decode (map Chunk_event bs) = (map (the \<circ> decode) bs, True)"
  by (induction bs) auto

lemma aws_chunks_zip:
  assumes "length ks = length vs" "distinct ks"
  shows "aws_chunks (map_of (zip ks vs)) (map Chunk_event ks) = (vs, True)"
proof -
  have "\<forall>b \<in> set ks. map_of (zip ks vs) b \<noteq> None"
    using assms(1) by (simp add: map_of_zip_is_None)
  moreover have "map (the \<circ> map_of (zip ks vs)) ks = vs"
    using assms by (intro nth_equalityI) (simp_all add: map_of_zip_nth)
  ultimately show ?thesis by (simp add: aws_chunks_decoded)
qed

text \<open>The sample answer of Claude, sent by AWS.\<close>

definition sample_client :: aws_client where
  "sample_client = \<lparr>aw_invoke = (\<lambda>_ _. Inl ''''), aw_stream = (\<lambda>_ _. Inr (map (\<lambda>c. Chunk_event [c]) ''abcdefghijk'')),
     aw_marshal_claude = (\<lambda>_. Inr ''''), aw_marshal_llama = (\<lambda>_. Inl ''''), aw_llama = (\<lambda>_. Inl ''''), aw_uuid = (\<lambda>_. '''')\<rparr>"

theorem aws_streams_as_anthropic_witness:
  "\<forall>q. \<exists>chunks u. claude_StreamHandler sample_json 9 sample_stream = (chunks, Some (Inr u)) \<and>
     aws_claude_StreamHandler sample_client sample_json 9 ''claude-2.1'' (Some q) ''mine'' =
       ((map (\<lambda>c. c\<lparr>cc_Model := ''mine''\<rparr>) chunks, True), Some (Inr u))"
proof
  fix q
  define ks :: "string list" where "ks = map (\<lambda>c. [c]) ''abcdefghijk''"
  have "cj_event sample_json = map_of (zip ks (events_of sample_answer))"
    by (simp only: ks_def sample_json_def claude_json.select_convs sample_event_def)
  moreover have "length ks = length (events_of sample_answer)" "distinct ks"
    by (simp_all add: ks_def events_of_def sample_answer_def)
  ultimately have chunks: "aws_chunks (cj_event sample_json) (map Chunk_event ks) = (events_of sample_answer, True)"
    using aws_chunks_zip by metis
  have ready: "aws_prepare aws_claude_ids ''claude-2.1'' (Some q) (\<lambda>q. aw_marshal_claude sample_client (aws_claude_request q)) =
      Inr (''anthropic.claude-v2:1'', '''')"
    by (simp add: aws_prepare_def awsModelID_def aws_claude_ids_def sample_client_def)
  have sent: "aw_stream sample_client i b = Inr (map Chunk_event ks)" for i b by (simp add: sample_client_def ks_def)
  have ends: "rp_Close sample_stream = None" by (simp add: sample_stream_def)
  obtain chunks u where "claude_StreamHandler sample_json 9 sample_stream = (chunks, Some (Inr u))"
    using answer_streamed [OF sample_answer_ok, of 9] ends
    by (simp add: claude_StreamHandler_def fold_claude_lines sample_events on_track_def Let_def)
  with aws_streams_as_anthropic [OF ready sent chunks sample_events ends this]
  show "\<exists>chunks u. claude_StreamHandler sample_json 9 sample_stream = (chunks, Some (Inr u)) \<and>
     aws_claude_StreamHandler sample_client sample_json 9 ''claude-2.1'' (Some q) ''mine'' =
       ((map (\<lambda>c. c\<lparr>cc_Model := ''mine''\<rparr>) chunks, True), Some (Inr u))" by blast
qed


section \<open>Further properties\<close>

text \<open>A streamed answer of Llama that ends for another reason than \<open>stop\<close>, for instance at the limit of its length, has no
  tokens written: it costs its prompt only.\<close>

theorem llama_long_answers_unpaid:
  "\<forall>r \<in> set rs. lr_StopReason r \<noteq> ''stop'' \<Longrightarrow> CompletionTokens (fold llama_usage rs u) = CompletionTokens u"
  by (induction rs arbitrary: u) (simp_all add: llama_usage_def Let_def)

text \<open>A converted request always finds its model.\<close>

theorem aws_models_known:
  "aws_ConvertRequest J q = Some (Inr (Llama_converted n r)) \<Longrightarrow> \<exists>i. awsModelID aws_llama3_ids n = Inr i"
  "aws_ConvertRequest J q = Some (Inr (Claude_converted n c)) \<Longrightarrow> \<exists>i. awsModelID aws_claude_ids n = Inr i"
  by (auto simp: aws_ConvertRequest_def aws_GetAdaptor_def awsModelID_def map_of_eq_None_iff
      split: option.splits aws_adapter.splits if_splits)

end
