(* ===== verification/Replicate.thy ===== *)
theory Replicate
  imports OpenAI ModelLists
begin

text \<open>
  The interface of Replicate (\<^verbatim>\<open>relay/adaptor/replicate\<close>). The service answers a request with a task, which the handlers
  ask for every three seconds until it has ended, without a bound on how often: the loop is a partial function, whose value
  \<open>None\<close> is a handler that never returns. The services asked over the network, decoding JSON, the decoders of images and
  base64 are parameters.
\<close>

section \<open>Data\<close>

record DrawImageInput =
  di_Steps :: int
  di_Prompt :: string
  di_ImagePrompt :: string
  di_Guidance :: int
  di_Interval :: int
  di_AspectRatio :: string
  di_SafetyTolerance :: int
  di_Seed :: int
  di_NImages :: int
  di_Width :: int
  di_Height :: int

record ChatInput =
  ci_TopK :: int
  ci_TopP :: f64
  ci_Prompt :: string
  ci_MaxTokens :: int
  ci_MinTokens :: int
  ci_Temperature :: f64
  ci_SystemPrompt :: string
  ci_StopSequences :: string
  ci_PromptTemplate :: string
  ci_PresencePenalty :: f64
  ci_FrequencyPenalty :: f64

text \<open>A task: its state, its error, what it gave, when it was completed, and where to ask for it and for its stream. The
  tasks of the two kinds differ in their output, which is only read for images, and in having a stream.\<close>

record task =
  tk_Status :: string
  tk_Error :: string
  tk_Output :: json
  tk_CompletedAt :: int
  tk_Get :: string
  tk_Stream :: string

text \<open>
  What is asked over the network: \<open>rx_new_request\<close> is the error of an address that cannot be parsed, \<open>rx_task n url key\<close> the
  answer when a task is asked for the \<open>n\<close>-th time, \<open>rx_download i url\<close> the answer to the download of the image number \<open>i\<close>.
  The downloads of \<open>n\<close> images end in the order \<open>rx_order n\<close> of their numbers.
\<close>

record 'p replicate_net =
  rx_new_request :: "string \<Rightarrow> string option"
  rx_chat_task :: "string \<Rightarrow> string + task"
  rx_image_task :: "string \<Rightarrow> string + task"
  rx_task :: "nat \<Rightarrow> string \<Rightarrow> string \<Rightarrow> string + response"
  rx_stream :: "string \<Rightarrow> string \<Rightarrow> string + response"
  rx_download :: "nat \<Rightarrow> string \<Rightarrow> string + response"
  rx_order :: "nat \<Rightarrow> nat list"
  rx_show :: "json \<Rightarrow> string"
  rx_jpeg :: "string \<Rightarrow> string + 'p"
  rx_webp :: "string \<Rightarrow> string + 'p"
  rx_png :: "'p \<Rightarrow> string + string"
  rx_base64 :: "string \<Rightarrow> string"


section \<open>Requests\<close>

definition replicate_ConvertImageRequest :: "int \<Rightarrow> ImageRequest \<Rightarrow> DrawImageInput" where
  "replicate_ConvertImageRequest nanoseconds q =
     \<lparr>di_Steps = 25, di_Prompt = im_Prompt q, di_ImagePrompt = '''', di_Guidance = 3, di_Interval = 0, di_AspectRatio = ''1:1'',
      di_SafetyTolerance = 5, di_Seed = nanoseconds, di_NImages = 1, di_Width = 1440, di_Height = 1440\<rparr>"

text \<open>A message whose content is not a string leaves no trace.\<close>

definition prompt_line :: "Message \<Rightarrow> string" where
  "prompt_line m = (case ms_Content m of JStr s \<Rightarrow> ms_Role m @ '': '' @ s @ [CHR 0x0A] | _ \<Rightarrow> '''')"

definition replicate_ConvertRequest :: "GeneralOpenAIRequest \<Rightarrow> string + ChatInput" where
  "replicate_ConvertRequest q =
     (if \<not> Stream q then Inl ''replicate models only support stream mode now, please set stream=true''
      else Inr \<lparr>ci_TopK = 0, ci_TopP = (case TopP q of None \<Rightarrow> 1 | Some p \<Rightarrow> p),
                ci_Prompt = concat (map prompt_line (Messages q)),
                ci_MaxTokens = (if MaxTokens q = 0 then 500 else MaxTokens q), ci_MinTokens = 0,
                ci_Temperature = (case Temperature q of None \<Rightarrow> 1 | Some t \<Rightarrow> t),
                ci_SystemPrompt = '''', ci_StopSequences = '''', ci_PromptTemplate = '''',
                ci_PresencePenalty = (case PresencePenalty q of None \<Rightarrow> 0 | Some p \<Rightarrow> p),
                ci_FrequencyPenalty = (case FrequencyPenalty q of None \<Rightarrow> 0 | Some p \<Rightarrow> p)\<rparr>)"

definition replicate_GetRequestURL :: "Meta \<Rightarrow> string + string" where
  "replicate_GetRequestURL m =
     (if m_OriginModelName m \<notin> set replicate_models then Inl (''model '' @ m_OriginModelName m @ '' not supported'')
      else Inr (''https://api.replicate.com/v1/models/'' @ m_OriginModelName m @ ''/predictions''))"

definition replicate_SetupRequestHeader :: "(string \<Rightarrow> string) \<Rightarrow> Meta \<Rightarrow> headers \<Rightarrow> headers" where
  "replicate_SetupRequestHeader from m h = (SetupCommonRequestHeader from m h)(''Authorization'' \<mapsto> ''Bearer '' @ m_APIKey m)"


section \<open>Waiting for a task\<close>

text \<open>The loop of both handlers: \<open>None\<close> in the body is \<open>errNextLoop\<close>.\<close>

partial_function (option) next_loop :: "(nat \<Rightarrow> 'a option) \<Rightarrow> nat \<Rightarrow> 'a option" where
  "next_loop body n = (case body n of None \<Rightarrow> next_loop body (Suc n) | Some r \<Rightarrow> Some r)"

definition Wrap :: "string \<Rightarrow> string \<Rightarrow> string" where
  "Wrap what e = what @ '': '' @ e"

definition bad_status :: "response \<Rightarrow> string" where
  "bad_status r = ''bad status code ['' @ Itoa (rp_StatusCode r) @ '']'' @ stream_body r"

definition get_task ::
    "'p replicate_net \<Rightarrow> (string \<Rightarrow> string + task) \<Rightarrow> string \<Rightarrow> string \<Rightarrow> nat \<Rightarrow> string + task" where
  "get_task X decode url key n =
     (case rx_new_request X url of
        Some e \<Rightarrow> Inl (Wrap ''new request'' e)
      | None \<Rightarrow>
          (case rx_task X n url key of
             Inl e \<Rightarrow> Inl (Wrap ''get task'' e)
           | Inr r \<Rightarrow>
               (if rp_StatusCode r \<noteq> 200 then Inl (bad_status r)
                else case rp_Body r of
                  Inl e \<Rightarrow> Inl (Wrap ''read task response'' e)
                | Inr b \<Rightarrow> (case decode b of Inl e \<Rightarrow> Inl (Wrap ''decode task response'' e) | Inr t \<Rightarrow> Inr t))))"

text \<open>One round of the loop: the error of the task, or what is made of a task that succeeded.\<close>

definition task_round :: "string + task \<Rightarrow> (task \<Rightarrow> string) \<Rightarrow> (task \<Rightarrow> string + 'a) \<Rightarrow> (string + 'a) option" where
  "task_round got failure use =
     (case got of
        Inl e \<Rightarrow> Some (Inl e)
      | Inr t \<Rightarrow>
          (if tk_Status t = ''succeeded'' then Some (use t)
           else if tk_Status t = ''failed'' \<or> tk_Status t = ''canceled'' then Some (Inl (failure t))
           else None))"

text \<open>What both handlers do with the first answer.\<close>

definition first_answer :: "(string \<Rightarrow> string + task) \<Rightarrow> response \<Rightarrow> status_error + task" where
  "first_answer decode resp =
     (if rp_StatusCode resp \<noteq> 201
      then Inl (ErrorWrapper (''bad_status_code ['' @ Itoa (rp_StatusCode resp) @ '']'' @ stream_body resp) ''bad_status_code'' 500)
      else case rp_Body resp of
        Inl e \<Rightarrow> Inl (ErrorWrapper e ''read_response_body_failed'' 500)
      | Inr b \<Rightarrow>
          (case decode b of
             Inl e \<Rightarrow> Inl (ErrorWrapper e ''unmarshal_response_body_failed'' 500)
           | Inr t \<Rightarrow> Inr t))"


section \<open>The stream of a chat\<close>

record chat_stream =
  rs_text :: string
  rs_out :: "string list"
  rs_done :: bool
  rs_ended :: bool

text \<open>
  The lines of an event, up to an empty one: the last data, and the lines after it. Without an empty line the scanner has
  reported its end (\<open>None\<close>).
\<close>

fun read_event :: "string \<Rightarrow> string list \<Rightarrow> string \<times> string list option" where
  "read_event data [] = (data, None)"
| "read_event data (l # ls) =
     (if l = '''' then (data, Some ls)
      else read_event (if HasPrefix l ''data: '' then drop 6 l else data) ls)"

lemma read_event_shorter: "snd (read_event data ls) = Some rest \<Longrightarrow> length rest < length ls"
  by (induction data ls rule: read_event.induct) (auto split: if_splits)

text \<open>
  The scanner gives the lines \<open>ls\<close>, and the lines \<open>again\<close> when it is asked once more after its end: a line too long for it
  comes then as the part that fills its buffer.
\<close>

function chat_events :: "string list \<Rightarrow> string list \<Rightarrow> chat_stream \<Rightarrow> chat_stream" where
  "chat_events again [] st = st\<lparr>rs_ended := True\<rparr>"
| "chat_events again (l # ls) st =
     (let line = TrimSpace l
      in if line = '''' then chat_events again ls st
         else if HasPrefix line '':'' then chat_events again ls st
         else if HasPrefix line ''event: ''
         then (let event = TrimSpace (drop 7 line);
                   ev = read_event '''' ls;
                   data = fst ev;
                   st1 = (if snd ev = None then st\<lparr>rs_ended := True\<rparr> else st)
               in if event = ''done'' then st1\<lparr>rs_out := rs_out st1 @ [DONE], rs_done := True\<rparr>
                  else (let st2 = (if event = ''output''
                          then st1\<lparr>rs_out := rs_out st1 @ [data], rs_text := rs_text st1 @ data\<rparr> else st1)
                        in case snd ev of None \<Rightarrow> chat_events [] again st2 | Some rest \<Rightarrow> chat_events again rest st2))
         else chat_events again ls st)"
  by pat_completeness auto
termination
  by (relation "measure (\<lambda>(again, ls, st). length again + length ls)") (auto dest: read_event_shorter)

definition long_lines :: "string \<Rightarrow> string list" where
  "long_lines s = dropWhile (\<lambda>l. length l < 65536) (Split (CHR 0x0A) s)"

definition scan_error :: "response \<Rightarrow> string option" where
  "scan_error r =
     (case rp_Body r of
        Inl e \<Rightarrow> Some e
      | Inr b \<Rightarrow> (if long_lines b = [] then None else Some ''bufio.Scanner: token too long''))"

definition chat_scan :: "response \<Rightarrow> chat_stream" where
  "chat_scan r =
     chat_events (map (\<lambda>l. drop_cr (take 65536 l)) (take 1 (long_lines (stream_body r)))) (map drop_cr (body_lines (stream_body r)))
       \<lparr>rs_text = '''', rs_out = [], rs_done = False, rs_ended = False\<rparr>"

text \<open>The events written, and the error or the text. The scanner's error is set when it has reported its end.\<close>

definition chatStreamHandler :: "'p replicate_net \<Rightarrow> string \<Rightarrow> string \<Rightarrow> string list \<times> (string + string)" where
  "chatStreamHandler X key streamUrl =
     (case rx_new_request X streamUrl of
        Some e \<Rightarrow> ([], Inl (Wrap ''new request to stream'' e))
      | None \<Rightarrow>
          (case rx_stream X streamUrl key of
             Inl e \<Rightarrow> ([], Inl (Wrap ''do request to stream'' e))
           | Inr r \<Rightarrow>
               (if rp_StatusCode r \<noteq> 200 then ([], Inl (bad_status r))
                else (let st = chat_scan r
                      in case (if rs_ended st then scan_error r else None) of
                           Some e \<Rightarrow> (rs_out st, Inl (Wrap ''scan stream'' e))
                         | None \<Rightarrow> (rs_out st @ (if rs_done st then [] else [DONE]), Inr (rs_text st))))))"

text \<open>The context gives the handler a new description \<open>fresh\<close> of the request, not the one the relay has completed.\<close>

definition chat_round :: "env \<Rightarrow> 'p replicate_net \<Rightarrow> Meta \<Rightarrow> string \<Rightarrow> nat \<Rightarrow> (string + Usage) option" where
  "chat_round E X fresh url n =
     task_round (get_task X (rx_chat_task X) url (m_APIKey fresh) n)
       (\<lambda>t. ''task failed, ['' @ tk_Status t @ '']'' @ tk_Error t)
       (\<lambda>t. if tk_Stream t = '''' then Inl ''stream url is empty''
            else case snd (chatStreamHandler X (m_APIKey fresh) (tk_Stream t)) of
              Inl e \<Rightarrow> Inl (Wrap ''chat stream handler'' e)
            | Inr responseText \<Rightarrow> Inr (ResponseText2Usage E responseText (m_ActualModelName fresh) (m_PromptTokens fresh)))"

definition replicate_ChatHandler :: "env \<Rightarrow> 'p replicate_net \<Rightarrow> Meta \<Rightarrow> response \<Rightarrow> (status_error + Usage) option" where
  "replicate_ChatHandler E X fresh resp =
     (case first_answer (rx_chat_task X) resp of
        Inl e \<Rightarrow> Some (Inl e)
      | Inr t \<Rightarrow>
          map_option (map_sum (\<lambda>e. ErrorWrapper e ''chat_task_failed'' 500) id)
            (next_loop (chat_round E X fresh (tk_Get t)) 0))"


section \<open>Images\<close>

text \<open>The output is a string or strings.\<close>

fun all_strings :: "json list \<Rightarrow> string list + json" where
  "all_strings [] = Inl []"
| "all_strings (JStr s # js) = map_sum (\<lambda>ss. s # ss) id (all_strings js)"
| "all_strings (j # js) = Inr j"

definition GetOutput :: "'p replicate_net \<Rightarrow> json \<Rightarrow> string + string list" where
  "GetOutput X j =
     (case j of
        JStr s \<Rightarrow> Inr [s]
      | JNull \<Rightarrow> Inr []
      | JArr js \<Rightarrow> (case all_strings js of Inl ss \<Rightarrow> Inr ss | Inr bad \<Rightarrow> Inl (''unknown output type: '' @ rx_show X bad))
      | _ \<Rightarrow> Inl (''unknown output type: '' @ rx_show X j))"

definition encode_png :: "'p replicate_net \<Rightarrow> 'p \<Rightarrow> string + string" where
  "encode_png X img = (case rx_png X img of Inl e \<Rightarrow> Inl (Wrap ''encode png'' e) | Inr d \<Rightarrow> Inr d)"

definition ConvertImageToPNG :: "'p replicate_net \<Rightarrow> string \<Rightarrow> string + string" where
  "ConvertImageToPNG X d =
     (if HasPrefix d [CHR 0x89, CHR ''P'', CHR ''N'', CHR ''G''] then Inr d
      else if HasPrefix d [CHR 0xFF, CHR 0xD8, CHR 0xFF]
      then (case rx_jpeg X d of Inl e \<Rightarrow> Inl (Wrap ''decode jpeg'' e) | Inr img \<Rightarrow> encode_png X img)
      else (case rx_webp X d of Inl e \<Rightarrow> Inl (Wrap ''decode webp'' e) | Inr img \<Rightarrow> encode_png X img))"

definition download_image :: "'p replicate_net \<Rightarrow> string list \<Rightarrow> nat \<Rightarrow> string + string" where
  "download_image X output i =
     (case rx_new_request X (output ! i) of
        Some e \<Rightarrow> Inl (Wrap ''new request'' e)
      | None \<Rightarrow>
          (case rx_download X i (output ! i) of
             Inl e \<Rightarrow> Inl (Wrap ''download image'' e)
           | Inr r \<Rightarrow>
               (if rp_StatusCode r \<noteq> 200 then Inl (bad_status r)
                else case rp_Body r of
                  Inl e \<Rightarrow> Inl (Wrap ''read image'' e)
                | Inr b \<Rightarrow>
                    (case ConvertImageToPNG X b of
                       Inl e \<Rightarrow> Inl (Wrap ''convert image'' e)
                     | Inr d \<Rightarrow> Inr (''data:image/png;base64,'' @ rx_base64 X d)))))"

text \<open>The images that could be had, in the order in which they came; only when there is none, the error that came first.\<close>

fun successes :: "('e + 'a) list \<Rightarrow> 'a list" where
  "successes [] = []"
| "successes (Inl e # rs) = successes rs"
| "successes (Inr a # rs) = a # successes rs"

fun first_error :: "('e + 'a) list \<Rightarrow> 'e option" where
  "first_error [] = None"
| "first_error (Inl e # rs) = Some e"
| "first_error (Inr a # rs) = first_error rs"

definition download_all :: "'p replicate_net \<Rightarrow> string list \<Rightarrow> string + string list" where
  "download_all X output =
     (let rs = map (download_image X output) (rx_order X (length output))
      in case first_error rs of
           Some e \<Rightarrow> (if successes rs = [] then Inl e else Inr (successes rs))
         | None \<Rightarrow> Inr (successes rs))"

text \<open>What the caller gets: the time and the images.\<close>

definition image_round :: "'p replicate_net \<Rightarrow> Meta \<Rightarrow> string \<Rightarrow> nat \<Rightarrow> (string + int \<times> string list) option" where
  "image_round X fresh url n =
     task_round (get_task X (rx_image_task X) url (m_APIKey fresh) n)
       (\<lambda>t. ''task failed: '' @ tk_Status t)
       (\<lambda>t. case GetOutput X (tk_Output t) of
              Inl e \<Rightarrow> Inl (Wrap ''get output'' e)
            | Inr output \<Rightarrow>
                (if output = [] then Inl ''response output is empty''
                 else case download_all X output of Inl e \<Rightarrow> Inl e | Inr images \<Rightarrow> Inr (tk_CompletedAt t, images)))"

definition replicate_ImageHandler ::
    "'p replicate_net \<Rightarrow> Meta \<Rightarrow> response \<Rightarrow> (status_error + int \<times> string list) option" where
  "replicate_ImageHandler X fresh resp =
     (case first_answer (rx_image_task X) resp of
        Inl e \<Rightarrow> Some (Inl e)
      | Inr t \<Rightarrow>
          map_option (map_sum (\<lambda>e. ErrorWrapper e ''image_task_failed'' 500) id)
            (next_loop (image_round X fresh (tk_Get t)) 0))"

definition replicate_DoResponse ::
    "env \<Rightarrow> 'p replicate_net \<Rightarrow> Meta \<Rightarrow> Meta \<Rightarrow> response \<Rightarrow> (status_error + Usage option) option" where
  "replicate_DoResponse E X fresh m resp =
     (if m_Mode m = mode_ImagesGenerations
      then map_option (map_sum id (\<lambda>_. None)) (replicate_ImageHandler X fresh resp)
      else if m_Mode m = mode_ChatCompletions
      then map_option (map_sum id Some) (replicate_ChatHandler E X fresh resp)
      else Some (Inl (ErrorWrapper ''not implemented'' ''not_implemented'' 500)))"


section \<open>Properties\<close>

text \<open>The loop returns exactly when a round is the last one, with what the first such round gives.\<close>

lemma next_loop_first:
  assumes "n \<le> k" "body k = Some r" "\<And>i. n \<le> i \<Longrightarrow> i < k \<Longrightarrow> body i = None"
  shows "next_loop body n = Some r"
  using assms
proof (induction "k - n" arbitrary: n)
  case 0 then show ?case by (simp add: next_loop.simps)
next
  case (Suc d)
  then have "body n = None" "next_loop body (Suc n) = Some r" by auto
  then show ?case by (subst next_loop.simps) simp
qed

lemma next_loop_returned:
  "next_loop body n = Some r \<Longrightarrow> \<exists>k\<ge>n. body k = Some r \<and> (\<forall>i. n \<le> i \<and> i < k \<longrightarrow> body i = None)"
proof (induction body n r rule: next_loop.raw_induct [rotated, consumes 1, case_names step])
  case (step loop body n r)
  show ?case
  proof (cases "body n")
    case None
    then have "loop body (Suc n) = Some r" using step(2) by simp
    then obtain k where k: "Suc n \<le> k" "body k = Some r" "\<And>i. Suc n \<le> i \<Longrightarrow> i < k \<Longrightarrow> body i = None"
      using step(1) by blast
    have "body i = None" if "n \<le> i" "i < k" for i using k(3) None that by (cases "i = n") auto
    with k(1,2) show ?thesis using Suc_leD by blast
  next
    case (Some r')
    with step(2) show ?thesis by (intro exI [of _ n]) auto
  qed
qed

lemma next_loop_endless: "next_loop body 0 = None \<longleftrightarrow> (\<forall>k. body k = None)"
proof
  assume l: "next_loop body 0 = None"
  show "\<forall>k. body k = None"
  proof (rule ccontr)
    assume "\<not> ?thesis"
    then have ex: "\<exists>k. body k \<noteq> None" by blast
    define k where "k = (LEAST k. body k \<noteq> None)"
    obtain r where "body k = Some r" using LeastI_ex [OF ex] by (auto simp: k_def)
    moreover have "body i = None" if "i < k" for i using not_less_Least [of i "\<lambda>k. body k \<noteq> None"] that by (auto simp: k_def)
    ultimately have "next_loop body 0 = Some r" using next_loop_first [of 0 k body r] by simp
    with l show False by simp
  qed
next
  assume "\<forall>k. body k = None"
  then show "next_loop body 0 = None" using next_loop_returned [of body 0] by (cases "next_loop body 0") auto
qed

text \<open>An answer that ends the waiting.\<close>

definition final :: "string + task \<Rightarrow> bool" where
  "final got = (case got of Inl e \<Rightarrow> True | Inr t \<Rightarrow> tk_Status t \<in> {''succeeded'', ''failed'', ''canceled''})"

lemma task_round_None: "task_round got failure use = None \<longleftrightarrow> \<not> final got"
  by (cases got) (simp_all add: task_round_def final_def)

lemma chat_endless:
  "replicate_ChatHandler E X fresh resp = None \<longleftrightarrow>
   (\<exists>t. first_answer (rx_chat_task X) resp = Inr t \<and> (\<forall>k. \<not> final (get_task X (rx_chat_task X) (tk_Get t) (m_APIKey fresh) k)))"
  by (cases "first_answer (rx_chat_task X) resp")
    (simp_all add: replicate_ChatHandler_def next_loop_endless chat_round_def task_round_None)

lemma image_endless:
  "replicate_ImageHandler X fresh resp = None \<longleftrightarrow>
   (\<exists>t. first_answer (rx_image_task X) resp = Inr t \<and> (\<forall>k. \<not> final (get_task X (rx_image_task X) (tk_Get t) (m_APIKey fresh) k)))"
  by (cases "first_answer (rx_image_task X) resp")
    (simp_all add: replicate_ImageHandler_def next_loop_endless image_round_def task_round_None)

text \<open>C36: the wait for a task has no bound of its own: an answer to an image request or to a chat is given up for ever exactly
  when the first answer named a task and every later question about it gets a state that is none of succeeded, failed
  and canceled; one error or one final state ends the loop. Every other mode is refused at once.\<close>

theorem waiting_returns:
  "replicate_DoResponse E X fresh m resp = None \<longleftrightarrow>
     (m_Mode m = mode_ImagesGenerations \<and>
        (\<exists>t. first_answer (rx_image_task X) resp = Inr t \<and>
             (\<forall>k. \<not> final (get_task X (rx_image_task X) (tk_Get t) (m_APIKey fresh) k))) \<or>
      m_Mode m = mode_ChatCompletions \<and>
        (\<exists>t. first_answer (rx_chat_task X) resp = Inr t \<and>
             (\<forall>k. \<not> final (get_task X (rx_chat_task X) (tk_Get t) (m_APIKey fresh) k))))"
  by (auto simp: replicate_DoResponse_def chat_endless image_endless)

text \<open>A chat that is answered was answered in the first round that ends the waiting.\<close>

lemma chat_answered:
  assumes "replicate_ChatHandler E X fresh resp = Some (Inr u)"
  shows "\<exists>t k. first_answer (rx_chat_task X) resp = Inr t \<and> chat_round E X fresh (tk_Get t) k = Some (Inr u)"
proof (cases "first_answer (rx_chat_task X) resp")
  case (Inl e) with assms show ?thesis by (simp add: replicate_ChatHandler_def)
next
  case (Inr t)
  then obtain r where r: "next_loop (chat_round E X fresh (tk_Get t)) 0 = Some r"
      "map_sum (\<lambda>e. ErrorWrapper e ''chat_task_failed'' 500) id r = Inr u"
    using assms by (auto simp: replicate_ChatHandler_def)
  have "r = Inr u" using r(2) by (cases r) simp_all
  with r(1) Inr next_loop_returned [of "chat_round E X fresh (tk_Get t)" 0] show ?thesis by blast
qed

lemma task_round_answered: "task_round got failure use = Some (Inr u) \<Longrightarrow> \<exists>t. use t = Inr u"
  by (cases got) (auto simp: task_round_def split: if_splits)

text \<open>The tokens of the prompt are those of the new description, which has none: prompts are not charged.\<close>

theorem replicate_prompts_free:
  assumes "GetByContext now rq g = Some fresh" and "replicate_ChatHandler E X fresh resp = Some (Inr u)"
  shows "PromptTokens u = 0"
proof -
  have f: "m_PromptTokens fresh = 0" using assms(1) by (auto simp: GetByContext_def)
  obtain t :: task and k where "chat_round E X fresh (tk_Get t) k = Some (Inr u)" using chat_answered [OF assms(2)] by blast
  then obtain s :: task where "(if tk_Stream s = '''' then Inl ''stream url is empty''
            else case snd (chatStreamHandler X (m_APIKey fresh) (tk_Stream s)) of
              Inl e \<Rightarrow> Inl (Wrap ''chat stream handler'' e)
            | Inr responseText \<Rightarrow> Inr (ResponseText2Usage E responseText (m_ActualModelName fresh) (m_PromptTokens fresh))) = Inr u"
    unfolding chat_round_def by (blast dest: task_round_answered)
  then show ?thesis using f by (auto simp: ResponseText2Usage_def Let_def split: if_splits sum.splits)
qed

text \<open>Of an event whose data has several lines, the last is passed on; parts of a message that is not a string are dropped.\<close>

theorem replicate_lines_lost:
  "rs_out (chat_events [] [''event: output'', ''data: a'', ''data: b'', ''''] st) = rs_out st @ [''b'']"
  by (simp add: TrimSpace_def is_space_def HasPrefix_def Let_def)

theorem replicate_parts_lost: "ms_Content m = JArr parts \<Longrightarrow> prompt_line m = ''''"
  by (simp add: prompt_line_def)

end
