(* ===== verification/Services.thy ===== *)
theory Services
  imports RelayLaws Claude Gemini Ollama Cohere Ali Baidu Tencent Xunfei Palm DeepL Cloudflare Coze AIProxy VertexAI Aws
    Replicate
begin

text \<open>
  The services together: what the relay of a text request (\<^verbatim>\<open>relay/controller/text.go\<close>) needs of an adaptor, as a locale,
  and what follows for the services whose adaptors keep to it.
\<close>

section \<open>The contract of a service\<close>

text \<open>The answer of a service to a response of the upstream: a panic, an error, or the usage if it reports one. The contract
  is that a text request which is answered is always reported with its usage.\<close>

locale text_service =
  fixes answer :: "Meta \<Rightarrow> response \<Rightarrow> (status_error + Usage option) option"
  assumes reports: "m_Mode m \<noteq> mode_ImagesGenerations \<Longrightarrow> answer m resp \<noteq> Some (Inr None)"
begin

lemma usage_reported:
  "m_Mode m \<noteq> mode_ImagesGenerations \<Longrightarrow> answer m resp = Some (Inr usage) \<Longrightarrow> \<exists>u. usage = Some u"
  using reports by (cases usage) auto

text \<open>What the relay runs is this service: its answers never panic here.\<close>

lemma answered:
  assumes "served E (g_token_id g) tok s" and "reads_text E rq g m q reset n" and "0 \<le> estimate E m q"
    and "RelayTextHelper E rq g s = ((Returned None, job), s1)"
    and "m_Mode m \<noteq> mode_ImagesGenerations" "m_ChannelType m \<noteq> ct_AwsClaude" "GetAdaptor (m_APIType m) = Some a"
    and "\<And>r. answer m r = Some (op_DoResponse (e_ops E a) m (Some r))"
  shows "\<exists>r u. answer m r = Some (Inr (Some u)) \<and> pays (g_token_id g) tok (text_cost E m q u) s (job s1)"
proof -
  obtain a' resp usage pre where *: "GetAdaptor (m_APIType m) = Some a'" "\<not> isErrorHappened m resp"
      "op_DoResponse (e_ops E a') m resp = Inr usage"
      "pays (g_token_id g) tok (case usage of Some u \<Rightarrow> text_cost E m q u | None \<Rightarrow> pre) s (job s1)"
    using text_answered [OF assms(1-4)] by blast
  obtain r where r: "resp = Some r" using *(2) assms(6) by (auto simp: isErrorHappened_def split: option.splits)
  have ans: "answer m r = Some (Inr usage)" using *(1,3) assms(7,8) r by simp
  with usage_reported [OF assms(5)] obtain u where "usage = Some u" by blast
  with *(4) ans show ?thesis by auto
qed

end


section \<open>The services that keep it\<close>

text \<open>A service that also answers requests for images reports no usage for them.\<close>

interpretation openai: text_service "\<lambda>m r. Some (snd (DoResponse E J m r))" for E J
  by unfold_locales (auto simp: DoResponse_def split: prod.splits sum.splits option.splits)

interpretation claude: text_service "claude_DoResponse J now" for J now
  by unfold_locales (auto simp: claude_DoResponse_def split: prod.splits sum.splits option.splits)

interpretation gemini: text_service "\<lambda>m r. Some (gemini_DoResponse E J now m r)" for E J now
  by unfold_locales (auto simp: gemini_DoResponse_def split: prod.splits sum.splits option.splits)

lemma map_sum_Some [simp]: "map_sum id (\<lambda>x. Some (f x)) r \<noteq> Inr None" "map_sum id Some r' \<noteq> Inr None"
  by (cases r; simp) (cases r'; simp)

interpretation ollama: text_service "\<lambda>m r. Some (ollama_DoResponse J now m r)" for J now
  by unfold_locales (simp add: ollama_DoResponse_def case_prod_unfold)

interpretation cohere: text_service "cohere_DoResponse J model now" for J model now
  by unfold_locales (auto simp: cohere_DoResponse_def case_prod_unfold)

interpretation ali: text_service "\<lambda>m r. Some (ali_DoResponse J now rm au rf m r)" for J now rm au rf
  by unfold_locales (simp add: ali_DoResponse_def case_prod_unfold)

interpretation baidu: text_service "\<lambda>m r. Some (baidu_DoResponse J m r)" for J
  by unfold_locales (simp add: baidu_DoResponse_def case_prod_unfold)

interpretation tencent: text_service "\<lambda>m r. Some (tencent_DoResponse E J now rm m r)" for E J now rm
  by unfold_locales (simp add: tencent_DoResponse_def case_prod_unfold)

lemma xunfei_reports: "xunfei_DoResponse W now q m \<noteq> Inr None"
  unfolding xunfei_DoResponse_def Let_def
  by (simp split: list.split option.split add: case_prod_unfold)

interpretation xunfei: text_service "\<lambda>m r. Some (xunfei_DoResponse W now q m)" for W now q
  by unfold_locales (simp add: xunfei_reports)

interpretation palm: text_service "palm_DoResponse E J uuid now" for E J uuid now
  by unfold_locales (auto simp: palm_DoResponse_def case_prod_unfold)

interpretation deepl: text_service "\<lambda>m r. Some (deepl_DoResponse J i now promptText m r)" for J i now promptText
  by unfold_locales (simp add: deepl_DoResponse_def Let_def)

interpretation cloudflare: text_service "cloudflare_DoResponse E J i model" for E J i model
  by unfold_locales (auto simp: cloudflare_DoResponse_def case_prod_unfold)

interpretation coze: text_service "\<lambda>m r. Some (coze_DoResponse E J now m r)" for E J now
  by unfold_locales (simp add: coze_DoResponse_def)

interpretation library: text_service "\<lambda>m r. Some (library_DoResponse E J now m r)" for E J now
  by unfold_locales (auto dest: library_usage)

text \<open>Vertex AI keeps it because the two interfaces behind it do.\<close>

interpretation vertex: text_service "vertex_DoResponse E CJ GJ now" for E CJ GJ now
proof (unfold_locales, rule notI)
  fix m resp
  assume m: "m_Mode m \<noteq> mode_ImagesGenerations" and r: "vertex_DoResponse E CJ GJ now m resp = Some (Inr None)"
  then obtain a where a: "vertex_GetAdaptor (m_ActualModelName m) = Some a"
    by (cases "vertex_GetAdaptor (m_ActualModelName m)") (simp_all add: vertex_DoResponse_def)
  show False
    by (cases a) (use a r claude.reports [OF m] gemini.reports [OF m] vertex_answers_as_direct [of m] in fastforce)+
qed

text \<open>Amazon's client asks the service itself; the handlers of Replicate may never return.\<close>

interpretation aws: text_service "\<lambda>m r. aws_DoResponse W J now model st m" for W J now model st
  by unfold_locales (auto simp: aws_DoResponse_def case_prod_unfold split: aws_state.splits)

interpretation replicate_service: text_service "replicate_DoResponse E X fresh" for E X fresh
  by unfold_locales (auto simp: replicate_DoResponse_def)

section \<open>All services\<close>

text \<open>What each of them takes from outside.\<close>

record services =
  sv_openai :: openai_json
  sv_claude :: claude_json
  sv_gemini :: gemini_json
  sv_ollama :: ollama_json
  sv_cohere :: cohere_json
  sv_ali :: ali_json
  sv_baidu :: baidu_json
  sv_tencent :: tencent_json
  sv_xunfei :: xunfei_world
  sv_zhipu :: zhipu_json
  sv_palm :: palm_json
  sv_deepl :: deepl_json
  sv_cloudflare :: cloudflare_json
  sv_coze :: coze_json
  sv_library :: library_json
  sv_uuid :: string
  sv_prompt_text :: string
  sv_now :: int
  sv_original_model :: string
  sv_request_model :: string
  sv_authorization :: string
  sv_response_format :: string
  sv_request :: "GeneralOpenAIRequest option"

text \<open>The answer of the service behind an adaptor, for those that are modelled.\<close>

definition service_answer :: "services \<Rightarrow> env \<Rightarrow> adaptor \<Rightarrow> Meta \<Rightarrow> response \<Rightarrow> (status_error + Usage option) option" where
  "service_answer S E a =
     (case a of
        OpenAIAdaptor \<Rightarrow> (\<lambda>m r. Some (snd (DoResponse E (sv_openai S) m r)))
      | AnthropicAdaptor \<Rightarrow> claude_DoResponse (sv_claude S) (sv_now S)
      | GeminiAdaptor \<Rightarrow> (\<lambda>m r. Some (gemini_DoResponse E (sv_gemini S) (sv_now S) m r))
      | OllamaAdaptor \<Rightarrow> (\<lambda>m r. Some (ollama_DoResponse (sv_ollama S) (sv_now S) m r))
      | CohereAdaptor \<Rightarrow> cohere_DoResponse (sv_cohere S) (sv_original_model S) (sv_now S)
      | AliAdaptor \<Rightarrow> (\<lambda>m r. Some (ali_DoResponse (sv_ali S) (sv_now S) (sv_request_model S) (sv_authorization S)
          (sv_response_format S) m r))
      | BaiduAdaptor \<Rightarrow> (\<lambda>m r. Some (baidu_DoResponse (sv_baidu S) m r))
      | TencentAdaptor \<Rightarrow> (\<lambda>m r. Some (tencent_DoResponse E (sv_tencent S) (sv_now S) (sv_request_model S) m r))
      | XunfeiAdaptor \<Rightarrow> (\<lambda>m r. Some (xunfei_DoResponse (sv_xunfei S) (sv_now S) (sv_request S) m))
      | ZhipuAdaptor \<Rightarrow> (\<lambda>m r. Some (zhipu_DoResponse E (sv_openai S) (sv_zhipu S) (sv_now S) m r))
      | PaLMAdaptor \<Rightarrow> palm_DoResponse E (sv_palm S) (sv_uuid S) (sv_now S)
      | DeepLAdaptor \<Rightarrow> (\<lambda>m r. Some (deepl_DoResponse (sv_deepl S) (sv_uuid S) (sv_now S) (sv_prompt_text S) m r))
      | CloudflareAdaptor \<Rightarrow> cloudflare_DoResponse E (sv_cloudflare S) (sv_uuid S) (sv_original_model S)
      | CozeAdaptor \<Rightarrow> (\<lambda>m r. Some (coze_DoResponse E (sv_coze S) (sv_now S) m r))
      | AIProxyAdaptor \<Rightarrow> (\<lambda>m r. Some (library_DoResponse E (sv_library S) (sv_now S) m r))
      | VertexAIAdaptor \<Rightarrow> vertex_DoResponse E (sv_claude S) (sv_gemini S) (sv_now S)
      | _ \<Rightarrow> (\<lambda>m r. None))"

definition modelled_services :: "adaptor list" where
  "modelled_services = [OpenAIAdaptor, AnthropicAdaptor, GeminiAdaptor, OllamaAdaptor, CohereAdaptor, AliAdaptor, BaiduAdaptor,
     TencentAdaptor, XunfeiAdaptor, PaLMAdaptor, DeepLAdaptor, CloudflareAdaptor, CozeAdaptor, AIProxyAdaptor, VertexAIAdaptor]"

lemma service_contract: "a \<in> set modelled_services \<Longrightarrow> text_service (service_answer S E a)"
  using openai.text_service_axioms claude.text_service_axioms gemini.text_service_axioms ollama.text_service_axioms
    cohere.text_service_axioms ali.text_service_axioms baidu.text_service_axioms tencent.text_service_axioms
    xunfei.text_service_axioms palm.text_service_axioms deepl.text_service_axioms cloudflare.text_service_axioms
    coze.text_service_axioms library.text_service_axioms vertex.text_service_axioms
  by (auto simp: modelled_services_def service_answer_def)

text \<open>The environment runs the service behind an adaptor, and it does not panic.\<close>

definition runs :: "services \<Rightarrow> env \<Rightarrow> adaptor \<Rightarrow> Meta \<Rightarrow> bool" where
  "runs S E a m \<longleftrightarrow> (\<forall>r. service_answer S E a m r = Some (op_DoResponse (e_ops E a) m (Some r)))"


text \<open>A service whose reports have no tokens costs nothing.\<close>

lemma unpaid_service:
  assumes "served E (g_token_id g) tok s" and "reads_text E rq g m q reset n" and "0 \<le> estimate E m q"
    and "RelayTextHelper E rq g s = ((Returned None, job), s1)"
    and "m_Mode m \<noteq> mode_ImagesGenerations" "m_ChannelType m \<noteq> ct_AwsClaude" "GetAdaptor (m_APIType m) = Some a"
    and "a \<in> set modelled_services" "runs S E a m"
    and "\<And>r u. service_answer S E a m r = Some (Inr (Some u)) \<Longrightarrow> PromptTokens u = 0 \<and> CompletionTokens u = 0"
  shows "(\<forall>v. quota_of v (job s1) = quota_of v s) \<and> remain_of (g_token_id g) (job s1) = remain_of (g_token_id g) s"
proof -
  have "service_answer S E a m r = Some (op_DoResponse (e_ops E a) m (Some r))" for r
    using assms(9) by (simp add: runs_def)
  from text_service.answered [OF service_contract [OF assms(8)] assms(1-7) this]
  obtain r u where *: "service_answer S E a m r = Some (Inr (Some u))" "pays (g_token_id g) tok (text_cost E m q u) s (job s1)"
    by blast
  have "text_cost E m q u = 0" using assms(10) [OF *(1)] by (simp add: text_cost_def text_quota_def Let_def)
  with *(2) show ?thesis by (simp add: pays_def)
qed

lemma free_usage:
  assumes "\<not> m_IsStream m" "m_Mode m = mode_Embeddings" "a \<in> {GeminiAdaptor, OllamaAdaptor, AliAdaptor, TencentAdaptor}"
    and "service_answer S E a m r = Some (Inr (Some u))"
  shows "PromptTokens u = 0 \<and> CompletionTokens u = 0"
  using assms(3)
proof (elim insertE emptyE)
  assume "a = GeminiAdaptor"
  then have "gemini_DoResponse E (sv_gemini S) (sv_now S) m r = Inr (Some u)" using assms(4) by (simp add: service_answer_def)
  from gemini_embeddings_usage [OF assms(1,2) this] show ?thesis by (simp add: zero_usage_def)
next
  assume "a = OllamaAdaptor"
  then have "ollama_DoResponse (sv_ollama S) (sv_now S) m r = Inr (Some u)" using assms(4) by (simp add: service_answer_def)
  from ollama_embeddings_usage [OF assms(1,2) this] show ?thesis by (simp add: zero_usage_def)
next
  assume "a = AliAdaptor"
  then show ?thesis using ali_embeddings_usage [OF assms(1,2)] assms(4) by (simp add: service_answer_def)
next
  assume "a = TencentAdaptor"
  then show ?thesis using tencent_embeddings_usage [OF assms(1,2)] assms(4) by (simp add: service_answer_def)
qed

text \<open>C35: embeddings of four services are free. Gemini and Ollama report no usage for embeddings at all, and of what Ali and
  Tencent report only the total is kept, which is not what the price is computed from: however long the text, an
  answered request for embeddings costs its caller nothing, and the estimate that was taken is given back.\<close>

theorem embeddings_free:
  assumes "served E (g_token_id g) tok s" and "reads_text E rq g m q reset n" and "0 \<le> estimate E m q"
    and "RelayTextHelper E rq g s = ((Returned None, job), s1)"
    and "m_Mode m = mode_Embeddings" "\<not> m_IsStream m" "m_ChannelType m \<noteq> ct_AwsClaude" "GetAdaptor (m_APIType m) = Some a"
    and "a \<in> {GeminiAdaptor, OllamaAdaptor, AliAdaptor, TencentAdaptor}" "runs S E a m"
  shows "(\<forall>v. quota_of v (job s1) = quota_of v s) \<and> remain_of (g_token_id g) (job s1) = remain_of (g_token_id g) s"
proof -
  have "m_Mode m \<noteq> mode_ImagesGenerations" using assms(5) by simp
  moreover have "a \<in> set modelled_services" using assms(9) by (auto simp: modelled_services_def)
  ultimately show ?thesis using unpaid_service [OF assms(1-4)] assms(7,8,10) free_usage [OF assms(6,5,9)] by blast
qed

text \<open>So are all text requests to the libraries of AIProxy, whose answers are reported without a usage.\<close>

theorem library_free:
  assumes "served E (g_token_id g) tok s" and "reads_text E rq g m q reset n" and "0 \<le> estimate E m q"
    and "RelayTextHelper E rq g s = ((Returned None, job), s1)"
    and "m_Mode m \<noteq> mode_ImagesGenerations" "m_ChannelType m \<noteq> ct_AwsClaude" "GetAdaptor (m_APIType m) = Some AIProxyAdaptor"
    and "runs S E AIProxyAdaptor m"
  shows "(\<forall>v. quota_of v (job s1) = quota_of v s) \<and> remain_of (g_token_id g) (job s1) = remain_of (g_token_id g) s"
proof (rule unpaid_service [OF assms(1-7) _ assms(8)])
  show "AIProxyAdaptor \<in> set modelled_services" by (simp add: modelled_services_def)
  fix r u
  assume "service_answer S E AIProxyAdaptor m r = Some (Inr (Some u))"
  then have "library_DoResponse E (sv_library S) (sv_now S) m r = Inr (Some u)" by (simp add: service_answer_def)
  then show "PromptTokens u = 0 \<and> CompletionTokens u = 0" by (auto dest: library_usage simp: zero_usage_def)
qed

section \<open>The service that does not keep it\<close>

text \<open>A stream of Zhipu's third version without a meta line.\<close>

definition no_meta :: "response \<Rightarrow> bool" where
  "no_meta r \<longleftrightarrow> (\<forall>t \<in> set (zhipu_blocks (stream_body r)). \<forall>l \<in> set (Split (CHR 0x0A) t). \<not> HasPrefix l ''meta:'')"

lemma zhipu_block_no_meta:
  assumes "\<forall>l \<in> set (Split (CHR 0x0A) t). \<not> HasPrefix l ''meta:''"
  shows "fst (zhipu_block J now t st) = fst st"
proof -
  have "fst (fold (zhipu_line J now) ls st) = fst st" if "\<forall>x \<in> set ls. \<not> HasPrefix (fst x) ''meta:''" for ls st
    using that by (induction ls arbitrary: st) (auto simp: zhipu_line_def)
  moreover have "\<forall>x \<in> set (map (\<lambda>(i, l). (l, Suc i = length (Split (CHR 0x0A) t))) (enumerate 0 (Split (CHR 0x0A) t))).
      \<not> HasPrefix (fst x) ''meta:''"
    using assms by (auto simp: in_set_enumerate_eq)
  ultimately show ?thesis by (simp add: zhipu_block_def Let_def)
qed

lemma zhipu_stream_no_meta:
  assumes "no_meta r"
  shows "snd (zhipu_StreamHandler J now r) = close_stream r None"
proof -
  have "fst (fold (zhipu_block J now) ts st) = fst st"
    if "\<forall>t \<in> set ts. \<forall>l \<in> set (Split (CHR 0x0A) t). \<not> HasPrefix l ''meta:''" for ts st
    using that by (induction ts arbitrary: st) (simp_all add: zhipu_block_no_meta)
  from this [of "zhipu_blocks (stream_body r)" "(None, [])"] show ?thesis
    using assms by (simp add: zhipu_StreamHandler_def Let_def no_meta_def)
qed

lemma zhipu_reports_none:
  assumes "m_Mode m \<notin> {mode_ImagesGenerations, mode_Embeddings}" "m_IsStream m" "\<not> zhipu_v4 (m_ActualModelName m)"
    and "runs S E ZhipuAdaptor m" "no_meta r" "op_DoResponse (e_ops E ZhipuAdaptor) m (Some r) = Inr usage"
  shows "usage = None"
proof -
  have "snd (zhipu_StreamHandler (sv_zhipu S) (sv_now S) r) = Inr usage"
    using assms(1-4,6) by (simp add: runs_def service_answer_def zhipu_DoResponse_def)
  then show ?thesis
    using zhipu_stream_no_meta [OF assms(5)] by (auto simp: close_stream_def split: option.splits)
qed

text \<open>a stream of Zhipu that breaks off keeps the estimate. When the stream of a model of the third version ends
  without its meta line, the adaptor reports no usage and the settlement does nothing: the caller has paid the estimate
  (or nothing, if trusted), whatever the answer cost, and neither the use nor a log is recorded.\<close>

theorem zhipu_estimate_kept:
  assumes "served E (g_token_id g) tok s" and "reads_text E rq g m q reset n" and "0 \<le> estimate E m q"
    and "RelayTextHelper E rq g s = ((Returned None, job), s1)"
    and "m_Mode m \<notin> {mode_ImagesGenerations, mode_Embeddings}" "m_ChannelType m \<noteq> ct_AwsClaude"
    and "GetAdaptor (m_APIType m) = Some ZhipuAdaptor" "m_IsStream m" "\<not> zhipu_v4 (m_ActualModelName m)"
    and "runs S E ZhipuAdaptor m" "\<And>b r. op_DoRequest (e_ops E ZhipuAdaptor) m b = Inr (Some r) \<Longrightarrow> no_meta r"
  shows "job s1 = s1 \<and> (\<exists>pre \<in> {0, estimate E m q}.
    (\<forall>v. quota_of v (job s1) = (if v = t_user_id tok then quota_of v s - pre else quota_of v s)))"
proof -
  obtain b resp usage pre where *: "op_DoRequest (e_ops E ZhipuAdaptor) m b = Inr resp" "\<not> isErrorHappened m resp"
      "op_DoResponse (e_ops E ZhipuAdaptor) m resp = Inr usage"
      "take_estimate E (g_id g) (g_token_id g) (estimate E m q) s = ((pre, None), s1)" "pre = 0 \<or> pre = estimate E m q"
      "pays (g_token_id g) tok (case usage of Some u \<Rightarrow> text_cost E m q u | None \<Rightarrow> pre) s (job s1)"
    using text_answered [OF assms(1-4)] assms(7) by auto
  have none: "usage = None" if resp: "op_DoRequest (e_ops E ZhipuAdaptor) m b = Inr resp" "\<not> isErrorHappened m resp"
      "op_DoResponse (e_ops E ZhipuAdaptor) m resp = Inr usage" for b resp usage
  proof -
    obtain r where r: "resp = Some r" using resp(2) assms(6) by (auto simp: isErrorHappened_def split: option.splits)
    from zhipu_reports_none [OF assms(5,8-10) assms(11)] resp r show ?thesis by blast
  qed
  have u: "usage = None" using none [OF *(1-3)] .
  have ids: "m_TokenId m = g_token_id g" "m_UserId m = g_id g" using reads_text_ids [OF assms(2)] by simp_all
  have "send_text E m q reset pre = (Returned None, job)"
    using assms(4) *(4) unfolding RelayTextHelper_reads [OF assms(2)] ids by simp
  from send_text_None [OF this] assms(7) obtain usage' b' resp' where
    "op_DoRequest (e_ops E ZhipuAdaptor) m b' = Inr resp'" "\<not> isErrorHappened m resp'"
    "op_DoResponse (e_ops E ZhipuAdaptor) m resp' = Inr usage'"
    and job: "job = postConsumeQuota E usage' m q (request_ratio E m (Model q)) pre
      (GetModelRatio (e_ratios E) (Model q) (m_ChannelType m)) (GetGroupRatio (e_ratios E) (m_Group m)) reset"
    by auto
  then have "usage' = None" using none by blast
  then have "job s1 = s1" by (simp add: job postConsumeQuota_def)
  then show ?thesis using *(5,6) u by (auto simp: pays_def)
qed

section \<open>Examples\<close>

text \<open>A channel of a kind that serves one model at the price of a token each, and a request for it.\<close>

definition shop_ratios :: "int \<Rightarrow> ratios" where
  "shop_ratios ct = \<lparr>ModelRatio = [channel_model ''m'' ct \<mapsto> F64 1], CompletionRatio = [channel_model ''m'' ct \<mapsto> F64 1],
     GroupRatio = [''default'' \<mapsto> F64 1]\<rparr>"

definition shop_rq :: "string \<Rightarrow> request" where
  "shop_rq path = one_key\<lparr>q_path := path\<rparr>"

definition shop_ctx :: "string \<Rightarrow> int \<Rightarrow> ctx" where
  "shop_ctx path ct = (empty_ctx (shop_rq path))\<lparr>g_id := 1, g_token_id := 7, g_group := ''default'', g_channel := ct, g_base_url := ''u''\<rparr>"

definition shop_env :: "int \<Rightarrow> GeneralOpenAIRequest \<Rightarrow> (Meta \<Rightarrow> response \<Rightarrow> status_error + Usage option) \<Rightarrow> env" where
  "shop_env ct q svc = (lab_env (Inl ''''))\<lparr>e_ratios := shop_ratios ct, e_text := Inr q,
     e_ops := (\<lambda>_. \<lparr>op_ConvertRequest = (\<lambda>_ _. Inr ''''), op_ConvertImageRequest = (\<lambda>_ _. Inr ''''),
       op_DoRequest = (\<lambda>_ _. Inr (Some (lab_response 200))),
       op_DoResponse = (\<lambda>m r. case r of None \<Rightarrow> Inr None | Some r \<Rightarrow> svc m r)\<rparr>)\<rparr>"

definition shop_meta :: "string \<Rightarrow> int \<Rightarrow> GeneralOpenAIRequest \<Rightarrow> Meta" where
  "shop_meta path ct q = (the (GetByContext 5 (shop_rq path) (shop_ctx path ct)))
     \<lparr>m_IsStream := Stream q, m_ActualModelName := ''m'', m_OriginModelName := ''m''\<rparr>"

lemma shop_env_simps [simp]:
  "e_cfg (shop_env ct q svc) = direct_cfg" "e_ratios (shop_env ct q svc) = shop_ratios ct"
  "e_text (shop_env ct q svc) = Inr q" "e_now (shop_env ct q svc) = 5"
  "op_DoRequest (e_ops (shop_env ct q svc) a) m b = Inr (Some (lab_response 200))"
  "op_ConvertRequest (e_ops (shop_env ct q svc) a) m q' = Inr ''''"
  "op_DoResponse (e_ops (shop_env ct q svc) a) m (Some r) = svc m r"
  by (simp_all add: shop_env_def lab_env_def)

lemma shop_ctx_simps [simp]: "g_token_id (shop_ctx path ct) = 7" "g_id (shop_ctx path ct) = 1"
  by (simp_all add: shop_ctx_def empty_ctx_def)

lemma shop_GetByContext:
  "GetByContext 5 (shop_rq path) (shop_ctx path ct) = Some (the (GetByContext 5 (shop_rq path) (shop_ctx path ct)))"
  by (simp add: GetByContext_def shop_ctx_def)

lemma shop_meta_simps [simp]:
  "m_Mode (shop_meta path ct q) = GetByPath path" "m_ChannelType (shop_meta path ct q) = ct"
  "m_APIType (shop_meta path ct q) = ToAPIType ct" "m_Group (shop_meta path ct q) = ''default''"
  "m_ForcedSystemPrompt (shop_meta path ct q) = ''''" "m_ModelMapping (shop_meta path ct q) = None"
  "m_IsStream (shop_meta path ct q) = Stream q" "m_TokenId (shop_meta path ct q) = 7" "m_UserId (shop_meta path ct q) = 1"
  "m_ActualModelName (shop_meta path ct q) = ''m''" "m_PromptTokens (shop_meta path ct q) = 0"
  by (simp_all add: shop_meta_def GetByContext_def shop_ctx_def shop_rq_def one_key_def empty_ctx_def)

lemma shop_reads:
  assumes "ValidateTextRequest q (GetByPath path) = None" "Model q = ''m''"
    and "getPromptTokens (shop_env ct q svc) q (GetByPath path) = Some n" "GetByPath path \<noteq> mode_Moderations"
  shows "reads_text (shop_env ct q svc) (shop_rq path) (shop_ctx path ct) ((shop_meta path ct q)\<lparr>m_PromptTokens := n\<rparr>) q False n"
proof -
  obtain m0 where m0: "GetByContext 5 (shop_rq path) (shop_ctx path ct) = Some m0" using shop_GetByContext by blast
  then have m: "shop_meta path ct q = m0\<lparr>m_IsStream := Stream q, m_ActualModelName := ''m'', m_OriginModelName := ''m''\<rparr>"
    by (simp add: shop_meta_def)
  have f: "m_Mode m0 = GetByPath path" "m_ModelMapping m0 = None" "m_ForcedSystemPrompt m0 = ''''"
    using shop_meta_simps(1,5,6) [of path ct q] unfolding m by simp_all
  have q: "q\<lparr>Model := ''m''\<rparr> = q" using assms(2) by (cases q) simp
  show ?thesis
    using f assms(1,3) by (simp add: reads_text_def m0 getAndValidateTextRequest_def prepare_text_def getMappedModelName_def
        setSystemPrompt_def assms(2,4) q m)
qed

lemma shop_price:
  "request_ratio (shop_env ct q svc) (shop_meta path ct q'\<lparr>m_PromptTokens := n\<rparr>) ''m'' = F64 1"
  "GetCompletionRatio (shop_ratios ct) ''m'' ct = F64 1"
  by (simp_all add: request_ratio_def GetModelRatio_def GetCompletionRatio_def internet_name_def HasPrefix_def
      GetGroupRatio_def shop_ratios_def one_times_one)

lemma shop_estimate:
  assumes "Model q = ''m''" "MaxTokens q = 0" "0 \<le> n" "n < 1000"
  shows "estimate (shop_env ct q svc) (shop_meta path ct q\<lparr>m_PromptTokens := n\<rparr>) q = 500 + n"
proof -
  have "PreConsumedQuota direct_cfg = 500" by (simp add: direct_cfg_def init_config_def)
  then show ?thesis
    using int64_of_f64_of_int [of "500 + n"] assms
    by (simp add: estimate_def getPreConsumedQuota_def shop_price f64_times_1 int64_def)
qed

lemma shop_taken: "0 \<le> n \<Longrightarrow> n < 400 \<Longrightarrow> \<exists>s1. take_estimate (shop_env ct q svc) 1 7 (500 + n) lab = ((500 + n, None), s1)"
  by (simp add: take_estimate_def CacheGetUserQuota_def CacheDecreaseUserQuota_def GetUserQuota_def user_column_def
      PreConsumeTokenQuota_def GetTokenById_def lab_def empty_st_def lab_token_def zero_token_def ann_def zero_user_def
      remind_quota_def DecreaseUserQuota_def decreaseUserQuota_def Let_def int64_def)

lemma shop_served: "served (shop_env ct q svc) 7 lab_token lab"
  using lab_served [of "Inl ''''"] by (simp add: served_def)

lemma shop_run:
  assumes "reads_text (shop_env ct q svc) (shop_rq path) (shop_ctx path ct) (shop_meta path ct q\<lparr>m_PromptTokens := n\<rparr>) q False n"
    and "Model q = ''m''" "MaxTokens q = 0" "0 \<le> n" "n < 400" "ToAPIType ct \<noteq> api_OpenAI" "ct \<noteq> ct_DeepL"
    and "svc (shop_meta path ct q\<lparr>m_PromptTokens := n\<rparr>) (lab_response 200) = Inr usage"
  shows "\<exists>job s1. RelayTextHelper (shop_env ct q svc) (shop_rq path) (shop_ctx path ct) lab = ((Returned None, job), s1)"
proof -
  obtain s1 where taken: "take_estimate (shop_env ct q svc) 1 7 (500 + n) lab = ((500 + n, None), s1)"
    using shop_taken [OF assms(4,5)] by blast
  obtain a where "GetAdaptor (ToAPIType ct) = Some a" using adaptor_of_channel by blast
  then show ?thesis
    using assms(6-8) taken shop_estimate [OF assms(2-4), of ct svc path] assms(5)
    by (simp add: RelayTextHelper_reads [OF assms(1)] send_text_def getRequestBody_def isErrorHappened_def lab_response_def HasPrefix_def)
qed

text \<open>Services of which three answer: Baidu with ten tokens, Ollama without a usage, Zhipu with an empty stream.\<close>

definition shop_services :: services where
  "shop_services = \<lparr>
     sv_openai = \<lparr>oj_chat = (\<lambda>_. None), oj_completion = (\<lambda>_. None), oj_slim = (\<lambda>_. Inl ''''), oj_image = (\<lambda>_. None)\<rparr>,
     sv_claude = sample_json,
     sv_gemini = \<lparr>gj_chat = (\<lambda>_. Inl ''''), gj_embedding = (\<lambda>_. Inl ''''), gj_marshal = (\<lambda>_. ''''), gj_image = (\<lambda>_. ('''', '''')),
       gj_uuid = (\<lambda>_. '''')\<rparr>,
     sv_ollama = \<lparr>lj_chat = (\<lambda>_. Inl ''''),
       lj_embedding = (\<lambda>_. Inr \<lparr>ob_Error = '''', ob_Model = ''m'', ob_Embeddings = [[1]]\<rparr>), lj_image = (\<lambda>_. ('''', '''')),
       lj_uuid = (\<lambda>_. '''')\<rparr>,
     sv_cohere = \<lparr>hj_event = (\<lambda>_. None), hj_response = (\<lambda>_. Inl '''')\<rparr>,
     sv_ali = \<lparr>aj_response = (\<lambda>_. Inl ''''), aj_embedding = (\<lambda>_. Inl ''''), aj_task = (\<lambda>_. Inl ''''), aj_poll = (\<lambda>_ _ _. Inl ''''),
       aj_image_data = Inr, aj_base64 = id, aj_seed = (\<lambda>_. 0)\<rparr>,
     sv_baidu = \<lparr>bj_response = (\<lambda>_. Inl ''''),
       bj_embedding = (\<lambda>_. Inr \<lparr>be_Data = [], be_Usage = \<lparr>PromptTokens = 10, CompletionTokens = 0, TotalTokens = 10\<rparr>,
         be_ErrorCode = 0, be_ErrorMsg = ''''\<rparr>)\<rparr>,
     sv_tencent = \<lparr>nj_line = (\<lambda>_. None), nj_response = (\<lambda>_. Inl ''''), nj_embedding = (\<lambda>_. Inl ''''), nj_marshal = (\<lambda>_. ''''),
       nj_sha256 = id, nj_hmac = (\<lambda>s _. s), nj_hex = id, nj_date = (\<lambda>_. ''''), nj_uuid = (\<lambda>_. '''')\<rparr>,
     sv_xunfei = \<lparr>xw_parse = (\<lambda>u. (u, '''')), xw_date = '''', xw_hmac64 = (\<lambda>s _. s), xw_base64 = id, xw_escape = id,
       xw_talk = (\<lambda>_ _. Inl ''''), xw_decode = (\<lambda>_. None), xw_uuid = (\<lambda>_. '''')\<rparr>,
     sv_zhipu = \<lparr>zj_response = (\<lambda>_. Inl ''''), zj_meta = (\<lambda>_. None), zj_embedding = (\<lambda>_. Inl '''')\<rparr>,
     sv_palm = (\<lambda>_. Inl ''''), sv_deepl = (\<lambda>_. Inl ''''), sv_cloudflare = \<lparr>fj_chunk = (\<lambda>_. None), fj_response = (\<lambda>_. Inl '''')\<rparr>,
     sv_coze = \<lparr>ozj_event = (\<lambda>_. None), ozj_response = (\<lambda>_. Inl '''')\<rparr>,
     sv_library = \<lparr>lbj_event = (\<lambda>_. None),
       lbj_response = (\<lambda>_. Inr \<lparr>lbr_Success = True, lbr_Answer = ''a'', lbr_Documents = [], lbr_ErrCode = 0, lbr_Message = ''''\<rparr>),
       lbj_uuid = (\<lambda>_. '''')\<rparr>, sv_uuid = '''', sv_prompt_text = '''',
     sv_now = 5, sv_original_model = ''m'', sv_request_model = ''m'', sv_authorization = '''', sv_response_format = '''',
     sv_request = None\<rparr>"

lemma shop_cost:
  "Model q = ''m'' \<Longrightarrow>
   text_cost (shop_env ct q svc) (shop_meta path ct q\<lparr>m_PromptTokens := 0\<rparr>) q \<lparr>PromptTokens = 10, CompletionTokens = 0, TotalTokens = 10\<rparr> = 10"
proof -
  assume "Model q = ''m''"
  moreover have "f64_of_int 10 = F64 10" "f64_of_int 0 = F64 0" using rnd_exact [of 10] by (simp_all add: f64_of_int_def)
  moreover have "F64 10 + F64 0 * F64 1 = F64 10" "F64 10 * F64 1 = F64 10"
    using rnd_exact [of 10] by (simp_all add: f64_defs)
  ultimately show ?thesis
    by (simp add: text_cost_def shop_price text_quota_def ceil64_def int64_of_f64_def trunc_rat_def int64_def)
qed

lemma shop_embedding_reads:
  "reads_text (shop_env ct lab_request svc) (shop_rq ''/v1/embeddings'') (shop_ctx ''/v1/embeddings'' ct)
     (shop_meta ''/v1/embeddings'' ct lab_request\<lparr>m_PromptTokens := 0\<rparr>) lab_request False 0"
  by (rule shop_reads) (simp_all add: ValidateTextRequest_def getPromptTokens_def GetByPath_def HasPrefix_def lab_request_def)

lemma shop_embedding_run:
  assumes "ToAPIType ct \<noteq> api_OpenAI" "ct \<noteq> ct_DeepL"
    and "svc (shop_meta ''/v1/embeddings'' ct lab_request\<lparr>m_PromptTokens := 0\<rparr>) (lab_response 200) = Inr usage"
  obtains job s1 where "RelayTextHelper (shop_env ct lab_request svc) (shop_rq ''/v1/embeddings'')
      (shop_ctx ''/v1/embeddings'' ct) lab = ((Returned None, job), s1)"
  using shop_run [where svc = svc and usage = usage, OF shop_embedding_reads] assms by fastforce

lemma shop_embedding_estimate:
  "0 \<le> estimate (shop_env ct lab_request svc) (shop_meta path ct lab_request\<lparr>m_PromptTokens := 0\<rparr>) lab_request"
  using shop_estimate [of lab_request 0] by simp

lemma lab_quota: "quota_of 1 lab = 1000"
  by (simp add: user_column_def lab_def ann_def)

lemma shop_not_stream: "Stream lab_request = False"
  by (simp add: lab_request_def)

lemma shop_embedding_mode: "GetByPath ''/v1/embeddings'' = mode_Embeddings"
  by (simp add: GetByPath_def HasPrefix_def)

definition baidu_svc :: "Meta \<Rightarrow> response \<Rightarrow> status_error + Usage option" where
  "baidu_svc = baidu_DoResponse (sv_baidu shop_services)"

lemma baidu_runs: "runs shop_services (shop_env ct q baidu_svc) BaiduAdaptor m"
  by (simp add: runs_def service_answer_def baidu_svc_def)

lemma baidu_embedding:
  "\<not> m_IsStream m \<Longrightarrow> m_Mode m = mode_Embeddings \<Longrightarrow> baidu_svc m r = Inr usage \<Longrightarrow>
   usage = Some \<lparr>PromptTokens = 10, CompletionTokens = 0, TotalTokens = 10\<rparr>"
  by (auto simp: baidu_svc_def baidu_DoResponse_def baidu_EmbeddingHandler_def shop_services_def read_json_def
      embeddingResponseBaidu2OpenAI_def Let_def split: sum.splits if_splits)


definition ollama_svc :: "Meta \<Rightarrow> response \<Rightarrow> status_error + Usage option" where
  "ollama_svc = ollama_DoResponse (sv_ollama shop_services) (sv_now shop_services)"

theorem embeddings_free_witness:
  "\<exists>job s1. RelayTextHelper (shop_env ct_Ollama lab_request ollama_svc) (shop_rq ''/v1/embeddings'')
      (shop_ctx ''/v1/embeddings'' ct_Ollama) lab = ((Returned None, job), s1) \<and> quota_of 1 (job s1) = 1000"
proof -
  let ?E = "shop_env ct_Ollama lab_request ollama_svc" and ?g = "shop_ctx ''/v1/embeddings'' ct_Ollama"
  let ?m = "shop_meta ''/v1/embeddings'' ct_Ollama lab_request\<lparr>m_PromptTokens := 0\<rparr>"
  have m: "m_Mode ?m = mode_Embeddings" "\<not> m_IsStream ?m" "m_ChannelType ?m \<noteq> ct_AwsClaude"
      "GetAdaptor (m_APIType ?m) = Some OllamaAdaptor"
    by (simp_all add: shop_embedding_mode shop_not_stream ToAPIType_def GetAdaptor_def)
  have runs: "runs shop_services ?E OllamaAdaptor ?m" by (simp add: runs_def service_answer_def ollama_svc_def)
  have "ollama_svc ?m (lab_response 200) = Inr (Some zero_usage)"
    using m by (simp add: ollama_svc_def ollama_DoResponse_def ollama_EmbeddingHandler_def shop_services_def decode_body_def
        lab_response_def embeddingResponseOllama2OpenAI_def)
  then obtain job s1 where run: "RelayTextHelper ?E (shop_rq ''/v1/embeddings'') ?g lab = ((Returned None, job), s1)"
    by (rule shop_embedding_run [rotated 2]) (simp_all add: ToAPIType_def)
  have s: "served ?E (g_token_id ?g) lab_token lab" using shop_served by simp
  have a: "OllamaAdaptor \<in> {GeminiAdaptor, OllamaAdaptor, AliAdaptor, TencentAdaptor}" by simp
  have "quota_of 1 (job s1) = quota_of 1 lab"
    using embeddings_free [OF s shop_embedding_reads shop_embedding_estimate run m(1-4) a runs] by blast
  then show ?thesis using run lab_quota by auto
qed

definition zhipu_svc :: "Meta \<Rightarrow> response \<Rightarrow> status_error + Usage option" where
  "zhipu_svc m r = the (service_answer shop_services (lab_env (Inl '''')) ZhipuAdaptor m r)"

definition stream_request :: GeneralOpenAIRequest where
  "stream_request = lab_request\<lparr>Stream := True\<rparr>"

lemma shop_stream_reads:
  "reads_text (shop_env ct stream_request svc) (shop_rq ''/v1/completions'') (shop_ctx ''/v1/completions'' ct)
     (shop_meta ''/v1/completions'' ct stream_request\<lparr>m_PromptTokens := 0\<rparr>) stream_request False 0"
  by (rule shop_reads)
    (simp_all add: ValidateTextRequest_def getPromptTokens_def GetByPath_def HasPrefix_def stream_request_def lab_request_def
      CountTokenInput_def)

lemma shop_stream_mode: "GetByPath ''/v1/completions'' = mode_Completions"
  by (simp add: GetByPath_def HasPrefix_def)

theorem zhipu_estimate_kept_witness:
  "\<exists>job s1. RelayTextHelper (shop_env ct_Zhipu stream_request zhipu_svc) (shop_rq ''/v1/completions'')
      (shop_ctx ''/v1/completions'' ct_Zhipu) lab = ((Returned None, job), s1) \<and> job s1 = s1"
proof -
  let ?E = "shop_env ct_Zhipu stream_request zhipu_svc" and ?g = "shop_ctx ''/v1/completions'' ct_Zhipu"
  let ?m = "shop_meta ''/v1/completions'' ct_Zhipu stream_request\<lparr>m_PromptTokens := 0\<rparr>"
  have m: "m_Mode ?m \<notin> {mode_ImagesGenerations, mode_Embeddings}" "m_ChannelType ?m \<noteq> ct_AwsClaude"
      "GetAdaptor (m_APIType ?m) = Some ZhipuAdaptor" "m_IsStream ?m" "\<not> zhipu_v4 (m_ActualModelName ?m)"
    by (simp_all add: shop_stream_mode stream_request_def ToAPIType_def GetAdaptor_def zhipu_v4_def HasPrefix_def)
  have q: "Model stream_request = ''m''" "MaxTokens stream_request = 0" by (simp_all add: stream_request_def lab_request_def)
  have runs: "runs shop_services ?E ZhipuAdaptor ?m"
    using m by (simp add: runs_def service_answer_def zhipu_svc_def zhipu_DoResponse_def)
  have none: "no_meta r" if "op_DoRequest (e_ops ?E ZhipuAdaptor) ?m b = Inr (Some r)" for b r
    using that by (auto simp: no_meta_def lab_response_def stream_body_def zhipu_blocks_def)
  have "zhipu_svc ?m (lab_response 200) = Inr None"
    using m by (simp add: zhipu_svc_def service_answer_def zhipu_DoResponse_def zhipu_StreamHandler_def lab_response_def
        stream_body_def zhipu_blocks_def close_stream_def)
  then obtain job s1 where run: "RelayTextHelper ?E (shop_rq ''/v1/completions'') ?g lab = ((Returned None, job), s1)"
    using shop_run [where svc = zhipu_svc and usage = None, OF shop_stream_reads q] by (fastforce simp: ToAPIType_def)
  have s: "served ?E (g_token_id ?g) lab_token lab" using shop_served by simp
  have est: "0 \<le> estimate ?E ?m stream_request" using shop_estimate [OF q, of 0] by simp
  have "job s1 = s1" using zhipu_estimate_kept [OF s shop_stream_reads est run m runs] none by blast
  with run show ?thesis by blast
qed

end
