(* ===== verification/ChannelTests.thy ===== *)
theory ChannelTests
  imports Monitor OpenAI
begin

text \<open>
  \<^verbatim>\<open>controller/channel-test.go\<close>: a channel is tested with a request of its own, answered channels that are
  too slow or that fail for good are disabled, disabled ones that answer are enabled again; all channels are
  tested one after the other in a goroutine, at most once at a time. The locale \<open>channel_round\<close> is what one pass
  over the channels does to the table when each step changes the row of its own channel only; the passes of
  \<^verbatim>\<open>channel-billing.go\<close> in theory \<open>ChannelBilling\<close> are another instance. What an adaptor does is the record \<open>adaptor_ops\<close>
  as in theory \<open>Relay\<close>; the answer it writes is read by \<open>te_written\<close>.
\<close>

section \<open>One pass over the channels\<close>

text \<open>A notification may look up the root user's address, which stays in the configuration.\<close>

definition same_settings :: "config \<Rightarrow> config \<Rightarrow> bool" where
  "same_settings cfg cfg' \<longleftrightarrow> (\<exists>email. cfg' = cfg\<lparr>RootUserEmail := email\<rparr>)"

lemma same_settings_refl [simp]: "same_settings cfg cfg"
  unfolding same_settings_def by (rule exI [of _ "RootUserEmail cfg"]) simp

lemma same_settings_trans: "same_settings a b \<Longrightarrow> same_settings b c \<Longrightarrow> same_settings a c"
  by (auto simp: same_settings_def)

text \<open>\<open>None\<close> is a panic.\<close>

fun over_channels :: "(channel \<Rightarrow> config \<times> st \<Rightarrow> (config \<times> st) option) \<Rightarrow> channel list \<Rightarrow> config \<times> st \<Rightarrow> (config \<times> st) option" where
  "over_channels step [] x = Some x"
| "over_channels step (c # cs) x = (case step c x of None \<Rightarrow> None | Some y \<Rightarrow> over_channels step cs y)"

text \<open>The row of channel \<open>i\<close> after a step.\<close>

definition at_row :: "int \<Rightarrow> (channel \<Rightarrow> channel) \<Rightarrow> st \<Rightarrow> channel list" where
  "at_row i f s = update_where (\<lambda>c. c_id c = i) f (channels s)"

locale channel_round =
  fixes step :: "channel \<Rightarrow> config \<times> st \<Rightarrow> (config \<times> st) option"
    and usable :: "config \<Rightarrow> channel \<Rightarrow> bool"
    and change :: "config \<Rightarrow> channel \<Rightarrow> channel \<Rightarrow> channel"
  assumes step_row: "consistent s \<Longrightarrow> c_id c \<in> c_id ` set (channels s) \<Longrightarrow> usable cfg c \<Longrightarrow>
      \<exists>cfg' s'. step c (cfg, s) = Some (cfg', s') \<and> same_settings cfg cfg' \<and> consistent s' \<and>
        channels s' = at_row (c_id c) (change cfg c) s"
    and change_id: "c_id (change cfg c x) = c_id x"
    and settings_only: "same_settings cfg cfg' \<Longrightarrow> change cfg' = change cfg \<and> usable cfg' = usable cfg"
begin

definition changes :: "config \<Rightarrow> channel list \<Rightarrow> channel \<Rightarrow> channel" where
  "changes cfg cs x = (case find (\<lambda>c. c_id c = c_id x) cs of None \<Rightarrow> x | Some c \<Rightarrow> change cfg c x)"

lemma at_row_ids: "c_id ` set (at_row i (change cfg c) s) = c_id ` set (channels s)"
proof -
  have "map c_id (at_row i (change cfg c) s) = map c_id (channels s)"
    by (simp add: at_row_def update_where_def change_id)
  then show ?thesis by (metis list.set_map)
qed

lemma round:
  assumes "consistent s" and "c_id ` set cs \<subseteq> c_id ` set (channels s)" and "distinct (map c_id cs)"
    and "\<forall>c \<in> set cs. usable cfg c"
  shows "\<exists>cfg' s'. over_channels step cs (cfg, s) = Some (cfg', s') \<and> same_settings cfg cfg' \<and> consistent s' \<and>
    channels s' = map (changes cfg cs) (channels s)"
  using assms
proof (induction cs arbitrary: cfg s)
  case Nil
  then show ?case by (simp add: changes_def [abs_def])
next
  case (Cons c cs)
  obtain cfg1 s1 where one: "step c (cfg, s) = Some (cfg1, s1)" "same_settings cfg cfg1" "consistent s1"
      "channels s1 = at_row (c_id c) (change cfg c) s"
    using step_row [of s c cfg] Cons.prems by auto
  have same: "change cfg1 = change cfg" "usable cfg1 = usable cfg" using settings_only [OF one(2)] by auto
  have "c_id ` set cs \<subseteq> c_id ` set (channels s1)" using Cons.prems(2) by (simp add: one(4) at_row_ids)
  then obtain cfg' s' where rest: "over_channels step cs (cfg1, s1) = Some (cfg', s')" "same_settings cfg1 cfg'"
      "consistent s'" "channels s' = map (changes cfg1 cs) (channels s1)"
    using Cons.IH [OF one(3), of cfg1] Cons.prems(3,4) same by auto
  have new: "find (\<lambda>d. c_id d = c_id c) cs = None"
    using Cons.prems(3) by (simp add: find_None_iff) (metis imageI)
  have "changes cfg1 cs (if c_id x = c_id c then change cfg c x else x) = changes cfg (c # cs) x" for x
    by (simp add: changes_def same change_id new split: option.split)
  then have "channels s' = map (changes cfg (c # cs)) (channels s)"
    by (simp add: rest(4) one(4) at_row_def update_where_def comp_def)
  then show ?case using one(1,2) rest(1-3) same_settings_trans by auto
qed

lemma all_rows:
  assumes "consistent s" and "\<forall>c \<in> set (channels s). usable cfg c"
  shows "\<exists>cfg' s'. over_channels step (rev (channels s)) (cfg, s) = Some (cfg', s') \<and> same_settings cfg cfg' \<and>
    consistent s' \<and> channels s' = map (\<lambda>c. change cfg c c) (channels s)"
proof -
  have d: "distinct (map c_id (rev (channels s)))"
    using assms(1) by (simp add: in_step_def rev_map [symmetric])
  have "find (\<lambda>d. c_id d = c_id c) (rev (channels s)) = Some c" if "c \<in> set (channels s)" for c
    using find_distinct [of c_id "rev (channels s)" c] d that by simp
  then have "map (changes cfg (rev (channels s))) (channels s) = map (\<lambda>c. change cfg c c) (channels s)"
    by (simp add: changes_def)
  then show ?thesis using round [OF assms(1) _ d, of cfg] assms(2) by auto
qed

end

lemma UpdateChannelStatus_row:
  assumes "db_faults s = []"
  shows "channels (UpdateChannelStatusById i st s) = at_row i (\<lambda>c. c\<lparr>c_status := st\<rparr>) s"
  using assms by (simp add: UpdateChannelStatusById_def UpdateAbilityStatus_def at_row_def)

lemma notifyRootUser_result:
  assumes "db_faults s = []"
  shows "\<exists>cfg'. notifyRootUser push_ok cfg s = (cfg', s) \<and> same_settings cfg cfg'"
  using assms
  by (auto simp: notifyRootUser_def GetRootUserEmail_def same_settings_def Let_def intro: same_settings_refl [unfolded same_settings_def])

lemma consistent_DisableChannel:
  assumes "consistent s"
  shows "\<exists>cfg' s'. DisableChannel push_ok cfg i s = (cfg', s') \<and> same_settings cfg cfg' \<and> consistent s' \<and>
    channels s' = at_row i (\<lambda>c. c\<lparr>c_status := ChannelStatusAutoDisabled\<rparr>) s"
  using assms consistent_Status [OF assms, of i ChannelStatusAutoDisabled]
    notifyRootUser_result [of "UpdateChannelStatusById i ChannelStatusAutoDisabled s" push_ok cfg]
  by (auto simp: DisableChannel_def UpdateChannelStatus_row)

lemma consistent_EnableChannel:
  assumes "consistent s" and "i \<in> c_id ` set (channels s)"
  shows "\<exists>cfg' s'. EnableChannel push_ok cfg i s = (cfg', s') \<and> same_settings cfg cfg' \<and> consistent s' \<and>
    channels s' = at_row i (\<lambda>c. c\<lparr>c_status := ChannelStatusEnabled\<rparr>) s"
  using assms consistent_Status [OF assms(1), of i ChannelStatusEnabled]
    notifyRootUser_result [of "UpdateChannelStatusById i ChannelStatusEnabled s" push_ok cfg]
  by (auto simp: EnableChannel_def UpdateChannelStatus_row)


section \<open>Testing a channel\<close>

record test_env =
  te_env :: env
  te_maps :: "string \<Rightarrow> (string \<times> string) list option"
  te_config :: "string \<Rightarrow> channel_config \<times> string option"
  te_written :: "Meta \<Rightarrow> response option \<Rightarrow> string + TextResponse"
  te_took :: "channel \<Rightarrow> int"
  te_pushed :: "channel \<Rightarrow> bool"

definition zero_request :: GeneralOpenAIRequest where
  "zero_request = \<lparr>Messages = [], Model = '''', StoreFlag = None, ReasoningEffort = None, Metadata = JNull,
     FrequencyPenalty = None, LogitBias = JNull, Logprobs = None, TopLogprobs = None, MaxTokens = 0,
     MaxCompletionTokens = None, N_choices = 0, Modalities = [], Prediction = JNull, Audio = None,
     PresencePenalty = None, Response_Format = None, Seed = 0, ServiceTier = None, Stop = JNull, Stream = False,
     IncludeUsage = None, Temperature = None, TopP = None, TopK = 0, Tools = [], ToolChoice = JNull,
     ParallelTooCalls = None, User = '''', FunctionCall = JNull, Functions = JNull, Input = JNull,
     EncodingFormat = '''', Dimensions = 0, Prompt = JNull, Quality = None, Size = '''', Style = None,
     Instruction = '''', NumCtx = 0\<rparr>"

definition buildTestRequest :: "config \<Rightarrow> string \<Rightarrow> GeneralOpenAIRequest" where
  "buildTestRequest cfg model =
     zero_request\<lparr>Model := (if model = '''' then ''gpt-3.5-turbo'' else model),
       Messages := [no_message\<lparr>ms_Role := ''user'', ms_Content := JStr (TestPrompt cfg)\<rparr>]\<rparr>"

definition parseTestResponse :: "string + TextResponse \<Rightarrow> string + string" where
  "parseTestResponse resp =
     (case resp of
        Inl e \<Rightarrow> Inl e
      | Inr response \<Rightarrow>
          (case tr_Choices response of
             [] \<Rightarrow> Inl ''response has no choices''
           | choice # _ \<Rightarrow>
               (case ms_Content (tc_Message choice) of
                  JStr stringContent \<Rightarrow> Inr stringContent
                | _ \<Rightarrow> Inl ''response content is not string'')))"

text \<open>The request that is made up for the test, and its context.\<close>

definition test_request :: request where
  "test_request = \<lparr>q_path = ''/v1/chat/completions'', q_url = ''/v1/chat/completions'', q_authorization = '''',
     q_client_ip = '''', q_request_id = '''', q_body_model = Inr '''', q_param = (\<lambda>_. '''')\<rparr>"

definition test_context :: ctx where
  "test_context = \<lparr>g_id = 0, g_request_model = '''', g_available_models = '''', g_token_id = 0, g_token_name = '''',
     g_specific_channel = None, g_group = '''', g_channel = 0, g_channel_id = 0, g_channel_name = '''', g_system_prompt = '''',
     g_model_mapping = None, g_original_model = '''', g_base_url = '''', g_config = None, g_authorization = ''''\<rparr>"

definition test_model :: "test_env \<Rightarrow> channel \<Rightarrow> string \<Rightarrow> string" where
  "test_model T c modelName =
     (let modelName = (if modelName = '''' \<or> \<not> Contains (c_models c) modelName
            then (case Split (CHR '','') (c_models c) of [] \<Rightarrow> modelName | n # _ \<Rightarrow> n) else modelName)
      in case GetModelMapping (te_maps T) c of
           None \<Rightarrow> modelName
         | Some m \<Rightarrow>
             (case map_of m modelName of
                None \<Rightarrow> modelName
              | Some n \<Rightarrow> (if n \<noteq> '''' then n else modelName)))"

text \<open>What a test reports: the answer, an error, the service's error.\<close>

type_synonym test_report = "string \<times> string option \<times> api_error option"

text \<open>From the converted request to the answer.\<close>

definition test_exchange :: "test_env \<Rightarrow> adaptor_ops \<Rightarrow> Meta \<Rightarrow> string \<Rightarrow> test_report" where
  "test_exchange T ops m jsonData =
     (case op_DoRequest ops m (JsonBody jsonData) of
        Inl e \<Rightarrow> ('''', Some e, None)
      | Inr resp \<Rightarrow>
          (if (case resp of None \<Rightarrow> False | Some r \<Rightarrow> rp_StatusCode r \<noteq> 200) then
             (let err = RelayErrorHandler (e_unmarshal_error (te_env T)) resp;
                  errorMessage = er_Message (se_Error err);
                  errorMessage = (if errorMessage \<noteq> '''' then '', error message: '' @ errorMessage else errorMessage)
              in ('''', Some (''http status code: '' @ Itoa (case resp of None \<Rightarrow> 0 | Some r \<Rightarrow> rp_StatusCode r) @ errorMessage),
                  Some (se_Error err)))
           else
             (case op_DoResponse ops m resp of
                Inl respErr \<Rightarrow> ('''', Some (er_Message (se_Error respErr)), Some (se_Error respErr))
              | Inr None \<Rightarrow> ('''', Some ''usage is nil'', None)
              | Inr (Some usage) \<Rightarrow>
                  (case parseTestResponse (te_written T m resp) of
                     Inl e \<Rightarrow> ('''', Some e, None)
                   | Inr responseMessage \<Rightarrow> (responseMessage, None, None)))))"

text \<open>The entry of the log, written in a goroutine.\<close>

definition test_log :: "test_env \<Rightarrow> channel \<Rightarrow> string \<Rightarrow> test_report \<Rightarrow> st \<Rightarrow> st" where
  "test_log T c modelName r =
     (case r of (responseMessage, err, openaiErr) \<Rightarrow>
        (let logContent =
           (case (err, openaiErr) of
              (None, None) \<Rightarrow> ''Channel '' @ c_name c @ '' test successful, response: '' @ responseMessage
            | (Some e, _) \<Rightarrow> ''Channel '' @ c_name c @ '' test failed, error: '' @ e
            | (None, Some e) \<Rightarrow> ''Channel '' @ c_name c @ '' test failed, error: '' @ er_Message e)
         in RecordTestLog (e_request_id (te_env T)) (e_now (te_env T))
              (zero_log\<lparr>l_channel_id := c_id c, l_model_name := modelName, l_content := logContent,
                 l_elapsed_time := e_elapsed (te_env T)\<rparr>)))"

text \<open>\<open>None\<close> is a panic: a kind of channel that the table of addresses lacks.\<close>

definition testChannel :: "test_env \<Rightarrow> channel \<Rightarrow> GeneralOpenAIRequest \<Rightarrow> (test_report \<times> (st \<Rightarrow> st)) option" where
  "testChannel T c q =
     (case GetByContext (e_now (te_env T)) test_request
          (SetupContextForSelectedChannel (te_maps T) (te_config T) c '''' test_context) of
        None \<Rightarrow> None
      | Some m \<Rightarrow>
          (case GetAdaptor (ToAPIType (c_type c)) of
             None \<Rightarrow> Some (('''', Some (''invalid api type: '' @ Itoa (ToAPIType (c_type c)) @ '', adaptor is nil''), None), id)
           | Some a \<Rightarrow>
               (let ops = e_ops (te_env T) a; modelName = test_model T c (Model q);
                    m = m\<lparr>m_OriginModelName := Model q, m_ActualModelName := modelName\<rparr>
                in case op_ConvertRequest ops m (q\<lparr>Model := modelName\<rparr>) of
                     Inl e \<Rightarrow> Some (('''', Some e, None), id)
                   | Inr jsonData \<Rightarrow>
                       (let r = test_exchange T ops m jsonData in Some (r, test_log T c modelName r)))))"

text \<open>The answer of the handler: success, message, milliseconds and the model asked for. Two goroutines follow.\<close>

definition TestChannel :: "test_env \<Rightarrow> config \<Rightarrow> string \<Rightarrow> string \<Rightarrow> st \<Rightarrow>
    ((bool \<times> string \<times> (f64 \<times> string) option) \<times> (st \<Rightarrow> st) list) option \<times> st" where
  "TestChannel T cfg param modelName s =
     (case parse_ok (ParseInt param) of
        None \<Rightarrow> (Some ((False, ''strconv.Atoi: parsing '' @ param, None), []), s)
      | Some cid \<Rightarrow>
          (case GetChannelById cid True s of
             (Inl e, s) \<Rightarrow> (Some ((False, e, None), []), s)
           | (Inr c, s) \<Rightarrow>
               (case testChannel T c (buildTestRequest cfg modelName) of
                  None \<Rightarrow> (None, s)
                | Some ((responseMessage, err, _), job) \<Rightarrow>
                    (let milliseconds = (if err = None then te_took T c else 0);
                         consumedTime = f64_of_int milliseconds / f64_of_int 1000
                     in (Some (case err of
                             Some e \<Rightarrow> (False, e, Some (consumedTime, modelName))
                           | None \<Rightarrow> (True, responseMessage, Some (consumedTime, modelName)),
                           [job, UpdateResponseTime (e_now (te_env T)) (c_id c) milliseconds]), s)))))"


section \<open>Testing all channels\<close>

text \<open>\<open>message.Notify\<close>; \<open>mailed\<close> and \<open>pushed\<close> are what sending answers.\<close>

definition Notify :: "string \<Rightarrow> string option \<Rightarrow> string option \<Rightarrow> string option" where
  "Notify by mailed pushed =
     (if by = ''email'' then mailed
      else if by = ''message_pusher'' then pushed
      else Some (''unknown notify method: '' @ by))"

definition ByAll :: string where
  "ByAll = ''all''"

definition disable_threshold :: "config \<Rightarrow> int" where
  "disable_threshold cfg =
     (let disableThreshold = int64_of_f64 (ChannelDisableThreshold cfg * f64_of_int 1000)
      in if disableThreshold = 0 then 10000000 else disableThreshold)"

definition seconds :: "int \<Rightarrow> string" where
  "seconds milliseconds = (case f64_of_int milliseconds / f64_of_int 1000 of F64 q \<Rightarrow> fmt_fixed 2 q)"

text \<open>
  One channel of the loop. The goroutine with the log runs at once. A slow channel that is not disabled is
  notified to everybody, which changes nothing. The last branch but one reads the error's text, which panics
  without an error.
\<close>

definition test_one :: "test_env \<Rightarrow> int \<Rightarrow> channel \<Rightarrow> config \<times> st \<Rightarrow> (config \<times> st) option" where
  "test_one T disableThreshold c x =
     (case x of (cfg, s) \<Rightarrow>
       (let isChannelEnabled = (c_status c = ChannelStatusEnabled)
        in case testChannel T c (buildTestRequest cfg '''') of
             None \<Rightarrow> None
           | Some ((_, err, openaiErr), job) \<Rightarrow>
               (let s = job s; milliseconds = te_took T c;
                    slow = (isChannelEnabled \<and> disableThreshold < milliseconds);
                    err = (if slow then Some (''Response time '' @ seconds milliseconds @ ''s exceeds threshold '' @
                        seconds disableThreshold @ ''s'') else err);
                    (cfg, s) = (if slow \<and> AutomaticDisableChannelEnabled cfg
                      then DisableChannel (te_pushed T c) cfg (c_id c) s else (cfg, s))
                in if isChannelEnabled \<and> ShouldDisableChannel cfg openaiErr (-1) \<and> err = None then None
                   else
                     (let (cfg, s) = (if isChannelEnabled \<and> ShouldDisableChannel cfg openaiErr (-1)
                        then DisableChannel (te_pushed T c) cfg (c_id c) s else (cfg, s));
                          (cfg, s) = (if \<not> isChannelEnabled \<and> ShouldEnableChannel cfg err openaiErr
                        then EnableChannel (te_pushed T c) cfg (c_id c) s else (cfg, s))
                      in Some (cfg, UpdateResponseTime (e_now (te_env T)) (c_id c) milliseconds s)))))"

text \<open>
  The part of a node that tests: the flag, and the goroutines that go over their channels. A goroutine that is
  done resets the flag.
\<close>

record tester =
  tr_cfg :: config
  tr_running :: bool
  tr_rounds :: "(config \<times> st \<Rightarrow> (config \<times> st) option) list"
  tr_st :: st

definition testChannels :: "test_env \<Rightarrow> string \<Rightarrow> tester \<Rightarrow> string option \<times> tester" where
  "testChannels T scope t =
     (let (cfg, s) = (if RootUserEmail (tr_cfg t) = '''' then
            (case GetRootUserEmail (tr_st t) of (email, s) \<Rightarrow> ((tr_cfg t)\<lparr>RootUserEmail := email\<rparr>, s))
          else (tr_cfg t, tr_st t))
      in if tr_running t then (Some ''Test already running'', t\<lparr>tr_cfg := cfg, tr_st := s\<rparr>)
         else (case GetAllChannels 0 0 scope s of
             (Inl e, s) \<Rightarrow> (Some e, t\<lparr>tr_cfg := cfg, tr_running := True, tr_st := s\<rparr>)
           | (Inr cs, s) \<Rightarrow>
               (None, t\<lparr>tr_cfg := cfg, tr_running := True, tr_st := s,
                  tr_rounds := tr_rounds t @ [over_channels (test_one T (disable_threshold cfg)) cs]\<rparr>)))"

definition TestChannels :: "test_env \<Rightarrow> string \<Rightarrow> tester \<Rightarrow> unit reply \<times> tester" where
  "TestChannels T scope t =
     (case testChannels T (if scope = '''' then ''all'' else scope) t of
        (Some e, t) \<Rightarrow> (Failure e, t)
      | (None, t) \<Rightarrow> (Success (), t))"

text \<open>One turn of the loop that waits \<open>frequency\<close> minutes and tests.\<close>

definition AutomaticallyTestChannels_turn :: "test_env \<Rightarrow> tester \<Rightarrow> tester" where
  "AutomaticallyTestChannels_turn T t = snd (testChannels T ''all'' t)"

text \<open>What can happen to it: calls of both kinds, the end of a round, and anything else on the node or in the database.\<close>

inductive tester_step :: "tester \<Rightarrow> tester \<Rightarrow> bool" where
  asked: "tester_step t (snd (TestChannels T scope t))"
| turn: "tester_step t (AutomaticallyTestChannels_turn T t)"
| finished: "\<lbrakk>i < length (tr_rounds t); (tr_rounds t ! i) (tr_cfg t, tr_st t) = Some (cfg, s)\<rbrakk> \<Longrightarrow>
    tester_step t (t\<lparr>tr_cfg := cfg, tr_running := False,
      tr_rounds := take i (tr_rounds t) @ drop (Suc i) (tr_rounds t), tr_st := s\<rparr>)"
| elsewhere: "tester_step t (t\<lparr>tr_cfg := cfg, tr_st := s\<rparr>)"

definition tester_start :: "config \<Rightarrow> st \<Rightarrow> tester" where
  "tester_start cfg s = \<lparr>tr_cfg = cfg, tr_running = False, tr_rounds = [], tr_st = s\<rparr>"

abbreviation tester_reachable :: "tester \<Rightarrow> tester \<Rightarrow> bool" where
  "tester_reachable \<equiv> tester_step\<^sup>*\<^sup>*"


section \<open>What a pass over the channels decides\<close>

text \<open>The failure and the slowness of a channel's test, and what becomes of its row.\<close>

definition test_report_of :: "test_env \<Rightarrow> config \<Rightarrow> channel \<Rightarrow> test_report" where
  "test_report_of T cfg c = fst (the (testChannel T c (buildTestRequest cfg '''')))"

definition tested_status :: "test_env \<Rightarrow> int \<Rightarrow> config \<Rightarrow> channel \<Rightarrow> int" where
  "tested_status T limit cfg c =
     (case test_report_of T cfg c of (_, err, openaiErr) \<Rightarrow>
        (if c_status c = ChannelStatusEnabled then
           (if AutomaticDisableChannelEnabled cfg \<and> (limit < te_took T c \<or> ShouldDisableChannel cfg openaiErr (-1))
            then ChannelStatusAutoDisabled else ChannelStatusEnabled)
         else if AutomaticEnableChannelEnabled cfg \<and> err = None \<and> openaiErr = None then ChannelStatusEnabled
         else c_status c))"

definition tested_row :: "test_env \<Rightarrow> int \<Rightarrow> config \<Rightarrow> channel \<Rightarrow> channel \<Rightarrow> channel" where
  "tested_row T limit cfg c x =
     x\<lparr>c_status := (if tested_status T limit cfg c = c_status c then c_status x else tested_status T limit cfg c),
       c_test_time := e_now (te_env T), c_response_time := te_took T c\<rparr>"

definition testable :: "test_env \<Rightarrow> config \<Rightarrow> channel \<Rightarrow> bool" where
  "testable T cfg c \<longleftrightarrow> testChannel T c (buildTestRequest cfg '''') \<noteq> None"

lemma same_settings_request: "same_settings cfg cfg' \<Longrightarrow> buildTestRequest cfg' m = buildTestRequest cfg m"
  by (auto simp: same_settings_def buildTestRequest_def)

lemma same_settings_automatic:
  "same_settings cfg cfg' \<Longrightarrow> AutomaticDisableChannelEnabled cfg' = AutomaticDisableChannelEnabled cfg"
  "same_settings cfg cfg' \<Longrightarrow> AutomaticEnableChannelEnabled cfg' = AutomaticEnableChannelEnabled cfg"
  "same_settings cfg cfg' \<Longrightarrow> ShouldDisableChannel cfg' = ShouldDisableChannel cfg"
  "same_settings cfg cfg' \<Longrightarrow> ShouldEnableChannel cfg' = ShouldEnableChannel cfg"
  by (auto simp: same_settings_def ShouldDisableChannel_def ShouldEnableChannel_def fun_eq_iff)

text \<open>An error of the service is always an error of the test.\<close>

lemma exchange_error: "test_exchange T ops m j = (r, None, e) \<Longrightarrow> e = None"
  by (auto simp: test_exchange_def Let_def split: sum.splits option.splits if_splits)

lemma report_error: "testChannel T c q = Some ((r, None, e), job) \<Longrightarrow> e = None"
  using exchange_error by (auto simp: testChannel_def Let_def split: option.splits sum.splits)

lemma test_log_rows:
  assumes "testChannel T c q = Some (r, job)" and "db_faults s = []"
  shows "channels (job s) = channels s \<and> abilities (job s) = abilities s \<and> db_faults (job s) = [] \<and>
    next_id s \<le> next_id (job s) \<and> 0 \<le> next_id (job s) - next_id s"
  using assms
  by (auto simp: testChannel_def test_log_def RecordTestLog_def recordLogHelper_def Let_def
      split: option.splits sum.splits prod.splits)

lemma in_step_logged:
  assumes "in_step {} s" "channels s' = channels s" "abilities s' = abilities s" "next_id s \<le> next_id s'"
  shows "in_step {} s'"
proof -
  have "own_abilities j s' = own_abilities j s" for j by (simp add: own_abilities_def assms(3))
  then show ?thesis using assms by (fastforce simp: in_step_def)
qed

lemma in_step_times:
  assumes "in_step {} s" "channels s' = map f (channels s)" "abilities s' = abilities s" "next_id s' = next_id s"
    and "\<And>c. c_id (f c) = c_id c \<and> c_group (f c) = c_group c \<and> c_models (f c) = c_models c \<and>
      c_status (f c) = c_status c \<and> c_priority (f c) = c_priority c"
  shows "in_step {} s'"
proof -
  have "own_abilities j s' = own_abilities j s" for j by (simp add: own_abilities_def assms(3))
  moreover have "abilities_of (f c) = abilities_of c" "groups_ok (f c) = groups_ok c" for c
    using assms(5) by (simp_all add: abilities_of_def groups_ok_def)
  ultimately show ?thesis
    using assms by (simp add: in_step_def comp_def image_image)
qed

lemma consistent_UpdateResponseTime:
  assumes "consistent s"
  shows "consistent (UpdateResponseTime now i ms s) \<and>
    channels (UpdateResponseTime now i ms s) = at_row i (\<lambda>c. c\<lparr>c_test_time := now, c_response_time := ms\<rparr>) s"
proof -
  let ?s = "UpdateResponseTime now i ms s"
  have s: "?s = s\<lparr>channels := at_row i (\<lambda>c. c\<lparr>c_test_time := now, c_response_time := ms\<rparr>) s\<rparr>"
    using assms by (simp add: UpdateResponseTime_def at_row_def)
  have "in_step {} ?s"
    by (rule in_step_times [OF conjunct1 [OF assms],
          where f = "\<lambda>c. if c_id c = i then c\<lparr>c_test_time := now, c_response_time := ms\<rparr> else c"])
      (simp_all add: s at_row_def update_where_def)
  then show ?thesis using s assms by simp
qed

lemma at_row_twice:
  assumes "channels s1 = at_row i g s" and "\<And>c. c_id (g c) = c_id c"
  shows "at_row i f s1 = at_row i (f \<circ> g) s"
  using assms(2) by (auto simp: at_row_def update_where_def assms(1) [unfolded at_row_def update_where_def])

lemma at_row_cong: "(\<And>c. f c = g c) \<Longrightarrow> at_row i f s = at_row i g s"
  by (simp add: at_row_def update_where_def)

lemma at_row_id: "channels s = at_row i (\<lambda>c. c) s"
  by (simp add: at_row_def update_where_def)

text \<open>A decision about the status, whatever was decided before.\<close>

definition status_row :: "int \<Rightarrow> int \<Rightarrow> channel \<Rightarrow> channel" where
  "status_row old new c = (if new = old then c else c\<lparr>c_status := new\<rparr>)"

lemma maybe_disabled:
  assumes "consistent s"
  shows "\<exists>cfg' s'. (if b then DisableChannel p cfg i s else (cfg, s)) = (cfg', s') \<and> same_settings cfg cfg' \<and> consistent s' \<and>
    channels s' = at_row i (\<lambda>c. if b then c\<lparr>c_status := ChannelStatusAutoDisabled\<rparr> else c) s"
  using consistent_DisableChannel [OF assms, of p cfg i] assms by (auto simp: at_row_id)

lemma maybe_enabled:
  assumes "consistent s" "i \<in> c_id ` set (channels s)"
  shows "\<exists>cfg' s'. (if b then EnableChannel p cfg i s else (cfg, s)) = (cfg', s') \<and> same_settings cfg cfg' \<and> consistent s' \<and>
    channels s' = at_row i (\<lambda>c. if b then c\<lparr>c_status := ChannelStatusEnabled\<rparr> else c) s"
  using consistent_EnableChannel [OF assms, of p cfg] assms by (auto simp: at_row_id)

lemma at_row_member: "(\<And>c. c_id (f c) = c_id c) \<Longrightarrow> c_id ` set (at_row i f s) = c_id ` set (channels s)"
proof -
  assume "\<And>c. c_id (f c) = c_id c"
  then have "map c_id (at_row i f s) = map c_id (channels s)" by (simp add: at_row_def update_where_def)
  then show ?thesis by (metis list.set_map)
qed

lemma ShouldDisableChannel_None [simp]: "\<not> ShouldDisableChannel cfg None code"
  by (simp add: ShouldDisableChannel_def)

lemma ShouldDisableChannel_auto: "ShouldDisableChannel cfg e code \<Longrightarrow> AutomaticDisableChannelEnabled cfg"
  by (simp add: ShouldDisableChannel_def split: if_splits)

lemma tested_row_is:
  fixes limit :: int and x :: channel and why :: string
  assumes t: "testChannel T c (buildTestRequest cfg '''') = Some ((r, err, e), job)"
  defines "en \<equiv> c_status c = ChannelStatusEnabled"
  defines "slow \<equiv> en \<and> limit < te_took T c"
  shows "x\<lparr>c_status := (if \<not> en \<and> ShouldEnableChannel cfg (if slow then Some why else err) e then ChannelStatusEnabled
       else if slow \<and> AutomaticDisableChannelEnabled cfg \<or> en \<and> ShouldDisableChannel cfg e (-1)
       then ChannelStatusAutoDisabled else c_status x),
     c_test_time := e_now (te_env T), c_response_time := te_took T c\<rparr> = tested_row T limit cfg c x"
proof -
  have "test_report_of T cfg c = (r, err, e)" by (simp add: test_report_of_def t)
  then have "tested_status T limit cfg c =
      (if \<not> en \<and> ShouldEnableChannel cfg (if slow then Some why else err) e then ChannelStatusEnabled
       else if slow \<and> AutomaticDisableChannelEnabled cfg \<or> en \<and> ShouldDisableChannel cfg e (-1)
       then ChannelStatusAutoDisabled else c_status c)"
    by (auto simp: tested_status_def en_def slow_def ShouldEnableChannel_def dest: ShouldDisableChannel_auto)
  then show ?thesis by (auto simp: tested_row_def en_def slow_def)
qed

lemma test_one_row:
  assumes "consistent s" "c_id c \<in> c_id ` set (channels s)" "testable T cfg c"
  shows "\<exists>cfg' s'. test_one T limit c (cfg, s) = Some (cfg', s') \<and> same_settings cfg cfg' \<and> consistent s' \<and>
    channels s' = at_row (c_id c) (tested_row T limit cfg c) s"
proof -
  obtain r err e job where t: "testChannel T c (buildTestRequest cfg '''') = Some ((r, err, e), job)"
    using assms(3) by (auto simp: testable_def)
  define en where "en = (c_status c = ChannelStatusEnabled)"
  define slow where "slow = (en \<and> limit < te_took T c)"
  define err' where "err' = (if slow then Some (''Response time '' @ seconds (te_took T c) @ ''s exceeds threshold '' @
      seconds limit @ ''s'') else err)"
  define b1 where "b1 = (slow \<and> AutomaticDisableChannelEnabled cfg)"
  define b2 where "b2 = (en \<and> ShouldDisableChannel cfg e (-1))"
  define b3 where "b3 = (\<not> en \<and> ShouldEnableChannel cfg err' e)"
  note log = test_log_rows [OF t, of s]
  have 0: "consistent (job s)" "channels (job s) = channels s"
    using log assms(1) in_step_logged [of s "job s"] by auto
  obtain cfg1 s1 where 1: "(if b1 then DisableChannel (te_pushed T c) cfg (c_id c) (job s) else (cfg, job s)) = (cfg1, s1)"
      "same_settings cfg cfg1" "consistent s1"
      "channels s1 = at_row (c_id c) (\<lambda>c. if b1 then c\<lparr>c_status := ChannelStatusAutoDisabled\<rparr> else c) (job s)"
    using maybe_disabled [OF 0(1)] by blast
  obtain cfg2 s2 where 2: "(if b2 then DisableChannel (te_pushed T c) cfg1 (c_id c) s1 else (cfg1, s1)) = (cfg2, s2)"
      "same_settings cfg1 cfg2" "consistent s2"
      "channels s2 = at_row (c_id c) (\<lambda>c. if b2 then c\<lparr>c_status := ChannelStatusAutoDisabled\<rparr> else c) s1"
    using maybe_disabled [OF 1(3)] by blast
  have "c_id c \<in> c_id ` set (channels s2)"
    using assms(2) by (simp add: 2(4) 1(4) 0(2) at_row_member)
  then obtain cfg3 s3 where 3: "(if b3 then EnableChannel (te_pushed T c) cfg2 (c_id c) s2 else (cfg2, s2)) = (cfg3, s3)"
      "same_settings cfg2 cfg3" "consistent s3"
      "channels s3 = at_row (c_id c) (\<lambda>c. if b3 then c\<lparr>c_status := ChannelStatusEnabled\<rparr> else c) s2"
    using maybe_enabled [OF 2(3)] by blast
  let ?s = "UpdateResponseTime (e_now (te_env T)) (c_id c) (te_took T c) s3"
  note time = consistent_UpdateResponseTime [OF 3(3), of "e_now (te_env T)" "c_id c" "te_took T c"]
  have no_error: "e = None" if "err = None" using report_error [of T c _ r e job] t that by blast
  have quiet: "\<not> (b2 \<and> err' = None)"
    using no_error by (cases err) (auto simp: b2_def err'_def)
  have set: "ShouldDisableChannel cfg1 = ShouldDisableChannel cfg" "ShouldEnableChannel cfg2 = ShouldEnableChannel cfg"
    using same_settings_automatic 1(2) 2(2) same_settings_trans by blast+
  have "test_one T limit c (cfg, s) = Some (cfg3, ?s)"
    using 1(1) 2(1) 3(1) quiet unfolding b1_def b2_def b3_def err'_def slow_def en_def
    by (simp add: test_one_def t set Let_def del: if_split cong: if_cong)
  moreover have "same_settings cfg cfg3" using 1(2) 2(2) 3(2) same_settings_trans by blast
  moreover have "channels ?s = at_row (c_id c) (tested_row T limit cfg c) s"
  proof -
    have "channels ?s = at_row (c_id c) (\<lambda>x. x\<lparr>c_status := (if b3 then ChannelStatusEnabled else if b1 \<or> b2
        then ChannelStatusAutoDisabled else c_status x), c_test_time := e_now (te_env T), c_response_time := te_took T c\<rparr>) s"
      unfolding conjunct2 [OF time] at_row_twice [OF 3(4)]
      using 1(4) 2(4) 3(4) 0(2)
      by (auto simp: at_row_def update_where_def)
    moreover have "\<dots> = at_row (c_id c) (tested_row T limit cfg c) s"
      using tested_row_is [OF t, of limit]
      unfolding b1_def b2_def b3_def err'_def slow_def en_def by (intro at_row_cong) simp
    ultimately show ?thesis by simp
  qed
  ultimately show ?thesis using time by blast
qed


interpretation tests: channel_round "test_one T limit" "testable T" "tested_row T limit" for T limit
proof
  fix cfg cfg' assume "same_settings cfg cfg'"
  note same = same_settings_automatic [OF this] same_settings_request [OF this]
  have decided: "tested_status T limit cfg' = tested_status T limit cfg"
    unfolding tested_status_def [abs_def] test_report_of_def same ..
  show "tested_row T limit cfg' = tested_row T limit cfg \<and> testable T cfg' = testable T cfg"
    unfolding tested_row_def [abs_def] testable_def [abs_def] same decided by simp
qed (rule test_one_row, assumption+, simp add: tested_row_def)

text \<open>what a test of all channels does. In a consistent database without faults a round over all channels ends
  without a panic, if no channel is of an unknown kind, and it changes each row by its own test alone: an enabled
  channel is disabled exactly if disabling is automatic and its test was too slow or failed for good, a
  disabled one is enabled exactly if enabling is automatic and its test succeeded, every channel gets the time
  and length of its test, and nothing else changes. The abilities follow: the database is consistent again.\<close>

theorem tests_decide:
  assumes "consistent (tr_st t)" and "\<not> tr_running t" and "tr_rounds t = []" and "RootUserEmail (tr_cfg t) \<noteq> ''''"
    and "\<forall>c \<in> set (channels (tr_st t)). testable T (tr_cfg t) c"
    and "testChannels T ''all'' t = (e, t')"
  shows "e = None \<and> (\<exists>job cfg s. tr_rounds t' = [job] \<and> job (tr_cfg t', tr_st t') = Some (cfg, s) \<and> consistent s \<and>
    channels s = map (\<lambda>c. tested_row T (disable_threshold (tr_cfg t)) (tr_cfg t) c c) (channels (tr_st t)))"
proof -
  let ?s = "tr_st t" and ?cfg = "tr_cfg t"
  let ?job = "over_channels (test_one T (disable_threshold ?cfg)) (rev (channels ?s))"
  have "e = None \<and> tr_rounds t' = [?job] \<and> tr_cfg t' = ?cfg \<and> tr_st t' = ?s"
    using assms(1-4,6) by (auto simp: testChannels_def GetAllChannels_def)
  then show ?thesis using tests.all_rows [OF assms(1,5), of "disable_threshold ?cfg"] by metis
qed

text \<open>Two channels: an enabled one whose key was revoked, and one that works but that an administrator has disabled.\<close>

definition test_cfg :: config where
  "test_cfg = direct_cfg\<lparr>AutomaticDisableChannelEnabled := True, AutomaticEnableChannelEnabled := True,
     RootUserEmail := ''root'', TestPrompt := ''hi'', ChannelDisableThreshold := f64_const 5\<rparr>"

definition two_channels :: st where
  "two_channels = run_channel_op (ChannelStatus 2 ChannelStatusManuallyDisabled) two_tiers"

definition revoked :: GeneralErrorResponse where
  "revoked = \<lparr>ge_Error = \<lparr>er_Message = ''revoked'', er_Type = ''authentication_error'', er_Param = '''', er_Code = JNull\<rparr>,
     ge_Message = '''', ge_Msg = '''', ge_Err = '''', ge_ErrorMsg = '''', ge_HeaderMessage = '''', ge_ResponseErrorMessage = ''''\<rparr>"

definition test_lab :: test_env where
  "test_lab = \<lparr>te_env = (lab_env (Inl ''''))\<lparr>e_unmarshal_error := (\<lambda>_. Some revoked),
       e_ops := (\<lambda>_. \<lparr>op_ConvertRequest = (\<lambda>_ _. Inr ''''), op_ConvertImageRequest = (\<lambda>_ _. Inr ''''),
         op_DoRequest = (\<lambda>m _. Inr (Some (lab_response (if m_ChannelId m = 1 then 401 else 200)))),
         op_DoResponse = (\<lambda>_ _. Inr (Some zero_usage))\<rparr>)\<rparr>,
     te_maps = (\<lambda>_. None), te_config = (\<lambda>_. (zero_channel_config, None)),
     te_written = (\<lambda>_ _. Inr \<lparr>tr_Id = '''', tr_Model = '''', tr_Object = '''', tr_Created = 0,
       tr_Choices = [\<lparr>tc_Index = 0, tc_Message = no_message\<lparr>ms_Content := JStr ''yes''\<rparr>, tc_FinishReason = ''''\<rparr>],
       tr_Usage = zero_usage\<rparr>),
     te_took = (\<lambda>_. 100), te_pushed = (\<lambda>_. True)\<rparr>"

lemma two_channels_rows:
  "channels two_channels = [tier_channel 1 ''a'' 5 0, (tier_channel 2 ''b'' 6 (- 5))\<lparr>c_status := ChannelStatusManuallyDisabled\<rparr>]"
  "consistent two_channels"
proof -
  show "channels two_channels = [tier_channel 1 ''a'' 5 0, (tier_channel 2 ''b'' 6 (- 5))\<lparr>c_status := ChannelStatusManuallyDisabled\<rparr>]"
    using two_tiers_rows(3) by (simp add: two_channels_def UpdateChannelStatus_row at_row_def two_tiers_rows(1) tier_channel_def)
  show "consistent two_channels"
    unfolding two_channels_def by (rule consistent_op [OF two_tiers_consistent]) (simp add: two_tiers_rows)
qed

lemma test_lab_channel:
  assumes "c_type c = 0"
  shows "\<exists>m job. m_ChannelId m = c_id c \<and> testChannel test_lab c q = Some (test_exchange test_lab (e_ops (te_env test_lab) OpenAIAdaptor) m '''', job)"
proof -
  let ?g = "SetupContextForSelectedChannel (te_maps test_lab) (te_config test_lab) c '''' test_context"
  obtain u where "channel_base_url 0 = Some u" by (simp add: channel_base_url_def ChannelBaseURLs_def)
  then obtain m where m: "GetByContext (e_now (te_env test_lab)) test_request ?g = Some m" "m_ChannelId m = c_id c"
    using assms by (cases "GetBaseURL c = []") (auto simp: GetByContext_def)
  have a: "GetAdaptor (ToAPIType (c_type c)) = Some OpenAIAdaptor" by (simp add: assms ToAPIType_def GetAdaptor_def)
  have "op_ConvertRequest (e_ops (te_env test_lab) OpenAIAdaptor) m' q' = Inr ''''" for m' q'
    by (simp add: test_lab_def)
  then have "testChannel test_lab c q = (let n = test_model test_lab c (Model q); m = m\<lparr>m_OriginModelName := Model q, m_ActualModelName := n\<rparr>;
      r = test_exchange test_lab (e_ops (te_env test_lab) OpenAIAdaptor) m '''' in Some (r, test_log test_lab c n r))"
    by (simp add: testChannel_def m(1) a)
  then show ?thesis using m(2) by (auto simp: Let_def intro!: exI [of _ "m\<lparr>m_OriginModelName := Model q, m_ActualModelName := test_model test_lab c (Model q)\<rparr>"])
qed

lemma test_lab_exchange:
  "test_exchange test_lab (e_ops (te_env test_lab) OpenAIAdaptor) m '''' =
    (if m_ChannelId m = 1 then ('''', Some (''http status code: '' @ Itoa 401 @ '', error message: revoked''), Some (ge_Error revoked))
     else (''yes'', None, None))"
  by (cases "m_ChannelId m = 1")
    (simp_all add: test_exchange_def test_lab_def lab_response_def RelayErrorHandler_def revoked_def Let_def parseTestResponse_def
      del: append.simps)

lemma test_lab_report:
  assumes "c_type c = 0"
  shows "testable test_lab cfg c"
    and "test_report_of test_lab cfg c =
      (if c_id c = 1 then ('''', Some (''http status code: '' @ Itoa 401 @ '', error message: revoked''), Some (ge_Error revoked))
       else (''yes'', None, None))"
proof -
  obtain m job where m: "m_ChannelId m = c_id c"
      "testChannel test_lab c (buildTestRequest cfg '''') = Some (test_exchange test_lab (e_ops (te_env test_lab) OpenAIAdaptor) m '''', job)"
    using test_lab_channel [OF assms] by blast
  from m(2) show "testable test_lab cfg c" by (simp add: testable_def)
  from m show "test_report_of test_lab cfg c =
      (if c_id c = 1 then ('''', Some (''http status code: '' @ Itoa 401 @ '', error message: revoked''), Some (ge_Error revoked))
       else (''yes'', None, None))"
    by (simp add: test_report_of_def test_lab_exchange)
qed

lemma test_lab_status:
  "tested_status test_lab limit test_cfg (tier_channel 1 ''a'' 5 0) = ChannelStatusAutoDisabled"
  "tested_status test_lab limit test_cfg ((tier_channel 2 ''b'' 6 (- 5))\<lparr>c_status := ChannelStatusManuallyDisabled\<rparr>) = ChannelStatusEnabled"
  by (simp_all add: tested_status_def test_lab_report tier_channel_def zero_channel_def test_cfg_def ShouldDisableChannel_def revoked_def)

theorem tests_decide_witness:
  "\<exists>job cfg s. tr_rounds (snd (testChannels test_lab ''all'' (tester_start test_cfg two_channels))) = [job] \<and>
     job (test_cfg, two_channels) = Some (cfg, s) \<and>
     map c_status (channels s) = [ChannelStatusAutoDisabled, ChannelStatusEnabled]"
proof -
  let ?t = "tester_start test_cfg two_channels"
  obtain e t' where run: "testChannels test_lab ''all'' ?t = (e, t')" by fastforce
  have start: "tr_st ?t = two_channels" "tr_cfg ?t = test_cfg" "\<not> tr_running ?t" "tr_rounds ?t = []"
    by (simp_all add: tester_start_def)
  have "testable test_lab (tr_cfg ?t) c" if "c \<in> set (channels (tr_st ?t))" for c
    by (rule test_lab_report) (use that in \<open>auto simp: start two_channels_rows tier_channel_def zero_channel_def\<close>)
  then have "\<forall>c \<in> set (channels (tr_st ?t)). testable test_lab (tr_cfg ?t) c" by blast
  note result = tests_decide [OF _ start(3,4) _ this run]
  have "RootUserEmail test_cfg \<noteq> ''''" by (simp add: test_cfg_def)
  then have "tr_cfg t' = test_cfg" "tr_st t' = two_channels"
    using run two_channels_rows(2) by (auto simp: testChannels_def start GetAllChannels_def tester_start_def)
  moreover obtain job cfg s where "tr_rounds t' = [job]" "job (tr_cfg t', tr_st t') = Some (cfg, s)"
      "channels s = map (\<lambda>c. tested_row test_lab (disable_threshold test_cfg) test_cfg c c) (channels two_channels)"
    using result two_channels_rows(2) \<open>RootUserEmail test_cfg \<noteq> ''''\<close> unfolding start by auto
  ultimately show ?thesis
    using run by (auto simp: two_channels_rows tested_row_def test_lab_status)
qed

section \<open>One round at a time\<close>

definition one_round :: "tester \<Rightarrow> bool" where
  "one_round t \<longleftrightarrow> length (tr_rounds t) \<le> 1 \<and> (tr_rounds t \<noteq> [] \<longrightarrow> tr_running t)"

text \<open>The flag is set and nobody will reset it.\<close>

definition stuck :: "tester \<Rightarrow> bool" where
  "stuck t \<longleftrightarrow> tr_running t \<and> tr_rounds t = []"

lemma snd_TestChannels: "snd (TestChannels T scope t) = snd (testChannels T (if scope = '''' then ''all'' else scope) t)"
  by (simp add: TestChannels_def split: prod.split option.split)

lemma testChannels_rounds:
  assumes "testChannels T scope t = (e, t')"
  shows "tr_running t' \<and> (tr_running t \<longrightarrow> e = Some ''Test already running'' \<and> tr_rounds t' = tr_rounds t) \<and>
    (\<not> tr_running t \<longrightarrow> (if e = None then \<exists>job. tr_rounds t' = tr_rounds t @ [job] else tr_rounds t' = tr_rounds t))"
  using assms by (auto simp: testChannels_def split: if_splits prod.splits sum.splits)

lemma one_round_ask: "one_round t \<Longrightarrow> one_round (snd (testChannels T scope t))"
  using testChannels_rounds [of T scope t] by (cases "testChannels T scope t") (auto simp: one_round_def split: if_splits)

lemma stuck_ask: "stuck t \<Longrightarrow> stuck (snd (testChannels T scope t))"
  using testChannels_rounds [of T scope t] by (cases "testChannels T scope t") (auto simp: stuck_def)

lemma one_round_step: "tester_step t t' \<Longrightarrow> one_round t \<Longrightarrow> one_round t'"
proof (induction rule: tester_step.induct)
  case (finished i t cfg s)
  then show ?case by (cases "tr_rounds t") (auto simp: one_round_def)
qed (simp_all add: snd_TestChannels AutomaticallyTestChannels_turn_def one_round_ask, simp add: one_round_def)

lemma stuck_step: "tester_step t t' \<Longrightarrow> stuck t \<Longrightarrow> stuck t'"
proof (induction rule: tester_step.induct)
  case (finished i t cfg s)
  then show ?case by (simp add: stuck_def)
qed (simp_all add: snd_TestChannels AutomaticallyTestChannels_turn_def stuck_ask, simp add: stuck_def)

text \<open>Rounds never overlap, however often and by whom they are asked for.\<close>

theorem one_round_at_a_time:
  "tester_reachable (tester_start cfg s) t \<Longrightarrow> length (tr_rounds t) \<le> 1 \<and> (tr_rounds t \<noteq> [] \<longrightarrow> tr_running t)"
proof -
  assume "tester_reachable (tester_start cfg s) t"
  then have "one_round t"
  proof (induction rule: rtranclp_induct)
    case base
    show ?case by (simp add: one_round_def tester_start_def)
  qed (rule one_round_step)
  then show ?thesis by (simp add: one_round_def)
qed


text \<open>The database fails once and works again.\<close>

definition one_fault :: st where
  "one_fault = two_channels\<lparr>db_faults := [Some ''gone'']\<rparr>"


text \<open>The notification when all channels are tested never gets through: it is sent by a method that does not exist.\<close>

theorem notification_of_tests_fails: "Notify ByAll mailed pushed = Some ''unknown notify method: all''"
  by (simp add: Notify_def ByAll_def)

end
