(* ===== verification/ChannelBilling.thy ===== *)
theory ChannelBilling
  imports ChannelTests
begin

text \<open>
  \<^verbatim>\<open>controller/channel-billing.go\<close>: the balance of a channel is asked from its service and stored in its row; the
  automatic update goes over all channels and disables those that have used up their balance. The HTTP exchange and
  the decoding of the answers are the record \<open>billing_ext\<close>; an answer is decoded into the struct of the code.
\<close>

section \<open>The answers of the services\<close>

record OpenAISubscriptionResponse =
  sub_Object :: string
  sub_HasPaymentMethod :: bool
  sub_SoftLimitUSD :: f64
  sub_HardLimitUSD :: f64
  sub_SystemHardLimitUSD :: f64
  sub_AccessUntil :: int

text \<open>The grants of \<open>OpenAICreditGrants\<close>, \<open>API2GPTUsageResponse\<close> and \<open>APGC2DGPTUsageResponse\<close> have the same four fields.\<close>

record credit_grants =
  cg_Object :: string
  cg_TotalGranted :: f64
  cg_TotalUsed :: f64
  cg_TotalAvailable :: f64

record OpenAIUsageResponse =
  us_Object :: string
  us_TotalUsage :: f64

record OpenAISBUsageResponse =
  sb_Msg :: string
  sb_Credit :: "string option"

record AIProxyUserOverviewResponse =
  ap_Success :: bool
  ap_Message :: string
  ap_ErrorCode :: int
  ap_TotalPoints :: f64

record SiliconFlowUsageResponse =
  sf_Code :: int
  sf_Message :: string
  sf_Status :: bool
  sf_TotalBalance :: string

record balance_info =
  bi_Currency :: string
  bi_TotalBalance :: string
  bi_GrantedBalance :: string
  bi_ToppedUpBalance :: string

record DeepSeekUsageResponse =
  ds_IsAvailable :: bool
  ds_BalanceInfos :: "balance_info list"

record OpenRouterResponse =
  or_TotalCredits :: f64
  or_TotalUsage :: f64

text \<open>
  The client: whether the address is well formed, and the status with the body that could be read and closed. Then
  the decoders, and the three dates of a query for the usage: the first of the month, today, a hundred days ago.
\<close>

record billing_ext =
  bx_new_request :: "string \<Rightarrow> string option"
  bx_get :: "string \<Rightarrow> (string \<times> string) list \<Rightarrow> string + int \<times> (string + string)"
  bx_subscription :: "string \<Rightarrow> string + OpenAISubscriptionResponse"
  bx_usage :: "string \<Rightarrow> string + OpenAIUsageResponse"
  bx_grants :: "string \<Rightarrow> string + credit_grants"
  bx_sb :: "string \<Rightarrow> string + OpenAISBUsageResponse"
  bx_aiproxy :: "string \<Rightarrow> string + AIProxyUserOverviewResponse"
  bx_api2gpt :: "string \<Rightarrow> string + credit_grants"
  bx_aigc2d :: "string \<Rightarrow> string + credit_grants"
  bx_siliconflow :: "string \<Rightarrow> string + SiliconFlowUsageResponse"
  bx_deepseek :: "string \<Rightarrow> string + DeepSeekUsageResponse"
  bx_openrouter :: "string \<Rightarrow> string + OpenRouterResponse"
  bx_month_start :: string
  bx_today :: string
  bx_hundred_days_ago :: string
  bx_now :: int
  bx_pushed :: "channel \<Rightarrow> bool"

definition GetAuthHeader :: "string \<Rightarrow> (string \<times> string) list" where
  "GetAuthHeader token = [(''Authorization'', ''Bearer '' @ token)]"

definition GetResponseBody :: "billing_ext \<Rightarrow> string \<Rightarrow> (string \<times> string) list \<Rightarrow> string + string" where
  "GetResponseBody bx url headers =
     (case bx_new_request bx url of
        Some e \<Rightarrow> Inl e
      | None \<Rightarrow>
          (case bx_get bx url headers of
             Inl e \<Rightarrow> Inl e
           | Inr (status, body) \<Rightarrow> (if status \<noteq> 200 then Inl (''status code: '' @ Itoa status) else body)))"

text \<open>The body of the answer, decoded.\<close>

definition fetch :: "billing_ext \<Rightarrow> string \<Rightarrow> (string \<times> string) list \<Rightarrow> (string \<Rightarrow> string + 'a) \<Rightarrow> string + 'a" where
  "fetch bx url headers decode =
     (case GetResponseBody bx url headers of Inl e \<Rightarrow> Inl e | Inr body \<Rightarrow> decode body)"

definition parse_balance :: "string \<Rightarrow> string + f64" where
  "parse_balance t =
     (case ParseFloat t of None \<Rightarrow> Inl (''strconv.ParseFloat: parsing '' @ t @ '': invalid syntax'') | Some x \<Rightarrow> Inr x)"


section \<open>One service at a time\<close>

text \<open>What each service answers for a channel; every one of these functions then stores the balance.\<close>

definition stored_balance :: "billing_ext \<Rightarrow> channel \<Rightarrow> string + f64 \<Rightarrow> st \<Rightarrow> (string + f64) \<times> st" where
  "stored_balance bx c r s =
     (case r of Inl e \<Rightarrow> (Inl e, s) | Inr balance \<Rightarrow> (Inr balance, UpdateBalance (bx_now bx) (c_id c) balance s))"

definition updateChannelCloseAIBalance :: "billing_ext \<Rightarrow> channel \<Rightarrow> st \<Rightarrow> (string + f64) \<times> st" where
  "updateChannelCloseAIBalance bx c =
     stored_balance bx c
       (map_sum id cg_TotalAvailable
          (fetch bx (GetBaseURL c @ ''/dashboard/billing/credit_grants'') (GetAuthHeader (c_key c)) (bx_grants bx)))"

definition updateChannelOpenAISBBalance :: "billing_ext \<Rightarrow> channel \<Rightarrow> st \<Rightarrow> (string + f64) \<times> st" where
  "updateChannelOpenAISBBalance bx c =
     stored_balance bx c
       (case fetch bx (''https://api.openai-sb.com/sb-api/user/status?api_key='' @ c_key c) (GetAuthHeader (c_key c)) (bx_sb bx) of
          Inl e \<Rightarrow> Inl e
        | Inr response \<Rightarrow>
            (case sb_Credit response of None \<Rightarrow> Inl (sb_Msg response) | Some credit \<Rightarrow> parse_balance credit))"

definition updateChannelAIProxyBalance :: "billing_ext \<Rightarrow> channel \<Rightarrow> st \<Rightarrow> (string + f64) \<times> st" where
  "updateChannelAIProxyBalance bx c =
     stored_balance bx c
       (case fetch bx ''https://aiproxy.io/api/report/getUserOverview'' [(''Api-Key'', c_key c)] (bx_aiproxy bx) of
          Inl e \<Rightarrow> Inl e
        | Inr response \<Rightarrow>
            (if \<not> ap_Success response
             then Inl (''code: '' @ Itoa (ap_ErrorCode response) @ '', message: '' @ ap_Message response)
             else Inr (ap_TotalPoints response)))"

text \<open>\<open>cg_TotalAvailable\<close> is \<open>total_remaining\<close> here.\<close>

definition updateChannelAPI2GPTBalance :: "billing_ext \<Rightarrow> channel \<Rightarrow> st \<Rightarrow> (string + f64) \<times> st" where
  "updateChannelAPI2GPTBalance bx c =
     stored_balance bx c
       (map_sum id cg_TotalAvailable
          (fetch bx ''https://api.api2gpt.com/dashboard/billing/credit_grants'' (GetAuthHeader (c_key c)) (bx_api2gpt bx)))"

definition updateChannelAIGC2DBalance :: "billing_ext \<Rightarrow> channel \<Rightarrow> st \<Rightarrow> (string + f64) \<times> st" where
  "updateChannelAIGC2DBalance bx c =
     stored_balance bx c
       (map_sum id cg_TotalAvailable
          (fetch bx ''https://api.aigc2d.com/dashboard/billing/credit_grants'' (GetAuthHeader (c_key c)) (bx_aigc2d bx)))"

definition updateChannelSiliconFlowBalance :: "billing_ext \<Rightarrow> channel \<Rightarrow> st \<Rightarrow> (string + f64) \<times> st" where
  "updateChannelSiliconFlowBalance bx c =
     stored_balance bx c
       (case fetch bx ''https://api.siliconflow.cn/v1/user/info'' (GetAuthHeader (c_key c)) (bx_siliconflow bx) of
          Inl e \<Rightarrow> Inl e
        | Inr response \<Rightarrow>
            (if sf_Code response \<noteq> 20000
             then Inl (''code: '' @ Itoa (sf_Code response) @ '', message: '' @ sf_Message response)
             else parse_balance (sf_TotalBalance response)))"

definition updateChannelDeepSeekBalance :: "billing_ext \<Rightarrow> channel \<Rightarrow> st \<Rightarrow> (string + f64) \<times> st" where
  "updateChannelDeepSeekBalance bx c =
     stored_balance bx c
       (case fetch bx ''https://api.deepseek.com/user/balance'' (GetAuthHeader (c_key c)) (bx_deepseek bx) of
          Inl e \<Rightarrow> Inl e
        | Inr response \<Rightarrow>
            (case find (\<lambda>i. bi_Currency i = ''CNY'') (ds_BalanceInfos response) of
               None \<Rightarrow> Inl ''currency CNY not found''
             | Some i \<Rightarrow> parse_balance (bi_TotalBalance i)))"

definition updateChannelOpenRouterBalance :: "billing_ext \<Rightarrow> channel \<Rightarrow> st \<Rightarrow> (string + f64) \<times> st" where
  "updateChannelOpenRouterBalance bx c =
     stored_balance bx c
       (map_sum id (\<lambda>r. or_TotalCredits r - or_TotalUsage r)
          (fetch bx ''https://openrouter.ai/api/v1/credits'' (GetAuthHeader (c_key c)) (bx_openrouter bx)))"

text \<open>The queries of OpenAI: the limit, then the usage in hundredths of a dollar.\<close>

definition openai_balance :: "billing_ext \<Rightarrow> channel \<Rightarrow> string \<Rightarrow> string + f64" where
  "openai_balance bx c baseURL =
     (case fetch bx (baseURL @ ''/v1/dashboard/billing/subscription'') (GetAuthHeader (c_key c)) (bx_subscription bx) of
        Inl e \<Rightarrow> Inl e
      | Inr subscription \<Rightarrow>
          (let startDate = (if sub_HasPaymentMethod subscription then bx_month_start bx else bx_hundred_days_ago bx)
           in case fetch bx (baseURL @ ''/v1/dashboard/billing/usage?start_date='' @ startDate @ ''&end_date='' @ bx_today bx)
                  (GetAuthHeader (c_key c)) (bx_usage bx) of
                Inl e \<Rightarrow> Inl e
              | Inr usage \<Rightarrow> Inr (sub_HardLimitUSD subscription - us_TotalUsage usage / f64_of_int 100)))"

text \<open>\<open>None\<close> is the panic of an unknown kind. The default address is set in the memory of the caller only.\<close>

definition updateChannelBalance :: "billing_ext \<Rightarrow> channel \<Rightarrow> st \<Rightarrow> ((string + f64) \<times> st) option" where
  "updateChannelBalance bx c s =
     (case channel_base_url (c_type c) of
        None \<Rightarrow> None
      | Some baseURL \<Rightarrow>
          (let c = (if GetBaseURL c = '''' then c\<lparr>c_base_url := Some baseURL\<rparr> else c);
               not_yet = (Inl ''Not yet implemented'', s)
           in Some (if c_type c = ct_OpenAI then
                      stored_balance bx c (openai_balance bx c (if GetBaseURL c \<noteq> '''' then GetBaseURL c else baseURL)) s
                    else if c_type c = ct_Azure then not_yet
                    else if c_type c = ct_Custom then stored_balance bx c (openai_balance bx c (GetBaseURL c)) s
                    else if c_type c = ct_CloseAI then updateChannelCloseAIBalance bx c s
                    else if c_type c = ct_OpenAISB then updateChannelOpenAISBBalance bx c s
                    else if c_type c = ct_AIProxy then updateChannelAIProxyBalance bx c s
                    else if c_type c = ct_API2GPT then updateChannelAPI2GPTBalance bx c s
                    else if c_type c = ct_AIGC2D then updateChannelAIGC2DBalance bx c s
                    else if c_type c = ct_SiliconFlow then updateChannelSiliconFlowBalance bx c s
                    else if c_type c = ct_DeepSeek then updateChannelDeepSeekBalance bx c s
                    else if c_type c = ct_OpenRouter then updateChannelOpenRouterBalance bx c s
                    else not_yet)))"

definition UpdateChannelBalance :: "billing_ext \<Rightarrow> string \<Rightarrow> st \<Rightarrow> (f64 reply \<times> st) option" where
  "UpdateChannelBalance bx param s =
     (case parse_ok (ParseInt param) of
        None \<Rightarrow> Some (Failure (''strconv.Atoi: parsing '' @ param), s)
      | Some cid \<Rightarrow>
          (case GetChannelById cid True s of
             (Inl e, s) \<Rightarrow> Some (Failure e, s)
           | (Inr c, s) \<Rightarrow>
               (case updateChannelBalance bx c s of
                  None \<Rightarrow> None
                | Some (Inl e, s) \<Rightarrow> Some (Failure e, s)
                | Some (Inr balance, s) \<Rightarrow> Some (Success balance, s))))"


section \<open>All channels\<close>

text \<open>One turn of the loop; only two kinds are asked.\<close>

definition balance_one :: "billing_ext \<Rightarrow> channel \<Rightarrow> config \<times> st \<Rightarrow> (config \<times> st) option" where
  "balance_one bx c x =
     (case x of (cfg, s) \<Rightarrow>
       (if c_status c \<noteq> ChannelStatusEnabled then Some (cfg, s)
        else if c_type c \<noteq> ct_OpenAI \<and> c_type c \<noteq> ct_Custom then Some (cfg, s)
        else case updateChannelBalance bx c s of
            None \<Rightarrow> None
          | Some (Inl e, s) \<Rightarrow> Some (cfg, s)
          | Some (Inr balance, s) \<Rightarrow> Some (if balance \<le> 0 then DisableChannel (bx_pushed bx c) cfg (c_id c) s else (cfg, s))))"

definition updateAllChannelsBalance :: "billing_ext \<Rightarrow> config \<Rightarrow> st \<Rightarrow> (string option \<times> config \<times> st) option" where
  "updateAllChannelsBalance bx cfg s =
     (case GetAllChannels 0 0 ''all'' s of
        (Inl e, s) \<Rightarrow> Some (Some e, cfg, s)
      | (Inr cs, s) \<Rightarrow> map_option (Pair None) (over_channels (balance_one bx) cs (cfg, s)))"

text \<open>The body of the handler is commented out.\<close>

definition UpdateAllChannelsBalance :: "st \<Rightarrow> unit reply \<times> st" where
  "UpdateAllChannelsBalance s = (Success (), s)"

text \<open>One turn of the loop that waits \<open>frequency\<close> minutes.\<close>

definition AutomaticallyUpdateChannels_turn :: "billing_ext \<Rightarrow> config \<Rightarrow> st \<Rightarrow> (config \<times> st) option" where
  "AutomaticallyUpdateChannels_turn bx cfg s = map_option snd (updateAllChannelsBalance bx cfg s)"

section \<open>What the automatic update decides\<close>

definition billing_address :: "channel \<Rightarrow> string" where
  "billing_address c = (if GetBaseURL c = '''' then the (channel_base_url (c_type c)) else GetBaseURL c)"

definition asked_for_balance :: "channel \<Rightarrow> bool" where
  "asked_for_balance c \<longleftrightarrow> c_status c = ChannelStatusEnabled \<and> (c_type c = ct_OpenAI \<or> c_type c = ct_Custom)"

definition balance_row :: "billing_ext \<Rightarrow> channel \<Rightarrow> channel \<Rightarrow> channel" where
  "balance_row bx c x =
     (if \<not> asked_for_balance c then x
      else case openai_balance bx c (billing_address c) of
          Inl e \<Rightarrow> x
        | Inr b \<Rightarrow> x\<lparr>c_balance := b, c_balance_updated_time := bx_now bx,
            c_status := (if b \<le> 0 then ChannelStatusAutoDisabled else c_status x)\<rparr>)"

lemma consistent_UpdateBalance:
  assumes "consistent s"
  shows "consistent (UpdateBalance now i b s) \<and>
    channels (UpdateBalance now i b s) = at_row i (\<lambda>c. c\<lparr>c_balance_updated_time := now, c_balance := b\<rparr>) s"
proof -
  let ?s = "UpdateBalance now i b s"
  have s: "?s = s\<lparr>channels := at_row i (\<lambda>c. c\<lparr>c_balance_updated_time := now, c_balance := b\<rparr>) s\<rparr>"
    using assms by (simp add: UpdateBalance_def at_row_def)
  have "in_step {} ?s"
    by (rule in_step_times [OF conjunct1 [OF assms],
          where f = "\<lambda>c. if c_id c = i then c\<lparr>c_balance_updated_time := now, c_balance := b\<rparr> else c"])
      (simp_all add: s at_row_def update_where_def)
  then show ?thesis using s assms by simp
qed

lemma asked_update:
  assumes "asked_for_balance c"
  shows "updateChannelBalance bx c s = Some (stored_balance bx c (openai_balance bx c (billing_address c)) s)"
proof -
  have "channel_base_url (c_type c) \<noteq> None"
    unfolding channel_base_url_defined using assms by (auto simp: asked_for_balance_def)
  then obtain u where u: "channel_base_url (c_type c) = Some u" by blast
  have same: "c_key (c\<lparr>c_base_url := x\<rparr>) = c_key c" "c_id (c\<lparr>c_base_url := x\<rparr>) = c_id c" for x by simp_all
  have key: "openai_balance bx (c\<lparr>c_base_url := x\<rparr>) a = openai_balance bx c a"
    "stored_balance bx (c\<lparr>c_base_url := x\<rparr>) = stored_balance bx c" for x a
    unfolding openai_balance_def stored_balance_def same by (rule refl)+
  have set: "GetBaseURL (c\<lparr>c_base_url := Some u\<rparr>) = u" by (simp add: GetBaseURL_def)
  have address: "billing_address c = (if GetBaseURL c = [] then u else GetBaseURL c)" by (simp add: billing_address_def u)
  show ?thesis
    using assms by (auto simp: updateChannelBalance_def u key set asked_for_balance_def address Let_def)
qed

lemma balance_one_row:
  assumes "consistent s"
  shows "\<exists>cfg' s'. balance_one bx c (cfg, s) = Some (cfg', s') \<and> same_settings cfg cfg' \<and> consistent s' \<and>
    channels s' = at_row (c_id c) (balance_row bx c) s"
proof (cases "asked_for_balance c")
  case False
  then have "balance_one bx c (cfg, s) = Some (cfg, s)" "balance_row bx c = (\<lambda>x. x)"
    by (auto simp: balance_one_def asked_for_balance_def balance_row_def fun_eq_iff)
  then show ?thesis using assms by (simp add: at_row_id)
next
  case True
  note upd = asked_update [OF True, of bx s]
  show ?thesis
  proof (cases "openai_balance bx c (billing_address c)")
    case (Inl e)
    with True upd have "balance_one bx c (cfg, s) = Some (cfg, s)" "balance_row bx c = (\<lambda>x. x)"
      by (simp_all add: balance_one_def asked_for_balance_def balance_row_def stored_balance_def fun_eq_iff)
    then show ?thesis using assms by (simp add: at_row_id)
  next
    case (Inr b)
    let ?s = "UpdateBalance (bx_now bx) (c_id c) b s"
    note stored = consistent_UpdateBalance [OF assms, of "bx_now bx" "c_id c" b]
    obtain cfg' s' where d: "(if b \<le> 0 then DisableChannel (bx_pushed bx c) cfg (c_id c) ?s else (cfg, ?s)) = (cfg', s')"
        "same_settings cfg cfg'" "consistent s'"
        "channels s' = at_row (c_id c) (\<lambda>c. if b \<le> 0 then c\<lparr>c_status := ChannelStatusAutoDisabled\<rparr> else c) ?s"
      using maybe_disabled [OF conjunct1 [OF stored]] by blast
    have "balance_one bx c (cfg, s) = Some (cfg', s')"
      using True upd Inr d(1) by (auto simp: balance_one_def asked_for_balance_def stored_balance_def)
    moreover have "channels s' = at_row (c_id c) (balance_row bx c) s"
      unfolding d(4) using stored True Inr by (auto simp: at_row_def update_where_def balance_row_def)
    ultimately show ?thesis using d(2,3) by blast
  qed
qed

interpretation balances: channel_round "balance_one bx" "\<lambda>_ _. True" "\<lambda>_. balance_row bx" for bx
proof
  show "c_id (balance_row bx c x) = c_id x" for bx c x by (simp add: balance_row_def split: sum.split)
qed (use balance_one_row in auto)

text \<open>C39: the automatic update of balances. In a consistent database without faults a turn ends without a panic, and it
  asks for the balance of exactly the enabled channels of the kinds OpenAI and Custom: a balance that could be read
  is stored with its time, and the channel is disabled if and only if that balance is zero or less, whatever the
  options say about disabling channels automatically. A channel that could not be asked, and every other channel,
  keeps its row. The abilities follow the channels.\<close>

theorem exhausted_channels_disabled:
  assumes "consistent s"
  shows "\<exists>cfg' s'. AutomaticallyUpdateChannels_turn bx cfg s = Some (cfg', s') \<and> consistent s' \<and>
    channels s' = map (\<lambda>c. balance_row bx c c) (channels s)"
  using balances.all_rows [OF assms, of bx cfg] assms
  by (auto simp: AutomaticallyUpdateChannels_turn_def updateAllChannelsBalance_def GetAllChannels_def)

text \<open>The page's button answers that it worked and does nothing.\<close>

theorem update_all_balances_does_nothing: "UpdateAllChannelsBalance s = (Success (), s)"
  by (simp add: UpdateAllChannelsBalance_def)

text \<open>The first channel of the two has used up its balance; disabling channels automatically is switched off.\<close>

definition used_up :: billing_ext where
  "used_up = \<lparr>bx_new_request = (\<lambda>_. None), bx_get = (\<lambda>_ _. Inr (200, Inr '''')),
     bx_subscription = (\<lambda>_. Inr \<lparr>sub_Object = '''', sub_HasPaymentMethod = True, sub_SoftLimitUSD = 0, sub_HardLimitUSD = 0,
       sub_SystemHardLimitUSD = 0, sub_AccessUntil = 0\<rparr>),
     bx_usage = (\<lambda>_. Inr \<lparr>us_Object = '''', us_TotalUsage = 0\<rparr>),
     bx_grants = (\<lambda>_. Inl ''''), bx_sb = (\<lambda>_. Inl ''''), bx_aiproxy = (\<lambda>_. Inl ''''), bx_api2gpt = (\<lambda>_. Inl ''''),
     bx_aigc2d = (\<lambda>_. Inl ''''), bx_siliconflow = (\<lambda>_. Inl ''''), bx_deepseek = (\<lambda>_. Inl ''''),
     bx_openrouter = (\<lambda>_. Inl ''''), bx_month_start = '''', bx_today = '''', bx_hundred_days_ago = '''', bx_now = 9,
     bx_pushed = (\<lambda>_. True)\<rparr>"

definition one_openai :: st where
  "one_openai = run_channel_op (ChannelAdd 5 (zero_channel\<lparr>c_type := ct_OpenAI, c_key := ''a'', c_models := ''m'', c_group := ''g''\<rparr>)) empty_st"

lemma one_openai_rows: "channels one_openai = [(tier_channel 1 ''a'' 5 0)\<lparr>c_type := ct_OpenAI\<rparr>]"
  by (simp add: one_openai_def AddChannel_def BatchInsertChannels_def create_channels_def db_try_def
      insert_channel_def stored_channel_def zero_channel_def empty_st_def AddAbilities_def abilities_of_def
      tier_channel_def)

theorem exhausted_channels_disabled_witness:
  "\<exists>cfg' s'. AutomaticallyUpdateChannels_turn used_up direct_cfg one_openai = Some (cfg', s') \<and>
     map c_status (channels s') = [ChannelStatusAutoDisabled] \<and> \<not> AutomaticDisableChannelEnabled direct_cfg"
proof -
  have "consistent one_openai"
    unfolding one_openai_def
    by (rule consistent_op)
      (use consistent_start [of "[]" "[]"] in \<open>simp_all add: empty_st_def groups_ok_def stored_channel_def zero_channel_def\<close>)
  from exhausted_channels_disabled [OF this, of used_up direct_cfg]
  obtain cfg' s' where s': "AutomaticallyUpdateChannels_turn used_up direct_cfg one_openai = Some (cfg', s')"
      "channels s' = map (\<lambda>c. balance_row used_up c c) (channels one_openai)" by blast
  have "openai_balance used_up c a = Inr (0 - 0 / f64_of_int 100)" for c a
    by (simp add: openai_balance_def fetch_def GetResponseBody_def used_up_def)
  moreover have "0 - 0 / f64_of_int 100 \<le> (0::f64)" by (simp add: f64_defs f64_of_int_def)
  ultimately have "map c_status (channels s') = [ChannelStatusAutoDisabled]"
    by (simp add: s'(2) one_openai_rows balance_row_def asked_for_balance_def tier_channel_def)
  moreover have "\<not> AutomaticDisableChannelEnabled direct_cfg" by (simp add: direct_cfg_def init_config_def)
  ultimately show ?thesis using s'(1) by (intro exI conjI)
qed

end
