(* ===== verification/Models.thy ===== *)
theory Models
  imports ModelLists Ratios Dispatch
begin

text \<open>
  \<^verbatim>\<open>controller/model.go\<close> and \<^verbatim>\<open>controller/group.go\<close>: the catalogue of all models, which models a key or an account may use, and
  the names of the groups. Go visits a map in any order: \<open>shuffle\<close> is the order of the visit.
\<close>

section \<open>The catalogue\<close>

record OpenAIModelPermission =
  mp_Id :: string
  mp_Object :: string
  mp_Created :: int
  mp_AllowCreateEngine :: bool
  mp_AllowSampling :: bool
  mp_AllowLogprobs :: bool
  mp_AllowSearchIndices :: bool
  mp_AllowView :: bool
  mp_AllowFineTuning :: bool
  mp_Organization :: string
  mp_Group :: "string option"
  mp_IsBlocking :: bool

record OpenAIModels =
  mo_Id :: string
  mo_Object :: string
  mo_Created :: int
  mo_OwnedBy :: string
  mo_Permission :: "OpenAIModelPermission list"
  mo_Root :: string
  mo_Parent :: "string option"

definition model_permission :: "OpenAIModelPermission list" where
  "model_permission = [\<lparr>mp_Id = ''modelperm-LwHkVFn8AcMItP432fKKDIKJ'', mp_Object = ''model_permission'', mp_Created = 1626777600,
     mp_AllowCreateEngine = True, mp_AllowSampling = True, mp_AllowLogprobs = True, mp_AllowSearchIndices = False,
     mp_AllowView = True, mp_AllowFineTuning = False, mp_Organization = ''*'', mp_Group = None, mp_IsBlocking = False\<rparr>]"

definition model_entry :: "string \<Rightarrow> OpenAIModelPermission list \<Rightarrow> string \<Rightarrow> OpenAIModels" where
  "model_entry owner permission modelName =
     \<lparr>mo_Id = modelName, mo_Object = ''model'', mo_Created = 1626777600, mo_OwnedBy = owner, mo_Permission = permission,
      mo_Root = modelName, mo_Parent = None\<rparr>"

text \<open>The adaptors of all interfaces but one, not initialised; then the compatible channels but Azure.\<close>

definition interface_models :: "int \<Rightarrow> OpenAIModels list" where
  "interface_models i =
     (if i = api_AIProxyLibrary then []
      else case GetAdaptor i of
          None \<Rightarrow> []
        | Some a \<Rightarrow> map (model_entry (GetChannelName a 0) model_permission) (GetModelList a 0))"

definition compatible_models :: "int \<Rightarrow> OpenAIModels list" where
  "compatible_models channelType =
     (if channelType = ct_Azure then []
      else case GetCompatibleChannelMeta channelType of
          (channelName, channelModelList) \<Rightarrow> map (model_entry channelName model_permission) channelModelList)"

definition all_models :: "OpenAIModels list" where
  "all_models = concat (map interface_models [0..api_Dummy - 1]) @ concat (map compatible_models CompatibleChannels)"

definition modelsMap :: "string \<Rightarrow> OpenAIModels option" where
  "modelsMap = foldl (\<lambda>m x. m(mo_Id x \<mapsto> x)) Map.empty all_models"

definition channelId2Models :: "int \<Rightarrow> string list option" where
  "channelId2Models i =
     (if 1 \<le> i \<and> i < ct_Dummy then map_option (\<lambda>a. GetModelList a i) (GetAdaptor (ToAPIType i)) else None)"


section \<open>Handlers\<close>

definition DashboardListModels :: "(int \<Rightarrow> string list option) reply" where
  "DashboardListModels = Success channelId2Models"

definition ListAllModels :: "OpenAIModels list" where
  "ListAllModels = all_models"

text \<open>Errors of both lookups are ignored: an unknown group has no models, and a failed lookup gives none.\<close>

definition available_models :: "config \<Rightarrow> int \<Rightarrow> ctx \<Rightarrow> st \<Rightarrow> string list \<times> st" where
  "available_models cfg now g s =
     (if g_available_models g \<noteq> '''' then (Split (CHR '','') (g_available_models g), s)
      else case CacheGetUserGroup cfg now (g_id g) s of
          ((userGroup, _), s) \<Rightarrow>
            (case CacheGetGroupModels cfg now userGroup s of
               (Inl e, s) \<Rightarrow> ([], s)
             | (Inr ms, s) \<Rightarrow> (ms, s)))"

definition ListModels :: "(string list \<Rightarrow> string list) \<Rightarrow> config \<Rightarrow> int \<Rightarrow> ctx \<Rightarrow> st \<Rightarrow> OpenAIModels list \<times> st" where
  "ListModels shuffle cfg now g s =
     (case available_models cfg now g s of
        (available, s) \<Rightarrow>
          (let listed = filter (\<lambda>m. mo_Id m \<in> set available) all_models;
               rest = filter (\<lambda>n. n \<notin> set (map mo_Id listed)) (shuffle (remdups available))
           in (listed @ map (model_entry ''custom'' []) rest, s)))"

datatype retrieved = Model_found OpenAIModels | No_model string

definition RetrieveModel :: "string \<Rightarrow> retrieved" where
  "RetrieveModel modelId =
     (case modelsMap modelId of
        Some m \<Rightarrow> Model_found m
      | None \<Rightarrow> No_model (''The model '' @ [CHR 0x27] @ modelId @ [CHR 0x27] @ '' does not exist''))"

definition GetUserAvailableModels :: "config \<Rightarrow> int \<Rightarrow> ctx \<Rightarrow> st \<Rightarrow> string list reply \<times> st" where
  "GetUserAvailableModels cfg now g s =
     (case CacheGetUserGroup cfg now (g_id g) s of
        ((_, Some e), s) \<Rightarrow> (Failure e, s)
      | ((userGroup, None), s) \<Rightarrow>
          (case CacheGetGroupModels cfg now userGroup s of
             (Inl e, s) \<Rightarrow> (Failure e, s)
           | (Inr ms, s) \<Rightarrow> (Success ms, s)))"

text \<open>\<open>visit\<close> lists the keys of a map.\<close>

definition GetGroups :: "((string \<Rightarrow> f64 option) \<Rightarrow> string list) \<Rightarrow> ratios \<Rightarrow> string list reply" where
  "GetGroups visit rs = Success (visit (GroupRatio rs))"


section \<open>Properties\<close>

text \<open>The order of a visit: every key once.\<close>

definition visits :: "(string list \<Rightarrow> string list) \<Rightarrow> bool" where
  "visits shuffle \<longleftrightarrow> (\<forall>xs. mset (shuffle xs) = mset xs)"

lemma visits_count: "visits shuffle \<Longrightarrow> count_list (shuffle xs) x = count_list xs x"
  by (metis visits_def count_mset)

lemma count_list_filter: "count_list (filter P xs) x = (if P x then count_list xs x else 0)"
  by (induction xs) auto

lemma count_list_remdups: "count_list (remdups xs) x = (if x \<in> set xs then 1 else 0)"
  by (induction xs) auto

lemma model_entry_Id [simp]: "mo_Id (model_entry owner p n) = n"
  by (simp add: model_entry_def)

lemma count_listed: "count_list (map mo_Id (filter (\<lambda>m. mo_Id m \<in> A) ms)) x =
    (if x \<in> A then count_list (map mo_Id ms) x else 0)"
  by (induction ms) auto

text \<open>the list of models that a key is shown. Whatever the order in which maps are visited, it names exactly the
  models that are available to the key (those the key is limited to, or those of the group of its owner): one that the
  catalogue has is listed with its entries there, one that the catalogue lacks is listed once, as a custom model,
  and nothing else is listed.\<close>

theorem listed_models:
  assumes "visits shuffle" and "ListModels shuffle cfg now g s = (ms, s')" and "available_models cfg now g s = (available, s'')"
  shows "count_list (map mo_Id ms) n =
    (if n \<notin> set available then 0 else max 1 (count_list (map mo_Id all_models) n))"
proof -
  let ?listed = "filter (\<lambda>m. mo_Id m \<in> set available) all_models"
  have ids: "mo_Id \<circ> model_entry ''custom'' [] = id" by (simp add: fun_eq_iff)
  have ms: "map mo_Id ms = map mo_Id ?listed @ filter (\<lambda>n. n \<notin> set (map mo_Id ?listed)) (shuffle (remdups available))"
    using assms(2,3) by (auto simp: ListModels_def Let_def ids)
  have "count_list (map mo_Id ?listed) n = 0 \<longleftrightarrow> n \<notin> set (map mo_Id ?listed)"
    by (simp only: count_list_0_iff)
  then show ?thesis
    unfolding ms count_list_append count_list_filter visits_count [OF assms(1)] count_list_remdups
    using count_listed [of "set available" all_models n]
    by (cases "count_list (map mo_Id all_models) n = 0") (auto simp: max_def split: if_splits)
qed

text \<open>A key that is limited to one model that the catalogue lacks.\<close>

definition limited_key :: ctx where
  "limited_key = \<lparr>g_id = 1, g_request_model = '''', g_available_models = ''mine'', g_token_id = 1, g_token_name = '''',
     g_specific_channel = None, g_group = '''', g_channel = 0, g_channel_id = 0, g_channel_name = '''', g_system_prompt = '''',
     g_model_mapping = None, g_original_model = '''', g_base_url = '''', g_config = None, g_authorization = ''''\<rparr>"

theorem listed_models_witness:
  "1 \<le> count_list (map mo_Id (fst (ListModels id cfg 0 limited_key empty_st))) ''mine'' \<and>
   count_list (map mo_Id (fst (ListModels id cfg 0 limited_key empty_st))) ''gpt-4'' = 0"
proof -
  obtain ms s' where run: "ListModels id cfg 0 limited_key empty_st = (ms, s')" by fastforce
  have "visits id" by (simp add: visits_def)
  moreover have "available_models cfg 0 limited_key empty_st = ([''mine''], empty_st)"
    by (simp add: available_models_def limited_key_def)
  ultimately have "count_list (map mo_Id ms) n =
      (if n \<notin> set [''mine''] then 0 else max 1 (count_list (map mo_Id all_models) n))" for n
    using run listed_models by blast
  then show ?thesis by (simp add: run)
qed

text \<open>A group without models is cached as an empty text, which is read back as one model without a name.\<close>

theorem nameless_model_listed:
  assumes "g_available_models g = ''''" and "CacheGetUserGroup cfg now (g_id g) s = ((userGroup, e), s1)"
    and "redis_enabled s1" and "RedisGet now (group_models_key userGroup) s1 = (Inr (KStr (Join (CHR '','') [])), s2)"
  shows "fst (available_models cfg now g s) = ['''']"
  using assms by (simp add: available_models_def CacheGetGroupModels_def)

text \<open>The map keeps the last entry of a name: a model is retrieved exactly if the catalogue has it.\<close>

lemma foldl_update: "foldl (\<lambda>m x. m(mo_Id x \<mapsto> x)) m ms n = (case find (\<lambda>x. mo_Id x = n) (rev ms) of None \<Rightarrow> m n | Some x \<Rightarrow> Some x)"
  by (induction ms rule: rev_induct) auto

theorem retrieved_models:
  "RetrieveModel n = (case find (\<lambda>x. mo_Id x = n) (rev ListAllModels) of
     Some x \<Rightarrow> Model_found x
   | None \<Rightarrow> No_model (''The model '' @ [CHR 0x27] @ n @ [CHR 0x27] @ '' does not exist''))"
  by (simp add: RetrieveModel_def modelsMap_def foldl_update ListAllModels_def split: option.split)

end
