(* ===== verification/Passing.thy ===== *)
theory Passing
  imports OpenAI
begin

text \<open>
  The adaptor of channels that only pass requests on (\<^verbatim>\<open>relay/adaptor/proxy\<close>). Headers of requests and responses are
  lists of names with their values, as a server gives them: every name has a value. Copying a body to the caller may fail.
\<close>

type_synonym header_list = "(string \<times> string list) list"

definition proxy_ConvertRequest :: "int \<Rightarrow> GeneralOpenAIRequest \<Rightarrow> string + string" where
  "proxy_ConvertRequest relayMode q = Inl ''notimplement''"

definition proxy_ConvertImageRequest :: "ImageRequest \<Rightarrow> string + string" where
  "proxy_ConvertImageRequest q = Inl ''not implement''"

definition proxy_GetRequestURL :: "Meta \<Rightarrow> string + string" where
  "proxy_GetRequestURL m =
     (let prefix = ''/v1/oneapi/proxy/'' @ Itoa (m_ChannelId m)
      in Inr (m_BaseURL m @ TrimPrefix (m_RequestURLPath m) prefix))"

definition copy_headers :: "header_list \<Rightarrow> headers \<Rightarrow> headers" where
  "copy_headers hs h = fold (\<lambda>(k, v) h. h(k \<mapsto> hd v)) hs h"

definition Del :: "string \<Rightarrow> headers \<Rightarrow> headers" where
  "Del k h = h(k := None)"

text \<open>All headers of the caller, without four of them, and the key of the channel.\<close>

definition proxy_SetupRequestHeader :: "header_list \<Rightarrow> Meta \<Rightarrow> headers \<Rightarrow> headers" where
  "proxy_SetupRequestHeader hs m h =
     (let h = copy_headers hs h;
          h = Del ''Host'' h;
          h = Del ''Content-Length'' h;
          h = Del ''Accept-Encoding'' h;
          h = Del ''Connection'' h
      in h(''Authorization'' \<mapsto> m_APIKey m))"

definition proxy_DoRequest ::
    "header_list \<Rightarrow> (string \<Rightarrow> string option) \<Rightarrow> (string \<Rightarrow> headers \<Rightarrow> body \<Rightarrow> string + response option) \<Rightarrow> Meta \<Rightarrow> body \<Rightarrow>
     string + response option" where
  "proxy_DoRequest hs new_request send m b =
     DoRequestHelper (proxy_GetRequestURL m) new_request (Inr (proxy_SetupRequestHeader hs m Map.empty)) send b"

text \<open>What the caller gets: the headers (the last of several values), the status, and the body or its part that could be
  copied, which \<open>copy\<close> tells with the error.\<close>

record proxied =
  px_headers :: headers
  px_status :: int
  px_body :: string

definition proxy_DoResponse ::
    "header_list \<Rightarrow> (string \<Rightarrow> string \<times> string option) \<Rightarrow> headers \<Rightarrow> response \<Rightarrow> proxied \<times> (status_error + Usage option)" where
  "proxy_DoResponse hs copy written_before resp =
     (let h = fold (\<lambda>(k, v) h. fold (\<lambda>vv h. h(k \<mapsto> vv)) v h) hs written_before;
          (sent, err) = copy (stream_body resp)
      in (\<lparr>px_headers = h, px_status = rp_StatusCode resp, px_body = sent\<rparr>,
          case err of
            Some e \<Rightarrow> Inl \<lparr>se_Error = \<lparr>er_Message = e, er_Type = '''', er_Param = '''', er_Code = JNull\<rparr>, se_StatusCode = 500\<rparr>
          | None \<Rightarrow> Inr None))"


section \<open>Properties\<close>

lemma copy_headers_Cons [simp]: "copy_headers ((k, v) # hs) h = copy_headers hs (h(k \<mapsto> hd v))"
  by (simp add: copy_headers_def)

lemma copy_headers_Nil [simp]: "copy_headers [] h = h"
  by (simp add: copy_headers_def)

lemma copy_headers_other: "k \<notin> fst ` set hs \<Longrightarrow> copy_headers hs h k = h k"
  by (induction hs arbitrary: h) auto

lemma copy_headers_in: "distinct (map fst hs) \<Longrightarrow> (k, v) \<in> set hs \<Longrightarrow> copy_headers hs h k = Some (hd v)"
  by (induction hs arbitrary: h) (auto simp: copy_headers_other image_iff)

text \<open>The service sees the channel's key and not the caller's, but every other header of the caller, cookies included.\<close>

theorem proxy_headers:
  "proxy_SetupRequestHeader hs m h ''Authorization'' = Some (m_APIKey m)"
  "distinct (map fst hs) \<Longrightarrow> (k, v) \<in> set hs \<Longrightarrow>
     k \<notin> {''Authorization'', ''Host'', ''Content-Length'', ''Accept-Encoding'', ''Connection''} \<Longrightarrow>
     proxy_SetupRequestHeader hs m h k = Some (hd v)"
  by (auto simp: proxy_SetupRequestHeader_def Del_def copy_headers_in Let_def)

theorem proxy_forwards_cookies:
  "proxy_SetupRequestHeader [(''Cookie'', [''session=s'']), (''Authorization'', [''Bearer sk-t''])] m Map.empty ''Cookie'' =
     Some ''session=s''"
  by (rule proxy_headers(2) [where v = "[''session=s'']", simplified]) auto

text \<open>The address is the caller's without its prefix; a number of the channel written with a zero keeps the prefix.\<close>

theorem proxy_address:
  "m_RequestURLPath m = ''/v1/oneapi/proxy/'' @ Itoa (m_ChannelId m) @ rest \<Longrightarrow> proxy_GetRequestURL m = Inr (m_BaseURL m @ rest)"
  by (simp add: proxy_GetRequestURL_def TrimPrefix_def HasPrefix_def flip: append_assoc)

theorem proxy_prefix_kept:
  "m_ChannelId m = 1 \<Longrightarrow> m_RequestURLPath m = ''/v1/oneapi/proxy/01/v2'' \<Longrightarrow>
     proxy_GetRequestURL m = Inr (m_BaseURL m @ ''/v1/oneapi/proxy/01/v2'')"
  by (simp add: proxy_GetRequestURL_def TrimPrefix_def HasPrefix_def Itoa_def nat_digits.simps digit_char_def char_of_def Let_def)

end
