(* ===== verification/Adaptors.thy ===== *)
theory Adaptors
  imports Services Passing
begin

text \<open>
  The Go interface \<open>Adaptor\<close> (\<^verbatim>\<open>relay/adaptor/interface.go\<close>) with its implementations: which method runs for which kind of
  adaptor, how a request is sent through it (\<^verbatim>\<open>relay/adaptor/common.go\<close>), and what leaves the relay on the way.
\<close>

section \<open>What the methods use\<close>

text \<open>
  The caller's headers, as single values and as a list; the error of an address that cannot be parsed; sending; the time; and
  what the adaptors keep per request (the signature of Tencent) or ask for.
\<close>

record wire =
  wr_from :: "string \<Rightarrow> string"
  wr_headers :: header_list
  wr_new_request :: "string \<Rightarrow> string option"
  wr_send :: "string \<Rightarrow> headers \<Rightarrow> body \<Rightarrow> string + response option"
  wr_now :: int
  wr_cfg :: config
  wr_tencent :: tencent
  wr_baidu :: token_service
  wr_zhipu :: "string \<Rightarrow> string \<Rightarrow> int \<Rightarrow> string option"
  wr_google :: google_client

text \<open>The tokens that the packages keep, and how many goroutines were started that ask for a new token of Baidu.\<close>

record adaptor_state =
  as_baidu :: baidu_tokens
  as_refreshes :: nat
  as_zhipu :: zhipu_tokens
  as_vertex :: token_cache


section \<open>The methods\<close>

definition adaptor_GetRequestURL :: "wire \<Rightarrow> adaptor \<Rightarrow> Meta \<Rightarrow> adaptor_state \<Rightarrow> (string + string) \<times> adaptor_state" where
  "adaptor_GetRequestURL w a m st =
     (case a of
        AIProxyAdaptor \<Rightarrow> (library_GetRequestURL m, st)
      | AliAdaptor \<Rightarrow> (ali_GetRequestURL m, st)
      | AnthropicAdaptor \<Rightarrow> (claude_GetRequestURL m, st)
      | AwsAdaptor \<Rightarrow> (Inr '''', st)
      | BaiduAdaptor \<Rightarrow>
          (case baidu_GetRequestURL (wr_baidu w) (wr_now w) m (as_baidu st) of
             (u, store, refresh) \<Rightarrow> (u, st\<lparr>as_baidu := store, as_refreshes := as_refreshes st + (if refresh then 1 else 0)\<rparr>))
      | GeminiAdaptor \<Rightarrow> (gemini_GetRequestURL (wr_cfg w) m, st)
      | OpenAIAdaptor \<Rightarrow> (GetRequestURL m, st)
      | PaLMAdaptor \<Rightarrow> (palm_GetRequestURL m, st)
      | TencentAdaptor \<Rightarrow> (tencent_GetRequestURL m, st)
      | XunfeiAdaptor \<Rightarrow> (Inr '''', st)
      | ZhipuAdaptor \<Rightarrow> (zhipu_GetRequestURL m, st)
      | OllamaAdaptor \<Rightarrow> (ollama_GetRequestURL m, st)
      | CozeAdaptor \<Rightarrow> (coze_GetRequestURL m, st)
      | CohereAdaptor \<Rightarrow> (cohere_GetRequestURL m, st)
      | CloudflareAdaptor \<Rightarrow> (cloudflare_GetRequestURL m, st)
      | DeepLAdaptor \<Rightarrow> (deepl_GetRequestURL m, st)
      | VertexAIAdaptor \<Rightarrow> (vertex_GetRequestURL m, st)
      | ProxyAdaptor \<Rightarrow> (proxy_GetRequestURL m, st)
      | ReplicateAdaptor \<Rightarrow> (replicate_GetRequestURL m, st))"

definition adaptor_SetupRequestHeader ::
    "wire \<Rightarrow> adaptor \<Rightarrow> Meta \<Rightarrow> headers \<Rightarrow> adaptor_state \<Rightarrow> (string + headers) \<times> adaptor_state" where
  "adaptor_SetupRequestHeader w a m h st =
     (case a of
        AIProxyAdaptor \<Rightarrow> (Inr (library_SetupRequestHeader (wr_from w) m h), st)
      | AliAdaptor \<Rightarrow> (Inr (ali_SetupRequestHeader (wr_from w) m h), st)
      | AnthropicAdaptor \<Rightarrow> (Inr (claude_SetupRequestHeader (wr_from w) m h), st)
      | AwsAdaptor \<Rightarrow> (Inr h, st)
      | BaiduAdaptor \<Rightarrow> (Inr (baidu_SetupRequestHeader (wr_from w) m h), st)
      | GeminiAdaptor \<Rightarrow> (Inr (gemini_SetupRequestHeader (wr_from w) m h), st)
      | OpenAIAdaptor \<Rightarrow> (Inr (SetupRequestHeader (wr_from w) m h), st)
      | PaLMAdaptor \<Rightarrow> (Inr (palm_SetupRequestHeader (wr_from w) m h), st)
      | TencentAdaptor \<Rightarrow> (Inr (tencent_SetupRequestHeader (wr_from w) (wr_tencent w) m h), st)
      | XunfeiAdaptor \<Rightarrow> (Inr (SetupCommonRequestHeader (wr_from w) m h), st)
      | ZhipuAdaptor \<Rightarrow>
          (case zhipu_GetToken (wr_zhipu w) (wr_now w) (m_APIKey m) (as_zhipu st) of
             (token, store) \<Rightarrow> (Inr (zhipu_SetupRequestHeader (wr_from w) token m h), st\<lparr>as_zhipu := store\<rparr>))
      | OllamaAdaptor \<Rightarrow> (Inr (ollama_SetupRequestHeader (wr_from w) m h), st)
      | CozeAdaptor \<Rightarrow> (Inr (coze_SetupRequestHeader (wr_from w) m h), st)
      | CohereAdaptor \<Rightarrow> (Inr (cohere_SetupRequestHeader (wr_from w) m h), st)
      | CloudflareAdaptor \<Rightarrow> (Inr (cloudflare_SetupRequestHeader (wr_from w) m h), st)
      | DeepLAdaptor \<Rightarrow> (Inr (deepl_SetupRequestHeader (wr_from w) m h), st)
      | VertexAIAdaptor \<Rightarrow>
          (case vertex_SetupRequestHeader (wr_google w) (wr_now w) (wr_from w) m h (as_vertex st) of
             (r, cache) \<Rightarrow> (r, st\<lparr>as_vertex := cache\<rparr>))
      | ProxyAdaptor \<Rightarrow> (Inr (proxy_SetupRequestHeader (wr_headers w) m h), st)
      | ReplicateAdaptor \<Rightarrow> (Inr (replicate_SetupRequestHeader (wr_from w) m h), st))"

text \<open>All but two adaptors send through the helper; its steps run only as far as none has failed.\<close>

definition adaptor_DoRequest :: "wire \<Rightarrow> adaptor \<Rightarrow> Meta \<Rightarrow> body \<Rightarrow> adaptor_state \<Rightarrow> (string + response option) \<times> adaptor_state" where
  "adaptor_DoRequest w a m b st =
     (if a = AwsAdaptor then (aws_DoRequest m b, st)
      else if a = XunfeiAdaptor then (Inr (Some xunfei_DoRequest), st)
      else
        (case adaptor_GetRequestURL w a m st of
           (url, st1) \<Rightarrow>
             (let reached = (case url of Inl e \<Rightarrow> False | Inr u \<Rightarrow> wr_new_request w u = None);
                  hdr = adaptor_SetupRequestHeader w a m Map.empty st1
              in (DoRequestHelper url (wr_new_request w) (fst hdr) (wr_send w) b, if reached then snd hdr else st1))))"

text \<open>Requests for images: three adaptors have a form of their own, three refuse, the others pass the request on. The form of
  Replicate is made without a check: without a request it panics (\<open>None\<close>).\<close>

datatype converted_image =
    Same_image ImageRequest
  | Ali_image AliImageRequest
  | Zhipu_image "string \<times> string \<times> string"
  | Replicate_image DrawImageInput

definition adaptor_ConvertImageRequest :: "int \<Rightarrow> adaptor \<Rightarrow> ImageRequest option \<Rightarrow> (string + converted_image) option" where
  "adaptor_ConvertImageRequest nanoseconds a request =
     (case a of
        CohereAdaptor \<Rightarrow> Some (Inl ''not implemented'')
      | CloudflareAdaptor \<Rightarrow> Some (Inl ''not implemented'')
      | ProxyAdaptor \<Rightarrow> Some (Inl ''not implement'')
      | ReplicateAdaptor \<Rightarrow> map_option (\<lambda>r. Inr (Replicate_image (replicate_ConvertImageRequest nanoseconds r))) request
      | _ \<Rightarrow>
          Some (case request of
             None \<Rightarrow> Inl ''request is nil''
           | Some r \<Rightarrow>
               Inr (if a = AliAdaptor then Ali_image (ali_ConvertImageRequest r)
                    else if a = ZhipuAdaptor then Zhipu_image (zhipu_ConvertImageRequest r)
                    else Same_image r)))"



section \<open>Where requests go\<close>

lemma HasPrefix_trimmed: "HasPrefix (b @ x) (TrimSuffix b s)"
proof -
  have "\<exists>r. b = TrimSuffix b s @ r"
    by (cases "HasSuffix b s") (auto simp: TrimSuffix_def intro: exI [of _ "drop (length b - length s) b"])
  then obtain r where "b @ x = TrimSuffix b s @ (r @ x)" by (metis append_assoc)
  then show ?thesis by (metis HasPrefix_append)
qed

lemma HasPrefix_trimmed_self: "HasPrefix b (TrimSuffix b s)" "HasPrefix (TrimSuffix b s @ x) (TrimSuffix b s)"
  using HasPrefix_trimmed [of b "[]" s] by simp_all

lemma full_url_prefix: "HasPrefix (GetFullRequestURL b u ct) (TrimSuffix b ''/'')"
  by (simp add: GetFullRequestURL_def HasPrefix_trimmed HasPrefix_trimmed_self)

lemma openai_url_prefix: "GetRequestURL m = Inr u \<Longrightarrow> HasPrefix u (TrimSuffix (m_BaseURL m) ''/'')"
  by (auto simp: GetRequestURL_def azure_GetRequestURL_def minimax_GetRequestURL_def doubao_GetRequestURL_def
      novita_GetRequestURL_def baiduv2_GetRequestURL_def alibailian_GetRequestURL_def geminiv2_GetRequestURL_def
      HasPrefix_trimmed HasPrefix_trimmed_self full_url_prefix Let_def split: if_splits)

text \<open>Where the service of a channel is: what the channel says, but for Replicate, and for Vertex AI if it says nothing.\<close>

definition service_base :: "adaptor \<Rightarrow> Meta \<Rightarrow> string" where
  "service_base a m =
     (if a = ReplicateAdaptor then ''https://api.replicate.com''
      else if a = VertexAIAdaptor \<and> m_BaseURL m = '''' then ''https://'' @ Region (m_Config m) @ ''-aiplatform.googleapis.com''
      else m_BaseURL m)"

lemma baidu_url_prefix: "baidu_GetRequestURL ask now m store = (Inr u, r) \<Longrightarrow> HasPrefix u (TrimSuffix (m_BaseURL m) ''/'')"
  by (auto simp: baidu_GetRequestURL_def HasPrefix_trimmed Let_def split: prod.splits sum.splits)

lemma cloudflare_url_prefix: "cloudflare_GetRequestURL m = Inr u \<Longrightarrow> HasPrefix u (TrimSuffix (m_BaseURL m) ''/'')"
  by (auto simp: cloudflare_GetRequestURL_def HasPrefix_trimmed Let_def split: if_splits)

lemma vertex_url_prefix: "vertex_GetRequestURL m = Inr u \<Longrightarrow> HasPrefix u (TrimSuffix (service_base VertexAIAdaptor m) ''/'')"
proof -
  assume u: "vertex_GetRequestURL m = Inr u"
  then obtain path where "u = service_base VertexAIAdaptor m @ path"
    by (auto simp: vertex_GetRequestURL_def service_base_def Let_def split: if_splits)
  then show ?thesis by (simp add: HasPrefix_trimmed)
qed





section \<open>What services learn of the caller\<close>

definition passed_headers :: "string list" where
  "passed_headers = [''Content-Type'', ''Accept'', ''anthropic-version'']"

lemma common_header_same:
  "f ''Content-Type'' = g ''Content-Type'' \<Longrightarrow> f ''Accept'' = g ''Accept'' \<Longrightarrow>
   SetupCommonRequestHeader f m h = SetupCommonRequestHeader g m h"
  by (simp add: SetupCommonRequestHeader_def)

lemma header_same:
  assumes "a \<noteq> ProxyAdaptor" and "\<And>k. k \<in> set passed_headers \<Longrightarrow> f k = g k"
  shows "adaptor_SetupRequestHeader (w\<lparr>wr_from := f, wr_headers := hs\<rparr>) a m h st =
    adaptor_SetupRequestHeader (w\<lparr>wr_from := g, wr_headers := hs'\<rparr>) a m h st"
proof -
  have k: "f ''Content-Type'' = g ''Content-Type''" "f ''Accept'' = g ''Accept''" "f ''anthropic-version'' = g ''anthropic-version''"
    using assms(2) by (simp_all add: passed_headers_def)
  have c: "SetupCommonRequestHeader f m h = SetupCommonRequestHeader g m h" by (rule common_header_same [OF k(1,2)])
  have v: "vertex_SetupRequestHeader G now f m h cache = vertex_SetupRequestHeader G now g m h cache" for G now cache
    unfolding vertex_SetupRequestHeader_def c ..
  show ?thesis
    using assms(1) by (cases a)
      (simp_all add: adaptor_SetupRequestHeader_def c k library_SetupRequestHeader_def ali_SetupRequestHeader_def
        claude_SetupRequestHeader_def baidu_SetupRequestHeader_def gemini_SetupRequestHeader_def SetupRequestHeader_def
        palm_SetupRequestHeader_def tencent_SetupRequestHeader_def zhipu_SetupRequestHeader_def ollama_SetupRequestHeader_def
        coze_SetupRequestHeader_def cohere_SetupRequestHeader_def cloudflare_SetupRequestHeader_def deepl_SetupRequestHeader_def
        v replicate_SetupRequestHeader_def)
qed

lemma url_same:
  "adaptor_GetRequestURL (w\<lparr>wr_from := f, wr_headers := hs\<rparr>) a m st = adaptor_GetRequestURL w a m st"
  by (cases a) (simp_all add: adaptor_GetRequestURL_def)

text \<open>C13: services do not learn who is calling. But for the channels that pass requests on, the request that is sent, with its
  address and all its headers, the answer and the tokens that are kept depend on three headers of the caller only
  (Content-Type, Accept, anthropic-version): the caller's API key, cookies and addresses never leave the relay.\<close>

theorem callers_secrets_stay:
  assumes "a \<noteq> ProxyAdaptor" and "\<And>k. k \<in> set passed_headers \<Longrightarrow> f k = g k"
  shows "adaptor_DoRequest (w\<lparr>wr_from := f, wr_headers := hs\<rparr>) a m b st =
    adaptor_DoRequest (w\<lparr>wr_from := g, wr_headers := hs'\<rparr>) a m b st"
  by (auto simp add: adaptor_DoRequest_def url_same header_same [OF assms, where w = w and hs = hs and hs' = hs'] Let_def
      split: prod.split sum.split)

theorem callers_secrets_stay_witness:
  "\<forall>w m b st. adaptor_DoRequest
       (w\<lparr>wr_from := (\<lambda>k. if k = ''Authorization'' then ''Bearer sk-caller'' else ''''), wr_headers := [(''Cookie'', [''session=s''])]\<rparr>)
       OpenAIAdaptor m b st =
     adaptor_DoRequest (w\<lparr>wr_from := (\<lambda>k. ''''), wr_headers := []\<rparr>) OpenAIAdaptor m b st"
  by (intro allI callers_secrets_stay) (auto simp: passed_headers_def)


text \<open>The key of the channel is in the request of every adaptor that authenticates with it directly: in which header, and
  after what.\<close>

definition key_header :: "adaptor \<Rightarrow> Meta \<Rightarrow> string \<times> string" where
  "key_header a m =
     (case a of
        AnthropicAdaptor \<Rightarrow> (''x-api-key'', '''')
      | GeminiAdaptor \<Rightarrow> (''x-goog-api-key'', '''')
      | PaLMAdaptor \<Rightarrow> (''x-goog-api-key'', '''')
      | OpenAIAdaptor \<Rightarrow> if m_ChannelType m = ct_Azure then (''api-key'', '''') else (''Authorization'', ''Bearer '')
      | DeepLAdaptor \<Rightarrow> (''Authorization'', ''DeepL-Auth-Key '')
      | ProxyAdaptor \<Rightarrow> (''Authorization'', '''')
      | _ \<Rightarrow> (''Authorization'', ''Bearer ''))"

theorem channel_key_sent:
  assumes "a \<notin> {AwsAdaptor, TencentAdaptor, XunfeiAdaptor, ZhipuAdaptor, VertexAIAdaptor}"
  shows "\<exists>h'. adaptor_SetupRequestHeader w a m h st = (Inr h', st) \<and>
    h' (fst (key_header a m)) = Some (snd (key_header a m) @ m_APIKey m)"
  using assms by (cases a)
    (simp_all add: adaptor_SetupRequestHeader_def key_header_def library_SetupRequestHeader_def ali_SetupRequestHeader_def
      claude_SetupRequestHeader_def baidu_SetupRequestHeader_def gemini_SetupRequestHeader_def SetupRequestHeader_def
      palm_SetupRequestHeader_def ollama_SetupRequestHeader_def coze_SetupRequestHeader_def cohere_SetupRequestHeader_def
      cloudflare_SetupRequestHeader_def deepl_SetupRequestHeader_def proxy_SetupRequestHeader_def
      replicate_SetupRequestHeader_def Let_def)

end
