(* ===== verification/Images.thy ===== *)
theory Images
  imports Relay
begin

text \<open>
  Images that requests name (\<^verbatim>\<open>common/image/image.go\<close>): their sizes, for counting tokens, and their data, for the
  services that take no addresses. The network, base64 and the decoders of the standard library are parameters.
\<close>

text \<open>
  There are two clients: the one for what users name, which may go through a proxy (\<open>client.UserContentRequestHTTPClient\<close>),
  and that of the standard library. \<open>iw_config\<close> reads the size from what can be read of a body.
\<close>

record image_net =
  iw_user_head :: "string \<Rightarrow> string + string"
  iw_user_get :: "string \<Rightarrow> string + response"
  iw_get :: "string \<Rightarrow> string + response"
  iw_config :: "string + string \<Rightarrow> string + int \<times> int"
  iw_encode64 :: "string \<Rightarrow> string"
  iw_decode64 :: "string \<Rightarrow> string + string"


section \<open>Data URLs\<close>

text \<open>The pattern \<open>data:image/([^;]+);base64,\<close> at the start of a string: the kind, and the rest of the string.\<close>

definition url_at :: "string \<Rightarrow> (string \<times> string) option" where
  "url_at s =
     (if \<not> HasPrefix s ''data:image/'' then None
      else (let r = drop 11 s;
                kind = takeWhile (\<lambda>c. c \<noteq> CHR '';'') r;
                rest = dropWhile (\<lambda>c. c \<noteq> CHR '';'') r
            in if kind = [] \<or> \<not> HasPrefix rest '';base64,'' then None else Some (kind, drop 8 rest)))"

text \<open>The leftmost match; what follows it ends with the line.\<close>

fun find_url :: "string \<Rightarrow> (string \<times> string) option" where
  "find_url [] = None"
| "find_url (c # cs) =
     (case url_at (c # cs) of
        Some (kind, rest) \<Rightarrow> Some (kind, takeWhile (\<lambda>c. c \<noteq> CHR 0x0A) rest)
      | None \<Rightarrow> find_url cs)"

lemma url_at_shorter: "url_at s = Some (kind, rest) \<Longrightarrow> length rest < length s"
proof -
  assume s: "url_at s = Some (kind, rest)"
  let ?r = "dropWhile (\<lambda>c. c \<noteq> CHR '';'') (drop 11 s)"
  have "rest = drop 8 ?r" "HasPrefix s ''data:image/''" using s by (auto simp: url_at_def Let_def split: if_splits)
  moreover have "length ?r \<le> length (drop 11 s)" by (rule length_dropWhile_le)
  moreover have "0 < length s" using calculation(2) by (auto simp: HasPrefix_def)
  ultimately show ?thesis by (simp only: length_drop)
qed

text \<open>All matches are cut out.\<close>

function strip_urls :: "string \<Rightarrow> string" where
  "strip_urls [] = []"
| "strip_urls (c # cs) =
     (case url_at (c # cs) of
        Some (kind, rest) \<Rightarrow> strip_urls rest
      | None \<Rightarrow> c # strip_urls cs)"
  by pat_completeness auto
termination
  by (relation "measure length") (auto dest: url_at_shorter)


section \<open>Reading images\<close>

definition IsImageUrl :: "image_net \<Rightarrow> string \<Rightarrow> string + bool" where
  "IsImageUrl W url = (case iw_user_head W url of Inl e \<Rightarrow> Inl e | Inr contentType \<Rightarrow> Inr (HasPrefix contentType ''image/''))"

text \<open>What is not an image has the size zero, without an error.\<close>

definition GetImageSizeFromUrl :: "image_net \<Rightarrow> string \<Rightarrow> string + int \<times> int" where
  "GetImageSizeFromUrl W url =
     (case IsImageUrl W url of
        Inl e \<Rightarrow> Inl e
      | Inr False \<Rightarrow> Inr (0, 0)
      | Inr True \<Rightarrow>
          (case iw_user_get W url of
             Inl e \<Rightarrow> Inl e
           | Inr r \<Rightarrow> iw_config W (rp_Body r)))"

definition GetImageFromUrl :: "image_net \<Rightarrow> string \<Rightarrow> string + string \<times> string" where
  "GetImageFromUrl W url =
     (case find_url url of
        Some (kind, d) \<Rightarrow> Inr (''image/'' @ kind, d)
      | None \<Rightarrow>
          (case IsImageUrl W url of
             Inl e \<Rightarrow> Inl e
           | Inr False \<Rightarrow> Inr ('''', '''')
           | Inr True \<Rightarrow>
               (case iw_get W url of
                  Inl e \<Rightarrow> Inl e
                | Inr r \<Rightarrow>
                    (case rp_Body r of
                       Inl e \<Rightarrow> Inl e
                     | Inr b \<Rightarrow> Inr (rp_ContentType r, iw_encode64 W b)))))"

definition GetImageSizeFromBase64 :: "image_net \<Rightarrow> string \<Rightarrow> string + int \<times> int" where
  "GetImageSizeFromBase64 W encoded =
     (case iw_decode64 W (strip_urls encoded) of
        Inl e \<Rightarrow> Inl e
      | Inr decoded \<Rightarrow> iw_config W (Inr decoded))"

definition GetImageSize :: "image_net \<Rightarrow> string \<Rightarrow> string + int \<times> int" where
  "GetImageSize W img = (if HasPrefix img ''data:image/'' then GetImageSizeFromBase64 W img else GetImageSizeFromUrl W img)"


section \<open>Properties\<close>

definition data_url :: "string \<Rightarrow> string \<Rightarrow> string" where
  "data_url kind d = ''data:image/'' @ kind @ '';base64,'' @ d"

lemma url_at_data_url:
  "kind \<noteq> [] \<Longrightarrow> CHR '';'' \<notin> set kind \<Longrightarrow> url_at (data_url kind d) = Some (kind, d)"
proof -
  assume k: "kind \<noteq> []" "CHR '';'' \<notin> set kind"
  then have "takeWhile (\<lambda>c. c \<noteq> CHR '';'') (kind @ '';base64,'' @ d) = kind"
      "dropWhile (\<lambda>c. c \<noteq> CHR '';'') (kind @ '';base64,'' @ d) = '';base64,'' @ d"
    by (auto simp: takeWhile_append dropWhile_append)
  with k(1) show ?thesis by (simp add: url_at_def data_url_def HasPrefix_def)
qed

lemma url_at_colon: "url_at s \<noteq> None \<Longrightarrow> CHR '':'' \<in> set s"
proof -
  assume "url_at s \<noteq> None"
  then have "HasPrefix s ''data:image/''" by (auto simp: url_at_def split: if_splits)
  then show ?thesis by (auto simp: HasPrefix_iff)
qed

lemma strip_urls_none: "CHR '':'' \<notin> set s \<Longrightarrow> strip_urls s = s"
proof (induction s)
  case (Cons c cs)
  then have "url_at (c # cs) = None" using url_at_colon [of "c # cs"] Cons.prems by blast
  with Cons show ?case by simp
qed simp

text \<open>The data of an image that is part of the request is read as it was written, without the network: base64 has no
  line break. Its size is the one of these data.\<close>

theorem data_url_read:
  assumes "kind \<noteq> []" "CHR '';'' \<notin> set kind" "CHR 0x0A \<notin> set d"
  shows "GetImageFromUrl W (data_url kind d) = Inr (''image/'' @ kind, d)"
proof -
  obtain c cs where c: "data_url kind d = c # cs" by (cases "data_url kind d") (auto simp: data_url_def)
  have "takeWhile (\<lambda>c. c \<noteq> CHR 0x0A) d = d" using assms(3) by (simp add: takeWhile_eq_all_conv) auto
  then have "find_url (data_url kind d) = Some (kind, d)" using url_at_data_url [OF assms(1,2), of d] by (simp add: c)
  then show ?thesis by (simp add: GetImageFromUrl_def)
qed

theorem data_url_size:
  assumes "kind \<noteq> []" "CHR '';'' \<notin> set kind" "CHR '':'' \<notin> set d"
  shows "GetImageSize W (data_url kind d) = (case iw_decode64 W d of Inl e \<Rightarrow> Inl e | Inr b \<Rightarrow> iw_config W (Inr b))"
proof -
  obtain c cs where c: "data_url kind d = c # cs" by (cases "data_url kind d") (auto simp: data_url_def)
  have "strip_urls (data_url kind d) = d"
    using url_at_data_url [OF assms(1,2), of d] strip_urls_none [OF assms(3)] by (simp add: c)
  moreover have "HasPrefix (data_url kind d) ''data:image/''" by (simp add: data_url_def HasPrefix_def)
  ultimately show ?thesis by (simp add: GetImageSize_def GetImageSizeFromBase64_def)
qed

text \<open>The data of other images are not fetched through the client for them, so that its proxy is passed by; and an address
  that is no image gives empty data without an error.\<close>

theorem image_data_pass_the_proxy: "GetImageFromUrl (W\<lparr>iw_user_get := g\<rparr>) url = GetImageFromUrl W url"
  by (simp add: GetImageFromUrl_def IsImageUrl_def split: option.split sum.split bool.split)

theorem no_image_no_error:
  "find_url url = None \<Longrightarrow> iw_user_head W url = Inr ''text/html'' \<Longrightarrow> GetImageFromUrl W url = Inr ('''', '''')"
  by (simp add: GetImageFromUrl_def IsImageUrl_def HasPrefix_def)

end
