(* ===== verification/Helpers.thy ===== *)
theory Helpers
  imports OpenAI Images
begin

text \<open>
  The small packages that the rest of the program uses: random strings (\<^verbatim>\<open>common/random\<close>), \<^verbatim>\<open>common/helper\<close>, the body of a
  request that is read more than once (\<^verbatim>\<open>common/gin.go\<close>), translations and the language of a request (\<^verbatim>\<open>common/i18n\<close>,
  \<^verbatim>\<open>middleware/language.go\<close>), mail and pushed messages (\<^verbatim>\<open>common/message\<close>), the HTTP clients (\<^verbatim>\<open>common/client\<close>) and the log
  (\<^verbatim>\<open>common/logger\<close>). The generator of random numbers, the network and JSON are parameters.
\<close>

section \<open>Random strings\<close>

text \<open>\<open>draw seed k n\<close> is the \<open>k\<close>-th number below \<open>n\<close> that the generator gives after it was seeded; every function seeds it with
  the time. An identifier of package \<open>uuid\<close> does not come from this generator.\<close>

type_synonym generator = "int \<Rightarrow> nat \<Rightarrow> nat \<Rightarrow> nat"

definition keyNumbers :: string where
  "keyNumbers = ''0123456789''"

definition keyChars :: string where
  "keyChars = ''0123456789abcdefghijklmnopqrstuvwxyzABCDEFGHIJKLMNOPQRSTUVWXYZ''"

definition GetUUID :: "string \<Rightarrow> string" where
  "GetUUID uuid = filter (\<lambda>c. c \<noteq> CHR ''-'') uuid"

definition GetRandomString :: "generator \<Rightarrow> int \<Rightarrow> nat \<Rightarrow> string" where
  "GetRandomString draw now n = map (\<lambda>i. keyChars ! draw now i (length keyChars)) [0..<n]"

definition GetRandomNumberString :: "generator \<Rightarrow> int \<Rightarrow> nat \<Rightarrow> string" where
  "GetRandomNumberString draw now n = map (\<lambda>i. keyNumbers ! draw now i (length keyNumbers)) [0..<n]"

definition upper_char :: "char \<Rightarrow> char" where
  "upper_char c = (if CHR ''a'' \<le> c \<and> c \<le> CHR ''z'' then char_of (of_char c - 32 :: nat) else c)"

text \<open>Sixteen drawn characters and the digits of an identifier, every second one in upper case. A shorter identifier would
  panic.\<close>

definition GenerateKey :: "generator \<Rightarrow> int \<Rightarrow> string \<Rightarrow> string option" where
  "GenerateKey draw now uuid =
     (let u = GetUUID uuid
      in if length u < 32 then None
         else Some (map (\<lambda>i. keyChars ! draw now i (length keyChars)) [0..<16] @
                    map (\<lambda>(i, c). if even i then upper_char c else c) (enumerate 0 (take 32 u))))"

text \<open>Drawing from an empty range panics.\<close>

definition RandRange :: "(nat \<Rightarrow> nat) \<Rightarrow> int \<Rightarrow> int \<Rightarrow> int option" where
  "RandRange draw lo hi = (if hi - lo \<le> 0 then None else Some (lo + int (draw (nat (hi - lo)))))"


section \<open>Helpers\<close>

definition sizeKB :: int where "sizeKB = 1024"
definition sizeMB :: int where "sizeMB = sizeKB * 1024"
definition sizeGB :: int where "sizeGB = sizeMB * 1024"

definition Bytes2Size :: "int \<Rightarrow> string" where
  "Bytes2Size num =
     (if 1 < go_div num sizeGB
      then (case f64_of_int num / f64_of_int sizeGB of F64 q \<Rightarrow> fmt_fixed 2 q) @ '' '' @ ''GB''
      else if 1 < go_div num sizeMB
      then Itoa (int64_of_f64 (f64_of_int num / f64_of_int sizeMB)) @ '' '' @ ''MB''
      else if 1 < go_div num sizeKB
      then Itoa (int64_of_f64 (f64_of_int num / f64_of_int sizeKB)) @ '' '' @ ''KB''
      else Itoa num @ '' '' @ ''B'')"

text \<open>The values that are told apart: a string, an integer, a number, and the rest.\<close>

datatype go_value = Go_string string | Go_int int | Go_float64 f64 | Go_other

fun Interface2String :: "go_value \<Rightarrow> string" where
  "Interface2String (Go_string s) = s"
| "Interface2String (Go_int n) = Itoa n"
| "Interface2String (Go_float64 (F64 q)) = fmt_fixed 6 q"
| "Interface2String Go_other = ''Not Implemented''"

definition IntMax :: "int \<Rightarrow> int \<Rightarrow> int" where
  "IntMax a b = (if a \<ge> b then a else b)"

definition Max_int :: "int \<Rightarrow> int \<Rightarrow> int" where
  "Max_int a b = (if a \<ge> b then a else b)"

definition AssignOrDefault :: "string \<Rightarrow> string \<Rightarrow> string" where
  "AssignOrDefault v defaultValue = (if length v \<noteq> 0 then v else defaultValue)"

text \<open>The addresses of the machine: whether each is one of a network and not of the loopback, and its text if it has four
  bytes. The first that looks private is taken.\<close>

fun GetIp :: "(bool \<times> string option) list \<Rightarrow> string" where
  "GetIp [] = ''''"
| "GetIp ((True, Some ip) # as) =
     (if HasPrefix ip ''10'' \<or> HasPrefix ip ''172'' \<or> HasPrefix ip ''192.168'' then ip else GetIp as)"
| "GetIp (_ # as) = GetIp as"

definition RequestIdKey :: string where
  "RequestIdKey = ''X-Oneapi-Request-Id''"

text \<open>The time as fourteen digits and the nanoseconds of its second, without leading zeros.\<close>

definition GetTimeString :: "(int \<Rightarrow> string) \<Rightarrow> int \<Rightarrow> string" where
  "GetTimeString layout nanoseconds = layout nanoseconds @ Itoa (nanoseconds mod 10 ^ 9)"

definition GenRequestID :: "(int \<Rightarrow> string) \<Rightarrow> generator \<Rightarrow> int \<Rightarrow> int \<Rightarrow> string" where
  "GenRequestID layout draw now now' = GetTimeString layout now @ GetRandomNumberString draw now' 8"

definition GetResponseID :: "string \<Rightarrow> string" where
  "GetResponseID logID = ''chatcmpl-'' @ logID"

text \<open>The identifier of a request: the value in the context, and the header of the answer.\<close>

definition RequestId_middleware :: "string \<Rightarrow> headers \<Rightarrow> string \<times> headers" where
  "RequestId_middleware i h = (i, h(RequestIdKey \<mapsto> i))"

definition CalcElapsedTime :: "int \<Rightarrow> int \<Rightarrow> int" where
  "CalcElapsedTime start now = go_div (now - start) (10 ^ 6)"


section \<open>The body of a request\<close>

text \<open>The copy that the context keeps, and what is left to read: an error, or bytes.\<close>

record body_state =
  by_cached :: "string option"
  by_stream :: "string + string"

definition GetRequestBody :: "body_state \<Rightarrow> (string + string) \<times> body_state" where
  "GetRequestBody b =
     (case by_cached b of
        Some s \<Rightarrow> (Inr s, b)
      | None \<Rightarrow>
          (case by_stream b of
             Inl e \<Rightarrow> (Inl e, b)
           | Inr s \<Rightarrow> (Inr s, b\<lparr>by_cached := Some s, by_stream := Inr ''''\<rparr>)))"

text \<open>Gin binds a form by reading the body: the result and what it leaves.\<close>

definition UnmarshalBodyReusable ::
    "(string \<Rightarrow> string + 'a) \<Rightarrow> (string \<Rightarrow> (string + 'a) \<times> string) \<Rightarrow> string \<Rightarrow> body_state \<Rightarrow> (string + 'a) \<times> body_state" where
  "UnmarshalBodyReusable json form contentType b =
     (case GetRequestBody b of
        (Inl e, b) \<Rightarrow> (Inl e, b)
      | (Inr s, b) \<Rightarrow>
          (let (r, b) = (if HasPrefix contentType ''application/json'' then (json s, b)
                         else (case form s of (r, left) \<Rightarrow> (r, b\<lparr>by_stream := Inr left\<rparr>)))
           in case r of
                Inl e \<Rightarrow> (Inl e, b)
              | Inr v \<Rightarrow> (Inr v, b\<lparr>by_stream := Inr s\<rparr>)))"

definition SetEventStreamHeaders :: "headers \<Rightarrow> headers" where
  "SetEventStreamHeaders h =
     h(''Content-Type'' \<mapsto> ''text/event-stream'', ''Cache-Control'' \<mapsto> ''no-cache'', ''Connection'' \<mapsto> ''keep-alive'',
       ''Transfer-Encoding'' \<mapsto> ''chunked'', ''X-Accel-Buffering'' \<mapsto> ''no'')"

text \<open>An event sets its headers again, and those that prevent caching unless there are some.\<close>

definition WriteContentType :: "headers \<Rightarrow> headers" where
  "WriteContentType h =
     (let h = h(''Content-Type'' \<mapsto> ''text/event-stream'')
      in if h ''Cache-Control'' = None then h(''Cache-Control'' \<mapsto> ''no-cache'') else h)"

text \<open>A panic of a relay is answered, with what the request's body was in the log.\<close>

definition RelayPanicRecover :: "'a + string \<Rightarrow> 'a + int \<times> string \<times> string" where
  "RelayPanicRecover r =
     (case r of
        Inl x \<Rightarrow> Inl x
      | Inr err \<Rightarrow> Inr (500,
          ''Panic detected, error: '' @ err @
          ''. Please submit an issue with the related log here: https://github.com/songquanpeng/one-api'', ''one_api_panic''))"



section \<open>Languages\<close>

type_synonym translation = "string \<rightharpoonup> string"

text \<open>The embedded directory: names, whether they are directories, and what reading them gives. The first error ends the
  loading and keeps what was loaded.\<close>

fun load_locales ::
    "(string \<Rightarrow> string + translation) \<Rightarrow> (string \<times> bool \<times> (string + string)) list \<Rightarrow> (string \<rightharpoonup> translation) \<Rightarrow>
     string option \<times> (string \<rightharpoonup> translation)" where
  "load_locales decode [] ts = (None, ts)"
| "load_locales decode ((name, dir, content) # entries) ts =
     (if dir \<or> \<not> HasSuffix name ''.json'' then load_locales decode entries ts
      else case content of
        Inl e \<Rightarrow> (Some e, ts)
      | Inr s \<Rightarrow>
          (case decode s of
             Inl e \<Rightarrow> (Some e, ts)
           | Inr t \<Rightarrow> load_locales decode entries (ts(TrimSuffix name ''.json'' \<mapsto> t))))"

definition Language :: "string \<Rightarrow> string" where
  "Language accept =
     (let lang = (if accept = '''' then ''en'' else accept)
      in if HasPrefix (ToLower lang) ''zh'' then ''zh-CN'' else ''en'')"

definition GetLang :: "string option \<Rightarrow> string" where
  "GetLang rawLang = (case rawLang of None \<Rightarrow> ''en'' | Some lang \<Rightarrow> if lang \<noteq> '''' then lang else ''en'')"

definition translateHelper :: "(string \<rightharpoonup> translation) \<Rightarrow> string \<Rightarrow> string \<Rightarrow> string" where
  "translateHelper ts lang message =
     (case ts lang of
        Some t \<Rightarrow> (case t message of Some translated \<Rightarrow> translated | None \<Rightarrow> message)
      | None \<Rightarrow> message)"

definition Translate :: "(string \<rightharpoonup> translation) \<Rightarrow> string option \<Rightarrow> string \<Rightarrow> string" where
  "Translate ts rawLang message = translateHelper ts (GetLang rawLang) message"


section \<open>Mail\<close>

text \<open>What is said to a mail server. It may refuse any of it; the first refusal ends the conversation.\<close>

datatype smtp_command =
    Dial bool string
  | Greet string
  | Login string string
  | Mail_from string
  | Rcpt_to string
  | Data_start
  | Data_write string
  | Data_close

fun converse :: "(smtp_command list \<Rightarrow> smtp_command \<Rightarrow> string option) \<Rightarrow> smtp_command list \<Rightarrow> smtp_command list \<Rightarrow>
    string option \<times> smtp_command list" where
  "converse server said [] = (None, said)"
| "converse server said (c # cs) =
     (case server said c of
        Some e \<Rightarrow> (Some e, said)
      | None \<Rightarrow> converse server (said @ [c]) cs)"

text \<open>Random bytes, the date, encoders, the server, and the function of the standard library that sends a mail (its address,
  account and token, sender, receivers and mail).\<close>

record mailer =
  ml_random :: "string + string"
  ml_date :: string
  ml_encode64 :: "string \<Rightarrow> string"
  ml_hex :: "string \<Rightarrow> string"
  ml_server :: "smtp_command list \<Rightarrow> smtp_command \<Rightarrow> string option"
  ml_send :: "string \<Rightarrow> string \<times> string \<Rightarrow> string \<Rightarrow> string list \<Rightarrow> string \<Rightarrow> string option"

definition shouldAuth :: "config \<Rightarrow> bool" where
  "shouldAuth cfg \<longleftrightarrow> SMTPAccount cfg \<noteq> '''' \<or> SMTPToken cfg \<noteq> ''''"

definition crlf :: string where
  "crlf = [CHR 0x0D, CHR 0x0A]"

definition mail_text :: "mailer \<Rightarrow> config \<Rightarrow> string \<Rightarrow> string \<Rightarrow> string \<Rightarrow> string \<Rightarrow> string" where
  "mail_text ML cfg subject receiver content buf =
     (let encodedSubject = ''=?UTF-8?B?'' @ ml_encode64 ML subject @ ''?='';
          parts = Split (CHR ''@'') (SMTPFrom cfg);
          domain = (if 1 < length parts then parts ! 1 else '''');
          messageId = ''<'' @ ml_hex ML buf @ ''@'' @ domain @ ''>''
      in ''To: '' @ receiver @ crlf @ ''From: '' @ SystemName cfg @ ''<'' @ SMTPFrom cfg @ ''>'' @ crlf @
         ''Subject: '' @ encodedSubject @ crlf @ ''Message-ID: '' @ messageId @ crlf @ ''Date: '' @ ml_date ML @ crlf @
         ''Content-Type: text/html; charset=UTF-8'' @ crlf @ crlf @ content @ crlf)"

text \<open>The conversation for the port of encrypted mail, and for servers without an account.\<close>

definition smtp_session :: "config \<Rightarrow> string \<Rightarrow> string \<Rightarrow> smtp_command list" where
  "smtp_session cfg receiver mail =
     [Dial (SMTPPort cfg = 465) (SMTPServer cfg @ '':'' @ Itoa (SMTPPort cfg)), Greet (SMTPServer cfg)] @
     (if shouldAuth cfg then [Login (SMTPAccount cfg) (SMTPToken cfg)] else []) @
     [Mail_from (SMTPFrom cfg)] @ map Rcpt_to (Split (CHR '';'') receiver) @ [Data_start, Data_write mail, Data_close]"

text \<open>The error, what was said to the server, and the configuration: a missing sender is set to the account and stays so.\<close>

definition SendEmail ::
    "mailer \<Rightarrow> string \<Rightarrow> string \<Rightarrow> string \<Rightarrow> config \<Rightarrow> (string option \<times> smtp_command list) \<times> config" where
  "SendEmail ML subject receiver content cfg =
     (if receiver = '''' then ((Some ''receiver is empty'', []), cfg)
      else
        (let cfg = (if SMTPFrom cfg = '''' then cfg\<lparr>SMTPFrom := SMTPAccount cfg\<rparr> else cfg)
         in case ml_random ML of
              Inl e \<Rightarrow> ((Some e, []), cfg)
            | Inr buf \<Rightarrow>
                (let mail = mail_text ML cfg subject receiver content buf
                 in if SMTPPort cfg = 465 \<or> \<not> shouldAuth cfg
                    then (converse (ml_server ML) [] (smtp_session cfg receiver mail), cfg)
                    else (case ml_send ML (SMTPServer cfg @ '':'' @ Itoa (SMTPPort cfg)) (SMTPAccount cfg, SMTPToken cfg)
                            (SMTPAccount cfg) (Split (CHR '';'') receiver) mail of
                         None \<Rightarrow> ((None, []), cfg)
                       | Some e \<Rightarrow> ((if Contains e ''short response'' then None else Some e, []), cfg)))))"

record push_request =
  pu_Title :: string
  pu_Description :: string
  pu_Content :: string
  pu_URL :: string
  pu_Channel :: string
  pu_Token :: string

text \<open>Posting a message gives an error or the decoded answer: whether it succeeded, and a text.\<close>

definition SendMessage ::
    "(string \<Rightarrow> push_request \<Rightarrow> string + (string + bool \<times> string)) \<Rightarrow> config \<Rightarrow> string \<Rightarrow> string \<Rightarrow> string \<Rightarrow> string option" where
  "SendMessage post cfg title description content =
     (if MessagePusherAddress cfg = '''' then Some ''message pusher address is not set''
      else case post (MessagePusherAddress cfg)
             \<lparr>pu_Title = title, pu_Description = description, pu_Content = content, pu_URL = '''', pu_Channel = '''',
              pu_Token = MessagePusherToken cfg\<rparr> of
        Inl e \<Rightarrow> Some e
      | Inr (Inl e) \<Rightarrow> Some e
      | Inr (Inr (success, message)) \<Rightarrow> (if \<not> success then Some message else None))"


section \<open>HTTP clients\<close>

record http_client =
  hc_proxy :: "string option"
  hc_timeout :: "int option"

record http_clients =
  cl_HTTPClient :: http_client
  cl_ImpatientHTTPClient :: http_client
  cl_UserContentRequestHTTPClient :: http_client

text \<open>\<open>parse\<close> is the error of an address that cannot be parsed: the program logs it and ends, with the message given.\<close>

definition client_Init :: "(string \<Rightarrow> string option) \<Rightarrow> config \<Rightarrow> string + http_clients" where
  "client_Init parse cfg =
     (let fatal = ''USER_CONTENT_REQUEST_PROXY set but invalid: '' @ UserContentRequestProxy cfg
      in if UserContentRequestProxy cfg \<noteq> '''' \<and> parse (UserContentRequestProxy cfg) \<noteq> None then Inl fatal
         else if RelayProxy cfg \<noteq> '''' \<and> parse (RelayProxy cfg) \<noteq> None then Inl fatal
         else
           (let user = (if UserContentRequestProxy cfg \<noteq> ''''
                  then \<lparr>hc_proxy = Some (UserContentRequestProxy cfg), hc_timeout = Some (UserContentRequestTimeout cfg)\<rparr>
                  else \<lparr>hc_proxy = None, hc_timeout = None\<rparr>);
                transport = (if RelayProxy cfg \<noteq> '''' then Some (RelayProxy cfg) else None)
            in Inr \<lparr>cl_HTTPClient = \<lparr>hc_proxy = transport,
                      hc_timeout = (if RelayTimeout cfg = 0 then None else Some (RelayTimeout cfg))\<rparr>,
                    cl_ImpatientHTTPClient = \<lparr>hc_proxy = transport, hc_timeout = Some 5\<rparr>,
                    cl_UserContentRequestHTTPClient = user\<rparr>))"


section \<open>The log\<close>

datatype loggerLevel = LevelDebug | LevelInfo | LevelWarn | LevelError | LevelFatal

fun level_name :: "loggerLevel \<Rightarrow> string" where
  "level_name LevelDebug = ''DEBUG''"
| "level_name LevelInfo = ''INFO''"
| "level_name LevelWarn = ''WARN''"
| "level_name LevelError = ''ERROR''"
| "level_name LevelFatal = ''FATAL''"

text \<open>The file that is open besides the two streams, whether the set-up has run, what was written where (to the error stream
  or not, and to which file), and whether the program has ended.\<close>

record log_state =
  lg_file :: "string option"
  lg_once :: bool
  lg_written :: "(bool \<times> string option \<times> string) list"
  lg_exited :: bool

text \<open>\<open>day\<close> is the date as eight digits; a file that cannot be opened ends the program.\<close>

definition SetupLogger :: "config \<Rightarrow> string \<Rightarrow> string \<Rightarrow> (string \<Rightarrow> bool) \<Rightarrow> log_state \<Rightarrow> log_state" where
  "SetupLogger cfg LogDir day opens L =
     (if lg_once L then L
      else if LogDir = '''' then L\<lparr>lg_once := True\<rparr>
      else
        (let logPath = LogDir @ ''/'' @ (if OnlyOneLogFile cfg then ''oneapi.log'' else ''oneapi-'' @ day @ ''.log'')
         in if opens logPath then L\<lparr>lg_once := True, lg_file := Some logPath\<rparr> else L\<lparr>lg_once := True, lg_exited := True\<rparr>))"

text \<open>The writer is chosen before the set-up runs; \<open>line_info\<close> is the place in the code.\<close>

definition logHelper ::
    "config \<Rightarrow> string \<Rightarrow> string \<Rightarrow> (string \<Rightarrow> bool) \<Rightarrow> string option \<Rightarrow> string \<Rightarrow> string \<Rightarrow> loggerLevel \<Rightarrow> string \<Rightarrow> log_state \<Rightarrow> log_state" where
  "logHelper cfg LogDir day opens requestId now line_info level msg L =
     (let errors = (level \<noteq> LevelInfo);
          requestId = (case requestId of None \<Rightarrow> '''' | Some i \<Rightarrow> if i \<noteq> '''' then '' | '' @ i else '''');
          entry = ''['' @ level_name level @ ''] '' @ now @ requestId @ line_info @ msg @ '' '' @ [CHR 0x0A];
          L = SetupLogger cfg LogDir day opens (L\<lparr>lg_written := lg_written L @ [(errors, lg_file L, entry)]\<rparr>)
      in if level = LevelFatal then L\<lparr>lg_exited := True\<rparr> else L)"

text \<open>Messages for debugging are only written when that is switched on.\<close>

definition Debug ::
    "config \<Rightarrow> string \<Rightarrow> string \<Rightarrow> (string \<Rightarrow> bool) \<Rightarrow> string option \<Rightarrow> string \<Rightarrow> string \<Rightarrow> string \<Rightarrow> log_state \<Rightarrow> log_state" where
  "Debug cfg LogDir day opens requestId now line_info msg L =
     (if \<not> DebugEnabled cfg then L else logHelper cfg LogDir day opens requestId now line_info LevelDebug msg L)"



section \<open>Properties\<close>

subsection \<open>Random strings\<close>

lemma draw_in: "(\<And>k. draw now k (length cs) < length cs) \<Longrightarrow> set (map (\<lambda>i. cs ! draw now i (length cs)) is) \<subseteq> set cs"
  by auto

theorem random_strings:
  assumes "\<And>k m. 0 < m \<Longrightarrow> draw now k m < m"
  shows "length (GetRandomString draw now n) = n" "set (GetRandomString draw now n) \<subseteq> set keyChars"
    "length (GetRandomNumberString draw now n) = n" "set (GetRandomNumberString draw now n) \<subseteq> set keyNumbers"
proof -
  have "0 < length keyChars" "0 < length keyNumbers" by (simp_all add: keyChars_def keyNumbers_def)
  then have "draw now k (length keyChars) < length keyChars" "draw now k (length keyNumbers) < length keyNumbers" for k
    using assms by blast+
  then show "set (GetRandomString draw now n) \<subseteq> set keyChars" "set (GetRandomNumberString draw now n) \<subseteq> set keyNumbers"
    unfolding GetRandomString_def GetRandomNumberString_def by (auto intro!: nth_mem)
qed (simp_all add: GetRandomString_def GetRandomNumberString_def)

definition hex_digits :: string where
  "hex_digits = ''0123456789abcdef''"

lemma hex_keys_all: "list_all (\<lambda>c. c \<in> set keyChars \<and> upper_char c \<in> set keyChars) hex_digits"
  by code_simp

lemma hex_keys: "c \<in> set hex_digits \<Longrightarrow> c \<in> set keyChars \<and> upper_char c \<in> set keyChars"
  using hex_keys_all by (simp add: list_all_iff)

text \<open>A generated key has the 48 characters that its column holds, all of them letters and digits.\<close>

theorem generated_key:
  assumes "\<And>k m. 0 < m \<Longrightarrow> draw now k m < m" and "length (GetUUID uuid) = 32" "set (GetUUID uuid) \<subseteq> set hex_digits"
  obtains key where "GenerateKey draw now uuid = Some key" "length key = 48" "set key \<subseteq> set keyChars"
proof -
  let ?a = "GetRandomString draw now 16"
  let ?b = "map (\<lambda>(i, c). if even i then upper_char c else c) (enumerate 0 (GetUUID uuid))"
  have key: "GenerateKey draw now uuid = Some (?a @ ?b)" using assms(2) by (simp add: GenerateKey_def GetRandomString_def)
  have a: "length ?a = 16" "set ?a \<subseteq> set keyChars" by (rule random_strings; rule assms(1); assumption)+
  have b: "set ?b \<subseteq> set keyChars"
  proof
    fix c
    assume "c \<in> set ?b"
    then obtain i where "i < length (GetUUID uuid)" "c = (if even i then upper_char (GetUUID uuid ! i) else GetUUID uuid ! i)"
      by (auto simp: in_set_enumerate_eq)
    moreover from this(1) have "GetUUID uuid ! i \<in> set hex_digits" using assms(3) by (meson nth_mem subsetD)
    ultimately show "c \<in> set keyChars" using hex_keys by presburger
  qed
  show thesis
  proof (rule that [OF key])
    show "length (?a @ ?b) = 48" using a(1) assms(2) by simp
    show "set (?a @ ?b) \<subseteq> set keyChars" using a(2) b by (simp only: set_append Un_least)
  qed
qed


subsection \<open>The body\<close>

text \<open>A body that was decoded can be read again as a whole, and decoding it again gives the same.\<close>

theorem body_reusable:
  assumes "UnmarshalBodyReusable json form contentType b = (Inr v, b')"
  obtains s where "fst (GetRequestBody b) = Inr s" "by_cached b' = Some s" "by_stream b' = Inr s"
    "UnmarshalBodyReusable json form contentType b' = (Inr v, b')"
proof -
  obtain s b1 where g: "GetRequestBody b = (Inr s, b1)"
    using assms by (cases "GetRequestBody b"; cases "fst (GetRequestBody b)") (auto simp: UnmarshalBodyReusable_def)
  then have c: "by_cached b1 = Some s" by (auto simp: GetRequestBody_def split: option.splits sum.splits)
  have again: "GetRequestBody (b1\<lparr>by_stream := x\<rparr>) = (Inr s, b1\<lparr>by_stream := x\<rparr>)" for x
    using c by (simp add: GetRequestBody_def)
  show thesis
  proof (cases "HasPrefix contentType ''application/json''")
    case True
    then have "json s = Inr v" "b' = b1\<lparr>by_stream := Inr s\<rparr>"
      using assms g by (auto simp: UnmarshalBodyReusable_def split: sum.splits)
    with True g c show thesis by (intro that [of s]) (auto simp: UnmarshalBodyReusable_def again)
  next
    case False
    then have "fst (form s) = Inr v" "b' = b1\<lparr>by_stream := Inr s\<rparr>"
      using assms g by (auto simp: UnmarshalBodyReusable_def split: sum.splits prod.splits)
    with False g c show thesis
      by (intro that [of s]) (auto simp: UnmarshalBodyReusable_def again split: prod.splits)
  qed
qed

text \<open>After JSON that cannot be decoded, nothing is left to be read.\<close>

theorem body_lost:
  assumes "HasPrefix contentType ''application/json''" "by_cached b = None" "by_stream b = Inr s" "json s = Inl e"
  shows "by_stream (snd (UnmarshalBodyReusable json form contentType b)) = Inr ''''"
  using assms by (simp add: UnmarshalBodyReusable_def GetRequestBody_def)

theorem stream_headers_kept: "WriteContentType (SetEventStreamHeaders h) = SetEventStreamHeaders h"
  by (auto simp: WriteContentType_def SetEventStreamHeaders_def)


subsection \<open>Languages\<close>

theorem two_languages: "Language accept = ''en'' \<or> Language accept = ''zh-CN''"
  by (simp add: Language_def Let_def)

theorem untranslated: "ts (Language accept) = None \<Longrightarrow> Translate ts (Some (Language accept)) message = message"
  using two_languages [of accept] by (auto simp: Translate_def GetLang_def translateHelper_def)


subsection \<open>Mail\<close>

lemma converse_all:
  "converse server said cs = (None, said') \<Longrightarrow>
   said' = said @ cs \<and> (\<forall>i < length cs. server (said @ take i cs) (cs ! i) = None)"
proof (induction cs arbitrary: said)
  case (Cons c cs)
  then have c: "server said c = None" and rest: "converse server (said @ [c]) cs = (None, said')"
    by (auto split: option.splits)
  have "server (said @ take i (c # cs)) ((c # cs) ! i) = None" if "i < length (c # cs)" for i
    using Cons.IH [OF rest] c that by (cases i) auto
  with Cons.IH [OF rest] show ?case by simp
qed simp

text \<open>Over the conversation, a mail counts as sent only if the server took every receiver and all of the mail.\<close>

theorem mail_needs_every_receiver:
  assumes "SendEmail ML subject receiver content cfg = ((None, said), cfg')" and "SMTPPort cfg = 465"
    and "r \<in> set (Split (CHR '';'') receiver)"
  shows "\<exists>i < length said. said ! i = Rcpt_to r \<and> ml_server ML (take i said) (Rcpt_to r) = None \<and> Data_close \<in> set (drop i said)"
proof -
  obtain mail where c: "converse (ml_server ML) [] (smtp_session cfg' receiver mail) = (None, said)"
    using assms(1,2) by (auto simp: SendEmail_def Let_def split: if_splits sum.splits)
  then have said: "said = smtp_session cfg' receiver mail"
      and ok: "\<And>i. i < length said \<Longrightarrow> ml_server ML (take i said) (said ! i) = None"
    using converse_all [OF c] by auto
  obtain us vs where s: "said = us @ Rcpt_to r # vs @ [Data_close]"
  proof -
    obtain as bs where "Split (CHR '';'') receiver = as @ r # bs" using assms(3) by (auto simp: in_set_conv_decomp)
    then show thesis
      using said by (intro that [of "[Dial (SMTPPort cfg' = 465) (SMTPServer cfg' @ '':'' @ Itoa (SMTPPort cfg')), Greet (SMTPServer cfg')] @
        (if shouldAuth cfg' then [Login (SMTPAccount cfg') (SMTPToken cfg')] else []) @ [Mail_from (SMTPFrom cfg')] @ map Rcpt_to as"
        "map Rcpt_to bs @ [Data_start, Data_write mail]"]) (simp add: smtp_session_def)
  qed
  then show ?thesis using ok [of "length us"] by (intro exI [of _ "length us"]) auto
qed

text \<open>The first mail fixes the sender: an account that is set later does not change it.\<close>

theorem sender_remembered:
  assumes "receiver \<noteq> ''''" "SMTPFrom cfg = ''''" "SMTPAccount cfg \<noteq> ''''"
  shows "SMTPFrom (snd (SendEmail ML subject' receiver content'
    ((snd (SendEmail ML subject receiver content cfg))\<lparr>SMTPAccount := account\<rparr>))) = SMTPAccount cfg"
proof -
  have sender: "SMTPFrom (snd (SendEmail ML s receiver c cfg)) = (if SMTPFrom cfg = '''' then SMTPAccount cfg else SMTPFrom cfg)" for s c cfg
    using assms(1) by (auto simp: SendEmail_def Let_def split: sum.splits option.splits)
  show ?thesis using assms(2,3) by (simp add: sender)
qed


subsection \<open>Clients, log, sizes\<close>

theorem relay_proxy_misreported:
  "UserContentRequestProxy cfg = '''' \<Longrightarrow> RelayProxy cfg \<noteq> '''' \<Longrightarrow> parse (RelayProxy cfg) = Some e \<Longrightarrow>
   client_Init parse cfg = Inl ''USER_CONTENT_REQUEST_PROXY set but invalid: ''"
  by (simp add: client_Init_def)

text \<open>The file of the first day stays the log for good.\<close>

theorem log_file_never_changes:
  "lg_once L \<Longrightarrow> lg_file (logHelper cfg LogDir day opens requestId now line_info level msg L) = lg_file L \<and>
   lg_once (logHelper cfg LogDir day opens requestId now line_info level msg L)"
  by (simp add: logHelper_def SetupLogger_def Let_def)

theorem small_sizes: "0 \<le> n \<Longrightarrow> n < 2048 \<Longrightarrow> Bytes2Size n = Itoa n @ '' B''"
proof -
  assume n: "0 \<le> n" "n < 2048"
  have "\<not> 1 < go_div n k" if "1024 \<le> k" for k
  proof -
    have "n div k \<le> n div 1024" using n(1) that by (intro zdiv_mono2) auto
    then have "n div k \<le> 1" using n(2) by linarith
    moreover have "0 \<le> n div k" using n(1) that by (simp add: pos_imp_zdiv_nonneg_iff)
    ultimately show ?thesis using n(1) that by (auto simp: go_div_def sgn_if)
  qed
  then show ?thesis by (simp add: Bytes2Size_def sizeGB_def sizeMB_def sizeKB_def)
qed

theorem public_address_taken: "GetIp [(True, Some ''100.1.2.3'')] = ''100.1.2.3''"
  by (simp add: HasPrefix_def)

end
