(* ===== verification/Panics.thy ===== *)
theory Panics
  imports Services Helpers
begin

text \<open>
  Adaptors that panic. The methods of \<open>adaptor_ops\<close> give a value or an error; here the conversion of a request and the
  answer may also end in a panic, which unwinds through \<open>RelayTextHelper\<close> (\<^verbatim>\<open>relay/controller/text.go\<close>), where nothing is
  deferred, up to \<open>RelayPanicRecover\<close> (\<^verbatim>\<open>middleware/recover.go\<close>).
\<close>

record panics =
  pn_convert :: "adaptor \<Rightarrow> Meta \<Rightarrow> GeneralOpenAIRequest \<Rightarrow> bool"
  pn_answer :: "adaptor \<Rightarrow> Meta \<Rightarrow> response option \<Rightarrow> bool"

text \<open>Whether a request is converted at all: one for OpenAI that is not changed is sent on as it is.\<close>

definition converts :: "env \<Rightarrow> Meta \<Rightarrow> bool" where
  "converts E m \<longleftrightarrow>
     \<not> (\<not> EnforceIncludeUsage (e_cfg E) \<and> m_APIType m = api_OpenAI \<and> m_OriginModelName m = m_ActualModelName m \<and>
        m_ChannelType m \<noteq> ct_Baichuan \<and> m_ForcedSystemPrompt m = '''')"

text \<open>The part after the estimate was taken: a panic comes where the method is called.\<close>

definition send_text_run :: "panics \<Rightarrow> env \<Rightarrow> Meta \<Rightarrow> GeneralOpenAIRequest \<Rightarrow> bool \<Rightarrow> int \<Rightarrow> finish \<times> (st \<Rightarrow> st)" where
  "send_text_run P E m q reset pre =
     (case GetAdaptor (m_APIType m) of
        None \<Rightarrow> send_text E m q reset pre
      | Some a \<Rightarrow>
          (if converts E m \<and> pn_convert P a m q then (Panicked, id)
           else case getRequestBody E m q (e_ops E a) of
             Inl e \<Rightarrow> send_text E m q reset pre
           | Inr b \<Rightarrow>
               (case op_DoRequest (e_ops E a) m b of
                  Inl e \<Rightarrow> send_text E m q reset pre
                | Inr resp \<Rightarrow>
                    (if \<not> isErrorHappened m resp \<and> pn_answer P a m resp then (Panicked, id)
                     else send_text E m q reset pre))))"

definition RelayTextHelper_run :: "panics \<Rightarrow> env \<Rightarrow> request \<Rightarrow> ctx \<Rightarrow> st \<Rightarrow> (finish \<times> (st \<Rightarrow> st)) \<times> st" where
  "RelayTextHelper_run P E rq g s =
     (case GetByContext (e_now E) rq g of
        None \<Rightarrow> ((Panicked, id), s)
      | Some m \<Rightarrow>
          (case getAndValidateTextRequest E rq (m_Mode m) of
             Inl e \<Rightarrow> ((Returned (Some (ErrorWrapper e ''invalid_text_request'' 400)), id), s)
           | Inr q \<Rightarrow>
               (case prepare_text m q of
                  (m, q, reset) \<Rightarrow>
                    (case getPromptTokens E q (m_Mode m) of
                       None \<Rightarrow> ((Panicked, id), s)
                     | Some promptTokens \<Rightarrow>
                         (let m = m\<lparr>m_PromptTokens := promptTokens\<rparr>
                          in case preConsumeQuota E q promptTokens (request_ratio E m (Model q)) m s of
                               ((pre, Some e), s) \<Rightarrow> ((Returned (Some e), id), s)
                             | ((pre, None), s) \<Rightarrow> (send_text_run P E m q reset pre, s))))))"

text \<open>The panics of the services: converting for four of them, answering for those that are modelled.\<close>

definition service_panics :: "services \<Rightarrow> config \<Rightarrow> bool \<Rightarrow> env \<Rightarrow> panics" where
  "service_panics S cfg given E =
     \<lparr>pn_convert = (\<lambda>a m q.
        (case a of
           AnthropicAdaptor \<Rightarrow> claude_ConvertRequest (sv_claude S) q = None
         | GeminiAdaptor \<Rightarrow> m_Mode m \<noteq> mode_Embeddings \<and> gemini_ConvertRequest (sv_gemini S) cfg given q = None
         | OllamaAdaptor \<Rightarrow> m_Mode m \<noteq> mode_Embeddings \<and> ollama_ConvertRequest (sv_ollama S) q = None
         | CohereAdaptor \<Rightarrow> cohere_ConvertRequest q = None
         | _ \<Rightarrow> False)),
      pn_answer = (\<lambda>a m r. a \<in> set modelled_services \<and>
        (case r of None \<Rightarrow> False | Some r \<Rightarrow> service_answer S E a m r = None))\<rparr>"


section \<open>Properties\<close>

text \<open>Without panics this is the relay.\<close>

theorem no_panic_same:
  assumes "\<And>a m q. \<not> pn_convert P a m q" "\<And>a m r. \<not> pn_answer P a m r"
  shows "RelayTextHelper_run P E rq g s = RelayTextHelper E rq g s"
proof -
  have same: "send_text_run P E = send_text E"
    using assms by (intro ext) (simp add: send_text_run_def split: option.split sum.split)
  show ?thesis unfolding RelayTextHelper_run_def RelayTextHelper_def same ..
qed

lemma RelayTextHelper_run_reads:
  assumes "reads_text E rq g m q reset n"
  shows "RelayTextHelper_run P E rq g s =
    (case take_estimate E (m_UserId m) (m_TokenId m) (estimate E m q) s of
       ((pre, Some e), s) \<Rightarrow> ((Returned (Some e), id), s)
     | ((pre, None), s) \<Rightarrow> (send_text_run P E m q reset pre, s))"
  using assms
  by (auto simp: reads_text_def RelayTextHelper_run_def preConsumeQuota_def estimate_def Let_def request_ratio_def
      split: option.splits sum.splits prod.splits)

lemma send_text_returns: "\<exists>r job. send_text E m q reset pre = (Returned r, job)"
  by (auto simp: send_text_def split: option.splits sum.splits)

lemma send_text_run_panicked: "send_text_run P E m q reset pre = (Panicked, job) \<Longrightarrow> job = id"
  using send_text_returns [of E m q reset pre]
  by (auto simp: send_text_run_def split: option.splits sum.splits if_splits)


text \<open>A tool whose parameters have no type is enough, on a channel of Anthropic.\<close>

lemma untyped_tool_run:
  assumes "reads_text E rq g m q reset n" and "GetAdaptor (m_APIType m) = Some AnthropicAdaptor"
    and "t \<in> set (Tools q)" "fn_Parameters (tl_Function t) = JObj ps" "field ''type'' ps = JNull"
    and "take_estimate E (g_id g) (g_token_id g) (estimate E m q) s = ((pre, None), s1)"
  shows "RelayTextHelper_run (service_panics S cfg given E) E rq g s = ((Panicked, id), s1)"
proof -
  have ids: "m_TokenId m = g_token_id g" "m_UserId m = g_id g" using reads_text_ids [OF assms(1)] by simp_all
  have "m_APIType m \<noteq> api_OpenAI" using assms(2) by (auto simp: GetAdaptor_def)
  then have "send_text_run (service_panics S cfg given E) E m q reset pre = (Panicked, id)"
    using assms(2) untyped_tool_panics [OF assms(3-5)] by (simp add: send_text_run_def converts_def service_panics_def)
  then show ?thesis unfolding RelayTextHelper_run_reads [OF assms(1)] ids by (simp add: assms(6))
qed

definition bad_tool :: Tool where
  "bad_tool = \<lparr>tl_Id = '''', tl_Type = ''function'', tl_Function = \<lparr>fn_Description = '''', fn_Name = ''f'',
     fn_Parameters = JObj [], fn_Arguments = JNull\<rparr>\<rparr>"

definition bad_request :: GeneralOpenAIRequest where
  "bad_request = lab_request\<lparr>Tools := [bad_tool]\<rparr>"

lemma bad_reads:
  "reads_text (shop_env ct bad_request svc) (shop_rq ''/v1/embeddings'') (shop_ctx ''/v1/embeddings'' ct)
     (shop_meta ''/v1/embeddings'' ct bad_request\<lparr>m_PromptTokens := 0\<rparr>) bad_request False 0"
  by (rule shop_reads)
    (simp_all add: ValidateTextRequest_def getPromptTokens_def GetByPath_def HasPrefix_def bad_request_def lab_request_def)


end
