(* ===== verification/Spec2Isabelle.thy ===== *)
theory Spec2Isabelle
  imports RateLimit QuotaLaws ChannelLaws UserLaws Retry SignIn Caches Routes Startup Services ChannelBilling Models Adaptors Panics Helpers
begin

text \<open>
  A verified model of the API gateway: a server that gives users API keys, relays their requests to
  upstream services through \<open>channels\<close>, and charges the tokens used to quota accounts.

  \<^bold>\<open>The program.\<close> A request for the relay passes \<open>TokenAuth\<close> (\<^verbatim>\<open>middleware/auth.go\<close>), which validates the key
  with \<^verbatim>\<open>model/token.go\<close> and the caches of \<^verbatim>\<open>model/cache.go\<close>, and \<open>Distribute\<close> (\<^verbatim>\<open>middleware/distributor.go\<close>),
  which chooses a channel from the abilities of \<^verbatim>\<open>model/ability.go\<close>. \<open>Relay\<close> (\<^verbatim>\<open>controller/relay.go\<close>) hands it to
  one of the relays of \<^verbatim>\<open>relay/controller\<close>, which estimate its cost with the prices of \<^verbatim>\<open>relay/billing/ratio\<close>,
  take the estimate from the account and the key, call the service through an adaptor, and settle the
  difference in a goroutine; a failed attempt is refunded, reported to \<^verbatim>\<open>monitor\<close> (which may disable the
  channel) and repeated on another channel. Users and administrators manage accounts, keys, codes and
  channels with the handlers of \<^verbatim>\<open>controller\<close>; \<open>authHelper\<close> guards them, the rate limiters of
  \<^verbatim>\<open>common/rate-limit.go\<close> limit them. The quota accounts are columns of three tables that are either updated
  directly or collected in memory by the batch updater (\<^verbatim>\<open>model/utils.go\<close>).

  \<^bold>\<open>How the code is modelled.\<close> A row of the database is a record, a table the list of its rows, and the whole
  state behind package \<^verbatim>\<open>model\<close> (tables, Redis, blacklist, stores of the batch updater) one record \<open>st\<close> that
  every operation takes and returns. Statements of the database and commands of Redis may fail, as scripts
  in the state say (\<open>db_faults\<close>, \<open>kv_faults\<close>); an error is a value of a sum or option type, a panic the value
  \<open>None\<close> or \<open>Panicked\<close>. A goroutine is a function on the state that is returned with the answer and run
  later by whoever composes the operations. A Go \<open>int\<close> is an \<open>int\<close> with \<open>wrap64\<close> at the additions and
  multiplications of Go; a \<open>float64\<close> is a rational number that every operation rounds to 53 bits (theory
  \<open>Float64\<close>). The clock, random numbers, decoded request bodies, JSON and the upstream services are
  parameters.

  \<^bold>\<open>Theories.\<close>
  \<^item> \<open>Prelude\<close>: strings of bytes, Go's string functions, 64-bit integers, lists as tables. \<open>Float64\<close>: binary64.
  \<^item> \<open>Config\<close>: \<^verbatim>\<open>common/config/config.go\<close>, \<^verbatim>\<open>common/env\<close>, every variable with its initial value.
  \<^item> \<open>RateLimit\<close>: both limiters; the locale \<open>sliding_window\<close> states what a limiter promises of any window and is
    interpreted on the in-memory limiter and on the one in Redis.
  \<^item> \<open>Store\<close>: rows, tables, faults, Redis, blacklist. \<open>Quota\<close>: the quota operations of \<^verbatim>\<open>model/user.go\<close>,
    \<^verbatim>\<open>token.go\<close>, \<^verbatim>\<open>channel.go\<close> and the batch updater; the locale \<open>counter_column\<close> is the contract of a column that
    is only added to, interpreted on the five columns. \<open>QuotaLaws\<close>: the batch updater refines direct updates,
    pre-consumption is sound and complete, settlement, conservation, and the bound on overdrafts by
    concurrent requests (an inductive step relation).
  \<^item> \<open>Logs\<close>, \<open>Network\<close>, \<open>Redeeming\<close>, \<open>Tokens\<close>, \<open>Users\<close>, \<open>Verification\<close>: \<^verbatim>\<open>model/log.go\<close>, \<^verbatim>\<open>common/network\<close>,
    \<^verbatim>\<open>model/redemption.go\<close>, \<^verbatim>\<open>model/token.go\<close>, \<^verbatim>\<open>model/user.go\<close>, \<^verbatim>\<open>common/verification.go\<close>, each with the handlers of
    \<^verbatim>\<open>controller\<close> that use it and its properties.
  \<^item> \<open>Sessions\<close>: the operations of signing in from an editor (\<^verbatim>\<open>model/vscode_auth_session.go\<close>,
    \<^verbatim>\<open>controller/vscode_auth.go\<close>, \<^verbatim>\<open>coder_auth.go\<close>) and the login of \<^verbatim>\<open>user.go\<close>. \<open>OAuth\<close>: \<^verbatim>\<open>controller/auth\<close>; the locale
    \<open>identity_provider\<close> is what \<^verbatim>\<open>model/user.go\<close> promises of an identity, interpreted on the three providers.
    \<open>SignIn\<close>: all ways of signing in as a step relation with reachable states and an invariant.
  \<^item> \<open>UserAdmin\<close>, \<open>UserLaws\<close>: the rest of \<^verbatim>\<open>controller/user.go\<close>; privileges, the root account, lost updates.
  \<^item> \<open>Channels\<close>, \<open>ChannelLaws\<close>: \<^verbatim>\<open>model/channel.go\<close>, \<^verbatim>\<open>ability.go\<close>, the channel cache, \<^verbatim>\<open>controller/channel.go\<close>; the
    abilities follow the channels, and both ways of choosing a channel are right.
  \<^item> \<open>Relaymodes\<close>, \<open>Ratios\<close>: kinds of channels and requests; the price tables, entry by entry.
  \<^item> \<open>Auth\<close>, \<open>Dispatch\<close>: the guards, the choice of the channel, the context of a request.
  \<^item> \<open>Requests\<close>, \<open>Relay\<close>, \<open>RelayLaws\<close>, \<open>Media\<close>: requests, token counts, the four relays, what they cost.
  \<^item> \<open>Caches\<close>: how old an answer of \<^verbatim>\<open>model/cache.go\<close> can be; the locale \<open>read_through\<close> is interpreted on the
    lookups of keys, groups and the enabled flag.
  \<^item> \<open>Monitor\<close>, \<open>Retry\<close>: disabling channels; the retries, and that a request that fails is free.
  \<^item> \<open>ChannelTests\<close>, \<open>ChannelBilling\<close>: \<^verbatim>\<open>controller/channel-test.go\<close>, \<^verbatim>\<open>channel-billing.go\<close>: testing channels and asking
    for their balances. The locale \<open>channel_round\<close> is a round over all channels in which the step of a channel only
    changes that channel; it is interpreted on the tests and on the balances.
  \<^item> \<open>Options\<close>, \<open>Routes\<close>, \<open>Startup\<close>: the options in the database and their variables (\<^verbatim>\<open>model/option.go\<close>), every route
    with its guards (\<^verbatim>\<open>router\<close>), and what the server does before it answers (\<^verbatim>\<open>main.go\<close>, \<^verbatim>\<open>model/main.go\<close>).
  \<^item> \<open>OpenAI\<close>, \<open>Claude\<close>, \<open>Gemini\<close>, \<open>Ollama\<close>, \<open>Cohere\<close>, \<open>Zhipu\<close>, \<open>Baidu\<close>, \<open>Ali\<close>, \<open>Tencent\<close>, \<open>Xunfei\<close>, \<open>Palm\<close>, \<open>DeepL\<close>,
    \<open>Cloudflare\<close>, \<open>Coze\<close>, \<open>AIProxy\<close>, \<open>Aws\<close>, \<open>VertexAI\<close>, \<open>Replicate\<close>, \<open>Passing\<close>: one theory per directory of
    \<^verbatim>\<open>relay/adaptor\<close>, with the requests that are sent, the answers that are translated (events of a stream as a fold over
    its lines), addresses, headers, kept tokens and the usage that is reported. \<open>OpenAI\<close> also holds what they share: the lines
    of a body, server-sent events, reading answers, sending requests. A stream is proved to be what a whole answer is
    (\<open>Claude\<close>), the same through Amazon (\<open>Aws\<close>), and to survive a second relay (\<open>OpenAI\<close>).
  \<^item> \<open>Services\<close>: the locale \<open>text_service\<close> is what the relay needs of an adaptor (an answered text request reports its
    usage). It is interpreted on all adaptors that keep it, and gives what their requests cost; Zhipu's streams do not
    keep it. \<open>Adaptors\<close>: the Go interface \<open>Adaptor\<close> as a choice between the services, where its requests go and what they
    tell of the caller. \<open>Panics\<close>: what becomes of the estimate when an adaptor panics.
  \<^item> \<open>ModelLists\<close>, \<open>Models\<close>: the models that every service lists, and \<^verbatim>\<open>controller/model.go\<close>, \<^verbatim>\<open>group.go\<close>.
  \<^item> \<open>Images\<close>, \<open>Helpers\<close>: \<^verbatim>\<open>common/image\<close>, and the small packages: random strings, the body that is read again,
    languages, mail, HTTP clients, the log.

  \<^bold>\<open>Bounds.\<close> No definition uses fuel: loops run over lists, over a number of remaining times or to a bound
  that the code computes (the twenty questions of \<open>Ali\<close>), and are recursions that end. The one loop of the code without a
  bound, the wait for a task in \<open>Replicate\<close>, is a \<open>partial_function\<close>; \<open>waiting_returns\<close> says when it ends. Theorems about
  sums state the 64-bit range they need (\<open>int64\<close>, \<open>in_range\<close>); theorems about prices hold for every table.

  \<^bold>\<open>Not modelled.\<close> The relays of images and sound take the adaptors as the record
  \<open>adaptor_ops\<close>, whose methods do not panic. JSON, HTTP, base64, hashes and signatures, the clients of Amazon and Google,
  the decoders of images and the encoders of tokens are parameters: they are libraries. The web pages and the markup of the
  mails, the connections of the database and its migrations, the flags of the command line, the headers for caches and
  origins and the place in the code that a line of the log names have no effect on what is proved. Isolation between
  concurrent transactions of the database is not modelled beyond the interleaving of single statements in \<open>QuotaLaws\<close>.
\<close>

end
